(* ===== verification/Go_Prelude.thy ===== *)
theory Go_Prelude
  imports Main "HOL-Library.AList"
begin

text \<open>
  Shared vocabulary of the development: the part of Go's \<open>strings\<close> package that the modelled
  code calls, the shape of a stateful converter (a function that takes the state and an input
  and returns the new state and the emitted values), and the lemma collections the component
  theories add to.

  Go's \<open>int\<close> is modelled by \<open>int\<close>, a Go string or byte slice by \<open>string\<close> (a list of bytes), a
  pointer that may be nil by \<open>option\<close>, a map by a partial function or, where the code takes its
  length or iterates over it, by an association list without duplicate keys.
\<close>

named_theorems converter_defs \<open>definitions of the handlers of a stream converter\<close>
named_theorems zero_defs \<open>definitions of the Go zero values of the model's records\<close>

section \<open>Strings\<close>

definition go_HasPrefix :: "string \<Rightarrow> string \<Rightarrow> bool" where
  "go_HasPrefix s p \<longleftrightarrow> take (length p) s = p"

definition go_CutPrefix :: "string \<Rightarrow> string \<Rightarrow> string option" where
  "go_CutPrefix s p = (if go_HasPrefix s p then Some (drop (length p) s) else None)"

text \<open>\<open>strings.Join(parts, sep)\<close>.\<close>

fun go_Join :: "string list \<Rightarrow> string \<Rightarrow> string" where
  "go_Join [] sep = []"
| "go_Join [x] sep = x"
| "go_Join (x # y # zs) sep = x @ sep @ go_Join (y # zs) sep"

text \<open>
  The UTF-8 encodings of the code points for which \<open>unicode.IsSpace\<close> holds; \<open>strings.TrimSpace\<close>
  removes them from both ends.
\<close>

definition space_runes :: "string list" where
  "space_runes =
     [[CHR 0x09], [CHR 0x0A], [CHR 0x0B], [CHR 0x0C], [CHR 0x0D], [CHR 0x20],
      [CHR 0xC2, CHR 0x85], [CHR 0xC2, CHR 0xA0], [CHR 0xE1, CHR 0x9A, CHR 0x80],
      [CHR 0xE2, CHR 0x80, CHR 0x80], [CHR 0xE2, CHR 0x80, CHR 0x81],
      [CHR 0xE2, CHR 0x80, CHR 0x82], [CHR 0xE2, CHR 0x80, CHR 0x83],
      [CHR 0xE2, CHR 0x80, CHR 0x84], [CHR 0xE2, CHR 0x80, CHR 0x85],
      [CHR 0xE2, CHR 0x80, CHR 0x86], [CHR 0xE2, CHR 0x80, CHR 0x87],
      [CHR 0xE2, CHR 0x80, CHR 0x88], [CHR 0xE2, CHR 0x80, CHR 0x89],
      [CHR 0xE2, CHR 0x80, CHR 0x8A], [CHR 0xE2, CHR 0x80, CHR 0xA8],
      [CHR 0xE2, CHR 0x80, CHR 0xA9], [CHR 0xE2, CHR 0x80, CHR 0xAF],
      [CHR 0xE2, CHR 0x81, CHR 0x9F], [CHR 0xE3, CHR 0x80, CHR 0x80]]"

text \<open>Length of the member of a list of non-empty words that starts a string, 0 if none does.\<close>

definition head_match :: "string list \<Rightarrow> string \<Rightarrow> nat" where
  "head_match ws s = (case find (\<lambda>w. w \<noteq> [] \<and> go_HasPrefix s w) ws of
     None \<Rightarrow> 0 | Some w \<Rightarrow> length w)"

lemma head_match_le: "head_match ws s \<le> length s"
proof (cases "find (\<lambda>w. w \<noteq> [] \<and> go_HasPrefix s w) ws")
  case None
  then show ?thesis by (simp add: head_match_def)
next
  case (Some w)
  then have "take (length w) s = w"
    by (auto simp: find_Some_iff go_HasPrefix_def)
  then have "length w \<le> length s"
    by (metis length_take min.cobounded1)
  with Some show ?thesis by (simp add: head_match_def)
qed

function trim_left_words :: "string list \<Rightarrow> string \<Rightarrow> string" where
  "trim_left_words ws s =
     (if head_match ws s = 0 then s else trim_left_words ws (drop (head_match ws s) s))"
  by pat_completeness auto
termination
proof (relation "measure (\<lambda>(ws, s). length s)")
  show "wf (measure (\<lambda>(ws, s). length s))" by simp
next
  fix ws :: "string list" and s :: string
  assume "head_match ws s \<noteq> 0"
  with head_match_le [of ws s] show "((ws, drop (head_match ws s) s), ws, s) \<in> measure (\<lambda>(ws, s). length s)"
    by auto
qed

declare trim_left_words.simps [simp del]

definition go_TrimSpace :: "string \<Rightarrow> string" where
  "go_TrimSpace s =
     rev (trim_left_words (map rev space_runes) (rev (trim_left_words space_runes s)))"

lemma trim_left_words_Nil [simp]: "trim_left_words ws [] = []"
  using head_match_le [of ws "[]"] by (simp add: trim_left_words.simps [of ws "[]"])

lemma go_TrimSpace_Nil [simp]: "go_TrimSpace [] = []"
  by (simp add: go_TrimSpace_def)

lemma go_HasPrefix_append [simp]: "go_HasPrefix (p @ s) p"
  by (simp add: go_HasPrefix_def)

lemma go_CutPrefix_append [simp]: "go_CutPrefix (p @ s) p = Some s"
  by (simp add: go_CutPrefix_def)

lemma go_CutPrefix_SomeD: "go_CutPrefix s p = Some r \<Longrightarrow> s = p @ r"
  by (auto simp: go_CutPrefix_def go_HasPrefix_def split: if_splits)
     (metis append_take_drop_id)

section \<open>Functions that emit values while they update a state\<close>

type_synonym ('s, 'o) emitter = "'s \<Rightarrow> 's \<times> 'o list"

text \<open>
  \<open>events = append(events, f(state)...); events = append(events, g(state)...)\<close>: run \<open>f\<close>, then
  \<open>g\<close> from the state \<open>f\<close> left, and append what they emitted.
\<close>

definition emit_seq :: "('s, 'o) emitter \<Rightarrow> ('s, 'o) emitter \<Rightarrow> ('s, 'o) emitter" where
  "emit_seq f g s = (let (s1, e1) = f s; (s2, e2) = g s1 in (s2, e1 @ e2))"

lemma fst_emit_seq [simp]: "fst (emit_seq f g s) = fst (g (fst (f s)))"
  by (simp add: emit_seq_def split_beta Let_def)

lemma snd_emit_seq [simp]: "snd (emit_seq f g s) = snd (f s) @ snd (g (fst (f s)))"
  by (simp add: emit_seq_def split_beta Let_def)

text \<open>A loop \<open>for _, x := range xs { events = append(events, step(state, x)...) }\<close>.\<close>

fun run_stream :: "('s \<Rightarrow> 'i \<Rightarrow> 's \<times> 'o list) \<Rightarrow> 's \<Rightarrow> 'i list \<Rightarrow> 's \<times> 'o list" where
  "run_stream step s [] = (s, [])"
| "run_stream step s (x # xs) =
     (let (s1, e1) = step s x; (s2, e2) = run_stream step s1 xs in (s2, e1 @ e2))"

lemma fst_run_stream_Cons [simp]:
  "fst (run_stream step s (x # xs)) = fst (run_stream step (fst (step s x)) xs)"
  by (simp add: split_beta Let_def)

lemma snd_run_stream_Cons [simp]:
  "snd (run_stream step s (x # xs)) = snd (step s x) @ snd (run_stream step (fst (step s x)) xs)"
  by (simp add: split_beta Let_def)

declare run_stream.simps(2) [simp del]

lemma fst_run_stream_append [simp]:
  "fst (run_stream step s (xs @ ys)) = fst (run_stream step (fst (run_stream step s xs)) ys)"
  by (induction xs arbitrary: s) simp_all

lemma snd_run_stream_append [simp]:
  "snd (run_stream step s (xs @ ys)) =
     snd (run_stream step s xs) @ snd (run_stream step (fst (run_stream step s xs)) ys)"
  by (induction xs arbitrary: s) simp_all

text \<open>An automaton over emitted values: \<open>None\<close> is a rejected word.\<close>

fun run_check :: "('g \<Rightarrow> 'o \<Rightarrow> 'g option) \<Rightarrow> 'g \<Rightarrow> 'o list \<Rightarrow> 'g option" where
  "run_check check g [] = Some g"
| "run_check check g (x # xs) = (case check g x of None \<Rightarrow> None | Some g' \<Rightarrow> run_check check g' xs)"

lemma run_check_append:
  "run_check check g (xs @ ys) =
     (case run_check check g xs of None \<Rightarrow> None | Some g' \<Rightarrow> run_check check g' ys)"
  by (induction xs arbitrary: g) (auto split: option.splits)

lemma run_check_append_Some [simp]:
  "run_check check g xs = Some g' \<Longrightarrow> run_check check g (xs @ ys) = run_check check g' ys"
  by (simp add: run_check_append)

lemma run_check_prefix_Some:
  "run_check check g (xs @ ys) = Some g'' \<Longrightarrow> \<exists>g'. run_check check g xs = Some g'"
  by (simp add: run_check_append split: option.splits)

abbreviation count_if :: "('o \<Rightarrow> bool) \<Rightarrow> 'o list \<Rightarrow> nat" where
  "count_if P xs \<equiv> length (filter P xs)"

abbreviation collect :: "('o \<Rightarrow> 't list) \<Rightarrow> 'o list \<Rightarrow> 't list" where
  "collect f xs \<equiv> concat (map f xs)"

section \<open>Association lists as Go maps\<close>

lemma length_AList_update:
  "length (AList.update k v m) = (if k \<in> fst ` set m then length m else Suc (length m))"
  by (induction m) auto

lemma distinct_keys_update: "distinct (map fst m) \<Longrightarrow> distinct (map fst (AList.update k v m))"
  by (rule distinct_update)

lemma if_chain10:
  assumes "c1 \<Longrightarrow> P a1"
    and "c2 \<Longrightarrow> P a2"
    and "c3 \<Longrightarrow> P a3"
    and "c4 \<Longrightarrow> P a4"
    and "c5 \<Longrightarrow> P a5"
    and "c6 \<Longrightarrow> P a6"
    and "c7 \<Longrightarrow> P a7"
    and "c8 \<Longrightarrow> P a8"
    and "c9 \<Longrightarrow> P a9"
    and "c10 \<Longrightarrow> P a10"
    and "\<not> c1 \<Longrightarrow> \<not> c2 \<Longrightarrow> \<not> c3 \<Longrightarrow> \<not> c4 \<Longrightarrow> \<not> c5 \<Longrightarrow>
      \<not> c6 \<Longrightarrow> \<not> c7 \<Longrightarrow> \<not> c8 \<Longrightarrow> \<not> c9 \<Longrightarrow> \<not> c10 \<Longrightarrow> P d"
  shows "P (if c1 then a1 else if c2 then a2 else if c3 then a3 else if c4 then a4 else if c5 then a5 else
      if c6 then a6 else if c7 then a7 else if c8 then a8 else if c9 then a9 else if c10 then a10 else d)"
  using assms by simp

lemma if_chain6:
  assumes "c1 \<Longrightarrow> P a1"
    and "c2 \<Longrightarrow> P a2"
    and "c3 \<Longrightarrow> P a3"
    and "c4 \<Longrightarrow> P a4"
    and "c5 \<Longrightarrow> P a5"
    and "c6 \<Longrightarrow> P a6"
    and "\<not> c1 \<Longrightarrow> \<not> c2 \<Longrightarrow> \<not> c3 \<Longrightarrow> \<not> c4 \<Longrightarrow> \<not> c5 \<Longrightarrow> \<not> c6 \<Longrightarrow> P d"
  shows "P (if c1 then a1 else if c2 then a2 else if c3 then a3 else if c4 then a4 else if c5 then a5 else if c6 then a6 else d)"
  using assms by simp

end
