(* ===== verification/Compat_Types.thy ===== *)
theory Compat_Types
  imports Go_Prelude
begin

text \<open>
  The structs of \<open>internal/pkg/apicompat/types.go\<close> that the stream converters and the
  non-streaming response converters read or write, field by field in the source's order, and
  their Go zero values. A \<open>json.RawMessage\<close> is the byte string it holds; the functions of
  \<open>encoding/json\<close> that the converters call are the fields of \<open>json_codec\<close>, an argument of the
  definitions that use them, so that every theorem holds for every codec.
\<close>

section \<open>Anthropic messages\<close>

record AnthropicImageSource =
  ais_Type :: string
  ais_MediaType :: string
  ais_Data :: string

record AnthropicCacheControl =
  acc_Type :: string
  acc_TTL :: string

record AnthropicContentBlock =
  acb_Type :: string
  acb_CacheControl :: "AnthropicCacheControl option"
  acb_Text :: string
  acb_Thinking :: string
  acb_Source :: "AnthropicImageSource option"
  acb_ID :: string
  acb_Name :: string
  acb_Input :: string
  acb_ToolUseID :: string
  acb_Content :: string
  acb_IsError :: bool

definition zero_acb :: AnthropicContentBlock where [zero_defs]:
  "zero_acb = \<lparr>acb_Type = [], acb_CacheControl = None, acb_Text = [], acb_Thinking = [],
     acb_Source = None, acb_ID = [], acb_Name = [], acb_Input = [], acb_ToolUseID = [],
     acb_Content = [], acb_IsError = False\<rparr>"

record AnthropicUsage =
  au_InputTokens :: int
  au_OutputTokens :: int
  au_CacheCreationInputTokens :: int
  au_CacheReadInputTokens :: int

definition zero_au :: AnthropicUsage where [zero_defs]:
  "zero_au = \<lparr>au_InputTokens = 0, au_OutputTokens = 0, au_CacheCreationInputTokens = 0,
     au_CacheReadInputTokens = 0\<rparr>"

record AnthropicResponse =
  ar_ID :: string
  ar_Type :: string
  ar_Role :: string
  ar_Content :: "AnthropicContentBlock list"
  ar_Model :: string
  ar_StopReason :: string
  ar_StopSequence :: "string option"
  ar_Usage :: AnthropicUsage

definition zero_ar :: AnthropicResponse where [zero_defs]:
  "zero_ar = \<lparr>ar_ID = [], ar_Type = [], ar_Role = [], ar_Content = [], ar_Model = [],
     ar_StopReason = [], ar_StopSequence = None, ar_Usage = zero_au\<rparr>"

record AnthropicDelta =
  ad_Type :: string
  ad_Text :: string
  ad_PartialJSON :: string
  ad_Thinking :: string
  ad_Signature :: string
  ad_StopReason :: string
  ad_StopSequence :: "string option"

definition zero_ad :: AnthropicDelta where [zero_defs]:
  "zero_ad = \<lparr>ad_Type = [], ad_Text = [], ad_PartialJSON = [], ad_Thinking = [],
     ad_Signature = [], ad_StopReason = [], ad_StopSequence = None\<rparr>"

record AnthropicStreamEvent =
  ase_Type :: string
  ase_Message :: "AnthropicResponse option"
  ase_Index :: "int option"
  ase_ContentBlock :: "AnthropicContentBlock option"
  ase_Delta :: "AnthropicDelta option"
  ase_Usage :: "AnthropicUsage option"

definition zero_ase :: AnthropicStreamEvent where [zero_defs]:
  "zero_ase = \<lparr>ase_Type = [], ase_Message = None, ase_Index = None, ase_ContentBlock = None,
     ase_Delta = None, ase_Usage = None\<rparr>"

section \<open>Responses API\<close>

record ResponsesContentPart =
  rcp_Type :: string
  rcp_Text :: string
  rcp_ImageURL :: string

definition zero_rcp :: ResponsesContentPart where [zero_defs]:
  "zero_rcp = \<lparr>rcp_Type = [], rcp_Text = [], rcp_ImageURL = []\<rparr>"

record ResponsesError =
  rer_Code :: string
  rer_Message :: string

record ResponsesIncompleteDetails =
  rid_Reason :: string

record WebSearchAction =
  wsa_Type :: string
  wsa_Query :: string

record ResponsesSummary =
  rsu_Type :: string
  rsu_Text :: string

record ResponsesOutput =
  ro_Type :: string
  ro_ID :: string
  ro_Role :: string
  ro_Content :: "ResponsesContentPart list"
  ro_Status :: string
  ro_EncryptedContent :: string
  ro_Summary :: "ResponsesSummary list"
  ro_CallID :: string
  ro_Name :: string
  ro_Arguments :: string
  ro_Action :: "WebSearchAction option"

definition zero_ro :: ResponsesOutput where [zero_defs]:
  "zero_ro = \<lparr>ro_Type = [], ro_ID = [], ro_Role = [], ro_Content = [], ro_Status = [],
     ro_EncryptedContent = [], ro_Summary = [], ro_CallID = [], ro_Name = [],
     ro_Arguments = [], ro_Action = None\<rparr>"

record ResponsesInputTokensDetails =
  itd_CachedTokens :: int
  itd_AudioTokens :: int

record ResponsesOutputTokensDetails =
  otd_ReasoningTokens :: int
  otd_AudioTokens :: int
  otd_AcceptedPredictionTokens :: int
  otd_RejectedPredictionTokens :: int

record ResponsesUsage =
  ru_InputTokens :: int
  ru_OutputTokens :: int
  ru_TotalTokens :: int
  ru_InputTokensDetails :: "ResponsesInputTokensDetails option"
  ru_OutputTokensDetails :: "ResponsesOutputTokensDetails option"

record ResponsesResponse =
  rr_ID :: string
  rr_Object :: string
  rr_Model :: string
  rr_Status :: string
  rr_Output :: "ResponsesOutput list"
  rr_Usage :: "ResponsesUsage option"
  rr_IncompleteDetails :: "ResponsesIncompleteDetails option"
  rr_Error :: "ResponsesError option"

definition zero_rr :: ResponsesResponse where [zero_defs]:
  "zero_rr = \<lparr>rr_ID = [], rr_Object = [], rr_Model = [], rr_Status = [], rr_Output = [],
     rr_Usage = None, rr_IncompleteDetails = None, rr_Error = None\<rparr>"

record ResponsesStreamEvent =
  rse_Type :: string
  rse_Response :: "ResponsesResponse option"
  rse_Usage :: "ResponsesUsage option"
  rse_Item :: "ResponsesOutput option"
  rse_OutputIndex :: int
  rse_ContentIndex :: int
  rse_Delta :: string
  rse_Text :: string
  rse_ItemID :: string
  rse_CallID :: string
  rse_Name :: string
  rse_Arguments :: string
  rse_SummaryIndex :: int
  rse_Part :: "ResponsesContentPart option"
  rse_Code :: string
  rse_Param :: string
  rse_SequenceNumber :: int

definition zero_rse :: ResponsesStreamEvent where [zero_defs]:
  "zero_rse = \<lparr>rse_Type = [], rse_Response = None, rse_Usage = None, rse_Item = None,
     rse_OutputIndex = 0, rse_ContentIndex = 0, rse_Delta = [], rse_Text = [], rse_ItemID = [],
     rse_CallID = [], rse_Name = [], rse_Arguments = [], rse_SummaryIndex = 0, rse_Part = None,
     rse_Code = [], rse_Param = [], rse_SequenceNumber = 0\<rparr>"

section \<open>Chat Completions\<close>

record ChatFunctionCall =
  cfc_Name :: string
  cfc_Arguments :: string

record ChatToolCall =
  ctc_Index :: "int option"
  ctc_ID :: string
  ctc_Type :: string
  ctc_Function :: ChatFunctionCall

record ChatMessage =
  cm_Role :: string
  cm_Content :: string
  cm_ReasoningContent :: string
  cm_Name :: string
  cm_ToolCalls :: "ChatToolCall list"
  cm_ToolCallID :: string
  cm_FunctionCall :: "ChatFunctionCall option"

definition zero_cm :: ChatMessage where [zero_defs]:
  "zero_cm = \<lparr>cm_Role = [], cm_Content = [], cm_ReasoningContent = [], cm_Name = [],
     cm_ToolCalls = [], cm_ToolCallID = [], cm_FunctionCall = None\<rparr>"

record ChatTokenDetails =
  ctd_CachedTokens :: int
  ctd_AudioTokens :: int
  ctd_ReasoningTokens :: int
  ctd_AcceptedPredictionTokens :: int
  ctd_RejectedPredictionTokens :: int

record ChatUsage =
  cu_PromptTokens :: int
  cu_CompletionTokens :: int
  cu_TotalTokens :: int
  cu_PromptTokensDetails :: "ChatTokenDetails option"
  cu_CompletionTokensDetails :: "ChatTokenDetails option"

record ChatChoice =
  cc_Index :: int
  cc_Message :: ChatMessage
  cc_FinishReason :: string

record ChatCompletionsResponse =
  ccr_ID :: string
  ccr_Object :: string
  ccr_Created :: int
  ccr_Model :: string
  ccr_Choices :: "ChatChoice list"
  ccr_Usage :: "ChatUsage option"
  ccr_SystemFingerprint :: string
  ccr_ServiceTier :: string

record ChatDelta =
  cd_Role :: string
  cd_Content :: "string option"
  cd_ReasoningContent :: "string option"
  cd_ToolCalls :: "ChatToolCall list"

definition zero_cd :: ChatDelta where [zero_defs]:
  "zero_cd = \<lparr>cd_Role = [], cd_Content = None, cd_ReasoningContent = None, cd_ToolCalls = []\<rparr>"

record ChatChunkChoice =
  cch_Index :: int
  cch_Delta :: ChatDelta
  cch_FinishReason :: "string option"

record ChatCompletionsChunk =
  chk_ID :: string
  chk_Object :: string
  chk_Created :: int
  chk_Model :: string
  chk_Choices :: "ChatChunkChoice list"
  chk_Usage :: "ChatUsage option"
  chk_SystemFingerprint :: string
  chk_ServiceTier :: string

section \<open>Requests\<close>

text \<open>A \<open>float64\<close> is handed on and never looked at: an uninterpreted type.\<close>

typedecl go_float64

record ChatImageURL =
  ciu_URL :: string
  ciu_Detail :: string

record ChatContentPart =
  ccp_Type :: string
  ccp_Text :: string
  ccp_ImageURL :: "ChatImageURL option"

definition zero_ccp :: ChatContentPart where [zero_defs]:
  "zero_ccp = \<lparr>ccp_Type = [], ccp_Text = [], ccp_ImageURL = None\<rparr>"

record ChatFunction =
  cfn_Name :: string
  cfn_Description :: string
  cfn_Parameters :: string
  cfn_Strict :: "bool option"

record ChatTool =
  ct_Type :: string
  ct_Function :: "ChatFunction option"

record ChatStreamOptions =
  cso_IncludeUsage :: bool

record ChatCompletionsRequest =
  cq_Model :: string
  cq_Messages :: "ChatMessage list"
  cq_Instructions :: string
  cq_MaxTokens :: "int option"
  cq_MaxCompletionTokens :: "int option"
  cq_Temperature :: "go_float64 option"
  cq_TopP :: "go_float64 option"
  cq_Stream :: bool
  cq_StreamOptions :: "ChatStreamOptions option"
  cq_Tools :: "ChatTool list"
  cq_ToolChoice :: string
  cq_ReasoningEffort :: string
  cq_ServiceTier :: string
  cq_Stop :: string
  cq_Functions :: "ChatFunction list"
  cq_FunctionCall :: string

definition zero_cq :: ChatCompletionsRequest where [zero_defs]:
  "zero_cq = \<lparr>cq_Model = [], cq_Messages = [], cq_Instructions = [], cq_MaxTokens = None,
     cq_MaxCompletionTokens = None, cq_Temperature = None, cq_TopP = None, cq_Stream = False,
     cq_StreamOptions = None, cq_Tools = [], cq_ToolChoice = [], cq_ReasoningEffort = [],
     cq_ServiceTier = [], cq_Stop = [], cq_Functions = [], cq_FunctionCall = []\<rparr>"

record ResponsesReasoning =
  rrg_Effort :: string
  rrg_Summary :: string

record ResponsesText =
  rtx_Verbosity :: string

record ResponsesTool =
  rt_Type :: string
  rt_Name :: string
  rt_Description :: string
  rt_Parameters :: string
  rt_Strict :: "bool option"

record ResponsesRequest =
  rq_Model :: string
  rq_Instructions :: string
  rq_Input :: string
  rq_MaxOutputTokens :: "int option"
  rq_Temperature :: "go_float64 option"
  rq_TopP :: "go_float64 option"
  rq_Stream :: bool
  rq_Tools :: "ResponsesTool list"
  rq_Include :: "string list"
  rq_Store :: "bool option"
  rq_ParallelToolCalls :: "bool option"
  rq_Reasoning :: "ResponsesReasoning option"
  rq_Text :: "ResponsesText option"
  rq_ToolChoice :: string
  rq_ServiceTier :: string
  rq_PromptCacheKey :: string
  rq_PreviousResponseID :: string

record ResponsesInputItem =
  rii_Type :: string
  rii_Role :: string
  rii_Content :: string
  rii_CallID :: string
  rii_Name :: string
  rii_Arguments :: string
  rii_ID :: string
  rii_Output :: string

definition zero_rii :: ResponsesInputItem where [zero_defs]:
  "zero_rii = \<lparr>rii_Type = [], rii_Role = [], rii_Content = [], rii_CallID = [], rii_Name = [],
     rii_Arguments = [], rii_ID = [], rii_Output = []\<rparr>"

section \<open>The JSON codec\<close>

text \<open>
  \<open>dec_string\<close>, \<open>dec_array\<close>, \<open>dec_object\<close>, \<open>dec_objects\<close> and \<open>dec_chat_parts\<close> are
  \<open>json.Unmarshal\<close> into a \<open>string\<close>, a \<open>[]json.RawMessage\<close>, a \<open>map[string]json.RawMessage\<close> (as
  an association list without duplicate keys), a slice of such maps and a \<open>[]ChatContentPart\<close>
  (\<open>None\<close> is the error return); \<open>enc_string\<close>, \<open>enc_object\<close> and \<open>enc_chat_parts\<close> are
  \<open>json.Marshal\<close> of a string, of such a map and of such a slice.
\<close>

record json_codec =
  dec_string :: "string \<Rightarrow> string option"
  dec_array :: "string \<Rightarrow> string list option"
  dec_object :: "string \<Rightarrow> (string \<times> string) list option"
  dec_objects :: "string \<Rightarrow> (string \<times> string) list list option"
  dec_chat_parts :: "string \<Rightarrow> ChatContentPart list option"
  enc_string :: "string \<Rightarrow> string"
  enc_object :: "(string \<times> string) list \<Rightarrow> string option"
  enc_chat_parts :: "ChatContentPart list \<Rightarrow> string option"

text \<open>
  A small codec for the examples: a document in double quotes is a string, every other document
  is looked up in a table of arrays and a table of objects.
\<close>

definition quoted :: "string \<Rightarrow> string" where
  "quoted s = CHR 0x22 # s @ [CHR 0x22]"

definition sample_codec :: "(string \<times> string list) list \<Rightarrow> (string \<times> (string \<times> string) list) list \<Rightarrow> json_codec" where
  "sample_codec arrays objects =
     \<lparr>dec_string = (\<lambda>s. if length s \<ge> 2 \<and> hd s = CHR 0x22 then Some (butlast (tl s)) else None),
      dec_array = map_of arrays, dec_object = map_of objects, dec_objects = (\<lambda>_. None),
      dec_chat_parts = (\<lambda>_. None), enc_string = quoted, enc_object = (\<lambda>_. None), enc_chat_parts = (\<lambda>_. None)\<rparr>"

definition json_empty_string :: string where
  "json_empty_string = [CHR 0x22, CHR 0x22]"

section \<open>Counting tokens\<close>

text \<open>
  \<open>anthropicUsageFromResponsesUsage\<close>: Responses counts cached tokens inside the input tokens,
  Anthropic counts them apart.
\<close>

definition anthropicUsageFromResponsesUsage :: "ResponsesUsage option \<Rightarrow> AnthropicUsage" where
  "anthropicUsageFromResponsesUsage usage =
     (case usage of
        None \<Rightarrow> zero_au
      | Some u \<Rightarrow>
          (let cachedTokens = (case ru_InputTokensDetails u of None \<Rightarrow> 0 | Some d \<Rightarrow> itd_CachedTokens d);
               inputTokens = ru_InputTokens u - cachedTokens;
               inputTokens = (if inputTokens < 0 then 0 else inputTokens)
           in zero_au\<lparr>au_InputTokens := inputTokens, au_OutputTokens := ru_OutputTokens u,
                au_CacheReadInputTokens := cachedTokens\<rparr>))"

text \<open>\<open>toResponsesCallID\<close> and \<open>fromResponsesCallID\<close> of \<open>anthropic_to_responses.go\<close>.\<close>

definition toResponsesCallID :: "string \<Rightarrow> string" where
  "toResponsesCallID callid = callid"

definition fromResponsesCallID :: "string \<Rightarrow> string" where
  "fromResponsesCallID callid =
     (case go_CutPrefix callid ''fc_'' of
        Some after \<Rightarrow>
          (if go_HasPrefix after ''toolu_'' \<or> go_HasPrefix after ''call_'' then after else callid)
      | None \<Rightarrow> callid)"

end
