(* ===== verification/Stream_Laws.thy ===== *)
theory Stream_Laws
  imports Go_Prelude
begin

text \<open>
  The contracts the stream converters share. A converter is a step function that takes its
  state and one upstream event and returns the new state and the downstream events.

  \<^item> \<open>checked_converter\<close>: what a step emits is accepted by an automaton whose state is a
    function of the converter's state, so what any run emits is accepted.
  \<^item> \<open>finalized_converter\<close>: the same for the finalizer that the caller runs when the upstream
    stream ends.
  \<^item> \<open>protocol_converter\<close>: as \<open>checked_converter\<close>, for upstream streams that keep a protocol of
    their own, given as an automaton over the inputs; every \<open>checked_converter\<close> is one, with the
    automaton that accepts everything.
  \<^item> \<open>latched_converter\<close>: a flag of the state says whether an event of a given kind has been
    emitted, which makes the event occur at most once in any run.
  \<^item> \<open>payload_converter\<close>: what a step emits carries exactly the payload of its input, so a
    run neither drops, repeats nor reorders payload.
\<close>

locale checked_converter =
  fixes step :: "'s \<Rightarrow> 'i \<Rightarrow> 's \<times> 'o list"
    and check :: "'g \<Rightarrow> 'o \<Rightarrow> 'g option"
    and view :: "'s \<Rightarrow> 'g"
    and ok :: "'s \<Rightarrow> bool"
  assumes step_ok: "ok s \<Longrightarrow> ok (fst (step s e))"
    and step_check: "ok s \<Longrightarrow> run_check check (view s) (snd (step s e)) = Some (view (fst (step s e)))"
begin

lemma run_ok: "ok s \<Longrightarrow> ok (fst (run_stream step s es))"
  by (induction es arbitrary: s) (simp_all add: step_ok)

lemma run_checked:
  "ok s \<Longrightarrow> run_check check (view s) (snd (run_stream step s es)) = Some (view (fst (run_stream step s es)))"
proof (induction es arbitrary: s)
  case Nil
  then show ?case by simp
next
  case (Cons e es)
  from Cons.prems have "ok (fst (step s e))" by (rule step_ok)
  with Cons.IH step_check [OF Cons.prems] show ?case by simp
qed

text \<open>Every prefix of what a run emits is accepted too: nothing is emitted out of turn.\<close>

lemma prefix_checked:
  assumes "ok s" and "snd (run_stream step s es) = xs @ ys"
  shows "\<exists>g. run_check check (view s) xs = Some g"
  using run_checked [OF assms(1), of es] assms(2) by (auto dest: run_check_prefix_Some)

end

locale finalized_converter = checked_converter step check view ok
  for step :: "'s \<Rightarrow> 'i \<Rightarrow> 's \<times> 'o list"
    and check :: "'g \<Rightarrow> 'o \<Rightarrow> 'g option"
    and view :: "'s \<Rightarrow> 'g"
    and ok :: "'s \<Rightarrow> bool" +
  fixes finish :: "'s \<Rightarrow> 's \<times> 'o list"
    and finished :: "'s \<Rightarrow> bool"
  assumes finish_check: "ok s \<Longrightarrow> run_check check (view s) (snd (finish s)) = Some (view (fst (finish s)))"
    and finish_finished: "finished s \<Longrightarrow> snd (finish s) = []"
begin

text \<open>The whole stream, the upstream events followed by the finalizer, is accepted.\<close>

lemma stream_checked:
  assumes "ok s"
  shows "run_check check (view s) (snd (run_stream step s es) @ snd (finish (fst (run_stream step s es)))) =
    Some (view (fst (finish (fst (run_stream step s es)))))"
  using run_checked [OF assms, of es] finish_check [OF run_ok [OF assms, of es]] by simp

lemma stream_finished:
  assumes "finished (fst (run_stream step s es))"
  shows "snd (run_stream step s es) @ snd (finish (fst (run_stream step s es))) = snd (run_stream step s es)"
  using finish_finished [OF assms] by simp

end

locale protocol_converter =
  fixes step :: "'s \<Rightarrow> 'i \<Rightarrow> 's \<times> 'o list"
    and in_check :: "'h \<Rightarrow> 'i \<Rightarrow> 'h option"
    and out_check :: "'g \<Rightarrow> 'o \<Rightarrow> 'g option"
    and rel :: "'h \<Rightarrow> 's \<Rightarrow> 'g \<Rightarrow> bool"
  assumes step_protocol: "rel h s g \<Longrightarrow> in_check h e = Some h' \<Longrightarrow>
    \<exists>g'. run_check out_check g (snd (step s e)) = Some g' \<and> rel h' (fst (step s e)) g'"
begin

lemma run_protocol:
  "rel h s g \<Longrightarrow> run_check in_check h es = Some h' \<Longrightarrow>
    \<exists>g'. run_check out_check g (snd (run_stream step s es)) = Some g' \<and> rel h' (fst (run_stream step s es)) g'"
proof (induction es arbitrary: h s g)
  case Nil
  then show ?case by simp
next
  case (Cons e es)
  then obtain h1 where h1: "in_check h e = Some h1" "run_check in_check h1 es = Some h'"
    by (auto split: option.splits)
  from step_protocol [OF Cons.prems(1) h1(1)] obtain g1 where
    "run_check out_check g (snd (step s e)) = Some g1" "rel h1 (fst (step s e)) g1" by blast
  with Cons.IH [OF _ h1(2)] show ?case by fastforce
qed

end

sublocale checked_converter \<subseteq> protocol_converter step "\<lambda>h _. Some h" check "\<lambda>_ s g. ok s \<and> g = view s"
  by unfold_locales (simp add: step_ok step_check)

locale latched_converter =
  fixes step :: "'s \<Rightarrow> 'i \<Rightarrow> 's \<times> 'o list"
    and latch :: "'s \<Rightarrow> bool"
    and marked :: "'o \<Rightarrow> bool"
  assumes step_latch:
    "count_if marked (snd (step s e)) + of_bool (latch s) = of_bool (latch (fst (step s e)))"
begin

lemma run_latch:
  "count_if marked (snd (run_stream step s es)) + of_bool (latch s) = of_bool (latch (fst (run_stream step s es)))"
proof (induction es arbitrary: s)
  case Nil
  then show ?case by simp
next
  case (Cons e es)
  have "count_if marked (snd (run_stream step s (e # es))) + of_bool (latch s) =
      count_if marked (snd (run_stream step (fst (step s e)) es)) + of_bool (latch (fst (step s e)))"
    using step_latch [of s e] by simp
  with Cons.IH [of "fst (step s e)"] show ?case by simp
qed

lemma run_at_most_once: "count_if marked (snd (run_stream step s es)) \<le> 1"
  using run_latch [of s es] by (cases "latch (fst (run_stream step s es))") auto

lemma run_latch_mono: "latch s \<Longrightarrow> latch (fst (run_stream step s es))"
  using run_latch [of s es] by (cases "latch (fst (run_stream step s es))") auto

lemma run_latched_count:
  "\<not> latch s \<Longrightarrow> count_if marked (snd (run_stream step s es)) = of_bool (latch (fst (run_stream step s es)))"
  using run_latch [of s es] by simp

lemma run_latched_none: "latch s \<Longrightarrow> count_if marked (snd (run_stream step s es)) = 0"
  using run_latch [of s es] run_latch_mono [of s es] by simp

end

locale payload_converter =
  fixes step :: "'s \<Rightarrow> 'i \<Rightarrow> 's \<times> 'o list"
    and taken :: "'i \<Rightarrow> 't list"
    and given :: "'o \<Rightarrow> 't list"
  assumes step_payload: "collect given (snd (step s e)) = taken e"
begin

lemma run_payload: "collect given (snd (run_stream step s es)) = collect taken es"
  by (induction es arbitrary: s) (simp_all add: step_payload)

end

end
