(* ===== verification/Responses_To_Anthropic.thy ===== *)
theory Responses_To_Anthropic
  imports Compat_Types Stream_Laws
begin

text \<open>
  \<open>responses_to_anthropic.go\<close>: the non-streaming translation of a Responses API response into
  an Anthropic message, and the stateful translation of a Responses event stream into
  Anthropic stream events. The state is the struct \<open>ResponsesEventToAnthropicState\<close>; each
  handler takes the event and the state and returns the new state and the emitted events.
\<close>

section \<open>Non-streaming response\<close>

definition containsAnthropicToolUseBlock :: "AnthropicContentBlock list \<Rightarrow> bool" where
  "containsAnthropicToolUseBlock blocks \<longleftrightarrow> list_ex (\<lambda>b. acb_Type b = ''tool_use'') blocks"

definition responsesStatusToAnthropicStopReason ::
  "string \<Rightarrow> ResponsesIncompleteDetails option \<Rightarrow> AnthropicContentBlock list \<Rightarrow> string" where
  "responsesStatusToAnthropicStopReason status details blocks =
     (if status = ''incomplete'' then
        (case details of
           Some d \<Rightarrow> (if rid_Reason d = ''max_output_tokens'' then ''max_tokens'' else ''end_turn'')
         | None \<Rightarrow> ''end_turn'')
      else if status = ''completed'' then
        (if containsAnthropicToolUseBlock blocks then ''tool_use'' else ''end_turn'')
      else ''end_turn'')"

definition sanitizeAnthropicToolUseInput :: "json_codec \<Rightarrow> string \<Rightarrow> string \<Rightarrow> string" where
  "sanitizeAnthropicToolUseInput J name raw =
     (if name \<noteq> ''Read'' \<or> raw = [] then raw
      else case dec_object J raw of
        None \<Rightarrow> raw
      | Some input \<Rightarrow>
          (case map_of input ''pages'' of
             None \<Rightarrow> raw
           | Some pages \<Rightarrow>
               (if pages \<noteq> json_empty_string then raw
                else case enc_object J (AList.delete ''pages'' input) of
                  None \<Rightarrow> raw
                | Some sanitized \<Rightarrow> sanitized)))"

text \<open>\<open>json.Marshal\<close> of \<open>map[string]string{"query": query}\<close> and of an empty array.\<close>

definition web_search_input :: "json_codec \<Rightarrow> string \<Rightarrow> string" where
  "web_search_input J query =
     (case enc_object J [(''query'', enc_string J query)] of None \<Rightarrow> [] | Some s \<Rightarrow> s)"

definition web_search_query :: "ResponsesOutput \<Rightarrow> string" where
  "web_search_query item = (case ro_Action item of None \<Rightarrow> [] | Some a \<Rightarrow> wsa_Query a)"

definition server_tool_use_block :: "json_codec \<Rightarrow> ResponsesOutput \<Rightarrow> AnthropicContentBlock" where
  "server_tool_use_block J item = zero_acb\<lparr>acb_Type := ''server_tool_use'',
     acb_ID := ''srvtoolu_'' @ ro_ID item, acb_Name := ''web_search'',
     acb_Input := web_search_input J (web_search_query item)\<rparr>"

definition web_search_result_block :: "ResponsesOutput \<Rightarrow> AnthropicContentBlock" where
  "web_search_result_block item = zero_acb\<lparr>acb_Type := ''web_search_tool_result'',
     acb_ToolUseID := ''srvtoolu_'' @ ro_ID item, acb_Content := ''[]''\<rparr>"

text \<open>The body of the loop over \<open>resp.Output\<close>: the blocks one output item contributes.\<close>

definition outputItemBlocks :: "json_codec \<Rightarrow> ResponsesOutput \<Rightarrow> AnthropicContentBlock list" where
  "outputItemBlocks J item =
     (if ro_Type item = ''reasoning'' then
        (let summaryText = concat (map rsu_Text
               (filter (\<lambda>s. rsu_Type s = ''summary_text'' \<and> rsu_Text s \<noteq> []) (ro_Summary item)))
         in if summaryText \<noteq> [] then [zero_acb\<lparr>acb_Type := ''thinking'', acb_Thinking := summaryText\<rparr>] else [])
      else if ro_Type item = ''message'' then
        map (\<lambda>part. zero_acb\<lparr>acb_Type := ''text'', acb_Text := rcp_Text part\<rparr>)
          (filter (\<lambda>part. rcp_Type part = ''output_text'' \<and> rcp_Text part \<noteq> []) (ro_Content item))
      else if ro_Type item = ''function_call'' then
        [zero_acb\<lparr>acb_Type := ''tool_use'', acb_ID := fromResponsesCallID (ro_CallID item),
           acb_Name := ro_Name item,
           acb_Input := sanitizeAnthropicToolUseInput J (ro_Name item) (ro_Arguments item)\<rparr>]
      else if ro_Type item = ''web_search_call'' then
        [server_tool_use_block J item, web_search_result_block item]
      else [])"

definition ResponsesToAnthropic :: "json_codec \<Rightarrow> ResponsesResponse \<Rightarrow> string \<Rightarrow> AnthropicResponse" where
  "ResponsesToAnthropic J resp model =
     (let blocks = concat (map (outputItemBlocks J) (rr_Output resp));
          blocks = (if blocks = [] then [zero_acb\<lparr>acb_Type := ''text'', acb_Text := []\<rparr>] else blocks);
          out = zero_ar\<lparr>ar_ID := rr_ID resp, ar_Type := ''message'', ar_Role := ''assistant'',
                  ar_Model := model, ar_Content := blocks,
                  ar_StopReason := responsesStatusToAnthropicStopReason (rr_Status resp)
                    (rr_IncompleteDetails resp) blocks\<rparr>
      in case rr_Usage resp of
           None \<Rightarrow> out
         | Some u \<Rightarrow> out\<lparr>ar_Usage := anthropicUsageFromResponsesUsage (Some u)\<rparr>)"

section \<open>Stream state\<close>

record ResponsesEventToAnthropicState =
  ra_MessageStartSent :: bool
  ra_MessageStopSent :: bool
  ra_ContentBlockIndex :: int
  ra_ContentBlockOpen :: bool
  ra_CurrentBlockType :: string
  ra_CurrentToolName :: string
  ra_CurrentToolArgs :: string
  ra_CurrentToolHadDelta :: bool
  ra_HasToolCall :: bool
  ra_OutputIndexToBlockIdx :: "int \<rightharpoonup> int"
  ra_InputTokens :: int
  ra_OutputTokens :: int
  ra_CacheReadInputTokens :: int
  ra_ResponseID :: string
  ra_Model :: string
  ra_Created :: int

type_synonym ra_state = ResponsesEventToAnthropicState
type_synonym ra_emitter = "ra_state \<Rightarrow> ra_state \<times> AnthropicStreamEvent list"

text \<open>\<open>time.Now().Unix()\<close> is the argument.\<close>

definition NewResponsesEventToAnthropicState :: "int \<Rightarrow> ra_state" where
  "NewResponsesEventToAnthropicState now =
     \<lparr>ra_MessageStartSent = False, ra_MessageStopSent = False, ra_ContentBlockIndex = 0,
      ra_ContentBlockOpen = False, ra_CurrentBlockType = [], ra_CurrentToolName = [],
      ra_CurrentToolArgs = [], ra_CurrentToolHadDelta = False, ra_HasToolCall = False,
      ra_OutputIndexToBlockIdx = Map.empty, ra_InputTokens = 0, ra_OutputTokens = 0,
      ra_CacheReadInputTokens = 0, ra_ResponseID = [], ra_Model = [], ra_Created = now\<rparr>"

section \<open>Events the handlers emit\<close>

definition block_start :: "int \<Rightarrow> AnthropicContentBlock \<Rightarrow> AnthropicStreamEvent" where
  "block_start idx b = zero_ase\<lparr>ase_Type := ''content_block_start'', ase_Index := Some idx,
     ase_ContentBlock := Some b\<rparr>"

definition block_delta :: "int \<Rightarrow> AnthropicDelta \<Rightarrow> AnthropicStreamEvent" where
  "block_delta idx d = zero_ase\<lparr>ase_Type := ''content_block_delta'', ase_Index := Some idx,
     ase_Delta := Some d\<rparr>"

definition block_stop :: "int \<Rightarrow> AnthropicStreamEvent" where
  "block_stop idx = zero_ase\<lparr>ase_Type := ''content_block_stop'', ase_Index := Some idx\<rparr>"

definition text_delta :: "string \<Rightarrow> AnthropicDelta" where
  "text_delta t = zero_ad\<lparr>ad_Type := ''text_delta'', ad_Text := t\<rparr>"

definition json_delta :: "string \<Rightarrow> AnthropicDelta" where
  "json_delta t = zero_ad\<lparr>ad_Type := ''input_json_delta'', ad_PartialJSON := t\<rparr>"

definition thinking_delta :: "string \<Rightarrow> AnthropicDelta" where
  "thinking_delta t = zero_ad\<lparr>ad_Type := ''thinking_delta'', ad_Thinking := t\<rparr>"

text \<open>The two closing events, \<open>message_delta\<close> with the stop reason and usage, and \<open>message_stop\<close>.\<close>

definition closing_events :: "string \<Rightarrow> ra_state \<Rightarrow> AnthropicStreamEvent list" where
  "closing_events stopReason s =
     [zero_ase\<lparr>ase_Type := ''message_delta'',
        ase_Delta := Some (zero_ad\<lparr>ad_StopReason := stopReason\<rparr>),
        ase_Usage := Some (zero_au\<lparr>au_InputTokens := ra_InputTokens s,
          au_OutputTokens := ra_OutputTokens s,
          au_CacheReadInputTokens := ra_CacheReadInputTokens s\<rparr>)\<rparr>,
      zero_ase\<lparr>ase_Type := ''message_stop''\<rparr>]"

lemmas ra_event_defs = block_start_def block_delta_def block_stop_def text_delta_def
  json_delta_def thinking_delta_def closing_events_def

section \<open>Handlers\<close>

definition closeCurrentBlock :: ra_emitter where
  "closeCurrentBlock s =
     (if \<not> ra_ContentBlockOpen s then (s, [])
      else (s\<lparr>ra_ContentBlockOpen := False, ra_ContentBlockIndex := ra_ContentBlockIndex s + 1,
              ra_CurrentToolName := [], ra_CurrentToolArgs := [], ra_CurrentToolHadDelta := False\<rparr>,
            [block_stop (ra_ContentBlockIndex s)]))"

definition resToAnthHandleCreated :: "ResponsesStreamEvent \<Rightarrow> ra_emitter" where
  "resToAnthHandleCreated evt s =
     (let s = (case rse_Response evt of
                 None \<Rightarrow> s
               | Some r \<Rightarrow>
                   (let s = s\<lparr>ra_ResponseID := rr_ID r\<rparr>
                    in if ra_Model s = [] then s\<lparr>ra_Model := rr_Model r\<rparr> else s))
      in if ra_MessageStartSent s then (s, [])
         else (s\<lparr>ra_MessageStartSent := True\<rparr>,
               [zero_ase\<lparr>ase_Type := ''message_start'',
                  ase_Message := Some (zero_ar\<lparr>ar_ID := ra_ResponseID s, ar_Type := ''message'',
                    ar_Role := ''assistant'', ar_Content := [], ar_Model := ra_Model s\<rparr>)\<rparr>]))"

text \<open>The two item kinds that open a block: tool calls and reasoning.\<close>

definition open_tool_block :: "ResponsesStreamEvent \<Rightarrow> ResponsesOutput \<Rightarrow> ra_emitter" where
  "open_tool_block evt item s =
     (let idx = ra_ContentBlockIndex s
      in (s\<lparr>ra_OutputIndexToBlockIdx := (ra_OutputIndexToBlockIdx s)(rse_OutputIndex evt \<mapsto> idx),
            ra_ContentBlockOpen := True, ra_CurrentBlockType := ''tool_use'',
            ra_CurrentToolName := ro_Name item, ra_CurrentToolArgs := [],
            ra_CurrentToolHadDelta := False, ra_HasToolCall := True\<rparr>,
          [block_start idx (zero_acb\<lparr>acb_Type := ''tool_use'',
             acb_ID := fromResponsesCallID (ro_CallID item), acb_Name := ro_Name item,
             acb_Input := ''{}''\<rparr>)]))"

definition open_thinking_block :: "ResponsesStreamEvent \<Rightarrow> ra_emitter" where
  "open_thinking_block evt s =
     (let idx = ra_ContentBlockIndex s
      in (s\<lparr>ra_OutputIndexToBlockIdx := (ra_OutputIndexToBlockIdx s)(rse_OutputIndex evt \<mapsto> idx),
            ra_ContentBlockOpen := True, ra_CurrentBlockType := ''thinking''\<rparr>,
          [block_start idx (zero_acb\<lparr>acb_Type := ''thinking'', acb_Thinking := []\<rparr>)]))"

definition resToAnthHandleOutputItemAdded :: "ResponsesStreamEvent \<Rightarrow> ra_emitter" where
  "resToAnthHandleOutputItemAdded evt s =
     (case rse_Item evt of
        None \<Rightarrow> (s, [])
      | Some item \<Rightarrow>
          (if ro_Type item = ''function_call'' \<or> ro_Type item = ''custom_tool_call'' then
             emit_seq closeCurrentBlock (open_tool_block evt item) s
           else if ro_Type item = ''reasoning'' then
             emit_seq closeCurrentBlock (open_thinking_block evt) s
           else (s, [])))"

definition open_text_block :: ra_emitter where
  "open_text_block s =
     (s\<lparr>ra_ContentBlockOpen := True, ra_CurrentBlockType := ''text''\<rparr>,
      [block_start (ra_ContentBlockIndex s) (zero_acb\<lparr>acb_Type := ''text'', acb_Text := []\<rparr>)])"

definition resToAnthHandleTextDelta :: "ResponsesStreamEvent \<Rightarrow> ra_emitter" where
  "resToAnthHandleTextDelta evt s =
     (if rse_Delta evt = [] then (s, [])
      else emit_seq
        (\<lambda>s. if \<not> ra_ContentBlockOpen s \<or> ra_CurrentBlockType s \<noteq> ''text''
             then emit_seq closeCurrentBlock open_text_block s else (s, []))
        (\<lambda>s. (s, [block_delta (ra_ContentBlockIndex s) (text_delta (rse_Delta evt))])) s)"

definition resToAnthHandleFuncArgsDelta :: "ResponsesStreamEvent \<Rightarrow> ra_emitter" where
  "resToAnthHandleFuncArgsDelta evt s =
     (if rse_Delta evt = [] then (s, [])
      else if ra_CurrentBlockType s = ''tool_use'' \<and> ra_CurrentToolName s = ''Read'' then
        (s\<lparr>ra_CurrentToolArgs := ra_CurrentToolArgs s @ rse_Delta evt\<rparr>, [])
      else
        (let s = (if ra_CurrentBlockType s = ''tool_use'' then s\<lparr>ra_CurrentToolHadDelta := True\<rparr> else s)
         in case ra_OutputIndexToBlockIdx s (rse_OutputIndex evt) of
              None \<Rightarrow> (s, [])
            | Some blockIdx \<Rightarrow> (s, [block_delta blockIdx (json_delta (rse_Delta evt))])))"

definition resToAnthHandleBlockDone :: ra_emitter where
  "resToAnthHandleBlockDone s =
     (if \<not> ra_ContentBlockOpen s then (s, []) else closeCurrentBlock s)"

definition resToAnthHandleFuncArgsDone :: "json_codec \<Rightarrow> ResponsesStreamEvent \<Rightarrow> ra_emitter" where
  "resToAnthHandleFuncArgsDone J evt s =
     (if ra_CurrentBlockType s \<noteq> ''tool_use'' then resToAnthHandleBlockDone s
      else
        (let raw = (if rse_Arguments evt = [] then ra_CurrentToolArgs s else rse_Arguments evt)
         in if raw = [] \<or> ra_CurrentToolHadDelta s then closeCurrentBlock s
            else
              (let sanitized = (if ra_CurrentToolName s = ''Read''
                     then sanitizeAnthropicToolUseInput J (ra_CurrentToolName s) raw else raw)
               in if ra_CurrentToolName s = ''Read'' \<and> sanitized = [] then closeCurrentBlock s
                  else emit_seq
                    (\<lambda>s. (s, [block_delta (ra_ContentBlockIndex s) (json_delta sanitized)]))
                    closeCurrentBlock s)))"

definition resToAnthHandleReasoningDelta :: "ResponsesStreamEvent \<Rightarrow> ra_emitter" where
  "resToAnthHandleReasoningDelta evt s =
     (if rse_Delta evt = [] then (s, [])
      else case ra_OutputIndexToBlockIdx s (rse_OutputIndex evt) of
             None \<Rightarrow> (s, [])
           | Some blockIdx \<Rightarrow> (s, [block_delta blockIdx (thinking_delta (rse_Delta evt))]))"

text \<open>One complete block: start, stop, next index.\<close>

definition emit_whole_block :: "AnthropicContentBlock \<Rightarrow> ra_emitter" where
  "emit_whole_block b s =
     (s\<lparr>ra_ContentBlockIndex := ra_ContentBlockIndex s + 1\<rparr>,
      [block_start (ra_ContentBlockIndex s) b, block_stop (ra_ContentBlockIndex s)])"

definition resToAnthHandleWebSearchDone :: "json_codec \<Rightarrow> ResponsesOutput \<Rightarrow> ra_emitter" where
  "resToAnthHandleWebSearchDone J item =
     emit_seq closeCurrentBlock
       (emit_seq (emit_whole_block (server_tool_use_block J item))
          (emit_whole_block (web_search_result_block item)))"

definition resToAnthHandleOutputItemDone :: "json_codec \<Rightarrow> ResponsesStreamEvent \<Rightarrow> ra_emitter" where
  "resToAnthHandleOutputItemDone J evt s =
     (case rse_Item evt of
        None \<Rightarrow> (s, [])
      | Some item \<Rightarrow>
          (if ro_Type item = ''web_search_call'' \<and> ro_Status item = ''completed'' then
             resToAnthHandleWebSearchDone J item s
           else if ra_ContentBlockOpen s then closeCurrentBlock s
           else (s, [])))"

definition record_usage :: "ResponsesUsage option \<Rightarrow> ra_state \<Rightarrow> ra_state" where
  "record_usage usage s =
     (case usage of
        None \<Rightarrow> s
      | Some u \<Rightarrow>
          (let a = anthropicUsageFromResponsesUsage (Some u)
           in s\<lparr>ra_InputTokens := au_InputTokens a, ra_OutputTokens := au_OutputTokens a,
                ra_CacheReadInputTokens := au_CacheReadInputTokens a\<rparr>))"

text \<open>The \<open>switch evt.Response.Status\<close> of \<open>resToAnthHandleCompleted\<close>.\<close>

definition completed_stop_reason :: "ResponsesStreamEvent \<Rightarrow> ra_state \<Rightarrow> string" where
  "completed_stop_reason evt s =
     (case rse_Response evt of
        None \<Rightarrow> ''end_turn''
      | Some r \<Rightarrow>
          (if rr_Status r = ''incomplete'' then
             (case rr_IncompleteDetails r of
                Some d \<Rightarrow> (if rid_Reason d = ''max_output_tokens'' then ''max_tokens'' else ''end_turn'')
              | None \<Rightarrow> ''end_turn'')
           else if rr_Status r = ''completed'' then
             (if ra_HasToolCall s then ''tool_use'' else ''end_turn'')
           else ''end_turn''))"

definition resToAnthHandleCompleted :: "ResponsesStreamEvent \<Rightarrow> ra_emitter" where
  "resToAnthHandleCompleted evt s =
     (if ra_MessageStopSent s then (s, [])
      else emit_seq closeCurrentBlock
        (\<lambda>s. let s = record_usage (rse_Usage evt) s;
                 s = (case rse_Response evt of None \<Rightarrow> s | Some r \<Rightarrow> record_usage (rr_Usage r) s)
             in (s\<lparr>ra_MessageStopSent := True\<rparr>, closing_events (completed_stop_reason evt s) s)) s)"

text \<open>\<open>FinalizeResponsesAnthropicStream\<close>: synthetic termination when the upstream just ended.\<close>

definition FinalizeResponsesAnthropicStream :: ra_emitter where
  "FinalizeResponsesAnthropicStream s =
     (if \<not> ra_MessageStartSent s \<or> ra_MessageStopSent s then (s, [])
      else emit_seq closeCurrentBlock
        (\<lambda>s. (s\<lparr>ra_MessageStopSent := True\<rparr>,
              closing_events (if ra_HasToolCall s then ''tool_use'' else ''end_turn'') s)) s)"

text \<open>\<open>ResponsesEventToAnthropicEvents\<close>, the dispatch on the event type.\<close>

definition ResponsesEventToAnthropicEvents ::
  "json_codec \<Rightarrow> ra_state \<Rightarrow> ResponsesStreamEvent \<Rightarrow> ra_state \<times> AnthropicStreamEvent list" where
  "ResponsesEventToAnthropicEvents J s evt =
     (let t = rse_Type evt in
      if t = ''response.created'' then resToAnthHandleCreated evt s
      else if t = ''response.output_item.added'' then resToAnthHandleOutputItemAdded evt s
      else if t = ''response.output_text.delta'' then resToAnthHandleTextDelta evt s
      else if t = ''response.output_text.done'' then resToAnthHandleBlockDone s
      else if t = ''response.function_call_arguments.delta''
           \<or> t = ''response.custom_tool_call_input.delta'' then resToAnthHandleFuncArgsDelta evt s
      else if t = ''response.function_call_arguments.done'' then resToAnthHandleFuncArgsDone J evt s
      else if t = ''response.output_item.done'' then resToAnthHandleOutputItemDone J evt s
      else if t = ''response.reasoning_summary_text.delta''
           \<or> t = ''response.reasoning_text.delta'' then resToAnthHandleReasoningDelta evt s
      else if t = ''response.reasoning_summary_text.done'' then resToAnthHandleBlockDone s
      else if t = ''response.completed'' \<or> t = ''response.done'' \<or> t = ''response.incomplete''
           \<or> t = ''response.failed'' then resToAnthHandleCompleted evt s
      else (s, []))"

text \<open>The terminal events of an upstream Responses stream.\<close>

definition is_terminal :: "ResponsesStreamEvent \<Rightarrow> bool" where
  "is_terminal e \<longleftrightarrow> rse_Type e = ''response.completed'' \<or> rse_Type e = ''response.done'' \<or>
     rse_Type e = ''response.incomplete'' \<or> rse_Type e = ''response.failed''"

section \<open>Block discipline\<close>

text \<open>
  What a client of the Anthropic protocol expects of the blocks of a stream. The automaton's
  state is the index the next block boundary must carry and the type of the open block, if any:
  a block starts only when none is open and carries the next index; it stops with the index it
  started with; a text delta falls inside an open text block and carries its index; the message
  is closed only when no block is open.
\<close>

definition anth_block_check ::
  "int \<times> string option \<Rightarrow> AnthropicStreamEvent \<Rightarrow> (int \<times> string option) option" where
  "anth_block_check g e =
     (let nxt = fst g; opened = snd g in
      if ase_Type e = ''content_block_start'' then
        (case ase_ContentBlock e of
           None \<Rightarrow> None
         | Some b \<Rightarrow> if opened = None \<and> ase_Index e = Some nxt then Some (nxt, Some (acb_Type b)) else None)
      else if ase_Type e = ''content_block_stop'' then
        (if opened \<noteq> None \<and> ase_Index e = Some nxt then Some (nxt + 1, None) else None)
      else if ase_Type e = ''content_block_delta'' \<and> map_option ad_Type (ase_Delta e) = Some ''text_delta'' then
        (if opened = Some ''text'' \<and> ase_Index e = Some nxt then Some g else None)
      else if ase_Type e = ''message_delta'' \<or> ase_Type e = ''message_stop'' then
        (if opened = None then Some g else None)
      else Some g)"

definition ra_view :: "ra_state \<Rightarrow> int \<times> string option" where
  "ra_view s = (ra_ContentBlockIndex s,
     if ra_ContentBlockOpen s then Some (ra_CurrentBlockType s) else None)"

lemma check_block_start [simp]:
  "anth_block_check (n, op) (block_start i b) =
     (if op = None \<and> i = n then Some (n, Some (acb_Type b)) else None)"
  by (simp add: anth_block_check_def block_start_def zero_defs)

lemma check_block_stop [simp]:
  "anth_block_check (n, op) (block_stop i) = (if op \<noteq> None \<and> i = n then Some (n + 1, None) else None)"
  by (simp add: anth_block_check_def block_stop_def zero_defs)

lemma check_text_delta [simp]:
  "anth_block_check (n, op) (block_delta i (text_delta t)) =
     (if op = Some ''text'' \<and> i = n then Some (n, op) else None)"
  by (simp add: anth_block_check_def block_delta_def text_delta_def zero_defs)

lemma check_json_delta [simp]: "anth_block_check g (block_delta i (json_delta t)) = Some g"
  by (simp add: anth_block_check_def block_delta_def json_delta_def zero_defs)

lemma check_thinking_delta [simp]: "anth_block_check g (block_delta i (thinking_delta t)) = Some g"
  by (simp add: anth_block_check_def block_delta_def thinking_delta_def zero_defs)

lemma check_closing_events [simp]:
  "run_check anth_block_check (n, op) (closing_events r s) = (if op = None then Some (n, op) else None)"
  by (simp add: anth_block_check_def closing_events_def zero_defs)

lemma zero_acb_Type [simp]: "acb_Type (zero_acb\<lparr>acb_Type := t\<rparr>) = t"
  by simp

text \<open>Case analysis on the dispatch: one case per handler.\<close>

lemma ra_dispatch:
  assumes "rse_Type e = ''response.created'' \<Longrightarrow> P (resToAnthHandleCreated e s)"
    and "rse_Type e = ''response.output_item.added'' \<Longrightarrow> P (resToAnthHandleOutputItemAdded e s)"
    and "rse_Type e = ''response.output_text.delta'' \<Longrightarrow> P (resToAnthHandleTextDelta e s)"
    and "rse_Type e = ''response.output_text.done'' \<or> rse_Type e = ''response.reasoning_summary_text.done'' \<Longrightarrow>
      P (resToAnthHandleBlockDone s)"
    and "rse_Type e = ''response.function_call_arguments.delta'' \<or> rse_Type e = ''response.custom_tool_call_input.delta'' \<Longrightarrow>
      P (resToAnthHandleFuncArgsDelta e s)"
    and "rse_Type e = ''response.function_call_arguments.done'' \<Longrightarrow> P (resToAnthHandleFuncArgsDone J e s)"
    and "rse_Type e = ''response.output_item.done'' \<Longrightarrow> P (resToAnthHandleOutputItemDone J e s)"
    and "rse_Type e = ''response.reasoning_summary_text.delta'' \<or> rse_Type e = ''response.reasoning_text.delta'' \<Longrightarrow>
      P (resToAnthHandleReasoningDelta e s)"
    and "is_terminal e \<Longrightarrow> P (resToAnthHandleCompleted e s)"
    and "rse_Type e \<noteq> ''response.output_text.delta'' \<Longrightarrow> \<not> is_terminal e \<Longrightarrow> P (s, [])"
  shows "P (ResponsesEventToAnthropicEvents J s e)"
  unfolding ResponsesEventToAnthropicEvents_def Let_def
  by (rule if_chain10 [where P = P];
      (rule assms; (unfold is_terminal_def)?; (assumption | (rule disjI1, assumption) | (rule disjI2, assumption))))

text \<open>Each handler keeps the automaton in step with the state.\<close>

abbreviation ra_sound :: "ra_emitter \<Rightarrow> bool" where
  "ra_sound h \<equiv> \<forall>s. run_check anth_block_check (ra_view s) (snd (h s)) = Some (ra_view (fst (h s)))"

lemma ra_sound_seq: "ra_sound f \<Longrightarrow> ra_sound g \<Longrightarrow> ra_sound (emit_seq f g)"
  by simp

lemma close_sound: "ra_sound closeCurrentBlock"
  by (simp add: closeCurrentBlock_def ra_view_def)

lemma close_closed [simp]: "\<not> ra_ContentBlockOpen (fst (closeCurrentBlock s))"
  by (simp add: closeCurrentBlock_def)

lemma close_open_sound:
  assumes "\<And>s. \<not> ra_ContentBlockOpen s \<Longrightarrow>
    run_check anth_block_check (ra_view s) (snd (g s)) = Some (ra_view (fst (g s)))"
  shows "ra_sound (emit_seq closeCurrentBlock g)"
  using close_sound assms by (simp add: close_closed)

lemma created_sound: "ra_sound (resToAnthHandleCreated e)"
  by (auto simp: resToAnthHandleCreated_def ra_view_def anth_block_check_def zero_defs Let_def
      split: option.splits)

lemma added_sound: "ra_sound (resToAnthHandleOutputItemAdded e)"
proof -
  have "ra_sound (emit_seq closeCurrentBlock (open_tool_block e i))" for i
    by (rule close_open_sound) (simp add: open_tool_block_def ra_view_def Let_def zero_defs)
  moreover have "ra_sound (emit_seq closeCurrentBlock (open_thinking_block e))"
    by (rule close_open_sound) (simp add: open_thinking_block_def ra_view_def Let_def zero_defs)
  ultimately show ?thesis
    by (simp add: resToAnthHandleOutputItemAdded_def split: option.splits)
qed

lemma text_sound: "ra_sound (resToAnthHandleTextDelta e)"
  by (simp add: resToAnthHandleTextDelta_def closeCurrentBlock_def open_text_block_def ra_view_def
      zero_defs)

lemma args_delta_sound: "ra_sound (resToAnthHandleFuncArgsDelta e)"
  by (auto simp: resToAnthHandleFuncArgsDelta_def ra_view_def Let_def split: option.splits)

lemma block_done_sound: "ra_sound resToAnthHandleBlockDone"
  using close_sound by (simp add: resToAnthHandleBlockDone_def)

lemma args_done_cases:
  "resToAnthHandleFuncArgsDone J e s = resToAnthHandleBlockDone s \<or>
   resToAnthHandleFuncArgsDone J e s = closeCurrentBlock s \<or>
   (\<exists>raw. resToAnthHandleFuncArgsDone J e s =
      emit_seq (\<lambda>s. (s, [block_delta (ra_ContentBlockIndex s) (json_delta raw)])) closeCurrentBlock s)"
  unfolding resToAnthHandleFuncArgsDone_def Let_def by (simp split: if_split) blast

lemma args_done_sound: "ra_sound (resToAnthHandleFuncArgsDone J e)"
proof
  fix s
  show "run_check anth_block_check (ra_view s) (snd (resToAnthHandleFuncArgsDone J e s)) =
    Some (ra_view (fst (resToAnthHandleFuncArgsDone J e s)))"
    using args_done_cases [of J e s] close_sound block_done_sound by auto
qed

lemma reasoning_sound: "ra_sound (resToAnthHandleReasoningDelta e)"
  by (auto simp: resToAnthHandleReasoningDelta_def split: option.splits)

lemma web_search_sound: "ra_sound (resToAnthHandleWebSearchDone J i)"
  unfolding resToAnthHandleWebSearchDone_def
  by (rule close_open_sound) (simp add: emit_whole_block_def ra_view_def)

lemma item_done_sound: "ra_sound (resToAnthHandleOutputItemDone J e)"
  using close_sound web_search_sound
  by (simp add: resToAnthHandleOutputItemDone_def split: option.splits)

lemma record_usage_view [simp]: "ra_view (record_usage u s) = ra_view s"
  by (simp add: record_usage_def ra_view_def Let_def split: option.splits)

lemma ra_view_stop_sent [simp]: "ra_view (s\<lparr>ra_MessageStopSent := b\<rparr>) = ra_view s"
  by (simp add: ra_view_def)

lemma ra_view_closed: "\<not> ra_ContentBlockOpen s \<Longrightarrow> ra_view s = (ra_ContentBlockIndex s, None)"
  by (simp add: ra_view_def)

lemma completed_sound: "ra_sound (resToAnthHandleCompleted e)"
proof -
  have "ra_sound (emit_seq closeCurrentBlock
        (\<lambda>s. let s = record_usage (rse_Usage e) s;
                 s = (case rse_Response e of None \<Rightarrow> s | Some r \<Rightarrow> record_usage (rr_Usage r) s)
             in (s\<lparr>ra_MessageStopSent := True\<rparr>, closing_events (completed_stop_reason e s) s)))"
    by (rule close_open_sound) (simp add: ra_view_closed Let_def split: option.splits)
  then show ?thesis by (simp add: resToAnthHandleCompleted_def)
qed

lemma closing_sound:
  "ra_sound (emit_seq closeCurrentBlock (\<lambda>s. (s\<lparr>ra_MessageStopSent := True\<rparr>, closing_events (r s) s)))"
  by (rule close_open_sound) (simp add: ra_view_closed)

lemma finalize_sound: "ra_sound FinalizeResponsesAnthropicStream"
  using closing_sound [of "\<lambda>_. ''tool_use''"] closing_sound [of "\<lambda>_. ''end_turn''"]
  by (simp add: FinalizeResponsesAnthropicStream_def)

lemmas ra_handlers_sound = created_sound added_sound text_sound args_delta_sound block_done_sound
  args_done_sound reasoning_sound item_done_sound completed_sound

lemma step_sound:
  "run_check anth_block_check (ra_view s) (snd (ResponsesEventToAnthropicEvents J s e)) =
     Some (ra_view (fst (ResponsesEventToAnthropicEvents J s e)))"
  by (rule ra_dispatch) (simp_all add: ra_handlers_sound [rule_format])

interpretation ra_blocks: finalized_converter
  "ResponsesEventToAnthropicEvents J" anth_block_check ra_view "\<lambda>_. True"
  FinalizeResponsesAnthropicStream ra_MessageStopSent for J
  by unfold_locales
    (simp, rule step_sound, rule finalize_sound [rule_format],
     simp add: FinalizeResponsesAnthropicStream_def)


section \<open>Start and stop of the message, text payload\<close>

text \<open>What the emitted events are, for the three observations below.\<close>

definition is_message_start :: "AnthropicStreamEvent \<Rightarrow> bool" where
  "is_message_start e \<longleftrightarrow> ase_Type e = ''message_start''"

definition is_message_stop :: "AnthropicStreamEvent \<Rightarrow> bool" where
  "is_message_stop e \<longleftrightarrow> ase_Type e = ''message_stop''"

definition anth_text_out :: "AnthropicStreamEvent \<Rightarrow> string" where
  "anth_text_out e =
     (if ase_Type e = ''content_block_delta''
      then (case ase_Delta e of None \<Rightarrow> []
            | Some d \<Rightarrow> if ad_Type d = ''text_delta'' then ad_Text d else []) else [])"

definition r_text_in :: "ResponsesStreamEvent \<Rightarrow> string" where
  "r_text_in e = (if rse_Type e = ''response.output_text.delta'' then rse_Delta e else [])"

lemmas anth_observations = is_message_start_def is_message_stop_def anth_text_out_def

lemma observe_block_start [simp]:
  "\<not> is_message_start (block_start i b)" "\<not> is_message_stop (block_start i b)"
  "anth_text_out (block_start i b) = []"
  by (simp_all add: anth_observations block_start_def)

lemma observe_block_stop [simp]:
  "\<not> is_message_start (block_stop i)" "\<not> is_message_stop (block_stop i)"
  "anth_text_out (block_stop i) = []"
  by (simp_all add: anth_observations block_stop_def)

lemma observe_block_delta [simp]:
  "\<not> is_message_start (block_delta i d)" "\<not> is_message_stop (block_delta i d)"
  by (simp_all add: anth_observations block_delta_def)

lemma observe_delta_text [simp]:
  "anth_text_out (block_delta i (text_delta t)) = t"
  "anth_text_out (block_delta i (json_delta t)) = []"
  "anth_text_out (block_delta i (thinking_delta t)) = []"
  by (simp_all add: anth_text_out_def block_delta_def text_delta_def json_delta_def thinking_delta_def)

lemma observe_closing_events [simp]:
  "filter is_message_start (closing_events r s) = []"
  "length (filter is_message_stop (closing_events r s)) = 1"
  "x \<in> set (closing_events r s) \<Longrightarrow> anth_text_out x = []"
  by (auto simp: anth_observations closing_events_def)

text \<open>
  A handler is quiet when it emits neither \<open>message_start\<close> nor \<open>message_stop\<close> and leaves both
  flags alone; it is wordless when it emits no text.
\<close>

definition ra_quiet :: "ra_emitter \<Rightarrow> bool" where
  "ra_quiet h \<longleftrightarrow> (\<forall>s. filter is_message_start (snd (h s)) = [] \<and> filter is_message_stop (snd (h s)) = [] \<and>
     ra_MessageStartSent (fst (h s)) = ra_MessageStartSent s \<and>
     ra_MessageStopSent (fst (h s)) = ra_MessageStopSent s)"

definition ra_wordless :: "ra_emitter \<Rightarrow> bool" where
  "ra_wordless h \<longleftrightarrow> (\<forall>s. \<forall>x \<in> set (snd (h s)). anth_text_out x = [])"

lemma ra_quiet_seq [simp]: "ra_quiet f \<Longrightarrow> ra_quiet g \<Longrightarrow> ra_quiet (emit_seq f g)"
  by (simp add: ra_quiet_def)

lemma ra_wordless_seq [simp]: "ra_wordless f \<Longrightarrow> ra_wordless g \<Longrightarrow> ra_wordless (emit_seq f g)"
  by (auto simp: ra_wordless_def)

lemma ra_quietD:
  assumes "ra_quiet h"
  shows "filter is_message_start (snd (h s)) = []" "filter is_message_stop (snd (h s)) = []"
    "ra_MessageStartSent (fst (h s)) = ra_MessageStartSent s"
    "ra_MessageStopSent (fst (h s)) = ra_MessageStopSent s"
  using assms by (simp_all add: ra_quiet_def)

lemma ra_wordlessD:
  assumes "ra_wordless h"
  shows "concat (map anth_text_out (snd (h s))) = []" "x \<in> set (snd (h s)) \<Longrightarrow> anth_text_out x = []"
  using assms by (simp_all add: ra_wordless_def)

lemma quiet_close [simp]: "ra_quiet closeCurrentBlock" "ra_wordless closeCurrentBlock"
  by (simp_all add: ra_quiet_def ra_wordless_def closeCurrentBlock_def)

lemma quiet_opens [simp]:
  "ra_quiet (open_tool_block e i)" "ra_wordless (open_tool_block e i)"
  "ra_quiet (open_thinking_block e)" "ra_wordless (open_thinking_block e)"
  "ra_quiet open_text_block" "ra_wordless open_text_block"
  "ra_quiet (emit_whole_block b)" "ra_wordless (emit_whole_block b)"
  by (simp_all add: ra_quiet_def ra_wordless_def open_tool_block_def open_thinking_block_def
      open_text_block_def emit_whole_block_def Let_def)

lemmas ra_close_D [simp] = ra_quietD [OF quiet_close(1)] ra_wordlessD [OF quiet_close(2)]
lemmas ra_open_D [simp] = ra_quietD [OF quiet_opens(5)] ra_wordlessD [OF quiet_opens(6)]

lemma quiet_added [simp]:
  "ra_quiet (resToAnthHandleOutputItemAdded e)" "ra_wordless (resToAnthHandleOutputItemAdded e)"
proof -
  have "ra_quiet (emit_seq closeCurrentBlock (open_tool_block e i))"
    "ra_quiet (emit_seq closeCurrentBlock (open_thinking_block e))"
    "ra_wordless (emit_seq closeCurrentBlock (open_tool_block e i))"
    "ra_wordless (emit_seq closeCurrentBlock (open_thinking_block e))" for i by simp_all
  then show "ra_quiet (resToAnthHandleOutputItemAdded e)" "ra_wordless (resToAnthHandleOutputItemAdded e)"
    by (auto simp: ra_quiet_def ra_wordless_def resToAnthHandleOutputItemAdded_def split: option.split)
qed

lemma quiet_deltas [simp]:
  "ra_quiet (resToAnthHandleTextDelta e)"
  "ra_quiet (resToAnthHandleFuncArgsDelta e)" "ra_wordless (resToAnthHandleFuncArgsDelta e)"
  "ra_quiet (resToAnthHandleReasoningDelta e)" "ra_wordless (resToAnthHandleReasoningDelta e)"
  by (simp_all add: ra_quiet_def ra_wordless_def resToAnthHandleTextDelta_def
      resToAnthHandleFuncArgsDelta_def resToAnthHandleReasoningDelta_def Let_def split: option.split)

lemma quiet_block_done [simp]: "ra_quiet resToAnthHandleBlockDone" "ra_wordless resToAnthHandleBlockDone"
  by (simp_all add: ra_quiet_def ra_wordless_def resToAnthHandleBlockDone_def)

lemmas ra_block_done_D [simp] = ra_quietD [OF quiet_block_done(1)] ra_wordlessD [OF quiet_block_done(2)]

lemma quiet_args_done [simp]:
  "ra_quiet (resToAnthHandleFuncArgsDone J e)" "ra_wordless (resToAnthHandleFuncArgsDone J e)"
proof -
  have "filter is_message_start (snd (resToAnthHandleFuncArgsDone J e s)) = [] \<and>
    filter is_message_stop (snd (resToAnthHandleFuncArgsDone J e s)) = [] \<and>
    ra_MessageStartSent (fst (resToAnthHandleFuncArgsDone J e s)) = ra_MessageStartSent s \<and>
    ra_MessageStopSent (fst (resToAnthHandleFuncArgsDone J e s)) = ra_MessageStopSent s \<and>
    (\<forall>x \<in> set (snd (resToAnthHandleFuncArgsDone J e s)). anth_text_out x = [])" for s
    using args_done_cases [of J e s] by (elim disjE exE) simp_all
  then show "ra_quiet (resToAnthHandleFuncArgsDone J e)" "ra_wordless (resToAnthHandleFuncArgsDone J e)"
    by (simp_all add: ra_quiet_def ra_wordless_def)
qed

lemma quiet_item_done [simp]:
  "ra_quiet (resToAnthHandleOutputItemDone J e)" "ra_wordless (resToAnthHandleOutputItemDone J e)"
proof -
  have "ra_quiet (resToAnthHandleWebSearchDone J i)" "ra_wordless (resToAnthHandleWebSearchDone J i)" for i
    unfolding resToAnthHandleWebSearchDone_def by simp_all
  then show "ra_quiet (resToAnthHandleOutputItemDone J e)" "ra_wordless (resToAnthHandleOutputItemDone J e)"
    by (simp_all add: ra_quiet_def ra_wordless_def resToAnthHandleOutputItemDone_def split: option.split)
qed

lemma text_delta_text [simp]:
  "concat (map anth_text_out (snd (resToAnthHandleTextDelta e s))) = rse_Delta e"
  by (auto simp: resToAnthHandleTextDelta_def)

lemma wordless_created [simp]: "ra_wordless (resToAnthHandleCreated e)"
  by (simp add: ra_wordless_def resToAnthHandleCreated_def Let_def anth_text_out_def split: option.split)

lemma record_usage_flags [simp]:
  "ra_MessageStartSent (record_usage u s) = ra_MessageStartSent s"
  "ra_MessageStopSent (record_usage u s) = ra_MessageStopSent s"
  by (simp_all add: record_usage_def Let_def split: option.split)

lemma wordless_completed [simp]: "ra_wordless (resToAnthHandleCompleted e)"
  by (auto simp: ra_wordless_def resToAnthHandleCompleted_def Let_def)

lemma created_flags:
  "filter is_message_stop (snd (resToAnthHandleCreated e s)) = []"
  "ra_MessageStopSent (fst (resToAnthHandleCreated e s)) = ra_MessageStopSent s"
  "length (filter is_message_start (snd (resToAnthHandleCreated e s))) + of_bool (ra_MessageStartSent s) = 1"
  "ra_MessageStartSent (fst (resToAnthHandleCreated e s))"
  by (auto simp: resToAnthHandleCreated_def Let_def is_message_start_def is_message_stop_def split: option.split)

lemma completed_flags:
  "filter is_message_start (snd (resToAnthHandleCompleted e s)) = []"
  "ra_MessageStartSent (fst (resToAnthHandleCompleted e s)) = ra_MessageStartSent s"
  "length (filter is_message_stop (snd (resToAnthHandleCompleted e s))) + of_bool (ra_MessageStopSent s) = 1"
  "ra_MessageStopSent (fst (resToAnthHandleCompleted e s))"
  by (auto simp: resToAnthHandleCompleted_def Let_def split: option.split)

lemmas ra_step_D = ra_quietD [OF quiet_added(1)] ra_quietD [OF quiet_deltas(1)] ra_quietD [OF quiet_deltas(2)]
  ra_quietD [OF quiet_deltas(4)] ra_quietD [OF quiet_args_done(1)]
  ra_quietD [OF quiet_item_done(1)] created_flags completed_flags

lemmas ra_step_W = ra_wordlessD [OF quiet_added(2)] ra_wordlessD [OF quiet_deltas(3)]
  ra_wordlessD [OF quiet_deltas(5)] ra_wordlessD [OF quiet_args_done(2)]
  ra_wordlessD [OF quiet_item_done(2)] ra_wordlessD [OF wordless_created] ra_wordlessD [OF wordless_completed]

lemma ra_start_latch:
  "count_if is_message_start (snd (ResponsesEventToAnthropicEvents J s e)) + of_bool (ra_MessageStartSent s) =
   of_bool (ra_MessageStartSent (fst (ResponsesEventToAnthropicEvents J s e)))"
  by (rule ra_dispatch) (simp_all add: ra_step_D)

lemma ra_stop_latch:
  "count_if is_message_stop (snd (ResponsesEventToAnthropicEvents J s e)) + of_bool (ra_MessageStopSent s) =
   of_bool (ra_MessageStopSent (fst (ResponsesEventToAnthropicEvents J s e)))"
  by (rule ra_dispatch) (simp_all add: ra_step_D)

lemma ra_text_payload:
  "collect anth_text_out (snd (ResponsesEventToAnthropicEvents J s e)) = r_text_in e"
  by (rule ra_dispatch) (auto simp: ra_step_W r_text_in_def is_terminal_def)

interpretation ra_start: latched_converter
  "ResponsesEventToAnthropicEvents J" ra_MessageStartSent is_message_start for J
  by unfold_locales (rule ra_start_latch)

interpretation ra_stop: latched_converter
  "ResponsesEventToAnthropicEvents J" ra_MessageStopSent is_message_stop for J
  by unfold_locales (rule ra_stop_latch)

interpretation ra_text: payload_converter
  "ResponsesEventToAnthropicEvents J" r_text_in anth_text_out for J
  by unfold_locales (rule ra_text_payload)

section \<open>Block boundaries spelled out\<close>

definition anth_boundary :: "AnthropicStreamEvent \<Rightarrow> (bool \<times> int option) list" where
  "anth_boundary e =
     (if ase_Type e = ''content_block_start'' then [(True, ase_Index e)]
      else if ase_Type e = ''content_block_stop'' then [(False, ase_Index e)]
      else [])"

definition numbered_blocks :: "nat \<Rightarrow> (bool \<times> int option) list" where
  "numbered_blocks n = concat (map (\<lambda>i. [(True, Some (int i)), (False, Some (int i))]) [0..<n])"

lemma numbered_blocks_Suc [simp]:
  "numbered_blocks (Suc n) = numbered_blocks n @ [(True, Some (int n)), (False, Some (int n))]"
  by (simp add: numbered_blocks_def)

lemma check_step_boundary:
  assumes "anth_block_check (int n, op) e = Some (m, op')"
  shows "\<exists>n'. m = int n' \<and>
    numbered_blocks n @ (if op = None then [] else [(True, Some (int n))]) @ anth_boundary e =
    numbered_blocks n' @ (if op' = None then [] else [(True, Some (int n'))])"
  using assms
  by (auto simp: anth_block_check_def anth_boundary_def Let_def split: if_splits option.splits
      intro: exI [of _ "Suc n"])

lemma check_boundaries:
  assumes "run_check anth_block_check (int n, op) os = Some (m, op')"
  shows "\<exists>n'. m = int n' \<and>
    numbered_blocks n @ (if op = None then [] else [(True, Some (int n))]) @ collect anth_boundary os =
    numbered_blocks n' @ (if op' = None then [] else [(True, Some (int n'))])"
  using assms
proof (induction os arbitrary: n op)
  case Nil
  then show ?case by auto
next
  case (Cons e os)
  then obtain m1 op1 where e: "anth_block_check (int n, op) e = Some (m1, op1)"
    and os: "run_check anth_block_check (m1, op1) os = Some (m, op')"
    by (auto split: option.splits)
  from check_step_boundary [OF e] obtain n1 where m1: "m1 = int n1" and
    eq: "numbered_blocks n @ (if op = None then [] else [(True, Some (int n))]) @ anth_boundary e =
      numbered_blocks n1 @ (if op1 = None then [] else [(True, Some (int n1))])" by blast
  from Cons.IH [OF os [unfolded m1]] obtain n2 where m: "m = int n2" and
    eq2: "numbered_blocks n1 @ (if op1 = None then [] else [(True, Some (int n1))]) @ collect anth_boundary os =
      numbered_blocks n2 @ (if op' = None then [] else [(True, Some (int n2))])" by blast
  have "numbered_blocks n @ (if op = None then [] else [(True, Some (int n))]) @ collect anth_boundary (e # os) =
    (numbered_blocks n @ (if op = None then [] else [(True, Some (int n))]) @ anth_boundary e) @ collect anth_boundary os"
    by simp
  also have "\<dots> = numbered_blocks n2 @ (if op' = None then [] else [(True, Some (int n2))])"
    by (simp only: eq append_assoc eq2)
  finally show ?case using m by blast
qed

lemma check_boundaries_start:
  assumes "run_check anth_block_check (0, None) os = Some (m, op)"
  shows "collect anth_boundary os = numbered_blocks (nat m) @ (if op = None then [] else [(True, Some m)])"
  using check_boundaries [of 0 None os m op] assms by (auto simp: numbered_blocks_def)

lemma new_ra_view [simp]: "ra_view (NewResponsesEventToAnthropicState now) = (0, None)"
  by (simp add: ra_view_def NewResponsesEventToAnthropicState_def)

text \<open>
  C15: for every sequence of upstream events whatever, the block boundaries that reach the client
  are start 0, stop 0, start 1, stop 1 and so on, with at most one block open at the end, the one
  the state calls open.
\<close>

theorem r2a_blocks_numbered:
  "let (s, out) = run_stream (ResponsesEventToAnthropicEvents J) (NewResponsesEventToAnthropicState now) es
   in collect anth_boundary out = numbered_blocks (nat (ra_ContentBlockIndex s)) @
        (if ra_ContentBlockOpen s then [(True, Some (ra_ContentBlockIndex s))] else [])"
proof -
  let ?r = "run_stream (ResponsesEventToAnthropicEvents J) (NewResponsesEventToAnthropicState now) es"
  have "run_check anth_block_check (0, None) (snd ?r) = Some (ra_view (fst ?r))"
    using ra_blocks.run_checked [of "NewResponsesEventToAnthropicState now" J es] by simp
  from check_boundaries_start [OF this [unfolded ra_view_def]] show ?thesis
    by (simp add: split_beta Let_def split: if_split_asm)
qed

text \<open>
  whatever the upstream sends and in whatever state, the text the client receives is the
  concatenation of the upstream text deltas, nothing dropped, repeated or reordered.
\<close>

theorem r2a_text_preserved:
  "collect anth_text_out (snd (run_stream (ResponsesEventToAnthropicEvents J) s es)) = collect r_text_in es"
  by (rule ra_text.run_payload)

lemma stop_sent_only_by_terminal:
  "\<forall>e \<in> set es. \<not> is_terminal e \<Longrightarrow>
    ra_MessageStopSent (fst (run_stream (ResponsesEventToAnthropicEvents J) s es)) = ra_MessageStopSent s"
proof (induction es arbitrary: s)
  case Nil
  then show ?case by simp
next
  case (Cons e es)
  have "ra_MessageStopSent (fst (ResponsesEventToAnthropicEvents J s e)) = ra_MessageStopSent s"
    using Cons.prems
    by (rule_tac ra_dispatch [where P = "\<lambda>r. ra_MessageStopSent (fst r) = ra_MessageStopSent s"])
      (simp_all add: ra_step_D)
  with Cons show ?case by simp
qed

lemma start_sent_after_created:
  assumes "e \<in> set es" and "rse_Type e = ''response.created''"
  shows "ra_MessageStartSent (fst (run_stream (ResponsesEventToAnthropicEvents J) s es))"
proof -
  from assms(1) obtain xs ys where es: "es = xs @ e # ys" by (meson split_list)
  have "ra_MessageStartSent (fst (ResponsesEventToAnthropicEvents J t e))" for t
    using assms(2) by (simp add: ResponsesEventToAnthropicEvents_def created_flags)
  then show ?thesis unfolding es by (simp add: ra_start.run_latch_mono)
qed

lemma closing_events_last [simp]:
  "closing_events r s \<noteq> []" "is_message_stop (last (closing_events r s))"
  by (simp_all add: closing_events_def is_message_stop_def)

lemma record_usage_open [simp]: "ra_ContentBlockOpen (record_usage u s) = ra_ContentBlockOpen s"
  by (simp add: record_usage_def Let_def split: option.split)

lemma completed_closes:
  assumes "\<not> ra_MessageStopSent s"
  shows "\<not> ra_ContentBlockOpen (fst (resToAnthHandleCompleted e s))"
    "snd (resToAnthHandleCompleted e s) \<noteq> []"
    "is_message_stop (last (snd (resToAnthHandleCompleted e s)))"
  using assms by (simp_all add: resToAnthHandleCompleted_def Let_def split: option.split)

lemma finalize_closes:
  assumes "ra_MessageStartSent s" and "\<not> ra_MessageStopSent s"
  shows "\<not> ra_ContentBlockOpen (fst (FinalizeResponsesAnthropicStream s))"
    "snd (FinalizeResponsesAnthropicStream s) \<noteq> []"
    "is_message_stop (last (snd (FinalizeResponsesAnthropicStream s)))"
    "filter is_message_start (snd (FinalizeResponsesAnthropicStream s)) = []"
    "length (filter is_message_stop (snd (FinalizeResponsesAnthropicStream s))) = 1"
  using assms by (simp_all add: FinalizeResponsesAnthropicStream_def)

lemma terminal_step:
  "is_terminal e \<Longrightarrow> ResponsesEventToAnthropicEvents J s e = resToAnthHandleCompleted e s"
  by (auto simp: is_terminal_def ResponsesEventToAnthropicEvents_def)

text \<open>The whole downstream stream: the converted events, then what the finalizer adds.\<close>

definition r2a_stream :: "json_codec \<Rightarrow> int \<Rightarrow> ResponsesStreamEvent list \<Rightarrow> ra_state \<times> AnthropicStreamEvent list" where
  "r2a_stream J now es =
     emit_seq (\<lambda>s. run_stream (ResponsesEventToAnthropicEvents J) s es) FinalizeResponsesAnthropicStream
       (NewResponsesEventToAnthropicState now)"

lemma r2a_stream_boundaries:
  assumes "\<not> ra_ContentBlockOpen (fst (r2a_stream J now es))"
  shows "collect anth_boundary (snd (r2a_stream J now es)) =
      numbered_blocks (nat (ra_ContentBlockIndex (fst (r2a_stream J now es))))"
proof -
  have "run_check anth_block_check (0, None) (snd (r2a_stream J now es)) = Some (ra_view (fst (r2a_stream J now es)))"
    using ra_blocks.stream_checked [of "NewResponsesEventToAnthropicState now" J es]
    by (simp only: new_ra_view r2a_stream_def fst_emit_seq snd_emit_seq simp_thms)
  from check_boundaries_start [OF this [unfolded ra_view_def]] assms show ?thesis by simp
qed

text \<open>
  C22: when the upstream stream created a response and sends at most one terminal event, as its
  last event, the client sees a whole message: every block it sees start it sees stop, exactly
  one \<open>message_start\<close>, and exactly one \<open>message_stop\<close>, which is the last event.
\<close>

theorem r2a_message_closed:
  assumes "\<exists>e \<in> set es. rse_Type e = ''response.created''"
    and "\<forall>e \<in> set (butlast es). \<not> is_terminal e"
  shows "(\<exists>n. collect anth_boundary (snd (r2a_stream J now es)) = numbered_blocks n) \<and>
    count_if is_message_start (snd (r2a_stream J now es)) = 1 \<and>
    count_if is_message_stop (snd (r2a_stream J now es)) = 1 \<and>
    is_message_stop (last (snd (r2a_stream J now es)))"
proof -
  let ?new = "NewResponsesEventToAnthropicState now"
  let ?run = "run_stream (ResponsesEventToAnthropicEvents J)"
  let ?r = "?run ?new es"
  have new: "\<not> ra_MessageStartSent ?new" "\<not> ra_MessageStopSent ?new"
    by (simp_all add: NewResponsesEventToAnthropicState_def)
  from assms(1) have started: "ra_MessageStartSent (fst ?r)"
    by (auto intro: start_sent_after_created)
  then have starts: "count_if is_message_start (snd ?r) = 1"
    using ra_start.run_latched_count [OF new(1), of J es] by simp
  note stops = ra_stop.run_latched_count [OF new(2), of J es]
  have closed: "\<not> ra_ContentBlockOpen (fst (r2a_stream J now es)) \<and>
    count_if is_message_start (snd (r2a_stream J now es)) = 1 \<and>
    count_if is_message_stop (snd (r2a_stream J now es)) = 1 \<and>
    is_message_stop (last (snd (r2a_stream J now es)))"
  proof (cases "ra_MessageStopSent (fst ?r)")
    case False
    with started starts stops finalize_closes [OF started False] show ?thesis
      by (simp add: r2a_stream_def)
  next
    case True
    have "es \<noteq> []" using assms(1) by auto
    then obtain xs t where es: "es = xs @ [t]" by (meson rev_exhaust)
    let ?s = "fst (?run ?new xs)"
    have xs: "\<not> ra_MessageStopSent ?s"
      using assms(2) new(2) by (simp add: es stop_sent_only_by_terminal)
    have "is_terminal t"
    proof (rule ccontr)
      assume "\<not> is_terminal t"
      with assms(2) have "\<forall>e \<in> set es. \<not> is_terminal e" by (simp add: es)
      from stop_sent_only_by_terminal [OF this] True new(2) show False by simp
    qed
    with True starts stops completed_closes [OF xs, of t] show ?thesis
      by (simp add: r2a_stream_def es terminal_step FinalizeResponsesAnthropicStream_def)
  qed
  then show ?thesis by (blast intro: r2a_stream_boundaries)
qed

theorem r2a_message_closed_witness:
  "count_if is_message_stop (snd (r2a_stream (sample_codec [] []) 0
     [zero_rse\<lparr>rse_Type := ''response.created''\<rparr>,
      zero_rse\<lparr>rse_Type := ''response.output_text.delta'', rse_Delta := ''hi''\<rparr>,
      zero_rse\<lparr>rse_Type := ''response.completed''\<rparr>])) = 1"
  by (rule r2a_message_closed [THEN conjunct2, THEN conjunct2, THEN conjunct1])
     (simp_all add: zero_rse_def is_terminal_def)

section \<open>Arguments of one tool call\<close>

definition anth_json_out :: "AnthropicStreamEvent \<Rightarrow> string" where
  "anth_json_out e =
     (if ase_Type e = ''content_block_delta''
      then (case ase_Delta e of None \<Rightarrow> []
            | Some d \<Rightarrow> if ad_Type d = ''input_json_delta'' then ad_PartialJSON d else []) else [])"

lemma anth_json_out_simps [simp]:
  "anth_json_out (block_start i b) = []" "anth_json_out (block_stop i) = []"
  "anth_json_out (block_delta i (json_delta t)) = t"
  by (simp_all add: anth_json_out_def block_start_def block_stop_def block_delta_def json_delta_def)

text \<open>The upstream events of one tool call at output index \<open>k\<close>.\<close>

definition tool_added :: "int \<Rightarrow> string \<Rightarrow> ResponsesStreamEvent \<Rightarrow> bool" where
  "tool_added k name e \<longleftrightarrow> rse_Type e = ''response.output_item.added'' \<and> rse_OutputIndex e = k \<and>
     (case rse_Item e of None \<Rightarrow> False
      | Some item \<Rightarrow> (ro_Type item = ''function_call'' \<or> ro_Type item = ''custom_tool_call'') \<and> ro_Name item = name)"

definition tool_args_delta :: "int \<Rightarrow> ResponsesStreamEvent \<Rightarrow> bool" where
  "tool_args_delta k e \<longleftrightarrow> (rse_Type e = ''response.function_call_arguments.delta'' \<or>
     rse_Type e = ''response.custom_tool_call_input.delta'') \<and> rse_OutputIndex e = k"

definition tool_args_done :: "ResponsesStreamEvent \<Rightarrow> bool" where
  "tool_args_done e \<longleftrightarrow> rse_Type e = ''response.function_call_arguments.done''"

definition in_tool :: "int \<Rightarrow> int \<Rightarrow> string \<Rightarrow> ra_state \<Rightarrow> bool" where
  "in_tool k idx name s \<longleftrightarrow> ra_CurrentBlockType s = ''tool_use'' \<and> ra_CurrentToolName s = name \<and>
     ra_OutputIndexToBlockIdx s k = Some idx \<and> ra_ContentBlockIndex s = idx \<and> ra_ContentBlockOpen s"

definition next_block :: "ra_state \<Rightarrow> int" where
  "next_block s = (if ra_ContentBlockOpen s then ra_ContentBlockIndex s + 1 else ra_ContentBlockIndex s)"

lemma tool_added_step:
  assumes "tool_added k name e"
  obtains b where "in_tool k (next_block s) name (fst (ResponsesEventToAnthropicEvents J s e))"
    "ra_CurrentToolArgs (fst (ResponsesEventToAnthropicEvents J s e)) = []"
    "\<not> ra_CurrentToolHadDelta (fst (ResponsesEventToAnthropicEvents J s e))"
    "snd (ResponsesEventToAnthropicEvents J s e) =
       (if ra_ContentBlockOpen s then [block_stop (ra_ContentBlockIndex s)] else []) @ [block_start (next_block s) b]"
proof -
  from assms obtain item where e: "rse_Type e = ''response.output_item.added''" "rse_OutputIndex e = k"
    "rse_Item e = Some item" "ro_Type item = ''function_call'' \<or> ro_Type item = ''custom_tool_call''"
    "ro_Name item = name"
    by (auto simp: tool_added_def split: option.splits)
  then have step: "ResponsesEventToAnthropicEvents J s e = emit_seq closeCurrentBlock (open_tool_block e item) s"
    by (auto simp: ResponsesEventToAnthropicEvents_def resToAnthHandleOutputItemAdded_def)
  show thesis
    by (rule that [where b = "zero_acb\<lparr>acb_Type := ''tool_use'',
        acb_ID := fromResponsesCallID (ro_CallID item), acb_Name := name, acb_Input := ''{}''\<rparr>"])
      (simp_all add: step in_tool_def closeCurrentBlock_def open_tool_block_def next_block_def Let_def e)
qed

lemma args_delta_step:
  assumes "tool_args_delta k e" and "in_tool k idx name s"
  shows "ResponsesEventToAnthropicEvents J s e =
    (if rse_Delta e = [] then (s, [])
     else if name = ''Read'' then (s\<lparr>ra_CurrentToolArgs := ra_CurrentToolArgs s @ rse_Delta e\<rparr>, [])
     else (s\<lparr>ra_CurrentToolHadDelta := True\<rparr>, [block_delta idx (json_delta (rse_Delta e))]))"
  using assms
  by (auto simp: tool_args_delta_def in_tool_def ResponsesEventToAnthropicEvents_def
      resToAnthHandleFuncArgsDelta_def Let_def)

lemma args_deltas_run:
  assumes "\<forall>d \<in> set ds. tool_args_delta k d" and "in_tool k idx name s"
  shows "run_stream (ResponsesEventToAnthropicEvents J) s ds =
    (let streamed = concat (map rse_Delta ds) in
     if name = ''Read'' then (s\<lparr>ra_CurrentToolArgs := ra_CurrentToolArgs s @ streamed\<rparr>, [])
     else (s\<lparr>ra_CurrentToolHadDelta := (ra_CurrentToolHadDelta s \<or> streamed \<noteq> [])\<rparr>,
           map (\<lambda>d. block_delta idx (json_delta (rse_Delta d))) (filter (\<lambda>d. rse_Delta d \<noteq> []) ds)))"
  using assms
proof (induction ds arbitrary: s)
  case Nil
  then show ?case by simp
next
  case (Cons d ds)
  let ?s1 = "fst (ResponsesEventToAnthropicEvents J s d)"
  from Cons.prems have d: "tool_args_delta k d" by simp
  note step = args_delta_step [OF d Cons.prems(2), of J]
  from Cons.prems(2) have "in_tool k idx name ?s1" by (simp add: step in_tool_def)
  with Cons.IH [of ?s1] Cons.prems(1) show ?case
    by (simp add: prod_eq_iff step Let_def)
qed

text \<open>
  the events of a tool call (announced at output index \<open>k\<close>, argument deltas, arguments done)
  give the client exactly the streamed arguments, or the arguments of the closing event when
  nothing was streamed, all in the block opened for the call; for the tool \<open>Read\<close> the arguments
  are withheld and delivered once, sanitized.
\<close>

theorem r2a_tool_arguments:
  assumes "tool_added k name e" and "\<forall>d \<in> set ds. tool_args_delta k d" and "tool_args_done f"
  shows "let out = snd (run_stream (ResponsesEventToAnthropicEvents J) s (e # ds @ [f]));
             streamed = concat (map rse_Delta ds)
         in collect anth_json_out out =
              (if name = ''Read'' then
                 (let raw = (if rse_Arguments f = [] then streamed else rse_Arguments f)
                  in if raw = [] then [] else sanitizeAnthropicToolUseInput J name raw)
               else if streamed = [] then rse_Arguments f else streamed) \<and>
            (\<forall>o' \<in> set out. ase_Type o' = ''content_block_delta'' \<longrightarrow> ase_Index o' = Some (next_block s))"
proof -
  let ?E = "ResponsesEventToAnthropicEvents J"
  let ?s1 = "fst (?E s e)"
  obtain b where s1: "in_tool k (next_block s) name ?s1" "ra_CurrentToolArgs ?s1 = []"
    "\<not> ra_CurrentToolHadDelta ?s1"
    and out1: "snd (?E s e) =
       (if ra_ContentBlockOpen s then [block_stop (ra_ContentBlockIndex s)] else []) @ [block_start (next_block s) b]"
    by (rule tool_added_step [OF assms(1)])
  note ds = args_deltas_run [OF assms(2) s1(1), of J]
  have f: "?E t f = resToAnthHandleFuncArgsDone J f t" for t
    using assms(3) by (simp add: tool_args_done_def ResponsesEventToAnthropicEvents_def)
  have streamed: "concat (map rse_Delta (filter (\<lambda>d. rse_Delta d \<noteq> []) ds)) = concat (map rse_Delta ds)"
    by (induction ds) auto
  show ?thesis
    using s1 streamed
    by (auto simp: out1 ds f Let_def in_tool_def resToAnthHandleFuncArgsDone_def closeCurrentBlock_def
        o_def block_start_def block_stop_def block_delta_def json_delta_def zero_defs anth_json_out_def)
qed

theorem r2a_tool_arguments_witness:
  "collect anth_json_out (snd (run_stream (ResponsesEventToAnthropicEvents (sample_codec [] []))
     (NewResponsesEventToAnthropicState 0)
     [zero_rse\<lparr>rse_Type := ''response.output_item.added'', rse_OutputIndex := 3,
        rse_Item := Some (zero_ro\<lparr>ro_Type := ''function_call'', ro_Name := ''ls''\<rparr>)\<rparr>,
      zero_rse\<lparr>rse_Type := ''response.function_call_arguments.delta'', rse_OutputIndex := 3, rse_Delta := ''ab''\<rparr>,
      zero_rse\<lparr>rse_Type := ''response.function_call_arguments.delta'', rse_OutputIndex := 3, rse_Delta := ''cd''\<rparr>,
      zero_rse\<lparr>rse_Type := ''response.function_call_arguments.done'', rse_OutputIndex := 3, rse_Arguments := ''abcd''\<rparr>])) =
   ''abcd''"
proof -
  let ?e = "zero_rse\<lparr>rse_Type := ''response.output_item.added'', rse_OutputIndex := 3,
        rse_Item := Some (zero_ro\<lparr>ro_Type := ''function_call'', ro_Name := ''ls''\<rparr>)\<rparr>"
  let ?ds = "[zero_rse\<lparr>rse_Type := ''response.function_call_arguments.delta'', rse_OutputIndex := 3, rse_Delta := ''ab''\<rparr>,
      zero_rse\<lparr>rse_Type := ''response.function_call_arguments.delta'', rse_OutputIndex := 3, rse_Delta := ''cd''\<rparr>]"
  let ?f = "zero_rse\<lparr>rse_Type := ''response.function_call_arguments.done'', rse_OutputIndex := 3, rse_Arguments := ''abcd''\<rparr>"
  have "tool_added 3 ''ls'' ?e" "\<forall>d \<in> set ?ds. tool_args_delta 3 d" "tool_args_done ?f"
    by (simp_all add: tool_added_def tool_args_delta_def tool_args_done_def)
  from r2a_tool_arguments [OF this, of "sample_codec [] []" "NewResponsesEventToAnthropicState 0"]
  show ?thesis by (simp add: Let_def)
qed

section \<open>The non-streaming response\<close>

lemma tool_block_iff_function_call:
  "containsAnthropicToolUseBlock (concat (map (outputItemBlocks J) items)) \<longleftrightarrow>
     (\<exists>i \<in> set items. ro_Type i = ''function_call'')"
proof -
  have "(\<exists>b \<in> set (outputItemBlocks J i). acb_Type b = ''tool_use'') \<longleftrightarrow> ro_Type i = ''function_call''" for i
    by (auto simp: outputItemBlocks_def Let_def server_tool_use_block_def web_search_result_block_def)
  then show ?thesis
    by (simp add: containsAnthropicToolUseBlock_def list_ex_iff)
qed

text \<open>
  a translated response always has content, reports \<open>tool_use\<close> exactly when the response
  completed with a function call in its output, and \<open>max_tokens\<close> exactly when it is incomplete
  for the reason \<open>max_output_tokens\<close>.
\<close>

theorem r2a_response_shape:
  "ar_Content (ResponsesToAnthropic J resp model) \<noteq> [] \<and>
   (ar_StopReason (ResponsesToAnthropic J resp model) = ''tool_use'' \<longleftrightarrow>
      rr_Status resp = ''completed'' \<and> (\<exists>i \<in> set (rr_Output resp). ro_Type i = ''function_call'')) \<and>
   (ar_StopReason (ResponsesToAnthropic J resp model) = ''max_tokens'' \<longleftrightarrow>
      rr_Status resp = ''incomplete'' \<and>
      map_option rid_Reason (rr_IncompleteDetails resp) = Some ''max_output_tokens'')"
proof -
  define raw where "raw = concat (map (outputItemBlocks J) (rr_Output resp))"
  define blocks where "blocks = (if raw = [] then [zero_acb\<lparr>acb_Type := ''text'', acb_Text := []\<rparr>] else raw)"
  have content: "ar_Content (ResponsesToAnthropic J resp model) = blocks"
    and stop: "ar_StopReason (ResponsesToAnthropic J resp model) =
      responsesStatusToAnthropicStopReason (rr_Status resp) (rr_IncompleteDetails resp) blocks"
    by (simp_all add: ResponsesToAnthropic_def Let_def blocks_def raw_def del: concat_eq_Nil_conv split: option.split)
  have tool: "containsAnthropicToolUseBlock blocks \<longleftrightarrow>
      (\<exists>i \<in> set (rr_Output resp). ro_Type i = ''function_call'')"
    using tool_block_iff_function_call [of J "rr_Output resp", folded raw_def]
    by (cases "raw = []") (simp_all add: blocks_def containsAnthropicToolUseBlock_def)
  have "blocks \<noteq> []" by (simp add: blocks_def)
  then show ?thesis unfolding content stop
    by (simp add: responsesStatusToAnthropicStopReason_def tool split: option.split)
qed

text \<open>
  a call id that was given the prefix \<open>fc_\<close> is restored exactly, other ids pass unchanged,
  and restoring twice is restoring once.
\<close>

theorem call_id_roundtrip:
  "(go_HasPrefix i ''toolu_'' \<or> go_HasPrefix i ''call_'' \<longrightarrow> fromResponsesCallID (''fc_'' @ i) = i) \<and>
   (\<not> go_HasPrefix i ''fc_'' \<longrightarrow> fromResponsesCallID (toResponsesCallID i) = i) \<and>
   fromResponsesCallID (fromResponsesCallID i) = fromResponsesCallID i"
proof -
  have no_fc: "\<not> go_HasPrefix r ''fc_''" if "go_HasPrefix r ''toolu_'' \<or> go_HasPrefix r ''call_''" for r
    using that by (cases r) (auto simp: go_HasPrefix_def)
  have restored: "fromResponsesCallID (''fc_'' @ i) = i" if "go_HasPrefix i ''toolu_'' \<or> go_HasPrefix i ''call_''"
    using that by (simp only: fromResponsesCallID_def go_CutPrefix_append option.case if_True)
  have unchanged: "fromResponsesCallID j = j" if "\<not> go_HasPrefix j ''fc_''" for j
    using that by (simp add: fromResponsesCallID_def go_CutPrefix_def)
  have "fromResponsesCallID i = i \<or> \<not> go_HasPrefix (fromResponsesCallID i) ''fc_''"
    using no_fc by (auto simp: fromResponsesCallID_def split: option.split)
  then show ?thesis
    using restored unchanged by (auto simp: toResponsesCallID_def)
qed

theorem call_id_roundtrip_witness:
  "fromResponsesCallID (''fc_'' @ ''call_1'') = ''call_1'' \<and>
   fromResponsesCallID (toResponsesCallID ''toolu_2'') = ''toolu_2''"
  using call_id_roundtrip [of "''call_1''"] call_id_roundtrip [of "''toolu_2''"]
  by (simp add: go_HasPrefix_def)

end
