(* ===== verification/Responses_Protocol.thy ===== *)
theory Responses_Protocol
  imports Compat_Types Stream_Laws "HOL-Library.Multiset"
begin

text \<open>
  What a client of the Responses API expects of an event stream, as automata over the emitted
  events: consecutive sequence numbers, and output items that are announced with the next free
  output index, referred to only while they are open, and all done when the response completes.
  The converters that emit Responses events are measured against them.
\<close>

section \<open>Sequence numbers\<close>

definition seq_check :: "int \<Rightarrow> ResponsesStreamEvent \<Rightarrow> int option" where
  "seq_check n e = (if rse_SequenceNumber e = n then Some (n + 1) else None)"

lemma seq_check_numbers:
  "run_check seq_check n os = Some m \<Longrightarrow>
    m = n + int (length os) \<and> map rse_SequenceNumber os = map (\<lambda>i. n + int i) [0..<length os]"
proof (induction os arbitrary: n)
  case Nil
  then show ?case by simp
next
  case (Cons e os)
  from Cons.prems have e: "rse_SequenceNumber e = n" and "run_check seq_check (n + 1) os = Some m"
    by (cases "rse_SequenceNumber e = n"; simp add: seq_check_def [of n])+
  with Cons.IH have m: "m = n + 1 + int (length os)"
    and os: "map rse_SequenceNumber os = map (\<lambda>i. n + 1 + int i) [0..<length os]" by blast+
  have "map (\<lambda>i. n + int i) [0..<Suc (length os)] = n # map (\<lambda>i. n + 1 + int i) [0..<length os]"
    by (rule nth_equalityI) (auto simp: nth_Cons' simp del: upt_Suc)
  with m os e show ?case by simp
qed

section \<open>Output items\<close>

text \<open>The next free output index, and the open items: index, type, id.\<close>

type_synonym items_view = "int \<times> (int \<times> string \<times> string) list"

text \<open>The event types that refer to an open item, with the type of the item they refer to.\<close>

definition item_scope :: "string \<Rightarrow> string option" where
  "item_scope t =
     (if t = ''response.output_text.delta'' \<or> t = ''response.output_text.done''
       \<or> t = ''response.content_part.added'' \<or> t = ''response.content_part.done'' then Some ''message''
      else if t = ''response.reasoning_summary_text.delta'' \<or> t = ''response.reasoning_summary_text.done''
       \<or> t = ''response.reasoning_summary_part.added'' \<or> t = ''response.reasoning_summary_part.done''
      then Some ''reasoning''
      else if t = ''response.function_call_arguments.delta'' \<or> t = ''response.function_call_arguments.done''
      then Some ''function_call''
      else None)"

definition item_check :: "items_view \<Rightarrow> ResponsesStreamEvent \<Rightarrow> items_view option" where
  "item_check g e =
     (let (nxt, opened) = g; t = rse_Type e; k = rse_OutputIndex e in
      if t = ''response.output_item.added'' then
        (case rse_Item e of
           None \<Rightarrow> None
         | Some i \<Rightarrow> if k = nxt then Some (nxt + 1, (k, ro_Type i, ro_ID i) # opened) else None)
      else if t = ''response.output_item.done'' then
        (case rse_Item e of
           None \<Rightarrow> None
         | Some i \<Rightarrow> if map_of opened k = Some (ro_Type i, ro_ID i)
                     then Some (nxt, AList.delete k opened) else None)
      else if t = ''response.completed'' then
        (if opened = [] then Some g else None)
      else
        (case item_scope t of
           None \<Rightarrow> Some g
         | Some ty \<Rightarrow> if map_of opened k = Some (ty, rse_ItemID e) then Some g else None))"

text \<open>Observations used in the statements about the converters.\<close>

definition is_created :: "ResponsesStreamEvent \<Rightarrow> bool" where
  "is_created e \<longleftrightarrow> rse_Type e = ''response.created''"

definition is_completed :: "ResponsesStreamEvent \<Rightarrow> bool" where
  "is_completed e \<longleftrightarrow> rse_Type e = ''response.completed''"

definition resp_text_out :: "ResponsesStreamEvent \<Rightarrow> string" where
  "resp_text_out e = (if rse_Type e = ''response.output_text.delta'' then rse_Delta e else [])"

definition resp_reasoning_out :: "ResponsesStreamEvent \<Rightarrow> string" where
  "resp_reasoning_out e = (if rse_Type e = ''response.reasoning_summary_text.delta'' then rse_Delta e else [])"

definition resp_args_out :: "ResponsesStreamEvent \<Rightarrow> string" where
  "resp_args_out e = (if rse_Type e = ''response.function_call_arguments.delta'' then rse_Delta e else [])"

text \<open>The items announced and the items done by a list of events, as type and id.\<close>

definition item_added :: "ResponsesStreamEvent \<Rightarrow> (string \<times> string) list" where
  "item_added e = (if rse_Type e = ''response.output_item.added''
     then (case rse_Item e of None \<Rightarrow> [] | Some i \<Rightarrow> [(ro_Type i, ro_ID i)]) else [])"

definition item_done :: "ResponsesStreamEvent \<Rightarrow> (string \<times> string) list" where
  "item_done e = (if rse_Type e = ''response.output_item.done''
     then (case rse_Item e of None \<Rightarrow> [] | Some i \<Rightarrow> [(ro_Type i, ro_ID i)]) else [])"

text \<open>
  An accepted stream has done every item it announced, up to the items still open: as multisets
  of (type, id).
\<close>

lemma mset_AList_delete:
  "distinct (map fst xs) \<Longrightarrow> map_of xs k = Some v \<Longrightarrow>
    \<exists>ys zs. xs = ys @ (k, v) # zs \<and> AList.delete k xs = ys @ zs"
proof (induction xs)
  case Nil
  then show ?case by simp
next
  case (Cons x xs)
  show ?case
  proof (cases "fst x = k")
    case True
    with Cons.prems have "AList.delete k xs = xs" "x = (k, v)"
      by (auto simp: delete_id prod_eq_iff)
    with True show ?thesis by (intro exI [of _ "[]"] exI [of _ xs]) simp
  next
    case False
    with Cons.prems have "map_of xs k = Some v" by (cases x) (auto split: if_splits)
    with Cons obtain ys zs where "xs = ys @ (k, v) # zs" "AList.delete k xs = ys @ zs" by auto
    with False show ?thesis by (intro exI [of _ "x # ys"] exI [of _ zs]) simp
  qed
qed

text \<open>The open items carry distinct indices below the next free one.\<close>

definition items_ok :: "items_view \<Rightarrow> bool" where
  "items_ok g \<longleftrightarrow> distinct (map fst (snd g)) \<and> (\<forall>k \<in> set (map fst (snd g)). k < fst g)"

lemma item_check_step:
  assumes "item_check (n, op) e = Some (m, op')" and "items_ok (n, op)"
  shows "items_ok (m, op') \<and>
    mset (item_added e) + mset (map snd op) = mset (item_done e) + mset (map snd op') \<and>
    m = n + int (length (item_added e))"
proof -
  consider (added) "rse_Type e = ''response.output_item.added''"
    | (finished) "rse_Type e = ''response.output_item.done''"
    | (other) "rse_Type e \<noteq> ''response.output_item.added''" "rse_Type e \<noteq> ''response.output_item.done''"
    by blast
  then show ?thesis
  proof cases
    case added
    with assms show ?thesis
      by (fastforce simp: item_check_def items_ok_def item_added_def item_done_def Let_def split: option.splits if_splits)
  next
    case finished
    with assms(1) obtain i where i: "rse_Item e = Some i"
      "map_of op (rse_OutputIndex e) = Some (ro_Type i, ro_ID i)" "m = n" "op' = AList.delete (rse_OutputIndex e) op"
      by (auto simp: item_check_def Let_def split: option.splits if_splits)
    from assms(2) have "distinct (map fst op)" by (simp add: items_ok_def)
    from mset_AList_delete [OF this i(2)] obtain ys zs where
      op: "op = ys @ (rse_OutputIndex e, ro_Type i, ro_ID i) # zs" and op': "op' = ys @ zs" using i(4) by auto
    from assms(2) finished i(1,3) show ?thesis
      by (auto simp: items_ok_def item_added_def item_done_def op op')
  next
    case other
    with assms show ?thesis
      by (auto simp: item_check_def item_added_def item_done_def Let_def split: option.splits if_splits)
  qed
qed

lemma item_check_run:
  assumes "run_check item_check (n, op) os = Some (m, op')" and "items_ok (n, op)"
  shows "items_ok (m, op') \<and>
    mset (collect item_added os) + mset (map snd op) = mset (collect item_done os) + mset (map snd op') \<and>
    m = n + int (length (collect item_added os))"
  using assms
proof (induction os arbitrary: n op)
  case Nil
  then show ?case by simp
next
  case (Cons e os)
  then obtain n1 op1 where e: "item_check (n, op) e = Some (n1, op1)"
    and os: "run_check item_check (n1, op1) os = Some (m, op')" by (auto split: option.splits)
  note step = item_check_step [OF e Cons.prems(2)]
  with Cons.IH [OF os] have "items_ok (m, op')"
    and "mset (collect item_added os) + mset (map snd op1) = mset (collect item_done os) + mset (map snd op')"
    and "m = n1 + int (length (collect item_added os))" by blast+
  with step show ?case by simp (metis (no_types, lifting) union_assoc union_commute)
qed

text \<open>When no item is left open, the items done are the items announced.\<close>

lemma all_items_done:
  "run_check item_check (0, []) os = Some (m, []) \<Longrightarrow> mset (collect item_added os) = mset (collect item_done os)"
  using item_check_run [of 0 "[]" os m "[]"] by (simp add: items_ok_def)

end
