(* ===== verification/Anthropic_To_Responses.thy ===== *)
theory Anthropic_To_Responses
  imports Responses_To_Anthropic Responses_Protocol
begin

text \<open>
  \<open>anthropic_to_responses_response.go\<close>: the reverse direction, from an Anthropic message to a
  Responses API response and from an Anthropic event stream to Responses stream events.

  The only effect besides the state is the random source of \<open>generateItemID\<close> and
  \<open>generateResponsesID\<close> (\<open>crypto/rand\<close>): \<open>gen k\<close> is the \<open>k\<close>-th id drawn, an argument of the
  definitions, and the number of draws made is threaded beside the Go fields.
\<close>

section \<open>Non-streaming response\<close>

text \<open>
  One iteration of the loop over \<open>resp.Content\<close>: the accumulator holds the number of draws, the
  output items so far and the text parts so far.
\<close>

type_synonym a2r_acc = "nat \<times> ResponsesOutput list \<times> ResponsesContentPart list"

definition contentBlockOutput :: "(nat \<Rightarrow> string) \<Rightarrow> AnthropicContentBlock \<Rightarrow> a2r_acc \<Rightarrow> a2r_acc" where
  "contentBlockOutput gen block acc =
     (let (k, outputs, msgParts) = acc in
      if acb_Type block = ''thinking'' then
        (if acb_Thinking block \<noteq> [] then
           (Suc k, outputs @ [zero_ro\<lparr>ro_Type := ''reasoning'', ro_ID := gen k,
              ro_Summary := [\<lparr>rsu_Type = ''summary_text'', rsu_Text = acb_Thinking block\<rparr>]\<rparr>], msgParts)
         else acc)
      else if acb_Type block = ''text'' then
        (if acb_Text block \<noteq> [] then
           (k, outputs, msgParts @ [zero_rcp\<lparr>rcp_Type := ''output_text'', rcp_Text := acb_Text block\<rparr>])
         else acc)
      else if acb_Type block = ''tool_use'' then
        (Suc k, outputs @ [zero_ro\<lparr>ro_Type := ''function_call'', ro_ID := gen k,
           ro_CallID := toResponsesCallID (acb_ID block), ro_Name := acb_Name block,
           ro_Arguments := (if acb_Input block \<noteq> [] then acb_Input block else ''{}''),
           ro_Status := ''completed''\<rparr>], msgParts)
      else acc)"

definition assistantMessageItem :: "string \<Rightarrow> ResponsesContentPart list \<Rightarrow> ResponsesOutput" where
  "assistantMessageItem itemid parts = zero_ro\<lparr>ro_Type := ''message'', ro_ID := itemid,
     ro_Role := ''assistant'', ro_Content := parts, ro_Status := ''completed''\<rparr>"

definition anthropicStopReasonToResponsesStatus :: "string \<Rightarrow> AnthropicContentBlock list \<Rightarrow> string" where
  "anthropicStopReasonToResponsesStatus stopReason blocks =
     (if stopReason = ''max_tokens'' then ''incomplete''
      else if stopReason = ''end_turn'' \<or> stopReason = ''tool_use'' \<or> stopReason = ''stop_sequence''
      then ''completed'' else ''completed'')"

definition responsesUsageFromAnthropic :: "AnthropicUsage \<Rightarrow> ResponsesUsage" where
  "responsesUsageFromAnthropic u =
     (let totalInputTokens = au_InputTokens u + au_CacheReadInputTokens u + au_CacheCreationInputTokens u
      in \<lparr>ru_InputTokens = totalInputTokens, ru_OutputTokens = au_OutputTokens u,
          ru_TotalTokens = totalInputTokens + au_OutputTokens u,
          ru_InputTokensDetails =
            (if au_CacheReadInputTokens u > 0
             then Some \<lparr>itd_CachedTokens = au_CacheReadInputTokens u, itd_AudioTokens = 0\<rparr> else None),
          ru_OutputTokensDetails = None\<rparr>)"

definition AnthropicToResponsesResponse :: "(nat \<Rightarrow> string) \<Rightarrow> AnthropicResponse \<Rightarrow> ResponsesResponse" where
  "AnthropicToResponsesResponse gen resp =
     (let (k0, respid) = (if ar_ID resp = [] then (1, gen 0) else (0, ar_ID resp));
          (k, outputs, msgParts) = fold (contentBlockOutput gen) (ar_Content resp) (k0, [], []);
          (k, outputs) = (if msgParts \<noteq> []
             then (Suc k, outputs @ [assistantMessageItem (gen k) msgParts]) else (k, outputs));
          outputs = (if outputs = []
             then [assistantMessageItem (gen k) [zero_rcp\<lparr>rcp_Type := ''output_text'', rcp_Text := []\<rparr>]]
             else outputs);
          status = anthropicStopReasonToResponsesStatus (ar_StopReason resp) (ar_Content resp)
      in zero_rr\<lparr>rr_ID := respid, rr_Object := ''response'', rr_Model := ar_Model resp,
           rr_Output := outputs, rr_Status := status,
           rr_IncompleteDetails := (if status = ''incomplete''
             then Some \<lparr>rid_Reason = ''max_output_tokens''\<rparr> else None),
           rr_Usage := Some (responsesUsageFromAnthropic (ar_Usage resp))\<rparr>)"

section \<open>Stream state\<close>

record AnthropicEventToResponsesState =
  as_ResponseID :: string
  as_Model :: string
  as_Created :: int
  as_SequenceNumber :: int
  as_CreatedSent :: bool
  as_CompletedSent :: bool
  as_OutputIndex :: int
  as_CurrentItemID :: string
  as_CurrentItemType :: string
  as_ContentIndex :: int
  as_CurrentCallID :: string
  as_CurrentName :: string
  as_InputTokens :: int
  as_OutputTokens :: int
  as_CacheReadInputTokens :: int
  as_CacheCreationInputTokens :: int
  as_draws :: nat

type_synonym as_state = AnthropicEventToResponsesState
type_synonym as_emitter = "as_state \<Rightarrow> as_state \<times> ResponsesStreamEvent list"

definition NewAnthropicEventToResponsesState :: "int \<Rightarrow> as_state" where
  "NewAnthropicEventToResponsesState now =
     \<lparr>as_ResponseID = [], as_Model = [], as_Created = now, as_SequenceNumber = 0,
      as_CreatedSent = False, as_CompletedSent = False, as_OutputIndex = 0, as_CurrentItemID = [],
      as_CurrentItemType = [], as_ContentIndex = 0, as_CurrentCallID = [], as_CurrentName = [],
      as_InputTokens = 0, as_OutputTokens = 0, as_CacheReadInputTokens = 0,
      as_CacheCreationInputTokens = 0, as_draws = 0\<rparr>"

section \<open>Emitting events\<close>

text \<open>\<open>makeResponsesEvent\<close>: stamp the template with its type and the next sequence number.\<close>

definition makeResponsesEvent :: "string \<Rightarrow> (as_state \<Rightarrow> ResponsesStreamEvent) \<Rightarrow> as_emitter" where
  "makeResponsesEvent eventType template s =
     (s\<lparr>as_SequenceNumber := as_SequenceNumber s + 1\<rparr>,
      [(template s)\<lparr>rse_Type := eventType, rse_SequenceNumber := as_SequenceNumber s\<rparr>])"

definition makeResponsesCreatedEvent :: as_emitter where
  "makeResponsesCreatedEvent = makeResponsesEvent ''response.created''
     (\<lambda>s. zero_rse\<lparr>rse_Response := Some (zero_rr\<lparr>rr_ID := as_ResponseID s, rr_Object := ''response'',
        rr_Model := as_Model s, rr_Status := ''in_progress'', rr_Output := []\<rparr>)\<rparr>)"

text \<open>The usage of the completed event: cached tokens are added back.\<close>

definition completed_usage :: "as_state \<Rightarrow> ResponsesUsage" where
  "completed_usage s = responsesUsageFromAnthropic
     \<lparr>au_InputTokens = as_InputTokens s, au_OutputTokens = as_OutputTokens s,
      au_CacheCreationInputTokens = as_CacheCreationInputTokens s,
      au_CacheReadInputTokens = as_CacheReadInputTokens s\<rparr>"

definition makeResponsesCompletedEvent :: "string \<Rightarrow> ResponsesIncompleteDetails option \<Rightarrow> as_emitter" where
  "makeResponsesCompletedEvent status incompleteDetails = makeResponsesEvent ''response.completed''
     (\<lambda>s. zero_rse\<lparr>rse_Response := Some (zero_rr\<lparr>rr_ID := as_ResponseID s, rr_Object := ''response'',
        rr_Model := as_Model s, rr_Status := status, rr_Output := [],
        rr_Usage := Some (completed_usage s), rr_IncompleteDetails := incompleteDetails\<rparr>)\<rparr>)"

definition closeCurrentResponsesItem :: as_emitter where
  "closeCurrentResponsesItem s =
     (if as_CurrentItemType s = [] then (s, [])
      else
        (let itemType = as_CurrentItemType s; itemID = as_CurrentItemID s;
             s = s\<lparr>as_CurrentItemType := [], as_CurrentItemID := [], as_CurrentCallID := [],
                   as_CurrentName := [], as_OutputIndex := as_OutputIndex s + 1, as_ContentIndex := 0\<rparr>
         in makeResponsesEvent ''response.output_item.done''
              (\<lambda>s. zero_rse\<lparr>rse_OutputIndex := as_OutputIndex s - 1,
                 rse_Item := Some (zero_ro\<lparr>ro_Type := itemType, ro_ID := itemID,
                   ro_Status := ''completed''\<rparr>)\<rparr>) s))"

section \<open>Handlers\<close>

text \<open>\<open>if x > 0 { state.field = x }\<close>.\<close>

abbreviation pos_or :: "int \<Rightarrow> int \<Rightarrow> int" where
  "pos_or x old \<equiv> if x > 0 then x else old"

definition take_input_usage :: "AnthropicUsage \<Rightarrow> as_state \<Rightarrow> as_state" where
  "take_input_usage u s = s\<lparr>as_InputTokens := pos_or (au_InputTokens u) (as_InputTokens s),
     as_CacheReadInputTokens := pos_or (au_CacheReadInputTokens u) (as_CacheReadInputTokens s),
     as_CacheCreationInputTokens := pos_or (au_CacheCreationInputTokens u) (as_CacheCreationInputTokens s)\<rparr>"

definition anthToResHandleMessageStart :: "AnthropicStreamEvent \<Rightarrow> as_emitter" where
  "anthToResHandleMessageStart evt s =
     (let s = (case ase_Message evt of
                 None \<Rightarrow> s
               | Some m \<Rightarrow>
                   (let s = s\<lparr>as_ResponseID := ar_ID m\<rparr>;
                        s = (if as_Model s = [] then s\<lparr>as_Model := ar_Model m\<rparr> else s)
                    in take_input_usage (ar_Usage m) s))
      in if as_CreatedSent s then (s, [])
         else makeResponsesCreatedEvent (s\<lparr>as_CreatedSent := True\<rparr>))"

definition open_reasoning_item :: "(nat \<Rightarrow> string) \<Rightarrow> as_emitter" where
  "open_reasoning_item gen s = makeResponsesEvent ''response.output_item.added''
     (\<lambda>s. zero_rse\<lparr>rse_OutputIndex := as_OutputIndex s,
        rse_Item := Some (zero_ro\<lparr>ro_Type := ''reasoning'', ro_ID := as_CurrentItemID s\<rparr>)\<rparr>)
     (s\<lparr>as_CurrentItemID := gen (as_draws s), as_draws := Suc (as_draws s),
        as_CurrentItemType := ''reasoning'', as_ContentIndex := 0\<rparr>)"

definition open_message_item :: "(nat \<Rightarrow> string) \<Rightarrow> as_emitter" where
  "open_message_item gen s = makeResponsesEvent ''response.output_item.added''
     (\<lambda>s. zero_rse\<lparr>rse_OutputIndex := as_OutputIndex s,
        rse_Item := Some (zero_ro\<lparr>ro_Type := ''message'', ro_ID := as_CurrentItemID s,
          ro_Role := ''assistant'', ro_Status := ''in_progress''\<rparr>)\<rparr>)
     (s\<lparr>as_CurrentItemID := gen (as_draws s), as_draws := Suc (as_draws s),
        as_CurrentItemType := ''message'', as_ContentIndex := 0\<rparr>)"

definition open_function_item :: "(nat \<Rightarrow> string) \<Rightarrow> AnthropicContentBlock \<Rightarrow> as_emitter" where
  "open_function_item gen block s = makeResponsesEvent ''response.output_item.added''
     (\<lambda>s. zero_rse\<lparr>rse_OutputIndex := as_OutputIndex s,
        rse_Item := Some (zero_ro\<lparr>ro_Type := ''function_call'', ro_ID := as_CurrentItemID s,
          ro_CallID := as_CurrentCallID s, ro_Name := as_CurrentName s, ro_Status := ''in_progress''\<rparr>)\<rparr>)
     (s\<lparr>as_CurrentItemID := gen (as_draws s), as_draws := Suc (as_draws s),
        as_CurrentItemType := ''function_call'',
        as_CurrentCallID := toResponsesCallID (acb_ID block), as_CurrentName := acb_Name block\<rparr>)"

definition anthToResHandleContentBlockStart :: "(nat \<Rightarrow> string) \<Rightarrow> AnthropicStreamEvent \<Rightarrow> as_emitter" where
  "anthToResHandleContentBlockStart gen evt s =
     (case ase_ContentBlock evt of
        None \<Rightarrow> (s, [])
      | Some block \<Rightarrow>
          (if acb_Type block = ''thinking'' then open_reasoning_item gen s
           else if acb_Type block = ''text'' then
             (if as_CurrentItemType s \<noteq> ''message'' then open_message_item gen s else (s, []))
           else if acb_Type block = ''tool_use'' then
             emit_seq closeCurrentResponsesItem (open_function_item gen block) s
           else (s, [])))"

definition anthToResHandleContentBlockDelta :: "AnthropicStreamEvent \<Rightarrow> as_emitter" where
  "anthToResHandleContentBlockDelta evt s =
     (case ase_Delta evt of
        None \<Rightarrow> (s, [])
      | Some d \<Rightarrow>
          (if ad_Type d = ''text_delta'' then
             (if ad_Text d = [] then (s, [])
              else makeResponsesEvent ''response.output_text.delta''
                (\<lambda>s. zero_rse\<lparr>rse_OutputIndex := as_OutputIndex s, rse_ContentIndex := as_ContentIndex s,
                   rse_Delta := ad_Text d, rse_ItemID := as_CurrentItemID s\<rparr>) s)
           else if ad_Type d = ''thinking_delta'' then
             (if ad_Thinking d = [] then (s, [])
              else makeResponsesEvent ''response.reasoning_summary_text.delta''
                (\<lambda>s. zero_rse\<lparr>rse_OutputIndex := as_OutputIndex s, rse_SummaryIndex := 0,
                   rse_Delta := ad_Thinking d, rse_ItemID := as_CurrentItemID s\<rparr>) s)
           else if ad_Type d = ''input_json_delta'' then
             (if ad_PartialJSON d = [] then (s, [])
              else makeResponsesEvent ''response.function_call_arguments.delta''
                (\<lambda>s. zero_rse\<lparr>rse_OutputIndex := as_OutputIndex s, rse_Delta := ad_PartialJSON d,
                   rse_ItemID := as_CurrentItemID s, rse_CallID := as_CurrentCallID s,
                   rse_Name := as_CurrentName s\<rparr>) s)
           else (s, [])))"

definition anthToResHandleContentBlockStop :: as_emitter where
  "anthToResHandleContentBlockStop s =
     (if as_CurrentItemType s = ''reasoning'' then
        emit_seq
          (makeResponsesEvent ''response.reasoning_summary_text.done''
            (\<lambda>s. zero_rse\<lparr>rse_OutputIndex := as_OutputIndex s, rse_SummaryIndex := 0,
               rse_ItemID := as_CurrentItemID s\<rparr>))
          closeCurrentResponsesItem s
      else if as_CurrentItemType s = ''function_call'' then
        emit_seq
          (makeResponsesEvent ''response.function_call_arguments.done''
            (\<lambda>s. zero_rse\<lparr>rse_OutputIndex := as_OutputIndex s, rse_ItemID := as_CurrentItemID s,
               rse_CallID := as_CurrentCallID s, rse_Name := as_CurrentName s\<rparr>))
          closeCurrentResponsesItem s
      else if as_CurrentItemType s = ''message'' then
        makeResponsesEvent ''response.output_text.done''
          (\<lambda>s. zero_rse\<lparr>rse_OutputIndex := as_OutputIndex s, rse_ContentIndex := as_ContentIndex s,
             rse_ItemID := as_CurrentItemID s\<rparr>) s
      else (s, []))"

definition anthToResHandleMessageDelta :: "AnthropicStreamEvent \<Rightarrow> as_emitter" where
  "anthToResHandleMessageDelta evt s =
     (case ase_Usage evt of
        None \<Rightarrow> (s, [])
      | Some u \<Rightarrow> (take_input_usage u (s\<lparr>as_OutputTokens := au_OutputTokens u\<rparr>), []))"

definition anthToResHandleMessageStop :: as_emitter where
  "anthToResHandleMessageStop s =
     (if as_CompletedSent s then (s, [])
      else emit_seq closeCurrentResponsesItem
        (\<lambda>s. let (s, evts) = makeResponsesCompletedEvent ''completed'' None s
             in (s\<lparr>as_CompletedSent := True\<rparr>, evts)) s)"

definition FinalizeAnthropicResponsesStream :: as_emitter where
  "FinalizeAnthropicResponsesStream s =
     (if \<not> as_CreatedSent s \<or> as_CompletedSent s then (s, [])
      else emit_seq closeCurrentResponsesItem
        (\<lambda>s. let (s, evts) = makeResponsesCompletedEvent ''completed'' None s
             in (s\<lparr>as_CompletedSent := True\<rparr>, evts)) s)"

definition AnthropicEventToResponsesEvents ::
  "(nat \<Rightarrow> string) \<Rightarrow> as_state \<Rightarrow> AnthropicStreamEvent \<Rightarrow> as_state \<times> ResponsesStreamEvent list" where
  "AnthropicEventToResponsesEvents gen s evt =
     (let t = ase_Type evt in
      if t = ''message_start'' then anthToResHandleMessageStart evt s
      else if t = ''content_block_start'' then anthToResHandleContentBlockStart gen evt s
      else if t = ''content_block_delta'' then anthToResHandleContentBlockDelta evt s
      else if t = ''content_block_stop'' then anthToResHandleContentBlockStop s
      else if t = ''message_delta'' then anthToResHandleMessageDelta evt s
      else if t = ''message_stop'' then anthToResHandleMessageStop s
      else (s, []))"

text \<open>Case analysis on the dispatch: one case per handler.\<close>

lemma as_dispatch:
  assumes "ase_Type e = ''message_start'' \<Longrightarrow> P (anthToResHandleMessageStart e s)"
    and "ase_Type e = ''content_block_start'' \<Longrightarrow> P (anthToResHandleContentBlockStart gen e s)"
    and "ase_Type e = ''content_block_delta'' \<Longrightarrow> P (anthToResHandleContentBlockDelta e s)"
    and "ase_Type e = ''content_block_stop'' \<Longrightarrow> P (anthToResHandleContentBlockStop s)"
    and "ase_Type e = ''message_delta'' \<Longrightarrow> P (anthToResHandleMessageDelta e s)"
    and "ase_Type e = ''message_stop'' \<Longrightarrow> P (anthToResHandleMessageStop s)"
    and "ase_Type e \<noteq> ''message_start'' \<Longrightarrow> ase_Type e \<noteq> ''content_block_start'' \<Longrightarrow>
      ase_Type e \<noteq> ''content_block_delta'' \<Longrightarrow> ase_Type e \<noteq> ''content_block_stop'' \<Longrightarrow>
      ase_Type e \<noteq> ''message_delta'' \<Longrightarrow> ase_Type e \<noteq> ''message_stop'' \<Longrightarrow> P (s, [])"
  shows "P (AnthropicEventToResponsesEvents gen s e)"
  unfolding AnthropicEventToResponsesEvents_def Let_def
  by (rule if_chain6 [where P = P]; (rule assms; assumption))

section \<open>Sequence numbers\<close>

abbreviation as_numbered :: "as_emitter \<Rightarrow> bool" where
  "as_numbered h \<equiv> \<forall>s. run_check seq_check (as_SequenceNumber s) (snd (h s)) = Some (as_SequenceNumber (fst (h s)))"

lemma make_numbered [simp]:
  "run_check seq_check (as_SequenceNumber s) (snd (makeResponsesEvent t f s)) =
     Some (as_SequenceNumber (fst (makeResponsesEvent t f s)))"
  by (simp add: makeResponsesEvent_def seq_check_def)

lemma close_numbered: "as_numbered closeCurrentResponsesItem"
proof
  fix s
  show "run_check seq_check (as_SequenceNumber s) (snd (closeCurrentResponsesItem s)) =
    Some (as_SequenceNumber (fst (closeCurrentResponsesItem s)))"
    by (simp add: closeCurrentResponsesItem_def makeResponsesEvent_def seq_check_def Let_def)
qed

lemma start_numbered: "as_numbered (anthToResHandleMessageStart e)"
  by (simp add: anthToResHandleMessageStart_def makeResponsesCreatedEvent_def makeResponsesEvent_def
      take_input_usage_def seq_check_def Let_def split: option.split)

lemma block_start_numbered: "as_numbered (anthToResHandleContentBlockStart gen e)"
  using close_numbered
  by (simp add: anthToResHandleContentBlockStart_def open_reasoning_item_def open_message_item_def
      open_function_item_def makeResponsesEvent_def seq_check_def split: option.split)

lemma block_delta_numbered: "as_numbered (anthToResHandleContentBlockDelta e)"
  by (simp add: anthToResHandleContentBlockDelta_def split: option.split)

lemma block_stop_numbered: "as_numbered anthToResHandleContentBlockStop"
  using close_numbered by (simp add: anthToResHandleContentBlockStop_def)

lemma message_delta_numbered: "as_numbered (anthToResHandleMessageDelta e)"
  by (simp add: anthToResHandleMessageDelta_def take_input_usage_def split: option.split)

lemma message_stop_numbered: "as_numbered anthToResHandleMessageStop"
  using close_numbered
  by (simp add: anthToResHandleMessageStop_def makeResponsesCompletedEvent_def makeResponsesEvent_def
      seq_check_def Let_def)

lemma finalize_numbered: "as_numbered FinalizeAnthropicResponsesStream"
  using close_numbered
  by (simp add: FinalizeAnthropicResponsesStream_def makeResponsesCompletedEvent_def makeResponsesEvent_def
      seq_check_def Let_def)

interpretation as_seq: finalized_converter
  "AnthropicEventToResponsesEvents gen" seq_check as_SequenceNumber "\<lambda>_. True"
  FinalizeAnthropicResponsesStream as_CompletedSent for gen
proof (unfold_locales, goal_cases)
  case (2 s e)
  show ?case
    by (rule as_dispatch [where P = "\<lambda>r. run_check seq_check (as_SequenceNumber s) (snd r) = Some (as_SequenceNumber (fst r))"])
      (simp_all add: start_numbered [rule_format] block_start_numbered [rule_format]
        block_delta_numbered [rule_format] block_stop_numbered [rule_format]
        message_delta_numbered [rule_format] message_stop_numbered [rule_format])
next
  case (3 s)
  show ?case by (rule finalize_numbered [rule_format])
qed (simp_all add: FinalizeAnthropicResponsesStream_def)

definition a2r_stream :: "(nat \<Rightarrow> string) \<Rightarrow> int \<Rightarrow> AnthropicStreamEvent list \<Rightarrow> as_state \<times> ResponsesStreamEvent list" where
  "a2r_stream gen now es =
     emit_seq (\<lambda>s. run_stream (AnthropicEventToResponsesEvents gen) s es) FinalizeAnthropicResponsesStream
       (NewAnthropicEventToResponsesState now)"

text \<open>
  whatever the upstream sends, the events the client receives, those of the finalizer
  included, are numbered 0, 1, 2 and so on without gap or repetition.
\<close>

theorem a2r_sequence_numbers:
  "map rse_SequenceNumber (snd (a2r_stream gen now es)) = map int [0..<length (snd (a2r_stream gen now es))]"
proof -
  have "run_check seq_check 0 (snd (a2r_stream gen now es)) = Some (as_SequenceNumber (fst (a2r_stream gen now es)))"
    using as_seq.stream_checked [of "NewAnthropicEventToResponsesState now" gen es]
    by (simp add: a2r_stream_def NewAnthropicEventToResponsesState_def)
  from seq_check_numbers [OF this] show ?thesis by simp
qed

section \<open>Created, completed, and the payload\<close>

lemma observe_make [simp]:
  "filter is_created (snd (makeResponsesEvent t f s)) =
     (if t = ''response.created'' then snd (makeResponsesEvent t f s) else [])"
  "filter is_completed (snd (makeResponsesEvent t f s)) =
     (if t = ''response.completed'' then snd (makeResponsesEvent t f s) else [])"
  "concat (map resp_text_out (snd (makeResponsesEvent t f s))) =
     (if t = ''response.output_text.delta'' then rse_Delta (f s) else [])"
  "concat (map resp_reasoning_out (snd (makeResponsesEvent t f s))) =
     (if t = ''response.reasoning_summary_text.delta'' then rse_Delta (f s) else [])"
  "concat (map resp_args_out (snd (makeResponsesEvent t f s))) =
     (if t = ''response.function_call_arguments.delta'' then rse_Delta (f s) else [])"
  "length (snd (makeResponsesEvent t f s)) = 1"
  by (simp_all add: makeResponsesEvent_def is_created_def is_completed_def resp_text_out_def
      resp_reasoning_out_def resp_args_out_def)

lemma make_flags [simp]:
  "as_CreatedSent (fst (makeResponsesEvent t f s)) = as_CreatedSent s"
  "as_CompletedSent (fst (makeResponsesEvent t f s)) = as_CompletedSent s"
  by (simp_all add: makeResponsesEvent_def)

text \<open>What a handler says on each of the three channels, and its effect on the two flags.\<close>

definition as_says :: "as_emitter \<Rightarrow> string \<Rightarrow> string \<Rightarrow> string \<Rightarrow> bool" where
  "as_says h text reasoning args \<longleftrightarrow> (\<forall>s. concat (map resp_text_out (snd (h s))) = text \<and>
     concat (map resp_reasoning_out (snd (h s))) = reasoning \<and>
     concat (map resp_args_out (snd (h s))) = args)"

definition as_quiet :: "as_emitter \<Rightarrow> bool" where
  "as_quiet h \<longleftrightarrow> (\<forall>s. filter is_created (snd (h s)) = [] \<and> filter is_completed (snd (h s)) = [] \<and>
     as_CreatedSent (fst (h s)) = as_CreatedSent s \<and> as_CompletedSent (fst (h s)) = as_CompletedSent s)"

lemma as_quietD:
  assumes "as_quiet h"
  shows "filter is_created (snd (h s)) = []" "filter is_completed (snd (h s)) = []"
    "as_CreatedSent (fst (h s)) = as_CreatedSent s" "as_CompletedSent (fst (h s)) = as_CompletedSent s"
  using assms by (simp_all add: as_quiet_def)

lemma as_saysD:
  assumes "as_says h t r a"
  shows "concat (map resp_text_out (snd (h s))) = t" "concat (map resp_reasoning_out (snd (h s))) = r"
    "concat (map resp_args_out (snd (h s))) = a"
  using assms by (simp_all add: as_says_def)

lemma close_quiet: "as_quiet closeCurrentResponsesItem" "as_says closeCurrentResponsesItem [] [] []"
  by (simp_all add: as_quiet_def as_says_def closeCurrentResponsesItem_def Let_def del: concat_eq_Nil_conv)

lemmas as_close_D [simp] = as_quietD [OF close_quiet(1)] as_saysD [OF close_quiet(2)]

lemma opens_quiet [simp]:
  "as_quiet (open_reasoning_item gen)" "as_says (open_reasoning_item gen) [] [] []"
  "as_quiet (open_message_item gen)" "as_says (open_message_item gen) [] [] []"
  "as_quiet (open_function_item gen b)" "as_says (open_function_item gen b) [] [] []"
  by (simp_all add: as_quiet_def as_says_def open_reasoning_item_def open_message_item_def
      open_function_item_def del: concat_eq_Nil_conv)

lemma block_start_quiet:
  "as_quiet (anthToResHandleContentBlockStart gen e)" "as_says (anthToResHandleContentBlockStart gen e) [] [] []"
  using opens_quiet [of gen]
  by (simp_all add: as_quiet_def as_says_def anthToResHandleContentBlockStart_def del: concat_eq_Nil_conv
      split: option.split)

lemma block_stop_quiet:
  "as_quiet anthToResHandleContentBlockStop" "as_says anthToResHandleContentBlockStop [] [] []"
  by (simp_all add: as_quiet_def as_says_def anthToResHandleContentBlockStop_def del: concat_eq_Nil_conv)

lemma message_delta_quiet:
  "as_quiet (anthToResHandleMessageDelta e)" "as_says (anthToResHandleMessageDelta e) [] [] []"
  by (simp_all add: as_quiet_def as_says_def anthToResHandleMessageDelta_def take_input_usage_def split: option.split)

lemma block_delta_quiet: "as_quiet (anthToResHandleContentBlockDelta e)"
  by (simp add: as_quiet_def anthToResHandleContentBlockDelta_def split: option.split)

text \<open>The text, thinking and tool arguments an upstream event carries.\<close>

definition anth_delta_in :: "string \<Rightarrow> (AnthropicDelta \<Rightarrow> string) \<Rightarrow> AnthropicStreamEvent \<Rightarrow> string" where
  "anth_delta_in ty field e =
     (if ase_Type e = ''content_block_delta''
      then (case ase_Delta e of None \<Rightarrow> [] | Some d \<Rightarrow> if ad_Type d = ty then field d else []) else [])"

lemma block_delta_says:
  assumes "ase_Type e = ''content_block_delta''"
  shows "as_says (anthToResHandleContentBlockDelta e) (anth_delta_in ''text_delta'' ad_Text e)
    (anth_delta_in ''thinking_delta'' ad_Thinking e) (anth_delta_in ''input_json_delta'' ad_PartialJSON e)"
  using assms
  by (simp add: as_says_def anthToResHandleContentBlockDelta_def anth_delta_in_def del: concat_eq_Nil_conv
      split: option.split)

lemma start_flags:
  "as_says (anthToResHandleMessageStart e) [] [] []"
  "filter is_completed (snd (anthToResHandleMessageStart e s)) = []"
  "as_CompletedSent (fst (anthToResHandleMessageStart e s)) = as_CompletedSent s"
  "length (filter is_created (snd (anthToResHandleMessageStart e s))) + of_bool (as_CreatedSent s) = 1"
  "as_CreatedSent (fst (anthToResHandleMessageStart e s))"
  by (simp_all add: as_says_def anthToResHandleMessageStart_def makeResponsesCreatedEvent_def take_input_usage_def
      Let_def del: concat_eq_Nil_conv split: option.split)

lemma stop_flags:
  "as_says anthToResHandleMessageStop [] [] []"
  "filter is_created (snd (anthToResHandleMessageStop s)) = []"
  "as_CreatedSent (fst (anthToResHandleMessageStop s)) = as_CreatedSent s"
  "length (filter is_completed (snd (anthToResHandleMessageStop s))) + of_bool (as_CompletedSent s) = 1"
  "as_CompletedSent (fst (anthToResHandleMessageStop s))"
  by (simp_all add: as_says_def anthToResHandleMessageStop_def makeResponsesCompletedEvent_def split_beta
      Let_def del: concat_eq_Nil_conv)

lemmas as_step_D = as_quietD [OF block_start_quiet(1)] as_quietD [OF block_stop_quiet(1)]
  as_quietD [OF message_delta_quiet(1)] as_quietD [OF block_delta_quiet] start_flags(2-) stop_flags(2-)

lemmas as_step_S = as_saysD [OF block_start_quiet(2)] as_saysD [OF block_stop_quiet(2)]
  as_saysD [OF message_delta_quiet(2)] as_saysD [OF start_flags(1)] as_saysD [OF stop_flags(1)]
  as_saysD [OF block_delta_says]

interpretation as_created: latched_converter
  "AnthropicEventToResponsesEvents gen" as_CreatedSent is_created for gen
proof
  fix s e
  show "count_if is_created (snd (AnthropicEventToResponsesEvents gen s e)) + of_bool (as_CreatedSent s) =
    of_bool (as_CreatedSent (fst (AnthropicEventToResponsesEvents gen s e)))"
    by (rule as_dispatch) (simp_all add: as_step_D)
qed

interpretation as_completed: latched_converter
  "AnthropicEventToResponsesEvents gen" as_CompletedSent is_completed for gen
proof
  fix s e
  show "count_if is_completed (snd (AnthropicEventToResponsesEvents gen s e)) + of_bool (as_CompletedSent s) =
    of_bool (as_CompletedSent (fst (AnthropicEventToResponsesEvents gen s e)))"
    by (rule as_dispatch) (simp_all add: as_step_D)
qed

lemma as_step_says:
  "as_says (\<lambda>s. AnthropicEventToResponsesEvents gen s e) (anth_delta_in ''text_delta'' ad_Text e)
    (anth_delta_in ''thinking_delta'' ad_Thinking e) (anth_delta_in ''input_json_delta'' ad_PartialJSON e)"
  unfolding as_says_def
  by (intro allI, rule as_dispatch) (simp_all add: as_step_S anth_delta_in_def del: concat_eq_Nil_conv)

interpretation as_text: payload_converter
  "AnthropicEventToResponsesEvents gen" "anth_delta_in ''text_delta'' ad_Text" resp_text_out for gen
  by unfold_locales (rule as_saysD(1) [OF as_step_says])

interpretation as_thinking: payload_converter
  "AnthropicEventToResponsesEvents gen" "anth_delta_in ''thinking_delta'' ad_Thinking" resp_reasoning_out for gen
  by unfold_locales (rule as_saysD(2) [OF as_step_says])

interpretation as_args: payload_converter
  "AnthropicEventToResponsesEvents gen" "anth_delta_in ''input_json_delta'' ad_PartialJSON" resp_args_out for gen
  by unfold_locales (rule as_saysD(3) [OF as_step_says])

lemma finalize_says: "as_says FinalizeAnthropicResponsesStream [] [] []"
  by (simp add: as_says_def FinalizeAnthropicResponsesStream_def makeResponsesCompletedEvent_def split_beta
      Let_def del: concat_eq_Nil_conv)

text \<open>
  text, thinking and tool arguments reach the client byte for byte and in order, whatever the
  upstream sends, and the finalizer adds nothing to them.
\<close>

theorem a2r_payload_preserved:
  "collect resp_text_out (snd (a2r_stream gen now es)) = collect (anth_delta_in ''text_delta'' ad_Text) es \<and>
   collect resp_reasoning_out (snd (a2r_stream gen now es)) = collect (anth_delta_in ''thinking_delta'' ad_Thinking) es \<and>
   collect resp_args_out (snd (a2r_stream gen now es)) = collect (anth_delta_in ''input_json_delta'' ad_PartialJSON) es"
  by (simp add: a2r_stream_def as_text.run_payload as_thinking.run_payload as_args.run_payload
      as_saysD [OF finalize_says] del: concat_eq_Nil_conv)

section \<open>Output items\<close>

text \<open>
  The upstream protocol the converter is written for: blocks one after the other, deltas inside
  a block of their kind, the message closed when no block is open and nothing after that, and
  thinking only where no text block has come since the last tool call. The state is the type of
  the open block, whether a text block has started since the last tool call, and whether the
  message is over.
\<close>

record anth_feed =
  af_open :: "string option"
  af_texted :: bool
  af_stopped :: bool

definition anth_feed_check :: "anth_feed \<Rightarrow> AnthropicStreamEvent \<Rightarrow> anth_feed option" where
  "anth_feed_check h e =
     (let t = ase_Type e in
      if af_stopped h then None
      else if t = ''content_block_start'' then
        (case ase_ContentBlock e of
           None \<Rightarrow> None
         | Some b \<Rightarrow>
             (if af_open h \<noteq> None \<or> acb_Type b = ''thinking'' \<and> af_texted h then None
              else Some (h\<lparr>af_open := Some (acb_Type b),
                af_texted := (acb_Type b = ''text'' \<or> af_texted h \<and> acb_Type b \<noteq> ''tool_use'')\<rparr>)))
      else if t = ''content_block_stop'' then
        (if af_open h = None then None else Some (h\<lparr>af_open := None\<rparr>))
      else if t = ''content_block_delta'' then
        (case ase_Delta e of
           None \<Rightarrow> None
         | Some d \<Rightarrow>
             (if ad_Type d = ''text_delta'' \<and> af_open h \<noteq> Some ''text''
               \<or> ad_Type d = ''thinking_delta'' \<and> af_open h \<noteq> Some ''thinking''
               \<or> ad_Type d = ''input_json_delta'' \<and> af_open h \<noteq> Some ''tool_use'' then None
              else Some h))
      else if t = ''message_delta'' then (if af_open h = None then Some h else None)
      else if t = ''message_stop'' then (if af_open h = None then Some (h\<lparr>af_stopped := True\<rparr>) else None)
      else Some h)"

definition new_feed :: anth_feed where
  "new_feed = \<lparr>af_open = None, af_texted = False, af_stopped = False\<rparr>"

text \<open>The item the converter holds open, and the automaton's view of it.\<close>

definition as_item_type :: "anth_feed \<Rightarrow> string" where
  "as_item_type h =
     (if af_stopped h then []
      else if af_open h = Some ''thinking'' then ''reasoning''
      else if af_open h = Some ''tool_use'' then ''function_call''
      else if af_texted h then ''message'' else [])"

definition as_items :: "as_state \<Rightarrow> items_view" where
  "as_items s =
     (if as_CurrentItemType s = [] then (as_OutputIndex s, [])
      else (as_OutputIndex s + 1, [(as_OutputIndex s, as_CurrentItemType s, as_CurrentItemID s)]))"

text \<open>What the protocol implies about its own state.\<close>

definition feed_ok :: "anth_feed \<Rightarrow> bool" where
  "feed_ok h \<longleftrightarrow> (af_open h = Some ''text'' \<longrightarrow> af_texted h) \<and>
     (af_open h = Some ''thinking'' \<or> af_open h = Some ''tool_use'' \<longrightarrow> \<not> af_texted h)"

lemma feed_ok_step: "feed_ok h \<Longrightarrow> anth_feed_check h e = Some h' \<Longrightarrow> feed_ok h'"
  by (auto simp: feed_ok_def anth_feed_check_def Let_def split: option.splits if_splits)

definition as_rel :: "anth_feed \<Rightarrow> as_state \<Rightarrow> items_view \<Rightarrow> bool" where
  "as_rel h s g \<longleftrightarrow> g = as_items s \<and> as_CurrentItemType s = as_item_type h \<and> feed_ok h \<and>
     as_CompletedSent s = af_stopped h"

lemma item_check_make:
  "run_check item_check g (snd (makeResponsesEvent t f s)) =
     item_check g ((f s)\<lparr>rse_Type := t, rse_SequenceNumber := as_SequenceNumber s\<rparr>)"
  by (simp add: makeResponsesEvent_def split: option.split)

lemma close_items [simp]:
  "run_check item_check (as_items s) (snd (closeCurrentResponsesItem s)) =
     Some (as_items (fst (closeCurrentResponsesItem s)))"
  "as_CurrentItemType (fst (closeCurrentResponsesItem s)) = []"
  by (simp_all add: closeCurrentResponsesItem_def as_items_def Let_def item_check_make item_check_def
      makeResponsesEvent_def zero_defs)

lemma as_items_closed: "as_CurrentItemType s = [] \<Longrightarrow> as_items s = (as_OutputIndex s, [])"
  by (simp add: as_items_def)

lemma open_items:
  assumes "as_CurrentItemType s = []"
  shows "run_check item_check (as_items s) (snd (open_reasoning_item gen s)) = Some (as_items (fst (open_reasoning_item gen s)))"
    "run_check item_check (as_items s) (snd (open_message_item gen s)) = Some (as_items (fst (open_message_item gen s)))"
    "run_check item_check (as_items s) (snd (open_function_item gen b s)) = Some (as_items (fst (open_function_item gen b s)))"
    "as_CurrentItemType (fst (open_reasoning_item gen s)) = ''reasoning''"
    "as_CurrentItemType (fst (open_message_item gen s)) = ''message''"
    "as_CurrentItemType (fst (open_function_item gen b s)) = ''function_call''"
  using assms
  by (simp_all add: open_reasoning_item_def open_message_item_def open_function_item_def as_items_def
      item_check_make item_check_def makeResponsesEvent_def zero_defs Let_def)

lemma scoped_make:
  assumes "item_scope t = Some (as_CurrentItemType s)" and "as_CurrentItemType s \<noteq> []"
    and "t \<noteq> ''response.output_item.added''" "t \<noteq> ''response.output_item.done''" "t \<noteq> ''response.completed''"
    and "rse_OutputIndex (f s) = as_OutputIndex s" "rse_ItemID (f s) = as_CurrentItemID s"
  shows "run_check item_check (as_items s) (snd (makeResponsesEvent t f s)) = Some (as_items s)"
    "as_items (fst (makeResponsesEvent t f s)) = as_items s"
    "as_CurrentItemType (fst (makeResponsesEvent t f s)) = as_CurrentItemType s"
  using assms
  by (simp_all add: item_check_make item_check_def as_items_def makeResponsesEvent_def Let_def)

lemma scoped_make_close:
  assumes "item_scope t = Some (as_CurrentItemType s)" and "as_CurrentItemType s \<noteq> []"
    and "t \<noteq> ''response.output_item.added''" "t \<noteq> ''response.output_item.done''" "t \<noteq> ''response.completed''"
    and "rse_OutputIndex (f s) = as_OutputIndex s" "rse_ItemID (f s) = as_CurrentItemID s"
  shows "run_check item_check (as_items s) (snd (emit_seq (makeResponsesEvent t f) closeCurrentResponsesItem s)) =
      Some (as_items (fst (emit_seq (makeResponsesEvent t f) closeCurrentResponsesItem s)))"
  using scoped_make [of t s f, OF assms] close_items(1) [of "fst (makeResponsesEvent t f s)"] by simp

lemma item_scope_simps [simp]:
  "item_scope ''response.output_text.delta'' = Some ''message''"
  "item_scope ''response.output_text.done'' = Some ''message''"
  "item_scope ''response.reasoning_summary_text.delta'' = Some ''reasoning''"
  "item_scope ''response.reasoning_summary_text.done'' = Some ''reasoning''"
  "item_scope ''response.function_call_arguments.delta'' = Some ''function_call''"
  "item_scope ''response.function_call_arguments.done'' = Some ''function_call''"
  "item_scope ''response.created'' = None"
  by (simp_all add: item_scope_def)

text \<open>Each handler, on an upstream event the protocol allows.\<close>

abbreviation as_follows :: "anth_feed \<Rightarrow> as_state \<Rightarrow> as_state \<times> ResponsesStreamEvent list \<Rightarrow> bool" where
  "as_follows h' s r \<equiv> run_check item_check (as_items s) (snd r) = Some (as_items (fst r)) \<and>
     as_CurrentItemType (fst r) = as_item_type h'"

lemma block_start_items:
  assumes "ase_Type e = ''content_block_start''" "anth_feed_check h e = Some h'"
    and "as_CurrentItemType s = as_item_type h"
  shows "as_follows h' s (anthToResHandleContentBlockStart gen e s)"
proof -
  obtain b where b: "ase_ContentBlock e = Some b"
    using assms(1,2) by (auto simp: anth_feed_check_def Let_def split: option.splits if_splits)
  with assms(1,2) have h: "\<not> af_stopped h" "af_open h = None" "acb_Type b = ''thinking'' \<Longrightarrow> \<not> af_texted h"
    and h': "h' = h\<lparr>af_open := Some (acb_Type b),
      af_texted := (acb_Type b = ''text'' \<or> af_texted h \<and> acb_Type b \<noteq> ''tool_use'')\<rparr>"
    by (simp_all add: anth_feed_check_def Let_def split: if_splits)
  note simps = anthToResHandleContentBlockStart_def b as_item_type_def h h' open_items
  consider "acb_Type b = ''thinking''" | "acb_Type b = ''text''" | "acb_Type b = ''tool_use''"
    | "acb_Type b \<noteq> ''thinking''" "acb_Type b \<noteq> ''text''" "acb_Type b \<noteq> ''tool_use''" by blast
  then show ?thesis
  proof cases
    case 1
    with assms(3) show ?thesis by (simp add: simps)
  next
    case 2
    with assms(3) show ?thesis by (simp add: simps split: if_splits)
  next
    case 3
    with assms(3) show ?thesis by (simp add: simps)
  next
    case 4
    with assms(3) show ?thesis by (simp add: simps)
  qed
qed

lemma block_delta_items:
  assumes "ase_Type e = ''content_block_delta''" "anth_feed_check h e = Some h'"
    and "as_CurrentItemType s = as_item_type h" and "feed_ok h"
  shows "as_follows h' s (anthToResHandleContentBlockDelta e s)"
proof -
  obtain d where d: "ase_Delta e = Some d"
    using assms(1,2) by (auto simp: anth_feed_check_def Let_def split: option.splits if_splits)
  with assms(1,2) have h: "\<not> af_stopped h" "h' = h"
    "ad_Type d = ''text_delta'' \<Longrightarrow> af_open h = Some ''text''"
    "ad_Type d = ''thinking_delta'' \<Longrightarrow> af_open h = Some ''thinking''"
    "ad_Type d = ''input_json_delta'' \<Longrightarrow> af_open h = Some ''tool_use''"
    by (simp_all add: anth_feed_check_def Let_def split: if_splits)
  note simps = anthToResHandleContentBlockDelta_def d as_item_type_def h scoped_make zero_rse_def
  consider "ad_Type d = ''text_delta''" | "ad_Type d = ''thinking_delta''" | "ad_Type d = ''input_json_delta''"
    | "ad_Type d \<noteq> ''text_delta''" "ad_Type d \<noteq> ''thinking_delta''" "ad_Type d \<noteq> ''input_json_delta''" by blast
  then show ?thesis
  proof cases
    case 1
    with h(3) assms(4) have "af_texted h" by (simp add: feed_ok_def)
    with 1 assms(3) show ?thesis by (simp add: simps)
  next
    case 2
    with assms(3) show ?thesis by (simp add: simps)
  next
    case 3
    with assms(3) show ?thesis by (simp add: simps)
  next
    case 4
    with assms(3) show ?thesis by (simp add: simps)
  qed
qed

lemma block_stop_items:
  assumes "ase_Type e = ''content_block_stop''" "anth_feed_check h e = Some h'"
    and "as_CurrentItemType s = as_item_type h" and "feed_ok h"
  shows "as_follows h' s (anthToResHandleContentBlockStop s)"
proof -
  from assms(1,2) have h: "\<not> af_stopped h" "h' = h\<lparr>af_open := None\<rparr>"
    by (simp_all add: anth_feed_check_def Let_def split: if_splits)
  note simps = anthToResHandleContentBlockStop_def as_item_type_def h scoped_make scoped_make_close
    zero_rse_def feed_ok_def
  consider "af_open h = Some ''thinking''" | "af_open h = Some ''tool_use''"
    | "af_open h \<noteq> Some ''thinking''" "af_open h \<noteq> Some ''tool_use''" by blast
  then show ?thesis
  proof cases
    case 1
    with assms(3,4) show ?thesis by (simp add: simps del: fst_emit_seq snd_emit_seq) simp
  next
    case 2
    with assms(3,4) show ?thesis by (simp add: simps del: fst_emit_seq snd_emit_seq) simp
  next
    case 3
    with assms(3) show ?thesis by (simp add: simps)
  qed
qed

lemma message_start_items:
  "run_check item_check (as_items s) (snd (anthToResHandleMessageStart e s)) =
     Some (as_items (fst (anthToResHandleMessageStart e s)))"
  "as_CurrentItemType (fst (anthToResHandleMessageStart e s)) = as_CurrentItemType s"
  by (simp_all add: anthToResHandleMessageStart_def makeResponsesCreatedEvent_def take_input_usage_def
      item_check_make item_check_def as_items_def makeResponsesEvent_def zero_rse_def Let_def split: option.split)

lemma message_delta_items:
  "run_check item_check (as_items s) (snd (anthToResHandleMessageDelta e s)) =
     Some (as_items (fst (anthToResHandleMessageDelta e s)))"
  "as_CurrentItemType (fst (anthToResHandleMessageDelta e s)) = as_CurrentItemType s"
  by (simp_all add: anthToResHandleMessageDelta_def take_input_usage_def as_items_def split: option.split)

text \<open>The closing sequence shared by \<open>message_stop\<close> and the finalizer.\<close>

lemma closing_items:
  "run_check item_check (as_items s) (snd (emit_seq closeCurrentResponsesItem
      (\<lambda>s. let (s, evts) = makeResponsesCompletedEvent st d s in (s\<lparr>as_CompletedSent := True\<rparr>, evts)) s)) =
    Some (as_items (fst (emit_seq closeCurrentResponsesItem
      (\<lambda>s. let (s, evts) = makeResponsesCompletedEvent st d s in (s\<lparr>as_CompletedSent := True\<rparr>, evts)) s)))"
  "as_CurrentItemType (fst (emit_seq closeCurrentResponsesItem
      (\<lambda>s. let (s, evts) = makeResponsesCompletedEvent st d s in (s\<lparr>as_CompletedSent := True\<rparr>, evts)) s)) = []"
  by (simp_all add: as_items_closed makeResponsesCompletedEvent_def split_beta Let_def item_check_make
      item_check_def makeResponsesEvent_def zero_rse_def)

interpretation as_protocol: protocol_converter
  "AnthropicEventToResponsesEvents gen" anth_feed_check item_check as_rel for gen
proof
  fix h s g e h'
  assume rel: "as_rel h s g" and feed: "anth_feed_check h e = Some h'"
  from rel have view: "g = as_items s" "as_CurrentItemType s = as_item_type h" "feed_ok h"
    "as_CompletedSent s = af_stopped h" by (simp_all add: as_rel_def)
  have running: "\<not> af_stopped h" using feed by (auto simp: anth_feed_check_def Let_def)
  have "as_follows h' s (AnthropicEventToResponsesEvents gen s e) \<and>
    as_CompletedSent (fst (AnthropicEventToResponsesEvents gen s e)) = af_stopped h'"
  proof (rule as_dispatch)
    assume t: "ase_Type e = ''message_start''"
    then have "h' = h" using feed running by (simp add: anth_feed_check_def Let_def)
    then show "as_follows h' s (anthToResHandleMessageStart e s) \<and>
      as_CompletedSent (fst (anthToResHandleMessageStart e s)) = af_stopped h'"
      using view by (simp add: message_start_items start_flags)
  next
    assume t: "ase_Type e = ''content_block_start''"
    then have "af_stopped h' = af_stopped h"
      using feed by (auto simp: anth_feed_check_def Let_def split: option.splits if_splits)
    with block_start_items [OF t feed view(2)] show "as_follows h' s (anthToResHandleContentBlockStart gen e s) \<and>
      as_CompletedSent (fst (anthToResHandleContentBlockStart gen e s)) = af_stopped h'"
      using view by (simp add: as_step_D)
  next
    assume t: "ase_Type e = ''content_block_delta''"
    then have "af_stopped h' = af_stopped h"
      using feed by (auto simp: anth_feed_check_def Let_def split: option.splits if_splits)
    with block_delta_items [OF t feed view(2,3)] show "as_follows h' s (anthToResHandleContentBlockDelta e s) \<and>
      as_CompletedSent (fst (anthToResHandleContentBlockDelta e s)) = af_stopped h'"
      using view by (simp add: as_step_D)
  next
    assume t: "ase_Type e = ''content_block_stop''"
    then have "af_stopped h' = af_stopped h"
      using feed by (auto simp: anth_feed_check_def Let_def split: if_splits)
    with block_stop_items [OF t feed view(2,3)] show "as_follows h' s (anthToResHandleContentBlockStop s) \<and>
      as_CompletedSent (fst (anthToResHandleContentBlockStop s)) = af_stopped h'"
      using view by (simp add: as_step_D)
  next
    assume t: "ase_Type e = ''message_delta''"
    then have "h' = h" using feed by (simp add: anth_feed_check_def Let_def split: if_splits)
    then show "as_follows h' s (anthToResHandleMessageDelta e s) \<and>
      as_CompletedSent (fst (anthToResHandleMessageDelta e s)) = af_stopped h'"
      using view by (simp add: message_delta_items as_step_D)
  next
    assume t: "ase_Type e = ''message_stop''"
    then have "h' = h\<lparr>af_stopped := True\<rparr>" using feed by (simp add: anth_feed_check_def Let_def split: if_splits)
    with view running show "as_follows h' s (anthToResHandleMessageStop s) \<and>
      as_CompletedSent (fst (anthToResHandleMessageStop s)) = af_stopped h'"
      using closing_items [where s = s and st = "''completed''" and d = None]
      by (simp add: anthToResHandleMessageStop_def as_item_type_def split_beta Let_def)
  next
    assume "ase_Type e \<noteq> ''message_start''" "ase_Type e \<noteq> ''content_block_start''"
      "ase_Type e \<noteq> ''content_block_delta''" "ase_Type e \<noteq> ''content_block_stop''"
      "ase_Type e \<noteq> ''message_delta''" "ase_Type e \<noteq> ''message_stop''"
    then have "h' = h" using feed running by (simp add: anth_feed_check_def Let_def)
    with view show "as_follows h' s (s, []) \<and> as_CompletedSent (fst (s, [])) = af_stopped h'" by simp
  qed
  with view feed_ok_step [OF view(3) feed]
  show "\<exists>g'. run_check item_check g (snd (AnthropicEventToResponsesEvents gen s e)) = Some g' \<and>
      as_rel h' (fst (AnthropicEventToResponsesEvents gen s e)) g'"
    by (simp add: as_rel_def)
qed

text \<open>The finalizer keeps the protocol too, and leaves no item open.\<close>

lemma finalize_items:
  "run_check item_check (as_items s) (snd (FinalizeAnthropicResponsesStream s)) =
     Some (as_items (fst (FinalizeAnthropicResponsesStream s)))"
  unfolding FinalizeAnthropicResponsesStream_def
  by (simp only: closing_items split: if_split) simp

lemma make_item_type: "as_CurrentItemType (fst (makeResponsesEvent t f s)) = as_CurrentItemType s"
  by (simp add: makeResponsesEvent_def)

lemma finalize_flags:
  "filter is_created (snd (FinalizeAnthropicResponsesStream s)) = []"
  "length (filter is_completed (snd (FinalizeAnthropicResponsesStream s))) =
     of_bool (as_CreatedSent s \<and> \<not> as_CompletedSent s)"
  "as_CreatedSent s \<Longrightarrow> \<not> as_CompletedSent s \<Longrightarrow>
     as_CurrentItemType (fst (FinalizeAnthropicResponsesStream s)) = []"
  "as_CompletedSent s \<Longrightarrow> FinalizeAnthropicResponsesStream s = (s, [])"
  by (simp_all add: FinalizeAnthropicResponsesStream_def closing_items makeResponsesCompletedEvent_def
      make_item_type split_beta Let_def)



definition interleaved_thinking :: "AnthropicStreamEvent list" where
  "interleaved_thinking =
     [zero_ase\<lparr>ase_Type := ''message_start''\<rparr>,
      zero_ase\<lparr>ase_Type := ''content_block_start'', ase_ContentBlock := Some (zero_acb\<lparr>acb_Type := ''text''\<rparr>)\<rparr>,
      zero_ase\<lparr>ase_Type := ''content_block_stop''\<rparr>,
      zero_ase\<lparr>ase_Type := ''content_block_start'', ase_ContentBlock := Some (zero_acb\<lparr>acb_Type := ''thinking''\<rparr>)\<rparr>,
      zero_ase\<lparr>ase_Type := ''content_block_stop''\<rparr>,
      zero_ase\<lparr>ase_Type := ''message_stop''\<rparr>]"

text \<open>
  a thinking block that follows a text block without a tool call between them breaks the
  item protocol: the message item announced for the text is replaced in the state, is never
  done, and its output index is announced a second time for the reasoning item.
\<close>

theorem a2r_interleaved_thinking:
  "map rse_OutputIndex (filter (\<lambda>e. item_added e \<noteq> []) (snd (a2r_stream gen now interleaved_thinking))) = [0, 0] \<and>
   collect item_added (snd (a2r_stream gen now interleaved_thinking)) = [(''message'', gen 0), (''reasoning'', gen 1)] \<and>
   collect item_done (snd (a2r_stream gen now interleaved_thinking)) = [(''reasoning'', gen 1)] \<and>
   run_check item_check (0, []) (snd (a2r_stream gen now interleaved_thinking)) = None"
  by code_simp

section \<open>There and back\<close>

text \<open>What one Anthropic block becomes when the message goes to the Responses format and back.\<close>

definition returned_block :: "json_codec \<Rightarrow> AnthropicContentBlock \<Rightarrow> AnthropicContentBlock list" where
  "returned_block J b =
     (if acb_Type b = ''thinking'' then
        (if acb_Thinking b = [] then [] else [zero_acb\<lparr>acb_Type := ''thinking'', acb_Thinking := acb_Thinking b\<rparr>])
      else if acb_Type b = ''text'' then
        (if acb_Text b = [] then [] else [zero_acb\<lparr>acb_Type := ''text'', acb_Text := acb_Text b\<rparr>])
      else if acb_Type b = ''tool_use'' then
        [zero_acb\<lparr>acb_Type := ''tool_use'', acb_ID := fromResponsesCallID (acb_ID b), acb_Name := acb_Name b,
           acb_Input := sanitizeAnthropicToolUseInput J (acb_Name b)
             (if acb_Input b = [] then ''{}'' else acb_Input b)\<rparr>]
      else [])"

abbreviation is_text_block :: "AnthropicContentBlock \<Rightarrow> bool" where
  "is_text_block b \<equiv> acb_Type b = ''text''"

definition returned_blocks :: "json_codec \<Rightarrow> AnthropicContentBlock list \<Rightarrow> AnthropicContentBlock list" where
  "returned_blocks J bs =
     collect (returned_block J) (filter (\<lambda>b. \<not> is_text_block b) bs) @ collect (returned_block J) (filter is_text_block bs)"

abbreviation part_block :: "ResponsesContentPart \<Rightarrow> AnthropicContentBlock" where
  "part_block p \<equiv> zero_acb\<lparr>acb_Type := ''text'', acb_Text := rcp_Text p\<rparr>"

abbreviation said_part :: "ResponsesContentPart \<Rightarrow> bool" where
  "said_part p \<equiv> rcp_Type p = ''output_text'' \<and> rcp_Text p \<noteq> []"

lemma fold_content_blocks:
  assumes "fold (contentBlockOutput gen) bs (k, os, ps) = (k', os', ps')"
  shows "collect (outputItemBlocks J) os' = collect (outputItemBlocks J) os @
      collect (returned_block J) (filter (\<lambda>b. \<not> is_text_block b) bs) \<and>
    map part_block (filter said_part ps') = map part_block (filter said_part ps) @
      collect (returned_block J) (filter is_text_block bs)"
  using assms
proof (induction bs arbitrary: k os ps)
  case Nil
  then show ?case by simp
next
  case (Cons b bs)
  obtain k1 os1 ps1 where b: "contentBlockOutput gen b (k, os, ps) = (k1, os1, ps1)"
    by (cases "contentBlockOutput gen b (k, os, ps)") auto
  with Cons.prems have "fold (contentBlockOutput gen) bs (k1, os1, ps1) = (k', os', ps')" by simp
  note rest = Cons.IH [OF this]
  have "collect (outputItemBlocks J) os1 = collect (outputItemBlocks J) os @
      (if is_text_block b then [] else returned_block J b) \<and>
    map part_block (filter said_part ps1) = map part_block (filter said_part ps) @
      (if is_text_block b then returned_block J b else [])"
    using b by (auto simp: contentBlockOutput_def returned_block_def outputItemBlocks_def toResponsesCallID_def zero_defs
        split: if_splits)
  with rest show ?case by simp
qed

lemma message_item_blocks:
  "outputItemBlocks J (assistantMessageItem itemid parts) = map part_block (filter said_part parts)"
  by (simp add: outputItemBlocks_def assistantMessageItem_def)

lemma a2r_fields:
  "rr_Usage (AnthropicToResponsesResponse gen m) = Some (responsesUsageFromAnthropic (ar_Usage m))"
  "rr_ID (AnthropicToResponsesResponse gen m) = (if ar_ID m = [] then gen 0 else ar_ID m)"
  "rr_Status (AnthropicToResponsesResponse gen m) = (if ar_StopReason m = ''max_tokens'' then ''incomplete'' else ''completed'')"
  "rr_IncompleteDetails (AnthropicToResponsesResponse gen m) =
     (if ar_StopReason m = ''max_tokens'' then Some \<lparr>rid_Reason = ''max_output_tokens''\<rparr> else None)"
  by (simp_all add: AnthropicToResponsesResponse_def anthropicStopReasonToResponsesStatus_def Let_def split_beta)

lemma r2a_fields:
  assumes "bs = collect (outputItemBlocks J) (rr_Output r)"
  shows "ar_Content (ResponsesToAnthropic J r model) = (if bs = [] then [zero_acb\<lparr>acb_Type := ''text''\<rparr>] else bs)"
    "ar_ID (ResponsesToAnthropic J r model) = rr_ID r"
    "ar_StopReason (ResponsesToAnthropic J r model) =
      responsesStatusToAnthropicStopReason (rr_Status r) (rr_IncompleteDetails r)
        (if bs = [] then [zero_acb\<lparr>acb_Type := ''text''\<rparr>] else bs)"
  unfolding ResponsesToAnthropic_def assms [symmetric] by (simp_all add: zero_acb_def Let_def split: option.split)


text \<open>
  token counts survive the round trip: cache creation, which the Responses format does not
  know, is counted with the fresh input tokens; cached and output tokens are the original ones.
\<close>

theorem usage_roundtrip:
  assumes "0 \<le> au_InputTokens u + au_CacheCreationInputTokens u" and "0 \<le> au_CacheReadInputTokens u"
  shows "anthropicUsageFromResponsesUsage (Some (responsesUsageFromAnthropic u)) =
    \<lparr>au_InputTokens = au_InputTokens u + au_CacheCreationInputTokens u, au_OutputTokens = au_OutputTokens u,
     au_CacheCreationInputTokens = 0, au_CacheReadInputTokens = au_CacheReadInputTokens u\<rparr>"
  using assms by (simp add: anthropicUsageFromResponsesUsage_def responsesUsageFromAnthropic_def zero_au_def Let_def)

theorem usage_roundtrip_witness:
  "anthropicUsageFromResponsesUsage (Some (responsesUsageFromAnthropic
      \<lparr>au_InputTokens = 7, au_OutputTokens = 5, au_CacheCreationInputTokens = 3, au_CacheReadInputTokens = 2\<rparr>)) =
    \<lparr>au_InputTokens = 10, au_OutputTokens = 5, au_CacheCreationInputTokens = 0, au_CacheReadInputTokens = 2\<rparr>"
  using usage_roundtrip [of "\<lparr>au_InputTokens = 7, au_OutputTokens = 5, au_CacheCreationInputTokens = 3,
    au_CacheReadInputTokens = 2\<rparr>"] by simp

end
