(* ===== verification/Responses_To_Chat.thy ===== *)
theory Responses_To_Chat
  imports Compat_Types Stream_Laws
begin

text \<open>
  \<open>responses_to_chatcompletions.go\<close>: a Responses API response as a Chat Completions response, the
  stateful translation of a Responses event stream into Chat Completions chunks, and the
  accumulator that rebuilds the response's output from the deltas of the stream. The random id
  (\<open>generateChatCmplID\<close>) and the clock are arguments.
\<close>

section \<open>Usage\<close>

definition promptDetailsFromResponses :: "ResponsesInputTokensDetails option \<Rightarrow> ChatTokenDetails option" where
  "promptDetailsFromResponses src =
     (case src of
        None \<Rightarrow> None
      | Some d \<Rightarrow> if itd_CachedTokens d = 0 \<and> itd_AudioTokens d = 0 then None
          else Some \<lparr>ctd_CachedTokens = itd_CachedTokens d, ctd_AudioTokens = itd_AudioTokens d,
            ctd_ReasoningTokens = 0, ctd_AcceptedPredictionTokens = 0, ctd_RejectedPredictionTokens = 0\<rparr>)"

definition completionDetailsFromResponses :: "ResponsesOutputTokensDetails option \<Rightarrow> ChatTokenDetails option" where
  "completionDetailsFromResponses src =
     (case src of
        None \<Rightarrow> None
      | Some d \<Rightarrow> if otd_ReasoningTokens d = 0 \<and> otd_AudioTokens d = 0 \<and>
            otd_AcceptedPredictionTokens d = 0 \<and> otd_RejectedPredictionTokens d = 0 then None
          else Some \<lparr>ctd_CachedTokens = 0, ctd_AudioTokens = otd_AudioTokens d,
            ctd_ReasoningTokens = otd_ReasoningTokens d,
            ctd_AcceptedPredictionTokens = otd_AcceptedPredictionTokens d,
            ctd_RejectedPredictionTokens = otd_RejectedPredictionTokens d\<rparr>)"

definition chatUsageFromResponsesUsage :: "ResponsesUsage option \<Rightarrow> ChatUsage option" where
  "chatUsageFromResponsesUsage u =
     (case u of
        None \<Rightarrow> None
      | Some u \<Rightarrow> Some \<lparr>cu_PromptTokens = ru_InputTokens u, cu_CompletionTokens = ru_OutputTokens u,
          cu_TotalTokens = ru_InputTokens u + ru_OutputTokens u,
          cu_PromptTokensDetails = promptDetailsFromResponses (ru_InputTokensDetails u),
          cu_CompletionTokensDetails = completionDetailsFromResponses (ru_OutputTokensDetails u)\<rparr>)"

section \<open>Non-streaming response\<close>

definition responsesStatusToChatFinishReason ::
  "string \<Rightarrow> ResponsesIncompleteDetails option \<Rightarrow> ChatToolCall list \<Rightarrow> string" where
  "responsesStatusToChatFinishReason status details toolCalls =
     (if status = ''incomplete'' then
        (case details of
           Some d \<Rightarrow> (if rid_Reason d = ''max_output_tokens'' then ''length'' else ''stop'')
         | None \<Rightarrow> ''stop'')
      else if status = ''completed'' then (if toolCalls \<noteq> [] then ''tool_calls'' else ''stop'')
      else ''stop'')"

text \<open>The loop over \<open>resp.Output\<close>: content text, reasoning text and tool calls so far.\<close>

type_synonym chat_parts = "string \<times> string \<times> ChatToolCall list"

definition collectOutputItem :: "ResponsesOutput \<Rightarrow> chat_parts \<Rightarrow> chat_parts" where
  "collectOutputItem item acc =
     (let (contentText, reasoningText, toolCalls) = acc in
      if ro_Type item = ''message'' then
        (contentText @ concat (map rcp_Text
           (filter (\<lambda>p. rcp_Type p = ''output_text'' \<and> rcp_Text p \<noteq> []) (ro_Content item))),
         reasoningText, toolCalls)
      else if ro_Type item = ''function_call'' then
        (contentText, reasoningText, toolCalls @ [\<lparr>ctc_Index = None, ctc_ID = ro_CallID item,
           ctc_Type = ''function'',
           ctc_Function = \<lparr>cfc_Name = ro_Name item, cfc_Arguments = ro_Arguments item\<rparr>\<rparr>])
      else if ro_Type item = ''reasoning'' then
        (contentText, reasoningText @ concat (map rsu_Text
           (filter (\<lambda>s. rsu_Type s = ''summary_text'' \<and> rsu_Text s \<noteq> []) (ro_Summary item))), toolCalls)
      else acc)"

definition ResponsesToChatCompletions ::
  "json_codec \<Rightarrow> string \<Rightarrow> int \<Rightarrow> ResponsesResponse \<Rightarrow> string \<Rightarrow> ChatCompletionsResponse" where
  "ResponsesToChatCompletions J newid now resp model =
     (let (contentText, reasoningText, toolCalls) = fold collectOutputItem (rr_Output resp) ([], [], []);
          msg = zero_cm\<lparr>cm_Role := ''assistant'', cm_ToolCalls := toolCalls,
            cm_Content := (if contentText \<noteq> [] then enc_string J contentText else []),
            cm_ReasoningContent := reasoningText\<rparr>
      in \<lparr>ccr_ID = (if rr_ID resp = [] then newid else rr_ID resp), ccr_Object = ''chat.completion'',
          ccr_Created = now, ccr_Model = model,
          ccr_Choices = [\<lparr>cc_Index = 0, cc_Message = msg, cc_FinishReason =
            responsesStatusToChatFinishReason (rr_Status resp) (rr_IncompleteDetails resp) toolCalls\<rparr>],
          ccr_Usage = chatUsageFromResponsesUsage (rr_Usage resp),
          ccr_SystemFingerprint = [], ccr_ServiceTier = []\<rparr>)"

section \<open>Stream state and chunks\<close>

record ResponsesEventToChatState =
  rc_ID :: string
  rc_Model :: string
  rc_Created :: int
  rc_SentRole :: bool
  rc_SawToolCall :: bool
  rc_SawText :: bool
  rc_Finalized :: bool
  rc_NextToolCallIndex :: int
  rc_OutputIndexToToolIndex :: "int \<rightharpoonup> int"
  rc_IncludeUsage :: bool
  rc_Usage :: "ChatUsage option"

type_synonym rc_state = ResponsesEventToChatState
type_synonym rc_emitter = "rc_state \<Rightarrow> rc_state \<times> ChatCompletionsChunk list"

definition NewResponsesEventToChatState :: "string \<Rightarrow> int \<Rightarrow> rc_state" where
  "NewResponsesEventToChatState newid now =
     \<lparr>rc_ID = newid, rc_Model = [], rc_Created = now, rc_SentRole = False, rc_SawToolCall = False,
      rc_SawText = False, rc_Finalized = False, rc_NextToolCallIndex = 0,
      rc_OutputIndexToToolIndex = Map.empty, rc_IncludeUsage = False, rc_Usage = None\<rparr>"

definition makeChatChunk :: "rc_state \<Rightarrow> ChatChunkChoice list \<Rightarrow> ChatUsage option \<Rightarrow> ChatCompletionsChunk" where
  "makeChatChunk s choices usage =
     \<lparr>chk_ID = rc_ID s, chk_Object = ''chat.completion.chunk'', chk_Created = rc_Created s,
      chk_Model = rc_Model s, chk_Choices = choices, chk_Usage = usage,
      chk_SystemFingerprint = [], chk_ServiceTier = []\<rparr>"

definition makeChatDeltaChunk :: "rc_state \<Rightarrow> ChatDelta \<Rightarrow> ChatCompletionsChunk" where
  "makeChatDeltaChunk s delta =
     makeChatChunk s [\<lparr>cch_Index = 0, cch_Delta = delta, cch_FinishReason = None\<rparr>] None"

definition makeChatFinishChunk :: "rc_state \<Rightarrow> string \<Rightarrow> ChatCompletionsChunk" where
  "makeChatFinishChunk s finishReason =
     makeChatChunk s [\<lparr>cch_Index = 0, cch_Delta = zero_cd\<lparr>cd_Content := Some []\<rparr>,
       cch_FinishReason = Some finishReason\<rparr>] None"

text \<open>The usage chunk, sent when the client asked for it and the usage is known.\<close>

definition chatUsageChunk :: "rc_state \<Rightarrow> ChatCompletionsChunk list" where
  "chatUsageChunk s =
     (if rc_IncludeUsage s \<and> rc_Usage s \<noteq> None then [makeChatChunk s [] (rc_Usage s)] else [])"

section \<open>Handlers\<close>

definition resToChatHandleCreated :: "ResponsesStreamEvent \<Rightarrow> rc_emitter" where
  "resToChatHandleCreated evt s =
     (let s = (case rse_Response evt of
                 None \<Rightarrow> s
               | Some r \<Rightarrow>
                   (let s = (if rr_ID r \<noteq> [] then s\<lparr>rc_ID := rr_ID r\<rparr> else s)
                    in if rc_Model s = [] \<and> rr_Model r \<noteq> [] then s\<lparr>rc_Model := rr_Model r\<rparr> else s))
      in if rc_SentRole s then (s, [])
         else (let s = s\<lparr>rc_SentRole := True\<rparr>
               in (s, [makeChatDeltaChunk s (zero_cd\<lparr>cd_Role := ''assistant''\<rparr>)])))"

definition resToChatHandleTextDelta :: "ResponsesStreamEvent \<Rightarrow> rc_emitter" where
  "resToChatHandleTextDelta evt s =
     (if rse_Delta evt = [] then (s, [])
      else (let s = s\<lparr>rc_SawText := True\<rparr>
            in (s, [makeChatDeltaChunk s (zero_cd\<lparr>cd_Content := Some (rse_Delta evt)\<rparr>)])))"

definition tool_item :: "ResponsesStreamEvent \<Rightarrow> ResponsesOutput option" where
  "tool_item evt =
     (case rse_Item evt of
        None \<Rightarrow> None
      | Some i \<Rightarrow> if ro_Type i \<noteq> ''function_call'' \<and> ro_Type i \<noteq> ''custom_tool_call'' then None else Some i)"

definition resToChatHandleOutputItemAdded :: "ResponsesStreamEvent \<Rightarrow> rc_emitter" where
  "resToChatHandleOutputItemAdded evt s =
     (case tool_item evt of
        None \<Rightarrow> (s, [])
      | Some item \<Rightarrow>
          (let idx = rc_NextToolCallIndex s;
               s = s\<lparr>rc_SawToolCall := True,
                 rc_OutputIndexToToolIndex := (rc_OutputIndexToToolIndex s)(rse_OutputIndex evt \<mapsto> idx),
                 rc_NextToolCallIndex := idx + 1\<rparr>
           in (s, [makeChatDeltaChunk s (zero_cd\<lparr>cd_ToolCalls :=
                 [\<lparr>ctc_Index = Some idx, ctc_ID = ro_CallID item, ctc_Type = ''function'',
                   ctc_Function = \<lparr>cfc_Name = ro_Name item, cfc_Arguments = []\<rparr>\<rparr>]\<rparr>)])))"

definition resToChatHandleFuncArgsDelta :: "ResponsesStreamEvent \<Rightarrow> rc_emitter" where
  "resToChatHandleFuncArgsDelta evt s =
     (if rse_Delta evt = [] then (s, [])
      else case rc_OutputIndexToToolIndex s (rse_OutputIndex evt) of
        None \<Rightarrow> (s, [])
      | Some idx \<Rightarrow>
          (s, [makeChatDeltaChunk s (zero_cd\<lparr>cd_ToolCalls :=
             [\<lparr>ctc_Index = Some idx, ctc_ID = [], ctc_Type = [],
               ctc_Function = \<lparr>cfc_Name = [], cfc_Arguments = rse_Delta evt\<rparr>\<rparr>]\<rparr>)]))"

definition resToChatHandleReasoningDelta :: "ResponsesStreamEvent \<Rightarrow> rc_emitter" where
  "resToChatHandleReasoningDelta evt s =
     (if rse_Delta evt = [] then (s, [])
      else (s, [makeChatDeltaChunk s (zero_cd\<lparr>cd_ReasoningContent := Some (rse_Delta evt)\<rparr>)]))"

text \<open>The usage the terminal event reports, the response's own in preference to the event's.\<close>

definition terminal_usage :: "ResponsesStreamEvent \<Rightarrow> rc_state \<Rightarrow> ChatUsage option" where
  "terminal_usage evt s =
     (let usage = (if rse_Usage evt \<noteq> None then chatUsageFromResponsesUsage (rse_Usage evt) else rc_Usage s)
      in case rse_Response evt of
           None \<Rightarrow> usage
         | Some r \<Rightarrow> if rr_Usage r \<noteq> None then chatUsageFromResponsesUsage (rr_Usage r) else usage)"

definition terminal_finish_reason :: "ResponsesStreamEvent \<Rightarrow> rc_state \<Rightarrow> string" where
  "terminal_finish_reason evt s =
     (case rse_Response evt of
        None \<Rightarrow> if rc_SawToolCall s then ''tool_calls'' else ''stop''
      | Some r \<Rightarrow>
          (if rr_Status r = ''incomplete'' then
             (case rr_IncompleteDetails r of
                None \<Rightarrow> ''stop''
              | Some d \<Rightarrow> if rid_Reason d = ''max_output_tokens'' then ''length'' else ''stop'')
           else if rr_Status r = ''completed'' then
             (if rc_SawToolCall s then ''tool_calls'' else ''stop'')
           else ''stop''))"

definition resToChatHandleCompleted :: "ResponsesStreamEvent \<Rightarrow> rc_emitter" where
  "resToChatHandleCompleted evt s =
     (let s = s\<lparr>rc_Finalized := True, rc_Usage := terminal_usage evt s\<rparr>
      in (s, makeChatFinishChunk s (terminal_finish_reason evt s) # chatUsageChunk s))"

definition FinalizeResponsesChatStream :: rc_emitter where
  "FinalizeResponsesChatStream s =
     (if rc_Finalized s then (s, [])
      else (let s = s\<lparr>rc_Finalized := True\<rparr>
            in (s, makeChatFinishChunk s (if rc_SawToolCall s then ''tool_calls'' else ''stop'') # chatUsageChunk s)))"

definition chat_terminal :: "string \<Rightarrow> bool" where
  "chat_terminal t \<longleftrightarrow> t = ''response.completed'' \<or> t = ''response.done'' \<or>
     t = ''response.incomplete'' \<or> t = ''response.failed''"

definition args_delta_event :: "string \<Rightarrow> bool" where
  "args_delta_event t \<longleftrightarrow> t = ''response.function_call_arguments.delta'' \<or> t = ''response.custom_tool_call_input.delta''"

definition reasoning_delta_event :: "string \<Rightarrow> bool" where
  "reasoning_delta_event t \<longleftrightarrow> t = ''response.reasoning_summary_text.delta'' \<or> t = ''response.reasoning_text.delta''"

definition ResponsesEventToChatChunks ::
  "rc_state \<Rightarrow> ResponsesStreamEvent \<Rightarrow> rc_state \<times> ChatCompletionsChunk list" where
  "ResponsesEventToChatChunks s evt =
     (let t = rse_Type evt in
      if t = ''response.created'' then resToChatHandleCreated evt s
      else if t = ''response.output_text.delta'' then resToChatHandleTextDelta evt s
      else if t = ''response.output_item.added'' then resToChatHandleOutputItemAdded evt s
      else if args_delta_event t then resToChatHandleFuncArgsDelta evt s
      else if reasoning_delta_event t then resToChatHandleReasoningDelta evt s
      else if chat_terminal t then resToChatHandleCompleted evt s
      else (s, []))"

section \<open>The accumulator\<close>

record bufferedFuncCall =
  bf_CallID :: string
  bf_Name :: string
  bf_Args :: string

record BufferedResponseAccumulator =
  ba_text :: string
  ba_reasoning :: string
  ba_funcCalls :: "bufferedFuncCall list"
  ba_outputIndexToFuncIdx :: "int \<rightharpoonup> nat"

type_synonym accumulator = BufferedResponseAccumulator

definition NewBufferedResponseAccumulator :: accumulator where
  "NewBufferedResponseAccumulator =
     \<lparr>ba_text = [], ba_reasoning = [], ba_funcCalls = [], ba_outputIndexToFuncIdx = Map.empty\<rparr>"

text \<open>\<open>ProcessEvent\<close>; \<open>None\<close> is the panic of an index out of range.\<close>

definition ProcessEvent :: "accumulator \<Rightarrow> ResponsesStreamEvent \<Rightarrow> accumulator option" where
  "ProcessEvent a event =
     (let t = rse_Type event in
      if t = ''response.output_text.delta'' then
        Some (if rse_Delta event \<noteq> [] then a\<lparr>ba_text := ba_text a @ rse_Delta event\<rparr> else a)
      else if t = ''response.output_item.added'' then
        (case tool_item event of
           None \<Rightarrow> Some a
         | Some item \<Rightarrow> Some (a\<lparr>
             ba_outputIndexToFuncIdx := (ba_outputIndexToFuncIdx a)(rse_OutputIndex event \<mapsto> length (ba_funcCalls a)),
             ba_funcCalls := ba_funcCalls a @
               [\<lparr>bf_CallID = ro_CallID item, bf_Name = ro_Name item, bf_Args = []\<rparr>]\<rparr>))
      else if args_delta_event t then
        (if rse_Delta event = [] then Some a
         else case ba_outputIndexToFuncIdx a (rse_OutputIndex event) of
           None \<Rightarrow> Some a
         | Some idx \<Rightarrow>
             (if idx < length (ba_funcCalls a) then
                (let fc = ba_funcCalls a ! idx
                 in Some (a\<lparr>ba_funcCalls := (ba_funcCalls a)[idx := fc\<lparr>bf_Args := bf_Args fc @ rse_Delta event\<rparr>]\<rparr>))
              else None))
      else if reasoning_delta_event t then
        Some (if rse_Delta event \<noteq> [] then a\<lparr>ba_reasoning := ba_reasoning a @ rse_Delta event\<rparr> else a)
      else Some a)"

definition HasContent :: "accumulator \<Rightarrow> bool" where
  "HasContent a \<longleftrightarrow> length (ba_text a) > 0 \<or> length (ba_funcCalls a) > 0 \<or> length (ba_reasoning a) > 0"

definition BuildOutput :: "accumulator \<Rightarrow> ResponsesOutput list" where
  "BuildOutput a =
     (if length (ba_reasoning a) > 0
      then [zero_ro\<lparr>ro_Type := ''reasoning'',
              ro_Summary := [\<lparr>rsu_Type = ''summary_text'', rsu_Text = ba_reasoning a\<rparr>]\<rparr>] else []) @
     (if length (ba_text a) > 0
      then [zero_ro\<lparr>ro_Type := ''message'', ro_Role := ''assistant'',
              ro_Content := [zero_rcp\<lparr>rcp_Type := ''output_text'', rcp_Text := ba_text a\<rparr>]\<rparr>] else []) @
     map (\<lambda>fc. zero_ro\<lparr>ro_Type := ''function_call'', ro_CallID := bf_CallID fc, ro_Name := bf_Name fc,
              ro_Arguments := bf_Args fc\<rparr>) (ba_funcCalls a)"

definition SupplementResponseOutput :: "accumulator \<Rightarrow> ResponsesResponse option \<Rightarrow> ResponsesResponse option" where
  "SupplementResponseOutput a resp =
     (case resp of
        None \<Rightarrow> None
      | Some r \<Rightarrow>
          (if rr_Output r \<noteq> [] then Some r
           else if \<not> HasContent a then Some r
           else Some (r\<lparr>rr_Output := BuildOutput a\<rparr>)))"

text \<open>Case analysis on the dispatch: one case per handler.\<close>

lemma rc_dispatch:
  assumes "rse_Type e = ''response.created'' \<Longrightarrow> P (resToChatHandleCreated e s)"
    and "rse_Type e = ''response.output_text.delta'' \<Longrightarrow> P (resToChatHandleTextDelta e s)"
    and "rse_Type e = ''response.output_item.added'' \<Longrightarrow> P (resToChatHandleOutputItemAdded e s)"
    and "args_delta_event (rse_Type e) \<Longrightarrow> P (resToChatHandleFuncArgsDelta e s)"
    and "reasoning_delta_event (rse_Type e) \<Longrightarrow> P (resToChatHandleReasoningDelta e s)"
    and "chat_terminal (rse_Type e) \<Longrightarrow> P (resToChatHandleCompleted e s)"
    and "rse_Type e \<noteq> ''response.created'' \<Longrightarrow> rse_Type e \<noteq> ''response.output_text.delta'' \<Longrightarrow>
      rse_Type e \<noteq> ''response.output_item.added'' \<Longrightarrow> \<not> args_delta_event (rse_Type e) \<Longrightarrow>
      \<not> reasoning_delta_event (rse_Type e) \<Longrightarrow> \<not> chat_terminal (rse_Type e) \<Longrightarrow> P (s, [])"
  shows "P (ResponsesEventToChatChunks s e)"
  unfolding ResponsesEventToChatChunks_def Let_def
  by (rule if_chain6 [where P = P]; (rule assms; assumption))

section \<open>The client's view\<close>

text \<open>
  What a Chat Completions client makes of the chunks: it appends text and reasoning, opens a tool
  call for every announcement, which must carry the next index, and appends arguments to the
  announced tool call they name; a chunk that does neither is refused. The finish reasons are
  recorded in order.
\<close>

record chat_client =
  cl_text :: string
  cl_reasoning :: string
  cl_tools :: "bufferedFuncCall list"
  cl_finish :: "string list"

definition new_client :: chat_client where
  "new_client = \<lparr>cl_text = [], cl_reasoning = [], cl_tools = [], cl_finish = []\<rparr>"

definition client_tool :: "bufferedFuncCall list \<Rightarrow> ChatToolCall \<Rightarrow> bufferedFuncCall list option" where
  "client_tool ts tc =
     (case ctc_Index tc of
        None \<Rightarrow> None
      | Some i \<Rightarrow>
          (if ctc_Type tc = ''function'' then
             (if i = int (length ts) then
                Some (ts @ [\<lparr>bf_CallID = ctc_ID tc, bf_Name = cfc_Name (ctc_Function tc),
                  bf_Args = cfc_Arguments (ctc_Function tc)\<rparr>])
              else None)
           else if 0 \<le> i \<and> i < int (length ts) then
             Some (ts[nat i := (ts ! nat i)\<lparr>bf_Args := bf_Args (ts ! nat i) @ cfc_Arguments (ctc_Function tc)\<rparr>])
           else None))"

definition or_empty :: "string option \<Rightarrow> string" where
  "or_empty x = (case x of None \<Rightarrow> [] | Some s \<Rightarrow> s)"

lemma or_empty_simps [simp]: "or_empty None = []" "or_empty (Some s) = s"
  by (simp_all add: or_empty_def)

definition client_choice :: "chat_client \<Rightarrow> ChatChunkChoice \<Rightarrow> chat_client option" where
  "client_choice c ch =
     (case run_check client_tool (cl_tools c) (cd_ToolCalls (cch_Delta ch)) of
        None \<Rightarrow> None
      | Some ts \<Rightarrow> Some \<lparr>cl_text = cl_text c @ or_empty (cd_Content (cch_Delta ch)),
          cl_reasoning = cl_reasoning c @ or_empty (cd_ReasoningContent (cch_Delta ch)),
          cl_tools = ts,
          cl_finish = cl_finish c @ (case cch_FinishReason ch of None \<Rightarrow> [] | Some f \<Rightarrow> [f])\<rparr>)"

definition client_chunk :: "chat_client \<Rightarrow> ChatCompletionsChunk \<Rightarrow> chat_client option" where
  "client_chunk c chunk = run_check client_choice c (chk_Choices chunk)"

text \<open>The stream state, the accumulator and the client agree.\<close>

definition in_step :: "accumulator \<Rightarrow> rc_state \<Rightarrow> chat_client \<Rightarrow> bool" where
  "in_step a s c \<longleftrightarrow> cl_text c = ba_text a \<and> cl_reasoning c = ba_reasoning a \<and> cl_tools c = ba_funcCalls a \<and>
     rc_NextToolCallIndex s = int (length (ba_funcCalls a)) \<and> rc_SawToolCall s = (ba_funcCalls a \<noteq> []) \<and>
     rc_OutputIndexToToolIndex s = map_option int \<circ> ba_outputIndexToFuncIdx a"

definition acc_ok :: "accumulator \<Rightarrow> bool" where
  "acc_ok a \<longleftrightarrow> (\<forall>i \<in> ran (ba_outputIndexToFuncIdx a). i < length (ba_funcCalls a))"

lemma acc_okD: "acc_ok a \<Longrightarrow> ba_outputIndexToFuncIdx a k = Some i \<Longrightarrow> i < length (ba_funcCalls a)"
  by (auto simp: acc_ok_def ran_def)

lemma acc_ok_step:
  assumes "acc_ok a"
  shows "\<exists>a'. ProcessEvent a e = Some a' \<and> acc_ok a'"
proof -
  have added: "acc_ok (a\<lparr>ba_outputIndexToFuncIdx := (ba_outputIndexToFuncIdx a)(k \<mapsto> length (ba_funcCalls a)),
      ba_funcCalls := ba_funcCalls a @ [fc]\<rparr>)" for k fc
    using acc_okD [OF assms] by (auto simp: acc_ok_def ran_def less_SucI)
  have same: "acc_ok (a\<lparr>ba_text := t\<rparr>)" "acc_ok (a\<lparr>ba_reasoning := t\<rparr>)"
    and args: "acc_ok (a\<lparr>ba_funcCalls := (ba_funcCalls a)[i := fc]\<rparr>)" for t i fc
    using assms by (simp_all add: acc_ok_def)
  show ?thesis
    using assms acc_okD [OF assms]
    by (auto simp: ProcessEvent_def Let_def added same args split: option.split)
qed

lemma acc_run: "acc_ok a \<Longrightarrow> \<exists>a'. run_check ProcessEvent a es = Some a' \<and> acc_ok a'"
proof (induction es arbitrary: a)
  case Nil
  then show ?case by simp
next
  case (Cons e es)
  from acc_ok_step [OF Cons.prems, of e] obtain a1 where "ProcessEvent a e = Some a1" "acc_ok a1" by blast
  with Cons.IH [of a1] show ?case by simp
qed

lemma acc_ok_new: "acc_ok NewBufferedResponseAccumulator"
  by (simp add: acc_ok_def NewBufferedResponseAccumulator_def)

subsection \<open>One lemma per handler\<close>

lemma event_kinds [simp]:
  "args_delta_event ''response.created'' = False"
  "\<not> reasoning_delta_event ''response.created''"
  "args_delta_event t \<Longrightarrow> t \<noteq> ''response.output_text.delta''"
  "args_delta_event t \<Longrightarrow> t \<noteq> ''response.output_item.added''"
  "reasoning_delta_event t \<Longrightarrow> t \<noteq> ''response.output_text.delta''"
  "reasoning_delta_event t \<Longrightarrow> t \<noteq> ''response.output_item.added''"
  "reasoning_delta_event t \<Longrightarrow> \<not> args_delta_event t"
  "chat_terminal t \<Longrightarrow> \<not> args_delta_event t"
  "chat_terminal t \<Longrightarrow> \<not> reasoning_delta_event t"
  "chat_terminal t \<Longrightarrow> t \<noteq> ''response.output_text.delta''"
  "chat_terminal t \<Longrightarrow> t \<noteq> ''response.output_item.added''"
  by (auto simp: args_delta_event_def reasoning_delta_event_def chat_terminal_def)

lemma client_delta [simp]:
  "client_chunk c (makeChatDeltaChunk s d) = client_choice c \<lparr>cch_Index = 0, cch_Delta = d, cch_FinishReason = None\<rparr>"
  "client_chunk c (makeChatFinishChunk s f) = Some (c\<lparr>cl_finish := cl_finish c @ [f]\<rparr>)"
  by (simp_all add: client_chunk_def makeChatDeltaChunk_def makeChatFinishChunk_def makeChatChunk_def
      client_choice_def zero_cd_def split: option.split)

lemma client_usage [simp]: "run_check client_chunk c (chatUsageChunk s) = Some c"
  by (simp add: chatUsageChunk_def client_chunk_def makeChatChunk_def)

abbreviation rc_follows :: "accumulator \<Rightarrow> chat_client \<Rightarrow> rc_state \<times> ChatCompletionsChunk list \<Rightarrow> bool" where
  "rc_follows a c r \<equiv> \<exists>c'. run_check client_chunk c (snd r) = Some c' \<and> in_step a (fst r) c'"

lemma created_follows:
  assumes "in_step a s c"
  shows "rc_follows a c (resToChatHandleCreated e s)"
  using assms
  by (simp add: resToChatHandleCreated_def client_choice_def zero_cd_def in_step_def Let_def split: option.split)

lemma text_follows:
  assumes "in_step a s c" "ProcessEvent a e = Some a'" "rse_Type e = ''response.output_text.delta''"
  shows "rc_follows a' c (resToChatHandleTextDelta e s)"
  using assms
  by (auto simp: resToChatHandleTextDelta_def ProcessEvent_def client_choice_def zero_cd_def in_step_def Let_def)

lemma added_follows:
  assumes "in_step a s c" "ProcessEvent a e = Some a'" "rse_Type e = ''response.output_item.added''"
  shows "rc_follows a' c (resToChatHandleOutputItemAdded e s)"
proof (cases "tool_item e")
  case None
  with assms show ?thesis by (simp add: resToChatHandleOutputItemAdded_def ProcessEvent_def)
next
  case (Some item)
  with assms show ?thesis
    by (auto simp: resToChatHandleOutputItemAdded_def ProcessEvent_def client_choice_def client_tool_def
        zero_cd_def in_step_def Let_def fun_eq_iff)
qed

lemma args_follows:
  assumes "in_step a s c" "ProcessEvent a e = Some a'" "args_delta_event (rse_Type e)"
  shows "rc_follows a' c (resToChatHandleFuncArgsDelta e s)"
proof (cases "rse_Delta e = []")
  case True
  with assms show ?thesis by (simp add: resToChatHandleFuncArgsDelta_def ProcessEvent_def Let_def)
next
  case False
  show ?thesis
  proof (cases "ba_outputIndexToFuncIdx a (rse_OutputIndex e)")
    case None
    with False assms show ?thesis
      by (simp add: resToChatHandleFuncArgsDelta_def ProcessEvent_def in_step_def Let_def)
  next
    case (Some i)
    with False assms show ?thesis
      by (auto simp: resToChatHandleFuncArgsDelta_def ProcessEvent_def client_choice_def client_tool_def
          zero_cd_def in_step_def Let_def split: if_splits)
  qed
qed

lemma reasoning_follows:
  assumes "in_step a s c" "ProcessEvent a e = Some a'" "reasoning_delta_event (rse_Type e)"
  shows "rc_follows a' c (resToChatHandleReasoningDelta e s)"
  using assms
  by (auto simp: resToChatHandleReasoningDelta_def ProcessEvent_def client_choice_def zero_cd_def in_step_def Let_def)

lemma completed_follows:
  assumes "in_step a s c"
  shows "rc_follows a c (resToChatHandleCompleted e s)"
  using assms by (simp add: resToChatHandleCompleted_def in_step_def Let_def)

interpretation rc_client: protocol_converter
  ResponsesEventToChatChunks ProcessEvent client_chunk in_step
proof
  fix a s c e a'
  assume rel: "in_step a s c" and acc: "ProcessEvent a e = Some a'"
  show "\<exists>c'. run_check client_chunk c (snd (ResponsesEventToChatChunks s e)) = Some c' \<and>
    in_step a' (fst (ResponsesEventToChatChunks s e)) c'"
  proof (rule rc_dispatch [where P = "rc_follows a' c"])
    assume "rse_Type e = ''response.created''"
    with acc have "a' = a" by (simp add: ProcessEvent_def Let_def)
    with created_follows [OF rel] show "rc_follows a' c (resToChatHandleCreated e s)" by simp
  next
    assume "chat_terminal (rse_Type e)"
    with acc have "a' = a" by (simp add: ProcessEvent_def Let_def)
    with completed_follows [OF rel] show "rc_follows a' c (resToChatHandleCompleted e s)" by simp
  next
    assume "rse_Type e \<noteq> ''response.output_text.delta''" "rse_Type e \<noteq> ''response.output_item.added''"
      "\<not> args_delta_event (rse_Type e)" "\<not> reasoning_delta_event (rse_Type e)"
    with acc have "a' = a" by (simp add: ProcessEvent_def Let_def)
    with rel show "rc_follows a' c (s, [])" by simp
  qed (use text_follows [OF rel acc] added_follows [OF rel acc] args_follows [OF rel acc]
      reasoning_follows [OF rel acc] in blast)+
qed

section \<open>Streamed and buffered agree\<close>

text \<open>The client after a stream, and its message as the non-streaming converter writes it.\<close>

definition client_message :: "json_codec \<Rightarrow> chat_client \<Rightarrow> ChatMessage" where
  "client_message J c = zero_cm\<lparr>cm_Role := ''assistant'',
     cm_ToolCalls := map (\<lambda>fc. \<lparr>ctc_Index = None, ctc_ID = bf_CallID fc, ctc_Type = ''function'',
       ctc_Function = \<lparr>cfc_Name = bf_Name fc, cfc_Arguments = bf_Args fc\<rparr>\<rparr>) (cl_tools c),
     cm_Content := (if cl_text c \<noteq> [] then enc_string J (cl_text c) else []),
     cm_ReasoningContent := cl_reasoning c\<rparr>"

definition r2c_stream :: "rc_state \<Rightarrow> ResponsesStreamEvent list \<Rightarrow> rc_state \<times> ChatCompletionsChunk list" where
  "r2c_stream s es = emit_seq (\<lambda>s. run_stream ResponsesEventToChatChunks s es) FinalizeResponsesChatStream s"

lemma in_step_new: "in_step NewBufferedResponseAccumulator (NewResponsesEventToChatState newid now) new_client"
  by (simp add: in_step_def NewBufferedResponseAccumulator_def NewResponsesEventToChatState_def new_client_def)

lemma stream_in_step:
  "\<exists>a c. run_check ProcessEvent NewBufferedResponseAccumulator es = Some a \<and> acc_ok a \<and>
    run_check client_chunk new_client
      (snd (run_stream ResponsesEventToChatChunks (NewResponsesEventToChatState newid now) es)) = Some c \<and>
    in_step a (fst (run_stream ResponsesEventToChatChunks (NewResponsesEventToChatState newid now) es)) c"
proof -
  from acc_run [OF acc_ok_new] obtain a where
    a: "run_check ProcessEvent NewBufferedResponseAccumulator es = Some a" "acc_ok a" by blast
  from rc_client.run_protocol [OF in_step_new a(1)] a show ?thesis by blast
qed

lemma collect_built_output:
  "fold collectOutputItem (BuildOutput a) ([], [], []) =
    (ba_text a, ba_reasoning a, map (\<lambda>fc. \<lparr>ctc_Index = None, ctc_ID = bf_CallID fc, ctc_Type = ''function'',
       ctc_Function = \<lparr>cfc_Name = bf_Name fc, cfc_Arguments = bf_Args fc\<rparr>\<rparr>) (ba_funcCalls a))"
proof -
  have calls: "fold collectOutputItem (map (\<lambda>fc. zero_ro\<lparr>ro_Type := ''function_call'', ro_CallID := bf_CallID fc,
      ro_Name := bf_Name fc, ro_Arguments := bf_Args fc\<rparr>) fcs) (t, r, tcs) =
    (t, r, tcs @ map (\<lambda>fc. \<lparr>ctc_Index = None, ctc_ID = bf_CallID fc, ctc_Type = ''function'',
       ctc_Function = \<lparr>cfc_Name = bf_Name fc, cfc_Arguments = bf_Args fc\<rparr>\<rparr>) fcs)" for t r tcs fcs
    by (induction fcs arbitrary: tcs) (simp_all add: collectOutputItem_def)
  have items: "collectOutputItem (zero_ro\<lparr>ro_Type := ''reasoning'',
      ro_Summary := [\<lparr>rsu_Type = ''summary_text'', rsu_Text = x\<rparr>]\<rparr>) (t, r, tcs) = (t, r @ x, tcs)"
    "collectOutputItem (zero_ro\<lparr>ro_Type := ''message'', ro_Role := ''assistant'',
      ro_Content := [zero_rcp\<lparr>rcp_Type := ''output_text'', rcp_Text := x\<rparr>]\<rparr>) (t, r, tcs) = (t @ x, r, tcs)"
    for x t r tcs by (simp_all add: collectOutputItem_def)
  show ?thesis
    by (simp add: BuildOutput_def calls items)
qed

text \<open>
  C17: the accumulator never panics, every streamed chunk is acceptable to a client, and when the
  terminal response carries no output, the message that the non-streaming path builds from the
  accumulated deltas is exactly the message a streaming client has assembled.
\<close>

theorem buffered_equals_streamed:
  "\<exists>a c. run_check ProcessEvent NewBufferedResponseAccumulator es = Some a \<and>
    run_check client_chunk new_client
      (snd (run_stream ResponsesEventToChatChunks (NewResponsesEventToChatState newid now) es)) = Some c \<and>
    map_option (\<lambda>r. map cc_Message (ccr_Choices (ResponsesToChatCompletions J newid now r model)))
      (SupplementResponseOutput a (Some (resp\<lparr>rr_Output := []\<rparr>))) = Some [client_message J c]"
proof -
  from stream_in_step [of es newid now] obtain a c where
    a: "run_check ProcessEvent NewBufferedResponseAccumulator es = Some a"
    and c: "run_check client_chunk new_client
      (snd (run_stream ResponsesEventToChatChunks (NewResponsesEventToChatState newid now) es)) = Some c"
    and rel: "in_step a (fst (run_stream ResponsesEventToChatChunks (NewResponsesEventToChatState newid now) es)) c"
    by blast
  have "map_option (\<lambda>r. map cc_Message (ccr_Choices (ResponsesToChatCompletions J newid now r model)))
      (SupplementResponseOutput a (Some (resp\<lparr>rr_Output := []\<rparr>))) = Some [client_message J c]"
    using rel
    by (simp add: SupplementResponseOutput_def HasContent_def ResponsesToChatCompletions_def client_message_def
        collect_built_output in_step_def Let_def)
  with a c show ?thesis by (intro exI conjI)
qed

text \<open>
  the finish reason agrees too: the chunk that a terminal event with a response produces
  carries the finish reason the non-streaming path computes from the supplemented response.
\<close>

theorem finish_reasons_agree:
  "\<exists>a. run_check ProcessEvent NewBufferedResponseAccumulator es = Some a \<and>
    map_option (\<lambda>r. map cc_FinishReason (ccr_Choices (ResponsesToChatCompletions J newid now r model)))
      (SupplementResponseOutput a (Some (resp\<lparr>rr_Output := []\<rparr>))) =
    Some [terminal_finish_reason (zero_rse\<lparr>rse_Type := t, rse_Response := Some resp\<rparr>)
      (fst (run_stream ResponsesEventToChatChunks (NewResponsesEventToChatState newid now) es))]"
proof -
  from stream_in_step [of es newid now] obtain a c where
    a: "run_check ProcessEvent NewBufferedResponseAccumulator es = Some a"
    and rel: "in_step a (fst (run_stream ResponsesEventToChatChunks (NewResponsesEventToChatState newid now) es)) c"
    by blast
  have "map_option (\<lambda>r. map cc_FinishReason (ccr_Choices (ResponsesToChatCompletions J newid now r model)))
      (SupplementResponseOutput a (Some (resp\<lparr>rr_Output := []\<rparr>))) =
    Some [terminal_finish_reason (zero_rse\<lparr>rse_Type := t, rse_Response := Some resp\<rparr>)
      (fst (run_stream ResponsesEventToChatChunks (NewResponsesEventToChatState newid now) es))]"
    using rel
    by (simp add: SupplementResponseOutput_def HasContent_def ResponsesToChatCompletions_def
        collect_built_output in_step_def terminal_finish_reason_def responsesStatusToChatFinishReason_def
        zero_rse_def Let_def split: option.split)
  with a show ?thesis by (intro exI conjI)
qed

section \<open>Finish chunks\<close>

definition is_finish_chunk :: "ChatCompletionsChunk \<Rightarrow> bool" where
  "is_finish_chunk chunk \<longleftrightarrow> list_ex (\<lambda>ch. cch_FinishReason ch \<noteq> None) (chk_Choices chunk)"

lemma finish_chunks [simp]:
  "\<not> is_finish_chunk (makeChatDeltaChunk s d)" "is_finish_chunk (makeChatFinishChunk s f)"
  "filter is_finish_chunk (chatUsageChunk s) = []"
  by (simp_all add: is_finish_chunk_def makeChatDeltaChunk_def makeChatFinishChunk_def chatUsageChunk_def
      makeChatChunk_def)

abbreviation rc_unfinished :: "rc_state \<Rightarrow> rc_state \<times> ChatCompletionsChunk list \<Rightarrow> bool" where
  "rc_unfinished s r \<equiv> filter is_finish_chunk (snd r) = [] \<and> rc_Finalized (fst r) = rc_Finalized s"

lemma rc_unfinished_handlers:
  "rc_unfinished s (resToChatHandleCreated e s)" "rc_unfinished s (resToChatHandleTextDelta e s)"
  "rc_unfinished s (resToChatHandleOutputItemAdded e s)" "rc_unfinished s (resToChatHandleFuncArgsDelta e s)"
  "rc_unfinished s (resToChatHandleReasoningDelta e s)"
  by (simp_all add: resToChatHandleCreated_def resToChatHandleTextDelta_def resToChatHandleOutputItemAdded_def
      resToChatHandleFuncArgsDelta_def resToChatHandleReasoningDelta_def Let_def split: option.split)

lemma rc_step_finish:
  "count_if is_finish_chunk (snd (ResponsesEventToChatChunks s e)) = of_bool (chat_terminal (rse_Type e)) \<and>
   rc_Finalized (fst (ResponsesEventToChatChunks s e)) = (rc_Finalized s \<or> chat_terminal (rse_Type e))"
proof (rule rc_dispatch [where P = "\<lambda>r. count_if is_finish_chunk (snd r) = of_bool (chat_terminal (rse_Type e)) \<and>
    rc_Finalized (fst r) = (rc_Finalized s \<or> chat_terminal (rse_Type e))"], goal_cases)
  case 4
  then have "\<not> chat_terminal (rse_Type e)" using event_kinds(8) by blast
  then show ?case by (simp add: rc_unfinished_handlers)
next
  case 5
  then have "\<not> chat_terminal (rse_Type e)" using event_kinds(9) by blast
  then show ?case by (simp add: rc_unfinished_handlers)
next
  case 6
  then show ?case by (simp add: resToChatHandleCompleted_def Let_def)
qed (simp_all add: rc_unfinished_handlers chat_terminal_def)

lemma rc_run_finish:
  "count_if is_finish_chunk (snd (run_stream ResponsesEventToChatChunks s es)) =
     count_if (\<lambda>e. chat_terminal (rse_Type e)) es \<and>
   rc_Finalized (fst (run_stream ResponsesEventToChatChunks s es)) =
     (rc_Finalized s \<or> list_ex (\<lambda>e. chat_terminal (rse_Type e)) es)"
  by (induction es arbitrary: s) (auto simp: rc_step_finish)

text \<open>
  the client gets one finish chunk for every terminal event, and one from the finalizer when
  the upstream stream ends without any: exactly one unless the upstream repeats its terminal
  event.
\<close>

theorem r2c_finish_chunks:
  "count_if is_finish_chunk (snd (r2c_stream (NewResponsesEventToChatState newid now) es)) =
     max 1 (count_if (\<lambda>e. chat_terminal (rse_Type e)) es)"
proof -
  let ?s = "fst (run_stream ResponsesEventToChatChunks (NewResponsesEventToChatState newid now) es)"
  have "count_if is_finish_chunk (snd (FinalizeResponsesChatStream ?s)) = of_bool (\<not> rc_Finalized ?s)"
    by (simp add: FinalizeResponsesChatStream_def Let_def)
  moreover have "rc_Finalized ?s \<longleftrightarrow> filter (\<lambda>e. chat_terminal (rse_Type e)) es \<noteq> []"
    using rc_run_finish [of "NewResponsesEventToChatState newid now" es]
    by (simp add: NewResponsesEventToChatState_def list_ex_iff filter_empty_conv)
  ultimately show ?thesis
    using rc_run_finish [of "NewResponsesEventToChatState newid now" es]
    by (cases "filter (\<lambda>e. chat_terminal (rse_Type e)) es") (simp_all add: r2c_stream_def)
qed

end
