(* ===== verification/Chat_To_Responses.thy ===== *)
theory Chat_To_Responses
  imports Responses_Protocol
begin

text \<open>
  The streaming half of \<open>chatcompletions_responses_bridge.go\<close>: Chat Completions chunks to
  Responses stream events, with the lifecycle of the reasoning item, the message item and the
  tool-call items, and the finalizer that closes them.

  The bytes drawn from \<open>crypto/rand\<close> are the argument \<open>rnd\<close>: \<open>rnd k\<close> is the hexadecimal string
  of the \<open>k\<close>-th draw; the number of draws is threaded beside the Go fields. The map
  \<open>ToolCalls\<close>, whose length the code takes, is an association list; the pointers it holds are
  not shared with anything else, so the calls are held by value.
\<close>

section \<open>State\<close>

definition generateItemID :: "(nat \<Rightarrow> string) \<Rightarrow> nat \<Rightarrow> string" where
  "generateItemID rnd k = ''item_'' @ rnd k"

definition generateResponsesID :: "(nat \<Rightarrow> string) \<Rightarrow> nat \<Rightarrow> string" where
  "generateResponsesID rnd k = ''resp_'' @ rnd k"

lemma generateItemID_nonempty [simp]: "generateItemID rnd k \<noteq> []"
  by (simp add: generateItemID_def)

record ChatCompletionsToResponsesStreamState =
  cs_ResponseID :: string
  cs_Model :: string
  cs_Created :: int
  cs_SequenceNumber :: int
  cs_CreatedSent :: bool
  cs_CompletedSent :: bool
  cs_nextOutputIndex :: int
  cs_ReasoningItemID :: string
  cs_ReasoningIndex :: int
  cs_ReasoningOpen :: bool
  cs_ReasoningDone :: bool
  cs_MessageItemID :: string
  cs_MessageIndex :: int
  cs_TextPartOpen :: bool
  cs_Text :: string
  cs_Reasoning :: string
  cs_ToolCalls :: "(int \<times> ChatToolCall) list"
  cs_ToolItemIDs :: "int \<rightharpoonup> string"
  cs_ToolOutputIndex :: "int \<rightharpoonup> int"
  cs_FinishReason :: string
  cs_Usage :: "ResponsesUsage option"
  cs_draws :: nat

type_synonym cs_state = ChatCompletionsToResponsesStreamState
type_synonym cs_emitter = "cs_state \<Rightarrow> cs_state \<times> ResponsesStreamEvent list"

definition NewChatCompletionsToResponsesStreamState :: "(nat \<Rightarrow> string) \<Rightarrow> int \<Rightarrow> string \<Rightarrow> cs_state" where
  "NewChatCompletionsToResponsesStreamState rnd now model =
     \<lparr>cs_ResponseID = generateResponsesID rnd 0, cs_Model = model, cs_Created = now,
      cs_SequenceNumber = 0, cs_CreatedSent = False, cs_CompletedSent = False,
      cs_nextOutputIndex = 0, cs_ReasoningItemID = [], cs_ReasoningIndex = 0,
      cs_ReasoningOpen = False, cs_ReasoningDone = False, cs_MessageItemID = [],
      cs_MessageIndex = 0, cs_TextPartOpen = False, cs_Text = [], cs_Reasoning = [],
      cs_ToolCalls = [], cs_ToolItemIDs = Map.empty, cs_ToolOutputIndex = Map.empty,
      cs_FinishReason = [], cs_Usage = None, cs_draws = 1\<rparr>"

definition ChatUsageToResponsesUsage :: "ChatUsage option \<Rightarrow> ResponsesUsage option" where
  "ChatUsageToResponsesUsage usage =
     (case usage of
        None \<Rightarrow> None
      | Some u \<Rightarrow> Some
          \<lparr>ru_InputTokens = cu_PromptTokens u, ru_OutputTokens = cu_CompletionTokens u,
           ru_TotalTokens = (if cu_TotalTokens u = 0 then cu_PromptTokens u + cu_CompletionTokens u
             else cu_TotalTokens u),
           ru_InputTokensDetails = (case cu_PromptTokensDetails u of
               None \<Rightarrow> None
             | Some d \<Rightarrow> if ctd_CachedTokens d > 0
                 then Some \<lparr>itd_CachedTokens = ctd_CachedTokens d, itd_AudioTokens = 0\<rparr> else None),
           ru_OutputTokensDetails = None\<rparr>)"

section \<open>Emitting events\<close>

text \<open>\<open>chatToResponsesEvent\<close>: stamp the template with its type and the next sequence number.\<close>

definition chatToResponsesEvent :: "string \<Rightarrow> (cs_state \<Rightarrow> ResponsesStreamEvent) \<Rightarrow> cs_emitter" where
  "chatToResponsesEvent eventType template s =
     (s\<lparr>cs_SequenceNumber := cs_SequenceNumber s + 1\<rparr>,
      [(template s)\<lparr>rse_Type := eventType, rse_SequenceNumber := cs_SequenceNumber s\<rparr>])"

definition ensureChatToResponsesCreated :: cs_emitter where
  "ensureChatToResponsesCreated s =
     (if cs_CreatedSent s then (s, [])
      else chatToResponsesEvent ''response.created''
        (\<lambda>s. zero_rse\<lparr>rse_Response := Some (zero_rr\<lparr>rr_ID := cs_ResponseID s, rr_Object := ''response'',
           rr_Model := cs_Model s, rr_Status := ''in_progress'', rr_Output := []\<rparr>)\<rparr>)
        (s\<lparr>cs_CreatedSent := True\<rparr>))"

text \<open>The state after a new item has been given its id and its output index.\<close>

definition ensureChatReasoningItem :: "(nat \<Rightarrow> string) \<Rightarrow> cs_emitter" where
  "ensureChatReasoningItem rnd s =
     (if cs_ReasoningOpen s \<or> cs_ReasoningDone s then (s, [])
      else emit_seq
        (chatToResponsesEvent ''response.output_item.added''
          (\<lambda>s. zero_rse\<lparr>rse_OutputIndex := cs_ReasoningIndex s,
             rse_Item := Some (zero_ro\<lparr>ro_Type := ''reasoning'', ro_ID := cs_ReasoningItemID s,
               ro_Status := ''in_progress''\<rparr>)\<rparr>))
        (chatToResponsesEvent ''response.reasoning_summary_part.added''
          (\<lambda>s. zero_rse\<lparr>rse_OutputIndex := cs_ReasoningIndex s, rse_SummaryIndex := 0,
             rse_ItemID := cs_ReasoningItemID s,
             rse_Part := Some (zero_rcp\<lparr>rcp_Type := ''summary_text''\<rparr>)\<rparr>))
        (s\<lparr>cs_ReasoningOpen := True, cs_ReasoningItemID := generateItemID rnd (cs_draws s),
           cs_draws := Suc (cs_draws s), cs_ReasoningIndex := cs_nextOutputIndex s,
           cs_nextOutputIndex := cs_nextOutputIndex s + 1\<rparr>))"

definition closeChatReasoningItem :: cs_emitter where
  "closeChatReasoningItem s =
     (if \<not> cs_ReasoningOpen s then (s, [])
      else emit_seq
        (chatToResponsesEvent ''response.reasoning_summary_text.done''
          (\<lambda>s. zero_rse\<lparr>rse_OutputIndex := cs_ReasoningIndex s, rse_SummaryIndex := 0,
             rse_Text := cs_Reasoning s, rse_ItemID := cs_ReasoningItemID s\<rparr>))
        (emit_seq
          (chatToResponsesEvent ''response.reasoning_summary_part.done''
            (\<lambda>s. zero_rse\<lparr>rse_OutputIndex := cs_ReasoningIndex s, rse_SummaryIndex := 0,
               rse_ItemID := cs_ReasoningItemID s,
               rse_Part := Some (zero_rcp\<lparr>rcp_Type := ''summary_text'', rcp_Text := cs_Reasoning s\<rparr>)\<rparr>))
          (chatToResponsesEvent ''response.output_item.done''
            (\<lambda>s. zero_rse\<lparr>rse_OutputIndex := cs_ReasoningIndex s,
               rse_Item := Some (zero_ro\<lparr>ro_Type := ''reasoning'', ro_ID := cs_ReasoningItemID s,
                 ro_Status := ''completed'',
                 ro_Summary := [\<lparr>rsu_Type = ''summary_text'', rsu_Text = cs_Reasoning s\<rparr>]\<rparr>)\<rparr>)))
        (s\<lparr>cs_ReasoningOpen := False, cs_ReasoningDone := True\<rparr>))"

definition ensureChatToResponsesMessageItem :: "(nat \<Rightarrow> string) \<Rightarrow> cs_emitter" where
  "ensureChatToResponsesMessageItem rnd s =
     (if cs_MessageItemID s \<noteq> [] then (s, [])
      else chatToResponsesEvent ''response.output_item.added''
        (\<lambda>s. zero_rse\<lparr>rse_OutputIndex := cs_MessageIndex s,
           rse_Item := Some (zero_ro\<lparr>ro_Type := ''message'', ro_ID := cs_MessageItemID s,
             ro_Role := ''assistant'', ro_Status := ''in_progress'',
             ro_Content := [zero_rcp\<lparr>rcp_Type := ''output_text''\<rparr>]\<rparr>)\<rparr>)
        (s\<lparr>cs_MessageItemID := generateItemID rnd (cs_draws s), cs_draws := Suc (cs_draws s),
           cs_MessageIndex := cs_nextOutputIndex s, cs_nextOutputIndex := cs_nextOutputIndex s + 1\<rparr>))"

definition ensureChatToResponsesTextPart :: cs_emitter where
  "ensureChatToResponsesTextPart s =
     (if cs_TextPartOpen s then (s, [])
      else chatToResponsesEvent ''response.content_part.added''
        (\<lambda>s. zero_rse\<lparr>rse_OutputIndex := cs_MessageIndex s, rse_ContentIndex := 0,
           rse_ItemID := cs_MessageItemID s,
           rse_Part := Some (zero_rcp\<lparr>rcp_Type := ''output_text'', rcp_Text := []\<rparr>)\<rparr>)
        (s\<lparr>cs_TextPartOpen := True\<rparr>))"

section \<open>One choice of a chunk\<close>

text \<open>\<open>state.Reasoning.WriteString(delta)\<close> and the reasoning delta event.\<close>

definition reasoning_delta :: "string \<Rightarrow> cs_emitter" where
  "reasoning_delta delta s = chatToResponsesEvent ''response.reasoning_summary_text.delta''
     (\<lambda>s. zero_rse\<lparr>rse_OutputIndex := cs_ReasoningIndex s, rse_SummaryIndex := 0, rse_Delta := delta,
        rse_ItemID := cs_ReasoningItemID s\<rparr>)
     (s\<lparr>cs_Reasoning := cs_Reasoning s @ delta\<rparr>)"

text \<open>\<open>state.Text.WriteString(delta)\<close> and the text delta event.\<close>

definition message_text_delta :: "string \<Rightarrow> cs_emitter" where
  "message_text_delta delta s = chatToResponsesEvent ''response.output_text.delta''
     (\<lambda>s. zero_rse\<lparr>rse_OutputIndex := cs_MessageIndex s, rse_ContentIndex := 0, rse_Delta := delta,
        rse_ItemID := cs_MessageItemID s\<rparr>)
     (s\<lparr>cs_Text := cs_Text s @ delta\<rparr>)"

definition chatReasoningDelta :: "(nat \<Rightarrow> string) \<Rightarrow> string option \<Rightarrow> cs_emitter" where
  "chatReasoningDelta rnd delta s =
     (case delta of
        None \<Rightarrow> (s, [])
      | Some d \<Rightarrow> if d = [] then (s, [])
          else emit_seq (ensureChatReasoningItem rnd) (reasoning_delta d) s)"

definition chatContentDelta :: "(nat \<Rightarrow> string) \<Rightarrow> string option \<Rightarrow> cs_emitter" where
  "chatContentDelta rnd delta s =
     (case delta of
        None \<Rightarrow> (s, [])
      | Some d \<Rightarrow> if d = [] then (s, [])
          else emit_seq closeChatReasoningItem
            (emit_seq (ensureChatToResponsesMessageItem rnd)
              (emit_seq ensureChatToResponsesTextPart (message_text_delta d))) s)"

text \<open>A tool call with a new index: close the reasoning item, store a copy, announce an item.\<close>

definition openChatToolItem :: "(nat \<Rightarrow> string) \<Rightarrow> int \<Rightarrow> ChatToolCall \<Rightarrow> cs_emitter" where
  "openChatToolItem rnd idx toolCall s =
     (let (callid, k) = (if ctc_ID toolCall = [] then (generateItemID rnd (cs_draws s), Suc (cs_draws s))
                         else (ctc_ID toolCall, cs_draws s));
          copyCall = toolCall\<lparr>ctc_ID := callid, ctc_Type := ''function''\<rparr>;
          itemID = generateItemID rnd k
      in chatToResponsesEvent ''response.output_item.added''
           (\<lambda>s. zero_rse\<lparr>rse_OutputIndex := (case cs_ToolOutputIndex s idx of None \<Rightarrow> 0 | Some n \<Rightarrow> n),
              rse_Item := Some (zero_ro\<lparr>ro_Type := ''function_call'', ro_ID := itemID,
                ro_CallID := ctc_ID copyCall, ro_Name := cfc_Name (ctc_Function copyCall),
                ro_Status := ''in_progress''\<rparr>)\<rparr>)
           (s\<lparr>cs_ToolCalls := AList.update idx copyCall (cs_ToolCalls s), cs_draws := Suc k,
              cs_ToolItemIDs := (cs_ToolItemIDs s)(idx \<mapsto> itemID),
              cs_ToolOutputIndex := (cs_ToolOutputIndex s)(idx \<mapsto> cs_nextOutputIndex s),
              cs_nextOutputIndex := cs_nextOutputIndex s + 1\<rparr>))"

text \<open>A later chunk of a known tool call may bring its id and name.\<close>

definition renameChatTool :: "ChatToolCall \<Rightarrow> ChatToolCall \<Rightarrow> ChatToolCall" where
  "renameChatTool toolCall stored =
     (let stored = (if ctc_ID toolCall \<noteq> [] then stored\<lparr>ctc_ID := ctc_ID toolCall\<rparr> else stored)
      in if cfc_Name (ctc_Function toolCall) \<noteq> []
         then stored\<lparr>ctc_Function := (ctc_Function stored)\<lparr>cfc_Name := cfc_Name (ctc_Function toolCall)\<rparr>\<rparr>
         else stored)"

text \<open>\<open>stored.Function.Arguments += arguments\<close> and the arguments delta event.\<close>

definition appendArguments :: "string \<Rightarrow> ChatToolCall \<Rightarrow> ChatToolCall" where
  "appendArguments arguments stored = stored\<lparr>ctc_Function :=
     (ctc_Function stored)\<lparr>cfc_Arguments := cfc_Arguments (ctc_Function stored) @ arguments\<rparr>\<rparr>"

definition chatToolArguments :: "int \<Rightarrow> string \<Rightarrow> cs_emitter" where
  "chatToolArguments idx arguments s =
     (case map_of (cs_ToolCalls s) idx of
        None \<Rightarrow> (s, [])
      | Some stored \<Rightarrow>
          (if arguments = [] then (s, [])
           else (let stored = appendArguments arguments stored
                 in chatToResponsesEvent ''response.function_call_arguments.delta''
                      (\<lambda>s. zero_rse\<lparr>rse_OutputIndex := (case cs_ToolOutputIndex s idx of None \<Rightarrow> 0 | Some n \<Rightarrow> n),
                         rse_ItemID := (case cs_ToolItemIDs s idx of None \<Rightarrow> [] | Some i \<Rightarrow> i),
                         rse_Delta := arguments, rse_CallID := ctc_ID stored,
                         rse_Name := cfc_Name (ctc_Function stored)\<rparr>)
                      (s\<lparr>cs_ToolCalls := AList.update idx stored (cs_ToolCalls s)\<rparr>))))"

definition tool_index :: "ChatToolCall \<Rightarrow> int" where
  "tool_index toolCall = (case ctc_Index toolCall of None \<Rightarrow> 0 | Some i \<Rightarrow> i)"

definition chatToolCall :: "(nat \<Rightarrow> string) \<Rightarrow> cs_state \<Rightarrow> ChatToolCall \<Rightarrow> cs_state \<times> ResponsesStreamEvent list" where
  "chatToolCall rnd s toolCall =
     (let idx = tool_index toolCall in
      emit_seq
        (\<lambda>s. case map_of (cs_ToolCalls s) idx of
           None \<Rightarrow> emit_seq closeChatReasoningItem (openChatToolItem rnd idx toolCall) s
         | Some stored \<Rightarrow>
             (s\<lparr>cs_ToolCalls := AList.update idx (renameChatTool toolCall stored) (cs_ToolCalls s)\<rparr>, []))
        (chatToolArguments idx (cfc_Arguments (ctc_Function toolCall))) s)"

definition noteFinishReason :: "string option \<Rightarrow> cs_emitter" where
  "noteFinishReason reason s =
     (case reason of
        None \<Rightarrow> (s, [])
      | Some r \<Rightarrow> (if r \<noteq> [] then s\<lparr>cs_FinishReason := r\<rparr> else s, []))"

definition chatChoiceEvents :: "(nat \<Rightarrow> string) \<Rightarrow> cs_state \<Rightarrow> ChatChunkChoice \<Rightarrow> cs_state \<times> ResponsesStreamEvent list" where
  "chatChoiceEvents rnd s choice =
     emit_seq (chatReasoningDelta rnd (cd_ReasoningContent (cch_Delta choice)))
       (emit_seq (chatContentDelta rnd (cd_Content (cch_Delta choice)))
         (emit_seq (\<lambda>s. run_stream (chatToolCall rnd) s (cd_ToolCalls (cch_Delta choice)))
           (noteFinishReason (cch_FinishReason choice)))) s"

text \<open>What a chunk says about the response as a whole.\<close>

definition noteChunk :: "ChatCompletionsChunk \<Rightarrow> cs_state \<Rightarrow> cs_state" where
  "noteChunk chunk s =
     (let s = (if chk_ID chunk \<noteq> [] then s\<lparr>cs_ResponseID := chk_ID chunk\<rparr> else s);
          s = (if cs_Model s = [] \<and> chk_Model chunk \<noteq> [] then s\<lparr>cs_Model := chk_Model chunk\<rparr> else s)
      in if chk_Usage chunk \<noteq> None then s\<lparr>cs_Usage := ChatUsageToResponsesUsage (chk_Usage chunk)\<rparr> else s)"

definition ChatCompletionsChunkToResponsesEvents ::
  "(nat \<Rightarrow> string) \<Rightarrow> cs_state \<Rightarrow> ChatCompletionsChunk \<Rightarrow> cs_state \<times> ResponsesStreamEvent list" where
  "ChatCompletionsChunkToResponsesEvents rnd s chunk =
     emit_seq ensureChatToResponsesCreated
       (\<lambda>s. run_stream (chatChoiceEvents rnd) s (chk_Choices chunk)) (noteChunk chunk s)"

section \<open>The finalizer\<close>

definition synthesizeChatReasoningFallbackMessage :: "(nat \<Rightarrow> string) \<Rightarrow> cs_emitter" where
  "synthesizeChatReasoningFallbackMessage rnd s =
     (if cs_MessageItemID s \<noteq> [] \<or> cs_Text s \<noteq> [] \<or> cs_Reasoning s = [] \<or> cs_ToolCalls s \<noteq> []
         \<or> go_TrimSpace (cs_Reasoning s) = [] then (s, [])
      else emit_seq (ensureChatToResponsesMessageItem rnd)
        (emit_seq ensureChatToResponsesTextPart (message_text_delta (cs_Reasoning s))) s)"

definition finishTextPart :: cs_emitter where
  "finishTextPart s =
     (if \<not> cs_TextPartOpen s then (s, [])
      else emit_seq
        (chatToResponsesEvent ''response.output_text.done''
          (\<lambda>s. zero_rse\<lparr>rse_OutputIndex := cs_MessageIndex s, rse_ContentIndex := 0,
             rse_Text := cs_Text s, rse_ItemID := cs_MessageItemID s\<rparr>))
        (chatToResponsesEvent ''response.content_part.done''
          (\<lambda>s. zero_rse\<lparr>rse_OutputIndex := cs_MessageIndex s, rse_ContentIndex := 0,
             rse_ItemID := cs_MessageItemID s,
             rse_Part := Some (zero_rcp\<lparr>rcp_Type := ''output_text'', rcp_Text := cs_Text s\<rparr>)\<rparr>)) s)"

definition finishMessageItem :: cs_emitter where
  "finishMessageItem s =
     (if cs_MessageItemID s = [] then (s, [])
      else emit_seq finishTextPart
        (chatToResponsesEvent ''response.output_item.done''
          (\<lambda>s. zero_rse\<lparr>rse_OutputIndex := cs_MessageIndex s,
             rse_Item := Some (zero_ro\<lparr>ro_Type := ''message'', ro_ID := cs_MessageItemID s,
               ro_Role := ''assistant'',
               ro_Content := [zero_rcp\<lparr>rcp_Type := ''output_text'', rcp_Text := cs_Text s\<rparr>],
               ro_Status := ''completed''\<rparr>)\<rparr>)) s)"

definition toolArguments :: "ChatToolCall \<Rightarrow> string" where
  "toolArguments toolCall =
     (if go_TrimSpace (cfc_Arguments (ctc_Function toolCall)) = [] then ''{}''
      else cfc_Arguments (ctc_Function toolCall))"

text \<open>One iteration of the loop of \<open>closeChatToolItems\<close>.\<close>

definition closeChatToolItem :: "cs_state \<Rightarrow> int \<Rightarrow> cs_state \<times> ResponsesStreamEvent list" where
  "closeChatToolItem s i =
     (case map_of (cs_ToolCalls s) i of
        None \<Rightarrow> (s, [])
      | Some toolCall \<Rightarrow>
          (case cs_ToolItemIDs s i of
             None \<Rightarrow> (s, [])
           | Some itemID \<Rightarrow>
               (let outputIndex = (case cs_ToolOutputIndex s i of None \<Rightarrow> 0 | Some n \<Rightarrow> n) in
                emit_seq
                  (chatToResponsesEvent ''response.function_call_arguments.done''
                    (\<lambda>s. zero_rse\<lparr>rse_OutputIndex := outputIndex, rse_ItemID := itemID,
                       rse_CallID := ctc_ID toolCall, rse_Name := cfc_Name (ctc_Function toolCall),
                       rse_Arguments := toolArguments toolCall\<rparr>))
                  (chatToResponsesEvent ''response.output_item.done''
                    (\<lambda>s. zero_rse\<lparr>rse_OutputIndex := outputIndex,
                       rse_Item := Some (zero_ro\<lparr>ro_Type := ''function_call'', ro_ID := itemID,
                         ro_CallID := ctc_ID toolCall, ro_Name := cfc_Name (ctc_Function toolCall),
                         ro_Arguments := toolArguments toolCall, ro_Status := ''completed''\<rparr>)\<rparr>)) s)))"

text \<open>The loop bounds of \<open>for i := 0; i < len(state.ToolCalls); i++\<close>.\<close>

definition tool_range :: "cs_state \<Rightarrow> int list" where
  "tool_range s = map int [0..<length (cs_ToolCalls s)]"

definition closeChatToolItems :: cs_emitter where
  "closeChatToolItems s = run_stream closeChatToolItem s (tool_range s)"

definition nonEmpty :: "string \<Rightarrow> string \<Rightarrow> string" where
  "nonEmpty v fallback = (if v \<noteq> [] then v else fallback)"

text \<open>
  \<open>chatOutput\<close>: the output array of the completed response and the number of draws after it.
  The ids of its reasoning and tool items are drawn anew.
\<close>

definition chatOutputTool :: "(nat \<Rightarrow> string) \<Rightarrow> cs_state \<Rightarrow> int \<Rightarrow> nat \<times> ResponsesOutput list \<Rightarrow> nat \<times> ResponsesOutput list" where
  "chatOutputTool rnd s i acc =
     (case map_of (cs_ToolCalls s) i of
        None \<Rightarrow> acc
      | Some toolCall \<Rightarrow>
          (Suc (fst acc), snd acc @ [zero_ro\<lparr>ro_Type := ''function_call'', ro_ID := generateItemID rnd (fst acc),
             ro_CallID := ctc_ID toolCall, ro_Name := cfc_Name (ctc_Function toolCall),
             ro_Arguments := toolArguments toolCall, ro_Status := ''completed''\<rparr>]))"

definition chatOutput :: "(nat \<Rightarrow> string) \<Rightarrow> cs_state \<Rightarrow> nat \<times> ResponsesOutput list" where
  "chatOutput rnd s =
     (let k = cs_draws s;
          (k, outputs) = (if cs_Reasoning s \<noteq> [] then
             (Suc k, [zero_ro\<lparr>ro_Type := ''reasoning'', ro_ID := generateItemID rnd k,
                ro_Summary := [\<lparr>rsu_Type = ''summary_text'', rsu_Text = cs_Reasoning s\<rparr>]\<rparr>])
             else (k, []));
          (k, outputs) = (if cs_MessageItemID s \<noteq> [] \<or> cs_ToolCalls s = [] then
             (Suc k, outputs @ [zero_ro\<lparr>ro_Type := ''message'',
                ro_ID := nonEmpty (cs_MessageItemID s) (generateItemID rnd k), ro_Role := ''assistant'',
                ro_Content := [zero_rcp\<lparr>rcp_Type := ''output_text'', rcp_Text := cs_Text s\<rparr>],
                ro_Status := ''completed''\<rparr>])
             else (k, outputs))
      in fold (chatOutputTool rnd s) (tool_range s) (k, outputs))"

definition completeChatResponse :: "(nat \<Rightarrow> string) \<Rightarrow> cs_emitter" where
  "completeChatResponse rnd s =
     (let truncated = (cs_FinishReason s = ''length'');
          (k, output) = chatOutput rnd s
      in chatToResponsesEvent ''response.completed''
           (\<lambda>s. zero_rse\<lparr>rse_Response := Some (zero_rr\<lparr>rr_ID := cs_ResponseID s, rr_Object := ''response'',
              rr_Model := cs_Model s, rr_Status := (if truncated then ''incomplete'' else ''completed''),
              rr_Output := output, rr_Usage := cs_Usage s,
              rr_IncompleteDetails := (if truncated then Some \<lparr>rid_Reason = ''max_output_tokens''\<rparr> else None)\<rparr>)\<rparr>)
           (s\<lparr>cs_CompletedSent := True, cs_draws := k\<rparr>))"

definition FinalizeChatCompletionsResponsesStream :: "(nat \<Rightarrow> string) \<Rightarrow> cs_emitter" where
  "FinalizeChatCompletionsResponsesStream rnd s =
     (if cs_CompletedSent s then (s, [])
      else emit_seq ensureChatToResponsesCreated
        (emit_seq closeChatReasoningItem
          (emit_seq (synthesizeChatReasoningFallbackMessage rnd)
            (emit_seq finishMessageItem
              (emit_seq closeChatToolItems (completeChatResponse rnd))))) s)"

section \<open>Sequence numbers\<close>

text \<open>What an emitter emits is accepted, from the view of its state to that of the new state.\<close>

definition cs_numbered :: "cs_emitter \<Rightarrow> bool" where
  "cs_numbered h \<longleftrightarrow> (\<forall>s. run_check seq_check (cs_SequenceNumber s) (snd (h s)) = Some (cs_SequenceNumber (fst (h s))))"

lemma cs_numberedD:
  "cs_numbered h \<Longrightarrow> run_check seq_check (cs_SequenceNumber s) (snd (h s)) = Some (cs_SequenceNumber (fst (h s)))"
  by (simp add: cs_numbered_def)

lemma cs_numbered_seq: "cs_numbered f \<Longrightarrow> cs_numbered g \<Longrightarrow> cs_numbered (emit_seq f g)"
  by (simp add: cs_numbered_def)

lemma cs_numbered_run: "(\<And>x. cs_numbered (\<lambda>s. step s x)) \<Longrightarrow> cs_numbered (\<lambda>s. run_stream step s xs)"
  by (induction xs) (simp_all add: cs_numbered_def)

lemma cs_numbered_event: "cs_numbered (chatToResponsesEvent t f)"
  by (simp add: cs_numbered_def chatToResponsesEvent_def seq_check_def)

lemmas cs_numbered_basic = cs_numbered_event [THEN cs_numberedD]

lemma cs_numbered_items:
  "cs_numbered ensureChatToResponsesCreated" "cs_numbered (ensureChatReasoningItem rnd)"
  "cs_numbered closeChatReasoningItem" "cs_numbered (ensureChatToResponsesMessageItem rnd)"
  "cs_numbered ensureChatToResponsesTextPart" "cs_numbered (reasoning_delta d)"
  "cs_numbered (message_text_delta d)" "cs_numbered (openChatToolItem rnd i tc)"
  "cs_numbered (chatToolArguments i a)" "cs_numbered (noteFinishReason r)" "cs_numbered finishTextPart"
  "cs_numbered (\<lambda>s. closeChatToolItem s i)" "cs_numbered (completeChatResponse rnd)"
  by (simp_all add: cs_numbered_def chatToResponsesEvent_def seq_check_def ensureChatToResponsesCreated_def
      ensureChatReasoningItem_def closeChatReasoningItem_def ensureChatToResponsesMessageItem_def
      ensureChatToResponsesTextPart_def reasoning_delta_def message_text_delta_def openChatToolItem_def
      chatToolArguments_def noteFinishReason_def finishTextPart_def closeChatToolItem_def
      completeChatResponse_def Let_def split_beta split: option.split)

lemma chatReasoningDelta_numbered: "cs_numbered (chatReasoningDelta rnd d)"
  using cs_numbered_items by (simp add: cs_numbered_def chatReasoningDelta_def split: option.split)

lemma chatContentDelta_numbered: "cs_numbered (chatContentDelta rnd d)"
  using cs_numbered_items by (simp add: cs_numbered_def chatContentDelta_def split: option.split)

lemma chatToolCall_numbered: "cs_numbered (\<lambda>s. chatToolCall rnd s tc)"
  unfolding chatToolCall_def Let_def
  using cs_numbered_items by (intro cs_numbered_seq) (simp_all add: cs_numbered_def split: option.split)

lemma chatChoice_numbered: "cs_numbered (\<lambda>s. chatChoiceEvents rnd s c)"
  unfolding chatChoiceEvents_def
  by (intro cs_numbered_seq cs_numbered_run chatReasoningDelta_numbered chatContentDelta_numbered
      chatToolCall_numbered cs_numbered_items)

lemma chatFallback_numbered: "cs_numbered (synthesizeChatReasoningFallbackMessage rnd)"
  using cs_numbered_items by (simp add: cs_numbered_def synthesizeChatReasoningFallbackMessage_def)

lemma finishMessageItem_numbered: "cs_numbered finishMessageItem"
  using cs_numbered_items by (simp add: cs_numbered_def finishMessageItem_def cs_numbered_basic)

lemma closeChatToolItems_numbered: "cs_numbered closeChatToolItems"
proof -
  have "cs_numbered (\<lambda>s. run_stream closeChatToolItem s is)" for "is"
    by (intro cs_numbered_run cs_numbered_items)
  then show ?thesis by (simp add: cs_numbered_def closeChatToolItems_def)
qed

lemma chat_finalize_numbered: "cs_numbered (FinalizeChatCompletionsResponsesStream rnd)"
proof -
  have "cs_numbered (emit_seq ensureChatToResponsesCreated (emit_seq closeChatReasoningItem
      (emit_seq (synthesizeChatReasoningFallbackMessage rnd) (emit_seq finishMessageItem
        (emit_seq closeChatToolItems (completeChatResponse rnd))))))"
    by (intro cs_numbered_seq cs_numbered_items chatFallback_numbered finishMessageItem_numbered
        closeChatToolItems_numbered)
  then show ?thesis
    unfolding cs_numbered_def FinalizeChatCompletionsResponsesStream_def
    by (simp del: fst_emit_seq snd_emit_seq)
qed

lemma noteChunk_fields [simp]:
  "cs_SequenceNumber (noteChunk c s) = cs_SequenceNumber s" "cs_CreatedSent (noteChunk c s) = cs_CreatedSent s"
  "cs_CompletedSent (noteChunk c s) = cs_CompletedSent s" "cs_nextOutputIndex (noteChunk c s) = cs_nextOutputIndex s"
  "cs_ReasoningItemID (noteChunk c s) = cs_ReasoningItemID s" "cs_ReasoningIndex (noteChunk c s) = cs_ReasoningIndex s"
  "cs_ReasoningOpen (noteChunk c s) = cs_ReasoningOpen s" "cs_ReasoningDone (noteChunk c s) = cs_ReasoningDone s"
  "cs_MessageItemID (noteChunk c s) = cs_MessageItemID s" "cs_MessageIndex (noteChunk c s) = cs_MessageIndex s"
  "cs_Text (noteChunk c s) = cs_Text s" "cs_Reasoning (noteChunk c s) = cs_Reasoning s"
  "cs_ToolCalls (noteChunk c s) = cs_ToolCalls s" "cs_ToolItemIDs (noteChunk c s) = cs_ToolItemIDs s"
  "cs_ToolOutputIndex (noteChunk c s) = cs_ToolOutputIndex s" "cs_TextPartOpen (noteChunk c s) = cs_TextPartOpen s"
  by (simp_all add: noteChunk_def Let_def)

interpretation cs_seq: finalized_converter
  "ChatCompletionsChunkToResponsesEvents rnd" seq_check cs_SequenceNumber "\<lambda>_. True"
  "FinalizeChatCompletionsResponsesStream rnd" cs_CompletedSent for rnd
proof (unfold_locales, goal_cases)
  case (2 s e)
  have "cs_numbered (emit_seq ensureChatToResponsesCreated (\<lambda>s. run_stream (chatChoiceEvents rnd) s (chk_Choices e)))"
    by (intro cs_numbered_seq cs_numbered_run cs_numbered_items chatChoice_numbered)
  from cs_numberedD [OF this, of "noteChunk e s"] show ?case
    by (simp add: ChatCompletionsChunkToResponsesEvents_def)
next
  case (3 s)
  show ?case by (rule cs_numberedD [OF chat_finalize_numbered])
qed (simp_all add: FinalizeChatCompletionsResponsesStream_def)

definition c2r_stream ::
  "(nat \<Rightarrow> string) \<Rightarrow> int \<Rightarrow> string \<Rightarrow> ChatCompletionsChunk list \<Rightarrow> cs_state \<times> ResponsesStreamEvent list" where
  "c2r_stream rnd now model chunks =
     emit_seq (\<lambda>s. run_stream (ChatCompletionsChunkToResponsesEvents rnd) s chunks)
       (FinalizeChatCompletionsResponsesStream rnd) (NewChatCompletionsToResponsesStreamState rnd now model)"

text \<open>
  whatever chunks the upstream sends, the Responses events, those of the finalizer included,
  are numbered 0, 1, 2 and so on.
\<close>

theorem c2r_sequence_numbers:
  "map rse_SequenceNumber (snd (c2r_stream rnd now model chunks)) =
     map int [0..<length (snd (c2r_stream rnd now model chunks))]"
proof -
  have "run_check seq_check 0 (snd (c2r_stream rnd now model chunks)) =
      Some (cs_SequenceNumber (fst (c2r_stream rnd now model chunks)))"
    using cs_seq.stream_checked [of "NewChatCompletionsToResponsesStreamState rnd now model" rnd chunks]
    by (simp add: c2r_stream_def NewChatCompletionsToResponsesStreamState_def)
  from seq_check_numbers [OF this] show ?thesis by simp
qed

section \<open>Payload\<close>

definition cs_says :: "cs_emitter \<Rightarrow> string \<Rightarrow> string \<Rightarrow> string \<Rightarrow> bool" where
  "cs_says h text reasoning args \<longleftrightarrow> (\<forall>s. collect resp_text_out (snd (h s)) = text \<and>
     collect resp_reasoning_out (snd (h s)) = reasoning \<and> collect resp_args_out (snd (h s)) = args)"

lemma cs_saysD:
  assumes "cs_says h t r a"
  shows "collect resp_text_out (snd (h s)) = t" "collect resp_reasoning_out (snd (h s)) = r"
    "collect resp_args_out (snd (h s)) = a"
  using assms by (simp_all add: cs_says_def)

lemma cs_says_seq: "cs_says f t r a \<Longrightarrow> cs_says g t' r' a' \<Longrightarrow> cs_says (emit_seq f g) (t @ t') (r @ r') (a @ a')"
  by (simp add: cs_says_def del: concat_eq_Nil_conv)

lemma cs_says_run:
  "(\<And>x. cs_says (\<lambda>s. step s x) (t x) (r x) (a x)) \<Longrightarrow>
    cs_says (\<lambda>s. run_stream step s xs) (collect t xs) (collect r xs) (collect a xs)"
  by (induction xs) (simp_all add: cs_says_def del: concat_eq_Nil_conv)

lemma says_event [simp]:
  "collect resp_text_out (snd (chatToResponsesEvent t f s)) =
     (if t = ''response.output_text.delta'' then rse_Delta (f s) else [])"
  "collect resp_reasoning_out (snd (chatToResponsesEvent t f s)) =
     (if t = ''response.reasoning_summary_text.delta'' then rse_Delta (f s) else [])"
  "collect resp_args_out (snd (chatToResponsesEvent t f s)) =
     (if t = ''response.function_call_arguments.delta'' then rse_Delta (f s) else [])"
  by (simp_all add: chatToResponsesEvent_def resp_text_out_def resp_reasoning_out_def resp_args_out_def)

lemma cs_says_items:
  "cs_says ensureChatToResponsesCreated [] [] []" "cs_says (ensureChatReasoningItem rnd) [] [] []"
  "cs_says closeChatReasoningItem [] [] []" "cs_says (ensureChatToResponsesMessageItem rnd) [] [] []"
  "cs_says ensureChatToResponsesTextPart [] [] []" "cs_says (reasoning_delta d) [] d []"
  "cs_says (message_text_delta d) d [] []" "cs_says (openChatToolItem rnd i tc) [] [] []"
  "cs_says (noteFinishReason r) [] [] []" "cs_says finishTextPart [] [] []"
  "cs_says (\<lambda>s. closeChatToolItem s i) [] [] []" "cs_says (completeChatResponse rnd) [] [] []"
  by (simp_all add: cs_says_def ensureChatToResponsesCreated_def
      ensureChatReasoningItem_def closeChatReasoningItem_def ensureChatToResponsesMessageItem_def
      ensureChatToResponsesTextPart_def reasoning_delta_def message_text_delta_def openChatToolItem_def
      noteFinishReason_def finishTextPart_def closeChatToolItem_def zero_rse_def
      completeChatResponse_def Let_def split_beta del: concat_eq_Nil_conv split: option.split)

lemmas cs_items_say [simp] = cs_says_items [THEN cs_saysD(1)] cs_says_items [THEN cs_saysD(2)] cs_says_items [THEN cs_saysD(3)]

text \<open>The text, reasoning and tool arguments of a choice and of a chunk.\<close>

definition opt_string :: "string option \<Rightarrow> string" where
  "opt_string x = (case x of None \<Rightarrow> [] | Some s \<Rightarrow> s)"

definition choice_text :: "ChatChunkChoice \<Rightarrow> string" where
  "choice_text c = opt_string (cd_Content (cch_Delta c))"

definition choice_reasoning :: "ChatChunkChoice \<Rightarrow> string" where
  "choice_reasoning c = opt_string (cd_ReasoningContent (cch_Delta c))"

definition choice_args :: "ChatChunkChoice \<Rightarrow> string" where
  "choice_args c = collect (\<lambda>tc. cfc_Arguments (ctc_Function tc)) (cd_ToolCalls (cch_Delta c))"

definition chunk_of :: "(ChatChunkChoice \<Rightarrow> string) \<Rightarrow> ChatCompletionsChunk \<Rightarrow> string" where
  "chunk_of f chunk = collect f (chk_Choices chunk)"

lemma chatReasoningDelta_says: "cs_says (chatReasoningDelta rnd d) [] (opt_string d) []"
  by (simp add: cs_says_def chatReasoningDelta_def opt_string_def del: concat_eq_Nil_conv split: option.split)

lemma chatContentDelta_says: "cs_says (chatContentDelta rnd d) (opt_string d) [] []"
  by (simp add: cs_says_def chatContentDelta_def opt_string_def del: concat_eq_Nil_conv split: option.split)

lemma tool_known:
  "map_of (cs_ToolCalls (fst (openChatToolItem rnd i tc s))) i \<noteq> None"
  by (simp add: openChatToolItem_def chatToResponsesEvent_def update_conv' Let_def split_beta)

lemma chatToolArguments_says:
  assumes "map_of (cs_ToolCalls s) i \<noteq> None"
  shows "collect resp_text_out (snd (chatToolArguments i a s)) = []"
    "collect resp_reasoning_out (snd (chatToolArguments i a s)) = []"
    "collect resp_args_out (snd (chatToolArguments i a s)) = a"
  using assms by (auto simp: chatToolArguments_def Let_def simp del: concat_eq_Nil_conv split: option.split)

lemma chatToolCall_says: "cs_says (\<lambda>s. chatToolCall rnd s tc) [] [] (cfc_Arguments (ctc_Function tc))"
  unfolding cs_says_def
proof
  fix s
  let ?h = "\<lambda>s. case map_of (cs_ToolCalls s) (tool_index tc) of
      None \<Rightarrow> emit_seq closeChatReasoningItem (openChatToolItem rnd (tool_index tc) tc) s
    | Some stored \<Rightarrow> (s\<lparr>cs_ToolCalls := AList.update (tool_index tc) (renameChatTool tc stored) (cs_ToolCalls s)\<rparr>, [])"
  have "map_of (cs_ToolCalls (fst (?h s))) (tool_index tc) \<noteq> None"
    using tool_known by (simp add: update_conv' split: option.split)
  note args = chatToolArguments_says [OF this, of "cfc_Arguments (ctc_Function tc)"]
  have quiet: "collect resp_text_out (snd (?h s)) = []" "collect resp_reasoning_out (snd (?h s)) = []"
    "collect resp_args_out (snd (?h s)) = []"
    by (simp_all del: concat_eq_Nil_conv split: option.split)
  have "chatToolCall rnd s tc = emit_seq ?h (chatToolArguments (tool_index tc) (cfc_Arguments (ctc_Function tc))) s"
    by (simp add: chatToolCall_def Let_def)
  with args quiet show "collect resp_text_out (snd (chatToolCall rnd s tc)) = [] \<and>
      collect resp_reasoning_out (snd (chatToolCall rnd s tc)) = [] \<and>
      collect resp_args_out (snd (chatToolCall rnd s tc)) = cfc_Arguments (ctc_Function tc)"
    by (simp only: snd_emit_seq map_append concat_append append_Nil simp_thms)
qed

lemma collect_nothing: "collect (\<lambda>_. []) xs = []"
  by simp

lemma chatChoice_says:
  "cs_says (\<lambda>s. chatChoiceEvents rnd s c) (choice_text c) (choice_reasoning c) (choice_args c)"
proof -
  have tools: "cs_says (\<lambda>s. run_stream (chatToolCall rnd) s (cd_ToolCalls (cch_Delta c))) [] [] (choice_args c)"
    using cs_says_run [where step = "chatToolCall rnd" and t = "\<lambda>_. []" and r = "\<lambda>_. []"
        and xs = "cd_ToolCalls (cch_Delta c)", OF chatToolCall_says]
    unfolding choice_args_def collect_nothing .
  show ?thesis
    using cs_says_seq [OF chatReasoningDelta_says cs_says_seq [OF chatContentDelta_says
        cs_says_seq [OF tools cs_says_items(9)]],
        of rnd "cd_ReasoningContent (cch_Delta c)" rnd "cd_Content (cch_Delta c)" "cch_FinishReason c"]
    by (simp add: chatChoiceEvents_def choice_text_def choice_reasoning_def)
qed

lemma chat_chunk_says:
  "cs_says (\<lambda>s. ChatCompletionsChunkToResponsesEvents rnd s chunk)
    (chunk_of choice_text chunk) (chunk_of choice_reasoning chunk) (chunk_of choice_args chunk)"
proof -
  have "cs_says (\<lambda>s. run_stream (chatChoiceEvents rnd) s (chk_Choices chunk))
      (chunk_of choice_text chunk) (chunk_of choice_reasoning chunk) (chunk_of choice_args chunk)"
    unfolding chunk_of_def by (rule cs_says_run) (rule chatChoice_says)
  from cs_says_seq [OF cs_says_items(1) this] show ?thesis
    by (simp add: cs_says_def ChatCompletionsChunkToResponsesEvents_def del: concat_eq_Nil_conv)
qed

interpretation cs_text: payload_converter
  "ChatCompletionsChunkToResponsesEvents rnd" "chunk_of choice_text" resp_text_out for rnd
  by unfold_locales (rule cs_saysD(1) [OF chat_chunk_says])

interpretation cs_reasoning: payload_converter
  "ChatCompletionsChunkToResponsesEvents rnd" "chunk_of choice_reasoning" resp_reasoning_out for rnd
  by unfold_locales (rule cs_saysD(2) [OF chat_chunk_says])

interpretation cs_args: payload_converter
  "ChatCompletionsChunkToResponsesEvents rnd" "chunk_of choice_args" resp_args_out for rnd
  by unfold_locales (rule cs_saysD(3) [OF chat_chunk_says])

section \<open>What the state remembers\<close>

text \<open>
  An emitter that adds the text \<open>t\<close> and the reasoning \<open>r\<close> to the state, knows a tool call
  afterwards if it did before or \<open>b\<close>, announces the response if it had not been, and does not
  complete it.
\<close>

definition cs_tracks :: "cs_emitter \<Rightarrow> string \<Rightarrow> string \<Rightarrow> bool \<Rightarrow> bool" where
  "cs_tracks h t r b \<longleftrightarrow> (\<forall>s. cs_Text (fst (h s)) = cs_Text s @ t \<and> cs_Reasoning (fst (h s)) = cs_Reasoning s @ r \<and>
     (cs_ToolCalls (fst (h s)) \<noteq> [] \<longleftrightarrow> cs_ToolCalls s \<noteq> [] \<or> b) \<and>
     (cs_MessageItemID (fst (h s)) \<noteq> [] \<longleftrightarrow> cs_MessageItemID s \<noteq> [] \<or> t \<noteq> []) \<and>
     cs_CompletedSent (fst (h s)) = cs_CompletedSent s \<and> filter is_completed (snd (h s)) = [] \<and>
     count_if is_created (snd (h s)) + of_bool (cs_CreatedSent s) = of_bool (cs_CreatedSent (fst (h s))))"

lemma cs_tracksD:
  assumes "cs_tracks h t r b"
  shows "cs_Text (fst (h s)) = cs_Text s @ t" "cs_Reasoning (fst (h s)) = cs_Reasoning s @ r"
    "cs_ToolCalls (fst (h s)) \<noteq> [] \<longleftrightarrow> cs_ToolCalls s \<noteq> [] \<or> b"
    "cs_MessageItemID (fst (h s)) \<noteq> [] \<longleftrightarrow> cs_MessageItemID s \<noteq> [] \<or> t \<noteq> []"
    "cs_CompletedSent (fst (h s)) = cs_CompletedSent s" "filter is_completed (snd (h s)) = []"
    "count_if is_created (snd (h s)) + of_bool (cs_CreatedSent s) = of_bool (cs_CreatedSent (fst (h s)))"
  using assms unfolding cs_tracks_def by blast+

lemma cs_tracks_seq:
  assumes "cs_tracks f t r b" "cs_tracks g t' r' b'"
  shows "cs_tracks (emit_seq f g) (t @ t') (r @ r') (b \<or> b')"
  unfolding cs_tracks_def
proof (intro allI conjI impI)
  fix s
  show "cs_MessageItemID (fst (emit_seq f g s)) \<noteq> [] \<longleftrightarrow> cs_MessageItemID s \<noteq> [] \<or> t @ t' \<noteq> []"
    using cs_tracksD(4) [OF assms(1), of s] cs_tracksD(4) [OF assms(2), of "fst (f s)"] by auto
  show "count_if is_created (snd (emit_seq f g s)) + of_bool (cs_CreatedSent s) =
      of_bool (cs_CreatedSent (fst (emit_seq f g s)))"
    using cs_tracksD(7) [OF assms(1), of s] cs_tracksD(7) [OF assms(2), of "fst (f s)"] by simp
qed (simp_all add: cs_tracksD(1,2,3,5,6) [OF assms(1)] cs_tracksD(1,2,3,5,6) [OF assms(2)])

lemma cs_tracks_skip: "cs_tracks (\<lambda>s. (s, [])) [] [] False"
  by (simp add: cs_tracks_def)

lemma cs_tracks_run:
  "(\<And>x. cs_tracks (\<lambda>s. step s x) (t x) (r x) (b x)) \<Longrightarrow>
    cs_tracks (\<lambda>s. run_stream step s xs) (collect t xs) (collect r xs) (list_ex b xs)"
proof (induction xs)
  case Nil
  then show ?case by (simp add: cs_tracks_skip)
next
  case (Cons x xs)
  have "(\<lambda>s. run_stream step s (x # xs)) = emit_seq (\<lambda>s. step s x) (\<lambda>s. run_stream step s xs)"
    by (rule ext) (simp add: prod_eq_iff)
  with cs_tracks_seq [OF Cons.prems Cons.IH [OF Cons.prems]] show ?case by simp
qed

text \<open>A choice between emitters that add the same.\<close>

lemma event_tracks [simp]:
  "cs_Text (fst (chatToResponsesEvent ty f s)) = cs_Text s"
  "cs_Reasoning (fst (chatToResponsesEvent ty f s)) = cs_Reasoning s"
  "cs_ToolCalls (fst (chatToResponsesEvent ty f s)) = cs_ToolCalls s"
  "cs_MessageItemID (fst (chatToResponsesEvent ty f s)) = cs_MessageItemID s"
  "cs_CompletedSent (fst (chatToResponsesEvent ty f s)) = cs_CompletedSent s"
  "cs_CreatedSent (fst (chatToResponsesEvent ty f s)) = cs_CreatedSent s"
  "filter is_completed (snd (chatToResponsesEvent ty f s)) =
     (if ty = ''response.completed'' then snd (chatToResponsesEvent ty f s) else [])"
  "filter is_created (snd (chatToResponsesEvent ty f s)) =
     (if ty = ''response.created'' then snd (chatToResponsesEvent ty f s) else [])"
  "length (snd (chatToResponsesEvent ty f s)) = 1"
  by (simp_all add: chatToResponsesEvent_def is_completed_def is_created_def)

lemma update_nonempty [simp]: "AList.update k v m \<noteq> []"
  by (cases m) auto

lemma cs_tracks_items:
  "cs_tracks ensureChatToResponsesCreated [] [] False" "cs_tracks (ensureChatReasoningItem rnd) [] [] False"
  "cs_tracks closeChatReasoningItem [] [] False"
  "cs_tracks ensureChatToResponsesTextPart [] [] False" "cs_tracks (reasoning_delta d) [] d False"
  "cs_tracks (openChatToolItem rnd i tc) [] [] True" "cs_tracks (noteFinishReason r) [] [] False"
  by (simp_all add: cs_tracks_def ensureChatToResponsesCreated_def ensureChatReasoningItem_def
      closeChatReasoningItem_def ensureChatToResponsesTextPart_def reasoning_delta_def openChatToolItem_def noteFinishReason_def Let_def split_beta split: option.split)

lemma finish_tracks:
  "cs_tracks finishTextPart [] [] False" "cs_tracks (\<lambda>s. closeChatToolItem s i) [] [] False"
  by (simp_all add: cs_tracks_def finishTextPart_def closeChatToolItem_def Let_def split: option.split)

lemma chatReasoningDelta_tracks: "cs_tracks (chatReasoningDelta rnd d) [] (opt_string d) False"
proof (cases "opt_string d = []")
  case True
  then show ?thesis
    by (simp add: cs_tracks_def chatReasoningDelta_def opt_string_def split: option.splits)
next
  case False
  then have "chatReasoningDelta rnd d = emit_seq (ensureChatReasoningItem rnd) (reasoning_delta (opt_string d))"
    by (simp add: fun_eq_iff chatReasoningDelta_def opt_string_def split: option.splits)
  then show ?thesis using cs_tracks_seq [OF cs_tracks_items(2,5)] by simp
qed

lemma message_tracks: "d \<noteq> [] \<Longrightarrow> cs_tracks (emit_seq (ensureChatToResponsesMessageItem rnd)
    (emit_seq ensureChatToResponsesTextPart (message_text_delta d))) d [] False"
  by (simp add: cs_tracks_def ensureChatToResponsesMessageItem_def ensureChatToResponsesTextPart_def
      message_text_delta_def)

lemma chatContentDelta_tracks: "cs_tracks (chatContentDelta rnd d) (opt_string d) [] False"
proof (cases "opt_string d = []")
  case True
  then show ?thesis
    by (simp add: cs_tracks_def chatContentDelta_def opt_string_def split: option.splits)
next
  case False
  then have "chatContentDelta rnd d = emit_seq closeChatReasoningItem (emit_seq (ensureChatToResponsesMessageItem rnd)
      (emit_seq ensureChatToResponsesTextPart (message_text_delta (opt_string d))))"
    by (simp add: fun_eq_iff chatContentDelta_def opt_string_def split: option.splits)
  then show ?thesis using cs_tracks_seq [OF cs_tracks_items(3) message_tracks [OF False]] by simp
qed

lemma cs_tracks_cases: "(\<And>s. \<exists>h. cs_tracks h t r b \<and> k s = h s) \<Longrightarrow> cs_tracks k t r b"
  unfolding cs_tracks_def by metis

lemma chatToolCall_tracks: "cs_tracks (\<lambda>s. chatToolCall rnd s tc) [] [] True"
proof -
  have opened: "cs_tracks (emit_seq closeChatReasoningItem (openChatToolItem rnd i tc)) [] [] True" for i
    using cs_tracks_seq [OF cs_tracks_items(3,6)] by simp
  have "cs_tracks (\<lambda>s. case map_of (cs_ToolCalls s) (tool_index tc) of
      None \<Rightarrow> emit_seq closeChatReasoningItem (openChatToolItem rnd (tool_index tc) tc) s
    | Some stored \<Rightarrow> (s\<lparr>cs_ToolCalls := AList.update (tool_index tc) (renameChatTool tc stored) (cs_ToolCalls s)\<rparr>, [])) [] [] True"
  proof (rule cs_tracks_cases)
    fix s
    have stored: "cs_tracks (\<lambda>s. (s\<lparr>cs_ToolCalls := AList.update i x (cs_ToolCalls s)\<rparr>, [])) [] [] True" for i x
      by (simp add: cs_tracks_def)
    show "\<exists>h. cs_tracks h [] [] True \<and> (case map_of (cs_ToolCalls s) (tool_index tc) of
        None \<Rightarrow> emit_seq closeChatReasoningItem (openChatToolItem rnd (tool_index tc) tc) s
      | Some stored \<Rightarrow> (s\<lparr>cs_ToolCalls := AList.update (tool_index tc) (renameChatTool tc stored) (cs_ToolCalls s)\<rparr>, [])) = h s"
      using opened [of "tool_index tc"] stored [of "tool_index tc"]
      by (cases "map_of (cs_ToolCalls s) (tool_index tc)") (simp_all only: option.case, blast+)
  qed
  moreover have "cs_tracks (chatToolArguments i a) [] [] False" for i a
    by (auto simp: cs_tracks_def chatToolArguments_def Let_def split: option.split)
  ultimately show ?thesis
    using cs_tracks_seq [where b = True and b' = False and t = "[]" and t' = "[]" and r = "[]" and r' = "[]"]
    by (simp add: chatToolCall_def Let_def)
qed

definition choice_has_tool :: "ChatChunkChoice \<Rightarrow> bool" where
  "choice_has_tool c \<longleftrightarrow> cd_ToolCalls (cch_Delta c) \<noteq> []"

definition chunk_has_tool :: "ChatCompletionsChunk \<Rightarrow> bool" where
  "chunk_has_tool chunk \<longleftrightarrow> list_ex choice_has_tool (chk_Choices chunk)"

lemma chatChoice_tracks:
  "cs_tracks (\<lambda>s. chatChoiceEvents rnd s c) (choice_text c) (choice_reasoning c) (choice_has_tool c)"
proof -
  have "cs_tracks (\<lambda>s. run_stream (chatToolCall rnd) s (cd_ToolCalls (cch_Delta c))) [] [] (choice_has_tool c)"
    using cs_tracks_run [where step = "chatToolCall rnd" and t = "\<lambda>_. []" and r = "\<lambda>_. []" and b = "\<lambda>_. True"
        and xs = "cd_ToolCalls (cch_Delta c)", OF chatToolCall_tracks]
    unfolding collect_nothing by (cases "cd_ToolCalls (cch_Delta c)") (simp_all add: choice_has_tool_def)
  from cs_tracks_seq [OF chatReasoningDelta_tracks cs_tracks_seq [OF chatContentDelta_tracks
        cs_tracks_seq [OF this cs_tracks_items(7)]],
        of rnd "cd_ReasoningContent (cch_Delta c)" rnd "cd_Content (cch_Delta c)" "cch_FinishReason c"]
  show ?thesis by (simp add: chatChoiceEvents_def choice_text_def choice_reasoning_def)
qed

lemma chat_chunk_tracks:
  "cs_tracks (\<lambda>s. ChatCompletionsChunkToResponsesEvents rnd s chunk)
    (chunk_of choice_text chunk) (chunk_of choice_reasoning chunk) (chunk_has_tool chunk)"
proof -
  have "cs_tracks (\<lambda>s. run_stream (chatChoiceEvents rnd) s (chk_Choices chunk))
      (chunk_of choice_text chunk) (chunk_of choice_reasoning chunk) (chunk_has_tool chunk)"
    unfolding chunk_of_def chunk_has_tool_def by (rule cs_tracks_run) (rule chatChoice_tracks)
  from cs_tracks_seq [OF cs_tracks_items(1) this]
  have "cs_tracks (emit_seq ensureChatToResponsesCreated (\<lambda>s. run_stream (chatChoiceEvents rnd) s (chk_Choices chunk)))
      (chunk_of choice_text chunk) (chunk_of choice_reasoning chunk) (chunk_has_tool chunk)" by simp
  then show ?thesis
    unfolding cs_tracks_def ChatCompletionsChunkToResponsesEvents_def
    by (intro allI, drule_tac x = "noteChunk chunk s" in spec) (unfold noteChunk_fields, assumption)
qed

lemma chat_run_tracks:
  "cs_tracks (\<lambda>s. run_stream (ChatCompletionsChunkToResponsesEvents rnd) s chunks)
    (collect (chunk_of choice_text) chunks) (collect (chunk_of choice_reasoning) chunks) (list_ex chunk_has_tool chunks)"
  by (rule cs_tracks_run) (rule chat_chunk_tracks)

section \<open>The finalizer\<close>

text \<open>
  The text the finalizer adds: a reply of nothing but reasoning is repeated as its message.
\<close>

definition fallback_text :: "string \<Rightarrow> string \<Rightarrow> bool \<Rightarrow> string" where
  "fallback_text text reasoning tools =
     (if text = [] \<and> \<not> tools \<and> go_TrimSpace reasoning \<noteq> [] then reasoning else [])"

definition says_text :: "cs_emitter \<Rightarrow> cs_state \<Rightarrow> string \<Rightarrow> bool" where
  "says_text h s t \<longleftrightarrow> collect resp_text_out (snd (h s)) = t \<and> collect resp_reasoning_out (snd (h s)) = [] \<and>
     collect resp_args_out (snd (h s)) = []"

lemma fallback_effect:
  assumes "cs_MessageItemID s = [] \<longleftrightarrow> cs_Text s = []"
  shows "cs_Text (fst (synthesizeChatReasoningFallbackMessage rnd s)) =
      cs_Text s @ fallback_text (cs_Text s) (cs_Reasoning s) (cs_ToolCalls s \<noteq> [])"
    "says_text (synthesizeChatReasoningFallbackMessage rnd) s
      (fallback_text (cs_Text s) (cs_Reasoning s) (cs_ToolCalls s \<noteq> []))"
    "cs_Reasoning (fst (synthesizeChatReasoningFallbackMessage rnd s)) = cs_Reasoning s"
    "cs_ToolCalls (fst (synthesizeChatReasoningFallbackMessage rnd s)) = cs_ToolCalls s"
    "cs_CreatedSent (fst (synthesizeChatReasoningFallbackMessage rnd s)) = cs_CreatedSent s"
    "filter is_completed (snd (synthesizeChatReasoningFallbackMessage rnd s)) = []"
    "filter is_created (snd (synthesizeChatReasoningFallbackMessage rnd s)) = []"
    "cs_MessageItemID (fst (synthesizeChatReasoningFallbackMessage rnd s)) = [] \<longleftrightarrow>
      cs_Text (fst (synthesizeChatReasoningFallbackMessage rnd s)) = []"
  using assms
  by (auto simp: synthesizeChatReasoningFallbackMessage_def fallback_text_def says_text_def
      ensureChatToResponsesMessageItem_def ensureChatToResponsesTextPart_def message_text_delta_def
      simp del: concat_eq_Nil_conv)

lemma finishMessageItem_tracks: "cs_tracks finishMessageItem [] [] False" "cs_says finishMessageItem [] [] []"
proof -
  have "cs_tracks (chatToResponsesEvent ''response.output_item.done'' f) [] [] False"
    "cs_says (chatToResponsesEvent ''response.output_item.done'' f) [] [] []" for f
    by (simp_all add: cs_tracks_def cs_says_def)
  note seq = cs_tracks_seq [OF finish_tracks(1) this(1)] cs_says_seq [OF cs_says_items(10) this(2)]
  show "cs_tracks finishMessageItem [] [] False"
  proof (rule cs_tracks_cases)
    fix s
    show "\<exists>h. cs_tracks h [] [] False \<and> finishMessageItem s = h s"
      unfolding finishMessageItem_def using seq(1) cs_tracks_skip
      by (cases "cs_MessageItemID s = []") (simp_all only: if_True if_False append_Nil simp_thms, blast+)
  qed
  show "cs_says finishMessageItem [] [] []"
    unfolding cs_says_def finishMessageItem_def
    using cs_saysD [OF seq(2)] by (simp del: concat_eq_Nil_conv)
qed

lemma closeChatToolItems_tracks:
  "cs_tracks closeChatToolItems [] [] False" "cs_says closeChatToolItems [] [] []"
proof -
  have "cs_tracks (\<lambda>s. run_stream closeChatToolItem s is) [] [] False" for "is"
    using cs_tracks_run [where step = closeChatToolItem and t = "\<lambda>_. []" and r = "\<lambda>_. []" and b = "\<lambda>_. False"
        and xs = "is", OF finish_tracks(2)]
    unfolding collect_nothing by (simp add: list_ex_iff)
  then show "cs_tracks closeChatToolItems [] [] False"
    by (intro cs_tracks_cases) (auto simp: closeChatToolItems_def)
  have "cs_says (\<lambda>s. run_stream closeChatToolItem s is) [] [] []" for "is"
    using cs_says_run [where step = closeChatToolItem and t = "\<lambda>_. []" and r = "\<lambda>_. []" and a = "\<lambda>_. []"
        and xs = "is", OF cs_says_items(11)]
    unfolding collect_nothing .
  then show "cs_says closeChatToolItems [] [] []"
    by (simp add: cs_says_def closeChatToolItems_def)
qed

text \<open>The message text and the reasoning a completed response reports.\<close>

definition output_text :: "ResponsesOutput \<Rightarrow> string" where
  "output_text item = (if ro_Type item = ''message'' then collect rcp_Text (ro_Content item) else [])"

definition output_reasoning :: "ResponsesOutput \<Rightarrow> string" where
  "output_reasoning item = (if ro_Type item = ''reasoning'' then collect rsu_Text (ro_Summary item) else [])"

definition completed_with :: "ResponsesStreamEvent \<Rightarrow> (string \<times> string) list" where
  "completed_with e = (if is_completed e then
     (case rse_Response e of None \<Rightarrow> []
      | Some r \<Rightarrow> [(collect output_text (rr_Output r), collect output_reasoning (rr_Output r))]) else [])"

lemma fold_chatOutputTool:
  "collect output_text (snd (fold (chatOutputTool rnd s) is acc)) = collect output_text (snd acc)"
  "collect output_reasoning (snd (fold (chatOutputTool rnd s) is acc)) = collect output_reasoning (snd acc)"
  by (induction "is" arbitrary: acc)
     (simp_all add: chatOutputTool_def output_text_def output_reasoning_def zero_ro_def split: option.split)

lemma chatOutput_says:
  assumes "cs_MessageItemID s = [] \<longleftrightarrow> cs_Text s = []"
  shows "collect output_text (snd (chatOutput rnd s)) = cs_Text s"
    "collect output_reasoning (snd (chatOutput rnd s)) = cs_Reasoning s"
  using assms
  by (simp_all add: chatOutput_def fold_chatOutputTool output_text_def output_reasoning_def zero_ro_def Let_def)

lemma complete_effect:
  assumes "cs_MessageItemID s = [] \<longleftrightarrow> cs_Text s = []"
  shows "collect completed_with (snd (completeChatResponse rnd s)) = [(cs_Text s, cs_Reasoning s)]"
    "filter is_created (snd (completeChatResponse rnd s)) = []"
    "count_if is_completed (snd (completeChatResponse rnd s)) = 1"
    "is_completed (last (snd (completeChatResponse rnd s)))" "snd (completeChatResponse rnd s) \<noteq> []"
  using chatOutput_says [OF assms, of rnd]
  by (simp_all add: completeChatResponse_def chatToResponsesEvent_def completed_with_def is_completed_def
      is_created_def zero_rr_def Let_def split_beta)

lemma created_effect:
  "count_if is_created (snd (ensureChatToResponsesCreated s)) + of_bool (cs_CreatedSent s) = 1"
  "cs_CreatedSent (fst (ensureChatToResponsesCreated s))"
  by (simp_all add: ensureChatToResponsesCreated_def)

lemma close_created [simp]:
  "filter is_created (snd (closeChatReasoningItem s)) = []"
  "cs_CreatedSent (fst (closeChatReasoningItem s)) = cs_CreatedSent s"
  by (simp_all add: closeChatReasoningItem_def)

lemma completed_with_none: "filter is_completed xs = [] \<Longrightarrow> collect completed_with xs = []"
  by (induction xs) (auto simp: completed_with_def split: if_splits)


section \<open>Output items\<close>

text \<open>
  The upstream discipline the item lifecycle is written for: a tool call's index is one already
  seen or the next one, and no reasoning follows once the reasoning item has been closed by the
  first text or tool call after it.
\<close>

record chat_feed =
  ch_tools :: nat
  ch_opened :: bool
  ch_closed :: bool

definition feed_reasoning :: "string \<Rightarrow> chat_feed \<Rightarrow> chat_feed option" where
  "feed_reasoning t h = (if t = [] then Some h else if ch_closed h then None else Some (h\<lparr>ch_opened := True\<rparr>))"

definition feed_close :: "bool \<Rightarrow> chat_feed \<Rightarrow> chat_feed" where
  "feed_close b h = (if b then h\<lparr>ch_closed := ch_closed h \<or> ch_opened h\<rparr> else h)"

definition feed_tool :: "chat_feed \<Rightarrow> ChatToolCall \<Rightarrow> chat_feed option" where
  "feed_tool h tc =
     (let i = tool_index tc in
      if i < 0 \<or> i > int (ch_tools h) then None
      else if i = int (ch_tools h) then Some (feed_close True (h\<lparr>ch_tools := Suc (ch_tools h)\<rparr>))
      else Some h)"

definition feed_choice :: "chat_feed \<Rightarrow> ChatChunkChoice \<Rightarrow> chat_feed option" where
  "feed_choice h c =
     (case feed_reasoning (choice_reasoning c) h of
        None \<Rightarrow> None
      | Some h \<Rightarrow> run_check feed_tool (feed_close (choice_text c \<noteq> []) h) (cd_ToolCalls (cch_Delta c)))"

definition feed_chunk :: "chat_feed \<Rightarrow> ChatCompletionsChunk \<Rightarrow> chat_feed option" where
  "feed_chunk h chunk = run_check feed_choice h (chk_Choices chunk)"

definition new_chat_feed :: chat_feed where
  "new_chat_feed = \<lparr>ch_tools = 0, ch_opened = False, ch_closed = False\<rparr>"

text \<open>The items the state holds open, as the automaton records them.\<close>

definition tool_items :: "cs_state \<Rightarrow> (int \<times> string \<times> string) set" where
  "tool_items s = {(k, ''function_call'', itemid) | i k itemid.
     cs_ToolOutputIndex s i = Some k \<and> cs_ToolItemIDs s i = Some itemid}"

definition open_items :: "cs_state \<Rightarrow> (int \<times> string \<times> string) set" where
  "open_items s =
     (if cs_ReasoningOpen s then {(cs_ReasoningIndex s, ''reasoning'', cs_ReasoningItemID s)} else {}) \<union>
     (if cs_MessageItemID s \<noteq> [] then {(cs_MessageIndex s, ''message'', cs_MessageItemID s)} else {}) \<union>
     tool_items s"

definition holds_items :: "cs_state \<Rightarrow> items_view \<Rightarrow> bool" where
  "holds_items s g \<longleftrightarrow> fst g = cs_nextOutputIndex s \<and> items_ok g \<and> set (snd g) = open_items s"

definition feed_rel :: "chat_feed \<Rightarrow> cs_state \<Rightarrow> bool" where
  "feed_rel h s \<longleftrightarrow> cs_ReasoningOpen s = (ch_opened h \<and> \<not> ch_closed h) \<and> cs_ReasoningDone s = ch_closed h \<and>
     (ch_closed h \<longrightarrow> ch_opened h) \<and>
     distinct (map fst (cs_ToolCalls s)) \<and> fst ` set (cs_ToolCalls s) = {0..<int (ch_tools h)} \<and>
     dom (cs_ToolItemIDs s) = {0..<int (ch_tools h)} \<and> dom (cs_ToolOutputIndex s) = {0..<int (ch_tools h)} \<and>
     inj_on (cs_ToolOutputIndex s) {0..<int (ch_tools h)} \<and>
     (\<forall>i k. cs_ToolOutputIndex s i = Some k \<longrightarrow> k < cs_nextOutputIndex s) \<and>
     (cs_TextPartOpen s \<longrightarrow> cs_MessageItemID s \<noteq> [])"

definition cs_rel :: "chat_feed \<Rightarrow> cs_state \<Rightarrow> items_view \<Rightarrow> bool" where
  "cs_rel h s g \<longleftrightarrow> holds_items s g \<and> feed_rel h s \<and> \<not> cs_CompletedSent s"

text \<open>What the automaton does with each kind of event.\<close>

lemma check_event:
  "run_check item_check g (snd (chatToResponsesEvent t f s)) =
     item_check g ((f s)\<lparr>rse_Type := t, rse_SequenceNumber := cs_SequenceNumber s\<rparr>)"
  by (simp add: chatToResponsesEvent_def split: option.split)

lemma holds_event [simp]:
  "holds_items (fst (chatToResponsesEvent t f s)) g = holds_items s g"
  "feed_rel h (fst (chatToResponsesEvent t f s)) = feed_rel h s"
  "cs_rel h (fst (chatToResponsesEvent t f s)) g = cs_rel h s g"
  "tool_items (fst (chatToResponsesEvent t f s)) = tool_items s"
  by (simp_all add: chatToResponsesEvent_def holds_items_def feed_rel_def cs_rel_def open_items_def tool_items_def)

lemma items_ok_map: "items_ok (n, op) \<Longrightarrow> (k, v) \<in> set op \<Longrightarrow> map_of op k = Some v"
  by (simp add: items_ok_def)

lemma check_added:
  assumes "items_ok (n, op)" "rse_OutputIndex (f s) = n" "rse_Item (f s) = Some i"
  shows "\<exists>op'. run_check item_check (n, op) (snd (chatToResponsesEvent ''response.output_item.added'' f s)) =
      Some (n + 1, op') \<and> items_ok (n + 1, op') \<and> set op' = insert (n, ro_Type i, ro_ID i) (set op)"
  using assms by (auto simp: check_event item_check_def items_ok_def Let_def)

lemma check_scoped:
  assumes "items_ok (n, op)" "item_scope t = Some ty" "(rse_OutputIndex (f s), ty, rse_ItemID (f s)) \<in> set op"
    and "t \<noteq> ''response.output_item.added''" "t \<noteq> ''response.output_item.done''" "t \<noteq> ''response.completed''"
  shows "run_check item_check (n, op) (snd (chatToResponsesEvent t f s)) = Some (n, op)"
  using assms items_ok_map [OF assms(1,3)] by (simp add: check_event item_check_def Let_def)

lemma check_done:
  assumes "items_ok (n, op)" "rse_Item (f s) = Some i" "(rse_OutputIndex (f s), ro_Type i, ro_ID i) \<in> set op"
  shows "\<exists>op'. run_check item_check (n, op) (snd (chatToResponsesEvent ''response.output_item.done'' f s)) =
      Some (n, op') \<and> items_ok (n, op') \<and> set op' = {x \<in> set op. fst x \<noteq> rse_OutputIndex (f s)}"
proof -
  have "items_ok (n, AList.delete (rse_OutputIndex (f s)) op)"
    using assms(1) by (simp add: items_ok_def AList.distinct_delete) (simp add: AList.delete_eq)
  then show ?thesis
    using items_ok_map [OF assms(1,3)] assms(2)
    by (auto simp: check_event item_check_def Let_def AList.delete_eq)
qed

lemma check_unscoped:
  assumes "item_scope t = None" "t \<noteq> ''response.output_item.added''" "t \<noteq> ''response.output_item.done''"
    and "t \<noteq> ''response.completed''"
  shows "run_check item_check g (snd (chatToResponsesEvent t f s)) = Some g"
  using assms by (simp add: check_event item_check_def Let_def split_beta)

abbreviation cs_keeps :: "chat_feed \<Rightarrow> items_view \<Rightarrow> cs_state \<times> ResponsesStreamEvent list \<Rightarrow> bool" where
  "cs_keeps h g r \<equiv> \<exists>g'. run_check item_check g (snd r) = Some g' \<and> cs_rel h (fst r) g'"

lemma cs_keeps_seq:
  assumes "cs_keeps h g (f s)" and "\<And>g'. cs_rel h (fst (f s)) g' \<Longrightarrow> cs_keeps h' g' (k (fst (f s)))"
  shows "cs_keeps h' g (emit_seq f k s)"
proof -
  from assms(1) obtain g' where "run_check item_check g (snd (f s)) = Some g'" "cs_rel h (fst (f s)) g'" by blast
  with assms(2) [of g'] show ?thesis by auto
qed

lemma cs_keeps_skip: "cs_rel h s g \<Longrightarrow> cs_keeps h g (s, [])"
  by simp

lemma cs_rel_frame [simp]:
  "cs_rel h (s\<lparr>cs_CreatedSent := b\<rparr>) g = cs_rel h s g"
  "cs_rel h (s\<lparr>cs_Reasoning := t\<rparr>) g = cs_rel h s g"
  "cs_rel h (s\<lparr>cs_Text := t\<rparr>) g = cs_rel h s g"
  "cs_rel h (s\<lparr>cs_FinishReason := t\<rparr>) g = cs_rel h s g"
  by (simp_all add: cs_rel_def holds_items_def feed_rel_def open_items_def tool_items_def)

lemma created_keeps:
  assumes "cs_rel h s g"
  shows "cs_keeps h g (ensureChatToResponsesCreated s)"
  using assms by (cases "cs_CreatedSent s")
    (simp_all add: ensureChatToResponsesCreated_def check_unscoped item_scope_def)

lemma reasoning_item_keeps:
  assumes "cs_rel h s g" "\<not> ch_closed h"
  shows "cs_keeps (h\<lparr>ch_opened := True\<rparr>) g (ensureChatReasoningItem rnd s)"
proof (cases "cs_ReasoningOpen s")
  case True
  with assms show ?thesis by (auto simp: ensureChatReasoningItem_def cs_rel_def feed_rel_def)
next
  case False
  let ?s = "s\<lparr>cs_ReasoningOpen := True, cs_ReasoningItemID := generateItemID rnd (cs_draws s),
     cs_draws := Suc (cs_draws s), cs_ReasoningIndex := cs_nextOutputIndex s, cs_nextOutputIndex := cs_nextOutputIndex s + 1\<rparr>"
  obtain n op where g: "g = (n, op)" by (cases g)
  from assms(1) have n: "n = cs_nextOutputIndex s" "items_ok (n, op)" "set op = open_items s" "feed_rel h s"
    "\<not> cs_CompletedSent s" unfolding cs_rel_def holds_items_def g by auto
  have fr: "feed_rel (h\<lparr>ch_opened := True\<rparr>) ?s"
    using n(4) assms(2) by (auto simp: feed_rel_def intro: less_imp_le)
  have done0: "\<not> cs_ReasoningDone s" using n(4) assms(2) by (simp add: feed_rel_def)
  let ?f = "\<lambda>s. zero_rse\<lparr>rse_OutputIndex := cs_ReasoningIndex s,
             rse_Item := Some (zero_ro\<lparr>ro_Type := ''reasoning'', ro_ID := cs_ReasoningItemID s,
               ro_Status := ''in_progress''\<rparr>)\<rparr>"
  obtain op' where op': "run_check item_check (n, op) (snd (chatToResponsesEvent ''response.output_item.added'' ?f ?s)) =
      Some (n + 1, op')" "items_ok (n + 1, op')"
    "set op' = insert (n, ''reasoning'', generateItemID rnd (cs_draws s)) (open_items s)"
    using check_added [OF n(2), of ?f ?s] n(1,3) by auto
  have "cs_rel (h\<lparr>ch_opened := True\<rparr>) ?s (n + 1, op')"
    using op'(2,3) fr n(1,5) False by (auto simp: cs_rel_def holds_items_def open_items_def tool_items_def)
  moreover have "(cs_ReasoningIndex ?s, ''reasoning'', cs_ReasoningItemID ?s) \<in> set op'"
    using op'(3) n(1) by simp
  ultimately show ?thesis
    using False done0 op'(1,2) by (simp add: ensureChatReasoningItem_def g) 
      (subst check_scoped [where ty = "''reasoning''"]; simp add: item_scope_def chatToResponsesEvent_def)
qed

text \<open>Events that refer to the item in the state keep the relation.\<close>

lemma scoped_keeps:
  assumes "cs_rel h s g" "item_scope t = Some ty" "(rse_OutputIndex (f s), ty, rse_ItemID (f s)) \<in> open_items s"
    and "t \<noteq> ''response.output_item.added''" "t \<noteq> ''response.output_item.done''" "t \<noteq> ''response.completed''"
  shows "cs_keeps h g (chatToResponsesEvent t f s)"
proof -
  obtain n op where g: "g = (n, op)" by (cases g)
  with assms(1) have ok: "items_ok (n, op)" "set op = open_items s" by (auto simp: cs_rel_def holds_items_def)
  have "run_check item_check g (snd (chatToResponsesEvent t f s)) = Some g"
    unfolding g by (rule check_scoped [OF ok(1) assms(2) _ assms(4-6)]) (simp add: ok(2) assms(3))
  with assms(1) show ?thesis by simp
qed

lemma reasoning_delta_keeps:
  assumes "cs_rel h s g" "cs_ReasoningOpen s"
  shows "cs_keeps h g (reasoning_delta d s)"
  unfolding reasoning_delta_def
  by (rule scoped_keeps [where ty = "''reasoning''"])
     (use assms in \<open>simp_all add: item_scope_def open_items_def\<close>)

lemma chatReasoningDelta_keeps:
  assumes "cs_rel h s g" "feed_reasoning (opt_string d) h = Some h'"
  shows "cs_keeps h' g (chatReasoningDelta rnd d s)"
proof (cases "opt_string d = []")
  case True
  then have "chatReasoningDelta rnd d s = (s, [])" "h' = h"
    using assms(2) by (auto simp: chatReasoningDelta_def feed_reasoning_def opt_string_def split: option.splits)
  with assms(1) show ?thesis by (simp del: split_paired_Ex)
next
  case False
  then have d: "chatReasoningDelta rnd d s = emit_seq (ensureChatReasoningItem rnd) (reasoning_delta (opt_string d)) s"
    by (auto simp: chatReasoningDelta_def opt_string_def split: option.splits)
  from False assms(2) have h': "\<not> ch_closed h" "h' = h\<lparr>ch_opened := True\<rparr>"
    by (auto simp: feed_reasoning_def split: if_splits)
  show ?thesis
    unfolding d
  proof (rule cs_keeps_seq [where h = h'])
    show "cs_keeps h' g (ensureChatReasoningItem rnd s)"
      unfolding h'(2) by (rule reasoning_item_keeps [OF assms(1) h'(1)])
  next
    fix g'
    assume rel: "cs_rel h' (fst (ensureChatReasoningItem rnd s)) g'"
    then have "cs_ReasoningOpen (fst (ensureChatReasoningItem rnd s))"
      using h' by (simp add: cs_rel_def feed_rel_def)
    with rel show "cs_keeps h' g' (reasoning_delta (opt_string d) (fst (ensureChatReasoningItem rnd s)))"
      by (rule reasoning_delta_keeps)
  qed
qed

lemma closed_frame:
  assumes "cs_rel h s (n, op)" "cs_ReasoningOpen s" "items_ok (n, op')"
    and "set op' = {x \<in> set op. fst x \<noteq> cs_ReasoningIndex s}"
  shows "cs_rel (feed_close True h) (s\<lparr>cs_ReasoningOpen := False, cs_ReasoningDone := True\<rparr>) (n, op')"
proof -
  let ?s = "s\<lparr>cs_ReasoningOpen := False, cs_ReasoningDone := True\<rparr>"
  from assms(1) have n: "n = cs_nextOutputIndex s" "items_ok (n, op)" "set op = open_items s" "feed_rel h s"
    "\<not> cs_CompletedSent s" unfolding cs_rel_def holds_items_def by auto
  have "distinct (map fst op)" using n(2) by (simp add: items_ok_def)
  moreover have r: "(cs_ReasoningIndex s, ''reasoning'', cs_ReasoningItemID s) \<in> set op"
    using n(3) assms(2) by (simp add: open_items_def)
  ultimately have other: "fst x \<noteq> cs_ReasoningIndex s" if "x \<in> set op" "fst (snd x) \<noteq> ''reasoning''" for x
    using that by (metis (no_types, lifting) eq_key_imp_eq_value fst_conv snd_conv prod.collapse)
  have op: "set op = insert (cs_ReasoningIndex s, ''reasoning'', cs_ReasoningItemID s) (open_items ?s)"
    using assms(2) n(3) by (simp add: open_items_def tool_items_def)
  have "fst (snd x) \<noteq> ''reasoning''" if "x \<in> open_items ?s" for x
    using that by (auto simp: open_items_def tool_items_def split: if_splits)
  with other op have "\<forall>x \<in> open_items ?s. fst x \<noteq> cs_ReasoningIndex s" by blast
  then have "set op' = open_items ?s" unfolding assms(4) op by auto
  moreover have "feed_rel (feed_close True h) ?s"
    using n(4) assms(2) by (auto simp: feed_rel_def feed_close_def)
  ultimately show ?thesis using n assms(3) by (simp add: cs_rel_def holds_items_def)
qed

lemma closeReasoning_keeps:
  assumes "cs_rel h s g"
  shows "cs_keeps (feed_close True h) g (closeChatReasoningItem s)"
proof (cases "cs_ReasoningOpen s")
  case False
  with assms have "feed_close True h = h" by (auto simp: cs_rel_def feed_rel_def feed_close_def)
  with False assms show ?thesis by (simp add: closeChatReasoningItem_def)
next
  case True
  obtain n op where g: "g = (n, op)" by (cases g)
  from assms have n: "items_ok (n, op)" "set op = open_items s" unfolding g cs_rel_def holds_items_def by auto
  let ?s = "s\<lparr>cs_ReasoningOpen := False, cs_ReasoningDone := True\<rparr>"
  let ?f = "\<lambda>s. zero_rse\<lparr>rse_OutputIndex := cs_ReasoningIndex s,
     rse_Item := Some (zero_ro\<lparr>ro_Type := ''reasoning'', ro_ID := cs_ReasoningItemID s, ro_Status := ''completed'',
       ro_Summary := [\<lparr>rsu_Type = ''summary_text'', rsu_Text = cs_Reasoning s\<rparr>]\<rparr>)\<rparr>"
  have mem: "(cs_ReasoningIndex s, ''reasoning'', cs_ReasoningItemID s) \<in> set op"
    using n(2) True by (simp add: open_items_def)
  have two: "run_check item_check (n, op) (snd (chatToResponsesEvent t k s')) = Some (n, op)"
    if "item_scope t = Some ''reasoning''" "rse_OutputIndex (k s') = cs_ReasoningIndex s"
      "rse_ItemID (k s') = cs_ReasoningItemID s" "t \<noteq> ''response.output_item.added''"
      "t \<noteq> ''response.output_item.done''" "t \<noteq> ''response.completed''" for t k s'
    by (rule check_scoped [OF n(1) that(1)]) (use that mem in simp_all)
  have fields: "cs_ReasoningIndex (fst (chatToResponsesEvent t k s')) = cs_ReasoningIndex s'"
    "cs_ReasoningItemID (fst (chatToResponsesEvent t k s')) = cs_ReasoningItemID s'" for t k s'
    by (simp_all add: chatToResponsesEvent_def)
  let ?s2 = "fst (chatToResponsesEvent ''response.reasoning_summary_part.done''
            (\<lambda>s. zero_rse\<lparr>rse_OutputIndex := cs_ReasoningIndex s, rse_SummaryIndex := 0,
               rse_ItemID := cs_ReasoningItemID s,
               rse_Part := Some (zero_rcp\<lparr>rcp_Type := ''summary_text'', rcp_Text := cs_Reasoning s\<rparr>)\<rparr>)
       (fst (chatToResponsesEvent ''response.reasoning_summary_text.done''
          (\<lambda>s. zero_rse\<lparr>rse_OutputIndex := cs_ReasoningIndex s, rse_SummaryIndex := 0,
             rse_Text := cs_Reasoning s, rse_ItemID := cs_ReasoningItemID s\<rparr>) ?s)))"
  have "(rse_OutputIndex (?f ?s2), ''reasoning'', cs_ReasoningItemID s) \<in> set op" using mem by (simp add: fields)
  then obtain op' where op': "run_check item_check (n, op) (snd (chatToResponsesEvent ''response.output_item.done'' ?f ?s2)) =
      Some (n, op')" "items_ok (n, op')" "set op' = {x \<in> set op. fst x \<noteq> cs_ReasoningIndex s}"
    using check_done [OF n(1), of ?f ?s2] by (auto simp: fields zero_rse_def zero_ro_def)
  have "cs_rel (feed_close True h) ?s (n, op')"
    using closed_frame [OF assms [unfolded g] True op'(2,3)] .
  with op'(1) True show ?thesis
    by (simp add: closeChatReasoningItem_def g two fields item_scope_def)
qed

text \<open>Announcing a new item: the state has given it the next index.\<close>

lemma announced_keeps:
  assumes "holds_items s g" and "feed_rel h s'" and "\<not> cs_CompletedSent s'"
    and "cs_nextOutputIndex s' = cs_nextOutputIndex s + 1"
    and "open_items s' = insert (cs_nextOutputIndex s, ro_Type i, ro_ID i) (open_items s)"
    and "rse_OutputIndex (f s') = cs_nextOutputIndex s" "rse_Item (f s') = Some i"
  shows "cs_keeps h g (chatToResponsesEvent ''response.output_item.added'' f s')"
proof -
  obtain n op where g: "g = (n, op)" by (cases g)
  from assms(1) have n: "n = cs_nextOutputIndex s" "items_ok (n, op)" "set op = open_items s"
    unfolding g holds_items_def by auto
  from check_added [OF n(2), of f s' i] assms(6,7) n(1) obtain op' where
    "run_check item_check (n, op) (snd (chatToResponsesEvent ''response.output_item.added'' f s')) = Some (n + 1, op')"
    "items_ok (n + 1, op')" "set op' = insert (n, ro_Type i, ro_ID i) (set op)" by auto
  moreover from this assms(2-5) n have "cs_rel h s' (n + 1, op')" by (simp add: cs_rel_def holds_items_def)
  ultimately show ?thesis by (simp add: g)
qed

lemma message_item_keeps:
  assumes "cs_rel h s g"
  shows "cs_keeps h g (ensureChatToResponsesMessageItem rnd s) \<and>
    cs_MessageItemID (fst (ensureChatToResponsesMessageItem rnd s)) \<noteq> []"
proof (cases "cs_MessageItemID s = []")
  case False
  with assms show ?thesis by (simp add: ensureChatToResponsesMessageItem_def del: split_paired_Ex)
next
  case True
  let ?s = "s\<lparr>cs_MessageItemID := generateItemID rnd (cs_draws s), cs_draws := Suc (cs_draws s),
     cs_MessageIndex := cs_nextOutputIndex s, cs_nextOutputIndex := cs_nextOutputIndex s + 1\<rparr>"
  let ?f = "\<lambda>s. zero_rse\<lparr>rse_OutputIndex := cs_MessageIndex s,
     rse_Item := Some (zero_ro\<lparr>ro_Type := ''message'', ro_ID := cs_MessageItemID s,
       ro_Role := ''assistant'', ro_Status := ''in_progress'',
       ro_Content := [zero_rcp\<lparr>rcp_Type := ''output_text''\<rparr>]\<rparr>)\<rparr>"
  from assms have s: "holds_items s g" "feed_rel h s" "\<not> cs_CompletedSent s" by (simp_all add: cs_rel_def)
  have "feed_rel h ?s" using s(2) by (auto simp: feed_rel_def intro: less_imp_le)
  moreover have "open_items ?s = insert (cs_nextOutputIndex s, ''message'', generateItemID rnd (cs_draws s)) (open_items s)"
    using True by (auto simp: open_items_def tool_items_def)
  ultimately have "cs_keeps h g (chatToResponsesEvent ''response.output_item.added'' ?f ?s)"
    using s by (intro announced_keeps [OF s(1)]) simp_all
  with True show ?thesis
    by (simp add: ensureChatToResponsesMessageItem_def del: split_paired_Ex)
qed

lemma text_part_keeps:
  assumes "cs_rel h s g" "cs_MessageItemID s \<noteq> []"
  shows "cs_keeps h g (ensureChatToResponsesTextPart s) \<and>
    cs_MessageItemID (fst (ensureChatToResponsesTextPart s)) \<noteq> []"
proof (cases "cs_TextPartOpen s")
  case True
  with assms show ?thesis by (simp add: ensureChatToResponsesTextPart_def del: split_paired_Ex)
next
  case False
  have "cs_rel h (s\<lparr>cs_TextPartOpen := True\<rparr>) g"
    using assms by (simp add: cs_rel_def holds_items_def open_items_def tool_items_def feed_rel_def)
  from scoped_keeps [OF this, of "''response.content_part.added''" "''message''"
      "\<lambda>s. zero_rse\<lparr>rse_OutputIndex := cs_MessageIndex s, rse_ContentIndex := 0, rse_ItemID := cs_MessageItemID s,
         rse_Part := Some (zero_rcp\<lparr>rcp_Type := ''output_text'', rcp_Text := []\<rparr>)\<rparr>"] assms(2) False
  show ?thesis
    by (simp add: ensureChatToResponsesTextPart_def item_scope_def open_items_def del: split_paired_Ex)
qed

lemma text_delta_keeps:
  assumes "cs_rel h s g" "cs_MessageItemID s \<noteq> []"
  shows "cs_keeps h g (message_text_delta d s)"
  unfolding message_text_delta_def
  by (rule scoped_keeps [where ty = "''message''"])
     (use assms in \<open>simp_all add: item_scope_def open_items_def\<close>)

lemma message_text_keeps:
  assumes "cs_rel h s g"
  shows "cs_keeps h g (emit_seq (ensureChatToResponsesMessageItem rnd)
    (emit_seq ensureChatToResponsesTextPart (message_text_delta d)) s)"
proof (rule cs_keeps_seq [where h = h])
  note m = message_item_keeps [OF assms, of rnd]
  show "cs_keeps h g (ensureChatToResponsesMessageItem rnd s)" using m ..
  fix g' assume rel: "cs_rel h (fst (ensureChatToResponsesMessageItem rnd s)) g'"
  note t = text_part_keeps [OF rel m [THEN conjunct2]]
  show "cs_keeps h g' (emit_seq ensureChatToResponsesTextPart (message_text_delta d)
      (fst (ensureChatToResponsesMessageItem rnd s)))"
    by (rule cs_keeps_seq [where f = ensureChatToResponsesTextPart, OF t [THEN conjunct1]])
      (rule text_delta_keeps [OF _ t [THEN conjunct2]])
qed

lemma chatContentDelta_keeps:
  assumes "cs_rel h s g"
  shows "cs_keeps (feed_close (opt_string d \<noteq> []) h) g (chatContentDelta rnd d s)"
proof (cases "opt_string d = []")
  case True
  then have "chatContentDelta rnd d s = (s, [])"
    by (auto simp: chatContentDelta_def opt_string_def split: option.splits)
  with True assms show ?thesis by (simp add: feed_close_def del: split_paired_Ex)
next
  case False
  then have d: "chatContentDelta rnd d s = emit_seq closeChatReasoningItem (emit_seq (ensureChatToResponsesMessageItem rnd)
      (emit_seq ensureChatToResponsesTextPart (message_text_delta (opt_string d)))) s"
    by (auto simp: chatContentDelta_def opt_string_def split: option.splits)
  show ?thesis
    unfolding d using False
    by (simp del: split_paired_Ex fst_emit_seq snd_emit_seq)
      (rule cs_keeps_seq [where f = closeChatReasoningItem, OF closeReasoning_keeps [OF assms]], rule message_text_keeps)
qed

lemma feed_tools_known:
  assumes "feed_rel h s"
  shows "map_of (cs_ToolCalls s) i = None \<longleftrightarrow> i \<notin> {0..<int (ch_tools h)}"
  using assms by (simp add: feed_rel_def map_of_eq_None_iff)

lemma stored_frame:
  assumes "cs_rel h s g" "map_of (cs_ToolCalls s) i = Some stored"
  shows "cs_rel h (s\<lparr>cs_ToolCalls := AList.update i x (cs_ToolCalls s)\<rparr>) g"
proof -
  from assms(2) have "i \<in> fst ` set (cs_ToolCalls s)" by (auto dest: map_of_SomeD intro: rev_image_eqI)
  with assms(1) show ?thesis
    by (simp add: cs_rel_def holds_items_def open_items_def tool_items_def feed_rel_def distinct_update
        dom_update insert_absorb)
qed

lemma feed_rel_tools:
  assumes "feed_rel h s" "distinct (map fst tcs)" "fst ` set tcs = {0..<int n}" "dom ids = {0..<int n}"
    "dom ois = {0..<int n}" "\<forall>j k. ois j = Some k \<longrightarrow> k < m" "inj_on ois {0..<int n}"
  shows "feed_rel (h\<lparr>ch_tools := n\<rparr>) (s\<lparr>cs_ToolCalls := tcs, cs_draws := d, cs_ToolItemIDs := ids,
    cs_ToolOutputIndex := ois, cs_nextOutputIndex := m\<rparr>)"
  using assms by (simp add: feed_rel_def)

lemma open_items_tool:
  assumes "cs_ToolItemIDs s i = None" "cs_ToolOutputIndex s i = None"
  shows "open_items (s\<lparr>cs_ToolCalls := tcs, cs_draws := d, cs_ToolItemIDs := (cs_ToolItemIDs s)(i \<mapsto> x),
    cs_ToolOutputIndex := (cs_ToolOutputIndex s)(i \<mapsto> k), cs_nextOutputIndex := m\<rparr>) =
    insert (k, ''function_call'', x) (open_items s)"
proof -
  have "tool_items (s\<lparr>cs_ToolCalls := tcs, cs_draws := d, cs_ToolItemIDs := (cs_ToolItemIDs s)(i \<mapsto> x),
      cs_ToolOutputIndex := (cs_ToolOutputIndex s)(i \<mapsto> k), cs_nextOutputIndex := m\<rparr>) =
    insert (k, ''function_call'', x) (tool_items s)"
    using assms unfolding tool_items_def by (auto split: if_splits) (metis option.distinct(1))
  then show ?thesis by (simp add: open_items_def)
qed

lemma open_tool_keeps:
  assumes "cs_rel h s g" "i = int (ch_tools h)"
  shows "cs_keeps (h\<lparr>ch_tools := Suc (ch_tools h)\<rparr>) g (openChatToolItem rnd i tc s)"
proof -
  let ?k = "if ctc_ID tc = [] then Suc (cs_draws s) else cs_draws s"
  let ?c = "tc\<lparr>ctc_ID := (if ctc_ID tc = [] then generateItemID rnd (cs_draws s) else ctc_ID tc), ctc_Type := ''function''\<rparr>"
  let ?s = "s\<lparr>cs_ToolCalls := AList.update i ?c (cs_ToolCalls s), cs_draws := Suc ?k,
     cs_ToolItemIDs := (cs_ToolItemIDs s)(i \<mapsto> generateItemID rnd ?k),
     cs_ToolOutputIndex := (cs_ToolOutputIndex s)(i \<mapsto> cs_nextOutputIndex s),
     cs_nextOutputIndex := cs_nextOutputIndex s + 1\<rparr>"
  let ?f = "\<lambda>s. zero_rse\<lparr>rse_OutputIndex := (case cs_ToolOutputIndex s i of None \<Rightarrow> 0 | Some n \<Rightarrow> n),
     rse_Item := Some (zero_ro\<lparr>ro_Type := ''function_call'', ro_ID := generateItemID rnd ?k,
       ro_CallID := ctc_ID ?c, ro_Name := cfc_Name (ctc_Function ?c), ro_Status := ''in_progress''\<rparr>)\<rparr>"
  from assms(1) have s: "holds_items s g" "feed_rel h s" "\<not> cs_CompletedSent s" by (simp_all add: cs_rel_def)
  from s(2) have fr: "distinct (map fst (cs_ToolCalls s))" "fst ` set (cs_ToolCalls s) = {0..<int (ch_tools h)}"
    "dom (cs_ToolItemIDs s) = {0..<int (ch_tools h)}" "dom (cs_ToolOutputIndex s) = {0..<int (ch_tools h)}"
    "inj_on (cs_ToolOutputIndex s) {0..<int (ch_tools h)}"
    "\<forall>i k. cs_ToolOutputIndex s i = Some k \<longrightarrow> k < cs_nextOutputIndex s" by (simp_all add: feed_rel_def)
  have range: "{0..<int (Suc (ch_tools h))} = insert i {0..<int (ch_tools h)}" "i \<notin> {0..<int (ch_tools h)}"
    using assms(2) by auto
  have new: "cs_ToolItemIDs s i = None" "cs_ToolOutputIndex s i = None" using fr(3,4) range(2) by auto
  have unused: "cs_ToolOutputIndex s y \<noteq> Some (cs_nextOutputIndex s)"
    "Some (cs_nextOutputIndex s) \<noteq> cs_ToolOutputIndex s y" for y
    using fr(6) by (metis less_irrefl)+
  have inj: "inj_on ((cs_ToolOutputIndex s)(i \<mapsto> cs_nextOutputIndex s)) (insert i {0..<int (ch_tools h)})"
    using fr(5) range(2) unused by (auto simp: inj_on_def)
  have "feed_rel (h\<lparr>ch_tools := Suc (ch_tools h)\<rparr>) ?s"
  proof -
    have "distinct (map fst (AList.update i ?c (cs_ToolCalls s)))" using fr(1) by (rule distinct_update)
    moreover have "fst ` set (AList.update i ?c (cs_ToolCalls s)) = {0..<int (Suc (ch_tools h))}"
      unfolding dom_update range fr(2) by simp
    moreover have "dom ((cs_ToolItemIDs s)(i \<mapsto> generateItemID rnd ?k)) = {0..<int (Suc (ch_tools h))}"
      "dom ((cs_ToolOutputIndex s)(i \<mapsto> cs_nextOutputIndex s)) = {0..<int (Suc (ch_tools h))}"
      unfolding range using fr(3,4) by auto
    moreover have "\<forall>j k. ((cs_ToolOutputIndex s)(i \<mapsto> cs_nextOutputIndex s)) j = Some k \<longrightarrow> k < cs_nextOutputIndex s + 1"
      using fr(6) by (auto intro: less_imp_le)
    ultimately show ?thesis
      using inj [folded range(1)] by - (rule feed_rel_tools [OF s(2)]; assumption)
  qed
  moreover have "open_items ?s = insert (cs_nextOutputIndex s, ''function_call'', generateItemID rnd ?k) (open_items s)"
    using open_items_tool [OF new] by simp
  ultimately have "cs_keeps (h\<lparr>ch_tools := Suc (ch_tools h)\<rparr>) g (chatToResponsesEvent ''response.output_item.added'' ?f ?s)"
    using s by (intro announced_keeps [OF s(1)]) simp_all
  then show ?thesis by (simp add: openChatToolItem_def Let_def del: split_paired_Ex split: prod.split if_splits)
qed

lemma known_tool:
  assumes "feed_rel h s" "map_of (cs_ToolCalls s) i \<noteq> None"
  obtains k itemid where "cs_ToolOutputIndex s i = Some k" "cs_ToolItemIDs s i = Some itemid"
proof -
  from assms have "i \<in> {0..<int (ch_tools h)}" using feed_tools_known [OF assms(1), of i] by simp
  with assms(1) have "i \<in> dom (cs_ToolOutputIndex s)" "i \<in> dom (cs_ToolItemIDs s)" by (simp_all add: feed_rel_def)
  then show thesis using that by blast
qed

lemma tool_arguments_keeps:
  assumes "cs_rel h s g"
  shows "cs_keeps h g (chatToolArguments i a s)"
proof (cases "map_of (cs_ToolCalls s) i")
  case None
  with assms show ?thesis by (simp add: chatToolArguments_def del: split_paired_Ex)
next
  case (Some stored)
  from assms have "feed_rel h s" by (simp add: cs_rel_def)
  then obtain k itemid where k: "cs_ToolOutputIndex s i = Some k" "cs_ToolItemIDs s i = Some itemid"
    using Some by (metis known_tool option.distinct(1))
  then have mem: "(k, ''function_call'', itemid) \<in> open_items s" by (auto simp: open_items_def tool_items_def)
  let ?s = "s\<lparr>cs_ToolCalls := AList.update i (appendArguments a stored) (cs_ToolCalls s)\<rparr>"
  have same: "open_items ?s = open_items s" by (simp add: open_items_def tool_items_def)
  have keeps: "cs_keeps h g (chatToResponsesEvent ''response.function_call_arguments.delta''
      (\<lambda>s. zero_rse\<lparr>rse_OutputIndex := (case cs_ToolOutputIndex s i of None \<Rightarrow> 0 | Some n \<Rightarrow> n),
         rse_ItemID := (case cs_ToolItemIDs s i of None \<Rightarrow> [] | Some i \<Rightarrow> i), rse_Delta := a, rse_CallID := ctc_ID stored',
         rse_Name := cfc_Name (ctc_Function stored')\<rparr>) ?s)" for stored'
    by (rule scoped_keeps [where ty = "''function_call''", OF stored_frame [OF assms Some]])
       (use k mem same in \<open>simp_all add: item_scope_def\<close>)
  from keeps [of "appendArguments a stored"] Some assms show ?thesis
    by (simp add: chatToolArguments_def Let_def del: split_paired_Ex)
qed

lemma chatToolCall_keeps:
  assumes "cs_rel h s g" "feed_tool h tc = Some h'"
  shows "cs_keeps h' g (chatToolCall rnd s tc)"
proof -
  let ?i = "tool_index tc"
  from assms(1) have fr: "feed_rel h s" by (simp add: cs_rel_def)
  have first: "cs_keeps h' g (case map_of (cs_ToolCalls s) ?i of
      None \<Rightarrow> emit_seq closeChatReasoningItem (openChatToolItem rnd ?i tc) s
    | Some stored \<Rightarrow> (s\<lparr>cs_ToolCalls := AList.update ?i (renameChatTool tc stored) (cs_ToolCalls s)\<rparr>, []))"
  proof (cases "map_of (cs_ToolCalls s) ?i")
    case None
    then have "?i \<notin> {0..<int (ch_tools h)}" using feed_tools_known [OF fr] by blast
    with assms(2) have i: "?i = int (ch_tools h)" "h' = feed_close True (h\<lparr>ch_tools := Suc (ch_tools h)\<rparr>)"
      by (auto simp: feed_tool_def Let_def split: if_splits)
    have h': "h' = (feed_close True h)\<lparr>ch_tools := Suc (ch_tools (feed_close True h))\<rparr>"
      by (simp add: i(2) feed_close_def)
    have "cs_keeps h' g (emit_seq closeChatReasoningItem (openChatToolItem rnd ?i tc) s)"
      unfolding h'
      by (rule cs_keeps_seq [where f = closeChatReasoningItem, OF closeReasoning_keeps [OF assms(1)]], rule open_tool_keeps)
        (simp_all add: i(1) feed_close_def)
    with None show ?thesis by (simp only: option.case)
  next
    case (Some stored)
    then have "?i \<in> {0..<int (ch_tools h)}" using feed_tools_known [OF fr, of ?i] by simp
    with assms(2) have "h' = h" by (auto simp: feed_tool_def Let_def split: if_splits)
    with stored_frame [OF assms(1) Some] Some show ?thesis by (simp del: split_paired_Ex)
  qed
  show ?thesis
    unfolding chatToolCall_def Let_def
    by (rule cs_keeps_seq [where h = h']) (rule first, rule tool_arguments_keeps)
qed

interpretation cs_tool_protocol: protocol_converter "chatToolCall rnd" feed_tool item_check cs_rel for rnd
  by unfold_locales (rule chatToolCall_keeps)

lemma noteFinishReason_keeps: "cs_rel h s g \<Longrightarrow> cs_keeps h g (noteFinishReason r s)"
  by (simp add: noteFinishReason_def del: split_paired_Ex split: option.split)

lemma chatChoice_keeps:
  assumes "cs_rel h s g" "feed_choice h c = Some h'"
  shows "cs_keeps h' g (chatChoiceEvents rnd s c)"
proof -
  from assms(2) obtain h1 where h1: "feed_reasoning (choice_reasoning c) h = Some h1"
    "run_check feed_tool (feed_close (choice_text c \<noteq> []) h1) (cd_ToolCalls (cch_Delta c)) = Some h'"
    by (auto simp: feed_choice_def split: option.splits)
  show ?thesis
    unfolding chatChoiceEvents_def
  proof (rule cs_keeps_seq [where h = h1])
    show "cs_keeps h1 g (chatReasoningDelta rnd (cd_ReasoningContent (cch_Delta c)) s)"
      using chatReasoningDelta_keeps [OF assms(1)] h1(1) by (simp only: choice_reasoning_def)
    fix g1 assume rel1: "cs_rel h1 (fst (chatReasoningDelta rnd (cd_ReasoningContent (cch_Delta c)) s)) g1"
    show "cs_keeps h' g1 (emit_seq (chatContentDelta rnd (cd_Content (cch_Delta c)))
        (emit_seq (\<lambda>s. run_stream (chatToolCall rnd) s (cd_ToolCalls (cch_Delta c))) (noteFinishReason (cch_FinishReason c)))
        (fst (chatReasoningDelta rnd (cd_ReasoningContent (cch_Delta c)) s)))"
    proof (rule cs_keeps_seq [where h = "feed_close (choice_text c \<noteq> []) h1"])
      show "cs_keeps (feed_close (choice_text c \<noteq> []) h1) g1 (chatContentDelta rnd (cd_Content (cch_Delta c))
          (fst (chatReasoningDelta rnd (cd_ReasoningContent (cch_Delta c)) s)))"
        using chatContentDelta_keeps [OF rel1] by (simp only: choice_text_def)
    next
      fix s2 g2 assume rel2: "cs_rel (feed_close (choice_text c \<noteq> []) h1) s2 g2"
      show "cs_keeps h' g2 (emit_seq (\<lambda>s. run_stream (chatToolCall rnd) s (cd_ToolCalls (cch_Delta c)))
          (noteFinishReason (cch_FinishReason c)) s2)"
        by (rule cs_keeps_seq [where h = h'])
          (rule cs_tool_protocol.run_protocol [OF rel2 h1(2)], rule noteFinishReason_keeps)
    qed
  qed
qed

interpretation cs_choice_protocol: protocol_converter "chatChoiceEvents rnd" feed_choice item_check cs_rel for rnd
  by unfold_locales (rule chatChoice_keeps)

lemma noteChunk_rel: "cs_rel h (noteChunk chunk s) g = cs_rel h s g"
  by (simp add: cs_rel_def holds_items_def feed_rel_def open_items_def tool_items_def)

interpretation cs_protocol: protocol_converter
  "ChatCompletionsChunkToResponsesEvents rnd" feed_chunk item_check cs_rel for rnd
proof
  fix h s g chunk h'
  assume rel: "cs_rel h s g" and feed: "feed_chunk h chunk = Some h'"
  from rel have "cs_rel h (noteChunk chunk s) g" by (simp only: noteChunk_rel)
  from created_keeps [OF this]
  show "cs_keeps h' g (ChatCompletionsChunkToResponsesEvents rnd s chunk)"
    unfolding ChatCompletionsChunkToResponsesEvents_def
    by (rule cs_keeps_seq) (rule cs_choice_protocol.run_protocol [OF _ feed [unfolded feed_chunk_def]])
qed

section \<open>The finalizer closes every item\<close>

definition tool_set :: "cs_state \<Rightarrow> int set \<Rightarrow> (int \<times> string \<times> string) set" where
  "tool_set s I = {(k, ''function_call'', itemid) | i k itemid. i \<in> I \<and>
     cs_ToolOutputIndex s i = Some k \<and> cs_ToolItemIDs s i = Some itemid}"

text \<open>The closing events change nothing of the state but the sequence number.\<close>

lemma seq_only_event: "\<exists>x. fst (chatToResponsesEvent t f s) = s\<lparr>cs_SequenceNumber := x\<rparr>"
  by (auto simp: chatToResponsesEvent_def)

lemma close_tools:
  assumes "items_ok (n, op)" "set op = tool_set s (set is)" "distinct is"
    and "\<forall>i \<in> set is. map_of (cs_ToolCalls s) i \<noteq> None \<and> cs_ToolItemIDs s i \<noteq> None \<and> cs_ToolOutputIndex s i \<noteq> None"
    and "inj_on (cs_ToolOutputIndex s) (set is)"
  shows "run_check item_check (n, op) (snd (run_stream closeChatToolItem s is)) = Some (n, [])"
  using assms
proof (induction "is" arbitrary: s op)
  case Nil
  then show ?case by (simp add: tool_set_def)
next
  case (Cons i "is")
  then obtain tc itemid k where tc: "map_of (cs_ToolCalls s) i = Some tc" "cs_ToolItemIDs s i = Some itemid"
    "cs_ToolOutputIndex s i = Some k" by auto
  let ?f = "\<lambda>s::cs_state. zero_rse\<lparr>rse_OutputIndex := k, rse_ItemID := itemid, rse_CallID := ctc_ID tc,
      rse_Name := cfc_Name (ctc_Function tc), rse_Arguments := toolArguments tc\<rparr>"
  let ?item = "zero_ro\<lparr>ro_Type := ''function_call'', ro_ID := itemid, ro_CallID := ctc_ID tc,
      ro_Name := cfc_Name (ctc_Function tc), ro_Arguments := toolArguments tc, ro_Status := ''completed''\<rparr>"
  let ?g = "\<lambda>s::cs_state. zero_rse\<lparr>rse_OutputIndex := k, rse_Item := Some ?item\<rparr>"
  let ?s1 = "fst (chatToResponsesEvent ''response.function_call_arguments.done'' ?f s)"
  let ?s2 = "fst (chatToResponsesEvent ''response.output_item.done'' ?g ?s1)"
  have mem: "(k, ''function_call'', itemid) \<in> set op"
    using tc Cons.prems(2) by (auto simp: tool_set_def)
  have e1: "run_check item_check (n, op) (snd (chatToResponsesEvent ''response.function_call_arguments.done'' ?f s)) = Some (n, op)"
    by (rule check_scoped [OF Cons.prems(1), where ty = "''function_call''"]) (use mem in \<open>simp_all add: item_scope_def\<close>)
  obtain op' where e2: "run_check item_check (n, op) (snd (chatToResponsesEvent ''response.output_item.done'' ?g ?s1)) = Some (n, op')"
    "items_ok (n, op')" "set op' = {x \<in> set op. fst x \<noteq> k}"
    using check_done [OF Cons.prems(1), of ?g ?s1 ?item] mem by auto
  have step: "closeChatToolItem s i = emit_seq (chatToResponsesEvent ''response.function_call_arguments.done'' ?f)
      (chatToResponsesEvent ''response.output_item.done'' ?g) s"
    using tc by (simp add: closeChatToolItem_def)
  obtain x y where s2: "?s2 = s\<lparr>cs_SequenceNumber := x\<rparr>"
    using seq_only_event [of "''response.function_call_arguments.done''" ?f s]
      seq_only_event [of "''response.output_item.done''" ?g ?s1] by auto
  have "cs_ToolOutputIndex s j \<noteq> Some k" if "j \<in> set is" for j
    using Cons.prems(3,5) tc(3) that by (auto simp: inj_on_def)
  then have "set op' = tool_set s (set is)"
    unfolding e2(3) Cons.prems(2) using tc by (auto simp: tool_set_def)
  then have op': "set op' = tool_set ?s2 (set is)" by (simp add: s2 tool_set_def)
  have "run_check item_check (n, op') (snd (run_stream closeChatToolItem ?s2 is)) = Some (n, [])"
    by (rule Cons.IH [OF e2(2) op']) (use Cons.prems(3-5) in \<open>simp_all add: s2\<close>)
  with e1 e2(1) show ?case by (simp add: step)
qed


lemma finish_message_only_seq: "\<exists>x. fst (finishMessageItem s) = s\<lparr>cs_SequenceNumber := x\<rparr>"
  by (auto simp: finishMessageItem_def finishTextPart_def chatToResponsesEvent_def intro: exI [of _ "cs_SequenceNumber s"])

lemma finish_message_items:
  assumes "items_ok (n, op)" "set op = open_items s" "\<not> cs_ReasoningOpen s"
  shows "\<exists>op'. run_check item_check (n, op) (snd (finishMessageItem s)) = Some (n, op') \<and> items_ok (n, op') \<and>
    set op' = tool_items s"
proof (cases "cs_MessageItemID s = []")
  case True
  with assms show ?thesis by (auto simp: finishMessageItem_def open_items_def)
next
  case False
  have mem: "(cs_MessageIndex s, ''message'', cs_MessageItemID s) \<in> set op"
    using assms(2) False by (simp add: open_items_def)
  have scoped: "run_check item_check (n, op) (snd (chatToResponsesEvent t f s')) = Some (n, op)"
    if "item_scope t = Some ''message''" "rse_OutputIndex (f s') = cs_MessageIndex s"
      "rse_ItemID (f s') = cs_MessageItemID s" "t \<noteq> ''response.output_item.added''"
      "t \<noteq> ''response.output_item.done''" "t \<noteq> ''response.completed''" for t f s'
    by (rule check_scoped [OF assms(1) that(1)]) (use that mem in simp_all)
  have fields: "cs_MessageIndex (fst (chatToResponsesEvent t f s')) = cs_MessageIndex s'"
    "cs_MessageItemID (fst (chatToResponsesEvent t f s')) = cs_MessageItemID s'"
    "cs_TextPartOpen (fst (chatToResponsesEvent t f s')) = cs_TextPartOpen s'" for t f s'
    by (simp_all add: chatToResponsesEvent_def)
  have part: "run_check item_check (n, op) (snd (finishTextPart s)) = Some (n, op)"
    by (simp add: finishTextPart_def scoped fields item_scope_def)
  let ?s = "fst (finishTextPart s)"
  have same: "cs_MessageIndex ?s = cs_MessageIndex s" "cs_MessageItemID ?s = cs_MessageItemID s"
    by (simp_all add: finishTextPart_def fields)
  let ?f = "\<lambda>s. zero_rse\<lparr>rse_OutputIndex := cs_MessageIndex s,
      rse_Item := Some (zero_ro\<lparr>ro_Type := ''message'', ro_ID := cs_MessageItemID s, ro_Role := ''assistant'',
        ro_Content := [zero_rcp\<lparr>rcp_Type := ''output_text'', rcp_Text := cs_Text s\<rparr>], ro_Status := ''completed''\<rparr>)\<rparr>"
  obtain op' where op': "run_check item_check (n, op) (snd (chatToResponsesEvent ''response.output_item.done'' ?f ?s)) = Some (n, op')"
    "items_ok (n, op')" "set op' = {x \<in> set op. fst x \<noteq> cs_MessageIndex s}"
    using check_done [OF assms(1), of ?f ?s] mem same by auto
  have op: "set op = insert (cs_MessageIndex s, ''message'', cs_MessageItemID s) (tool_items s)"
    using assms(2,3) False by (simp add: open_items_def)
  have "fst x \<noteq> cs_MessageIndex s" if "x \<in> tool_items s" for x
  proof
    assume "fst x = cs_MessageIndex s"
    moreover have "x \<in> set op" using op that by simp
    ultimately have "snd x = (''message'', cs_MessageItemID s)"
      using mem assms(1) by (metis items_ok_map option.inject prod.collapse)
    moreover have "fst (snd x) = ''function_call''" using that by (auto simp: tool_items_def)
    ultimately show False by simp
  qed
  then have "set op' = tool_items s" unfolding op'(3) op by auto
  with op' part False show ?thesis by (simp add: finishMessageItem_def)
qed

lemma feed_tool_range:
  assumes "feed_rel h s"
  shows "set (tool_range s) = {0..<int (ch_tools h)}"
proof -
  have "card (set (map fst (cs_ToolCalls s))) = length (map fst (cs_ToolCalls s))"
    using assms by (intro distinct_card) (simp add: feed_rel_def)
  moreover have "set (map fst (cs_ToolCalls s)) = {0..<int (ch_tools h)}"
    using assms by (simp add: feed_rel_def)
  ultimately have "length (cs_ToolCalls s) = ch_tools h" by simp
  then show ?thesis by (simp add: tool_range_def image_int_atLeastLessThan)
qed

lemma finalizer_items:
  assumes "cs_rel h s g" "\<not> cs_ReasoningOpen s"
  shows "\<exists>n. run_check item_check g (snd (emit_seq finishMessageItem
    (emit_seq closeChatToolItems (completeChatResponse rnd)) s)) = Some (n, [])"
proof -
  obtain n op where g: "g = (n, op)" by (cases g)
  from assms(1) have ok: "items_ok (n, op)" "set op = open_items s" "feed_rel h s"
    unfolding g cs_rel_def holds_items_def by auto
  from finish_message_items [OF ok(1,2) assms(2)] obtain op' where
    m: "run_check item_check (n, op) (snd (finishMessageItem s)) = Some (n, op')" "items_ok (n, op')"
      "set op' = tool_items s" by blast
  obtain x where s1: "fst (finishMessageItem s) = s\<lparr>cs_SequenceNumber := x\<rparr>" (is "_ = ?s1")
    using finish_message_only_seq by blast
  have range: "set (tool_range ?s1) = {0..<int (ch_tools h)}"
    using feed_tool_range [OF ok(3)] by (simp add: tool_range_def)
  have doms: "dom (cs_ToolItemIDs s) = {0..<int (ch_tools h)}" "dom (cs_ToolOutputIndex s) = {0..<int (ch_tools h)}"
    "fst ` set (cs_ToolCalls s) = {0..<int (ch_tools h)}" "inj_on (cs_ToolOutputIndex s) {0..<int (ch_tools h)}"
    using ok(3) by (simp_all add: feed_rel_def)
  have "set op' = tool_set ?s1 (set (tool_range ?s1))"
  proof -
    have "i \<in> {0..<int (ch_tools h)}" if "cs_ToolOutputIndex s i = Some k" for i k
      using doms(2) that by blast
    then show ?thesis
      unfolding m(3) range tool_set_def tool_items_def by (simp del: atLeastLessThan_iff) blast
  qed
  moreover have "\<forall>i \<in> set (tool_range ?s1). map_of (cs_ToolCalls ?s1) i \<noteq> None \<and> cs_ToolItemIDs ?s1 i \<noteq> None \<and>
      cs_ToolOutputIndex ?s1 i \<noteq> None"
    unfolding range using doms by (simp add: map_of_eq_None_iff) blast
  moreover have "distinct (tool_range ?s1)" by (simp add: tool_range_def distinct_map)
  moreover have "inj_on (cs_ToolOutputIndex ?s1) (set (tool_range ?s1))" unfolding range using doms(4) by simp
  ultimately have t: "run_check item_check (n, op') (snd (closeChatToolItems ?s1)) = Some (n, [])"
    unfolding closeChatToolItems_def by (intro close_tools [OF m(2)])
  have "run_check item_check (n, []) (snd (completeChatResponse rnd s')) = Some (n, [])" for s'
    by (simp add: completeChatResponse_def check_event item_check_def Let_def split: prod.split)
  with m(1) t s1 show ?thesis by (simp add: g)
qed

lemma closed_not_open: "\<not> cs_ReasoningOpen (fst (closeChatReasoningItem s))"
  by (simp add: closeChatReasoningItem_def chatToResponsesEvent_def)

lemma fallback_keeps:
  assumes "cs_rel h s g"
  shows "cs_keeps h g (synthesizeChatReasoningFallbackMessage rnd s)"
  using assms message_text_keeps [OF assms]
  by (simp add: synthesizeChatReasoningFallbackMessage_def del: split_paired_Ex fst_emit_seq snd_emit_seq)

lemma fallback_not_open:
  "cs_ReasoningOpen (fst (synthesizeChatReasoningFallbackMessage rnd s)) = cs_ReasoningOpen s"
  by (simp add: synthesizeChatReasoningFallbackMessage_def ensureChatToResponsesMessageItem_def
      ensureChatToResponsesTextPart_def message_text_delta_def chatToResponsesEvent_def)

text \<open>
  when the upstream numbers its tool calls in order and sends no reasoning after the reasoning
  item was closed, every event the client receives refers to an open output item of the right
  type, items are announced with consecutive output indices, and the finalizer leaves none open:
  each announced item is done exactly once before the response completes.
\<close>

theorem c2r_items_protocol:
  assumes "run_check feed_chunk new_chat_feed chunks = Some h"
  shows "\<exists>n. run_check item_check (0, []) (snd (c2r_stream rnd now model chunks)) = Some (n, []) \<and>
    n = int (length (collect item_added (snd (c2r_stream rnd now model chunks)))) \<and>
    mset (collect item_added (snd (c2r_stream rnd now model chunks))) =
      mset (collect item_done (snd (c2r_stream rnd now model chunks)))"
proof -
  let ?s0 = "NewChatCompletionsToResponsesStreamState rnd now model"
  have "cs_rel new_chat_feed ?s0 (0, [])"
    by (simp add: cs_rel_def holds_items_def feed_rel_def open_items_def tool_items_def items_ok_def
        new_chat_feed_def NewChatCompletionsToResponsesStreamState_def)
  from cs_protocol.run_protocol [OF this assms, of rnd] obtain g1 where
    g1: "run_check item_check (0, []) (snd (run_stream (ChatCompletionsChunkToResponsesEvents rnd) ?s0 chunks)) = Some g1"
    and rel: "cs_rel h (fst (run_stream (ChatCompletionsChunkToResponsesEvents rnd) ?s0 chunks)) g1" by blast
  let ?s1 = "fst (run_stream (ChatCompletionsChunkToResponsesEvents rnd) ?s0 chunks)"
  have open1: "cs_keeps (feed_close True h) g1 (emit_seq ensureChatToResponsesCreated closeChatReasoningItem ?s1)"
    by (rule cs_keeps_seq [where f = ensureChatToResponsesCreated, OF created_keeps [OF rel]], rule closeReasoning_keeps)
  then obtain g2 where g2: "run_check item_check g1 (snd (emit_seq ensureChatToResponsesCreated closeChatReasoningItem ?s1)) = Some g2"
    and rel2: "cs_rel (feed_close True h) (fst (emit_seq ensureChatToResponsesCreated closeChatReasoningItem ?s1)) g2" by blast
  let ?s2 = "fst (emit_seq ensureChatToResponsesCreated closeChatReasoningItem ?s1)"
  from fallback_keeps [OF rel2, of rnd] obtain g3 where
    g3: "run_check item_check g2 (snd (synthesizeChatReasoningFallbackMessage rnd ?s2)) = Some g3"
    and rel3: "cs_rel (feed_close True h) (fst (synthesizeChatReasoningFallbackMessage rnd ?s2)) g3" by blast
  have "\<not> cs_ReasoningOpen (fst (synthesizeChatReasoningFallbackMessage rnd ?s2))"
    by (simp add: fallback_not_open closed_not_open)
  from finalizer_items [OF rel3 this, of rnd] obtain n where
    g4: "run_check item_check g3 (snd (emit_seq finishMessageItem (emit_seq closeChatToolItems (completeChatResponse rnd))
      (fst (synthesizeChatReasoningFallbackMessage rnd ?s2)))) = Some (n, [])" by blast
  have "snd (c2r_stream rnd now model chunks) = snd (run_stream (ChatCompletionsChunkToResponsesEvents rnd) ?s0 chunks) @
      snd (emit_seq ensureChatToResponsesCreated closeChatReasoningItem ?s1) @
      snd (synthesizeChatReasoningFallbackMessage rnd ?s2) @
      snd (emit_seq finishMessageItem (emit_seq closeChatToolItems (completeChatResponse rnd))
        (fst (synthesizeChatReasoningFallbackMessage rnd ?s2)))"
    using rel by (simp add: c2r_stream_def FinalizeChatCompletionsResponsesStream_def cs_rel_def)
  then have all: "run_check item_check (0, []) (snd (c2r_stream rnd now model chunks)) = Some (n, [])"
    by (simp only: run_check_append_Some [OF g1] run_check_append_Some [OF g2] run_check_append_Some [OF g3] g4)
  with all_items_done [OF all] item_check_run [OF all] show ?thesis by (simp add: items_ok_def)
qed

theorem c2r_items_protocol_witness:
  "\<exists>n. run_check item_check (0, []) (snd (c2r_stream (\<lambda>_. ''1f'') 0 ''m''
      [\<lparr>chk_ID = ''c'', chk_Object = [], chk_Created = 0, chk_Model = ''m'', chk_Choices =
         [\<lparr>cch_Index = 0, cch_Delta = \<lparr>cd_Role = [], cd_Content = Some ''hi'', cd_ReasoningContent = Some ''hm'',
            cd_ToolCalls = [\<lparr>ctc_Index = Some 0, ctc_ID = ''t'', ctc_Type = [],
              ctc_Function = \<lparr>cfc_Name = ''ls'', cfc_Arguments = []\<rparr>\<rparr>]\<rparr>, cch_FinishReason = None\<rparr>],
         chk_Usage = None, chk_SystemFingerprint = [], chk_ServiceTier = []\<rparr>])) = Some (n, [])"
proof -
  let ?chunks = "[\<lparr>chk_ID = ''c'', chk_Object = [], chk_Created = 0, chk_Model = ''m'', chk_Choices =
         [\<lparr>cch_Index = 0, cch_Delta = \<lparr>cd_Role = [], cd_Content = Some ''hi'', cd_ReasoningContent = Some ''hm'',
            cd_ToolCalls = [\<lparr>ctc_Index = Some 0, ctc_ID = ''t'', ctc_Type = [],
              ctc_Function = \<lparr>cfc_Name = ''ls'', cfc_Arguments = []\<rparr>\<rparr>]\<rparr>, cch_FinishReason = None\<rparr>],
         chk_Usage = None, chk_SystemFingerprint = [], chk_ServiceTier = []\<rparr>]"
  have "run_check feed_chunk new_chat_feed ?chunks = Some \<lparr>ch_tools = 1, ch_opened = True, ch_closed = True\<rparr>"
    by code_simp
  from c2r_items_protocol [OF this, of "\<lambda>_. ''1f''" 0 "''m''"] show ?thesis by blast
qed

section \<open>Tool arguments\<close>

lemma c2r_stream_args:
  "collect resp_args_out (snd (c2r_stream rnd now model chunks)) = collect (chunk_of choice_args) chunks"
proof -
  have "collect resp_args_out (snd (FinalizeChatCompletionsResponsesStream rnd s)) = []" for s
    by (simp add: FinalizeChatCompletionsResponsesStream_def synthesizeChatReasoningFallbackMessage_def
        cs_saysD [OF finishMessageItem_tracks(2)] cs_saysD [OF closeChatToolItems_tracks(2)] del: concat_eq_Nil_conv)
  then show ?thesis by (simp add: c2r_stream_def cs_args.run_payload del: concat_eq_Nil_conv)
qed

definition delta_chunk :: "ChatDelta \<Rightarrow> ChatCompletionsChunk" where
  "delta_chunk d = \<lparr>chk_ID = [], chk_Object = ''chat.completion.chunk'', chk_Created = 0, chk_Model = [],
     chk_Choices = [\<lparr>cch_Index = 0, cch_Delta = d, cch_FinishReason = None\<rparr>], chk_Usage = None,
     chk_SystemFingerprint = [], chk_ServiceTier = []\<rparr>"

definition tool_chunk :: "int \<Rightarrow> string \<Rightarrow> string \<Rightarrow> string \<Rightarrow> ChatCompletionsChunk" where
  "tool_chunk i callid name args = delta_chunk (zero_cd\<lparr>cd_ToolCalls := [\<lparr>ctc_Index = Some i, ctc_ID = callid,
     ctc_Type = [], ctc_Function = \<lparr>cfc_Name = name, cfc_Arguments = args\<rparr>\<rparr>]\<rparr>)"

definition text_chunk :: "string \<Rightarrow> ChatCompletionsChunk" where
  "text_chunk t = delta_chunk (zero_cd\<lparr>cd_Content := Some t\<rparr>)"

text \<open>The arguments the \<open>function_call_arguments.done\<close> events report.\<close>

definition done_args :: "ResponsesStreamEvent \<Rightarrow> string list" where
  "done_args e = (if rse_Type e = ''response.function_call_arguments.done'' then [rse_Arguments e] else [])"

lemma done_args_event [simp]:
  "collect done_args (snd (chatToResponsesEvent t f s)) =
     (if t = ''response.function_call_arguments.done'' then [rse_Arguments (f s)] else [])"
  by (simp add: chatToResponsesEvent_def done_args_def)

text \<open>A stream of which one tool call with index 0 is all that has been seen.\<close>

definition only_tool :: "cs_state \<Rightarrow> ChatToolCall \<Rightarrow> bool" where
  "only_tool s tc \<longleftrightarrow> cs_ToolCalls s = [(0, tc)] \<and> cs_ToolItemIDs s 0 \<noteq> None \<and> cs_CreatedSent s \<and>
     \<not> cs_CompletedSent s \<and> \<not> cs_ReasoningOpen s \<and> cs_MessageItemID s = []"

lemma only_tool_step:
  assumes "only_tool s tc"
  shows "only_tool (fst (ChatCompletionsChunkToResponsesEvents rnd s (tool_chunk 0 [] [] b))) (appendArguments b tc)"
    "collect done_args (snd (ChatCompletionsChunkToResponsesEvents rnd s (tool_chunk 0 [] [] b))) = []"
proof -
  have "appendArguments [] tc = tc" by (simp add: appendArguments_def)
  with assms show "only_tool (fst (ChatCompletionsChunkToResponsesEvents rnd s (tool_chunk 0 [] [] b))) (appendArguments b tc)"
    "collect done_args (snd (ChatCompletionsChunkToResponsesEvents rnd s (tool_chunk 0 [] [] b))) = []"
    by (simp_all add: ChatCompletionsChunkToResponsesEvents_def tool_chunk_def delta_chunk_def noteChunk_def
        ensureChatToResponsesCreated_def chatChoiceEvents_def chatReasoningDelta_def chatContentDelta_def zero_cd_def
        chatToolCall_def tool_index_def renameChatTool_def chatToolArguments_def noteFinishReason_def only_tool_def
        Let_def del: concat_eq_Nil_conv) (simp add: chatToResponsesEvent_def)
qed

lemma only_tool_run:
  assumes "only_tool s tc"
  shows "only_tool (fst (run_stream (ChatCompletionsChunkToResponsesEvents rnd) s (map (tool_chunk 0 [] []) bs)))
      (appendArguments (concat bs) tc) \<and>
    collect done_args (snd (run_stream (ChatCompletionsChunkToResponsesEvents rnd) s (map (tool_chunk 0 [] []) bs))) = []"
  using assms
proof (induction bs arbitrary: s tc)
  case Nil
  then show ?case by (simp add: appendArguments_def)
next
  case (Cons b bs)
  have "appendArguments (concat bs) (appendArguments b tc) = appendArguments (concat (b # bs)) tc"
    by (simp add: appendArguments_def)
  with Cons.IH [OF only_tool_step(1) [OF Cons.prems, of rnd b]] only_tool_step(2) [OF Cons.prems, of rnd b]
  show ?case by (simp del: concat_eq_Nil_conv)
qed

lemma only_tool_finish:
  assumes "only_tool s tc"
  shows "collect done_args (snd (FinalizeChatCompletionsResponsesStream rnd s)) = [toolArguments tc]"
  using assms
  by (simp add: FinalizeChatCompletionsResponsesStream_def only_tool_def ensureChatToResponsesCreated_def
      closeChatReasoningItem_def synthesizeChatReasoningFallbackMessage_def finishMessageItem_def
      closeChatToolItems_def tool_range_def closeChatToolItem_def completeChatResponse_def Let_def split_beta
      split: option.split)

lemma only_tool_first:
  "only_tool (fst (ChatCompletionsChunkToResponsesEvents rnd (NewChatCompletionsToResponsesStreamState rnd now model)
      (tool_chunk 0 callid name a)))
    \<lparr>ctc_Index = Some 0, ctc_ID = (if callid = [] then generateItemID rnd 1 else callid), ctc_Type = ''function'',
     ctc_Function = \<lparr>cfc_Name = name, cfc_Arguments = a @ a\<rparr>\<rparr>"
  "collect done_args (snd (ChatCompletionsChunkToResponsesEvents rnd (NewChatCompletionsToResponsesStreamState rnd now model)
      (tool_chunk 0 callid name a))) = []"
  by (simp_all add: ChatCompletionsChunkToResponsesEvents_def tool_chunk_def delta_chunk_def noteChunk_def
      NewChatCompletionsToResponsesStreamState_def ensureChatToResponsesCreated_def chatChoiceEvents_def
      chatReasoningDelta_def chatContentDelta_def zero_cd_def chatToolCall_def tool_index_def openChatToolItem_def
      closeChatReasoningItem_def chatToolArguments_def noteFinishReason_def only_tool_def
      appendArguments_def chatToResponsesEvent_def done_args_def Let_def)

text \<open>
  C33: the arguments a tool call is closed with repeat the fragment of its first chunk: when the
  upstream sends arguments \<open>a\<close> with the announcement and \<open>bs\<close> afterwards, the client is streamed
  \<open>a\<close> followed by \<open>bs\<close>, but the done event (and the item of the completed response) carries
  \<open>a\<close> twice. The two agree exactly when the first chunk has no arguments.
\<close>

theorem c2r_first_arguments_doubled:
  "let os = snd (c2r_stream rnd now model (tool_chunk 0 callid name a # map (tool_chunk 0 [] []) bs));
       full = a @ a @ concat bs
   in collect resp_args_out os = a @ concat bs \<and>
      collect done_args os = [if go_TrimSpace full = [] then ''{}'' else full]"
proof -
  let ?chunks = "tool_chunk 0 callid name a # map (tool_chunk 0 [] []) bs"
  let ?s0 = "NewChatCompletionsToResponsesStreamState rnd now model"
  let ?s1 = "fst (ChatCompletionsChunkToResponsesEvents rnd ?s0 (tool_chunk 0 callid name a))"
  let ?r = "run_stream (ChatCompletionsChunkToResponsesEvents rnd) ?s1 (map (tool_chunk 0 [] []) bs)"
  have args: "chunk_of choice_args (tool_chunk 0 x y b) = b" for x y b
    by (simp add: chunk_of_def choice_args_def tool_chunk_def delta_chunk_def zero_cd_def)
  have "collect resp_args_out (snd (c2r_stream rnd now model ?chunks)) = collect (chunk_of choice_args) ?chunks"
    using c2r_stream_args by blast
  also have "\<dots> = a @ concat bs" by (simp add: args comp_def)
  finally have streamed: "collect resp_args_out (snd (c2r_stream rnd now model ?chunks)) = a @ concat bs" .
  note run = only_tool_run [OF only_tool_first(1) [of rnd now model callid name a], of rnd bs]
  from run only_tool_finish [of "fst ?r"]
  have "collect done_args (snd (c2r_stream rnd now model ?chunks)) =
    [toolArguments (appendArguments (concat bs) \<lparr>ctc_Index = Some 0, ctc_ID = (if callid = [] then generateItemID rnd 1 else callid),
       ctc_Type = ''function'', ctc_Function = \<lparr>cfc_Name = name, cfc_Arguments = a @ a\<rparr>\<rparr>)]"
    using only_tool_first(2) [of rnd now model callid name a] by (simp add: c2r_stream_def del: concat_eq_Nil_conv)
  with streamed show ?thesis by (simp add: toolArguments_def appendArguments_def Let_def)
qed

text \<open>
  tool calls whose indices do not start at 0 are lost: the item of a single tool call with
  index 1 is announced but never done, and the completed response does not list it.
\<close>

theorem c2r_sparse_tool_lost:
  "let os = snd (c2r_stream rnd now ''m'' [tool_chunk 1 ''call_1'' ''ls'' []])
   in collect item_added os = [(''function_call'', ''item_'' @ rnd 1)] \<and> collect item_done os = [] \<and>
      map (\<lambda>e. map_option rr_Output (rse_Response e)) (filter is_completed os) = [Some []]"
  by code_simp

text \<open>
  the output array of the completed response need not list the items in the order of their
  output indices: a tool call streamed before the text has output index 0, but comes after the
  message in the final output.
\<close>

theorem c2r_output_order:
  "let os = snd (c2r_stream rnd now ''m'' [tool_chunk 0 ''call_1'' ''ls'' [], text_chunk ''hi''])
   in map fst (collect item_added os) = [''function_call'', ''message''] \<and>
      map (\<lambda>e. map_option (\<lambda>r. map ro_Type (rr_Output r)) (rse_Response e)) (filter is_completed os) =
        [Some [''message'', ''function_call'']]"
  by code_simp

end
