(* ===== verification/Chat_Messages.thy ===== *)
theory Chat_Messages
  imports Chat_To_Responses Responses_To_Chat
begin

text \<open>
  The request half of \<open>chatcompletions_responses_bridge.go\<close>: a Responses request as a Chat
  Completions request (parse, build, normalise the messages), and the non-streaming Chat
  Completions response as a Responses response.
\<close>

section \<open>Reading raw JSON\<close>

definition is_null :: "string \<Rightarrow> bool" where
  "is_null raw \<longleftrightarrow> length raw = 0 \<or> raw = ''null''"

text \<open>\<open>item[key]\<close> of a \<open>map[string]json.RawMessage\<close>: a missing key reads as the empty message.\<close>

definition raw_field :: "(string \<times> string) list \<Rightarrow> string \<Rightarrow> string" where
  "raw_field obj key = (case map_of obj key of None \<Rightarrow> [] | Some v \<Rightarrow> v)"

definition rawString :: "json_codec \<Rightarrow> string \<Rightarrow> string" where
  "rawString J raw =
     (let raw = go_TrimSpace raw
      in if is_null raw then [] else case dec_string J raw of Some s \<Rightarrow> s | None \<Rightarrow> [])"

definition rawNestedString :: "json_codec \<Rightarrow> string \<Rightarrow> string \<Rightarrow> string" where
  "rawNestedString J raw key =
     (case dec_object J raw of None \<Rightarrow> [] | Some obj \<Rightarrow> rawString J (raw_field obj key))"

text \<open>
  \<open>strings.EqualFold\<close> against a word of ASCII letters none of which is a k or an s (the two
  letters some non-ASCII letter folds to).
\<close>

definition ascii_lower :: "char \<Rightarrow> char" where
  "ascii_lower c = (if of_char c \<ge> (65 :: nat) \<and> of_char c \<le> (90 :: nat) then char_of (of_char c + 32 :: nat) else c)"

definition equal_fold :: "string \<Rightarrow> string \<Rightarrow> bool" where
  "equal_fold s t \<longleftrightarrow> map ascii_lower s = map ascii_lower t"

definition chatCompletionsBridgeRole :: "string \<Rightarrow> string" where
  "chatCompletionsBridgeRole role =
     (let trimmed = go_TrimSpace role
      in if trimmed = [] then ''user''
         else if equal_fold trimmed ''developer'' then ''system'' else role)"

datatype bridge_error = NilRequest | ParseInput | ParseInputItem | MarshalFailed

text \<open>An error return as \<open>Inl\<close>.\<close>

definition or_error :: "bridge_error \<Rightarrow> 'a option \<Rightarrow> bridge_error + 'a" where
  "or_error e x = (case x of None \<Rightarrow> Inl e | Some v \<Rightarrow> Inr v)"

section \<open>Message content\<close>

definition chatMessageContentText :: "json_codec \<Rightarrow> string \<Rightarrow> string" where
  "chatMessageContentText J raw =
     (let raw = go_TrimSpace raw in
      if is_null raw then []
      else case dec_string J raw of
        Some text \<Rightarrow> text
      | None \<Rightarrow>
          (case dec_chat_parts J raw of
             Some parts \<Rightarrow> go_Join (map ccp_Text
               (filter (\<lambda>p. ccp_Type p = ''text'' \<and> ccp_Text p \<noteq> []) parts)) [CHR 0x0A, CHR 0x0A]
           | None \<Rightarrow> []))"

definition isBlankChatContent :: "json_codec \<Rightarrow> string \<Rightarrow> bool" where
  "isBlankChatContent J raw =
     (let raw = go_TrimSpace raw
      in if is_null raw \<or> raw = json_empty_string then True else chatMessageContentText J raw = [])"

definition image_part :: "string \<Rightarrow> ChatContentPart" where
  "image_part url = zero_ccp\<lparr>ccp_Type := ''image_url'', ccp_ImageURL := Some \<lparr>ciu_URL = url, ciu_Detail = []\<rparr>\<rparr>"

definition part_image_url :: "json_codec \<Rightarrow> (string \<times> string) list \<Rightarrow> string" where
  "part_image_url J part =
     (let imageURL = rawString J (raw_field part ''image_url'')
      in if imageURL = [] then rawNestedString J (raw_field part ''image_url'') ''url'' else imageURL)"

definition chatContentFromSingleResponsesPart ::
  "json_codec \<Rightarrow> string \<Rightarrow> (string \<times> string) list \<Rightarrow> bridge_error + string" where
  "chatContentFromSingleResponsesPart J partType part =
     (if partType = ''input_image'' \<or> partType = ''image_url''
      then or_error MarshalFailed (enc_chat_parts J [image_part (part_image_url J part)])
      else Inr (enc_string J (rawString J (raw_field part ''text''))))"

text \<open>The loop over the parts: the texts, the chat parts, and whether there was an image.\<close>

type_synonym part_acc = "string list \<times> ChatContentPart list \<times> bool"

definition collectContentPart :: "json_codec \<Rightarrow> string \<Rightarrow> part_acc \<Rightarrow> part_acc" where
  "collectContentPart J rawPart acc =
     (case dec_object J rawPart of
        None \<Rightarrow> acc
      | Some part \<Rightarrow>
          (let (textParts, chatParts, hasNonText) = acc;
               partType = rawString J (raw_field part ''type'')
           in if partType = ''input_text'' \<or> partType = ''output_text'' \<or> partType = ''text'' \<or> partType = [] then
                (let text = rawString J (raw_field part ''text'')
                 in if text = [] then acc
                    else (textParts @ [text], chatParts @ [zero_ccp\<lparr>ccp_Type := ''text'', ccp_Text := text\<rparr>], hasNonText))
              else if partType = ''input_image'' \<or> partType = ''image_url'' then
                (let imageURL = part_image_url J part
                 in if imageURL = [] then acc else (textParts, chatParts @ [image_part imageURL], True))
              else acc))"

definition responsesContentPartsToChatContent ::
  "json_codec \<Rightarrow> string list \<Rightarrow> string \<Rightarrow> bridge_error + string" where
  "responsesContentPartsToChatContent J rawParts role =
     (let (textParts, chatParts, hasNonText) = fold (collectContentPart J) rawParts ([], [], False)
      in if \<not> hasNonText then Inr (enc_string J (go_Join textParts [CHR 0x0A, CHR 0x0A]))
         else if role \<noteq> ''user'' then Inr (enc_string J (go_Join textParts [CHR 0x0A, CHR 0x0A]))
         else if length chatParts = 0 then Inr (enc_string J [])
         else or_error MarshalFailed (enc_chat_parts J chatParts))"

definition responsesContentToChatContent :: "json_codec \<Rightarrow> string \<Rightarrow> string \<Rightarrow> bridge_error + string" where
  "responsesContentToChatContent J raw role =
     (let raw = go_TrimSpace raw in
      if is_null raw then Inr (enc_string J [])
      else case dec_string J raw of
        Some _ \<Rightarrow> Inr raw
      | None \<Rightarrow>
          (case dec_array J raw of
             Some rawParts \<Rightarrow> responsesContentPartsToChatContent J rawParts role
           | None \<Rightarrow>
               (case dec_object J raw of
                  Some obj \<Rightarrow> chatContentFromSingleResponsesPart J (rawString J (raw_field obj ''type'')) obj
                | None \<Rightarrow> Inr raw)))"

section \<open>Building messages from input items\<close>

text \<open>The closure \<open>collect\<close> of \<open>extractResponsesReasoningText\<close>.\<close>

definition reasoning_parts :: "json_codec \<Rightarrow> string \<Rightarrow> string list" where
  "reasoning_parts J raw =
     (let raw = go_TrimSpace raw in
      if is_null raw then []
      else case dec_objects J raw of
        Some arr \<Rightarrow> filter (\<lambda>t. t \<noteq> []) (map (\<lambda>p. rawString J (raw_field p ''text'')) arr)
      | None \<Rightarrow> (let t = rawString J raw in if t \<noteq> [] then [t] else []))"

definition extractResponsesReasoningText :: "json_codec \<Rightarrow> (string \<times> string) list \<Rightarrow> string" where
  "extractResponsesReasoningText J item =
     (let parts = reasoning_parts J (raw_field item ''summary'');
          parts = (if length parts = 0 then parts @ reasoning_parts J (raw_field item ''content'') else parts)
      in go_Join parts [CHR 0x0A])"

text \<open>The messages so far and the pending reasoning.\<close>

type_synonym build_acc = "ChatMessage list \<times> string"

definition addFunctionCall :: "ChatToolCall \<Rightarrow> build_acc \<Rightarrow> build_acc" where
  "addFunctionCall toolCall acc =
     (let (messages, pendingReasoning) = acc in
      if messages \<noteq> [] \<and> cm_Role (last messages) = ''assistant'' then
        (let m = last messages;
             m = m\<lparr>cm_ToolCalls := cm_ToolCalls m @ [toolCall]\<rparr>;
             m = (if cm_ReasoningContent m = [] then m\<lparr>cm_ReasoningContent := pendingReasoning\<rparr> else m)
         in (butlast messages @ [m], []))
      else (messages @ [zero_cm\<lparr>cm_Role := ''assistant'', cm_ToolCalls := [toolCall],
              cm_ReasoningContent := pendingReasoning\<rparr>], []))"

definition userMessage :: "string \<Rightarrow> ChatMessage" where
  "userMessage content = zero_cm\<lparr>cm_Role := ''user'', cm_Content := content\<rparr>"

definition itemToolCall :: "json_codec \<Rightarrow> (string \<times> string) list \<Rightarrow> ChatToolCall" where
  "itemToolCall J item =
     (let arguments = rawString J (raw_field item ''arguments'');
          arguments = (if go_TrimSpace arguments = [] then ''{}'' else arguments)
      in \<lparr>ctc_Index = None, ctc_ID = rawString J (raw_field item ''call_id''), ctc_Type = ''function'',
          ctc_Function = \<lparr>cfc_Name = rawString J (raw_field item ''name''), cfc_Arguments = arguments\<rparr>\<rparr>)"

text \<open>A message item.\<close>

definition addMessageItem :: "json_codec \<Rightarrow> (string \<times> string) list \<Rightarrow> string \<Rightarrow> build_acc \<Rightarrow> bridge_error + build_acc" where
  "addMessageItem J item role acc =
     (let (messages, pendingReasoning) = acc;
          content = raw_field item ''content'';
          text = rawString J (raw_field item ''text'');
          content = (if length (go_TrimSpace content) = 0 \<and> text \<noteq> [] then enc_string J text else content)
      in case responsesContentToChatContent J content role of
           Inl e \<Rightarrow> Inl e
         | Inr chatContent \<Rightarrow>
             Inr (messages @ [zero_cm\<lparr>cm_Role := role, cm_Content := chatContent\<rparr>],
                  if role \<noteq> ''assistant'' then [] else pendingReasoning))"

text \<open>The switch on the type of one decoded item.\<close>

definition addInputItem :: "json_codec \<Rightarrow> (string \<times> string) list \<Rightarrow> build_acc \<Rightarrow> bridge_error + build_acc" where
  "addInputItem J item acc =
     (let (messages, pendingReasoning) = acc;
          role = chatCompletionsBridgeRole (rawString J (raw_field item ''role''));
          itemType = rawString J (raw_field item ''type'')
      in if itemType = ''reasoning'' then
           (let txt = extractResponsesReasoningText J item
            in Inr (messages, if txt \<noteq> [] then txt else pendingReasoning))
         else if itemType = ''function_call'' then Inr (addFunctionCall (itemToolCall J item) acc)
         else if itemType = ''function_call_output'' then
           Inr (messages @ [zero_cm\<lparr>cm_Role := ''tool'', cm_ToolCallID := rawString J (raw_field item ''call_id''),
                  cm_Content := enc_string J (rawString J (raw_field item ''output''))\<rparr>], [])
         else if itemType = ''input_text'' \<or> itemType = ''text'' then
           Inr (messages @ [userMessage (enc_string J (rawString J (raw_field item ''text'')))], [])
         else if itemType = ''input_image'' then
           (case chatContentFromSingleResponsesPart J itemType item of
              Inl e \<Rightarrow> Inl e
            | Inr content \<Rightarrow> Inr (messages @ [userMessage content], []))
         else if itemType \<noteq> [] \<and> itemType \<noteq> ''message'' then Inr (messages, [])
         else addMessageItem J item role acc)"

definition addRawItem :: "json_codec \<Rightarrow> string \<Rightarrow> build_acc \<Rightarrow> bridge_error + build_acc" where
  "addRawItem J raw acc =
     (let raw = go_TrimSpace raw in
      if is_null raw then Inr acc
      else case dec_object J raw of
        None \<Rightarrow>
          (case dec_string J raw of
             Some text \<Rightarrow> Inr (fst acc @ [userMessage (enc_string J text)], [])
           | None \<Rightarrow> Inl ParseInputItem)
      | Some item \<Rightarrow> addInputItem J item acc)"

fun addRawItems :: "json_codec \<Rightarrow> string list \<Rightarrow> build_acc \<Rightarrow> bridge_error + build_acc" where
  "addRawItems J [] acc = Inr acc"
| "addRawItems J (raw # raws) acc =
     (case addRawItem J raw acc of Inl e \<Rightarrow> Inl e | Inr acc' \<Rightarrow> addRawItems J raws acc')"

definition buildChatMessagesFromItems ::
  "json_codec \<Rightarrow> ChatMessage list \<Rightarrow> string list \<Rightarrow> bridge_error + ChatMessage list" where
  "buildChatMessagesFromItems J messages rawItems = map_sum id fst (addRawItems J rawItems (messages, []))"

section \<open>Normalising the messages\<close>

text \<open>The tool replies by tool-call id, the last one of an id winning.\<close>

definition toolReplies :: "ChatMessage list \<Rightarrow> string \<rightharpoonup> ChatMessage" where
  "toolReplies messages = fold (\<lambda>m replies.
     if cm_Role m = ''tool'' \<and> cm_ToolCallID m \<noteq> [] then replies(cm_ToolCallID m \<mapsto> m) else replies)
     messages Map.empty"

definition keptCalls :: "(string \<rightharpoonup> ChatMessage) \<Rightarrow> ChatToolCall list \<Rightarrow> ChatToolCall list" where
  "keptCalls replies calls = filter (\<lambda>tc. ctc_ID tc \<noteq> [] \<and> replies (ctc_ID tc) \<noteq> None) calls"

text \<open>One iteration of the second loop: the messages it appends.\<close>

definition normalizeMessage :: "json_codec \<Rightarrow> (string \<rightharpoonup> ChatMessage) \<Rightarrow> ChatMessage \<Rightarrow> ChatMessage list" where
  "normalizeMessage J replies m =
     (if cm_Role m = ''tool'' then (if cm_ToolCallID m = [] then [m] else [])
      else if length (cm_ToolCalls m) > 0 then
        (let kept = keptCalls replies (cm_ToolCalls m) in
         if length kept = 0 then
           (if isBlankChatContent J (cm_Content m) then [] else [m\<lparr>cm_ToolCalls := []\<rparr>])
         else m\<lparr>cm_ToolCalls := kept\<rparr> # map (\<lambda>tc. the (replies (ctc_ID tc))) kept)
      else [m])"

definition normalizeChatMessages :: "json_codec \<Rightarrow> ChatMessage list \<Rightarrow> ChatMessage list" where
  "normalizeChatMessages J messages = concat (map (normalizeMessage J (toolReplies messages)) messages)"

definition responsesInputToChatMessages ::
  "json_codec \<Rightarrow> string \<Rightarrow> string \<Rightarrow> bridge_error + ChatMessage list" where
  "responsesInputToChatMessages J instructions inputRaw =
     (let messages = (if go_TrimSpace instructions \<noteq> []
            then [zero_cm\<lparr>cm_Role := ''system'', cm_Content := enc_string J instructions\<rparr>] else []);
          inputRaw = go_TrimSpace inputRaw
      in if is_null inputRaw then Inr messages
         else case dec_string J inputRaw of
           Some inputText \<Rightarrow> Inr (messages @ [userMessage (enc_string J inputText)])
         | None \<Rightarrow>
             (case dec_array J inputRaw of
                None \<Rightarrow> Inl ParseInput
              | Some rawItems \<Rightarrow>
                  map_sum id (normalizeChatMessages J) (buildChatMessagesFromItems J messages rawItems)))"

section \<open>The whole request\<close>

definition responsesToolsToChatTools :: "ResponsesTool list \<Rightarrow> ChatTool list" where
  "responsesToolsToChatTools tools =
     map (\<lambda>tool. \<lparr>ct_Type = ''function'', ct_Function = Some \<lparr>cfn_Name = rt_Name tool,
         cfn_Description = rt_Description tool, cfn_Parameters = rt_Parameters tool,
         cfn_Strict = rt_Strict tool\<rparr>\<rparr>)
       (filter (\<lambda>tool. rt_Type tool = ''function'') tools)"

definition responsesToolChoiceToChatToolChoice :: "json_codec \<Rightarrow> string \<Rightarrow> string" where
  "responsesToolChoiceToChatToolChoice J raw =
     (case dec_object J raw of
        None \<Rightarrow> raw
      | Some choice \<Rightarrow>
          (if rawString J (raw_field choice ''type'') \<noteq> ''function'' then raw
           else (let name = rawString J (raw_field choice ''name'');
                     name = (if name = [] then rawNestedString J (raw_field choice ''function'') ''name'' else name)
                 in if name = [] then raw
                    else case enc_object J [(''name'', enc_string J name)] of
                      None \<Rightarrow> raw
                    | Some function \<Rightarrow>
                        (case enc_object J [(''type'', enc_string J ''function''), (''function'', function)] of
                           None \<Rightarrow> raw
                         | Some out \<Rightarrow> out))))"

definition ResponsesToChatCompletionsRequest ::
  "json_codec \<Rightarrow> ResponsesRequest option \<Rightarrow> bridge_error + ChatCompletionsRequest" where
  "ResponsesToChatCompletionsRequest J req =
     (case req of
        None \<Rightarrow> Inl NilRequest
      | Some req \<Rightarrow>
          (case responsesInputToChatMessages J (rq_Instructions req) (rq_Input req) of
             Inl e \<Rightarrow> Inl e
           | Inr messages \<Rightarrow> Inr (zero_cq\<lparr>cq_Model := rq_Model req, cq_Messages := messages,
               cq_MaxCompletionTokens := rq_MaxOutputTokens req, cq_Temperature := rq_Temperature req,
               cq_TopP := rq_TopP req, cq_Stream := rq_Stream req, cq_ServiceTier := rq_ServiceTier req,
               cq_ReasoningEffort := (case rq_Reasoning req of None \<Rightarrow> [] | Some r \<Rightarrow> rrg_Effort r),
               cq_Tools := (if length (rq_Tools req) > 0 then responsesToolsToChatTools (rq_Tools req) else []),
               cq_ToolChoice := (if length (rq_ToolChoice req) > 0
                 then responsesToolChoiceToChatToolChoice J (rq_ToolChoice req) else [])\<rparr>)))"

section \<open>The non-streaming response\<close>

definition emptyResponsesMessageOutput :: "(nat \<Rightarrow> string) \<Rightarrow> nat \<Rightarrow> ResponsesOutput" where
  "emptyResponsesMessageOutput rnd k = zero_ro\<lparr>ro_Type := ''message'', ro_ID := generateItemID rnd k,
     ro_Role := ''assistant'', ro_Content := [zero_rcp\<lparr>rcp_Type := ''output_text'', rcp_Text := []\<rparr>],
     ro_Status := ''completed''\<rparr>"

definition messageToolOutput :: "(nat \<Rightarrow> string) \<Rightarrow> ChatToolCall \<Rightarrow> nat \<times> ResponsesOutput list \<Rightarrow> nat \<times> ResponsesOutput list" where
  "messageToolOutput rnd toolCall acc =
     (Suc (fst acc), snd acc @ [zero_ro\<lparr>ro_Type := ''function_call'', ro_ID := generateItemID rnd (fst acc),
        ro_CallID := ctc_ID toolCall, ro_Name := cfc_Name (ctc_Function toolCall),
        ro_Arguments := toolArguments toolCall, ro_Status := ''completed''\<rparr>])"

definition responseText :: "json_codec \<Rightarrow> ChatMessage \<Rightarrow> string" where
  "responseText J message =
     (let text = chatMessageContentText J (cm_Content message)
      in if text = [] \<and> go_TrimSpace (cm_ReasoningContent message) \<noteq> [] \<and> length (cm_ToolCalls message) = 0
         then cm_ReasoningContent message else text)"

text \<open>The number of draws before, and the draws after beside the outputs.\<close>

definition chatMessageToResponsesOutput ::
  "json_codec \<Rightarrow> (nat \<Rightarrow> string) \<Rightarrow> nat \<Rightarrow> ChatMessage \<Rightarrow> nat \<times> ResponsesOutput list" where
  "chatMessageToResponsesOutput J rnd k message =
     (let (k, outputs) = (if cm_ReasoningContent message \<noteq> [] then
            (Suc k, [zero_ro\<lparr>ro_Type := ''reasoning'', ro_ID := generateItemID rnd k,
               ro_Summary := [\<lparr>rsu_Type = ''summary_text'', rsu_Text = cm_ReasoningContent message\<rparr>]\<rparr>])
            else (k, []));
          text = responseText J message;
          (k, outputs) = (if text \<noteq> [] \<or> length (cm_ToolCalls message) = 0 then
            (Suc k, outputs @ [zero_ro\<lparr>ro_Type := ''message'', ro_ID := generateItemID rnd k, ro_Role := ''assistant'',
               ro_Content := [zero_rcp\<lparr>rcp_Type := ''output_text'', rcp_Text := text\<rparr>],
               ro_Status := ''completed''\<rparr>])
            else (k, outputs))
      in fold (messageToolOutput rnd) (cm_ToolCalls message) (k, outputs))"

definition ChatCompletionsResponseToResponses ::
  "json_codec \<Rightarrow> (nat \<Rightarrow> string) \<Rightarrow> ChatCompletionsResponse option \<Rightarrow> string \<Rightarrow> ResponsesResponse" where
  "ChatCompletionsResponseToResponses J rnd resp model =
     (let givenid = (case resp of None \<Rightarrow> [] | Some r \<Rightarrow> ccr_ID r);
          (k, respid) = (if givenid = [] then (1, generateResponsesID rnd 0) else (0, givenid));
          out = zero_rr\<lparr>rr_ID := respid, rr_Object := ''response'', rr_Model := model, rr_Status := ''completed''\<rparr>
      in case resp of
           None \<Rightarrow> out\<lparr>rr_Output := [emptyResponsesMessageOutput rnd k]\<rparr>
         | Some r \<Rightarrow>
             (let out = (if rr_Model out = [] then out\<lparr>rr_Model := ccr_Model r\<rparr> else out);
                  (k, out) = (case ccr_Choices r of
                      [] \<Rightarrow> (k, out)
                    | choice # _ \<Rightarrow>
                        (let (k, outputs) = chatMessageToResponsesOutput J rnd k (cc_Message choice);
                             out = out\<lparr>rr_Output := outputs\<rparr>
                         in (k, if cc_FinishReason choice = ''length''
                                then out\<lparr>rr_Status := ''incomplete'',
                                  rr_IncompleteDetails := Some \<lparr>rid_Reason = ''max_output_tokens''\<rparr>\<rparr>
                                else out)));
                  out = (if rr_Output out = [] then out\<lparr>rr_Output := [emptyResponsesMessageOutput rnd k]\<rparr> else out)
              in if ccr_Usage r \<noteq> None then out\<lparr>rr_Usage := ChatUsageToResponsesUsage (ccr_Usage r)\<rparr> else out))"

section \<open>Tool calls and their replies\<close>

lemma toolReplies_Nil [simp]: "toolReplies [] = Map.empty"
  by (simp add: toolReplies_def)

lemma toolReplies_snoc [simp]:
  "toolReplies (ms @ [m]) =
     (if cm_Role m = ''tool'' \<and> cm_ToolCallID m \<noteq> [] then (toolReplies ms)(cm_ToolCallID m \<mapsto> m) else toolReplies ms)"
  by (simp add: toolReplies_def)

lemma toolReplies_SomeD:
  "toolReplies ms i = Some m \<Longrightarrow> m \<in> set ms \<and> cm_Role m = ''tool'' \<and> cm_ToolCallID m = i \<and> i \<noteq> []"
  by (induction ms rule: rev_induct) (auto split: if_splits)

text \<open>A reply that every message with its id repeats is the one that is found.\<close>

lemma toolReplies_unique:
  assumes "m \<in> set ms" "cm_Role m = ''tool''" "cm_ToolCallID m = i" "i \<noteq> []"
    and "\<forall>m' \<in> set ms. cm_Role m' = ''tool'' \<and> cm_ToolCallID m' = i \<longrightarrow> m' = m"
  shows "toolReplies ms i = Some m"
  using assms
proof (induction ms rule: rev_induct)
  case Nil
  then show ?case by simp
next
  case (snoc x ms)
  show ?case
  proof (cases "cm_Role x = ''tool'' \<and> cm_ToolCallID x = i")
    case True
    with snoc.prems(5) have "x = m" by simp
    with snoc.prems(2-4) show ?thesis by simp
  next
    case False
    with snoc.prems(1-3) have "m \<in> set ms" by auto
    moreover have "\<forall>m' \<in> set ms. cm_Role m' = ''tool'' \<and> cm_ToolCallID m' = i \<longrightarrow> m' = m"
      using snoc.prems(5) by simp
    ultimately have "toolReplies ms i = Some m" using snoc.IH snoc.prems(2-4) by blast
    moreover have "i \<noteq> cm_ToolCallID x \<or> cm_Role x \<noteq> ''tool''" using False by blast
    ultimately show ?thesis by simp
  qed
qed

text \<open>
  The invariant the upstream requires: an assistant message with tool calls is followed at once
  by one tool message per call, in call order, and a tool message with a call id stands nowhere
  else.
\<close>

fun well_paired :: "ChatMessage list \<Rightarrow> bool" where
  "well_paired [] = True"
| "well_paired (m # ms) =
     (if cm_Role m = ''tool'' then cm_ToolCallID m = [] \<and> well_paired ms
      else map (\<lambda>r. (cm_Role r, cm_ToolCallID r)) (take (length (cm_ToolCalls m)) ms) =
             map (\<lambda>tc. (''tool'', ctc_ID tc)) (cm_ToolCalls m) \<and>
           [] \<notin> ctc_ID ` set (cm_ToolCalls m) \<and> well_paired (drop (length (cm_ToolCalls m)) ms))"

lemma well_paired_append: "well_paired xs \<Longrightarrow> well_paired ys \<Longrightarrow> well_paired (xs @ ys)"
proof (induction xs rule: well_paired.induct)
  case 1
  then show ?case by simp
next
  case (2 m ms)
  show ?case
  proof (cases "cm_Role m = ''tool''")
    case True
    with 2 show ?thesis by simp
  next
    case False
    let ?n = "length (cm_ToolCalls m)"
    from False 2(3) have calls: "map (\<lambda>r. (cm_Role r, cm_ToolCallID r)) (take ?n ms) =
        map (\<lambda>tc. (''tool'', ctc_ID tc)) (cm_ToolCalls m)" by simp
    have "?n \<le> length ms" using arg_cong [OF calls, of length] by simp
    with False calls 2 show ?thesis by simp
  qed
qed

lemma keptCalls_answered:
  "tc \<in> set (keptCalls (toolReplies ms) tcs) \<Longrightarrow> \<exists>m. toolReplies ms (ctc_ID tc) = Some m \<and> m \<in> set ms \<and>
    cm_Role m = ''tool'' \<and> cm_ToolCallID m = ctc_ID tc \<and> ctc_ID tc \<noteq> []"
  by (auto simp: keptCalls_def dest: toolReplies_SomeD)

lemma kept_replies:
  "map (\<lambda>r. (cm_Role r, cm_ToolCallID r)) (map (\<lambda>tc. the (toolReplies ms (ctc_ID tc))) (keptCalls (toolReplies ms) tcs)) =
     map (\<lambda>tc. (''tool'', ctc_ID tc)) (keptCalls (toolReplies ms) tcs)"
  unfolding map_map comp_def by (intro map_cong refl) (drule keptCalls_answered, auto)

lemma normalizeMessage_paired: "well_paired (normalizeMessage J (toolReplies ms) m)"
proof -
  let ?kept = "keptCalls (toolReplies ms) (cm_ToolCalls m)"
  have "[] \<notin> ctc_ID ` set ?kept" by (auto simp: keptCalls_def)
  with kept_replies [of ms "cm_ToolCalls m"] show ?thesis
    by (simp add: normalizeMessage_def Let_def del: map_map)
qed

text \<open>
  C18: whatever messages a client's history yields, after normalisation each assistant message
  with tool calls is immediately followed by exactly the replies to its calls, in call order, and
  no other reply with a call id is left anywhere.
\<close>

theorem normalize_well_paired: "well_paired (normalizeChatMessages J messages)"
proof -
  have "well_paired (concat (map (normalizeMessage J (toolReplies messages)) ms))" for ms
    by (induction ms) (simp_all add: well_paired_append normalizeMessage_paired)
  then show ?thesis by (simp add: normalizeChatMessages_def)
qed

text \<open>The non-tool messages of the normalised list.\<close>

definition answered_message :: "(string \<rightharpoonup> ChatMessage) \<Rightarrow> ChatMessage \<Rightarrow> ChatMessage" where
  "answered_message replies m = m\<lparr>cm_ToolCalls := keptCalls replies (cm_ToolCalls m)\<rparr>"

definition keeps_message :: "json_codec \<Rightarrow> (string \<rightharpoonup> ChatMessage) \<Rightarrow> ChatMessage \<Rightarrow> bool" where
  "keeps_message J replies m \<longleftrightarrow> cm_Role m \<noteq> ''tool'' \<and>
     (cm_ToolCalls m = [] \<or> keptCalls replies (cm_ToolCalls m) \<noteq> [] \<or> \<not> isBlankChatContent J (cm_Content m))"

text \<open>
  normalisation loses and reorders nothing else: the non-tool messages that remain are those of
  the input in their order, each with its answered calls; the only ones dropped are those with
  tool calls of which none was answered and no content of their own.
\<close>

theorem normalize_keeps_messages:
  "filter (\<lambda>m. cm_Role m \<noteq> ''tool'') (normalizeChatMessages J messages) =
     map (answered_message (toolReplies messages)) (filter (keeps_message J (toolReplies messages)) messages)"
proof -
  have same: "m\<lparr>cm_ToolCalls := []\<rparr> = m" if "cm_ToolCalls m = []" for m :: ChatMessage
    using that by (cases m) simp
  have replies: "filter (\<lambda>m. cm_Role m \<noteq> ''tool'')
      (map (\<lambda>tc. the (toolReplies messages (ctc_ID tc))) (keptCalls (toolReplies messages) tcs)) = []" for tcs
    using keptCalls_answered by (fastforce simp: filter_empty_conv)
  have "filter (\<lambda>m. cm_Role m \<noteq> ''tool'') (normalizeMessage J (toolReplies messages) m) =
      (if keeps_message J (toolReplies messages) m then [answered_message (toolReplies messages) m] else [])" for m
    using replies [of "cm_ToolCalls m"] same [of m]
    by (auto simp: normalizeMessage_def keeps_message_def answered_message_def keptCalls_def Let_def)
  then have "filter (\<lambda>m. cm_Role m \<noteq> ''tool'') (concat (map (normalizeMessage J (toolReplies messages)) ms)) =
      map (answered_message (toolReplies messages)) (filter (keeps_message J (toolReplies messages)) ms)" for ms
    by (induction ms) simp_all
  then show ?thesis by (simp add: normalizeChatMessages_def)
qed

lemma normalize_reply:
  assumes "m \<in> set messages" "cm_Role m \<noteq> ''tool''" "tc \<in> set (keptCalls (toolReplies messages) (cm_ToolCalls m))"
  shows "toolReplies (normalizeChatMessages J messages) (ctc_ID tc) = toolReplies messages (ctc_ID tc)"
proof -
  from keptCalls_answered [OF assms(3)] obtain r where r: "toolReplies messages (ctc_ID tc) = Some r"
    "cm_Role r = ''tool''" "cm_ToolCallID r = ctc_ID tc" "ctc_ID tc \<noteq> []" by blast
  have "keptCalls (toolReplies messages) (cm_ToolCalls m) \<noteq> []" using assms(3) by force
  moreover have "length (cm_ToolCalls m) > 0" using assms(3) by (auto simp: keptCalls_def)
  ultimately have "r \<in> set (normalizeMessage J (toolReplies messages) m)"
    using assms(2,3) r(1) by (force simp: normalizeMessage_def Let_def)
  then have mem: "r \<in> set (normalizeChatMessages J messages)"
    using assms(1) by (auto simp: normalizeChatMessages_def)
  have only: "x = r" if "x \<in> set (normalizeMessage J (toolReplies messages) y)" "cm_Role x = ''tool''"
    "cm_ToolCallID x = ctc_ID tc" for x y
  proof -
    have "\<exists>tc' \<in> set (keptCalls (toolReplies messages) (cm_ToolCalls y)). x = the (toolReplies messages (ctc_ID tc'))"
      using that r(4) by (auto simp: normalizeMessage_def Let_def split: if_splits)
    then obtain tc' where tc': "tc' \<in> set (keptCalls (toolReplies messages) (cm_ToolCalls y))"
      "x = the (toolReplies messages (ctc_ID tc'))" by blast
    with keptCalls_answered [OF tc'(1)] that(3) r(1) show ?thesis by auto
  qed
  have "\<forall>x \<in> set (normalizeChatMessages J messages). cm_Role x = ''tool'' \<and> cm_ToolCallID x = ctc_ID tc \<longrightarrow> x = r"
    using only unfolding normalizeChatMessages_def by auto
  from toolReplies_unique [OF mem r(2,3,4) this] r(1) show ?thesis by simp
qed

text \<open>
  normalisation is idempotent: a history that was normalised once goes through unchanged.
\<close>

theorem normalize_idempotent:
  "normalizeChatMessages J (normalizeChatMessages J messages) = normalizeChatMessages J messages"
proof -
  let ?R = "toolReplies messages" and ?R' = "toolReplies (normalizeChatMessages J messages)"
  have "concat (map (normalizeMessage J ?R') (normalizeMessage J ?R m)) = normalizeMessage J ?R m"
    if m: "m \<in> set messages" for m
  proof (cases "cm_Role m \<noteq> ''tool'' \<and> keptCalls ?R (cm_ToolCalls m) \<noteq> []")
    case False
    then show ?thesis by (auto simp: normalizeMessage_def keptCalls_def Let_def)
  next
    case True
    let ?kept = "keptCalls ?R (cm_ToolCalls m)"
    from True have ne: "cm_ToolCalls m \<noteq> []" by (auto simp: keptCalls_def)
    have eq: "?R' (ctc_ID tc) = ?R (ctc_ID tc)" if "tc \<in> set ?kept" for tc
      using normalize_reply [OF m _ that] True by blast
    have kept': "keptCalls ?R' ?kept = ?kept"
      using eq unfolding keptCalls_def filter_filter by (intro filter_cong) (auto simp: keptCalls_def)
    have replies: "map (\<lambda>tc. the (?R' (ctc_ID tc))) ?kept = map (\<lambda>tc. the (?R (ctc_ID tc))) ?kept"
      using eq by simp
    have drop: "normalizeMessage J ?R' (the (?R (ctc_ID tc))) = []" if "tc \<in> set ?kept" for tc
      using keptCalls_answered [OF that] by (auto simp: normalizeMessage_def)
    have "normalizeMessage J ?R m = m\<lparr>cm_ToolCalls := ?kept\<rparr> # map (\<lambda>tc. the (?R (ctc_ID tc))) ?kept"
      using True ne by (simp add: normalizeMessage_def Let_def)
    moreover have "normalizeMessage J ?R' (m\<lparr>cm_ToolCalls := ?kept\<rparr>) =
        m\<lparr>cm_ToolCalls := ?kept\<rparr> # map (\<lambda>tc. the (?R (ctc_ID tc))) ?kept"
      using True kept' replies by (simp add: normalizeMessage_def Let_def)
    moreover have "concat (map (normalizeMessage J ?R') (map (\<lambda>tc. the (?R (ctc_ID tc))) ?kept)) = []"
      using drop by auto
    ultimately show ?thesis by simp
  qed
  then have "concat (map (normalizeMessage J ?R') (concat (map (normalizeMessage J ?R) ms))) =
      concat (map (normalizeMessage J ?R) ms)" if "set ms \<subseteq> set messages" for ms
    using that by (induction ms) simp_all
  then show ?thesis unfolding normalizeChatMessages_def [of J "normalizeChatMessages J messages"]
    by (simp add: normalizeChatMessages_def [of J messages])
qed

section \<open>The whole pipeline\<close>

lemma well_paired_plain: "(\<forall>m \<in> set ms. cm_Role m \<noteq> ''tool'' \<and> cm_ToolCalls m = []) \<Longrightarrow> well_paired ms"
  by (induction ms) simp_all

text \<open>
  every request the bridge accepts, whatever its input, carries a message list that satisfies
  the tool-call invariant of the Chat Completions schema.
\<close>

theorem request_well_paired:
  assumes "ResponsesToChatCompletionsRequest J (Some req) = Inr out"
  shows "well_paired (cq_Messages out) \<and> cq_Model out = rq_Model req"
proof -
  obtain msgs where msgs: "responsesInputToChatMessages J (rq_Instructions req) (rq_Input req) = Inr msgs"
    and out: "cq_Messages out = msgs" "cq_Model out = rq_Model req"
    using assms by (cases "responsesInputToChatMessages J (rq_Instructions req) (rq_Input req)")
      (auto simp: ResponsesToChatCompletionsRequest_def)
  let ?sys = "if go_TrimSpace (rq_Instructions req) \<noteq> []
    then [zero_cm\<lparr>cm_Role := ''system'', cm_Content := enc_string J (rq_Instructions req)\<rparr>] else []"
  let ?raw = "go_TrimSpace (rq_Input req)"
  have plain: "well_paired ?sys" "well_paired (?sys @ [userMessage c])" for c
    by (intro well_paired_plain, simp add: zero_cm_def userMessage_def)+
  consider "is_null ?raw" | t where "\<not> is_null ?raw" "dec_string J ?raw = Some t"
    | items where "\<not> is_null ?raw" "dec_string J ?raw = None" "dec_array J ?raw = Some items"
    | "\<not> is_null ?raw" "dec_string J ?raw = None" "dec_array J ?raw = None" by fastforce
  then have "well_paired msgs"
  proof cases
    case 1
    with msgs plain(1) show ?thesis by (simp add: responsesInputToChatMessages_def Let_def)
  next
    case (2 t)
    with msgs plain(2) [of "enc_string J t"] show ?thesis by (simp add: responsesInputToChatMessages_def Let_def)
  next
    case (3 items)
    with msgs obtain built where "msgs = normalizeChatMessages J built"
      by (cases "buildChatMessagesFromItems J ?sys items")
        (simp_all add: responsesInputToChatMessages_def Let_def, blast)
    then show ?thesis by (simp add: normalize_well_paired)
  next
    case 4
    with msgs show ?thesis by (simp add: responsesInputToChatMessages_def Let_def)
  qed
  with out show ?thesis by simp
qed

text \<open>A call, a message in between, the reply, and a call that is never answered.\<close>

definition sample_history :: json_codec where
  "sample_history = sample_codec [(''input'', [''call'', ''note'', ''reply'', ''dangling''])]
     [(''call'', [(''type'', quoted ''function_call''), (''call_id'', quoted ''a''), (''name'', quoted ''ls'')]),
      (''note'', [(''role'', quoted ''developer''), (''content'', quoted ''saved'')]),
      (''reply'', [(''type'', quoted ''function_call_output''), (''call_id'', quoted ''a''), (''output'', quoted ''ok'')]),
      (''dangling'', [(''type'', quoted ''function_call''), (''call_id'', quoted ''b''), (''name'', quoted ''ls'')])]"

definition sample_request :: ResponsesRequest where
  "sample_request = \<lparr>rq_Model = ''m'', rq_Instructions = [], rq_Input = ''input'', rq_MaxOutputTokens = None,
     rq_Temperature = None, rq_TopP = None, rq_Stream = True, rq_Tools = [], rq_Include = [], rq_Store = None,
     rq_ParallelToolCalls = None, rq_Reasoning = None, rq_Text = None, rq_ToolChoice = [], rq_ServiceTier = [],
     rq_PromptCacheKey = [], rq_PreviousResponseID = []\<rparr>"

lemma sample_messages:
  "map_sum id (map (\<lambda>m. (cm_Role m, map ctc_ID (cm_ToolCalls m), cm_ToolCallID m)))
     (responsesInputToChatMessages sample_history [] ''input'') =
   Inr [(''assistant'', [''a''], []), (''tool'', [], ''a''), (''system'', [], [])]"
  by code_simp

theorem request_well_paired_witness:
  "\<exists>out. ResponsesToChatCompletionsRequest sample_history (Some sample_request) = Inr out \<and>
    length (cq_Messages out) = 3 \<and> well_paired (cq_Messages out) \<and> cq_Model out = ''m''"
proof -
  obtain msgs where msgs: "responsesInputToChatMessages sample_history [] ''input'' = Inr msgs" "length msgs = 3"
    using sample_messages by (cases "responsesInputToChatMessages sample_history [] ''input''") (auto dest: arg_cong [where f = length])
  then obtain out where out: "ResponsesToChatCompletionsRequest sample_history (Some sample_request) = Inr out"
    "cq_Messages out = msgs"
    by (simp add: ResponsesToChatCompletionsRequest_def sample_request_def)
  from request_well_paired [OF out(1)] out msgs(2) show ?thesis by (simp add: sample_request_def)
qed

section \<open>Chat response to Responses and back\<close>

lemma fold_messageToolOutput:
  "fold collectOutputItem (snd (fold (messageToolOutput rnd) tcs (k, os))) acc =
     (let (t, r, calls) = fold collectOutputItem os acc
      in (t, r, calls @ map (\<lambda>tc. \<lparr>ctc_Index = None, ctc_ID = ctc_ID tc, ctc_Type = ''function'',
        ctc_Function = \<lparr>cfc_Name = cfc_Name (ctc_Function tc), cfc_Arguments = toolArguments tc\<rparr>\<rparr>) tcs))"
  by (induction tcs arbitrary: k os) (simp_all add: messageToolOutput_def collectOutputItem_def split_beta)

lemma collect_messageOutput:
  "fold collectOutputItem (snd (chatMessageToResponsesOutput J rnd k m)) ([], [], []) =
     (responseText J m, cm_ReasoningContent m,
      map (\<lambda>tc. \<lparr>ctc_Index = None, ctc_ID = ctc_ID tc, ctc_Type = ''function'',
        ctc_Function = \<lparr>cfc_Name = cfc_Name (ctc_Function tc), cfc_Arguments = toolArguments tc\<rparr>\<rparr>) (cm_ToolCalls m))"
  by (simp add: chatMessageToResponsesOutput_def fold_messageToolOutput Let_def) (auto simp: collectOutputItem_def zero_defs)

lemma messageOutput_nonempty: "snd (chatMessageToResponsesOutput J rnd k m) \<noteq> []"
proof
  assume "snd (chatMessageToResponsesOutput J rnd k m) = []"
  with collect_messageOutput [of J rnd k m] have "cm_ToolCalls m = []" "responseText J m = []" "cm_ReasoningContent m = []"
    by simp_all
  then show False using \<open>snd (chatMessageToResponsesOutput J rnd k m) = []\<close>
    by (simp add: chatMessageToResponsesOutput_def Let_def)
qed

text \<open>
  a Chat Completions response turned into a Responses response and back keeps its reasoning,
  its tool calls in order (blank arguments become an empty object) and its text, a reply of
  nothing but reasoning gaining the reasoning as its text; a reply cut off by length is still
  reported as such.
\<close>

theorem chat_roundtrip:
  "ccr_Choices (ResponsesToChatCompletions J newid now
      (ChatCompletionsResponseToResponses J rnd (Some (r\<lparr>ccr_Choices := choice # rest\<rparr>)) model) model') =
    [\<lparr>cc_Index = 0,
      cc_Message = zero_cm\<lparr>cm_Role := ''assistant'',
        cm_ToolCalls := map (\<lambda>tc. \<lparr>ctc_Index = None, ctc_ID = ctc_ID tc, ctc_Type = ''function'',
          ctc_Function = \<lparr>cfc_Name = cfc_Name (ctc_Function tc), cfc_Arguments = toolArguments tc\<rparr>\<rparr>)
          (cm_ToolCalls (cc_Message choice)),
        cm_Content := (if responseText J (cc_Message choice) \<noteq> []
          then enc_string J (responseText J (cc_Message choice)) else []),
        cm_ReasoningContent := cm_ReasoningContent (cc_Message choice)\<rparr>,
      cc_FinishReason = (if cc_FinishReason choice = ''length'' then ''length''
        else if cm_ToolCalls (cc_Message choice) \<noteq> [] then ''tool_calls'' else ''stop'')\<rparr>]"
  using collect_messageOutput messageOutput_nonempty
  by (simp add: ChatCompletionsResponseToResponses_def ResponsesToChatCompletions_def
      responsesStatusToChatFinishReason_def zero_rr_def Let_def split_beta)

end
