(* ===== verification/Go_Text.thy ===== *)
theory Go_Text
  imports Go_Prelude
begin

text \<open>
  More of Go's \<open>strings\<close> and \<open>strconv\<close>, as the payment code uses them: \<open>ToUpper\<close>, \<open>ToLower\<close>,
  \<open>EqualFold\<close>, \<open>Contains\<close>, \<open>Split\<close>, \<open>ParseInt\<close>/\<open>Atoi\<close> in base 10 and \<open>FormatInt\<close>. Strings are
  lists of UTF-8 bytes. Case mapping is exact for the ASCII letters and for the runes whose case
  mapping is an ASCII letter (dotless i, long s, dotted I, the Kelvin sign); every other rune is
  left as it is, so two strings that differ only in the case of a letter outside ASCII count as
  different.
\<close>

definition byte :: "char \<Rightarrow> nat" where
  "byte c = of_char c"

definition ascii_upper :: "char \<Rightarrow> bool" where
  "ascii_upper c \<longleftrightarrow> 65 \<le> byte c \<and> byte c \<le> 90"

definition ascii_lower :: "char \<Rightarrow> bool" where
  "ascii_lower c \<longleftrightarrow> 97 \<le> byte c \<and> byte c \<le> 122"

definition ascii_digit :: "char \<Rightarrow> bool" where
  "ascii_digit c \<longleftrightarrow> 48 \<le> byte c \<and> byte c \<le> 57"

definition upper_byte :: "char \<Rightarrow> char" where
  "upper_byte c = (if ascii_lower c then char_of (byte c - 32) else c)"

definition lower_byte :: "char \<Rightarrow> char" where
  "lower_byte c = (if ascii_upper c then char_of (byte c + 32) else c)"

text \<open>Replace the words of a table where they start, map the other bytes one by one.\<close>

fun replace_words :: "(string \<times> string) list \<Rightarrow> (char \<Rightarrow> char) \<Rightarrow> string \<Rightarrow> string" where
  "replace_words tbl f [] = []"
| "replace_words tbl f (c # cs) =
     (case find (\<lambda>(w, r). go_HasPrefix (c # cs) w) tbl of
        None \<Rightarrow> f c # replace_words tbl f cs
      | Some (w, r) \<Rightarrow> r @ replace_words tbl f (drop (length w - 1) cs))"

definition go_ToUpper :: "string \<Rightarrow> string" where
  "go_ToUpper = replace_words [([CHR 0xC4, CHR 0xB1], ''I''), ([CHR 0xC5, CHR 0xBF], ''S'')] upper_byte"

definition go_ToLower :: "string \<Rightarrow> string" where
  "go_ToLower = replace_words [([CHR 0xC4, CHR 0xB0], ''i''), ([CHR 0xE2, CHR 0x84, CHR 0xAA], ''k'')] lower_byte"

definition fold_case :: "string \<Rightarrow> string" where
  "fold_case = replace_words [([CHR 0xC5, CHR 0xBF], ''s''), ([CHR 0xE2, CHR 0x84, CHR 0xAA], ''k'')] lower_byte"

definition go_EqualFold :: "string \<Rightarrow> string \<Rightarrow> bool" where
  "go_EqualFold s t \<longleftrightarrow> fold_case s = fold_case t"

lemma go_EqualFold_refl [simp]: "go_EqualFold s s"
  by (simp add: go_EqualFold_def)

lemma go_EqualFold_sym: "go_EqualFold s t \<Longrightarrow> go_EqualFold t s"
  by (simp add: go_EqualFold_def)

fun go_Contains :: "string \<Rightarrow> string \<Rightarrow> bool" where
  "go_Contains [] p = (p = [])"
| "go_Contains (c # cs) p = (go_HasPrefix (c # cs) p \<or> go_Contains cs p)"

lemma go_Contains_prefix: "go_Contains (p @ s) p"
proof (cases "p @ s")
  case (Cons c cs)
  then have "go_HasPrefix (c # cs) p" by (metis go_HasPrefix_append)
  with Cons show ?thesis by simp
qed simp

lemma go_Contains_append_left: "go_Contains s p \<Longrightarrow> go_Contains (r @ s) p"
  by (induction r) auto

text \<open>\<open>strings.Split(s, sep)\<close> for a separator of one byte.\<close>

fun go_SplitByte :: "char \<Rightarrow> string \<Rightarrow> string list" where
  "go_SplitByte sep [] = [[]]"
| "go_SplitByte sep (c # cs) =
     (if c = sep then [] # go_SplitByte sep cs
      else (case go_SplitByte sep cs of [] \<Rightarrow> [[c]] | w # ws \<Rightarrow> (c # w) # ws))"

section \<open>Decimal numbers\<close>

fun digits_value :: "int \<Rightarrow> string \<Rightarrow> int option" where
  "digits_value acc [] = Some acc"
| "digits_value acc (c # cs) =
     (if ascii_digit c then digits_value (acc * 10 + (int (byte c) - 48)) cs else None)"

text \<open>\<open>strconv.ParseInt(s, 10, 64)\<close>, \<open>None\<close> for an error.\<close>

definition go_ParseInt :: "string \<Rightarrow> int option" where
  "go_ParseInt s =
     (let (neg, body) = (case s of
            [] \<Rightarrow> (False, [])
          | c # cs \<Rightarrow> if c = CHR ''-'' then (True, cs) else if c = CHR ''+'' then (False, cs)
                     else (False, s))
      in if body = [] then None
         else (case digits_value 0 body of
                 None \<Rightarrow> None
               | Some n \<Rightarrow>
                   let v = (if neg then - n else n)
                   in if - (2 ^ 63) \<le> v \<and> v < 2 ^ 63 then Some v else None))"

fun nat_digits :: "nat \<Rightarrow> string" where
  "nat_digits n =
     (if n < 10 then [char_of (48 + n)] else nat_digits (n div 10) @ [char_of (48 + n mod 10)])"

declare nat_digits.simps [simp del]

text \<open>\<open>strconv.FormatInt(i, 10)\<close> and \<open>fmt\<close>'s \<open>%d\<close>.\<close>

definition go_FormatInt :: "int \<Rightarrow> string" where
  "go_FormatInt i = (if i < 0 then ''-'' @ nat_digits (nat (- i)) else nat_digits (nat i))"

lemma byte_char_of: "n < 256 \<Longrightarrow> byte (char_of n) = n"
  by (simp add: byte_def)

lemma byte_less: "byte c < 256"
  by (simp add: byte_def)

lemma digits_value_append:
  "digits_value a (xs @ ys) = (case digits_value a xs of None \<Rightarrow> None | Some b \<Rightarrow> digits_value b ys)"
  by (induction xs arbitrary: a) (auto split: option.splits)

lemma digits_value_nat_digits: "digits_value 0 (nat_digits n) = Some (int n)"
proof (induction n rule: nat_digits.induct)
  case (1 n)
  show ?case
  proof (cases "n < 10")
    case True
    then show ?thesis
      by (simp add: nat_digits.simps [of n] ascii_digit_def byte_char_of)
  next
    case False
    with 1 have "digits_value 0 (nat_digits (n div 10)) = Some (int (n div 10))" by simp
    moreover have "int (n div 10) * 10 + int (n mod 10) = int n"
      by (metis div_mult_mod_eq mult.commute of_nat_add of_nat_mult of_nat_numeral)
    ultimately show ?thesis
      using False by (simp add: nat_digits.simps [of n] digits_value_append ascii_digit_def byte_char_of)
  qed
qed

lemma nat_digits_digits: "list_all ascii_digit (nat_digits n)"
proof (induction n rule: nat_digits.induct)
  case (1 n)
  have "ascii_digit (char_of (48 + m))" if "m < 10" for m :: nat
    using that by (simp add: ascii_digit_def byte_char_of)
  with 1 show ?case by (simp add: nat_digits.simps [of n])
qed

lemma nat_digits_not_Nil [simp]: "nat_digits n \<noteq> []"
  by (subst nat_digits.simps) simp

lemma ascii_digit_not_sign: "ascii_digit c \<Longrightarrow> c \<noteq> CHR ''-'' \<and> c \<noteq> CHR ''+''"
  by (auto simp: ascii_digit_def byte_def)

lemma go_ParseInt_FormatInt:
  assumes "- (2 ^ 63) \<le> i" and "i < 2 ^ 63"
  shows "go_ParseInt (go_FormatInt i) = Some i"
proof (cases "i < 0")
  case True
  then show ?thesis
    using assms by (simp add: go_ParseInt_def go_FormatInt_def digits_value_nat_digits Let_def)
next
  case False
  obtain c cs where c: "nat_digits (nat i) = c # cs"
    by (cases "nat_digits (nat i)") simp_all
  with nat_digits_digits [of "nat i"] have "ascii_digit c" by simp
  then have "c \<noteq> CHR ''-''" "c \<noteq> CHR ''+''" using ascii_digit_not_sign by blast+
  then have "go_ParseInt (nat_digits (nat i)) = Some i"
    using False assms digits_value_nat_digits [of "nat i"] unfolding c
    by (simp add: go_ParseInt_def Let_def)
  with False show ?thesis by (simp add: go_FormatInt_def)
qed

section \<open>Tokens: strings of visible ASCII bytes\<close>

definition token_byte :: "char \<Rightarrow> bool" where
  "token_byte c \<longleftrightarrow> 32 < byte c \<and> byte c < 128"

lemma token_byte_cases:
  "ascii_upper c \<Longrightarrow> token_byte c" "ascii_lower c \<Longrightarrow> token_byte c" "ascii_digit c \<Longrightarrow> token_byte c"
  by (auto simp: ascii_upper_def ascii_lower_def ascii_digit_def token_byte_def)

lemma head_match_0:
  assumes "list_all (\<lambda>w. w \<noteq> [] \<longrightarrow> hd w \<noteq> c) ws"
  shows "head_match ws (c # cs) = 0"
proof -
  have "find (\<lambda>w. w \<noteq> [] \<and> go_HasPrefix (c # cs) w) ws = None"
    unfolding find_None_iff
  proof
    assume "\<exists>w. w \<in> set ws \<and> w \<noteq> [] \<and> go_HasPrefix (c # cs) w"
    then obtain w where w: "w \<in> set ws" "w \<noteq> []" "take (length w) (c # cs) = w"
      by (auto simp: go_HasPrefix_def)
    from w(2,3) have "hd w = c" by (cases w) simp_all
    with w assms show False by (auto simp: list_all_iff)
  qed
  then show ?thesis by (simp add: head_match_def)
qed

lemma trim_left_words_token:
  assumes "list_all (\<lambda>w. w \<noteq> [] \<longrightarrow> \<not> token_byte (hd w)) ws" and "\<And>c cs. s = c # cs \<Longrightarrow> token_byte c"
  shows "trim_left_words ws s = s"
proof (cases s)
  case (Cons c cs)
  with assms have "list_all (\<lambda>w. w \<noteq> [] \<longrightarrow> hd w \<noteq> c) ws" by (auto simp: list_all_iff)
  then show ?thesis by (simp add: Cons trim_left_words.simps [of ws "c # cs"] head_match_0)
qed simp

lemma space_runes_not_token:
  "list_all (\<lambda>w. w \<noteq> [] \<longrightarrow> \<not> token_byte (hd w)) space_runes"
  "list_all (\<lambda>w. w \<noteq> [] \<longrightarrow> \<not> token_byte (hd w)) (map rev space_runes)"
  by (simp_all add: space_runes_def token_byte_def byte_def)

lemma go_TrimSpace_token:
  assumes "list_all token_byte s"
  shows "go_TrimSpace s = s"
proof -
  have "trim_left_words space_runes s = s"
    using assms by (intro trim_left_words_token space_runes_not_token) auto
  moreover have "trim_left_words (map rev space_runes) (rev s) = rev s"
  proof (intro trim_left_words_token space_runes_not_token)
    fix c cs
    assume "rev s = c # cs"
    then have "c \<in> set s" by (metis list.set_intros(1) set_rev)
    with assms show "token_byte c" by (simp add: list_all_iff)
  qed
  ultimately show ?thesis by (simp add: go_TrimSpace_def)
qed

lemma head_match_none: "head_match ws s = 0 \<longleftrightarrow> (\<forall>w \<in> set ws. w \<noteq> [] \<longrightarrow> \<not> go_HasPrefix s w)"
proof (cases "find (\<lambda>w. w \<noteq> [] \<and> go_HasPrefix s w) ws")
  case None
  then have "head_match ws s = 0" by (simp add: head_match_def)
  with None show ?thesis by (auto simp: find_None_iff)
next
  case (Some w)
  then have "w \<in> set ws" "w \<noteq> []" "go_HasPrefix s w" by (auto simp: find_Some_iff)
  with Some show ?thesis by (auto simp: head_match_def)
qed

lemma head_match_trimmed: "head_match ws (trim_left_words ws s) = 0"
proof (induction ws s rule: trim_left_words.induct)
  case (1 ws s)
  then show ?case by (cases "head_match ws s = 0") (simp_all add: trim_left_words.simps [of ws s])
qed

lemma trim_left_id: "head_match ws s = 0 \<Longrightarrow> trim_left_words ws s = s"
  by (simp add: trim_left_words.simps [of ws s])

lemma trim_left_suffix: "\<exists>p. s = p @ trim_left_words ws s"
proof (induction ws s rule: trim_left_words.induct)
  case (1 ws s)
  show ?case
  proof (cases "head_match ws s = 0")
    case False
    with 1 obtain p where "drop (head_match ws s) s = p @ trim_left_words ws (drop (head_match ws s) s)" by blast
    then have "s = (take (head_match ws s) s @ p) @ trim_left_words ws (drop (head_match ws s) s)"
      by (metis append.assoc append_take_drop_id)
    moreover have "trim_left_words ws s = trim_left_words ws (drop (head_match ws s) s)"
      using False by (simp add: trim_left_words.simps [of ws s])
    ultimately show ?thesis by metis
  qed (simp add: trim_left_id)
qed

lemma head_match_prefix:
  assumes "head_match ws (t @ p) = 0"
  shows "head_match ws t = 0"
proof -
  have "go_HasPrefix (t @ p) w" if "go_HasPrefix t w" for w
  proof -
    from that have "take (length w) t = w" by (simp add: go_HasPrefix_def)
    then have "length w \<le> length t" by (metis length_take min.cobounded1)
    with \<open>take (length w) t = w\<close> show ?thesis by (simp add: go_HasPrefix_def)
  qed
  with assms show ?thesis unfolding head_match_none by blast
qed

lemma go_TrimSpace_idem [simp]: "go_TrimSpace (go_TrimSpace s) = go_TrimSpace s"
proof -
  define t where "t = trim_left_words space_runes s"
  obtain p where p: "rev t = p @ trim_left_words (map rev space_runes) (rev t)" using trim_left_suffix by blast
  define u where "u = rev (trim_left_words (map rev space_runes) (rev t))"
  have "t = u @ rev p" using p by (metis rev_append rev_rev_ident u_def)
  moreover have "head_match space_runes t = 0" by (simp add: t_def head_match_trimmed)
  ultimately have "head_match space_runes u = 0" using head_match_prefix by metis
  moreover have "head_match (map rev space_runes) (rev u) = 0" by (simp add: u_def head_match_trimmed)
  ultimately have "go_TrimSpace u = u" by (simp add: go_TrimSpace_def trim_left_id)
  then show ?thesis by (simp add: go_TrimSpace_def u_def t_def)
qed

lemma replace_words_ascii:
  assumes "list_all (\<lambda>c. byte c < 128) s" and "list_all (\<lambda>(w, r). w \<noteq> [] \<and> \<not> byte (hd w) < 128) tbl"
  shows "replace_words tbl f s = map f s"
  using assms(1)
proof (induction s)
  case (Cons c cs)
  have "find (\<lambda>(w, r). go_HasPrefix (c # cs) w) tbl = None"
    unfolding find_None_iff
  proof
    assume "\<exists>x. x \<in> set tbl \<and> (case x of (w, r) \<Rightarrow> go_HasPrefix (c # cs) w)"
    then obtain w r where w: "(w, r) \<in> set tbl" "take (length w) (c # cs) = w"
      by (auto simp: go_HasPrefix_def)
    with assms(2) have "w \<noteq> []" "\<not> byte (hd w) < 128" by (auto simp: list_all_iff)
    with w Cons.prems show False by (cases w) auto
  qed
  with Cons show ?case by simp
qed simp

lemma token_bytes_ascii: "list_all token_byte s \<Longrightarrow> list_all (\<lambda>c. byte c < 128) s"
  by (induction s) (auto simp: token_byte_def)

lemma go_ToUpper_ascii: "list_all (\<lambda>c. byte c < 128) s \<Longrightarrow> go_ToUpper s = map upper_byte s"
  unfolding go_ToUpper_def by (rule replace_words_ascii) (simp_all add: byte_def)

lemma go_ToLower_ascii: "list_all (\<lambda>c. byte c < 128) s \<Longrightarrow> go_ToLower s = map lower_byte s"
  unfolding go_ToLower_def by (rule replace_words_ascii) (simp_all add: byte_def)

lemma fold_case_ascii: "list_all (\<lambda>c. byte c < 128) s \<Longrightarrow> fold_case s = map lower_byte s"
  unfolding fold_case_def by (rule replace_words_ascii) (simp_all add: byte_def)

lemma upper_byte_upper: "ascii_upper c \<Longrightarrow> upper_byte c = c"
  by (auto simp: upper_byte_def ascii_upper_def ascii_lower_def)

end
