(* ===== verification/Go_Float.thy ===== *)
theory Go_Float
  imports Complex_Main
begin

text \<open>
  Go's \<open>float64\<close> for the arithmetic on amounts: NaN, the infinities, and finite values as the
  rational they denote (the two zeros are one value). An operation computes the exact result and
  rounds it to the nearest binary64 number, ties to even, overflow to infinity.
\<close>

datatype f64 = NaN | PInf | NInf | Fin rat

section \<open>Rounding\<close>

definition round_half_even :: "rat \<Rightarrow> int" where
  "round_half_even q =
     (let f = \<lfloor>q\<rfloor>; r = q - of_int f
      in if r < 1 / 2 then f else if r > 1 / 2 then f + 1 else if even f then f else f + 1)"

definition pow2 :: "int \<Rightarrow> rat" where
  "pow2 e = (if 0 \<le> e then 2 ^ nat e else 1 / 2 ^ nat (- e))"

fun bits :: "nat \<Rightarrow> nat" where
  "bits n = (if n = 0 then 0 else Suc (bits (n div 2)))"

declare bits.simps [simp del]

text \<open>The exponent of a positive rational: \<open>2 ^ e \<le> q < 2 ^ (e + 1)\<close>.\<close>

definition exponent :: "rat \<Rightarrow> int" where
  "exponent q =
     (let (n, d) = quotient_of q; e = int (bits (nat n)) - int (bits (nat d))
      in if pow2 e \<le> q then e else e - 1)"

definition round_pos :: "rat \<Rightarrow> rat" where
  "round_pos q =
     (let u = pow2 (max (exponent q - 52) (- 1074)) in of_int (round_half_even (q / u)) * u)"

definition f64_round :: "rat \<Rightarrow> f64" where
  "f64_round q =
     (if q = 0 then Fin 0
      else let a = round_pos \<bar>q\<bar>
           in if a \<ge> 2 ^ 1024 then (if q < 0 then NInf else PInf)
              else Fin (if q < 0 then - a else a))"

section \<open>Arithmetic\<close>

instantiation f64 :: "{minus, uminus, abs, ord}"
begin

definition uminus_f64 :: "f64 \<Rightarrow> f64" where
  "- x = (case x of NaN \<Rightarrow> NaN | PInf \<Rightarrow> NInf | NInf \<Rightarrow> PInf | Fin q \<Rightarrow> Fin (- q))"

definition minus_f64 :: "f64 \<Rightarrow> f64 \<Rightarrow> f64" where
  "x - y =
     (case x of
        NaN \<Rightarrow> NaN
      | PInf \<Rightarrow> (case y of NaN \<Rightarrow> NaN | PInf \<Rightarrow> NaN | NInf \<Rightarrow> PInf | Fin _ \<Rightarrow> PInf)
      | NInf \<Rightarrow> (case y of NaN \<Rightarrow> NaN | PInf \<Rightarrow> NInf | NInf \<Rightarrow> NaN | Fin _ \<Rightarrow> NInf)
      | Fin a \<Rightarrow> (case y of NaN \<Rightarrow> NaN | PInf \<Rightarrow> NInf | NInf \<Rightarrow> PInf | Fin b \<Rightarrow> f64_round (a - b)))"

definition abs_f64 :: "f64 \<Rightarrow> f64" where
  "\<bar>x\<bar> = (case x of NaN \<Rightarrow> NaN | PInf \<Rightarrow> PInf | NInf \<Rightarrow> PInf | Fin q \<Rightarrow> Fin \<bar>q\<bar>)"

definition less_eq_f64 :: "f64 \<Rightarrow> f64 \<Rightarrow> bool" where
  "x \<le> y \<longleftrightarrow>
     (case x of
        NaN \<Rightarrow> False
      | PInf \<Rightarrow> y = PInf
      | NInf \<Rightarrow> y \<noteq> NaN
      | Fin a \<Rightarrow> (case y of NaN \<Rightarrow> False | PInf \<Rightarrow> True | NInf \<Rightarrow> False | Fin b \<Rightarrow> a \<le> b))"

definition less_f64 :: "f64 \<Rightarrow> f64 \<Rightarrow> bool" where
  "x < y \<longleftrightarrow>
     (case x of
        NaN \<Rightarrow> False
      | PInf \<Rightarrow> False
      | NInf \<Rightarrow> y \<noteq> NaN \<and> y \<noteq> NInf
      | Fin a \<Rightarrow> (case y of NaN \<Rightarrow> False | PInf \<Rightarrow> True | NInf \<Rightarrow> False | Fin b \<Rightarrow> a < b))"

instance ..

end

definition f64_min :: "f64 \<Rightarrow> f64 \<Rightarrow> f64" where
  "f64_min x y = (if x = NInf \<or> y = NInf then NInf else if x = NaN \<or> y = NaN then NaN
                  else if x < y then x else y)"

definition f64_halve :: "f64 \<Rightarrow> f64" where
  "f64_halve x = (case x of Fin q \<Rightarrow> f64_round (q / 2) | y \<Rightarrow> y)"

text \<open>\<open>math.Pow10(-n)\<close> for the small \<open>n\<close> of the currency tables.\<close>

definition f64_pow10_neg :: "nat \<Rightarrow> f64" where
  "f64_pow10_neg n = f64_round (1 / 10 ^ n)"

section \<open>The rounding error\<close>

lemma pow2_pos [simp]: "0 < pow2 e"
  by (simp add: pow2_def)

lemma pow2_nonneg [simp]: "0 \<le> pow2 e"
  using pow2_pos [of e] by linarith

lemma pow2_Suc: "pow2 (e + 1) = 2 * pow2 e"
proof (cases "0 \<le> e")
  case True
  then show ?thesis by (simp add: pow2_def nat_add_distrib)
next
  case False
  show ?thesis
  proof (cases "e = - 1")
    case True
    then show ?thesis by (simp add: pow2_def)
  next
    case neq: False
    with False have "nat (- e) = Suc (nat (- (e + 1)))" by linarith
    with False neq show ?thesis by (simp add: pow2_def)
  qed
qed

lemma pow2_add_nat: "pow2 (e + int k) = 2 ^ k * pow2 e"
proof (induction k)
  case (Suc k)
  have "pow2 (e + int (Suc k)) = pow2 ((e + int k) + 1)" by (simp add: algebra_simps)
  then show ?case by (simp add: pow2_Suc Suc)
qed simp

lemma round_half_even_error: "\<bar>of_int (round_half_even q) - q\<bar> \<le> 1 / 2"
proof -
  have "0 \<le> q - of_int \<lfloor>q\<rfloor>" "q - of_int \<lfloor>q\<rfloor> < 1" by linarith+
  then show ?thesis
    by (auto simp: round_half_even_def Let_def abs_le_iff split: if_splits)
qed

lemma round_half_even_int [simp]: "round_half_even (of_int i) = i"
  by (simp add: round_half_even_def)

lemma bits_bounds: "0 < n \<Longrightarrow> 2 ^ (bits n - 1) \<le> n \<and> n < 2 ^ bits n \<and> 0 < bits n"
proof (induction n rule: bits.induct)
  case (1 n)
  show ?case
  proof (cases "n = 1")
    case True
    then show ?thesis by (simp add: bits.simps [of "Suc 0"] bits.simps [of 0])
  next
    case False
    with 1 have IH: "2 ^ (bits (n div 2) - 1) \<le> n div 2" "n div 2 < 2 ^ bits (n div 2)" "0 < bits (n div 2)"
      by auto
    have b: "bits n = Suc (bits (n div 2))" using 1 by (simp add: bits.simps [of n])
    have "2 ^ bits (n div 2) = 2 * 2 ^ (bits (n div 2) - 1 :: nat)"
      using IH(3) by (cases "bits (n div 2)") simp_all
    also have "\<dots> \<le> (n :: nat)" using IH(1) by linarith
    finally have lo: "2 ^ bits (n div 2) \<le> n" .
    have "n < 2 * 2 ^ bits (n div 2)" using IH(2) by linarith
    with lo show ?thesis by (simp add: b)
  qed
qed

lemma pow2_bits:
  assumes "0 < n"
  shows "pow2 (int (bits n) - 1) \<le> of_nat n" and "of_nat n < pow2 (int (bits n))"
proof -
  from bits_bounds [OF assms] have lo: "2 ^ (bits n - 1) \<le> n" and hi: "n < 2 ^ bits n" and p: "0 < bits n"
    by auto
  from p have "int (bits n) - 1 = int (bits n - 1)" by simp
  then have "pow2 (int (bits n) - 1) = of_nat (2 ^ (bits n - 1))"
    using p by (simp add: pow2_def)
  also have "\<dots> \<le> of_nat n" using lo of_nat_le_iff by blast
  finally show "pow2 (int (bits n) - 1) \<le> of_nat n" .
  have "(of_nat n :: rat) < of_nat (2 ^ bits n)" using hi of_nat_less_iff by blast
  then show "of_nat n < pow2 (int (bits n))" by (simp add: pow2_def)
qed

lemma pow2_mult: "pow2 (a + b) = pow2 a * pow2 b"
proof -
  have nonneg: "pow2 (a + b) = pow2 a * pow2 b" if "0 \<le> b" for a b
    using pow2_add_nat [of a "nat b"] that by (simp add: pow2_def)
  show ?thesis
  proof (cases "0 \<le> b")
    case False
    have "pow2 a = pow2 (a + b) * pow2 (- b)" using nonneg [of "- b" "a + b"] False by simp
    moreover have "pow2 b * pow2 (- b) = 1" using False by (simp add: pow2_def)
    ultimately show ?thesis by (metis mult.assoc mult.commute mult.right_neutral)
  qed (rule nonneg)
qed

lemma exponent_le:
  assumes "0 < q"
  shows "pow2 (exponent q) \<le> q"
proof -
  obtain n d where nd: "quotient_of q = (n, d)" by (cases "quotient_of q")
  then have q: "q = of_int n / of_int d" and d: "0 < d"
    by (simp_all add: quotient_of_div quotient_of_denom_pos)
  with assms have n: "0 < n" by (simp add: zero_less_divide_iff)
  define N where "N = nat n"
  define D where "D = nat d"
  have q': "q = of_nat N / of_nat D" using q n d by (simp add: N_def D_def)
  have N: "0 < N" and D: "0 < D" using n d by (simp_all add: N_def D_def)
  let ?e = "int (bits N) - int (bits D)"
  have "pow2 (?e - 1) * of_nat D \<le> pow2 (?e - 1) * pow2 (int (bits D))"
    using pow2_bits(2) [OF D] by (intro mult_left_mono) simp_all
  also have "\<dots> = pow2 (int (bits N) - 1)" by (simp flip: pow2_mult)
  also have "\<dots> \<le> of_nat N" by (rule pow2_bits(1) [OF N])
  finally have "pow2 (?e - 1) \<le> q" using D by (simp add: q' field_simps)
  then show ?thesis by (simp add: exponent_def nd Let_def flip: N_def D_def)
qed

lemma round_pos_error:
  assumes "0 < q" and "- 1022 \<le> exponent q"
  shows "\<bar>round_pos q - q\<bar> \<le> q / 2 ^ 53"
proof -
  define u where "u = pow2 (exponent q - 52)"
  have u: "0 < u" by (simp add: u_def)
  have e: "2 ^ 52 * u = pow2 (exponent q)"
    using pow2_add_nat [of "exponent q - 52" 52] by (simp add: u_def)
  have r: "round_pos q = of_int (round_half_even (q / u)) * u"
    using assms(2) by (simp add: round_pos_def u_def max_absorb1 Let_def)
  have "\<bar>round_pos q - q\<bar> = \<bar>(of_int (round_half_even (q / u)) - q / u) * u\<bar>"
    using u by (simp add: r left_diff_distrib)
  also have "\<dots> = \<bar>of_int (round_half_even (q / u)) - q / u\<bar> * u"
    using u by (simp add: abs_mult)
  also have "\<dots> \<le> 1 / 2 * u"
    using u round_half_even_error by (intro mult_right_mono) simp_all
  also have "\<dots> \<le> q / 2 ^ 53"
    using exponent_le [OF assms(1)] e by (simp add: field_simps)
  finally show ?thesis .
qed

lemma f64_minus_self [simp]: "Fin q - Fin q = Fin 0"
  by (simp add: minus_f64_def f64_round_def)

lemma f64_less_irrefl [simp]: "\<not> (x :: f64) < x"
  by (cases x) (simp_all add: less_f64_def)

lemma f64_Fin_less [simp]: "Fin a < Fin b \<longleftrightarrow> a < b" "Fin a \<le> Fin b \<longleftrightarrow> a \<le> b"
  by (simp_all add: less_f64_def less_eq_f64_def)

end
