(* ===== verification/Payment_Rules.thy ===== *)
theory Payment_Rules
  imports Go_Text Go_Float
begin

text \<open>
  The data of the payment service and the decisions it takes without touching the order's state:
  payment types, currencies and amount tolerances (internal/payment), the provider snapshot of an
  order and the checks of a provider's metadata against it (payment_order_provider_snapshot.go),
  which provider instance an order belongs to (payment_refund.go), the references and keys of
  notifications (payment_fulfillment.go, payment_order_lifecycle.go).
\<close>

named_theorems payment_defs \<open>definitions of the pure payment rules\<close>

section \<open>The order\<close>

datatype order_status =
    PENDING | PAID | RECHARGING | COMPLETED | EXPIRED | CANCELLED | FAILED
  | REFUND_REQUESTED | REFUNDING | PARTIALLY_REFUNDED | REFUNDED | REFUND_FAILED

text \<open>A value of the JSON column \<open>provider_snapshot\<close> (Go's \<open>any\<close>), as far as the code looks at it.\<close>

datatype any_value = AnyString string | AnyInt int | AnyFloat f64 | AnyOther

record PaymentOrder =
  o_ID :: int
  o_UserID :: int
  o_Amount :: f64
  o_PayAmount :: f64
  o_RechargeCode :: string
  o_OutTradeNo :: string
  o_PaymentType :: string
  o_PaymentTradeNo :: string
  o_OrderType :: string
  o_PlanID :: "int option"
  o_SubscriptionGroupID :: "int option"
  o_SubscriptionDays :: "int option"
  o_ProviderInstanceID :: "string option"
  o_ProviderKey :: "string option"
  o_ProviderSnapshot :: "(string \<times> any_value) list"
  o_Status :: order_status
  o_RefundAmount :: f64
  o_RefundReason :: "string option"
  o_RefundAt :: "int option"
  o_ForceRefund :: bool
  o_RefundRequestedAt :: "int option"
  o_RefundRequestReason :: "string option"
  o_RefundRequestedBy :: "string option"
  o_ExpiresAt :: int
  o_PaidAt :: "int option"
  o_CompletedAt :: "int option"
  o_FailedAt :: "int option"
  o_FailedReason :: "string option"
  o_UpdatedAt :: int

record PaymentProviderInstance =
  pi_ID :: int
  pi_ProviderKey :: string
  pi_SupportedTypes :: string
  pi_PaymentMode :: string
  pi_RefundEnabled :: bool
  pi_AllowUserRefund :: bool

record paymentOrderProviderSnapshot =
  sn_SchemaVersion :: int
  sn_ProviderInstanceID :: string
  sn_ProviderKey :: string
  sn_PaymentMode :: string
  sn_MerchantAppID :: string
  sn_MerchantID :: string
  sn_Currency :: string

definition str_or_empty :: "string option \<Rightarrow> string" where
  "str_or_empty s = (case s of None \<Rightarrow> [] | Some v \<Rightarrow> v)"

abbreviation psStringValue :: "string option \<Rightarrow> string" where
  "psStringValue \<equiv> str_or_empty"

definition psIsRefundStatus :: "order_status \<Rightarrow> bool" where
  "psIsRefundStatus s \<longleftrightarrow>
     s \<in> {REFUND_REQUESTED, REFUNDING, PARTIALLY_REFUNDED, REFUNDED, REFUND_FAILED}"

section \<open>Payment types\<close>

abbreviation TypeAlipay :: string where "TypeAlipay \<equiv> ''alipay''"
abbreviation TypeWxpay :: string where "TypeWxpay \<equiv> ''wxpay''"
abbreviation TypeAlipayDirect :: string where "TypeAlipayDirect \<equiv> ''alipay_direct''"
abbreviation TypeWxpayDirect :: string where "TypeWxpayDirect \<equiv> ''wxpay_direct''"
abbreviation TypeStripe :: string where "TypeStripe \<equiv> ''stripe''"
abbreviation TypeCard :: string where "TypeCard \<equiv> ''card''"
abbreviation TypeLink :: string where "TypeLink \<equiv> ''link''"
abbreviation TypeEasyPay :: string where "TypeEasyPay \<equiv> ''easypay''"
abbreviation TypeAirwallex :: string where "TypeAirwallex \<equiv> ''airwallex''"

definition GetBasePaymentType :: "string \<Rightarrow> string" where
  "GetBasePaymentType t =
     (if t = TypeEasyPay then TypeEasyPay
      else if t = TypeAirwallex then TypeAirwallex
      else if t = TypeStripe \<or> t = TypeCard \<or> t = TypeLink then TypeStripe
      else if go_HasPrefix t TypeAlipay then TypeAlipay
      else if go_HasPrefix t TypeWxpay then TypeWxpay
      else t)"

definition normalizeVisibleMethodSupportType :: "string \<Rightarrow> string" where
  "normalizeVisibleMethodSupportType paymentType =
     (let t = go_TrimSpace paymentType
      in if t = TypeAlipay \<or> t = TypeAlipayDirect then TypeAlipay
         else if t = TypeWxpay \<or> t = TypeWxpayDirect then TypeWxpay
         else t)"

definition InstanceSupportsType :: "string \<Rightarrow> string \<Rightarrow> bool" where
  "InstanceSupportsType supportedTypes target =
     (if supportedTypes = [] then True
      else list_ex (\<lambda>t. let supported = go_TrimSpace t
                        in supported = target \<or>
                           normalizeVisibleMethodSupportType supported =
                             normalizeVisibleMethodSupportType target)
             (go_SplitByte (CHR '','') supportedTypes))"

section \<open>Currencies and amounts\<close>

definition DefaultPaymentCurrency :: string where
  "DefaultPaymentCurrency = ''CNY''"

record paymentCurrencyAmountUnit =
  apiMinorUnit :: nat
  maxFractionDigits :: nat

definition zeroDecimalAmountUnit :: paymentCurrencyAmountUnit where
  "zeroDecimalAmountUnit = \<lparr>apiMinorUnit = 0, maxFractionDigits = 0\<rparr>"
definition twoDecimalAmountUnit :: paymentCurrencyAmountUnit where
  "twoDecimalAmountUnit = \<lparr>apiMinorUnit = 2, maxFractionDigits = 2\<rparr>"
definition threeDecimalAmountUnit :: paymentCurrencyAmountUnit where
  "threeDecimalAmountUnit = \<lparr>apiMinorUnit = 3, maxFractionDigits = 3\<rparr>"
definition stripeLegacyZeroAmount :: paymentCurrencyAmountUnit where
  "stripeLegacyZeroAmount = \<lparr>apiMinorUnit = 2, maxFractionDigits = 0\<rparr>"

definition paymentCurrencyAmountUnits :: "(string \<times> paymentCurrencyAmountUnit) list" where
  "paymentCurrencyAmountUnits =
     map (\<lambda>c. (c, zeroDecimalAmountUnit))
       [''BIF'', ''CLP'', ''DJF'', ''GNF'', ''JPY'', ''KMF'', ''KRW'', ''MGA'', ''PYG'', ''RWF'',
        ''VND'', ''VUV'', ''XAF'', ''XOF'', ''XPF'']
     @ map (\<lambda>c. (c, stripeLegacyZeroAmount)) [''ISK'', ''UGX'']
     @ map (\<lambda>c. (c, threeDecimalAmountUnit)) [''BHD'', ''IQD'', ''JOD'', ''KWD'', ''LYD'', ''OMR'', ''TND'']"

definition NormalizePaymentCurrency :: "string \<Rightarrow> string option" where
  "NormalizePaymentCurrency raw =
     (let currency = go_ToUpper (go_TrimSpace raw)
      in if currency = [] then Some DefaultPaymentCurrency
         else if length currency \<noteq> 3 then None
         else if list_all ascii_upper currency then Some currency
         else None)"

definition paymentCurrencyAmountUnitFor :: "string \<Rightarrow> paymentCurrencyAmountUnit" where
  "paymentCurrencyAmountUnitFor currency =
     (case NormalizePaymentCurrency currency of
        None \<Rightarrow> twoDecimalAmountUnit
      | Some normalized \<Rightarrow>
          (case map_of paymentCurrencyAmountUnits normalized of
             Some amountUnit \<Rightarrow> amountUnit
           | None \<Rightarrow> twoDecimalAmountUnit))"

definition CurrencyMinorUnit :: "string \<Rightarrow> nat" where
  "CurrencyMinorUnit currency = apiMinorUnit (paymentCurrencyAmountUnitFor currency)"

definition CurrencyMaxFractionDigits :: "string \<Rightarrow> nat" where
  "CurrencyMaxFractionDigits currency = maxFractionDigits (paymentCurrencyAmountUnitFor currency)"

definition amountToleranceCNY :: f64 where
  "amountToleranceCNY = f64_round (1 / 100)"

definition paymentAmountToleranceForCurrency :: "string \<Rightarrow> f64" where
  "paymentAmountToleranceForCurrency currency =
     (let minorUnit = CurrencyMinorUnit currency
      in if minorUnit \<le> 2 then amountToleranceCNY else f64_halve (f64_pow10_neg minorUnit))"

definition isValidProviderAmount :: "f64 \<Rightarrow> bool" where
  "isValidProviderAmount amount \<longleftrightarrow>
     Fin 0 < amount \<and> amount \<noteq> NaN \<and> \<not> (amount = PInf \<or> amount = NInf)"

text \<open>
  The decimal arithmetic of \<open>github.com/shopspring/decimal\<close>, a third-party package, is a
  parameter: the conversion of a float, the operations and the conversion back.
\<close>

record 'd decimal_ops =
  NewFromFloat :: "f64 \<Rightarrow> 'd"
  dMul :: "'d \<Rightarrow> 'd \<Rightarrow> 'd"
  dDiv :: "'d \<Rightarrow> 'd \<Rightarrow> 'd"
  dRound :: "'d \<Rightarrow> nat \<Rightarrow> 'd"
  InexactFloat64 :: "'d \<Rightarrow> f64"

definition calculateGatewayRefundAmount ::
    "'d decimal_ops \<Rightarrow> f64 \<Rightarrow> f64 \<Rightarrow> f64 \<Rightarrow> string \<Rightarrow> f64" where
  "calculateGatewayRefundAmount dec orderAmount payAmount refundAmount currency =
     (if orderAmount \<le> Fin 0 \<or> payAmount \<le> Fin 0 \<or> refundAmount \<le> Fin 0 then Fin 0
      else
        let fractionDigits = CurrencyMaxFractionDigits currency
        in if \<bar>refundAmount - orderAmount\<bar> \<le> paymentAmountToleranceForCurrency currency
           then InexactFloat64 dec (dRound dec (NewFromFloat dec payAmount) fractionDigits)
           else InexactFloat64 dec
                  (dRound dec
                    (dDiv dec (dMul dec (NewFromFloat dec payAmount) (NewFromFloat dec refundAmount))
                      (NewFromFloat dec orderAmount))
                    fractionDigits))"

definition normalizeBalanceRechargeMultiplier :: "f64 \<Rightarrow> f64" where
  "normalizeBalanceRechargeMultiplier multiplier =
     (if multiplier = NaN \<or> (multiplier = PInf \<or> multiplier = NInf) \<or> multiplier \<le> Fin 0 then Fin 1
      else multiplier)"

definition calculateCreditedBalance :: "'d decimal_ops \<Rightarrow> f64 \<Rightarrow> f64 \<Rightarrow> f64" where
  "calculateCreditedBalance dec paymentAmount multiplier =
     InexactFloat64 dec
       (dRound dec
         (dMul dec (NewFromFloat dec paymentAmount)
           (NewFromFloat dec (normalizeBalanceRechargeMultiplier multiplier)))
         2)"

section \<open>The provider snapshot\<close>

definition psSnapshotStringValue :: "any_value option \<Rightarrow> string" where
  "psSnapshotStringValue value = (case value of Some (AnyString typed) \<Rightarrow> go_TrimSpace typed | _ \<Rightarrow> [])"

text \<open>Conversion of a float to \<open>int\<close>: toward zero; out of range (and NaN) gives the least integer.\<close>

definition f64_to_int :: "f64 \<Rightarrow> int" where
  "f64_to_int x = (case x of
     Fin q \<Rightarrow> (let i = (if q < 0 then - \<lfloor>- q\<rfloor> else \<lfloor>q\<rfloor>)
              in if - (2 ^ 63) \<le> i \<and> i < 2 ^ 63 then i else - (2 ^ 63))
   | _ \<Rightarrow> - (2 ^ 63))"

definition psSnapshotIntValue :: "any_value option \<Rightarrow> int" where
  "psSnapshotIntValue value =
     (case value of
        Some (AnyInt typed) \<Rightarrow> typed
      | Some (AnyFloat typed) \<Rightarrow> f64_to_int typed
      | Some (AnyString typed) \<Rightarrow> (case go_ParseInt (go_TrimSpace typed) of Some n \<Rightarrow> n | None \<Rightarrow> 0)
      | _ \<Rightarrow> 0)"

definition psOrderProviderSnapshot :: "PaymentOrder \<Rightarrow> paymentOrderProviderSnapshot option" where
  "psOrderProviderSnapshot order =
     (if o_ProviderSnapshot order = [] then None
      else
        let get = map_of (o_ProviderSnapshot order);
            snapshot = \<lparr>
              sn_SchemaVersion = psSnapshotIntValue (get ''schema_version''),
              sn_ProviderInstanceID = psSnapshotStringValue (get ''provider_instance_id''),
              sn_ProviderKey = psSnapshotStringValue (get ''provider_key''),
              sn_PaymentMode = psSnapshotStringValue (get ''payment_mode''),
              sn_MerchantAppID = psSnapshotStringValue (get ''merchant_app_id''),
              sn_MerchantID = psSnapshotStringValue (get ''merchant_id''),
              sn_Currency = psSnapshotStringValue (get ''currency'')\<rparr>
        in if sn_SchemaVersion snapshot = 0 \<and> sn_ProviderInstanceID snapshot = [] \<and>
              sn_ProviderKey snapshot = [] \<and> sn_PaymentMode snapshot = [] \<and>
              sn_MerchantAppID snapshot = [] \<and> sn_MerchantID snapshot = [] \<and>
              sn_Currency snapshot = []
           then None else Some snapshot)"

definition PaymentOrderCurrency :: "PaymentOrder \<Rightarrow> string" where
  "PaymentOrderCurrency order =
     (case psOrderProviderSnapshot order of
        Some snapshot \<Rightarrow>
          (case NormalizePaymentCurrency (sn_Currency snapshot) of
             Some currency \<Rightarrow> currency
           | None \<Rightarrow> DefaultPaymentCurrency)
      | None \<Rightarrow> DefaultPaymentCurrency)"

section \<open>Checking a provider's metadata\<close>

type_synonym metadata = "(string \<times> string) list"

definition meta :: "metadata \<Rightarrow> string \<Rightarrow> string" where
  "meta m k = str_or_empty (map_of m k)"

fun first_error :: "string option list \<Rightarrow> string option" where
  "first_error [] = None"
| "first_error (Some e # es) = Some e"
| "first_error (None # es) = first_error es"

text \<open>
  One check: when the snapshot holds the value, the metadata must hold it too and the two must be
  equal up to case.
\<close>

definition require_match :: "string \<Rightarrow> string \<Rightarrow> string \<Rightarrow> string \<Rightarrow> string option" where
  "require_match expected actual missing mismatch =
     (if expected \<noteq> [] then
        if actual = [] then Some missing
        else if \<not> go_EqualFold expected actual
        then Some (mismatch @ '' mismatch: expected '' @ expected @ '', got '' @ actual)
        else None
      else None)"

definition require_state :: "string \<Rightarrow> string \<Rightarrow> string \<Rightarrow> string option" where
  "require_state actual wanted what =
     (if actual \<noteq> [] \<and> \<not> go_EqualFold actual wanted
      then Some (what @ '' mismatch: expected '' @ wanted @ '', got '' @ actual) else None)"

definition validateProviderSnapshotMetadata :: "PaymentOrder \<Rightarrow> string \<Rightarrow> metadata \<Rightarrow> string option" where
  "validateProviderSnapshotMetadata order providerKey metadata =
     (if metadata = [] then None
      else case psOrderProviderSnapshot order of
        None \<Rightarrow> None
      | Some snapshot \<Rightarrow>
          (let key = go_TrimSpace providerKey;
               trimmed = (\<lambda>k. go_TrimSpace (meta metadata k));
               upper = (\<lambda>k. go_ToUpper (go_TrimSpace (meta metadata k)))
           in if key = TypeWxpay then first_error
                [require_match (go_TrimSpace (sn_MerchantAppID snapshot)) (trimmed ''appid'')
                   ''wxpay notification missing appid'' ''wxpay appid'',
                 require_match (go_TrimSpace (sn_MerchantID snapshot)) (trimmed ''mchid'')
                   ''wxpay notification missing mchid'' ''wxpay mchid'',
                 require_match (go_TrimSpace (sn_Currency snapshot)) (upper ''currency'')
                   ''wxpay notification missing currency'' ''wxpay currency'',
                 require_state (trimmed ''trade_state'') ''SUCCESS'' ''wxpay trade_state'']
              else if key = TypeAlipay then
                require_match (go_TrimSpace (sn_MerchantAppID snapshot)) (trimmed ''app_id'')
                  ''alipay app_id missing'' ''alipay app_id''
              else if key = TypeEasyPay then
                require_match (go_TrimSpace (sn_MerchantID snapshot)) (trimmed ''pid'')
                  ''easypay pid missing'' ''easypay pid''
              else if key = TypeStripe then
                require_match (go_TrimSpace (sn_Currency snapshot)) (upper ''currency'')
                  ''stripe notification missing currency'' ''stripe currency''
              else if key = TypeAirwallex then first_error
                [require_match (go_TrimSpace (sn_MerchantID snapshot)) (trimmed ''account_id'')
                   ''airwallex account_id missing'' ''airwallex account_id'',
                 require_match (go_TrimSpace (sn_Currency snapshot)) (upper ''currency'')
                   ''airwallex notification missing currency'' ''airwallex currency'',
                 require_state (trimmed ''status'') ''SUCCEEDED'' ''airwallex status'']
              else None))"

abbreviation validateProviderNotificationMetadata :: "PaymentOrder \<Rightarrow> string \<Rightarrow> metadata \<Rightarrow> string option" where
  "validateProviderNotificationMetadata \<equiv> validateProviderSnapshotMetadata"

section \<open>Which provider an order belongs to\<close>

text \<open>The registry of configured providers: the provider key of a payment type, empty when none.\<close>

type_synonym registry = "string \<Rightarrow> string"

definition expectedNotificationProviderKey :: "registry option \<Rightarrow> string \<Rightarrow> string \<Rightarrow> string \<Rightarrow> string" where
  "expectedNotificationProviderKey registry orderPaymentType orderProviderKey instanceProviderKey =
     (if go_TrimSpace instanceProviderKey \<noteq> [] then go_TrimSpace instanceProviderKey
      else if go_TrimSpace orderProviderKey \<noteq> [] then go_TrimSpace orderProviderKey
      else case registry of
        Some r \<Rightarrow> (if go_TrimSpace (r orderPaymentType) \<noteq> [] then go_TrimSpace (r orderPaymentType)
                   else go_TrimSpace orderPaymentType)
      | None \<Rightarrow> go_TrimSpace orderPaymentType)"

definition expectedNotificationProviderKeyForOrder :: "registry option \<Rightarrow> PaymentOrder \<Rightarrow> string \<Rightarrow> string" where
  "expectedNotificationProviderKeyForOrder registry order instanceProviderKey =
     (let orderProviderKey =
        (case psOrderProviderSnapshot order of
           Some snapshot \<Rightarrow> if sn_ProviderKey snapshot \<noteq> [] then sn_ProviderKey snapshot
                            else psStringValue (o_ProviderKey order)
         | None \<Rightarrow> psStringValue (o_ProviderKey order))
      in expectedNotificationProviderKey registry (o_PaymentType order) orderProviderKey instanceProviderKey)"

text \<open>
  The table of provider instances as a query sees it: a row, no row, or a failing database. The
  list is the result of a query for all rows, \<open>None\<close> when it fails.
\<close>

datatype 'a lookup = Found 'a | Missing | LookupFailed string

record instance_db =
  db_get :: "int \<Rightarrow> PaymentProviderInstance lookup"
  db_all :: "PaymentProviderInstance list option"

type_synonym 'a instance_result = "string + 'a"

definition resolveSnapshotOrderProviderInstance ::
    "instance_db \<Rightarrow> PaymentOrder \<Rightarrow> paymentOrderProviderSnapshot \<Rightarrow> PaymentProviderInstance option instance_result" where
  "resolveSnapshotOrderProviderInstance db order snapshot =
     (let columnInstanceID = go_TrimSpace (psStringValue (o_ProviderInstanceID order));
          snapshotInstanceID =
            (if go_TrimSpace (sn_ProviderInstanceID snapshot) = [] then columnInstanceID
             else go_TrimSpace (sn_ProviderInstanceID snapshot));
          oid = go_FormatInt (o_ID order)
      in if snapshotInstanceID = []
         then Inl (''order '' @ oid @ '' provider snapshot is missing provider_instance_id'')
         else if columnInstanceID \<noteq> [] \<and> sn_ProviderInstanceID snapshot \<noteq> [] \<and>
                 \<not> go_EqualFold columnInstanceID (sn_ProviderInstanceID snapshot)
         then Inl (''order '' @ oid @ '' provider snapshot instance mismatch: snapshot='' @
                   sn_ProviderInstanceID snapshot @ '' order='' @ columnInstanceID)
         else case go_ParseInt snapshotInstanceID of
           None \<Rightarrow> Inl (''order '' @ oid @ '' provider snapshot instance id is invalid: '' @ snapshotInstanceID)
         | Some instID \<Rightarrow>
             (case db_get db instID of
                Missing \<Rightarrow> Inl (''order '' @ oid @ '' provider snapshot instance '' @ snapshotInstanceID @ '' is missing'')
              | LookupFailed e \<Rightarrow> Inl e
              | Found inst \<Rightarrow>
                  if sn_ProviderKey snapshot \<noteq> [] \<and>
                     \<not> go_EqualFold (go_TrimSpace (pi_ProviderKey inst)) (sn_ProviderKey snapshot)
                  then Inl (''order '' @ oid @ '' provider snapshot key mismatch: snapshot='' @
                            sn_ProviderKey snapshot @ '' instance='' @ pi_ProviderKey inst)
                  else Inr (Some inst)))"

definition psLegacyOrderMatchesInstance :: "string \<Rightarrow> PaymentProviderInstance \<Rightarrow> bool" where
  "psLegacyOrderMatchesInstance orderPaymentType inst =
     (let baseType = GetBasePaymentType (go_TrimSpace orderPaymentType);
          instanceProviderKey = go_TrimSpace (pi_ProviderKey inst)
      in if baseType = [] then False
         else if baseType = TypeStripe then instanceProviderKey = TypeStripe
         else if instanceProviderKey = TypeStripe then False
         else if instanceProviderKey = baseType then True
         else InstanceSupportsType (pi_SupportedTypes inst) baseType)"

definition psFilterLegacyOrderProviderInstances ::
    "string \<Rightarrow> PaymentProviderInstance list \<Rightarrow> PaymentProviderInstance list" where
  "psFilterLegacyOrderProviderInstances orderPaymentType instances =
     (if instances = [] then []
      else if go_TrimSpace orderPaymentType = [] then instances
      else filter (psLegacyOrderMatchesInstance orderPaymentType) instances)"

definition the_unique :: "'a list \<Rightarrow> 'a option" where
  "the_unique xs = (case xs of [x] \<Rightarrow> Some x | _ \<Rightarrow> None)"

definition resolveUniqueLegacyOrderProviderInstance ::
    "instance_db \<Rightarrow> PaymentOrder \<Rightarrow> PaymentProviderInstance option instance_result" where
  "resolveUniqueLegacyOrderProviderInstance db order =
     (let paymentType = GetBasePaymentType (go_TrimSpace (o_PaymentType order));
          providerKey = go_TrimSpace (psStringValue (o_ProviderKey order))
      in if providerKey \<noteq> [] then
           (case db_all db of
              None \<Rightarrow> Inl ''query provider instances''
            | Some instances \<Rightarrow>
                Inr (the_unique (psFilterLegacyOrderProviderInstances paymentType
                  (filter (\<lambda>i. pi_ProviderKey i = providerKey) instances))))
         else if paymentType = [] then Inr None
         else (case db_all db of
                 None \<Rightarrow> Inl ''query provider instances''
               | Some instances \<Rightarrow> Inr (the_unique (psFilterLegacyOrderProviderInstances paymentType instances))))"

definition getOrderProviderInstance ::
    "instance_db \<Rightarrow> PaymentOrder \<Rightarrow> PaymentProviderInstance option instance_result" where
  "getOrderProviderInstance db order =
     (case psOrderProviderSnapshot order of
        Some snapshot \<Rightarrow> resolveSnapshotOrderProviderInstance db order snapshot
      | None \<Rightarrow>
          (let instIDStr = go_TrimSpace (psStringValue (o_ProviderInstanceID order))
           in if instIDStr = [] then resolveUniqueLegacyOrderProviderInstance db order
              else (case go_ParseInt instIDStr of
                      None \<Rightarrow> Inr None
                    | Some instID \<Rightarrow>
                        (case db_get db instID of
                           Found inst \<Rightarrow> Inr (Some inst)
                         | Missing \<Rightarrow> Inl ''payment_provider_instance not found''
                         | LookupFailed e \<Rightarrow> Inl e))))"

definition getRefundOrderProviderInstance ::
    "instance_db \<Rightarrow> PaymentOrder \<Rightarrow> PaymentProviderInstance option instance_result" where
  "getRefundOrderProviderInstance db order =
     (case psOrderProviderSnapshot order of
        Some snapshot \<Rightarrow> resolveSnapshotOrderProviderInstance db order snapshot
      | None \<Rightarrow>
          (let instIDStr = go_TrimSpace (psStringValue (o_ProviderInstanceID order));
               oid = go_FormatInt (o_ID order)
           in if instIDStr = [] then Inr None
              else (case go_ParseInt instIDStr of
                      None \<Rightarrow> Inl (''order '' @ oid @ '' refund provider instance id is invalid: '' @ instIDStr)
                    | Some instID \<Rightarrow>
                        (case db_get db instID of
                           Found inst \<Rightarrow> Inr (Some inst)
                         | Missing \<Rightarrow> Inl (''order '' @ oid @ '' refund provider instance '' @ instIDStr @ '' is missing'')
                         | LookupFailed e \<Rightarrow> Inl e))))"

definition paymentOrderAllowsRegistryFallback :: "PaymentOrder \<Rightarrow> bool" where
  "paymentOrderAllowsRegistryFallback order =
     (if psOrderProviderSnapshot order \<noteq> None then False
      else if go_TrimSpace (psStringValue (o_ProviderInstanceID order)) \<noteq> [] then False
      else if go_TrimSpace (psStringValue (o_ProviderKey order)) \<noteq> [] then False
      else True)"

definition paymentOrderFallbackProviderKey :: "registry option \<Rightarrow> PaymentOrder \<Rightarrow> string" where
  "paymentOrderFallbackProviderKey registry order =
     (case registry of
        Some r \<Rightarrow> (if go_TrimSpace (r (o_PaymentType order)) \<noteq> [] then go_TrimSpace (r (o_PaymentType order))
                   else go_TrimSpace (GetBasePaymentType (go_TrimSpace (o_PaymentType order))))
      | None \<Rightarrow> go_TrimSpace (GetBasePaymentType (go_TrimSpace (o_PaymentType order))))"

section \<open>References of an order\<close>

definition paymentOrderQueryReference :: "PaymentOrder \<Rightarrow> string option \<Rightarrow> string" where
  "paymentOrderQueryReference order provKey =
     (let k1 = go_TrimSpace (str_or_empty provKey);
          k2 = (if k1 = [] then (case psOrderProviderSnapshot order of
                   Some snapshot \<Rightarrow> go_TrimSpace (sn_ProviderKey snapshot) | None \<Rightarrow> k1) else k1);
          k3 = (if k2 = [] then go_TrimSpace (psStringValue (o_ProviderKey order)) else k2);
          providerKey = (if k3 = [] then go_TrimSpace (o_PaymentType order) else k3)
      in if GetBasePaymentType providerKey \<in> {TypeAlipay, TypeEasyPay, TypeWxpay}
         then go_TrimSpace (o_OutTradeNo order)
         else if go_TrimSpace (o_PaymentTradeNo order) \<noteq> [] then go_TrimSpace (o_PaymentTradeNo order)
         else go_TrimSpace (o_OutTradeNo order))"

definition paymentOrderShouldPersistUpstreamTradeNo :: "string \<Rightarrow> string \<Rightarrow> string \<Rightarrow> bool" where
  "paymentOrderShouldPersistUpstreamTradeNo queryRef upstreamTradeNo currentTradeNo =
     (let upstream = go_TrimSpace upstreamTradeNo
      in if upstream = [] then False
         else if go_EqualFold upstream (go_TrimSpace currentTradeNo) then False
         else if go_EqualFold upstream (go_TrimSpace queryRef) then False
         else True)"

definition order_ref_byte :: "char \<Rightarrow> bool" where
  "order_ref_byte c \<longleftrightarrow> ascii_lower c \<or> ascii_upper c \<or> ascii_digit c \<or> c = CHR ''_'' \<or> c = CHR ''-''"

definition normalizeOrderLookupOutTradeNo :: "string \<Rightarrow> string + string" where
  "normalizeOrderLookupOutTradeNo raw =
     (let outTradeNo = go_TrimSpace raw
      in if outTradeNo = [] then Inl ''out_trade_no is required''
         else if 64 < length outTradeNo then Inl ''out_trade_no is invalid''
         else if list_all order_ref_byte outTradeNo then Inr outTradeNo
         else Inl ''out_trade_no is invalid'')"

definition orderIDPrefix :: string where
  "orderIDPrefix = ''sub2_''"

definition generateRandomString :: "nat list \<Rightarrow> string" where
  "generateRandomString picks =
     map (\<lambda>i. ''abcdefghijklmnopqrstuvwxyzABCDEFGHIJKLMNOPQRSTUVWXYZ0123456789'' ! i) picks"

text \<open>\<open>date\<close> is the day as eight digits, \<open>picks\<close> the eight random indices into the alphabet.\<close>

definition generateOutTradeNo :: "string \<Rightarrow> nat list \<Rightarrow> string" where
  "generateOutTradeNo date picks = orderIDPrefix @ date @ generateRandomString picks"

definition parseLegacyPaymentOrderID :: "string \<Rightarrow> bool \<Rightarrow> int option" where
  "parseLegacyPaymentOrderID orderID lookupNotFound =
     (if \<not> lookupNotFound then None
      else
        let orderID = go_TrimSpace orderID
        in case go_CutPrefix orderID orderIDPrefix of
             None \<Rightarrow> None
           | Some trimmed \<Rightarrow>
               if trimmed = [] \<or> trimmed = orderID then None
               else (case go_ParseInt trimmed of
                       None \<Rightarrow> None
                     | Some oid \<Rightarrow> if oid \<le> 0 then None else Some oid))"

text \<open>The status of a refund as the provider reports it; \<open>None\<close> is no response. \<open>None\<close> result: accepted.\<close>

definition validateRefundProviderResponse :: "string option \<Rightarrow> string option" where
  "validateRefundProviderResponse resp =
     (case resp of
        None \<Rightarrow> Some ''payment refund response missing''
      | Some st \<Rightarrow>
          (let status = go_TrimSpace st
           in if status \<in> {''success'', ''refunded'', ''pending''} then None
              else if status = ''failed'' then Some (''payment refund failed: status '' @ status)
              else Some (''payment refund returned unknown status: '' @ status)))"

section \<open>The order marker in the notes of a subscription\<close>

definition codexPlusCommerceLegacyOrderNote :: "int \<Rightarrow> string" where
  "codexPlusCommerceLegacyOrderNote orderID = ''payment order '' @ go_FormatInt orderID"

definition codexOrderNote :: "int \<Rightarrow> string \<Rightarrow> string" where
  "codexOrderNote orderID plan = ''codexplus entitlement order '' @ go_FormatInt orderID @ '' plan '' @ plan"

text \<open>\<open>plan\<close> is the Codex++ plan of the entitlement, \<open>None\<close> when the order maps to none.\<close>

definition GrantNote :: "int \<Rightarrow> string option \<Rightarrow> string" where
  "GrantNote orderID plan =
     (case plan of
        None \<Rightarrow> codexPlusCommerceLegacyOrderNote orderID
      | Some p \<Rightarrow> if go_TrimSpace p = [] then codexPlusCommerceLegacyOrderNote orderID
                  else codexOrderNote orderID p)"

definition codexPlusCommerceSubscriptionHasOrderMarker :: "string \<Rightarrow> int \<Rightarrow> bool" where
  "codexPlusCommerceSubscriptionHasOrderMarker subNotes orderID =
     (if orderID \<le> 0 then False
      else
        let notes = go_ToLower subNotes
        in if notes = [] then False
           else go_Contains notes (go_ToLower (''payment order '' @ go_FormatInt orderID)) \<or>
                go_Contains notes (go_ToLower (''codexplus entitlement order '' @ go_FormatInt orderID)))"

section \<open>Currencies\<close>

lemma ascii_upper_bytes: "list_all ascii_upper s \<Longrightarrow> list_all token_byte s"
  by (induction s) (auto simp: token_byte_cases)

lemma NormalizePaymentCurrency_upper:
  assumes "list_all ascii_upper c" and "length c = 3"
  shows "NormalizePaymentCurrency c = Some c"
proof -
  have t: "list_all token_byte c" by (rule ascii_upper_bytes [OF assms(1)])
  have "map upper_byte c = c" using assms(1) by (induction c) (simp_all add: upper_byte_upper)
  then have "go_ToUpper (go_TrimSpace c) = c"
    by (simp add: go_TrimSpace_token [OF t] go_ToUpper_ascii [OF token_bytes_ascii [OF t]])
  with assms show ?thesis by (auto simp: NormalizePaymentCurrency_def Let_def)
qed

lemma NormalizePaymentCurrency_shape:
  assumes "NormalizePaymentCurrency raw = Some c"
  shows "list_all ascii_upper c" and "length c = 3"
proof -
  have "list_all ascii_upper DefaultPaymentCurrency \<and> length DefaultPaymentCurrency = 3"
    by (simp add: DefaultPaymentCurrency_def ascii_upper_def byte_def)
  with assms show "list_all ascii_upper c" and "length c = 3"
    by (auto simp: NormalizePaymentCurrency_def Let_def split: if_splits)
qed

text \<open>
  A currency that \<open>NormalizePaymentCurrency\<close> accepts comes out as three upper-case ASCII
  letters, and normalising it again changes nothing: what an order stores is compared in one form.
\<close>
theorem currency_normal_form:
  assumes "NormalizePaymentCurrency raw = Some c"
  shows "length c = 3 \<and> list_all ascii_upper c \<and> NormalizePaymentCurrency c = Some c"
  using NormalizePaymentCurrency_shape [OF assms] NormalizePaymentCurrency_upper by blast


lemma currency_sample_usd: "NormalizePaymentCurrency '' usd'' = Some ''USD''"
  by code_simp

theorem currency_normal_form_witness:
  "length ''USD'' = 3 \<and> list_all ascii_upper ''USD'' \<and> NormalizePaymentCurrency ''USD'' = Some ''USD''"
  by (rule currency_normal_form [OF currency_sample_usd])

section \<open>Order references\<close>

lemma token_byte_append: "list_all token_byte (s @ t) \<longleftrightarrow> list_all token_byte s \<and> list_all token_byte t"
  by (induction s) auto

lemma digits_token: "list_all ascii_digit s \<Longrightarrow> list_all token_byte s"
  by (induction s) (auto simp: token_byte_cases)

lemma orderIDPrefix_token: "list_all token_byte orderIDPrefix"
  by (simp add: orderIDPrefix_def token_byte_def byte_def)

text \<open>
  Legacy notifications: an order reference made of the prefix \<open>sub2_\<close> and the database id of an
  order parses back to that id when the current lookup found no order, and never when the lookup
  failed for another reason.
\<close>
theorem legacy_order_id_roundtrip:
  assumes "0 < n" and "n < 2 ^ 63"
  shows "parseLegacyPaymentOrderID (orderIDPrefix @ go_FormatInt n) True = Some n \<and>
    parseLegacyPaymentOrderID (orderIDPrefix @ go_FormatInt n) False = None"
proof -
  have f: "go_FormatInt n = nat_digits (nat n)" using assms by (simp add: go_FormatInt_def)
  then have "list_all token_byte (orderIDPrefix @ go_FormatInt n)"
    by (simp add: token_byte_append orderIDPrefix_token digits_token nat_digits_digits)
  then have t: "go_TrimSpace (orderIDPrefix @ go_FormatInt n) = orderIDPrefix @ go_FormatInt n"
    by (rule go_TrimSpace_token)
  have "orderIDPrefix \<noteq> []" by (simp add: orderIDPrefix_def)
  moreover have "go_FormatInt n \<noteq> []" by (simp add: f)
  moreover have "go_ParseInt (go_FormatInt n) = Some n" using assms by (simp add: go_ParseInt_FormatInt)
  ultimately show ?thesis
    using assms(1) by (simp add: parseLegacyPaymentOrderID_def t Let_def)
qed

theorem legacy_order_id_roundtrip_witness:
  "parseLegacyPaymentOrderID (orderIDPrefix @ go_FormatInt 42) True = Some 42 \<and>
    parseLegacyPaymentOrderID (orderIDPrefix @ go_FormatInt 42) False = None"
  by (rule legacy_order_id_roundtrip) simp_all

lemma order_ref_token: "list_all order_ref_byte s \<Longrightarrow> list_all token_byte s"
proof (induction s)
  case (Cons c s)
  have "token_byte c" if "order_ref_byte c"
    using that by (auto simp: order_ref_byte_def token_byte_cases) (simp_all add: token_byte_def byte_def)
  with Cons show ?case by simp
qed simp

lemma random_string_ref:
  assumes "list_all (\<lambda>i. i < 62) picks"
  shows "list_all order_ref_byte (generateRandomString picks)"
proof -
  let ?cs = "''abcdefghijklmnopqrstuvwxyzABCDEFGHIJKLMNOPQRSTUVWXYZ0123456789''"
  have all: "list_all order_ref_byte ?cs"
    by (simp add: order_ref_byte_def ascii_lower_def ascii_upper_def ascii_digit_def byte_def)
  have "length ?cs = 62" by simp
  with all have "order_ref_byte (?cs ! i)" if "i < 62" for i
    using that by (metis list_all_length)
  with assms show ?thesis
    unfolding generateRandomString_def by (induction picks) simp_all
qed

text \<open>
  Every order number the service generates can be looked up: \<open>normalizeOrderLookupOutTradeNo\<close>
  accepts it and returns it unchanged.
\<close>
theorem generated_number_lookup:
  assumes "list_all ascii_digit date" and "length date = 8"
    and "list_all (\<lambda>i. i < 62) picks" and "length picks = 8"
  shows "normalizeOrderLookupOutTradeNo (generateOutTradeNo date picks) = Inr (generateOutTradeNo date picks)"
proof -
  let ?s = "generateOutTradeNo date picks"
  have "list_all order_ref_byte orderIDPrefix"
    by (simp add: orderIDPrefix_def order_ref_byte_def ascii_lower_def ascii_upper_def ascii_digit_def byte_def)
  moreover have "list_all order_ref_byte date"
    using assms(1) by (induction date) (auto simp: order_ref_byte_def)
  ultimately have ref: "list_all order_ref_byte ?s"
    using random_string_ref [OF assms(3)] by (simp add: generateOutTradeNo_def)
  have "length ?s = 21" using assms by (simp add: generateOutTradeNo_def orderIDPrefix_def generateRandomString_def)
  with ref show ?thesis
    by (auto simp: normalizeOrderLookupOutTradeNo_def Let_def go_TrimSpace_token order_ref_token)
qed

theorem generated_number_lookup_witness:
  "normalizeOrderLookupOutTradeNo (generateOutTradeNo ''20250409'' [0, 1, 27, 61, 9, 30, 5, 8]) =
     Inr (generateOutTradeNo ''20250409'' [0, 1, 27, 61, 9, 30, 5, 8])"
  by (rule generated_number_lookup) (simp_all add: ascii_digit_def byte_def)

section \<open>Checking metadata\<close>

text \<open>
  What a provider must confirm: the metadata fields with the snapshot value each must equal, in
  the form the code compares, and the field that must name success when it is there.
\<close>

definition identity_fields ::
    "string \<Rightarrow> paymentOrderProviderSnapshot \<Rightarrow> metadata \<Rightarrow> (string \<times> string) list" where
  "identity_fields key snapshot metadata =
     (let plain = (\<lambda>k. go_TrimSpace (meta metadata k));
          upper = (\<lambda>k. go_ToUpper (go_TrimSpace (meta metadata k)))
      in if key = TypeWxpay then
           [(sn_MerchantAppID snapshot, plain ''appid''), (sn_MerchantID snapshot, plain ''mchid''),
            (sn_Currency snapshot, upper ''currency'')]
         else if key = TypeAlipay then [(sn_MerchantAppID snapshot, plain ''app_id'')]
         else if key = TypeEasyPay then [(sn_MerchantID snapshot, plain ''pid'')]
         else if key = TypeStripe then [(sn_Currency snapshot, upper ''currency'')]
         else if key = TypeAirwallex then
           [(sn_MerchantID snapshot, plain ''account_id''), (sn_Currency snapshot, upper ''currency'')]
         else [])"

definition state_fields :: "string \<Rightarrow> metadata \<Rightarrow> (string \<times> string) list" where
  "state_fields key metadata =
     (if key = TypeWxpay then [(''SUCCESS'', go_TrimSpace (meta metadata ''trade_state''))]
      else if key = TypeAirwallex then [(''SUCCEEDED'', go_TrimSpace (meta metadata ''status''))]
      else [])"

definition confirms :: "string \<times> string \<Rightarrow> bool" where
  "confirms = (\<lambda>(expected, actual). if go_TrimSpace expected = [] then True
                 else go_EqualFold (go_TrimSpace expected) actual)"

definition state_ok :: "string \<times> string \<Rightarrow> bool" where
  "state_ok = (\<lambda>(wanted, actual). if actual = [] then True else go_EqualFold actual wanted)"

lemma replace_words_not_Nil:
  "s \<noteq> [] \<Longrightarrow> list_all (\<lambda>(w, r). r \<noteq> []) tbl \<Longrightarrow> replace_words tbl f s \<noteq> []"
  by (cases s) (auto split: option.splits simp: find_Some_iff list_all_length)

lemma fold_case_Nil [simp]: "fold_case s = [] \<longleftrightarrow> s = []"
proof
  assume "fold_case s = []"
  then show "s = []"
    unfolding fold_case_def by (rule contrapos_pp) (rule replace_words_not_Nil, simp_all)
qed (simp add: fold_case_def)

lemma fold_case_empty [simp]: "fold_case [] = []"
  by simp

lemma require_match_None:
  "require_match (go_TrimSpace e) a m1 m2 = None \<longleftrightarrow> confirms (e, a)"
  by (auto simp: require_match_def confirms_def go_EqualFold_def)

lemma require_state_None: "require_state a wanted m = None \<longleftrightarrow> state_ok (wanted, a)"
  by (auto simp: require_state_def state_ok_def)

lemma first_error_None [simp]: "first_error es = None \<longleftrightarrow> list_all (\<lambda>e. e = None) es"
  by (induction es rule: first_error.induct) auto

text \<open>
  The metadata check against the order's snapshot accepts exactly when every identity field the
  provider must confirm (merchant and application ids, currency) either has no value in the
  snapshot or is present in the metadata and equal up to case, and the state field, if present,
  names success. An absent field never passes for a recorded one.
\<close>
theorem metadata_check_exact:
  "validateProviderSnapshotMetadata order pk metadata = None \<longleftrightarrow>
     (if metadata = [] then True
      else case psOrderProviderSnapshot order of
        None \<Rightarrow> True
      | Some snapshot \<Rightarrow>
          list_all confirms (identity_fields (go_TrimSpace pk) snapshot metadata) \<and>
          list_all state_ok (state_fields (go_TrimSpace pk) metadata))"
proof (cases "psOrderProviderSnapshot order")
  case None
  then show ?thesis by (simp add: validateProviderSnapshotMetadata_def)
next
  case (Some snapshot)
  note defs = validateProviderSnapshotMetadata_def identity_fields_def state_fields_def Some Let_def
    require_match_None require_state_None
  consider "go_TrimSpace pk = TypeWxpay" | "go_TrimSpace pk = TypeAlipay" | "go_TrimSpace pk = TypeEasyPay"
    | "go_TrimSpace pk = TypeStripe" | "go_TrimSpace pk = TypeAirwallex"
    | "go_TrimSpace pk \<notin> {TypeWxpay, TypeAlipay, TypeEasyPay, TypeStripe, TypeAirwallex}"
    by blast
  then show ?thesis by cases (simp_all add: defs)
qed

section \<open>The instance of an order\<close>

text \<open>
  Refunds are pinned to a recorded instance: the refund path only ever returns the instance
  whose id is written in the order (in its snapshot or its column), never one it guessed.
\<close>
theorem refund_instance_pinned:
  assumes "getRefundOrderProviderInstance db order = Inr (Some inst)"
  shows "\<exists>s n. go_ParseInt s = Some n \<and> db_get db n = Found inst \<and>
    (s = go_TrimSpace (psStringValue (o_ProviderInstanceID order)) \<or>
     (\<exists>sn. psOrderProviderSnapshot order = Some sn \<and> s = go_TrimSpace (sn_ProviderInstanceID sn)))"
proof (cases "psOrderProviderSnapshot order")
  case None
  with assms show ?thesis
    by (auto simp: getRefundOrderProviderInstance_def Let_def split: if_splits option.splits lookup.splits)
next
  case (Some sn)
  with assms show ?thesis
    by (auto simp: getRefundOrderProviderInstance_def resolveSnapshotOrderProviderInstance_def Let_def
             split: if_splits option.splits lookup.splits)
qed

lemma the_unique_Some: "the_unique xs = Some x \<longleftrightarrow> xs = [x]"
  by (auto simp: the_unique_def split: list.splits)

text \<open>
  A legacy order that records neither snapshot nor instance is attributed to an instance only
  when exactly one configured instance (of its provider key, when it has one) fits its payment type.
\<close>
theorem legacy_instance_unique:
  assumes "psOrderProviderSnapshot order = None"
    and "go_TrimSpace (psStringValue (o_ProviderInstanceID order)) = []"
    and "getOrderProviderInstance db order = Inr (Some inst)"
  shows "\<exists>all. db_all db = Some all \<and>
    [inst] = psFilterLegacyOrderProviderInstances (GetBasePaymentType (go_TrimSpace (o_PaymentType order)))
      (let pk = go_TrimSpace (psStringValue (o_ProviderKey order))
       in if pk = [] then all else filter (\<lambda>i. pi_ProviderKey i = pk) all)"
  using assms
  by (auto simp: getOrderProviderInstance_def resolveUniqueLegacyOrderProviderInstance_def Let_def
      the_unique_Some split: if_splits option.splits)

definition sample_instance :: PaymentProviderInstance where
  "sample_instance = \<lparr>pi_ID = 7, pi_ProviderKey = ''alipay'', pi_SupportedTypes = [],
     pi_PaymentMode = [], pi_RefundEnabled = True, pi_AllowUserRefund = True\<rparr>"

definition sample_db :: instance_db where
  "sample_db = \<lparr>db_get = (\<lambda>i. if i = 7 then Found sample_instance else Missing),
     db_all = Some [sample_instance]\<rparr>"

definition sample_order :: PaymentOrder where
  "sample_order = \<lparr>o_ID = 1, o_UserID = 5, o_Amount = Fin 100, o_PayAmount = Fin 100,
     o_RechargeCode = ''PAY-1'', o_OutTradeNo = ''sub2_20250409aB3kX9mQ'', o_PaymentType = ''alipay'',
     o_PaymentTradeNo = ''T1'', o_OrderType = ''balance'', o_PlanID = None, o_SubscriptionGroupID = None,
     o_SubscriptionDays = None, o_ProviderInstanceID = Some ''7'', o_ProviderKey = Some ''alipay'',
     o_ProviderSnapshot = [], o_Status = PENDING, o_RefundAmount = Fin 0, o_RefundReason = None,
     o_RefundAt = None, o_ForceRefund = False, o_RefundRequestedAt = None, o_RefundRequestReason = None,
     o_RefundRequestedBy = None, o_ExpiresAt = 1000, o_PaidAt = None, o_CompletedAt = None,
     o_FailedAt = None, o_FailedReason = None, o_UpdatedAt = 0\<rparr>"

lemma sample_refund_instance: "getRefundOrderProviderInstance sample_db sample_order = Inr (Some sample_instance)"
  by code_simp

lemma sample_legacy_instance:
  "getOrderProviderInstance sample_db (sample_order\<lparr>o_ProviderInstanceID := None\<rparr>) = Inr (Some sample_instance)"
  by code_simp

theorem refund_instance_pinned_witness:
  "\<exists>s n. go_ParseInt s = Some n \<and> db_get sample_db n = Found sample_instance \<and>
    (s = go_TrimSpace (psStringValue (o_ProviderInstanceID sample_order)) \<or>
     (\<exists>sn. psOrderProviderSnapshot sample_order = Some sn \<and> s = go_TrimSpace (sn_ProviderInstanceID sn)))"
  by (rule refund_instance_pinned [OF sample_refund_instance])

theorem legacy_instance_unique_witness:
  "\<exists>all. db_all sample_db = Some all \<and>
    [sample_instance] = psFilterLegacyOrderProviderInstances
      (GetBasePaymentType (go_TrimSpace (o_PaymentType (sample_order\<lparr>o_ProviderInstanceID := None\<rparr>))))
      (let pk = go_TrimSpace (psStringValue (o_ProviderKey (sample_order\<lparr>o_ProviderInstanceID := None\<rparr>)))
       in if pk = [] then all else filter (\<lambda>i. pi_ProviderKey i = pk) all)"
  by (rule legacy_instance_unique [OF _ _ sample_legacy_instance]) (simp_all add: sample_order_def psOrderProviderSnapshot_def str_or_empty_def)

section \<open>The order marker\<close>

lemma replace_words_append_ascii:
  assumes "list_all (\<lambda>(w, r). list_all (\<lambda>b. \<not> byte b < 128) w \<and> w \<noteq> []) tbl" and "byte c < 128"
  shows "replace_words tbl f (xs @ c # ys) = replace_words tbl f xs @ replace_words tbl f (c # ys)"
proof (induction "length xs" arbitrary: xs rule: less_induct)
  case less
  show ?case
  proof (cases xs)
    case (Cons d ds)
    have same: "go_HasPrefix (d # ds @ c # ys) w \<longleftrightarrow> go_HasPrefix (d # ds) w" if "(w, r) \<in> set tbl" for w r
    proof -
      from that assms(1) have nb: "\<forall>b \<in> set w. \<not> byte b < 128" by (auto simp: list_all_iff)
      show ?thesis
      proof (cases "length w \<le> length (d # ds)")
        case False
        then have "c \<in> set (take (length w) (d # ds @ c # ys))"
          by (cases "length w - length ds") (auto simp: take_Cons' Suc_diff_le split: nat.splits)
        then have "\<not> go_HasPrefix (d # ds @ c # ys) w"
          using nb assms(2) by (auto simp: go_HasPrefix_def)
        moreover have "\<not> go_HasPrefix (d # ds) w"
          using False by (metis go_HasPrefix_def length_take min.cobounded1)
        ultimately show ?thesis by simp
      next
        case True
        then show ?thesis
          using take_append [of "length w" "d # ds" "c # ys"] by (simp add: go_HasPrefix_def)
      qed
    qed
    have eq: "find (\<lambda>(w, r). go_HasPrefix (d # ds @ c # ys) w) tbl = find (\<lambda>(w, r). go_HasPrefix (d # ds) w) tbl"
      using same by (intro find_cong) auto
    show ?thesis
    proof (cases "find (\<lambda>(w, r). go_HasPrefix (d # ds) w) tbl")
      case None
      with Cons eq less [of ds] show ?thesis by simp
    next
      case (Some wr)
      obtain w r where wr: "wr = (w, r)" by (cases wr)
      with Some have "(w, r) \<in> set tbl" "go_HasPrefix (d # ds) w"
        by (auto simp: find_Some_iff) (metis nth_mem)
      then have "length w \<le> length (d # ds)"
        by (metis go_HasPrefix_def length_take min.cobounded1)
      then have "length w - 1 \<le> length ds" by simp
      then have "drop (length w - 1) (ds @ c # ys) = drop (length w - 1) ds @ c # ys" by simp
      moreover have "replace_words tbl f (drop (length w - 1) ds @ c # ys) =
          replace_words tbl f (drop (length w - 1) ds) @ replace_words tbl f (c # ys)"
        by (rule less) (simp add: Cons)
      ultimately show ?thesis using Cons eq Some wr by simp
    qed
  qed simp
qed

lemma go_ToLower_append_ascii:
  "byte c < 128 \<Longrightarrow> go_ToLower (xs @ c # ys) = go_ToLower xs @ go_ToLower (c # ys)"
  unfolding go_ToLower_def by (rule replace_words_append_ascii) (simp_all add: byte_def)

lemma go_ToLower_ascii_append:
  "list_all (\<lambda>c. byte c < 128) xs \<Longrightarrow> go_ToLower (xs @ ys) = map lower_byte xs @ go_ToLower ys"
proof (induction xs)
  case (Cons c xs)
  have "find (\<lambda>(w, r). go_HasPrefix (c # xs @ ys) w)
      [([CHR 0xC4, CHR 0xB0], ''i''), ([CHR 0xE2, CHR 0x84, CHR 0xAA], ''k'')] = None"
    using Cons.prems by (auto simp: go_HasPrefix_def byte_def)
  with Cons show ?case by (simp add: go_ToLower_def)
qed (simp add: go_ToLower_def)

lemma FormatInt_ascii: "list_all (\<lambda>c. byte c < 128) (go_FormatInt n)"
proof -
  have "list_all (\<lambda>c. byte c < 128) (nat_digits k)" for k
    by (rule token_bytes_ascii [OF digits_token [OF nat_digits_digits]])
  then show ?thesis by (simp add: go_FormatInt_def byte_def)
qed

lemma marker_ascii:
  assumes "mark = ''payment order '' \<or> mark = ''codexplus entitlement order ''"
  shows "list_all (\<lambda>c. byte c < 128) mark" and "mark \<noteq> []"
  using assms by (elim disjE; simp add: byte_def)+

lemma marker_found:
  assumes "0 < n" and "mark = ''payment order '' \<or> mark = ''codexplus entitlement order ''"
  shows "codexPlusCommerceSubscriptionHasOrderMarker (pre @ mark @ go_FormatInt n @ rest) n"
proof -
  obtain c cs where mark: "mark = c # cs" and c: "byte c < 128"
    using marker_ascii [OF assms(2)] by (cases mark) auto
  have ascii: "list_all (\<lambda>c. byte c < 128) (mark @ go_FormatInt n)"
    using marker_ascii(1) [OF assms(2)] FormatInt_ascii by simp
  have "go_ToLower (pre @ mark @ go_FormatInt n @ rest) = go_ToLower pre @ go_ToLower ((mark @ go_FormatInt n) @ rest)"
    using go_ToLower_append_ascii [OF c, of pre "cs @ go_FormatInt n @ rest"] by (simp add: mark)
  also have "\<dots> = go_ToLower pre @ go_ToLower (mark @ go_FormatInt n) @ go_ToLower rest"
    by (simp only: go_ToLower_ascii_append [OF ascii] go_ToLower_ascii [OF ascii])
  finally have low: "go_ToLower (pre @ mark @ go_FormatInt n @ rest) =
      go_ToLower pre @ go_ToLower (mark @ go_FormatInt n) @ go_ToLower rest" .
  have "go_Contains (go_ToLower (pre @ mark @ go_FormatInt n @ rest)) (go_ToLower (mark @ go_FormatInt n))"
    unfolding low by (intro go_Contains_append_left go_Contains_prefix)
  moreover have "go_ToLower (pre @ mark @ go_FormatInt n @ rest) \<noteq> []"
    unfolding low go_ToLower_ascii [OF ascii] by (simp add: mark)
  ultimately show ?thesis
    using assms(1) assms(2) [THEN disjE, of "go_ToLower (mark @ go_FormatInt n) =
        go_ToLower (''payment order '' @ go_FormatInt n) \<or> go_ToLower (mark @ go_FormatInt n) =
        go_ToLower (''codexplus entitlement order '' @ go_FormatInt n)"]
    by (simp only: codexPlusCommerceSubscriptionHasOrderMarker_def Let_def) (metis linorder_not_less)
qed

lemma GrantNote_shape:
  "\<exists>mark rest. (mark = ''payment order '' \<or> mark = ''codexplus entitlement order '') \<and>
     GrantNote n plan = mark @ go_FormatInt n @ rest"
  unfolding GrantNote_def codexPlusCommerceLegacyOrderNote_def codexOrderNote_def
  by (cases plan; simp only: option.case split: if_split) (metis append_Nil2 append_assoc)+

text \<open>
  The grant of a subscription order is recognised on a retry: wherever the note of the grant
  stands among the notes of the subscription, the marker check finds the order in it.
\<close>
theorem own_grant_recognised:
  assumes "0 < n"
  shows "codexPlusCommerceSubscriptionHasOrderMarker (before @ GrantNote n plan @ after) n"
proof -
  obtain mark rest where "mark = ''payment order '' \<or> mark = ''codexplus entitlement order ''"
    and "GrantNote n plan = mark @ go_FormatInt n @ rest"
    using GrantNote_shape by blast
  then show ?thesis using marker_found [OF assms, of mark before "rest @ after"] by simp
qed

theorem own_grant_recognised_witness:
  "codexPlusCommerceSubscriptionHasOrderMarker (''renewed; '' @ GrantNote 12 (Some ''pro'') @ '' ok'') 12"
  by (rule own_grant_recognised) simp

lemma FormatInt_snoc:
  assumes "0 < n" and "0 \<le> d" and "d < 10"
  shows "\<exists>c. go_FormatInt (10 * n + d) = go_FormatInt n @ [c]"
proof -
  have "nat (10 * n + d) = 10 * nat n + nat d" using assms by linarith
  moreover have "\<not> 10 * nat n + nat d < 10" using assms by linarith
  moreover have "(10 * nat n + nat d) div 10 = nat n" using assms by linarith
  ultimately have "nat_digits (nat (10 * n + d)) =
      nat_digits (nat n) @ [char_of (48 + (10 * nat n + nat d) mod 10)]"
    by (simp only: nat_digits.simps [of "10 * nat n + nat d"] if_False)
  with assms show ?thesis by (simp add: go_FormatInt_def)
qed

text \<open>
  The marker check is a substring test, so it also takes the grant of another order for its
  own: every order whose number continues this one's digits (12 for 1) marks it as granted. A paid
  order 1 of the same user and group is then completed without any subscription being assigned.
\<close>
theorem foreign_grant_taken_for_own:
  assumes "0 < n" and "0 \<le> d" and "d < 10"
  shows "10 * n + d \<noteq> n \<and>
    codexPlusCommerceSubscriptionHasOrderMarker (GrantNote (10 * n + d) plan) n"
proof -
  obtain c where c: "go_FormatInt (10 * n + d) = go_FormatInt n @ [c]"
    using FormatInt_snoc [OF assms] by blast
  obtain mark rest where "mark = ''payment order '' \<or> mark = ''codexplus entitlement order ''"
    and "GrantNote (10 * n + d) plan = mark @ go_FormatInt (10 * n + d) @ rest"
    using GrantNote_shape by blast
  then have "codexPlusCommerceSubscriptionHasOrderMarker (GrantNote (10 * n + d) plan) n"
    using marker_found [OF assms(1), of mark "[]" "c # rest"] by (simp add: c)
  with assms show ?thesis by linarith
qed

theorem foreign_grant_taken_for_own_witness:
  "(12 :: int) \<noteq> 1 \<and> codexPlusCommerceSubscriptionHasOrderMarker (GrantNote 12 None) 1"
  using foreign_grant_taken_for_own [of 1 2 None] by simp

end
