(* ===== verification/Interaction.thy ===== *)
theory Interaction
  imports Main
begin

text \<open>
  Concurrent calls on a shared store. A call is a program: either it has returned a value, or its
  next action is one atomic operation on the store, with the outcomes the operation may have (a
  database that fails is an outcome) and the program that goes on from each. A server is a pool of
  such programs that take turns. The locale \<open>rely_guarantee\<close> is the contract under which calls are
  verified one at a time: what a call may assume of the others (\<open>R\<close>), what it must promise (\<open>G\<close>).
\<close>

section \<open>Programs\<close>

text \<open>An operation is given the number of the call that performs it and the store.\<close>

datatype ('w, 'a) prog =
    Ret 'a
  | Atomic "nat \<Rightarrow> 'w \<Rightarrow> ('w \<times> ('w, 'a) prog) list"

primrec bind :: "('w, 'a) prog \<Rightarrow> ('a \<Rightarrow> ('w, 'b) prog) \<Rightarrow> ('w, 'b) prog" where
  "bind (Ret x) k = k x"
| "bind (Atomic f) k = Atomic (\<lambda>i w. map (map_prod id (\<lambda>p. bind p k)) (f i w))"

definition atom :: "(nat \<Rightarrow> 'w \<Rightarrow> ('w \<times> 'a) list) \<Rightarrow> ('w, 'a) prog" where
  "atom f = Atomic (\<lambda>i w. map (map_prod id Ret) (f i w))"

lemma prog_induct [case_names Ret Atomic]:
  assumes "\<And>x. P (Ret x)"
    and "\<And>f. (\<And>i w w' p. (w', p) \<in> set (f i w) \<Longrightarrow> P p) \<Longrightarrow> P (Atomic f)"
  shows "P p"
proof (induction p)
  case (Ret x)
  show ?case by (rule assms(1))
next
  case (Atomic f)
  show ?case
  proof (rule assms(2))
    fix i w w' p
    assume "(w', p) \<in> set (f i w)"
    with Atomic [of "f i" "f i w" "(w', p)" p] show "P p" by (simp add: prod_set_defs)
  qed
qed

lemma bind_Ret [simp]: "bind p Ret = p"
proof (induction p rule: prog_induct)
  case (Atomic f)
  have "map (map_prod id (\<lambda>p. bind p Ret)) (f i w) = f i w" for i w
    using Atomic by (intro map_idI) auto
  then show ?case by simp
qed simp

lemma bind_assoc: "bind (bind p k) l = bind p (\<lambda>x. bind (k x) l)"
proof (induction p rule: prog_induct)
  case (Atomic f)
  have "map (map_prod (\<lambda>x. x) (\<lambda>p. bind (bind p k) l)) (f i w) =
      map (map_prod (\<lambda>x. x) (\<lambda>p. bind p (\<lambda>x. bind (k x) l))) (f i w)" for i w
    using Atomic by (intro map_cong) auto
  then show ?case by (simp add: prod.map_comp comp_def id_def del: map_eq_conv)
qed simp

text \<open>One call alone, taking for each operation the outcome of the given index.\<close>

fun run_alone :: "nat \<Rightarrow> nat list \<Rightarrow> ('w, 'a) prog \<Rightarrow> 'w \<Rightarrow> 'w \<times> ('w, 'a) prog" where
  "run_alone i cs (Ret x) w = (w, Ret x)"
| "run_alone i [] (Atomic f) w = (w, Atomic f)"
| "run_alone i (c # cs) (Atomic f) w =
     (case drop c (f i w) of [] \<Rightarrow> (w, Atomic f) | (w', p) # _ \<Rightarrow> run_alone i cs p w')"

section \<open>Pools of calls\<close>

type_synonym ('w, 'a) pool = "'w \<times> ('w, 'a) prog list"

text \<open>A pool step: a call performs its next operation, a new call arrives, the environment acts.\<close>

inductive pool_step ::
    "(('w, 'a) prog \<Rightarrow> bool) \<Rightarrow> ('w \<Rightarrow> 'w \<Rightarrow> bool) \<Rightarrow> ('w, 'a) pool \<Rightarrow> ('w, 'a) pool \<Rightarrow> bool"
  for H E where
  perform: "i < length ps \<Longrightarrow> ps ! i = Atomic f \<Longrightarrow> (w', p) \<in> set (f i w) \<Longrightarrow>
    pool_step H E (w, ps) (w', ps[i := p])"
| arrive: "H p \<Longrightarrow> pool_step H E (w, ps) (w, ps @ [p])"
| environment: "E w w' \<Longrightarrow> pool_step H E (w, ps) (w', ps)"

inductive_cases pool_stepE: "pool_step H E (w, ps) c"

inductive reachable ::
    "(('w, 'a) prog \<Rightarrow> bool) \<Rightarrow> ('w \<Rightarrow> 'w \<Rightarrow> bool) \<Rightarrow> 'w \<Rightarrow> ('w, 'a) pool \<Rightarrow> bool"
  for H E w0 where
  start: "reachable H E w0 (w0, [])"
| step: "reachable H E w0 c \<Longrightarrow> pool_step H E c c' \<Longrightarrow> reachable H E w0 c'"

section \<open>Verifying a call\<close>

text \<open>
  \<open>safe R G i Q p w\<close>: from the store \<open>w\<close>, call \<open>i\<close> running \<open>p\<close> while the others change the store
  by \<open>R\<close> only performs operations allowed by \<open>G\<close>, and returns values and stores that satisfy \<open>Q\<close>.
\<close>

inductive safe ::
    "('w \<Rightarrow> 'w \<Rightarrow> bool) \<Rightarrow> ('w \<Rightarrow> 'w \<Rightarrow> bool) \<Rightarrow> nat \<Rightarrow> ('a \<Rightarrow> 'w \<Rightarrow> bool) \<Rightarrow> ('w, 'a) prog \<Rightarrow> 'w \<Rightarrow> bool"
  for R G i Q where
  safe_Ret: "(\<And>w'. R w w' \<Longrightarrow> Q x w') \<Longrightarrow> safe R G i Q (Ret x) w"
| safe_Atomic: "(\<And>w1 w2 p. R w w1 \<Longrightarrow> (w2, p) \<in> set (f i w1) \<Longrightarrow> G w1 w2 \<and> safe R G i Q p w2) \<Longrightarrow>
    safe R G i Q (Atomic f) w"

inductive_simps safe_Ret_iff: "safe R G i Q (Ret x) w"
inductive_simps safe_Atomic_iff: "safe R G i Q (Atomic f) w"

definition triple ::
    "('w \<Rightarrow> 'w \<Rightarrow> bool) \<Rightarrow> ('w \<Rightarrow> 'w \<Rightarrow> bool) \<Rightarrow> nat \<Rightarrow> ('w \<Rightarrow> bool) \<Rightarrow> ('w, 'a) prog \<Rightarrow> ('a \<Rightarrow> 'w \<Rightarrow> bool) \<Rightarrow> bool" where
  "triple R G i P p Q \<longleftrightarrow> (\<forall>w. P w \<longrightarrow> safe R G i Q p w)"

definition stable :: "('w \<Rightarrow> 'w \<Rightarrow> bool) \<Rightarrow> ('w \<Rightarrow> bool) \<Rightarrow> bool" where
  "stable R P \<longleftrightarrow> (\<forall>w w'. P w \<longrightarrow> R w w' \<longrightarrow> P w')"

lemma stableD: "stable R P \<Longrightarrow> P w \<Longrightarrow> R w w' \<Longrightarrow> P w'"
  by (auto simp: stable_def)

locale rely_guarantee =
  fixes R :: "nat \<Rightarrow> 'w \<Rightarrow> 'w \<Rightarrow> bool"
    and G :: "nat \<Rightarrow> 'w \<Rightarrow> 'w \<Rightarrow> bool"
    and J :: "'w \<Rightarrow> bool"
    and E :: "'w \<Rightarrow> 'w \<Rightarrow> bool"
  assumes rely_refl: "R i w w"
    and rely_trans: "R i w w' \<Longrightarrow> R i w' w'' \<Longrightarrow> R i w w''"
    and guarantee_rely: "i \<noteq> j \<Longrightarrow> G i w w' \<Longrightarrow> R j w w'"
    and guarantee_inv: "J w \<Longrightarrow> G i w w' \<Longrightarrow> J w'"
    and environment_rely: "E w w' \<Longrightarrow> R i w w'"
    and environment_inv: "J w \<Longrightarrow> E w w' \<Longrightarrow> J w'"
begin

lemma safe_rely:
  assumes "safe (R i) (G i) i Q p w" and "R i w w'"
  shows "safe (R i) (G i) i Q p w'"
  using assms
proof (cases p)
  case (Ret x)
  with assms show ?thesis by (auto simp: safe_Ret_iff intro: rely_trans)
next
  case (Atomic f)
  with assms show ?thesis by (simp add: safe_Atomic_iff) (meson rely_trans)
qed

lemma safe_conseq:
  assumes "safe (R i) (G i) i Q p w" and "\<And>x w. Q x w \<Longrightarrow> Q' x w"
  shows "safe (R i) (G i) i Q' p w"
  using assms by (induction rule: safe.induct) (auto simp: safe_Ret_iff safe_Atomic_iff)

lemma safe_bind:
  assumes "safe (R i) (G i) i (\<lambda>x w. safe (R i) (G i) i Q (k x) w) p w"
  shows "safe (R i) (G i) i Q (bind p k) w"
  using assms
proof (induction rule: safe.induct)
  case (safe_Ret w x)
  then show ?case using rely_refl by auto
next
  case (safe_Atomic w f)
  then show ?case by (auto simp: safe_Atomic_iff)
qed

lemma triple_Ret:
  assumes "stable (R i) P" and "\<And>w. P w \<Longrightarrow> Q x w"
  shows "triple (R i) (G i) i P (Ret x) Q"
  using assms by (auto simp: triple_def safe_Ret_iff dest: stableD)

lemma triple_bind:
  assumes "triple (R i) (G i) i P p Q" and "\<And>x. triple (R i) (G i) i (Q x) (k x) Q'"
  shows "triple (R i) (G i) i P (bind p k) Q'"
  unfolding triple_def
proof (intro allI impI)
  fix w
  assume "P w"
  with assms(1) have "safe (R i) (G i) i Q p w" by (simp add: triple_def)
  then have "safe (R i) (G i) i (\<lambda>x w. safe (R i) (G i) i Q' (k x) w) p w"
    by (rule safe_conseq) (use assms(2) in \<open>simp add: triple_def\<close>)
  then show "safe (R i) (G i) i Q' (bind p k) w" by (rule safe_bind)
qed

lemma triple_atom:
  fixes f :: "nat \<Rightarrow> 'w \<Rightarrow> ('w \<times> 'a) list"
  assumes "stable (R i) P" and "\<And>x. stable (R i) (Q x)"
    and "\<And>w w' x. P w \<Longrightarrow> (w', x) \<in> set (f i w) \<Longrightarrow> G i w w' \<and> Q x w'"
  shows "triple (R i) (G i) i P (atom f) Q"
  unfolding triple_def atom_def
proof (intro allI impI)
  fix w
  assume "P w"
  show "safe (R i) (G i) i Q (Atomic (\<lambda>i w. map (map_prod id Ret) (f i w))) w"
    unfolding safe_Atomic_iff
  proof (intro allI impI)
    fix w1 w2 and p :: "('w, 'a) prog"
    assume "R i w w1" and mem: "(w2, p) \<in> set (map (map_prod id Ret) (f i w1))"
    with \<open>P w\<close> have "P w1" using stableD [OF assms(1)] by blast
    from mem obtain x where "p = Ret x" "(w2, x) \<in> set (f i w1)" by auto
    then have "G i w1 w2 \<and> Q x w2" using assms(3) [OF \<open>P w1\<close>] by blast
    then show "G i w1 w2 \<and> safe (R i) (G i) i Q p w2"
      using \<open>p = Ret x\<close> stableD [OF assms(2), of x w2] by (auto simp: safe_Ret_iff)
  qed
qed

lemma triple_conseq:
  assumes "triple (R i) (G i) i P p Q" and "\<And>w. P' w \<Longrightarrow> P w" and "\<And>x w. Q x w \<Longrightarrow> Q' x w"
  shows "triple (R i) (G i) i P' p Q'"
  unfolding triple_def
proof (intro allI impI)
  fix w
  assume "P' w"
  then have "safe (R i) (G i) i Q p w" using assms(1,2) by (simp add: triple_def)
  then show "safe (R i) (G i) i Q' p w" by (rule safe_conseq) (rule assms(3))
qed

text \<open>
  A pool into which only verified calls arrive: every store reachable satisfies the invariant, and
  every step of a call is one the guarantee allows.
\<close>

definition pool_ok :: "('w, 'a) pool \<Rightarrow> bool" where
  "pool_ok c \<longleftrightarrow> J (fst c) \<and>
     (\<forall>i < length (snd c). safe (R i) (G i) i (\<lambda>_ _. True) (snd c ! i) (fst c))"

lemma pool_ok_step:
  assumes H: "\<And>i p. H p \<Longrightarrow> triple (R i) (G i) i J p (\<lambda>_ _. True)"
    and "pool_ok c" and "pool_step H E c c'"
  shows "pool_ok c'"
  using assms(3)
proof cases
  case (perform i ps f w' p w)
  have ok: "J w" "\<And>j. j < length ps \<Longrightarrow> safe (R j) (G j) j (\<lambda>_ _. True) (ps ! j) w"
    using assms(2) perform by (auto simp: pool_ok_def)
  have mine: "G i w w' \<and> safe (R i) (G i) i (\<lambda>_ _. True) p w'"
    using ok(2) [OF perform(3)] perform(4,5) rely_refl [of i w] by (simp add: safe_Atomic_iff)
  have "safe (R j) (G j) j (\<lambda>_ _. True) (ps ! j) w'" if "j < length ps" "j \<noteq> i" for j
    by (rule safe_rely [OF ok(2) [OF that(1)] guarantee_rely [OF that(2) [symmetric] conjunct1 [OF mine]]])
  with mine have "safe (R j) (G j) j (\<lambda>_ _. True) (ps[i := p] ! j) w'" if "j < length ps" for j
    using that by (cases "j = i") simp_all
  moreover have "J w'" using mine ok(1) guarantee_inv by blast
  ultimately show ?thesis
    unfolding perform(2) by (simp add: pool_ok_def)
next
  case (arrive p w ps)
  have "safe (R (length ps)) (G (length ps)) (length ps) (\<lambda>_ _. True) p w"
    using H [OF arrive(3), of "length ps"] assms(2) arrive(1) by (simp add: triple_def pool_ok_def)
  with assms(2) show ?thesis
    unfolding arrive(1,2) by (auto simp: pool_ok_def nth_append less_Suc_eq)
next
  case (environment w w' ps)
  with assms(2) show ?thesis
    by (auto simp: pool_ok_def intro: environment_inv safe_rely environment_rely)
qed

lemma reachable_ok:
  assumes "\<And>i p. H p \<Longrightarrow> triple (R i) (G i) i J p (\<lambda>_ _. True)"
    and "J w0" and "reachable H E w0 c"
  shows "pool_ok c"
  using assms(3)
proof induction
  case start
  with assms(2) show ?case by (simp add: pool_ok_def)
next
  case (step c c')
  then show ?case using pool_ok_step [OF assms(1)] by blast
qed

lemma reachable_inv:
  assumes "\<And>i p. H p \<Longrightarrow> triple (R i) (G i) i J p (\<lambda>_ _. True)"
    and "J w0" and "reachable H E w0 (w, ps)"
  shows "J w"
  using reachable_ok [OF assms] by (simp add: pool_ok_def)

lemma reachable_guarantee:
  assumes "\<And>i p. H p \<Longrightarrow> triple (R i) (G i) i J p (\<lambda>_ _. True)"
    and "J w0" and "reachable H E w0 (w, ps)" and "pool_step H E (w, ps) (w', ps')"
  shows "(w' = w \<and> (\<exists>p. ps' = ps @ [p])) \<or> (E w w' \<and> ps' = ps) \<or>
    (\<exists>i f p. i < length ps \<and> ps ! i = Atomic f \<and> ps' = ps[i := p] \<and> G i w w')"
  using assms(4)
proof cases
  case (perform i f p)
  have "safe (R i) (G i) i (\<lambda>_ _. True) (Atomic f) w"
    using reachable_ok [OF assms(1-3)] perform(2,3) by (auto simp: pool_ok_def)
  then have "G i w w'" using perform(4) rely_refl [of i w] by (simp add: safe_Atomic_iff)
  with perform show ?thesis by blast
qed auto

end

section \<open>Runs of one call\<close>

lemma reachable_run:
  assumes "reachable H E w0 (w, ps)" and "i < length ps" and "ps ! i = p" and "run_alone i cs p w = (w', p')"
  shows "reachable H E w0 (w', ps[i := p'])"
  using assms
proof (induction i cs p w arbitrary: ps rule: run_alone.induct)
  case (3 i c cs f w)
  show ?case
  proof (cases "drop c (f i w)")
    case Nil
    with 3(5) have "w' = w" "p' = Atomic f" by simp_all
    moreover have "ps[i := Atomic f] = ps" using 3(4) list_update_id by metis
    ultimately show ?thesis using 3(2) by simp
  next
    case (Cons x xs)
    obtain w1 p1 where x: "x = (w1, p1)" by (cases x)
    have "(w1, p1) \<in> set (f i w)"
      using Cons x by (metis in_set_dropD list.set_intros(1))
    then have "pool_step H E (w, ps) (w1, ps[i := p1])"
      using 3(3,4) by (rule_tac pool_step.perform)
    with 3(2) have "reachable H E w0 (w1, ps[i := p1])" by (rule reachable.step)
    from 3(1) [OF Cons x [symmetric] this] 3(3,5) Cons x
    show ?thesis by simp
  qed
qed auto

lemma reachable_call:
  assumes "H p" and "run_alone 0 cs p w0 = (w', p')"
  shows "reachable H E w0 (w', [p'])"
proof -
  have "reachable H E w0 (w0, [] @ [p])"
    by (rule reachable.step [OF reachable.start pool_step.arrive]) (rule assms(1))
  from reachable_run [OF this _ _ assms(2)] show ?thesis by simp
qed

text \<open>The run in which every operation has its first outcome.\<close>

primrec smooth :: "nat \<Rightarrow> ('w, 'a) prog \<Rightarrow> 'w \<Rightarrow> ('w \<times> 'a) option" where
  "smooth i (Ret x) = (\<lambda>w. Some (w, x))"
| "smooth i (Atomic f) = (\<lambda>w. case map (map_prod id (smooth i)) (f i w) of [] \<Rightarrow> None | (w', g) # _ \<Rightarrow> g w')"

lemma smooth_bind:
  "smooth i (bind p k) w = (case smooth i p w of None \<Rightarrow> None | Some (w', x) \<Rightarrow> smooth i (k x) w')"
proof (induction p arbitrary: w rule: prog_induct)
  case (Atomic f)
  show ?case
  proof (cases "f i w")
    case (Cons a as)
    obtain w1 p1 where a: "a = (w1, p1)" by (cases a)
    with Cons have "(w1, p1) \<in> set (f i w)" by simp
    from Atomic [OF this] Cons a show ?thesis by simp
  qed simp
qed simp

lemma smooth_bindI: "smooth i p w = Some (w', x) \<Longrightarrow> smooth i (bind p k) w = smooth i (k x) w'"
  by (simp add: smooth_bind)

lemma smooth_atom: "f i w = (w', x) # r \<Longrightarrow> smooth i (atom f) w = Some (w', x)"
  by (simp add: atom_def)

lemma smooth_run: "smooth i p w = Some (w', x) \<Longrightarrow> \<exists>n. run_alone i (replicate n 0) p w = (w', Ret x)"
proof (induction p arbitrary: w rule: prog_induct)
  case (Ret y)
  then show ?case by (auto intro: exI [of _ 0])
next
  case (Atomic f)
  from Atomic(2) obtain w1 p1 r where f: "f i w = (w1, p1) # r" and s: "smooth i p1 w1 = Some (w', x)"
    by (auto split: list.splits)
  have "(w1, p1) \<in> set (f i w)" using f by simp
  from Atomic(1) [OF this s] obtain n where "run_alone i (replicate n 0) p1 w1 = (w', Ret x)" by blast
  with f have "run_alone i (replicate (Suc n) 0) (Atomic f) w = (w', Ret x)" by simp
  then show ?case by blast
qed

text \<open>The outcomes of a call that has the store to itself.\<close>

definition returns :: "nat \<Rightarrow> ('w, 'a) prog \<Rightarrow> 'w \<Rightarrow> 'w \<Rightarrow> 'a \<Rightarrow> bool" where
  "returns i p w w' x \<longleftrightarrow> (\<exists>cs. run_alone i cs p w = (w', Ret x))"

lemma run_alone_bind:
  "run_alone i cs p w = (w1, Ret x) \<Longrightarrow> \<exists>cs'. run_alone i (cs' @ ds) (bind p k) w = run_alone i ds (k x) w1"
proof (induction i cs p w rule: run_alone.induct)
  case (1 i cs y w)
  then show ?case by (auto intro: exI [of _ "[]"])
next
  case (3 i c cs f w)
  from 3(2) obtain w2 p2 r where d: "drop c (f i w) = (w2, p2) # r"
    and run: "run_alone i cs p2 w2 = (w1, Ret x)" by (auto split: list.splits)
  from 3(1) [OF d refl run] obtain cs' where
    "run_alone i (cs' @ ds) (bind p2 k) w2 = run_alone i ds (k x) w1" by blast
  with d have "run_alone i ((c # cs') @ ds) (bind (Atomic f) k) w = run_alone i ds (k x) w1"
    by (simp add: drop_map)
  then show ?case by blast
qed simp

lemma returns_Ret: "returns i (Ret x) w w x"
  by (simp add: returns_def)

lemma returns_bind: "returns i p w w1 x \<Longrightarrow> returns i (k x) w1 w' y \<Longrightarrow> returns i (bind p k) w w' y"
  unfolding returns_def by (metis run_alone_bind)

lemma returns_atom:
  assumes "(w', x) \<in> set (f i w)"
  shows "returns i (atom f) w w' x"
proof -
  from assms obtain n where n: "n < length (f i w)" "f i w ! n = (w', x)" by (auto simp: in_set_conv_nth)
  then have "drop n (f i w) = (w', x) # drop (Suc n) (f i w)" by (metis Cons_nth_drop_Suc)
  then have "run_alone i [n] (atom f) w = (w', Ret x)" by (simp add: atom_def drop_map)
  then show ?thesis unfolding returns_def by blast
qed

lemma returns_smooth: "smooth i p w = Some (w', x) \<Longrightarrow> returns i p w w' x"
  unfolding returns_def by (blast dest: smooth_run)

lemma reachable_returns:
  assumes "reachable H E w0 (w, ps)" and "H p" and "returns (length ps) p w w' x"
  shows "reachable H E w0 (w', ps @ [Ret x])"
proof -
  have "reachable H E w0 (w, ps @ [p])"
    by (rule reachable.step [OF assms(1) pool_step.arrive]) (rule assms(2))
  with assms(3) reachable_run [of H E w0 w "ps @ [p]" "length ps" p] show ?thesis
    by (auto simp: returns_def)
qed

text \<open>A bound on the operations a call performs, whatever their outcomes.\<close>

inductive ends_within :: "nat \<Rightarrow> ('w, 'a) prog \<Rightarrow> bool" where
  ends_within_Ret: "ends_within n (Ret x)"
| ends_within_Atomic: "(\<And>i w w' p. (w', p) \<in> set (f i w) \<Longrightarrow> ends_within n p) \<Longrightarrow> ends_within (Suc n) (Atomic f)"

inductive_simps ends_within_Ret_iff [simp]: "ends_within n (Ret x)"
inductive_simps ends_within_Atomic_iff: "ends_within n (Atomic f)"

lemma ends_within_mono: "ends_within n p \<Longrightarrow> n \<le> m \<Longrightarrow> ends_within m p"
proof (induction arbitrary: m rule: ends_within.induct)
  case (ends_within_Atomic f n)
  then show ?case by (cases m) (auto intro: ends_within.ends_within_Atomic)
qed simp

lemma ends_within_atom [simp]: "ends_within (Suc n) (atom f)"
  unfolding atom_def by (rule ends_within_Atomic) auto

lemma ends_within_bind: "ends_within n p \<Longrightarrow> (\<And>x. ends_within m (k x)) \<Longrightarrow> ends_within (n + m) (bind p k)"
proof (induction rule: ends_within.induct)
  case (ends_within_Ret n x)
  have "ends_within m (k x)" by (rule ends_within_Ret)
  then have "ends_within (n + m) (k x)" by (rule ends_within_mono) simp
  then show ?case by simp
next
  case (ends_within_Atomic f n)
  then show ?case by (auto intro!: ends_within.ends_within_Atomic)
qed

lemma ends_within_bind': "ends_within n p \<Longrightarrow> (\<And>x. ends_within (m - n) (k x)) \<Longrightarrow> n \<le> m \<Longrightarrow> ends_within m (bind p k)"
  using ends_within_bind [of n p "m - n" k] by simp

end
