(* ===== verification/Payment_Orders.thy ===== *)
theory Payment_Orders
  imports Payment_Rules Interaction
begin

text \<open>
  The life of one payment order under concurrent calls: notification, fulfilment, cancellation,
  expiry and reconciliation (payment_fulfillment.go, payment_order_lifecycle.go), redemption of its
  code (redeem_service.go) and refund (payment_refund.go). A call is a program of atomic database
  and provider operations; every database write may succeed, fail without effect, or take effect
  and report an error. Each update of the order is one SQL statement with the condition of the
  code, so it is atomic; the transactions of the code are atomic too. The store holds one order:
  every statement of these calls is restricted to one order by its id or number.
\<close>

section \<open>Errors\<close>

text \<open>\<open>Plain\<close>: \<open>fmt.Errorf\<close>; \<open>App\<close>: \<open>infraerrors\<close> with its HTTP status, reason and message. A
  message is cut off where the code formats a number or another error into it.\<close>

datatype svc_error = Plain string | App nat string string

abbreviation "NotFound \<equiv> App 404"
abbreviation "BadRequest \<equiv> App 400"
abbreviation "Forbidden \<equiv> App 403"
abbreviation "Conflict \<equiv> App 409"
abbreviation "InternalServer \<equiv> App 500"

definition ErrRedeemCodeNotFound :: svc_error where
  "ErrRedeemCodeNotFound = NotFound ''REDEEM_CODE_NOT_FOUND'' ''redeem code not found''"
definition ErrRedeemCodeUsed :: svc_error where
  "ErrRedeemCodeUsed = Conflict ''REDEEM_CODE_USED'' ''redeem code already used''"
definition ErrRedeemCodeExpired :: svc_error where
  "ErrRedeemCodeExpired = Conflict ''REDEEM_CODE_EXPIRED'' ''redeem code expired''"
definition ErrRedeemRateLimited :: svc_error where
  "ErrRedeemRateLimited = App 429 ''REDEEM_RATE_LIMITED'' ''too many failed attempts, please try again later''"
definition ErrRedeemCodeLocked :: svc_error where
  "ErrRedeemCodeLocked = Conflict ''REDEEM_CODE_LOCKED'' ''redeem code is being processed, please try again''"

section \<open>The store\<close>

datatype code_status = Unused | Used | CodeExpired | CodeDisabled

record RedeemCode =
  rc_Code :: string
  rc_Type :: string
  rc_Value :: f64
  rc_Status :: code_status
  rc_UsedBy :: "int option"
  rc_ExpiresAt :: "int option"
  rc_GroupID :: "int option"
  rc_ValidityDays :: int

abbreviation RedeemTypeBalance :: string where "RedeemTypeBalance \<equiv> ''balance''"
abbreviation RedeemTypeConcurrency :: string where "RedeemTypeConcurrency \<equiv> ''concurrency''"
abbreviation RedeemTypeSubscription :: string where "RedeemTypeSubscription \<equiv> ''subscription''"
abbreviation RedeemTypeInvitation :: string where "RedeemTypeInvitation \<equiv> ''invitation''"

abbreviation OrderTypeBalance :: string where "OrderTypeBalance \<equiv> ''balance''"
abbreviation OrderTypeSubscription :: string where "OrderTypeSubscription \<equiv> ''subscription''"

definition IsUsed :: "RedeemCode \<Rightarrow> bool" where
  "IsUsed r \<longleftrightarrow> rc_Status r = Used"

definition IsExpiredAt :: "RedeemCode \<Rightarrow> int \<Rightarrow> bool" where
  "IsExpiredAt r now \<longleftrightarrow>
     (if rc_Status r = CodeExpired then True
      else rc_Status r = Unused \<and> (case rc_ExpiresAt r of None \<Rightarrow> False | Some t \<Rightarrow> \<not> t > now))"

definition CanUse :: "RedeemCode \<Rightarrow> int \<Rightarrow> bool" where
  "CanUse r now \<longleftrightarrow> rc_Status r = Unused \<and> \<not> IsExpiredAt r now"

text \<open>What happened to the accounts of users, in order.\<close>

datatype ledger_entry =
    Recharged int string f64        \<comment> \<open>user, redeem code, amount added to the balance\<close>
  | ConcurrencyChanged int string int
  | SubscriptionChanged int string int
  | Granted string                  \<comment> \<open>note of a subscription assigned for the order\<close>
  | Deducted int f64
  | Restored int f64
  | SubDaysAdded int int
  | SubRevoked int

record query_response =
  q_TradeNo :: string
  q_Status :: string
  q_Amount :: f64
  q_Metadata :: metadata

record provider =
  pv_Key :: string
  pv_Identity :: metadata
  pv_Cancelable :: bool

text \<open>
  The first group of fields is the database, the second what other parts answer when asked (the
  clock, the balance of the user, provider configuration and answers, groups and entitlements) and
  may change at any time. The last two only record history: which call holds the refund lock, and
  how many refunds the gateway has acknowledged.
\<close>

record shop =
  w_order :: PaymentOrder
  w_codes :: "string \<Rightarrow> RedeemCode option"
  w_ledger :: "ledger_entry list"
  w_audit :: "string list"
  w_subnotes :: "string option"
  w_rebates :: nat
  w_cancels :: "string list"
  w_now :: int
  w_user :: "(f64 \<times> int) option"
  w_instances :: instance_db
  w_make_provider :: "PaymentProviderInstance \<Rightarrow> provider option"
  w_registry_provider :: "string \<Rightarrow> provider option"
  w_fallback_allowed :: "string \<Rightarrow> bool"
  w_query :: "string \<Rightarrow> query_response option"
  w_refund :: "string + string option"
  w_group_active :: bool
  w_entitlement :: "string + string option"
  w_active_sub :: "int option"
  w_would_expire :: bool
  w_rebate :: "f64 option"
  w_holder :: "nat option"
  w_accepted :: nat

text \<open>What does not change while the server runs: whether there is an affiliate service, the
  registry of providers by payment type, the decimal package.\<close>

record 'd service =
  sv_Affiliate :: bool
  sv_Registry :: "registry option"
  sv_Decimal :: "'d decimal_ops"

type_synonym 'a call = "(shop, 'a) prog"

section \<open>Operations on the store\<close>

definition ask :: "(shop \<Rightarrow> 'a) \<Rightarrow> 'a call" where
  "ask f = atom (\<lambda>i w. [(w, f w)])"

definition read_db :: "(shop \<Rightarrow> 'a) \<Rightarrow> 'a option call" where
  "read_db f = atom (\<lambda>i w. [(w, Some (f w)), (w, None)])"

definition chance :: "bool call" where
  "chance = atom (\<lambda>i w. [(w, True), (w, False)])"

definition write_db :: "(nat \<Rightarrow> shop \<Rightarrow> shop \<times> 'a) \<Rightarrow> 'a option call" where
  "write_db f = atom (\<lambda>i w. [(fst (f i w), Some (snd (f i w))), (w, None), (fst (f i w), None)])"

definition get_order :: "int \<Rightarrow> PaymentOrder option call" where
  "get_order oid = atom (\<lambda>i w. if o_ID (w_order w) = oid then [(w, Some (w_order w)), (w, None)]
                               else [(w, None)])"

text \<open>An unconditional \<open>writeAuditLog\<close>: a second entry with the same action violates the unique
  index, so nothing is written; a failing insert is only logged.\<close>

definition add_audit :: "string \<Rightarrow> shop \<Rightarrow> shop" where
  "add_audit a w = (if a \<in> set (w_audit w) then w else w\<lparr>w_audit := w_audit w @ [a]\<rparr>)"

definition writeAuditLog :: "string \<Rightarrow> unit call" where
  "writeAuditLog a = atom (\<lambda>i w. [(add_audit a w, ()), (w, ())])"

text \<open>\<open>hasAuditLog\<close> ignores the error of its query: a failing query is "no".\<close>

definition hasAuditLog :: "string \<Rightarrow> bool call" where
  "hasAuditLog a = atom (\<lambda>i w. [(w, a \<in> set (w_audit w)), (w, False)])"

text \<open>
  \<open>Update().Where(id, condition).Set...\<close>: one statement; the result is the number of rows changed.
  \<open>updated_at\<close> is set by every update.
\<close>

definition holder_after :: "nat \<Rightarrow> order_status \<Rightarrow> order_status \<Rightarrow> nat option \<Rightarrow> nat option" where
  "holder_after i old new h =
     (if new = REFUNDING then (if old = REFUNDING then h else Some i) else None)"

definition update_order ::
    "(PaymentOrder \<Rightarrow> bool) \<Rightarrow> (PaymentOrder \<Rightarrow> PaymentOrder) \<Rightarrow> nat \<Rightarrow> shop \<Rightarrow> shop \<times> nat" where
  "update_order condition change i w =
     (let old = w_order w
      in if condition old then
           (let new = (change old)\<lparr>o_UpdatedAt := w_now w\<rparr>
            in (w\<lparr>w_order := new, w_holder := holder_after i (o_Status old) (o_Status new) (w_holder w)\<rparr>, 1))
         else (w, 0))"

section \<open>Redeem codes\<close>

definition get_code :: "string \<Rightarrow> RedeemCode lookup call" where
  "get_code c = atom (\<lambda>i w. [(w, case w_codes w c of Some r \<Rightarrow> Found r | None \<Rightarrow> Missing),
                             (w, LookupFailed ''get redeem code'')])"

definition insert_code :: "RedeemCode \<Rightarrow> nat \<Rightarrow> shop \<Rightarrow> shop \<times> bool" where
  "insert_code r i w =
     (case w_codes w (rc_Code r) of
        None \<Rightarrow> (w\<lparr>w_codes := (w_codes w)(rc_Code r := Some r)\<rparr>, True)
      | Some _ \<Rightarrow> (w, False))"

definition CreateCode :: "RedeemCode \<Rightarrow> svc_error option call" where
  "CreateCode code0 =
     (let code = code0\<lparr>rc_Code := go_TrimSpace (rc_Code code0)\<rparr>
      in if rc_Code code = [] then Ret (Some (Plain ''code is required''))
         else
           let code = (if rc_Type code = [] then code\<lparr>rc_Type := RedeemTypeBalance\<rparr> else code)
           in if rc_Type code \<noteq> RedeemTypeInvitation \<and> rc_Value code = Fin 0
              then Ret (Some (Plain ''value must not be zero''))
              else bind (ask w_now) (\<lambda>now.
                if IsExpiredAt code now then Ret (Some ErrRedeemCodeExpired)
                else bind (write_db (insert_code code)) (\<lambda>r.
                  case r of Some True \<Rightarrow> Ret None | _ \<Rightarrow> Ret (Some (Plain ''create redeem code'')))))"

text \<open>
  The transaction of \<open>Redeem\<close>: mark the code used if it still is unused, then pass on its value.
  \<open>code\<close>, \<open>balance\<close> and \<open>concurrency\<close> were read before it.
\<close>

definition redeem_effect :: "int \<Rightarrow> RedeemCode \<Rightarrow> f64 \<Rightarrow> int \<Rightarrow> ledger_entry option" where
  "redeem_effect uid code balance concurrency =
     (if rc_Type code = RedeemTypeBalance then
        Some (Recharged uid (rc_Code code)
          (if rc_Value code < Fin 0 \<and> balance - (- rc_Value code) < Fin 0 then - balance else rc_Value code))
      else if rc_Type code = RedeemTypeConcurrency then
        (let delta = f64_to_int (rc_Value code)
         in Some (ConcurrencyChanged uid (rc_Code code)
              (if delta < 0 \<and> concurrency + delta < 0 then - concurrency else delta)))
      else if rc_Type code = RedeemTypeSubscription then
        Some (SubscriptionChanged uid (rc_Code code)
          (if rc_ValidityDays code = 0 then 30 else rc_ValidityDays code))
      else None)"

definition redeem_tx :: "int \<Rightarrow> RedeemCode \<Rightarrow> f64 \<Rightarrow> int \<Rightarrow> svc_error option call" where
  "redeem_tx uid code balance concurrency = atom (\<lambda>i w.
     case w_codes w (rc_Code code) of
       None \<Rightarrow> [(w, Some ErrRedeemCodeUsed)]
     | Some row \<Rightarrow>
         if rc_Status row \<noteq> Unused then [(w, Some ErrRedeemCodeUsed)]
         else case redeem_effect uid code balance concurrency of
           None \<Rightarrow> [(w, Some (Plain ''unsupported redeem type''))]
         | Some e \<Rightarrow>
             (let w' = w\<lparr>w_codes := (w_codes w)(rc_Code code := Some (row\<lparr>rc_Status := Used, rc_UsedBy := Some uid\<rparr>)),
                         w_ledger := w_ledger w @ [e]\<rparr>
              in [(w', None), (w, Some (Plain ''commit transaction'')), (w', Some (Plain ''commit transaction''))]))"

definition rereadCode :: "string \<Rightarrow> svc_error option call" where
  "rereadCode code =
     bind (get_code code) (\<lambda>again. case again of
       Found _ \<Rightarrow> Ret None
     | Missing \<Rightarrow> Ret (Some (Plain ''get updated redeem code''))
     | LookupFailed _ \<Rightarrow> Ret (Some (Plain ''get updated redeem code'')))"

text \<open>The part of \<open>Redeem\<close> after the code was found.\<close>

definition redeemFound :: "int \<Rightarrow> string \<Rightarrow> RedeemCode \<Rightarrow> svc_error option call" where
  "redeemFound userID code redeemCode =
     bind (ask w_now) (\<lambda>now.
       if IsExpiredAt redeemCode now then Ret (Some ErrRedeemCodeExpired)
       else if \<not> CanUse redeemCode now then Ret (Some ErrRedeemCodeUsed)
       else if rc_Type redeemCode = RedeemTypeSubscription \<and> rc_GroupID redeemCode = None
       then Ret (Some (BadRequest ''REDEEM_CODE_INVALID'' ''invalid subscription redeem code: missing group_id''))
       else bind (ask w_user) (\<lambda>u. case u of
         None \<Rightarrow> Ret (Some (Plain ''get user''))
       | Some (balance, concurrency) \<Rightarrow>
           bind (redeem_tx userID redeemCode balance concurrency) (\<lambda>e. case e of
             Some err \<Rightarrow> Ret (Some err)
           | None \<Rightarrow> rereadCode code)))"

definition Redeem :: "int \<Rightarrow> string \<Rightarrow> svc_error option call" where
  "Redeem userID code =
     bind chance (\<lambda>below_limit.
     if \<not> below_limit then Ret (Some ErrRedeemRateLimited)
     else bind chance (\<lambda>locked.
     if \<not> locked then Ret (Some ErrRedeemCodeLocked)
     else bind (get_code code) (\<lambda>r. case r of
       Missing \<Rightarrow> Ret (Some ErrRedeemCodeNotFound)
     | LookupFailed _ \<Rightarrow> Ret (Some (Plain ''get redeem code''))
     | Found redeemCode \<Rightarrow> redeemFound userID code redeemCode)))"

section \<open>Fulfilment\<close>

datatype redeemAction = redeemActionCreate | redeemActionRedeem | redeemActionSkipCompleted

definition resolveRedeemAction :: "RedeemCode lookup \<Rightarrow> redeemAction" where
  "resolveRedeemAction existing =
     (case existing of
        Found r \<Rightarrow> if IsUsed r then redeemActionSkipCompleted else redeemActionRedeem
      | _ \<Rightarrow> redeemActionCreate)"

definition markCompleted :: "PaymentOrder \<Rightarrow> string \<Rightarrow> svc_error option call" where
  "markCompleted ord auditAction =
     bind (ask w_now) (\<lambda>now.
     bind (write_db (update_order (\<lambda>x. o_ID x = o_ID ord \<and> o_Status x = RECHARGING)
             (\<lambda>x. x\<lparr>o_Status := COMPLETED, o_CompletedAt := Some now\<rparr>))) (\<lambda>r.
     case r of
       None \<Rightarrow> Ret (Some (Plain ''mark completed''))
     | Some _ \<Rightarrow> bind (writeAuditLog auditAction) (\<lambda>_. Ret None)))"

definition markFailed :: "int \<Rightarrow> string \<Rightarrow> unit call" where
  "markFailed oid cause =
     bind (ask w_now) (\<lambda>now.
     bind (write_db (update_order (\<lambda>x. o_ID x = oid \<and> o_Status x = RECHARGING)
             (\<lambda>x. x\<lparr>o_Status := FAILED, o_FailedAt := Some now, o_FailedReason := Some cause\<rparr>))) (\<lambda>r.
     case r of
       Some c \<Rightarrow> if 0 < c then writeAuditLog ''FULFILLMENT_FAILED'' else Ret ()
     | None \<Rightarrow> Ret ()))"

text \<open>
  \<open>applyAffiliateRebateForOrder\<close>: one transaction claims the audit entry, lets the affiliate
  service accrue the rebate and renames the entry when there was nothing to accrue.
\<close>

definition rebate_tx :: "svc_error option call" where
  "rebate_tx = atom (\<lambda>i w.
     (if ''AFFILIATE_REBATE_APPLIED'' \<in> set (w_audit w) \<or> ''AFFILIATE_REBATE_SKIPPED'' \<in> set (w_audit w)
      then [(w, None)]
      else case w_rebate w of
        None \<Rightarrow> [(w, Some (Plain ''accrue affiliate rebate''))]
      | Some amount \<Rightarrow>
          (let w' = (if amount \<le> Fin 0 then add_audit ''AFFILIATE_REBATE_SKIPPED'' w
                     else (add_audit ''AFFILIATE_REBATE_APPLIED'' w)\<lparr>w_rebates := Suc (w_rebates w)\<rparr>)
           in [(w', None), (w', Some (Plain ''commit affiliate rebate tx''))]))
     @ [(w, Some (Plain ''begin affiliate rebate tx''))])"

definition applyAffiliateRebateForOrder :: "'d service \<Rightarrow> PaymentOrder \<Rightarrow> svc_error option call" where
  "applyAffiliateRebateForOrder sv ord =
     (if o_OrderType ord \<noteq> OrderTypeBalance \<or> o_Amount ord \<le> Fin 0 then Ret None
      else if \<not> sv_Affiliate sv then Ret None
      else bind rebate_tx (\<lambda>r. case r of
        None \<Rightarrow> Ret None
      | Some e \<Rightarrow> bind (writeAuditLog ''AFFILIATE_REBATE_FAILED'') (\<lambda>_. Ret (Some e))))"

definition finishBalance :: "'d service \<Rightarrow> PaymentOrder \<Rightarrow> svc_error option call" where
  "finishBalance sv ord =
     bind (applyAffiliateRebateForOrder sv ord) (\<lambda>e. case e of
       Some err \<Rightarrow> Ret (Some err)
     | None \<Rightarrow> markCompleted ord ''RECHARGE_SUCCESS'')"

definition redeemAndFinish :: "'d service \<Rightarrow> PaymentOrder \<Rightarrow> svc_error option call" where
  "redeemAndFinish sv ord =
     bind (Redeem (o_UserID ord) (o_RechargeCode ord)) (\<lambda>e. case e of
       Some _ \<Rightarrow> Ret (Some (Plain ''redeem balance''))
     | None \<Rightarrow> finishBalance sv ord)"

definition balance_code :: "PaymentOrder \<Rightarrow> RedeemCode" where
  "balance_code ord = \<lparr>rc_Code = o_RechargeCode ord, rc_Type = RedeemTypeBalance, rc_Value = o_Amount ord,
     rc_Status = Unused, rc_UsedBy = None, rc_ExpiresAt = None, rc_GroupID = None, rc_ValidityDays = 0\<rparr>"

definition doBalance :: "'d service \<Rightarrow> PaymentOrder \<Rightarrow> svc_error option call" where
  "doBalance sv ord =
     bind (get_code (o_RechargeCode ord)) (\<lambda>existing.
     case resolveRedeemAction existing of
       redeemActionSkipCompleted \<Rightarrow> finishBalance sv ord
     | redeemActionCreate \<Rightarrow>
         bind (CreateCode (balance_code ord)) (\<lambda>e. case e of
           Some _ \<Rightarrow> Ret (Some (Plain ''create redeem code''))
         | None \<Rightarrow> redeemAndFinish sv ord)
     | redeemActionRedeem \<Rightarrow> redeemAndFinish sv ord)"

text \<open>The guards of both fulfilment functions; \<open>None\<close>: go on.\<close>

definition fulfil_guard :: "PaymentOrder \<Rightarrow> svc_error option option" where
  "fulfil_guard ord =
     (if o_Status ord = COMPLETED then Some None
      else if psIsRefundStatus (o_Status ord)
      then Some (Some (BadRequest ''INVALID_STATUS'' ''refund-related order cannot fulfill''))
      else if o_Status ord \<noteq> PAID \<and> o_Status ord \<noteq> FAILED
      then Some (Some (BadRequest ''INVALID_STATUS'' ''order cannot fulfill in status''))
      else None)"

text \<open>Take the order from PAID or FAILED to RECHARGING, do the work, mark FAILED on an error.\<close>

definition locked_fulfilment :: "int \<Rightarrow> svc_error option call \<Rightarrow> svc_error option call" where
  "locked_fulfilment oid work =
     bind (write_db (update_order (\<lambda>x. o_ID x = oid \<and> (o_Status x = PAID \<or> o_Status x = FAILED))
             (\<lambda>x. x\<lparr>o_Status := RECHARGING\<rparr>))) (\<lambda>r.
     case r of
       None \<Rightarrow> Ret (Some (Plain ''lock''))
     | Some c \<Rightarrow>
         if c = 0 then Ret None
         else bind work (\<lambda>e. case e of
           None \<Rightarrow> Ret None
         | Some err \<Rightarrow> bind (markFailed oid ''fulfillment failed'') (\<lambda>_. Ret (Some err))))"

definition ExecuteBalanceFulfillment :: "'d service \<Rightarrow> int \<Rightarrow> svc_error option call" where
  "ExecuteBalanceFulfillment sv oid =
     bind (get_order oid) (\<lambda>r. case r of
       None \<Rightarrow> Ret (Some (NotFound ''NOT_FOUND'' ''order not found''))
     | Some ord \<Rightarrow> (case fulfil_guard ord of
         Some result \<Rightarrow> Ret result
       | None \<Rightarrow> locked_fulfilment oid (doBalance sv ord)))"

definition appendSubscriptionNotes :: "string \<Rightarrow> string \<Rightarrow> string" where
  "appendSubscriptionNotes existingNotes newNotes =
     (if newNotes = [] then existingNotes else if existingNotes = [] then newNotes
      else existingNotes @ [CHR 0x0A] @ newNotes)"

text \<open>\<open>AlreadyGranted\<close>: the audit log, then the marker in the notes of the subscription.\<close>

definition AlreadyGranted :: "PaymentOrder \<Rightarrow> bool call" where
  "AlreadyGranted ord =
     bind (hasAuditLog ''CODEXPLUS_ENTITLEMENT_GRANTED'') (\<lambda>g.
     if g then Ret True
     else bind (hasAuditLog ''SUBSCRIPTION_SUCCESS'') (\<lambda>s.
     if s then Ret True
     else if (case o_SubscriptionGroupID ord of None \<Rightarrow> 0 | Some g \<Rightarrow> g) \<le> 0 then Ret False
     else bind (read_db w_subnotes) (\<lambda>n. case n of
       Some (Some notes) \<Rightarrow> Ret (codexPlusCommerceSubscriptionHasOrderMarker notes (o_ID ord))
     | _ \<Rightarrow> Ret False)))"

definition assign_subscription :: "string \<Rightarrow> nat \<Rightarrow> shop \<Rightarrow> shop \<times> unit" where
  "assign_subscription note i w =
     (w\<lparr>w_subnotes := Some (case w_subnotes w of None \<Rightarrow> note | Some n \<Rightarrow> appendSubscriptionNotes n note),
        w_ledger := w_ledger w @ [Granted note]\<rparr>, ())"

definition doSub :: "PaymentOrder \<Rightarrow> svc_error option call" where
  "doSub ord =
     bind (read_db w_group_active) (\<lambda>g.
     if g \<noteq> Some True then Ret (Some (Plain ''group no longer exists or inactive''))
     else bind (ask w_entitlement) (\<lambda>ent. case ent of
       Inl _ \<Rightarrow> Ret (Some (Plain ''resolve Codex++ entitlement''))
     | Inr plan \<Rightarrow> bind (AlreadyGranted ord) (\<lambda>granted.
         if granted then
           bind (writeAuditLog ''CODEXPLUS_ENTITLEMENT_ALREADY_GRANTED'') (\<lambda>_. markCompleted ord ''SUBSCRIPTION_SUCCESS'')
         else
           bind (write_db (assign_subscription (GrantNote (o_ID ord) plan))) (\<lambda>r. case r of
             None \<Rightarrow> Ret (Some (Plain ''assign subscription''))
           | Some _ \<Rightarrow>
               bind (if plan = None then Ret () else writeAuditLog ''CODEXPLUS_ENTITLEMENT_GRANTED'')
                 (\<lambda>_. markCompleted ord ''SUBSCRIPTION_SUCCESS'')))))"

definition ExecuteSubscriptionFulfillment :: "int \<Rightarrow> svc_error option call" where
  "ExecuteSubscriptionFulfillment oid =
     bind (get_order oid) (\<lambda>r. case r of
       None \<Rightarrow> Ret (Some (NotFound ''NOT_FOUND'' ''order not found''))
     | Some ord \<Rightarrow> (case fulfil_guard ord of
         Some result \<Rightarrow> Ret result
       | None \<Rightarrow>
           if o_SubscriptionGroupID ord = None \<or> o_SubscriptionDays ord = None
           then Ret (Some (BadRequest ''INVALID_STATUS'' ''missing subscription info''))
           else locked_fulfilment oid (doSub ord)))"

definition executeFulfillment :: "'d service \<Rightarrow> int \<Rightarrow> svc_error option call" where
  "executeFulfillment sv oid =
     bind (get_order oid) (\<lambda>r. case r of
       None \<Rightarrow> Ret (Some (Plain ''get order''))
     | Some ord \<Rightarrow>
         if o_OrderType ord = OrderTypeSubscription then ExecuteSubscriptionFulfillment oid
         else ExecuteBalanceFulfillment sv oid)"

definition RetryFulfillment :: "'d service \<Rightarrow> int \<Rightarrow> svc_error option call" where
  "RetryFulfillment sv oid =
     bind (get_order oid) (\<lambda>r. case r of
       None \<Rightarrow> Ret (Some (NotFound ''NOT_FOUND'' ''order not found''))
     | Some ord \<Rightarrow>
         if o_PaidAt ord = None then Ret (Some (BadRequest ''INVALID_STATUS'' ''order is not paid''))
         else if psIsRefundStatus (o_Status ord)
         then Ret (Some (BadRequest ''INVALID_STATUS'' ''refund-related order cannot retry''))
         else if o_Status ord = RECHARGING then Ret (Some (Conflict ''CONFLICT'' ''order is being processed''))
         else if o_Status ord = COMPLETED then Ret (Some (BadRequest ''INVALID_STATUS'' ''order already completed''))
         else if o_Status ord \<noteq> FAILED \<and> o_Status ord \<noteq> PAID
         then Ret (Some (BadRequest ''INVALID_STATUS'' ''only paid and failed orders can retry''))
         else
           bind (write_db (update_order (\<lambda>x. o_ID x = oid \<and> (o_Status x = FAILED \<or> o_Status x = PAID))
                   (\<lambda>x. x\<lparr>o_Status := PAID, o_FailedAt := None, o_FailedReason := None\<rparr>))) (\<lambda>c. case c of
             None \<Rightarrow> Ret (Some (Plain ''reset for retry''))
           | Some _ \<Rightarrow> bind (writeAuditLog ''RECHARGE_RETRY'') (\<lambda>_. executeFulfillment sv oid)))"

section \<open>Notification\<close>

definition alreadyProcessed :: "'d service \<Rightarrow> PaymentOrder \<Rightarrow> svc_error option call" where
  "alreadyProcessed sv ord =
     bind (get_order (o_ID ord)) (\<lambda>r. case r of
       None \<Rightarrow> Ret None
     | Some cur \<Rightarrow>
         if o_Status cur = COMPLETED \<or> o_Status cur = REFUNDED then Ret None
         else if o_Status cur = FAILED then executeFulfillment sv (o_ID ord)
         else if o_Status cur = PAID \<or> o_Status cur = RECHARGING then Ret (Some (Plain ''order is being processed''))
         else if o_Status cur = EXPIRED then bind (writeAuditLog ''PAYMENT_AFTER_EXPIRY'') (\<lambda>_. Ret None)
         else Ret None)"

text \<open>The clock counts nanoseconds.\<close>

definition paymentGrace :: int where
  "paymentGrace = 5 * 60 * 1000000000"

definition toPaid :: "'d service \<Rightarrow> PaymentOrder \<Rightarrow> string \<Rightarrow> f64 \<Rightarrow> svc_error option call" where
  "toPaid sv ord tradeNo paid =
     bind (ask w_now) (\<lambda>now.
     bind (write_db (update_order
             (\<lambda>x. o_ID x = o_ID ord \<and>
                (o_Status x = PENDING \<or> o_Status x = CANCELLED \<or>
                 (o_Status x = EXPIRED \<and> now - paymentGrace \<le> o_UpdatedAt x)))
             (\<lambda>x. x\<lparr>o_Status := PAID, o_PayAmount := paid, o_PaymentTradeNo := tradeNo, o_PaidAt := Some now,
                    o_FailedAt := None, o_FailedReason := None\<rparr>))) (\<lambda>r.
     case r of
       None \<Rightarrow> Ret (Some (Plain ''update to PAID''))
     | Some c \<Rightarrow>
         if c = 0 then alreadyProcessed sv ord
         else
           bind (if o_Status ord = CANCELLED \<or> o_Status ord = EXPIRED then writeAuditLog ''ORDER_RECOVERED'' else Ret ())
             (\<lambda>_. bind (writeAuditLog ''ORDER_PAID'') (\<lambda>_. executeFulfillment sv (o_ID ord)))))"

definition confirmPayment ::
    "'d service \<Rightarrow> int \<Rightarrow> string \<Rightarrow> f64 \<Rightarrow> string \<Rightarrow> metadata \<Rightarrow> svc_error option call" where
  "confirmPayment sv oid tradeNo paid pk metadata =
     bind (get_order oid) (\<lambda>r. case r of
       None \<Rightarrow> Ret None
     | Some ord \<Rightarrow> bind (ask (\<lambda>w. getOrderProviderInstance (w_instances w) ord)) (\<lambda>inst.
         let instanceProviderKey = (case inst of Inr (Some i) \<Rightarrow> pi_ProviderKey i | _ \<Rightarrow> []);
             expectedProviderKey = expectedNotificationProviderKeyForOrder (sv_Registry sv) ord instanceProviderKey
         in if expectedProviderKey \<noteq> [] \<and> go_TrimSpace pk \<noteq> [] \<and>
               \<not> go_EqualFold expectedProviderKey (go_TrimSpace pk)
            then bind (writeAuditLog ''PAYMENT_PROVIDER_MISMATCH'') (\<lambda>_.
              Ret (Some (Plain (''provider mismatch: expected '' @ expectedProviderKey @ '', got '' @ pk))))
            else case validateProviderNotificationMetadata ord pk metadata of
              Some e \<Rightarrow> bind (writeAuditLog ''PAYMENT_PROVIDER_METADATA_MISMATCH'') (\<lambda>_. Ret (Some (Plain e)))
            | None \<Rightarrow>
                if \<not> isValidProviderAmount paid
                then bind (writeAuditLog ''PAYMENT_INVALID_AMOUNT'') (\<lambda>_.
                  Ret (Some (Plain ''invalid paid amount from provider'')))
                else if paymentAmountToleranceForCurrency (PaymentOrderCurrency ord) < \<bar>paid - o_PayAmount ord\<bar>
                then bind (writeAuditLog ''PAYMENT_AMOUNT_MISMATCH'') (\<lambda>_. Ret (Some (Plain ''amount mismatch'')))
                else toPaid sv ord tradeNo paid))"

record PaymentNotification =
  n_TradeNo :: string
  n_OrderID :: string
  n_Amount :: f64
  n_Status :: string
  n_Metadata :: metadata

definition HandlePaymentNotification :: "'d service \<Rightarrow> PaymentNotification \<Rightarrow> string \<Rightarrow> svc_error option call" where
  "HandlePaymentNotification sv n pk =
     (if n_Status n \<noteq> ''success'' then Ret None
      else bind (read_db w_order) (\<lambda>r. case r of
        None \<Rightarrow> Ret (Some (Plain ''lookup order failed for out_trade_no''))
      | Some ord \<Rightarrow>
          if o_OutTradeNo ord = n_OrderID n
          then confirmPayment sv (o_ID ord) (n_TradeNo n) (n_Amount n) pk (n_Metadata n)
          else case parseLegacyPaymentOrderID (n_OrderID n) True of
            Some oid \<Rightarrow> confirmPayment sv oid (n_TradeNo n) (n_Amount n) pk (n_Metadata n)
          | None \<Rightarrow> Ret (Some (Plain ''payment order not found''))))"

section \<open>Cancellation, expiry and reconciliation\<close>

definition createProviderFromInstance :: "PaymentProviderInstance \<Rightarrow> provider option call" where
  "createProviderFromInstance inst = ask (\<lambda>w. w_make_provider w inst)"

definition getOrderProvider :: "'d service \<Rightarrow> PaymentOrder \<Rightarrow> provider option call" where
  "getOrderProvider sv ord =
     bind (ask (\<lambda>w. getOrderProviderInstance (w_instances w) ord)) (\<lambda>r. case r of
       Inl _ \<Rightarrow> Ret None
     | Inr (Some inst) \<Rightarrow> createProviderFromInstance inst
     | Inr None \<Rightarrow>
         if \<not> paymentOrderAllowsRegistryFallback ord then Ret None
         else
           let providerKey = paymentOrderFallbackProviderKey (sv_Registry sv) ord
           in if providerKey = [] then Ret None
              else bind (ask (\<lambda>w. w_fallback_allowed w providerKey)) (\<lambda>ok.
                if \<not> ok then Ret None else ask (\<lambda>w. w_registry_provider w (o_PaymentType ord))))"

definition requeryPaidOrderOnce :: "string \<Rightarrow> query_response option call" where
  "requeryPaidOrderOnce queryRef =
     (if go_TrimSpace queryRef = [] then Ret None
      else bind (ask (\<lambda>w. w_query w queryRef)) (\<lambda>resp. case resp of
        None \<Rightarrow> Ret None
      | Some q \<Rightarrow> if q_Status q \<noteq> ''paid'' \<or> \<not> isValidProviderAmount (q_Amount q) then Ret None else Ret (Some q)))"

text \<open>The paid branch of \<open>checkPaidWithOptions\<close>: remember the upstream trade number, then treat the
  answer as a notification.\<close>

definition upstreamPaid :: "'d service \<Rightarrow> PaymentOrder \<Rightarrow> provider \<Rightarrow> string \<Rightarrow> query_response \<Rightarrow> string call" where
  "upstreamPaid sv ord prov queryRef resp =
     (let upstreamTradeNo = go_TrimSpace (q_TradeNo resp);
          persist = paymentOrderShouldPersistUpstreamTradeNo queryRef upstreamTradeNo (o_PaymentTradeNo ord);
          notificationTradeNo = (if persist then upstreamTradeNo else o_PaymentTradeNo ord)
      in bind (if persist
               then bind (write_db (update_order (\<lambda>x. o_ID x = o_ID ord)
                            (\<lambda>x. x\<lparr>o_PaymentTradeNo := upstreamTradeNo\<rparr>))) (\<lambda>_. Ret ())
               else Ret ())
           (\<lambda>_. bind (HandlePaymentNotification sv
                   \<lparr>n_TradeNo = notificationTradeNo, n_OrderID = o_OutTradeNo ord, n_Amount = q_Amount resp,
                    n_Status = ''success'', n_Metadata = q_Metadata resp\<rparr> (pv_Key prov))
             (\<lambda>_. Ret ''already_paid'')))"

definition checkPaidWithOptions :: "'d service \<Rightarrow> PaymentOrder \<Rightarrow> bool \<Rightarrow> string call" where
  "checkPaidWithOptions sv ord cancelIfUnpaid =
     bind (getOrderProvider sv ord) (\<lambda>p. case p of
       None \<Rightarrow> Ret []
     | Some prov \<Rightarrow>
         let queryRef = paymentOrderQueryReference ord (Some (pv_Key prov))
         in if queryRef = [] then Ret []
            else bind (ask (\<lambda>w. w_query w queryRef)) (\<lambda>answer. case answer of
              None \<Rightarrow> Ret []
            | Some resp \<Rightarrow>
                if q_Status resp = ''paid'' then
                  (if isValidProviderAmount (q_Amount resp) then upstreamPaid sv ord prov queryRef resp
                   else bind (writeAuditLog ''PAYMENT_INVALID_AMOUNT'') (\<lambda>_.
                     bind (requeryPaidOrderOnce queryRef) (\<lambda>again. case again of
                       None \<Rightarrow> Ret []
                     | Some resp' \<Rightarrow> upstreamPaid sv ord prov queryRef resp')))
                else if \<not> cancelIfUnpaid then Ret []
                else if pv_Cancelable prov
                then bind (atom (\<lambda>i w. [(w\<lparr>w_cancels := w_cancels w @ [queryRef]\<rparr>, ()), (w, ())])) (\<lambda>_. Ret [])
                else Ret []))"

definition checkPaid :: "'d service \<Rightarrow> PaymentOrder \<Rightarrow> string call" where
  "checkPaid sv ord = checkPaidWithOptions sv ord True"

definition reconcilePaid :: "'d service \<Rightarrow> PaymentOrder \<Rightarrow> string call" where
  "reconcilePaid sv ord = checkPaidWithOptions sv ord False"

text \<open>\<open>fs\<close> is CANCELLED or EXPIRED.\<close>

definition cancelCore :: "'d service \<Rightarrow> PaymentOrder \<Rightarrow> order_status \<Rightarrow> (svc_error + string) call" where
  "cancelCore sv ord fs =
     bind (if o_PaymentTradeNo ord \<noteq> [] \<or> o_PaymentType ord \<noteq> [] then checkPaid sv ord else Ret []) (\<lambda>paid.
     if paid = ''already_paid'' then Ret (Inr ''already_paid'')
     else bind (write_db (update_order (\<lambda>x. o_ID x = o_ID ord \<and> o_Status x = PENDING)
                 (\<lambda>x. x\<lparr>o_Status := fs\<rparr>))) (\<lambda>r. case r of
       None \<Rightarrow> Ret (Inl (Plain ''update order status''))
     | Some c \<Rightarrow>
         bind (if 0 < c then writeAuditLog (if fs = EXPIRED then ''ORDER_EXPIRED'' else ''ORDER_CANCELLED'') else Ret ())
           (\<lambda>_. Ret (Inr ''cancelled''))))"

definition CancelOrder :: "'d service \<Rightarrow> int \<Rightarrow> int \<Rightarrow> (svc_error + string) call" where
  "CancelOrder sv orderID userID =
     bind (get_order orderID) (\<lambda>r. case r of
       None \<Rightarrow> Ret (Inl (NotFound ''NOT_FOUND'' ''order not found''))
     | Some ord \<Rightarrow>
         if o_UserID ord \<noteq> userID then Ret (Inl (Forbidden ''FORBIDDEN'' ''no permission for this order''))
         else if o_Status ord \<noteq> PENDING
         then Ret (Inl (BadRequest ''INVALID_STATUS'' ''order cannot be cancelled in current status''))
         else cancelCore sv ord CANCELLED)"

definition AdminCancelOrder :: "'d service \<Rightarrow> int \<Rightarrow> (svc_error + string) call" where
  "AdminCancelOrder sv orderID =
     bind (get_order orderID) (\<lambda>r. case r of
       None \<Rightarrow> Ret (Inl (NotFound ''NOT_FOUND'' ''order not found''))
     | Some ord \<Rightarrow>
         if o_Status ord \<noteq> PENDING
         then Ret (Inl (BadRequest ''INVALID_STATUS'' ''order cannot be cancelled in current status''))
         else cancelCore sv ord CANCELLED)"

text \<open>The loops over the orders a query returns, for the order of the store.\<close>

definition ExpireTimedOutOrders :: "'d service \<Rightarrow> (svc_error + nat) call" where
  "ExpireTimedOutOrders sv =
     bind (ask w_now) (\<lambda>now.
     bind (read_db w_order) (\<lambda>r. case r of
       None \<Rightarrow> Ret (Inl (Plain ''query expired''))
     | Some ord \<Rightarrow>
         if o_Status ord = PENDING \<and> o_ExpiresAt ord \<le> now
         then bind (cancelCore sv ord EXPIRED) (\<lambda>outcome. case outcome of
           Inr s \<Rightarrow> Ret (Inr (if s = ''already_paid'' then 0 else if s \<noteq> [] then 1 else 0))
         | Inl _ \<Rightarrow> Ret (Inr 0))
         else Ret (Inr 0)))"

definition is_wxpay :: "PaymentOrder \<Rightarrow> bool" where
  "is_wxpay ord \<longleftrightarrow>
     o_PaymentType ord = TypeWxpay \<or> go_HasPrefix (o_PaymentType ord) ''wxpay_'' \<or>
     (case o_ProviderKey ord of None \<Rightarrow> False | Some k \<Rightarrow> k = TypeWxpay \<or> go_HasPrefix k ''wxpay_'')"

definition ReconcilePendingWxpayOrders :: "'d service \<Rightarrow> (svc_error + nat) call" where
  "ReconcilePendingWxpayOrders sv =
     bind (ask w_now) (\<lambda>now.
     bind (read_db w_order) (\<lambda>r. case r of
       None \<Rightarrow> Ret (Inl (Plain ''query pending wxpay orders''))
     | Some ord \<Rightarrow>
         if o_Status ord = PENDING \<and> now < o_ExpiresAt ord \<and> is_wxpay ord
         then bind (reconcilePaid sv ord) (\<lambda>s. Ret (Inr (if s = ''already_paid'' then 1 else 0)))
         else Ret (Inr 0)))"

definition VerifyOrderByOutTradeNo :: "'d service \<Rightarrow> string \<Rightarrow> int \<Rightarrow> (svc_error + PaymentOrder) call" where
  "VerifyOrderByOutTradeNo sv raw userID =
     (case normalizeOrderLookupOutTradeNo raw of
        Inl m \<Rightarrow> Ret (Inl (BadRequest ''INVALID_OUT_TRADE_NO'' m))
      | Inr outTradeNo \<Rightarrow>
          bind (read_db w_order) (\<lambda>r. case r of
            None \<Rightarrow> Ret (Inl (NotFound ''NOT_FOUND'' ''order not found''))
          | Some ord \<Rightarrow>
              if o_OutTradeNo ord \<noteq> outTradeNo then Ret (Inl (NotFound ''NOT_FOUND'' ''order not found''))
              else if o_UserID ord \<noteq> userID then Ret (Inl (Forbidden ''FORBIDDEN'' ''no permission for this order''))
              else if o_Status ord = PENDING \<or> o_Status ord = EXPIRED
              then bind (reconcilePaid sv ord) (\<lambda>result.
                if result = ''already_paid''
                then bind (get_order (o_ID ord)) (\<lambda>again. case again of
                  None \<Rightarrow> Ret (Inl (Plain ''reload order'')) | Some o' \<Rightarrow> Ret (Inr o'))
                else Ret (Inr ord))
              else Ret (Inr ord)))"

section \<open>Refund\<close>

definition RequestRefund :: "int \<Rightarrow> int \<Rightarrow> string \<Rightarrow> svc_error option call" where
  "RequestRefund oid uid reason =
     bind (get_order oid) (\<lambda>r. case r of
       None \<Rightarrow> Ret (Some (NotFound ''NOT_FOUND'' ''order not found''))
     | Some ord \<Rightarrow>
         if o_UserID ord \<noteq> uid then Ret (Some (Forbidden ''FORBIDDEN'' ''no permission''))
         else if o_OrderType ord \<noteq> OrderTypeBalance
         then Ret (Some (BadRequest ''INVALID_ORDER_TYPE'' ''only balance orders can request refund''))
         else if o_Status ord \<noteq> COMPLETED
         then Ret (Some (BadRequest ''INVALID_STATUS'' ''only completed orders can request refund''))
         else bind (ask (\<lambda>w. getRefundOrderProviderInstance (w_instances w) ord)) (\<lambda>inst. case inst of
           Inr (Some i) \<Rightarrow>
             if \<not> pi_AllowUserRefund i
             then Ret (Some (Forbidden ''USER_REFUND_DISABLED'' ''user refund is not enabled for this provider''))
             else bind (ask w_user) (\<lambda>u. case u of
               Some (balance, _) \<Rightarrow>
                 if balance < o_Amount ord
                 then Ret (Some (BadRequest ''BALANCE_NOT_ENOUGH'' ''refund amount exceeds balance''))
                 else bind (ask w_now) (\<lambda>now.
                   bind (write_db (update_order
                          (\<lambda>x. o_ID x = oid \<and> o_UserID x = uid \<and> o_Status x = COMPLETED \<and> o_OrderType x = OrderTypeBalance)
                          (\<lambda>x. x\<lparr>o_Status := REFUND_REQUESTED, o_RefundRequestedAt := Some now,
                                 o_RefundRequestReason := Some (go_TrimSpace reason),
                                 o_RefundRequestedBy := Some (go_FormatInt uid), o_RefundAmount := o_Amount ord\<rparr>))) (\<lambda>c.
                   case c of
                     None \<Rightarrow> Ret (Some (Plain ''update''))
                   | Some k \<Rightarrow> if k = 0 then Ret (Some (Conflict ''CONFLICT'' ''order status changed''))
                               else bind (writeAuditLog ''REFUND_REQUESTED'') (\<lambda>_. Ret None)))
             | None \<Rightarrow> Ret (Some (Plain ''get user'')))
         | _ \<Rightarrow> Ret (Some (Forbidden ''USER_REFUND_DISABLED'' ''refund is not available for this order''))))"

datatype deduction_type = DeductionTypeBalance | DeductionTypeSubscription | DeductionTypeNone

record RefundPlan =
  p_OrderID :: int
  p_Order :: PaymentOrder
  p_RefundAmount :: f64
  p_GatewayAmount :: f64
  p_Reason :: string
  p_Force :: bool
  p_DeductBalance :: bool
  p_DeductionType :: deduction_type
  p_BalanceToDeduct :: f64
  p_SubDaysToDeduct :: int
  p_SubscriptionID :: int

record RefundResult =
  rr_Success :: bool
  rr_Warning :: string
  rr_RequireForce :: bool
  rr_BalanceDeducted :: f64
  rr_SubDaysDeducted :: int

definition require_force :: "string \<Rightarrow> RefundResult" where
  "require_force warning = \<lparr>rr_Success = False, rr_Warning = warning, rr_RequireForce = True,
     rr_BalanceDeducted = Fin 0, rr_SubDaysDeducted = 0\<rparr>"

definition prepDeduct :: "PaymentOrder \<Rightarrow> RefundPlan \<Rightarrow> bool \<Rightarrow> (RefundResult + RefundPlan) call" where
  "prepDeduct ord plan force =
     (if o_OrderType ord = OrderTypeSubscription then
        (let p1 = plan\<lparr>p_DeductionType := DeductionTypeSubscription\<rparr>
         in case (o_SubscriptionGroupID ord, o_SubscriptionDays ord) of
              (Some _, Some days) \<Rightarrow>
                (let p2 = p1\<lparr>p_SubDaysToDeduct := days\<rparr>
                 in bind (read_db w_active_sub) (\<lambda>s. case s of
                      Some (Some sid) \<Rightarrow> Ret (Inr (p2\<lparr>p_SubscriptionID := sid\<rparr>))
                    | _ \<Rightarrow> if \<not> force
                           then Ret (Inl (require_force ''cannot find active subscription for deduction, use force''))
                           else Ret (Inr p2)))
            | _ \<Rightarrow> Ret (Inr p1))
      else bind (ask w_user) (\<lambda>u. case u of
        Some (balance, _) \<Rightarrow>
          Ret (Inr (plan\<lparr>p_DeductionType := DeductionTypeBalance,
                         p_BalanceToDeduct := f64_min (p_RefundAmount plan) balance\<rparr>))
      | None \<Rightarrow> if \<not> force then Ret (Inl (require_force ''cannot fetch user balance, use force''))
             else Ret (Inr plan)))"

definition refund_reason :: "PaymentOrder \<Rightarrow> string \<Rightarrow> string" where
  "refund_reason ord reason =
     (let r1 = go_TrimSpace reason;
          r2 = (if r1 = [] then (case o_RefundRequestReason ord of Some r \<Rightarrow> r | None \<Rightarrow> r1) else r1)
      in if r2 = [] then ''refund order:'' @ go_FormatInt (o_ID ord) else r2)"

text \<open>The result of \<open>PrepareRefund\<close>: an error, an early result, or the plan.\<close>

datatype prepared = PrepError svc_error | PrepEarly RefundResult | PrepPlan RefundPlan

definition PrepareRefund :: "'d service \<Rightarrow> int \<Rightarrow> f64 \<Rightarrow> string \<Rightarrow> bool \<Rightarrow> bool \<Rightarrow> prepared call" where
  "PrepareRefund sv oid amt0 reason force deduct =
     bind (get_order oid) (\<lambda>r. case r of
       None \<Rightarrow> Ret (PrepError (NotFound ''NOT_FOUND'' ''order not found''))
     | Some ord \<Rightarrow>
         if o_Status ord \<notin> {COMPLETED, REFUND_REQUESTED, REFUND_FAILED}
         then Ret (PrepError (BadRequest ''INVALID_STATUS'' ''order status does not allow refund''))
         else bind (ask (\<lambda>w. getRefundOrderProviderInstance (w_instances w) ord)) (\<lambda>inst. case inst of
           Inl _ \<Rightarrow> Ret (PrepError (InternalServer ''PROVIDER_LOOKUP_FAILED'' ''failed to look up payment provider for this order''))
         | Inr None \<Rightarrow> Ret (PrepError (Forbidden ''REFUND_DISABLED'' ''refund is not available for this order''))
         | Inr (Some i) \<Rightarrow>
             if \<not> pi_RefundEnabled i
             then Ret (PrepError (Forbidden ''REFUND_DISABLED'' ''refund is not enabled for this provider''))
             else if amt0 = NaN \<or> amt0 = PInf \<or> amt0 = NInf
             then Ret (PrepError (BadRequest ''INVALID_AMOUNT'' ''invalid refund amount''))
             else
               let amt = (if amt0 \<le> Fin 0 then o_Amount ord else amt0);
                   orderCurrency = PaymentOrderCurrency ord
               in if paymentAmountToleranceForCurrency orderCurrency < amt - o_Amount ord
                  then Ret (PrepError (BadRequest ''REFUND_AMOUNT_EXCEEDED'' ''refund amount exceeds recharge''))
                  else
                    let plan = \<lparr>p_OrderID = oid, p_Order = ord, p_RefundAmount = amt,
                          p_GatewayAmount = calculateGatewayRefundAmount (sv_Decimal sv) (o_Amount ord)
                            (o_PayAmount ord) amt orderCurrency,
                          p_Reason = refund_reason ord reason, p_Force = force, p_DeductBalance = deduct,
                          p_DeductionType = DeductionTypeNone, p_BalanceToDeduct = Fin 0,
                          p_SubDaysToDeduct = 0, p_SubscriptionID = 0\<rparr>
                    in if deduct
                       then bind (prepDeduct ord plan force) (\<lambda>d. case d of
                         Inl early \<Rightarrow> Ret (PrepEarly early) | Inr p \<Rightarrow> Ret (PrepPlan p))
                       else Ret (PrepPlan plan)))"

text \<open>\<open>UpdateOneID(id)\<close>: no row is an error.\<close>

definition set_status_by_id :: "int \<Rightarrow> (PaymentOrder \<Rightarrow> PaymentOrder) \<Rightarrow> unit option call" where
  "set_status_by_id oid change =
     bind (write_db (update_order (\<lambda>x. o_ID x = oid) change)) (\<lambda>r.
       Ret (case r of Some c \<Rightarrow> if c = 0 then None else Some () | None \<Rightarrow> None))"

definition restoreStatus :: "RefundPlan \<Rightarrow> unit call" where
  "restoreStatus p =
     bind (set_status_by_id (p_OrderID p)
       (\<lambda>x. x\<lparr>o_Status := (if o_Status (p_Order p) = REFUND_REQUESTED then REFUND_REQUESTED else COMPLETED)\<rparr>))
       (\<lambda>_. Ret ())"

definition add_ledger :: "ledger_entry \<Rightarrow> unit option call" where
  "add_ledger e = write_db (\<lambda>i w. (w\<lparr>w_ledger := w_ledger w @ [e]\<rparr>, ()))"

text \<open>\<open>ExtendSubscription\<close> with a negative number of days refuses when it would expire the term.\<close>

datatype extend_result = Extended | WouldExpire | ExtendFailed

definition ExtendSubscription :: "int \<Rightarrow> int \<Rightarrow> extend_result call" where
  "ExtendSubscription subID days = atom (\<lambda>i w.
     if days < 0 \<and> w_would_expire w then [(w, WouldExpire), (w, ExtendFailed)]
     else (let w' = w\<lparr>w_ledger := w_ledger w @ [SubDaysAdded subID days]\<rparr>
           in [(w', Extended), (w, ExtendFailed), (w', ExtendFailed)]))"

definition RollbackRefund :: "RefundPlan \<Rightarrow> bool call" where
  "RollbackRefund p =
     bind (if p_DeductionType p = DeductionTypeBalance \<and> Fin 0 < p_BalanceToDeduct p
           then bind (add_ledger (Restored (o_UserID (p_Order p)) (p_BalanceToDeduct p))) (\<lambda>r. case r of
             Some _ \<Rightarrow> Ret True
           | None \<Rightarrow> bind (writeAuditLog ''REFUND_ROLLBACK_FAILED'') (\<lambda>_. Ret False))
           else Ret True) (\<lambda>ok.
     if \<not> ok then Ret False
     else if p_DeductionType p = DeductionTypeSubscription \<and> 0 < p_SubDaysToDeduct p \<and> 0 < p_SubscriptionID p
     then bind (ExtendSubscription (p_SubscriptionID p) (p_SubDaysToDeduct p)) (\<lambda>r.
       if r = Extended then Ret True
       else bind (writeAuditLog ''REFUND_ROLLBACK_FAILED'') (\<lambda>_. Ret False))
     else Ret True)"

definition rolled_back :: RefundResult where
  "rolled_back = \<lparr>rr_Success = False, rr_Warning = ''gateway failed, rolled back'', rr_RequireForce = False,
     rr_BalanceDeducted = Fin 0, rr_SubDaysDeducted = 0\<rparr>"

definition handleGwFail :: "RefundPlan \<Rightarrow> string \<Rightarrow> (svc_error + RefundResult) call" where
  "handleGwFail p gErr =
     bind (RollbackRefund p) (\<lambda>ok.
     if ok then
       bind (restoreStatus p) (\<lambda>_.
       bind (writeAuditLog ''REFUND_GATEWAY_FAILED'') (\<lambda>_. Ret (Inr rolled_back)))
     else
       bind (ask w_now) (\<lambda>now.
       bind (set_status_by_id (p_OrderID p)
         (\<lambda>x. x\<lparr>o_Status := REFUND_FAILED, o_FailedAt := Some now, o_FailedReason := Some gErr\<rparr>)) (\<lambda>_.
       bind (writeAuditLog ''REFUND_FAILED'') (\<lambda>_. Ret (Inl (InternalServer ''REFUND_FAILED'' gErr))))))"

definition markRefundOk :: "RefundPlan \<Rightarrow> (svc_error + RefundResult) call" where
  "markRefundOk p =
     bind (ask w_now) (\<lambda>now.
     bind (set_status_by_id (p_OrderID p)
       (\<lambda>x. x\<lparr>o_Status := (if p_RefundAmount p < o_Amount (p_Order p) then PARTIALLY_REFUNDED else REFUNDED),
              o_RefundAmount := p_RefundAmount p, o_RefundReason := Some (p_Reason p), o_RefundAt := Some now,
              o_ForceRefund := p_Force p\<rparr>)) (\<lambda>r. case r of
       None \<Rightarrow> Ret (Inl (Plain ''mark refund''))
     | Some _ \<Rightarrow> bind (writeAuditLog ''REFUND_SUCCESS'') (\<lambda>_.
         Ret (Inr \<lparr>rr_Success = True, rr_Warning = [], rr_RequireForce = False,
           rr_BalanceDeducted = p_BalanceToDeduct p, rr_SubDaysDeducted = p_SubDaysToDeduct p\<rparr>))))"

definition gateway_refund :: "string option call" where
  "gateway_refund = atom (\<lambda>i w.
     case w_refund w of
       Inl e \<Rightarrow> [(w, Some e)]
     | Inr resp \<Rightarrow>
         (case validateRefundProviderResponse resp of
            None \<Rightarrow> [(w\<lparr>w_accepted := Suc (w_accepted w)\<rparr>, None)]
          | Some e \<Rightarrow> [(w, Some e)]))"

definition getRefundProvider :: "PaymentOrder \<Rightarrow> provider option call" where
  "getRefundProvider ord =
     bind (ask (\<lambda>w. getRefundOrderProviderInstance (w_instances w) ord)) (\<lambda>r. case r of
       Inr (Some inst) \<Rightarrow> createProviderFromInstance inst
     | _ \<Rightarrow> Ret None)"

definition gwRefund :: "RefundPlan \<Rightarrow> string option call" where
  "gwRefund p =
     (if o_PaymentTradeNo (p_Order p) = []
      then bind (writeAuditLog ''REFUND_NO_TRADE_NO'') (\<lambda>_. Ret None)
      else bind (getRefundProvider (p_Order p)) (\<lambda>r. case r of
        None \<Rightarrow> Ret (Some ''get refund provider'')
      | Some prov \<Rightarrow>
          (case validateProviderSnapshotMetadata (p_Order p) (pv_Key prov) (pv_Identity prov) of
             Some e \<Rightarrow> bind (writeAuditLog ''REFUND_PROVIDER_METADATA_MISMATCH'') (\<lambda>_. Ret (Some e))
           | None \<Rightarrow> gateway_refund)))"

text \<open>The deduction steps of \<open>ExecuteRefund\<close>: an error, or the plan with what was deducted.\<close>

definition deductBalance :: "RefundPlan \<Rightarrow> (svc_error + RefundPlan) call" where
  "deductBalance p =
     (if p_DeductionType p = DeductionTypeBalance \<and> Fin 0 < p_BalanceToDeduct p then
        bind (hasAuditLog ''REFUND_ROLLBACK_FAILED'') (\<lambda>before.
        if \<not> before then
          bind (add_ledger (Deducted (o_UserID (p_Order p)) (p_BalanceToDeduct p))) (\<lambda>r. case r of
            None \<Rightarrow> bind (restoreStatus p) (\<lambda>_. Ret (Inl (Plain ''deduction'')))
          | Some _ \<Rightarrow> Ret (Inr p))
        else Ret (Inr (p\<lparr>p_BalanceToDeduct := Fin 0\<rparr>)))
      else Ret (Inr p))"

definition deductSubscription :: "RefundPlan \<Rightarrow> (svc_error + RefundPlan) call" where
  "deductSubscription p =
     (if p_DeductionType p = DeductionTypeSubscription \<and> 0 < p_SubDaysToDeduct p \<and> 0 < p_SubscriptionID p then
        bind (hasAuditLog ''REFUND_ROLLBACK_FAILED'') (\<lambda>before.
        if \<not> before then
          bind (ExtendSubscription (p_SubscriptionID p) (- p_SubDaysToDeduct p)) (\<lambda>r. case r of
            Extended \<Rightarrow> Ret (Inr p)
          | WouldExpire \<Rightarrow>
              bind (add_ledger (SubRevoked (p_SubscriptionID p))) (\<lambda>v. case v of
                None \<Rightarrow> bind (restoreStatus p) (\<lambda>_. Ret (Inl (Plain ''revoke subscription'')))
              | Some _ \<Rightarrow> Ret (Inr p))
          | ExtendFailed \<Rightarrow> bind (restoreStatus p) (\<lambda>_. Ret (Inl (Plain ''deduct subscription days''))))
        else Ret (Inr (p\<lparr>p_SubDaysToDeduct := 0\<rparr>)))
      else Ret (Inr p))"

definition refundLocked :: "RefundPlan \<Rightarrow> (svc_error + RefundResult) call" where
  "refundLocked p0 =
     bind (deductBalance p0) (\<lambda>r1. case r1 of
       Inl e \<Rightarrow> Ret (Inl e)
     | Inr p1 \<Rightarrow> bind (deductSubscription p1) (\<lambda>r2. case r2 of
         Inl e \<Rightarrow> Ret (Inl e)
       | Inr p \<Rightarrow> bind (gwRefund p) (\<lambda>g. case g of
           Some gErr \<Rightarrow> handleGwFail p gErr
         | None \<Rightarrow> markRefundOk p)))"

definition ExecuteRefund :: "RefundPlan \<Rightarrow> (svc_error + RefundResult) call" where
  "ExecuteRefund p =
     bind (write_db (update_order
            (\<lambda>x. o_ID x = p_OrderID p \<and> (o_Status x = COMPLETED \<or> o_Status x = REFUND_REQUESTED \<or> o_Status x = REFUND_FAILED))
            (\<lambda>x. x\<lparr>o_Status := REFUNDING\<rparr>))) (\<lambda>r. case r of
       None \<Rightarrow> Ret (Inl (Plain ''lock''))
     | Some c \<Rightarrow> if c = 0 then Ret (Inl (Conflict ''CONFLICT'' ''order status changed'')) else refundLocked p)"

text \<open>The admin handler: prepare, then execute.\<close>

definition ProcessRefund :: "'d service \<Rightarrow> int \<Rightarrow> f64 \<Rightarrow> string \<Rightarrow> bool \<Rightarrow> bool \<Rightarrow> (svc_error + RefundResult) call" where
  "ProcessRefund sv oid amt reason force deduct =
     bind (PrepareRefund sv oid amt reason force deduct) (\<lambda>r. case r of
       PrepError e \<Rightarrow> Ret (Inl e)
     | PrepEarly early \<Rightarrow> Ret (Inr early)
     | PrepPlan p \<Rightarrow> ExecuteRefund p)"

section \<open>The server\<close>

definition ignore :: "'a call \<Rightarrow> unit call" where
  "ignore p = bind p (\<lambda>_. Ret ())"

text \<open>The calls that arrive: webhooks, users, administrators and the expiry service.\<close>

inductive server_call :: "'d service \<Rightarrow> unit call \<Rightarrow> bool" for sv where
  "server_call sv (ignore (HandlePaymentNotification sv n pk))"
| "server_call sv (ignore (RetryFulfillment sv oid))"
| "server_call sv (ignore (CancelOrder sv oid uid))"
| "server_call sv (ignore (AdminCancelOrder sv oid))"
| "server_call sv (ignore (ExpireTimedOutOrders sv))"
| "server_call sv (ignore (ReconcilePendingWxpayOrders sv))"
| "server_call sv (ignore (VerifyOrderByOutTradeNo sv number uid))"
| "server_call sv (ignore (RequestRefund oid uid reason))"
| "server_call sv (ignore (ProcessRefund sv oid amt reason force deduct))"
| "server_call sv (ignore (Redeem uid code))"

text \<open>What may change by itself: the clock moves on, and what other parts answer.\<close>

definition shop_env :: "shop \<Rightarrow> shop \<Rightarrow> bool" where
  "shop_env w w' \<longleftrightarrow>
     w_now w \<le> w_now w' \<and> w_order w' = w_order w \<and> w_codes w' = w_codes w \<and> w_ledger w' = w_ledger w \<and>
     w_audit w' = w_audit w \<and> w_rebates w' = w_rebates w \<and> w_holder w' = w_holder w \<and>
     w_accepted w' = w_accepted w"

end
