(* ===== verification/Payment_Order_Safety.thy ===== *)
theory Payment_Order_Safety
  imports Payment_Orders
begin

text \<open>
  Safety of the payment order under any interleaving of calls: the invariant of the store, what
  each call guarantees and relies on, one lemma per call, and the interpretation of the
  rely-guarantee contract from which the properties follow.
\<close>

section \<open>The invariant\<close>

abbreviation st :: "shop \<Rightarrow> order_status" where
  "st w \<equiv> o_Status (w_order w)"

definition unpaid :: "order_status \<Rightarrow> bool" where
  "unpaid s \<longleftrightarrow> s = PENDING \<or> s = CANCELLED \<or> s = EXPIRED"

definition fulfilled :: "order_status \<Rightarrow> bool" where
  "fulfilled s \<longleftrightarrow> s = COMPLETED \<or> s = REFUND_REQUESTED \<or> s = REFUNDING \<or> s = PARTIALLY_REFUNDED \<or>
     s = REFUNDED \<or> s = REFUND_FAILED"

text \<open>The edges along which the status may move.\<close>

definition status_edge :: "order_status \<Rightarrow> order_status \<Rightarrow> bool" where
  "status_edge s s' \<longleftrightarrow> s' = s \<or>
     (s, s') \<in> {(PENDING, PAID), (PENDING, CANCELLED), (PENDING, EXPIRED), (CANCELLED, PAID), (EXPIRED, PAID),
       (PAID, RECHARGING), (FAILED, RECHARGING), (FAILED, PAID), (RECHARGING, COMPLETED), (RECHARGING, FAILED),
       (COMPLETED, REFUND_REQUESTED), (COMPLETED, REFUNDING), (REFUND_REQUESTED, REFUNDING),
       (REFUND_FAILED, REFUNDING), (REFUNDING, COMPLETED), (REFUNDING, REFUND_REQUESTED),
       (REFUNDING, REFUND_FAILED), (REFUNDING, REFUNDED), (REFUNDING, PARTIALLY_REFUNDED)}"

definition order_key :: "PaymentOrder \<Rightarrow> int \<times> int \<times> f64 \<times> string \<times> string \<times> string option \<times> (string \<times> any_value) list" where
  "order_key x = (o_ID x, o_UserID x, o_Amount x, o_RechargeCode x, o_OrderType x, o_ProviderInstanceID x,
     o_ProviderSnapshot x)"

lemma order_key_eq:
  "order_key x = order_key y \<longleftrightarrow>
     o_ID x = o_ID y \<and> o_UserID x = o_UserID y \<and> o_Amount x = o_Amount y \<and>
     o_RechargeCode x = o_RechargeCode y \<and> o_OrderType x = o_OrderType y \<and>
     o_ProviderInstanceID x = o_ProviderInstanceID y \<and> o_ProviderSnapshot x = o_ProviderSnapshot y"
  by (auto simp: order_key_def)

definition code_used :: "shop \<Rightarrow> bool" where
  "code_used w = (case w_codes w (o_RechargeCode (w_order w)) of Some r \<Rightarrow> rc_Status r = Used | None \<Rightarrow> False)"

text \<open>The amounts added to balances with the order's recharge code.\<close>

definition credits_of :: "string \<Rightarrow> ledger_entry list \<Rightarrow> f64 list" where
  "credits_of code l = concat (map (\<lambda>e. case e of Recharged _ c a \<Rightarrow> if c = code then [a] else [] | _ \<Rightarrow> []) l)"

lemma credits_of_simps [simp]:
  "credits_of code [] = []"
  "credits_of code (l @ m) = credits_of code l @ credits_of code m"
  "credits_of code [Recharged u c a] = (if c = code then [a] else [])"
  "credits_of code [ConcurrencyChanged u c d] = []"
  "credits_of code [SubscriptionChanged u c d] = []"
  "credits_of code [Granted n] = []"
  "credits_of code [Deducted u a] = []"
  "credits_of code [Restored u a] = []"
  "credits_of code [SubDaysAdded u d] = []"
  "credits_of code [SubRevoked u] = []"
  by (simp_all add: credits_of_def)

abbreviation credited :: "shop \<Rightarrow> f64 list" where
  "credited w \<equiv> credits_of (o_RechargeCode (w_order w)) (w_ledger w)"

abbreviation rebate_recorded :: "shop \<Rightarrow> bool" where
  "rebate_recorded w \<equiv> ''AFFILIATE_REBATE_APPLIED'' \<in> set (w_audit w)"

definition paid_enough :: "f64 \<Rightarrow> PaymentOrder \<Rightarrow> bool" where
  "paid_enough q x \<longleftrightarrow> o_PaidAt x \<noteq> None \<and> isValidProviderAmount (o_PayAmount x) \<and>
     \<not> paymentAmountToleranceForCurrency (PaymentOrderCurrency x) < \<bar>o_PayAmount x - q\<bar>"

lemma paid_enough_cong:
  assumes "order_key x = order_key y" and "o_PayAmount x = o_PayAmount y" and "o_PaidAt x = o_PaidAt y"
  shows "paid_enough q x = paid_enough q y"
  using assms by (simp add: paid_enough_def PaymentOrderCurrency_def psOrderProviderSnapshot_def order_key_eq)

definition inv_codes :: "shop \<Rightarrow> bool" where
  "inv_codes w \<longleftrightarrow> (\<forall>c r. w_codes w c = Some r \<longrightarrow> rc_Code r = c \<and>
     (c = o_RechargeCode (w_order w) \<longrightarrow> rc_Type r = RedeemTypeBalance \<and> rc_Value r = o_Amount (w_order w)))"

definition inv_credit :: "shop \<Rightarrow> bool" where
  "inv_credit w \<longleftrightarrow>
     (if code_used w then \<exists>a. credited w = [a] \<and> (\<not> o_Amount (w_order w) < Fin 0 \<longrightarrow> a = o_Amount (w_order w))
      else credited w = [])"

text \<open>\<open>q\<close> is the amount quoted to the payer when the order was created.\<close>

definition shop_inv :: "f64 \<Rightarrow> shop \<Rightarrow> bool" where
  "shop_inv q w \<longleftrightarrow>
     (w_holder w \<noteq> None \<longleftrightarrow> st w = REFUNDING) \<and>
     inv_codes w \<and> inv_credit w \<and>
     (o_OrderType (w_order w) \<noteq> OrderTypeSubscription \<longrightarrow> fulfilled (st w) \<longrightarrow> code_used w) \<and>
     w_accepted w \<le> 1 \<and> (w_accepted w \<noteq> 0 \<longrightarrow> st w \<in> {REFUNDING, PARTIALLY_REFUNDED, REFUNDED}) \<and>
     w_rebates w = (if rebate_recorded w then 1 else 0) \<and>
     (if unpaid (st w) then o_PayAmount (w_order w) = q else paid_enough q (w_order w))"

definition evolves :: "f64 \<Rightarrow> shop \<Rightarrow> shop \<Rightarrow> bool" where
  "evolves q w w' \<longleftrightarrow>
     (shop_inv q w \<longrightarrow> shop_inv q w') \<and> (code_used w \<longrightarrow> code_used w') \<and>
     order_key (w_order w') = order_key (w_order w) \<and>
     (unpaid (st w') \<longrightarrow> unpaid (st w) \<and> o_PayAmount (w_order w') = o_PayAmount (w_order w))"

definition keeps_lock :: "nat \<Rightarrow> shop \<Rightarrow> shop \<Rightarrow> bool" where
  "keeps_lock i w w' \<longleftrightarrow> (w_holder w = Some i \<longrightarrow> w_holder w' = Some i \<and> w_accepted w' = w_accepted w)"

text \<open>Call \<open>i\<close> relies on the others leaving its refund alone, and leaves theirs alone.\<close>

definition shop_rely :: "f64 \<Rightarrow> nat \<Rightarrow> shop \<Rightarrow> shop \<Rightarrow> bool" where
  "shop_rely q i w w' \<longleftrightarrow> evolves q w w' \<and> keeps_lock i w w'"

text \<open>One operation credits the order, or lets the gateway acknowledge its refund, or neither.\<close>

definition one_change :: "shop \<Rightarrow> shop \<Rightarrow> bool" where
  "one_change w w' \<longleftrightarrow>
     (credited w' = credited w \<and> w_accepted w' = w_accepted w) \<or>
     (st w' = st w \<and> w_accepted w' = w_accepted w \<and> (\<exists>a. credited w' = credited w @ [a])) \<or>
     (st w = REFUNDING \<and> st w' = REFUNDING \<and> credited w' = credited w \<and> w_accepted w' = Suc (w_accepted w))"

definition shop_guar :: "f64 \<Rightarrow> nat \<Rightarrow> shop \<Rightarrow> shop \<Rightarrow> bool" where
  "shop_guar q i w w' \<longleftrightarrow> evolves q w w' \<and> (\<forall>j. j \<noteq> i \<longrightarrow> keeps_lock j w w') \<and> status_edge (st w) (st w') \<and> one_change w w'"

lemma evolves_refl [simp]: "evolves q w w"
  by (simp add: evolves_def)

lemma evolves_trans: "evolves q w w' \<Longrightarrow> evolves q w' w'' \<Longrightarrow> evolves q w w''"
  by (auto simp: evolves_def)

lemma same_shop:
  assumes "w_order w' = w_order w" and "w_codes w' = w_codes w" and "credited w' = credited w"
    and "w_holder w' = w_holder w" and "w_accepted w' = w_accepted w" and "w_rebates w' = w_rebates w"
    and "rebate_recorded w' = rebate_recorded w"
  shows "shop_guar q i w w'" and "shop_rely q i w w'"
proof -
  have "code_used w' = code_used w" "inv_codes w' = inv_codes w"
    using assms by (simp_all add: code_used_def inv_codes_def)
  moreover from this have "inv_credit w' = inv_credit w"
    using assms(1,3) by (simp add: inv_credit_def)
  ultimately show "shop_guar q i w w'" and "shop_rely q i w w'"
    using assms by (simp_all add: shop_guar_def shop_rely_def evolves_def keeps_lock_def shop_inv_def status_edge_def one_change_def)
qed

lemma environment_same:
  assumes "shop_env w w'"
  shows "shop_rely q i w w'"
  using assms by (intro same_shop) (simp_all add: shop_env_def)

interpretation shop: rely_guarantee "shop_rely q" "shop_guar q" "shop_inv q" shop_env for q
proof
  show "shop_rely q i w w" for i w
    by (simp add: shop_rely_def keeps_lock_def)
  show "shop_rely q i w w'" if "shop_env w w'" for i w w'
    by (rule environment_same [OF that])
  then show "shop_inv q w \<Longrightarrow> shop_env w w' \<Longrightarrow> shop_inv q w'" for w w'
    by (auto simp: shop_rely_def evolves_def)
qed (auto simp: shop_rely_def shop_guar_def keeps_lock_def evolves_def intro: evolves_trans)

lemma own_step:
  assumes "shop_guar q i w w'" and "keeps_lock i w w'"
  shows "shop_rely q i w w'"
  using assms by (simp add: shop_guar_def shop_rely_def)

section \<open>Assertions\<close>

abbreviation stb :: "f64 \<Rightarrow> nat \<Rightarrow> (shop \<Rightarrow> bool) \<Rightarrow> bool" where
  "stb q i \<equiv> stable (shop_rely q i)"

text \<open>What a call knows of the store when it holds a copy of the order it read earlier.\<close>

definition has_read :: "f64 \<Rightarrow> PaymentOrder \<Rightarrow> shop \<Rightarrow> bool" where
  "has_read q x w \<longleftrightarrow> shop_inv q w \<and> order_key (w_order w) = order_key x \<and>
     (unpaid (st w) \<longrightarrow> o_PayAmount (w_order w) = o_PayAmount x)"

text \<open>A copy of a redeem code read earlier: if it is the order's code, it holds the order's amount.\<close>

definition code_copy :: "RedeemCode \<Rightarrow> shop \<Rightarrow> bool" where
  "code_copy r w \<longleftrightarrow> (rc_Code r = o_RechargeCode (w_order w) \<longrightarrow>
     rc_Type r = RedeemTypeBalance \<and> rc_Value r = o_Amount (w_order w))"

definition credited_order :: "shop \<Rightarrow> bool" where
  "credited_order w \<longleftrightarrow> o_OrderType (w_order w) = OrderTypeSubscription \<or> code_used w"

definition owns :: "nat \<Rightarrow> nat \<Rightarrow> shop \<Rightarrow> bool" where
  "owns i n w \<longleftrightarrow> w_holder w = Some i \<and> w_accepted w = n"

named_theorems stables \<open>assertions that the steps of other calls preserve\<close>

lemma stable_inv [stables]: "stb q i (shop_inv q)"
  by (auto simp: stable_def shop_rely_def evolves_def)

lemma stable_has_read [stables]: "stb q i (has_read q x)"
  by (auto simp: stable_def has_read_def shop_rely_def evolves_def)

lemma stable_code_copy [stables]: "stb q i (code_copy r)"
  by (auto simp: stable_def code_copy_def shop_rely_def evolves_def order_key_eq)

lemma stable_credited_order [stables]: "stb q i credited_order"
  by (auto simp: stable_def credited_order_def shop_rely_def evolves_def order_key_eq)

lemma stable_owns [stables]: "stb q i (owns i n)"
  by (auto simp: stable_def owns_def shop_rely_def keeps_lock_def)

lemma stable_True [stables]: "stb q i (\<lambda>_. b)"
  by (simp add: stable_def)

lemma stable_key [stables]: "stb q i (\<lambda>w. F (order_key (w_order w)))"
  by (auto simp: stable_def shop_rely_def evolves_def)

lemma stable_conj [stables]: "stb q i P \<Longrightarrow> stb q i Q \<Longrightarrow> stb q i (\<lambda>w. P w \<and> Q w)"
  by (auto simp: stable_def)

lemma stable_imp [stables]: "(b \<Longrightarrow> stb q i P) \<Longrightarrow> stb q i (\<lambda>w. b \<longrightarrow> P w)"
  by (auto simp: stable_def)

lemma stable_all [stables]: "(\<And>x. stb q i (P x)) \<Longrightarrow> stb q i (\<lambda>w. \<forall>x. P x w)"
  by (auto simp: stable_def)

text \<open>Shorthand for the triples of call \<open>i\<close>.\<close>

abbreviation spec :: "f64 \<Rightarrow> nat \<Rightarrow> (shop \<Rightarrow> bool) \<Rightarrow> 'a call \<Rightarrow> ('a \<Rightarrow> shop \<Rightarrow> bool) \<Rightarrow> bool" where
  "spec q i \<equiv> triple (shop_rely q i) (shop_guar q i) i"

abbreviation keeps :: "f64 \<Rightarrow> nat \<Rightarrow> (shop \<Rightarrow> bool) \<Rightarrow> 'a call \<Rightarrow> bool" where
  "keeps q i P p \<equiv> spec q i P p (\<lambda>_. P)"

section \<open>Operations\<close>

lemma spec_step:
  assumes "stb q i P" and "\<And>x. stb q i (Q x)"
    and "\<And>w w' x. P w \<Longrightarrow> (w', x) \<in> set (f i w) \<Longrightarrow> shop_guar q i w w' \<and> Q x w'"
  shows "spec q i P (atom f) Q"
  using assms by (rule shop.triple_atom)

lemma guar_refl [simp]: "shop_guar q i w w"
  by (rule same_shop) simp_all

lemma spec_Ret: "stb q i P \<Longrightarrow> (\<And>w. P w \<Longrightarrow> Q x w) \<Longrightarrow> spec q i P (Ret x) Q"
  by (rule shop.triple_Ret)

lemma keeps_Ret: "stb q i P \<Longrightarrow> keeps q i P (Ret x)"
  by (rule spec_Ret)

lemmas spec_bind = shop.triple_bind
lemmas spec_conseq = shop.triple_conseq

lemma keeps_bind: "keeps q i P p \<Longrightarrow> (\<And>x. spec q i P (k x) Q) \<Longrightarrow> spec q i P (bind p k) Q"
  by (rule spec_bind)

lemma keeps_ask: "stb q i P \<Longrightarrow> keeps q i P (ask f)"
  unfolding ask_def by (rule spec_step) auto

lemma keeps_read_db: "stb q i P \<Longrightarrow> keeps q i P (read_db f)"
  unfolding read_db_def by (rule spec_step) auto

lemma keeps_chance: "stb q i P \<Longrightarrow> keeps q i P chance"
  unfolding chance_def by (rule spec_step) auto

lemma keeps_hasAuditLog: "stb q i P \<Longrightarrow> keeps q i P (hasAuditLog a)"
  unfolding hasAuditLog_def by (rule spec_step) auto

lemma quiet_step:
  assumes "stb q i P" and "\<And>w w' x. P w \<Longrightarrow> (w', x) \<in> set (f i w) \<Longrightarrow> shop_guar q i w w' \<and> shop_rely q i w w'"
  shows "keeps q i P (atom f)"
  by (rule spec_step [OF assms(1) assms(1)]) (use assms in \<open>blast dest: stableD\<close>)

lemma keeps_writeAuditLog:
  assumes "stb q i P" and "a \<noteq> ''AFFILIATE_REBATE_APPLIED''"
  shows "keeps q i P (writeAuditLog a)"
  unfolding writeAuditLog_def
proof (rule quiet_step [OF assms(1)])
  fix w w' x
  assume "(w', x) \<in> set [(add_audit a w, ()), (w, ())]"
  then consider "w' = add_audit a w" | "w' = w" by auto
  then show "shop_guar q i w w' \<and> shop_rely q i w w'"
    using assms(2) by cases (intro conjI same_shop; simp add: add_audit_def)+
qed

lemma spec_get_order:
  assumes "stb q i P" and "\<And>w. P w \<Longrightarrow> shop_inv q w"
  shows "spec q i P (get_order oid) (\<lambda>r w. P w \<and> (\<forall>x. r = Some x \<longrightarrow> has_read q x w))"
  unfolding get_order_def
proof (rule spec_step)
  fix w w' r
  assume "P w" and "(w', r) \<in> set (if o_ID (w_order w) = oid then [(w, Some (w_order w)), (w, None)] else [(w, None)])"
  then have "w' = w" and "r = Some (w_order w) \<or> r = None" by (auto split: if_splits)
  with \<open>P w\<close> assms(2) show "shop_guar q i w w' \<and> P w' \<and> (\<forall>x. r = Some x \<longrightarrow> has_read q x w')"
    by (auto simp: has_read_def)
qed (intro stables assms)+

lemma spec_read_order:
  assumes "stb q i P" and "\<And>w. P w \<Longrightarrow> shop_inv q w"
  shows "spec q i P (read_db w_order) (\<lambda>r w. P w \<and> (\<forall>x. r = Some x \<longrightarrow> has_read q x w))"
  unfolding read_db_def
proof (rule spec_step)
  fix w w' r
  assume "P w" and "(w', r) \<in> set [(w, Some (w_order w)), (w, None)]"
  then have "w' = w" and "r = Some (w_order w) \<or> r = None" by auto
  with \<open>P w\<close> assms(2) show "shop_guar q i w w' \<and> P w' \<and> (\<forall>x. r = Some x \<longrightarrow> has_read q x w')"
    by (auto simp: has_read_def)
qed (intro stables assms)+

text \<open>What a call knows after it looked up code \<open>c\<close> and found \<open>x\<close>.\<close>

definition seen_code :: "string \<Rightarrow> RedeemCode \<Rightarrow> shop \<Rightarrow> bool" where
  "seen_code c x w \<longleftrightarrow> rc_Code x = c \<and> code_copy x w \<and>
     (IsUsed x \<longrightarrow> c = o_RechargeCode (w_order w) \<longrightarrow> credited_order w)"

definition redeemed :: "string \<Rightarrow> shop \<Rightarrow> bool" where
  "redeemed c w \<longleftrightarrow> (c = o_RechargeCode (w_order w) \<longrightarrow> credited_order w)"

lemma stable_redeemed [stables]: "stb q i (redeemed c)"
  using stable_credited_order [of q i]
  by (auto simp: stable_def redeemed_def shop_rely_def evolves_def order_key_eq)

lemma seen_code_alt: "seen_code c x w \<longleftrightarrow> rc_Code x = c \<and> code_copy x w \<and> (IsUsed x \<longrightarrow> redeemed c w)"
  by (simp add: seen_code_def redeemed_def)

lemma stable_seen_code [stables]: "stb q i (seen_code c x)"
  unfolding seen_code_alt by (intro stables)

lemma spec_get_code:
  assumes "stb q i P" and "\<And>w. P w \<Longrightarrow> shop_inv q w"
  shows "spec q i P (get_code c) (\<lambda>r w. P w \<and> (\<forall>x. r = Found x \<longrightarrow> seen_code c x w))"
  unfolding get_code_def
proof (rule spec_step)
  fix w w' r
  assume "P w" and "(w', r) \<in> set [(w, case w_codes w c of Some r \<Rightarrow> Found r | None \<Rightarrow> Missing),
      (w, LookupFailed ''get redeem code'')]"
  then have w': "w' = w" and r: "\<And>x. r = Found x \<Longrightarrow> w_codes w c = Some x"
    by (auto split: option.splits)
  from \<open>P w\<close> assms(2) have "inv_codes w" by (simp add: shop_inv_def)
  then have "seen_code c x w" if "r = Found x" for x
    using r [OF that] by (auto simp: seen_code_def code_copy_def inv_codes_def credited_order_def code_used_def IsUsed_def)
  with w' \<open>P w\<close> show "shop_guar q i w w' \<and> P w' \<and> (\<forall>x. r = Found x \<longrightarrow> seen_code c x w')"
    by simp
qed (intro stables assms)+

text \<open>
  One statement that updates the order. The premises are about the row it finds; \<open>change\<close> sets
  the new columns, and the rest follows from the invariant.
\<close>

definition good_update :: "f64 \<Rightarrow> nat \<Rightarrow> shop \<Rightarrow> PaymentOrder \<Rightarrow> bool" where
  "good_update q i w new \<longleftrightarrow>
     order_key new = order_key (w_order w) \<and> status_edge (st w) (o_Status new) \<and>
     (st w = REFUNDING \<longrightarrow> w_holder w = Some i) \<and>
     (unpaid (o_Status new) \<longrightarrow> unpaid (st w) \<and> o_PayAmount new = o_PayAmount (w_order w)) \<and>
     (\<not> unpaid (o_Status new) \<longrightarrow> paid_enough q new) \<and>
     (o_OrderType new \<noteq> OrderTypeSubscription \<longrightarrow> fulfilled (o_Status new) \<longrightarrow> code_used w) \<and>
     (w_accepted w \<noteq> 0 \<longrightarrow> o_Status new \<in> {REFUNDING, PARTIALLY_REFUNDED, REFUNDED})"

lemma good_update_touch: "good_update q i w (x\<lparr>o_UpdatedAt := t\<rparr>) = good_update q i w x"
  by (simp add: good_update_def order_key_def paid_enough_def PaymentOrderCurrency_def psOrderProviderSnapshot_def)

lemma updated_guar:
  assumes inv: "shop_inv q w" and good: "good_update q i w (w_order w')"
    and same: "w_codes w' = w_codes w" "w_ledger w' = w_ledger w" "w_audit w' = w_audit w"
      "w_rebates w' = w_rebates w" "w_accepted w' = w_accepted w"
    and holder: "w_holder w' = holder_after i (st w) (st w') (w_holder w)"
  shows "shop_guar q i w w'"
proof -
  have key: "order_key (w_order w') = order_key (w_order w)" using good by (simp add: good_update_def)
  then have used: "code_used w' = code_used w" and codes: "inv_codes w' = inv_codes w"
    using same by (simp_all add: code_used_def inv_codes_def order_key_eq)
  from used key same have credit: "inv_credit w' = inv_credit w"
    by (simp add: inv_credit_def order_key_eq)
  have old: "(w_holder w \<noteq> None) = (st w = REFUNDING)" "inv_codes w" "inv_credit w" "w_accepted w \<le> 1"
      "w_rebates w = (if rebate_recorded w then 1 else 0)"
      "unpaid (st w) \<Longrightarrow> o_PayAmount (w_order w) = q"
    using inv by (simp_all add: shop_inv_def)
  have new: "unpaid (st w') \<Longrightarrow> unpaid (st w) \<and> o_PayAmount (w_order w') = o_PayAmount (w_order w)"
      "\<not> unpaid (st w') \<Longrightarrow> paid_enough q (w_order w')"
      "o_OrderType (w_order w') \<noteq> OrderTypeSubscription \<longrightarrow> fulfilled (st w') \<longrightarrow> code_used w"
      "w_accepted w \<noteq> 0 \<longrightarrow> st w' \<in> {REFUNDING, PARTIALLY_REFUNDED, REFUNDED}"
      "st w = REFUNDING \<longrightarrow> w_holder w = Some i" "status_edge (st w) (st w')"
    using good by (simp_all add: good_update_def)
  have "(w_holder w' \<noteq> None) = (st w' = REFUNDING)"
    using old(1) by (simp add: holder holder_after_def)
  moreover have "if unpaid (st w') then o_PayAmount (w_order w') = q else paid_enough q (w_order w')"
    using new(1,2) old(6) by simp
  ultimately have "shop_inv q w'"
    unfolding shop_inv_def used codes credit same by (intro conjI old(2-5) new(3,4))
  moreover have "keeps_lock j w w'" if "j \<noteq> i" for j
    using that old(1) new(5) by (auto simp: keeps_lock_def)
  ultimately show ?thesis
    unfolding shop_guar_def evolves_def one_change_def using used key new(1,6) same
    by (simp add: order_key_eq)
qed

lemma update_order_guar:
  assumes "shop_inv q w" and "cond (w_order w) \<Longrightarrow> good_update q i w (change (w_order w))"
  shows "shop_guar q i w (fst (update_order cond change i w))"
proof (cases "cond (w_order w)")
  case True
  then show ?thesis
    using assms by (intro updated_guar) (simp_all add: update_order_def Let_def good_update_touch)
qed (simp add: update_order_def Let_def)

lemma write_db_step:
  assumes "stb q i P" and "\<And>x. stb q i (Q x)"
    and "\<And>w. P w \<Longrightarrow> shop_guar q i w (fst (f i w))"
    and "\<And>w. P w \<Longrightarrow> Q (Some (snd (f i w))) (fst (f i w)) \<and> Q None (fst (f i w)) \<and> Q None w"
  shows "spec q i P (write_db f) Q"
  unfolding write_db_def
proof (rule spec_step [OF assms(1,2)])
  fix w w' x
  assume P: "P w" and "(w', x) \<in> set [(fst (f i w), Some (snd (f i w))), (w, None), (fst (f i w), None)]"
  then consider "w' = fst (f i w)" "x = Some (snd (f i w))" | "w' = w" "x = None" | "w' = fst (f i w)" "x = None"
    by auto
  then show "shop_guar q i w w' \<and> Q x w'"
    using assms(3,4) [OF P] by cases simp_all
qed

text \<open>An update outside a refund: it never finds the order in REFUNDING.\<close>

lemma keeps_update:
  assumes "stb q i P" and "\<And>w. P w \<Longrightarrow> shop_inv q w"
    and "\<And>w. P w \<Longrightarrow> cond (w_order w) \<Longrightarrow> st w \<noteq> REFUNDING \<and> good_update q i w (change (w_order w))"
  shows "keeps q i P (write_db (update_order cond change))"
proof (rule write_db_step [OF assms(1) assms(1)])
  fix w
  assume P: "P w"
  show g: "shop_guar q i w (fst (update_order cond change i w))"
    using assms(2,3) P by (intro update_order_guar) auto
  have "keeps_lock i w (fst (update_order cond change i w))"
    using assms(2,3) [OF P] by (auto simp: keeps_lock_def update_order_def Let_def shop_inv_def)
  then have "P (fst (update_order cond change i w))"
    using stableD [OF assms(1) P own_step [OF g]] by simp
  with P show "P (fst (update_order cond change i w)) \<and> P (fst (update_order cond change i w)) \<and> P w"
    by simp
qed

lemma paid_row:
  assumes "shop_inv q w" and "\<not> unpaid (st w)"
  shows "paid_enough q (w_order w)"
  using assms by (simp add: shop_inv_def)

text \<open>Updates that leave the payment columns alone.\<close>

lemma good_update_status:
  assumes "shop_inv q w" and "st w \<noteq> REFUNDING" and "status_edge (st w) (o_Status new)"
    and "order_key new = order_key (w_order w)"
    and "o_PayAmount new = o_PayAmount (w_order w)" and "o_PaidAt new = o_PaidAt (w_order w)"
    and "unpaid (o_Status new) = unpaid (st w)"
    and "fulfilled (o_Status new) \<Longrightarrow> fulfilled (st w) \<or> credited_order w"
  shows "good_update q i w new"
proof -
  have "paid_enough q new = paid_enough q (w_order w)"
    by (rule paid_enough_cong [OF assms(4-6)])
  moreover have "w_accepted w \<noteq> 0 \<longrightarrow> o_Status new \<in> {REFUNDING, PARTIALLY_REFUNDED, REFUNDED}"
  proof
    assume "w_accepted w \<noteq> 0"
    with assms(1,2) have "st w = PARTIALLY_REFUNDED \<or> st w = REFUNDED" by (auto simp: shop_inv_def)
    with assms(3) show "o_Status new \<in> {REFUNDING, PARTIALLY_REFUNDED, REFUNDED}"
      by (auto simp: status_edge_def)
  qed
  moreover have "o_OrderType new \<noteq> OrderTypeSubscription \<longrightarrow> fulfilled (o_Status new) \<longrightarrow> code_used w"
    using assms(1,4,8) by (auto simp: shop_inv_def credited_order_def order_key_eq)
  ultimately show ?thesis
    using assms by (auto simp: good_update_def shop_inv_def)
qed

section \<open>Calls\<close>

text \<open>A call that starts where \<open>P\<close> holds and leaves the invariant, whatever it returns.\<close>

abbreviation safe_call :: "f64 \<Rightarrow> nat \<Rightarrow> (shop \<Rightarrow> bool) \<Rightarrow> 'a call \<Rightarrow> bool" where
  "safe_call q i P p \<equiv> spec q i P p (\<lambda>_. shop_inv q)"

lemma safe_weaken: "safe_call q i P' p \<Longrightarrow> (\<And>w. P w \<Longrightarrow> P' w) \<Longrightarrow> safe_call q i P p"
  by (rule spec_conseq [where P = P'])

lemma safe_Ret: "stb q i P \<Longrightarrow> (\<And>w. P w \<Longrightarrow> shop_inv q w) \<Longrightarrow> safe_call q i P (Ret x)"
  by (rule spec_Ret)

lemma spec_if:
  "(b \<Longrightarrow> spec q i P p Q) \<Longrightarrow> (\<not> b \<Longrightarrow> spec q i P p' Q) \<Longrightarrow> spec q i P (if b then p else p') Q"
  by simp

lemma spec_option:
  "(r = None \<Longrightarrow> spec q i P p Q) \<Longrightarrow> (\<And>x. r = Some x \<Longrightarrow> spec q i P (f x) Q) \<Longrightarrow>
   spec q i P (case r of None \<Rightarrow> p | Some x \<Rightarrow> f x) Q"
  by (cases r) auto

lemma spec_sum:
  "(\<And>x. r = Inl x \<Longrightarrow> spec q i P (f x) Q) \<Longrightarrow> (\<And>x. r = Inr x \<Longrightarrow> spec q i P (g x) Q) \<Longrightarrow>
   spec q i P (case r of Inl x \<Rightarrow> f x | Inr x \<Rightarrow> g x) Q"
  by (cases r) auto

lemma spec_lookup:
  "(\<And>x. r = Found x \<Longrightarrow> spec q i P (f x) Q) \<Longrightarrow> (r = Missing \<Longrightarrow> spec q i P p Q) \<Longrightarrow>
   (\<And>e. r = LookupFailed e \<Longrightarrow> spec q i P (g e) Q) \<Longrightarrow>
   spec q i P (case r of Found x \<Rightarrow> f x | Missing \<Rightarrow> p | LookupFailed e \<Rightarrow> g e) Q"
  by (cases r) auto

lemma spec_prod: "(\<And>x y. r = (x, y) \<Longrightarrow> spec q i P (f x y) Q) \<Longrightarrow> spec q i P (case r of (x, y) \<Rightarrow> f x y) Q"
  by (cases r) auto

lemmas spec_cases = spec_if spec_option spec_sum spec_lookup spec_prod

lemma bind_ask: "stb q i P \<Longrightarrow> (\<And>x. spec q i P (k x) Q) \<Longrightarrow> spec q i P (bind (ask f) k) Q"
  by (rule keeps_bind [OF keeps_ask])

lemma bind_read_db: "stb q i P \<Longrightarrow> (\<And>x. spec q i P (k x) Q) \<Longrightarrow> spec q i P (bind (read_db f) k) Q"
  by (rule keeps_bind [OF keeps_read_db])

lemma bind_chance: "stb q i P \<Longrightarrow> (\<And>x. spec q i P (k x) Q) \<Longrightarrow> spec q i P (bind chance k) Q"
  by (rule keeps_bind [OF keeps_chance])

lemma bind_hasAuditLog: "stb q i P \<Longrightarrow> (\<And>x. spec q i P (k x) Q) \<Longrightarrow> spec q i P (bind (hasAuditLog a) k) Q"
  by (rule keeps_bind [OF keeps_hasAuditLog])

lemma bind_audit:
  "stb q i P \<Longrightarrow> a \<noteq> ''AFFILIATE_REBATE_APPLIED'' \<Longrightarrow> (\<And>x. spec q i P (k x) Q) \<Longrightarrow>
   spec q i P (bind (writeAuditLog a) k) Q"
  by (rule keeps_bind [OF keeps_writeAuditLog])

lemma bind_Ret_spec: "(spec q i P (k x) Q) \<Longrightarrow> spec q i P (bind (Ret x) k) Q"
  by simp

lemma bind_get_order:
  assumes "stb q i P" and "\<And>w. P w \<Longrightarrow> shop_inv q w" and "spec q i P (k None) Q"
    and "\<And>x. spec q i (\<lambda>w. P w \<and> has_read q x w) (k (Some x)) Q"
  shows "spec q i P (bind (get_order oid) k) Q"
proof (rule spec_bind [OF spec_get_order [OF assms(1,2)]])
  fix r
  show "spec q i (\<lambda>w. P w \<and> (\<forall>x. r = Some x \<longrightarrow> has_read q x w)) (k r) Q"
    using assms(3,4) by (cases r) simp_all
qed simp_all

lemma bind_read_order:
  assumes "stb q i P" and "\<And>w. P w \<Longrightarrow> shop_inv q w" and "spec q i P (k None) Q"
    and "\<And>x. spec q i (\<lambda>w. P w \<and> has_read q x w) (k (Some x)) Q"
  shows "spec q i P (bind (read_db w_order) k) Q"
proof (rule spec_bind [OF spec_read_order [OF assms(1,2)]])
  fix r
  show "spec q i (\<lambda>w. P w \<and> (\<forall>x. r = Some x \<longrightarrow> has_read q x w)) (k r) Q"
    using assms(3,4) by (cases r) simp_all
qed simp_all

lemma safe_audit:
  "stb q i P \<Longrightarrow> (\<And>w. P w \<Longrightarrow> shop_inv q w) \<Longrightarrow> a \<noteq> ''AFFILIATE_REBATE_APPLIED'' \<Longrightarrow>
   safe_call q i P (writeAuditLog a)"
  by (rule spec_conseq [OF keeps_writeAuditLog])

lemma keeps_ret_bind: "keeps q i P p \<Longrightarrow> stb q i P \<Longrightarrow> keeps q i P (bind p (\<lambda>_. Ret x))"
  by (rule keeps_bind) (simp_all add: keeps_Ret)

lemmas bind_steps = bind_ask bind_read_db bind_chance bind_hasAuditLog bind_audit

section \<open>Redemption\<close>

lemma keeps_redeem_tx_guar:
  assumes inv: "shop_inv q w" and code: "code_copy code w"
    and row: "w_codes w (rc_Code code) = Some row" "rc_Status row = Unused"
    and e: "redeem_effect uid code b c = Some e"
    and w': "w_order w' = w_order w" "w_holder w' = w_holder w" "w_accepted w' = w_accepted w"
      "w_audit w' = w_audit w" "w_rebates w' = w_rebates w"
      "w_codes w' = (w_codes w)(rc_Code code := Some (row\<lparr>rc_Status := Used, rc_UsedBy := Some uid\<rparr>))"
      "w_ledger w' = w_ledger w @ [e]"
  shows "shop_guar q i w w'" and "keeps_lock i w w'" and "redeemed (rc_Code code) w'"
proof -
  let ?own = "rc_Code code = o_RechargeCode (w_order w)"
  have used: "code_used w' \<longleftrightarrow> ?own \<or> code_used w"
    using row by (auto simp: code_used_def w')
  have codes: "inv_codes w'"
    using inv row by (auto simp: shop_inv_def inv_codes_def w')
  have credit: "inv_credit w'"
  proof (cases ?own)
    case True
    then have not: "\<not> code_used w" using row by (simp add: code_used_def)
    with inv have "credited w = []" by (simp add: shop_inv_def inv_credit_def)
    moreover have "rc_Type code = RedeemTypeBalance" "rc_Value code = o_Amount (w_order w)"
      using code True by (simp_all add: code_copy_def)
    ultimately show ?thesis
      using True e used by (auto simp: inv_credit_def redeem_effect_def w')
  next
    case False
    then have "credits_of (o_RechargeCode (w_order w)) [e] = []"
      using e by (auto simp: redeem_effect_def Let_def split: if_splits)
    with False inv used show ?thesis
      by (simp add: inv_credit_def shop_inv_def w')
  qed
  have "credits_of k [e] = [] \<or> (\<exists>a. credits_of k [e] = [a])" for k
    by (cases e) simp_all
  then have one: "one_change w w'" by (auto simp: one_change_def w')
  have "shop_inv q w'"
    using inv codes credit used unfolding shop_inv_def w' by auto
  then show "shop_guar q i w w'" and "keeps_lock i w w'"
    using used one by (auto simp: shop_guar_def evolves_def keeps_lock_def status_edge_def w')
  show "redeemed (rc_Code code) w'"
    using used by (auto simp: redeemed_def credited_order_def w')
qed

lemma spec_redeem_tx:
  assumes P: "stb q i P" and inv: "\<And>w. P w \<Longrightarrow> shop_inv q w" and code: "\<And>w. P w \<Longrightarrow> code_copy code w"
  shows "spec q i P (redeem_tx uid code b c) (\<lambda>e w. P w \<and> (e = None \<longrightarrow> redeemed (rc_Code code) w))"
  unfolding redeem_tx_def
proof (rule spec_step)
  fix w w' r
  assume Pw: "P w" and mem: "(w', r) \<in> set (case w_codes w (rc_Code code) of
       None \<Rightarrow> [(w, Some ErrRedeemCodeUsed)]
     | Some row \<Rightarrow>
         if rc_Status row \<noteq> Unused then [(w, Some ErrRedeemCodeUsed)]
         else case redeem_effect uid code b c of
           None \<Rightarrow> [(w, Some (Plain ''unsupported redeem type''))]
         | Some e \<Rightarrow>
             (let w' = w\<lparr>w_codes := (w_codes w)(rc_Code code := Some (row\<lparr>rc_Status := Used, rc_UsedBy := Some uid\<rparr>)),
                         w_ledger := w_ledger w @ [e]\<rparr>
              in [(w', None), (w, Some (Plain ''commit transaction'')), (w', Some (Plain ''commit transaction''))]))"
  show "shop_guar q i w w' \<and> P w' \<and> (r = None \<longrightarrow> redeemed (rc_Code code) w')"
  proof (cases "w' = w \<and> r \<noteq> None")
    case True
    with Pw show ?thesis by auto
  next
    case False
    with mem obtain row e where row: "w_codes w (rc_Code code) = Some row" "rc_Status row = Unused"
      and e: "redeem_effect uid code b c = Some e"
      and w': "w' = w\<lparr>w_codes := (w_codes w)(rc_Code code := Some (row\<lparr>rc_Status := Used, rc_UsedBy := Some uid\<rparr>)),
                         w_ledger := w_ledger w @ [e]\<rparr>"
      by (auto simp: Let_def split: option.splits if_splits)
    have "shop_guar q i w w'" "keeps_lock i w w'" "redeemed (rc_Code code) w'"
      by (rule keeps_redeem_tx_guar [OF inv [OF Pw] code [OF Pw] row e]; simp add: w')+
    with stableD [OF P Pw own_step] show ?thesis by blast
  qed
qed (intro stables P)+

lemma redeem_error:
  "stb q i P' \<Longrightarrow> (\<And>w. P' w \<Longrightarrow> P w) \<Longrightarrow>
   spec q i P' (Ret (Some e)) (\<lambda>e w. P w \<and> (e = None \<longrightarrow> redeemed c w))"
  by (rule spec_Ret) auto

lemma spec_rereadCode:
  assumes P: "stb q i P" and inv: "\<And>w. P w \<Longrightarrow> shop_inv q w"
  shows "keeps q i P (rereadCode code)"
  unfolding rereadCode_def
  by (intro spec_bind [OF spec_get_code [OF P inv]] spec_lookup; assumption?; intro spec_Ret stables P; simp)

lemma spec_redeemFound:
  assumes P: "stb q i P" and inv: "\<And>w. P w \<Longrightarrow> shop_inv q w"
  shows "spec q i (\<lambda>w. P w \<and> seen_code c x w) (redeemFound uid c x) (\<lambda>e w. P w \<and> (e = None \<longrightarrow> redeemed c w))"
proof -
  let ?Q = "\<lambda>e w. P w \<and> (e = None \<longrightarrow> redeemed c w)"
  have A: "stb q i (\<lambda>w. P w \<and> seen_code c x w)" by (intro stables P)
  have B: "stb q i (\<lambda>w. P w \<and> redeemed c w)" by (intro stables P)
  have tx: "spec q i (\<lambda>w. P w \<and> seen_code c x w) (redeem_tx uid x b d) ?Q" for b d
    by (rule spec_conseq [OF spec_redeem_tx [OF A]]) (use inv in \<open>auto simp: seen_code_def\<close>)
  have "spec q i (\<lambda>w. P w \<and> seen_code c x w)
      (bind (redeem_tx uid x b d) (\<lambda>e. case e of Some err \<Rightarrow> Ret (Some err) | None \<Rightarrow> rereadCode c)) ?Q" for b d
  proof (rule spec_bind [OF tx], rule spec_option)
    fix e :: "svc_error option"
    assume "e = None"
    then show "spec q i (?Q e) (rereadCode c) ?Q"
      using inv by (intro spec_conseq [OF spec_rereadCode [OF B]]) auto
  qed (intro redeem_error stables P; simp)
  then show ?thesis
    unfolding redeemFound_def
    by (intro bind_ask spec_if spec_option spec_prod redeem_error A) auto
qed

lemma spec_Redeem:
  assumes P: "stb q i P" and inv: "\<And>w. P w \<Longrightarrow> shop_inv q w"
  shows "spec q i P (Redeem uid c) (\<lambda>e w. P w \<and> (e = None \<longrightarrow> redeemed c w))"
proof -
  have "spec q i (\<lambda>w. P w \<and> (\<forall>x. r = Found x \<longrightarrow> seen_code c x w))
      (case r of
         Missing \<Rightarrow> Ret (Some ErrRedeemCodeNotFound)
       | LookupFailed _ \<Rightarrow> Ret (Some (Plain ''get redeem code''))
       | Found redeemCode \<Rightarrow> redeemFound uid c redeemCode) (\<lambda>e w. P w \<and> (e = None \<longrightarrow> redeemed c w))" for r
    using spec_redeemFound [OF P inv] by (cases r) (auto intro!: redeem_error P)
  then show ?thesis
    unfolding Redeem_def
    by (intro bind_chance spec_if redeem_error P spec_bind [OF spec_get_code [OF P inv]])
qed

section \<open>Fulfilment\<close>

lemma keeps_insert_code:
  assumes P: "stb q i P" and inv: "\<And>w. P w \<Longrightarrow> shop_inv q w" and code: "\<And>w. P w \<Longrightarrow> code_copy r w"
    and unused: "rc_Status r = Unused"
  shows "keeps q i P (write_db (insert_code r))"
proof (rule write_db_step [OF P P])
  fix w
  assume Pw: "P w"
  let ?w = "fst (insert_code r i w)"
  have same: "w_order ?w = w_order w" "w_holder ?w = w_holder w" "w_accepted ?w = w_accepted w"
      "w_audit ?w = w_audit w" "w_rebates ?w = w_rebates w" "w_ledger ?w = w_ledger w"
    by (simp_all add: insert_code_def split: option.splits)
  have codes: "w_codes ?w = (if w_codes w (rc_Code r) = None then (w_codes w)(rc_Code r := Some r) else w_codes w)"
    by (simp add: insert_code_def split: option.splits)
  have used: "code_used ?w = code_used w"
    using unused by (simp add: code_used_def codes same)
  have "inv_codes w" using inv [OF Pw] by (simp add: shop_inv_def)
  then have inv': "inv_codes ?w"
    using code [OF Pw] by (auto simp: inv_codes_def codes same code_copy_def)
  have "inv_credit ?w = inv_credit w" using used same by (simp add: inv_credit_def)
  with inv [OF Pw] inv' used have "shop_inv q ?w" unfolding shop_inv_def same by simp
  then show g: "shop_guar q i w ?w"
    using used same by (simp add: shop_guar_def evolves_def keeps_lock_def status_edge_def one_change_def)
  have "keeps_lock i w ?w" using same by (simp add: keeps_lock_def)
  then show "P ?w \<and> P ?w \<and> P w" using stableD [OF P Pw own_step [OF g]] Pw by simp
qed

lemma keeps_CreateCode:
  assumes P: "stb q i P" and inv: "\<And>w. P w \<Longrightarrow> shop_inv q w" and unused: "rc_Status r = Unused"
    and code: "\<And>w. P w \<Longrightarrow> rc_Type r = RedeemTypeBalance \<and> rc_Value r = o_Amount (w_order w)"
  shows "keeps q i P (CreateCode r)"
  unfolding CreateCode_def Let_def
proof (intro spec_if bind_ask P keeps_bind [OF keeps_insert_code [OF P inv]])
  fix w
  assume "P w"
  with code [OF this] show "code_copy (if rc_Type (r\<lparr>rc_Code := go_TrimSpace (rc_Code r)\<rparr>) = []
      then r\<lparr>rc_Code := go_TrimSpace (rc_Code r)\<rparr>\<lparr>rc_Type := RedeemTypeBalance\<rparr>
      else r\<lparr>rc_Code := go_TrimSpace (rc_Code r)\<rparr>) w"
    by (simp add: code_copy_def)
next
  fix x
  show "keeps q i P (case x of Some True \<Rightarrow> Ret None | _ \<Rightarrow> Ret (Some (Plain ''create redeem code'')))"
    by (auto split: option.splits bool.splits intro: keeps_Ret P)
qed (use unused in \<open>auto intro: keeps_Ret P\<close>)

lemma keeps_rebate_tx:
  assumes P: "stb q i P" and inv: "\<And>w. P w \<Longrightarrow> shop_inv q w"
  shows "keeps q i P rebate_tx"
  unfolding rebate_tx_def
proof (rule quiet_step [OF P])
  fix w w' r
  let ?applied = "(add_audit ''AFFILIATE_REBATE_APPLIED'' w)\<lparr>w_rebates := Suc (w_rebates w)\<rparr>"
  let ?skipped = "add_audit ''AFFILIATE_REBATE_SKIPPED'' w"
  assume Pw: "P w" and mem: "(w', r) \<in> set ((if ''AFFILIATE_REBATE_APPLIED'' \<in> set (w_audit w) \<or> ''AFFILIATE_REBATE_SKIPPED'' \<in> set (w_audit w)
      then [(w, None)]
      else case w_rebate w of
        None \<Rightarrow> [(w, Some (Plain ''accrue affiliate rebate''))]
      | Some amount \<Rightarrow>
          (let w' = (if amount \<le> Fin 0 then add_audit ''AFFILIATE_REBATE_SKIPPED'' w
                     else (add_audit ''AFFILIATE_REBATE_APPLIED'' w)\<lparr>w_rebates := Suc (w_rebates w)\<rparr>)
           in [(w', None), (w', Some (Plain ''commit affiliate rebate tx''))]))
     @ [(w, Some (Plain ''begin affiliate rebate tx''))])"
  then consider "w' = w" | "w' = ?skipped" | "w' = ?applied" "\<not> rebate_recorded w"
    by (auto simp: Let_def split: if_splits option.splits)
  then show "shop_guar q i w w' \<and> shop_rely q i w w'"
  proof cases
    case 1
    then show ?thesis using shop.rely_refl by simp
  next
    case 2
    then show ?thesis by (intro conjI same_shop) (simp_all add: add_audit_def)
  next
    case 3
    have same: "w_order w' = w_order w" "w_codes w' = w_codes w" "w_ledger w' = w_ledger w"
        "w_holder w' = w_holder w" "w_accepted w' = w_accepted w"
      by (simp_all add: 3 add_audit_def)
    have rebate: "rebate_recorded w'" "w_rebates w' = Suc (w_rebates w)"
      using 3(2) by (simp_all add: 3(1) add_audit_def)
    have used: "code_used w' = code_used w" "inv_codes w' = inv_codes w"
      by (simp_all add: code_used_def inv_codes_def same)
    then have "inv_credit w' = inv_credit w" by (simp add: inv_credit_def same)
    with inv [OF Pw] used rebate 3(2) have "shop_inv q w'"
      unfolding shop_inv_def same by simp
    with used show ?thesis
      by (simp add: shop_guar_def shop_rely_def evolves_def keeps_lock_def status_edge_def one_change_def same)
  qed
qed

lemma keeps_applyAffiliateRebate:
  assumes P: "stb q i P" and inv: "\<And>w. P w \<Longrightarrow> shop_inv q w"
  shows "keeps q i P (applyAffiliateRebateForOrder sv x)"
  unfolding applyAffiliateRebateForOrder_def
  by (intro spec_if keeps_bind [OF keeps_rebate_tx [OF P inv]] spec_option bind_audit keeps_Ret P; simp)

lemma status_update_intro:
  assumes "shop_inv q w" and "order_key new = order_key (w_order w)"
    and "o_PayAmount new = o_PayAmount (w_order w)" and "o_PaidAt new = o_PaidAt (w_order w)"
    and "st w \<noteq> REFUNDING" and "status_edge (st w) (o_Status new)"
    and "unpaid (o_Status new) = unpaid (st w)"
    and "fulfilled (o_Status new) \<Longrightarrow> fulfilled (st w) \<or> credited_order w"
  shows "st w \<noteq> REFUNDING \<and> good_update q i w new"
  using assms by (intro conjI good_update_status)

lemma safe_markCompleted:
  assumes P: "stb q i P" and inv: "\<And>w. P w \<Longrightarrow> shop_inv q w" and credit: "\<And>w. P w \<Longrightarrow> credited_order w"
    and a: "a \<noteq> ''AFFILIATE_REBATE_APPLIED''"
  shows "safe_call q i P (markCompleted x a)"
  unfolding markCompleted_def
proof (intro bind_ask P keeps_bind [OF keeps_update [OF P inv]] spec_option bind_audit a safe_Ret inv)
  fix now w
  assume "P w" and "o_ID (w_order w) = o_ID x \<and> st w = RECHARGING"
  then show "st w \<noteq> REFUNDING \<and>
      good_update q i w ((w_order w)\<lparr>o_Status := COMPLETED, o_CompletedAt := Some now\<rparr>)"
    using inv credit by (intro status_update_intro) (auto simp: order_key_def status_edge_def unpaid_def)
qed

lemma safe_finishBalance:
  assumes P: "stb q i P" and inv: "\<And>w. P w \<Longrightarrow> shop_inv q w" and credit: "\<And>w. P w \<Longrightarrow> credited_order w"
  shows "safe_call q i P (finishBalance sv x)"
  unfolding finishBalance_def
  by (intro keeps_bind [OF keeps_applyAffiliateRebate [OF P inv]] spec_option safe_Ret safe_markCompleted P inv credit)
     simp_all

lemma has_read_inv: "has_read q x w \<Longrightarrow> shop_inv q w"
  by (simp add: has_read_def)

lemma redeemed_own: "has_read q x w \<Longrightarrow> redeemed (o_RechargeCode x) w \<Longrightarrow> credited_order w"
  by (simp add: redeemed_def has_read_def order_key_eq)

lemma safe_redeemAndFinish: "safe_call q i (has_read q x) (redeemAndFinish sv x)"
  unfolding redeemAndFinish_def
proof (rule spec_bind [OF spec_Redeem [OF stable_has_read has_read_inv]])
  fix e :: "svc_error option"
  let ?A = "\<lambda>w. has_read q x w \<and> (e = None \<longrightarrow> redeemed (o_RechargeCode x) w)"
  have A: "stb q i ?A" by (intro stables)
  show "safe_call q i ?A (case e of Some _ \<Rightarrow> Ret (Some (Plain ''redeem balance'')) | None \<Rightarrow> finishBalance sv x)"
  proof (rule spec_option)
    assume "e = None"
    then show "safe_call q i ?A (finishBalance sv x)"
      using redeemed_own by (intro safe_finishBalance A) (auto dest: has_read_inv)
  qed (intro safe_Ret A; simp add: has_read_def)
qed

lemma safe_doBalance: "safe_call q i (has_read q x) (doBalance sv x)"
  unfolding doBalance_def
proof (rule spec_bind [OF spec_get_code [OF stable_has_read has_read_inv]])
  fix r
  let ?A = "\<lambda>w. has_read q x w \<and> (\<forall>y. r = Found y \<longrightarrow> seen_code (o_RechargeCode x) y w)"
  have A: "stb q i ?A" by (intro stables)
  have create: "safe_call q i ?A (bind (CreateCode (balance_code x)) (\<lambda>e. case e of
           Some _ \<Rightarrow> Ret (Some (Plain ''create redeem code''))
         | None \<Rightarrow> redeemAndFinish sv x))"
  proof (rule keeps_bind)
    show "keeps q i ?A (CreateCode (balance_code x))"
      by (intro keeps_CreateCode A) (auto simp: balance_code_def has_read_def order_key_eq)
    show "safe_call q i ?A (case e of Some _ \<Rightarrow> Ret (Some (Plain ''create redeem code''))
         | None \<Rightarrow> redeemAndFinish sv x)" for e :: "svc_error option"
      by (intro spec_option safe_Ret A safe_weaken [OF safe_redeemAndFinish]) (auto simp: has_read_def)
  qed
  have skip: "safe_call q i ?A (finishBalance sv x)" if "resolveRedeemAction r = redeemActionSkipCompleted"
  proof (intro safe_finishBalance A)
    from that obtain y where y: "r = Found y" "IsUsed y"
      by (auto simp: resolveRedeemAction_def split: lookup.splits if_splits)
    show "credited_order w" if "?A w" for w
      using that y redeemed_own [of q x w] by (simp add: seen_code_alt)
  qed (simp add: has_read_def)
  show "safe_call q i ?A (case resolveRedeemAction r of
       redeemActionCreate \<Rightarrow>
         bind (CreateCode (balance_code x)) (\<lambda>e. case e of
           Some _ \<Rightarrow> Ret (Some (Plain ''create redeem code''))
         | None \<Rightarrow> redeemAndFinish sv x)
     | redeemActionRedeem \<Rightarrow> redeemAndFinish sv x
     | redeemActionSkipCompleted \<Rightarrow> finishBalance sv x)"
    using create skip safe_weaken [OF safe_redeemAndFinish, of ?A q x i sv]
    by (cases "resolveRedeemAction r") auto
qed

lemma safe_markFailed: "safe_call q i (shop_inv q) (markFailed oid cause)"
  unfolding markFailed_def
proof (intro bind_ask stables keeps_bind [OF keeps_update [OF stable_inv]] spec_option spec_if safe_audit safe_Ret)
  fix now w
  assume "shop_inv q w" and "o_ID (w_order w) = oid \<and> st w = RECHARGING"
  then show "st w \<noteq> REFUNDING \<and>
      good_update q i w ((w_order w)\<lparr>o_Status := FAILED, o_FailedAt := Some now, o_FailedReason := Some cause\<rparr>)"
    by (intro status_update_intro) (auto simp: order_key_def status_edge_def unpaid_def fulfilled_def)
qed simp_all

lemma safe_locked_fulfilment:
  assumes P: "stb q i P" and inv: "\<And>w. P w \<Longrightarrow> shop_inv q w" and work: "safe_call q i P work"
  shows "safe_call q i P (locked_fulfilment oid work)"
  unfolding locked_fulfilment_def
proof (intro P keeps_bind [OF keeps_update [OF P inv]] spec_option spec_if safe_Ret spec_bind [OF work]
    spec_bind [OF safe_markFailed] stables)
  fix w
  assume "P w" and "o_ID (w_order w) = oid \<and> (st w = PAID \<or> st w = FAILED)"
  then show "st w \<noteq> REFUNDING \<and> good_update q i w ((w_order w)\<lparr>o_Status := RECHARGING\<rparr>)"
    using inv by (intro status_update_intro) (auto simp: order_key_def status_edge_def unpaid_def fulfilled_def)
qed (auto dest: inv)

lemma safe_ExecuteBalanceFulfillment: "safe_call q i (shop_inv q) (ExecuteBalanceFulfillment sv oid)"
  unfolding ExecuteBalanceFulfillment_def
  by (intro bind_get_order stables; simp only: option.case;
      (intro spec_option safe_Ret safe_locked_fulfilment stables safe_weaken [OF safe_doBalance])?)
     (auto simp: has_read_def)

definition for_subscription :: "shop \<Rightarrow> bool" where
  "for_subscription w \<longleftrightarrow> o_OrderType (w_order w) = OrderTypeSubscription"

lemma stable_for_subscription [stables]: "stb q i for_subscription"
  by (auto simp: stable_def for_subscription_def shop_rely_def evolves_def order_key_eq)

lemma keeps_AlreadyGranted:
  assumes P: "stb q i P"
  shows "keeps q i P (AlreadyGranted x)"
  unfolding AlreadyGranted_def
  by (intro bind_hasAuditLog bind_read_db spec_if spec_option keeps_Ret P)

lemma keeps_quiet_write:
  assumes P: "stb q i P"
    and same: "\<And>w. w_order (fst (f i w)) = w_order w \<and> w_codes (fst (f i w)) = w_codes w \<and>
      credits_of (o_RechargeCode (w_order w)) (w_ledger (fst (f i w))) = credited w \<and> w_holder (fst (f i w)) = w_holder w \<and>
      w_accepted (fst (f i w)) = w_accepted w \<and> w_rebates (fst (f i w)) = w_rebates w \<and>
      w_audit (fst (f i w)) = w_audit w"
  shows "keeps q i P (write_db f)"
proof (rule write_db_step [OF P P])
  fix w
  assume Pw: "P w"
  show "shop_guar q i w (fst (f i w))" by (rule same_shop; use same [of w] in simp)
  have "shop_rely q i w (fst (f i w))" by (rule same_shop; use same [of w] in simp)
  from stableD [OF P Pw this] Pw show "P (fst (f i w)) \<and> P (fst (f i w)) \<and> P w" by simp
qed

lemma keeps_assign: "stb q i P \<Longrightarrow> keeps q i P (write_db (assign_subscription note))"
  by (rule keeps_quiet_write) (simp_all add: assign_subscription_def)

lemma safe_doSub: "safe_call q i (\<lambda>w. shop_inv q w \<and> for_subscription w) (doSub x)"
proof -
  let ?P = "\<lambda>w. shop_inv q w \<and> for_subscription w"
  have P: "stb q i ?P" by (intro stables)
  have completed: "safe_call q i ?P (markCompleted x ''SUBSCRIPTION_SUCCESS'')"
    by (intro safe_markCompleted P) (auto simp: credited_order_def for_subscription_def)
  show ?thesis
    unfolding doSub_def
    by (intro bind_ask bind_read_db bind_audit keeps_bind [OF keeps_AlreadyGranted]
        keeps_bind [OF keeps_assign] keeps_bind [where p = "if _ then _ else _"] spec_if spec_option spec_sum safe_Ret completed keeps_Ret
        keeps_writeAuditLog P) auto
qed

lemma safe_ExecuteSubscriptionFulfillment:
  "safe_call q i (\<lambda>w. shop_inv q w \<and> for_subscription w) (ExecuteSubscriptionFulfillment oid)"
  unfolding ExecuteSubscriptionFulfillment_def
  by (intro bind_get_order stables; simp only: option.case;
      (intro spec_option spec_if safe_Ret safe_locked_fulfilment stables safe_weaken [OF safe_doSub])?)
     (auto simp: has_read_def)

lemma safe_executeFulfillment: "safe_call q i (shop_inv q) (executeFulfillment sv oid)"
  unfolding executeFulfillment_def
proof (intro bind_get_order stables; (simp only: option.case)?; (intro safe_Ret stables)?)
  fix x
  let ?A = "\<lambda>w. shop_inv q w \<and> has_read q x w"
  show "safe_call q i ?A (if o_OrderType x = OrderTypeSubscription then ExecuteSubscriptionFulfillment oid
         else ExecuteBalanceFulfillment sv oid)"
  proof (rule spec_if)
    assume "o_OrderType x = OrderTypeSubscription"
    then show "safe_call q i ?A (ExecuteSubscriptionFulfillment oid)"
      by (intro safe_weaken [OF safe_ExecuteSubscriptionFulfillment])
         (auto simp: for_subscription_def has_read_def order_key_eq)
  qed (intro safe_weaken [OF safe_ExecuteBalanceFulfillment]; simp)
qed simp_all

lemma safe_executeFulfillment':
  "(\<And>w. P w \<Longrightarrow> shop_inv q w) \<Longrightarrow> safe_call q i P (executeFulfillment sv oid)"
  by (rule safe_weaken [OF safe_executeFulfillment])

lemma safe_RetryFulfillment: "safe_call q i (shop_inv q) (RetryFulfillment sv oid)"
  unfolding RetryFulfillment_def
proof (intro bind_get_order stables; (simp only: option.case)?; (intro safe_Ret stables)?)
  fix x
  let ?A = "\<lambda>w. shop_inv q w \<and> has_read q x w"
  have A: "stb q i ?A" by (intro stables)
  have reset: "keeps q i ?A (write_db (update_order (\<lambda>x. o_ID x = oid \<and> (o_Status x = FAILED \<or> o_Status x = PAID))
      (\<lambda>x. x\<lparr>o_Status := PAID, o_FailedAt := None, o_FailedReason := None\<rparr>)))"
    by (rule keeps_update [OF A], simp, intro status_update_intro)
       (auto simp: order_key_def status_edge_def unpaid_def fulfilled_def)
  show "safe_call q i ?A (if o_PaidAt x = None then Ret (Some (BadRequest ''INVALID_STATUS'' ''order is not paid''))
         else if psIsRefundStatus (o_Status x)
         then Ret (Some (BadRequest ''INVALID_STATUS'' ''refund-related order cannot retry''))
         else if o_Status x = RECHARGING then Ret (Some (Conflict ''CONFLICT'' ''order is being processed''))
         else if o_Status x = COMPLETED then Ret (Some (BadRequest ''INVALID_STATUS'' ''order already completed''))
         else if o_Status x \<noteq> FAILED \<and> o_Status x \<noteq> PAID
         then Ret (Some (BadRequest ''INVALID_STATUS'' ''only paid and failed orders can retry''))
         else
           bind (write_db (update_order (\<lambda>x. o_ID x = oid \<and> (o_Status x = FAILED \<or> o_Status x = PAID))
                   (\<lambda>x. x\<lparr>o_Status := PAID, o_FailedAt := None, o_FailedReason := None\<rparr>))) (\<lambda>c. case c of
             None \<Rightarrow> Ret (Some (Plain ''reset for retry''))
           | Some _ \<Rightarrow> bind (writeAuditLog ''RECHARGE_RETRY'') (\<lambda>_. executeFulfillment sv oid)))"
    by (intro spec_if safe_Ret A keeps_bind [OF reset] spec_option bind_audit safe_executeFulfillment') simp_all
qed simp_all

section \<open>Notification\<close>

lemma safe_alreadyProcessed: "safe_call q i (shop_inv q) (alreadyProcessed sv x)"
  unfolding alreadyProcessed_def
  by (intro bind_get_order stables; (simp only: option.case)?;
      (intro spec_if safe_Ret bind_audit safe_executeFulfillment' stables)?) simp_all

lemma safe_toPaid:
  assumes "isValidProviderAmount paid"
    and "\<not> paymentAmountToleranceForCurrency (PaymentOrderCurrency x) < \<bar>paid - o_PayAmount x\<bar>"
  shows "safe_call q i (has_read q x) (toPaid sv x tradeNo paid)"
  unfolding toPaid_def
proof (intro bind_ask stables keeps_bind [OF keeps_update [OF stable_has_read has_read_inv]] spec_option spec_if
    safe_Ret safe_weaken [OF safe_alreadyProcessed] bind_audit safe_executeFulfillment')
  fix now w
  assume read: "has_read q x w" and row: "o_ID (w_order w) = o_ID x \<and> (st w = PENDING \<or> st w = CANCELLED \<or>
      (st w = EXPIRED \<and> now - paymentGrace \<le> o_UpdatedAt (w_order w)))"
  let ?new = "(w_order w)\<lparr>o_Status := PAID, o_PayAmount := paid, o_PaymentTradeNo := tradeNo,
      o_PaidAt := Some now, o_FailedAt := None, o_FailedReason := None\<rparr>"
  from row have un: "unpaid (st w)" by (auto simp: unpaid_def)
  from read un have q: "o_PayAmount x = q" by (auto simp: has_read_def shop_inv_def)
  from read have "PaymentOrderCurrency ?new = PaymentOrderCurrency x"
    by (simp add: has_read_def order_key_eq PaymentOrderCurrency_def psOrderProviderSnapshot_def)
  with assms q have "paid_enough q ?new" by (simp add: paid_enough_def)
  moreover have "w_accepted w = 0" using read row by (auto simp: has_read_def shop_inv_def)
  ultimately show "st w \<noteq> REFUNDING \<and> good_update q i w ?new"
    using row by (auto simp: good_update_def order_key_def status_edge_def unpaid_def fulfilled_def)
next
  show "safe_call q i (has_read q x)
     (bind (if o_Status x = CANCELLED \<or> o_Status x = EXPIRED then writeAuditLog ''ORDER_RECOVERED'' else Ret ())
       (\<lambda>_. bind (writeAuditLog ''ORDER_PAID'') (\<lambda>_. executeFulfillment sv (o_ID x))))"
    by (intro keeps_bind [where p = "if _ then _ else _"] spec_if keeps_writeAuditLog keeps_Ret stables bind_audit
        safe_executeFulfillment' has_read_inv) simp_all
qed (auto dest: has_read_inv)

lemma safe_confirmPayment: "safe_call q i (shop_inv q) (confirmPayment sv oid tradeNo paid pk metadata)"
  unfolding confirmPayment_def Let_def
  by (intro bind_get_order stables; (simp only: option.case)?;
      (intro bind_ask spec_if spec_option safe_Ret bind_audit stables safe_weaken [OF safe_toPaid])?)
     (auto simp: has_read_def)

lemma safe_HandlePaymentNotification: "safe_call q i (shop_inv q) (HandlePaymentNotification sv n pk)"
  unfolding HandlePaymentNotification_def
  by (intro spec_if safe_Ret bind_read_order stables; (simp only: option.case)?;
      (intro spec_if spec_option safe_Ret stables safe_weaken [OF safe_confirmPayment])?)
     (auto simp: has_read_def)

section \<open>Cancellation, expiry and reconciliation\<close>

lemma keeps_getOrderProvider: "stb q i P \<Longrightarrow> keeps q i P (getOrderProvider sv x)"
  unfolding getOrderProvider_def createProviderFromInstance_def Let_def
  by (intro bind_ask spec_sum spec_option spec_if keeps_Ret keeps_ask)

lemma keeps_trade_no:
  "keeps q i (has_read q x) (write_db (update_order (\<lambda>y. o_ID y = o_ID x) (\<lambda>y. y\<lparr>o_PaymentTradeNo := t\<rparr>)))"
proof (rule write_db_step)
  fix w
  assume read: "has_read q x w"
  let ?f = "update_order (\<lambda>y. o_ID y = o_ID x) (\<lambda>y. y\<lparr>o_PaymentTradeNo := t\<rparr>)"
  have "o_ID (w_order w) = o_ID x" using read by (simp add: has_read_def order_key_eq)
  then have f: "fst (?f i w) = w\<lparr>w_order := (w_order w)\<lparr>o_PaymentTradeNo := t, o_UpdatedAt := w_now w\<rparr>,
      w_holder := holder_after i (st w) (st w) (w_holder w)\<rparr>"
    by (simp add: update_order_def Let_def)
  have holder: "holder_after i (st w) (st w) (w_holder w) = w_holder w"
    using read by (auto simp: holder_after_def has_read_def shop_inv_def)
  let ?w = "fst (?f i w)"
  have same: "w_codes ?w = w_codes w" "w_ledger ?w = w_ledger w" "w_audit ?w = w_audit w"
      "w_rebates ?w = w_rebates w" "w_accepted ?w = w_accepted w" "w_holder ?w = w_holder w"
      "order_key (w_order ?w) = order_key (w_order w)" "st ?w = st w"
      "o_PayAmount (w_order ?w) = o_PayAmount (w_order w)" "paid_enough q (w_order ?w) = paid_enough q (w_order w)"
    by (simp_all add: f holder order_key_def paid_enough_def PaymentOrderCurrency_def psOrderProviderSnapshot_def)
  then have used: "code_used ?w = code_used w" "inv_codes ?w = inv_codes w"
    by (simp_all add: code_used_def inv_codes_def order_key_eq)
  with same have "inv_credit ?w = inv_credit w" by (simp add: inv_credit_def order_key_eq)
  with same used have inv: "shop_inv q ?w = shop_inv q w" by (simp add: shop_inv_def order_key_eq)
  then show "shop_guar q i w ?w"
    using same used by (simp add: shop_guar_def evolves_def keeps_lock_def status_edge_def one_change_def order_key_eq)
  show "has_read q x ?w \<and> has_read q x ?w \<and> has_read q x w"
    using read same inv by (simp add: has_read_def)
qed (rule stables)+

lemma safe_upstreamPaid: "safe_call q i (has_read q x) (upstreamPaid sv x prov ref resp)"
proof -
  have notify: "safe_call q i (has_read q x) (bind (HandlePaymentNotification sv n pk) (\<lambda>_. Ret s))" for n pk and s :: string
    by (rule spec_bind [OF safe_weaken [OF safe_HandlePaymentNotification has_read_inv]])
       (auto intro: safe_Ret stables)
  have persist: "keeps q i (has_read q x) (if b then bind (write_db (update_order (\<lambda>y. o_ID y = o_ID x)
      (\<lambda>y. y\<lparr>o_PaymentTradeNo := t\<rparr>))) (\<lambda>_. Ret ()) else Ret ())" for b t
    by (intro spec_if keeps_bind [OF keeps_trade_no] keeps_Ret stables)
  show ?thesis
    unfolding upstreamPaid_def Let_def by (intro keeps_bind [OF persist] notify)
qed

lemma safe_checkPaid: "safe_call q i (has_read q x) (checkPaidWithOptions sv x b)"
proof -
  have again: "keeps q i (has_read q x) (requeryPaidOrderOnce ref)" for ref
    unfolding requeryPaidOrderOnce_def by (intro spec_if bind_ask spec_option keeps_Ret stables)
  have cancel: "keeps q i (has_read q x) (atom (\<lambda>i w. [(w\<lparr>w_cancels := w_cancels w @ [ref]\<rparr>, ()), (w, ())]))" for ref
    by (rule quiet_step [OF stable_has_read]) (auto intro!: same_shop)
  show ?thesis
    unfolding checkPaidWithOptions_def Let_def
    by (intro keeps_bind [OF keeps_getOrderProvider] keeps_bind [OF again] keeps_bind [OF cancel] bind_ask bind_audit
        spec_option spec_if safe_Ret stables safe_upstreamPaid has_read_inv; assumption?) simp_all
qed

lemma safe_then_Ret:
  "safe_call q i P p \<Longrightarrow> (\<And>x. safe_call q i (shop_inv q) (k x)) \<Longrightarrow> safe_call q i P (bind p k)"
  by (rule spec_bind)

lemma safe_cancelCore:
  assumes "fs = CANCELLED \<or> fs = EXPIRED"
  shows "safe_call q i (has_read q x) (cancelCore sv x fs)"
proof -
  let ?upd = "update_order (\<lambda>y. o_ID y = o_ID x \<and> o_Status y = PENDING) (\<lambda>y. y\<lparr>o_Status := fs\<rparr>)"
  have upd: "keeps q i (shop_inv q) (write_db ?upd)"
  proof (rule keeps_update [OF stable_inv])
    fix w
    assume "shop_inv q w" and "o_ID (w_order w) = o_ID x \<and> st w = PENDING"
    with assms show "st w \<noteq> REFUNDING \<and> good_update q i w ((w_order w)\<lparr>o_Status := fs\<rparr>)"
      by (intro status_update_intro) (auto simp: order_key_def status_edge_def unpaid_def fulfilled_def)
  qed
  have audit: "keeps q i (shop_inv q) (if b then writeAuditLog (if fs = EXPIRED then ''ORDER_EXPIRED'' else ''ORDER_CANCELLED'') else Ret ())" for b
    by (intro spec_if keeps_writeAuditLog keeps_Ret stables) simp
  have check: "safe_call q i (has_read q x) (if b then checkPaid sv x else Ret [])" for b
    unfolding checkPaid_def by (intro spec_if safe_checkPaid safe_Ret stables has_read_inv)
  show ?thesis
    unfolding cancelCore_def
    by (intro safe_then_Ret [OF check] spec_if safe_Ret keeps_bind [OF upd] keeps_bind [OF audit] spec_option stables)
qed

lemma safe_CancelOrder: "safe_call q i (shop_inv q) (CancelOrder sv oid uid)"
  unfolding CancelOrder_def
  by (intro bind_get_order stables; (simp only: option.case)?;
      (intro spec_if safe_Ret stables safe_weaken [OF safe_cancelCore])?) simp_all

lemma safe_AdminCancelOrder: "safe_call q i (shop_inv q) (AdminCancelOrder sv oid)"
  unfolding AdminCancelOrder_def
  by (intro bind_get_order stables; (simp only: option.case)?;
      (intro spec_if safe_Ret stables safe_weaken [OF safe_cancelCore])?) simp_all

lemma safe_ExpireTimedOutOrders: "safe_call q i (shop_inv q) (ExpireTimedOutOrders sv)"
  unfolding ExpireTimedOutOrders_def
  by (intro bind_ask bind_read_order stables; (simp only: option.case)?;
      (intro spec_if safe_Ret stables safe_then_Ret safe_weaken [OF safe_cancelCore] spec_sum)?) simp_all

lemma safe_ReconcilePendingWxpayOrders: "safe_call q i (shop_inv q) (ReconcilePendingWxpayOrders sv)"
  unfolding ReconcilePendingWxpayOrders_def reconcilePaid_def
  by (intro bind_ask bind_read_order stables; (simp only: option.case)?;
      (intro spec_if safe_Ret stables safe_then_Ret safe_weaken [OF safe_checkPaid])?) simp_all

lemma safe_VerifyOrder: "safe_call q i (shop_inv q) (VerifyOrderByOutTradeNo sv number uid)"
  unfolding VerifyOrderByOutTradeNo_def reconcilePaid_def
  by (intro spec_sum safe_Ret bind_read_order stables; (simp only: option.case)?;
      (intro spec_if safe_Ret stables safe_then_Ret safe_weaken [OF safe_checkPaid] bind_get_order)?;
      (simp only: option.case)?; (intro safe_Ret stables)?) simp_all

section \<open>Refund\<close>

lemma safe_RequestRefund: "safe_call q i (shop_inv q) (RequestRefund oid uid reason)"
proof -
  have upd: "keeps q i P (write_db (update_order
      (\<lambda>y. o_ID y = oid \<and> o_UserID y = uid \<and> o_Status y = COMPLETED \<and> o_OrderType y = OrderTypeBalance)
      (\<lambda>y. y\<lparr>o_Status := REFUND_REQUESTED, o_RefundRequestedAt := t, o_RefundRequestReason := r,
             o_RefundRequestedBy := b, o_RefundAmount := a\<rparr>)))"
    if P: "stb q i P" "\<And>w. P w \<Longrightarrow> shop_inv q w" for P t r b a
    by (rule keeps_update [OF P]) 
       (assumption, intro status_update_intro,
        use P in \<open>auto simp: order_key_def status_edge_def unpaid_def fulfilled_def\<close>)
  show ?thesis
    unfolding RequestRefund_def
    by (intro bind_get_order stables; (simp only: option.case)?;
        (intro spec_if safe_Ret bind_ask spec_sum spec_option spec_prod keeps_bind [OF upd] bind_audit stables)?)
       auto
qed

lemma keeps_PrepareRefund: "keeps q i (shop_inv q) (PrepareRefund sv oid amt reason force deduct)"
proof -
  have prep: "keeps q i P (prepDeduct x p force)" if "stb q i P" for P x p
    unfolding prepDeduct_def Let_def
    by (intro spec_if spec_prod spec_option bind_read_db bind_ask keeps_Ret that)
  have tail: "spec q i P (bind (prepDeduct x p force) (\<lambda>d. case d of
      Inl early \<Rightarrow> Ret (PrepEarly early) | Inr p \<Rightarrow> Ret (PrepPlan p))) (\<lambda>_. shop_inv q)"
    if "stb q i P" "\<And>w. P w \<Longrightarrow> shop_inv q w" for P x p
    using that by (intro keeps_bind [OF prep] spec_sum safe_Ret)
  show ?thesis
    unfolding PrepareRefund_def Let_def
    by (intro bind_get_order stables; (simp only: option.case)?;
        (intro spec_if safe_Ret bind_ask spec_sum spec_option tail stables)?) auto
qed

text \<open>A call that holds the refund lock.\<close>

definition holds_lock :: "nat \<Rightarrow> shop \<Rightarrow> bool" where
  "holds_lock i w \<longleftrightarrow> w_holder w = Some i"

lemma stable_holds_lock [stables]: "stb q i (holds_lock i)"
  by (auto simp: stable_def holds_lock_def shop_rely_def keeps_lock_def)

abbreviation refunding :: "f64 \<Rightarrow> nat \<Rightarrow> nat \<Rightarrow> shop \<Rightarrow> bool" where
  "refunding q i n \<equiv> \<lambda>w. shop_inv q w \<and> owns i n w"

lemma stable_refunding: "stb q i (refunding q i n)"
  by (intro stables)

lemma good_refund_update:
  assumes "shop_inv q w" and "holds_lock i w" and "order_key new = order_key (w_order w)"
    and "o_PayAmount new = o_PayAmount (w_order w)" and "o_PaidAt new = o_PaidAt (w_order w)"
    and "o_Status new \<in> {COMPLETED, REFUND_REQUESTED, REFUND_FAILED, REFUNDED, PARTIALLY_REFUNDED}"
    and "w_accepted w \<noteq> 0 \<longrightarrow> o_Status new \<in> {PARTIALLY_REFUNDED, REFUNDED}"
  shows "good_update q i w new"
proof -
  have st: "st w = REFUNDING" using assms(1,2) by (auto simp: shop_inv_def holds_lock_def)
  with assms(1) have "paid_enough q (w_order w)" by (intro paid_row) (auto simp: unpaid_def)
  then have "paid_enough q new"
    using paid_enough_cong [OF assms(3-5)] by simp
  moreover have "o_OrderType (w_order w) \<noteq> OrderTypeSubscription \<longrightarrow> code_used w"
    using assms(1) st by (simp add: shop_inv_def fulfilled_def)
  moreover have "status_edge (st w) (o_Status new)" "\<not> unpaid (o_Status new)"
    using assms(6) by (auto simp: st status_edge_def unpaid_def)
  ultimately show ?thesis
    using assms(2,3,7) by (auto simp: good_update_def holds_lock_def order_key_eq)
qed

lemma safe_set_status:
  assumes P: "stb q i P" and lock: "\<And>w. P w \<Longrightarrow> shop_inv q w \<and> holds_lock i w"
    and change: "\<And>x. order_key (change x) = order_key x \<and> o_PayAmount (change x) = o_PayAmount x \<and>
      o_PaidAt (change x) = o_PaidAt x"
    and new: "\<And>x. o_Status (change x) \<in> {COMPLETED, REFUND_REQUESTED, REFUND_FAILED, REFUNDED, PARTIALLY_REFUNDED}"
    and accepted: "\<And>w x. P w \<Longrightarrow> w_accepted w \<noteq> 0 \<longrightarrow> o_Status (change x) \<in> {PARTIALLY_REFUNDED, REFUNDED}"
  shows "safe_call q i P (set_status_by_id oid change)"
  unfolding set_status_by_id_def
proof (rule safe_then_Ret)
  show "safe_call q i P (write_db (update_order (\<lambda>x. o_ID x = oid) change))"
  proof (rule write_db_step [OF P stable_inv])
    fix w
    assume Pw: "P w"
    show g: "shop_guar q i w (fst (update_order (\<lambda>x. o_ID x = oid) change i w))"
      using lock [OF Pw] change new accepted [OF Pw] by (intro update_order_guar good_refund_update) auto
    then show "shop_inv q (fst (update_order (\<lambda>x. o_ID x = oid) change i w)) \<and>
        shop_inv q (fst (update_order (\<lambda>x. o_ID x = oid) change i w)) \<and> shop_inv q w"
      using lock [OF Pw] by (simp add: shop_guar_def evolves_def)
  qed
qed (intro safe_Ret stables)

lemma safe_restoreStatus: "safe_call q i (refunding q i 0) (restoreStatus p)"
  unfolding restoreStatus_def
  by (intro safe_then_Ret [OF safe_set_status] safe_Ret stables)
     (auto simp: order_key_def owns_def holds_lock_def)

lemma keeps_add_ledger:
  assumes "\<And>c. credits_of c [e] = []" and "stb q i P"
  shows "keeps q i P (add_ledger e)"
  unfolding add_ledger_def by (rule keeps_quiet_write [OF assms(2)]) (simp add: assms(1))

lemma keeps_ExtendSubscription:
  assumes P: "stb q i P"
  shows "keeps q i P (ExtendSubscription sid days)"
  unfolding ExtendSubscription_def
proof (rule quiet_step [OF P])
  fix w w' :: shop and r
  let ?e = "w\<lparr>w_ledger := w_ledger w @ [SubDaysAdded sid days]\<rparr>"
  assume "(w', r) \<in> set (if days < 0 \<and> w_would_expire w then [(w, WouldExpire), (w, ExtendFailed)]
     else (let w' = w\<lparr>w_ledger := w_ledger w @ [SubDaysAdded sid days]\<rparr>
           in [(w', Extended), (w, ExtendFailed), (w', ExtendFailed)]))"
  then consider "w' = w" | "w' = ?e" by (auto simp: Let_def split: if_splits)
  then show "shop_guar q i w w' \<and> shop_rely q i w w'"
    by cases (intro conjI same_shop; simp)+
qed

lemma keeps_RollbackRefund:
  assumes P: "stb q i P"
  shows "keeps q i P (RollbackRefund p)"
proof -
  have balance: "keeps q i P (if b then bind (add_ledger (Restored u a)) (\<lambda>r. case r of
             Some _ \<Rightarrow> Ret True
           | None \<Rightarrow> bind (writeAuditLog ''REFUND_ROLLBACK_FAILED'') (\<lambda>_. Ret False))
           else Ret True)" for b u a
    by (intro spec_if keeps_bind [OF keeps_add_ledger] spec_option bind_audit keeps_Ret P) simp_all
  show ?thesis
    unfolding RollbackRefund_def
    by (intro keeps_bind [OF balance] keeps_bind [OF keeps_ExtendSubscription] spec_if bind_audit keeps_Ret P) simp_all
qed

lemma safe_handleGwFail: "safe_call q i (refunding q i 0) (handleGwFail p e)"
proof -
  have failed: "safe_call q i (refunding q i 0) (set_status_by_id oid
      (\<lambda>x. x\<lparr>o_Status := REFUND_FAILED, o_FailedAt := t, o_FailedReason := r\<rparr>))" for oid t r
    by (rule safe_set_status [OF stable_refunding]) (auto simp: order_key_def owns_def holds_lock_def)
  show ?thesis
    unfolding handleGwFail_def
    by (intro keeps_bind [OF keeps_RollbackRefund] spec_if safe_then_Ret [OF safe_restoreStatus]
        safe_then_Ret [OF failed] bind_ask bind_audit safe_Ret stables) simp_all
qed

lemma safe_markRefundOk: "safe_call q i (\<lambda>w. shop_inv q w \<and> holds_lock i w) (markRefundOk p)"
proof -
  have ok: "safe_call q i (\<lambda>w. shop_inv q w \<and> holds_lock i w) (set_status_by_id oid
      (\<lambda>x. x\<lparr>o_Status := (if b then PARTIALLY_REFUNDED else REFUNDED), o_RefundAmount := a,
             o_RefundReason := r, o_RefundAt := t, o_ForceRefund := f\<rparr>))" for oid b a r t f
    by (rule safe_set_status) (simp_all add: order_key_def stable_conj stable_inv stable_holds_lock)
  show ?thesis
    unfolding markRefundOk_def
    by (intro bind_ask safe_then_Ret [OF ok] spec_option bind_audit safe_Ret stables) simp_all
qed

lemma spec_gateway_refund:
  "spec q i (refunding q i 0) gateway_refund
     (\<lambda>r w. shop_inv q w \<and> holds_lock i w \<and> (r \<noteq> None \<longrightarrow> owns i 0 w))"
  unfolding gateway_refund_def
proof (rule spec_step [OF stable_refunding])
  fix w w' r
  assume own: "shop_inv q w \<and> owns i 0 w"
    and mem: "(w', r) \<in> set (case w_refund w of
       Inl e \<Rightarrow> [(w, Some e)]
     | Inr resp \<Rightarrow>
         (case validateRefundProviderResponse resp of
            None \<Rightarrow> [(w\<lparr>w_accepted := Suc (w_accepted w)\<rparr>, None)]
          | Some e \<Rightarrow> [(w, Some e)]))"
  have "(w' = w \<and> r \<noteq> None) \<or> (w' = w\<lparr>w_accepted := Suc (w_accepted w)\<rparr> \<and> r = None)"
  proof (cases "w_refund w")
    case (Inr resp)
    with mem show ?thesis by (cases "validateRefundProviderResponse resp") simp_all
  qed (use mem in simp)
  then consider "w' = w" "r \<noteq> None" | "w' = w\<lparr>w_accepted := Suc (w_accepted w)\<rparr>" "r = None"
    by blast
  then show "shop_guar q i w w' \<and> shop_inv q w' \<and> holds_lock i w' \<and> (r \<noteq> None \<longrightarrow> owns i 0 w')"
  proof cases
    case 1
    with own show ?thesis by (simp add: holds_lock_def owns_def)
  next
    case 2
    have same: "w_order w' = w_order w" "w_codes w' = w_codes w" "w_ledger w' = w_ledger w" "w_audit w' = w_audit w"
        "w_rebates w' = w_rebates w" "w_holder w' = w_holder w" "w_accepted w' = 1"
      using own by (simp_all add: 2 owns_def)
    then have used: "code_used w' = code_used w" "inv_codes w' = inv_codes w" "inv_credit w' = inv_credit w"
      by (simp_all add: code_used_def inv_codes_def inv_credit_def)
    have "st w = REFUNDING" using own by (auto simp: shop_inv_def owns_def)
    with own same used have "shop_inv q w'" by (simp add: shop_inv_def)
    moreover have "one_change w w'" using \<open>st w = REFUNDING\<close> own same by (simp add: one_change_def owns_def)
    ultimately show ?thesis using same used own 2(2)
      by (auto simp: shop_guar_def evolves_def keeps_lock_def status_edge_def owns_def holds_lock_def)
  qed
qed (intro stables)

lemma spec_gwRefund:
  "spec q i (refunding q i 0) (gwRefund p)
     (\<lambda>r w. shop_inv q w \<and> holds_lock i w \<and> (r \<noteq> None \<longrightarrow> owns i 0 w))"
proof -
  have ret: "spec q i (refunding q i 0) (Ret x)
     (\<lambda>r w. shop_inv q w \<and> holds_lock i w \<and> (r \<noteq> None \<longrightarrow> owns i 0 w))" for x :: "string option"
    by (intro spec_Ret stables) (auto simp: holds_lock_def owns_def)
  have prov: "keeps q i (refunding q i 0) (getRefundProvider x)" for x
    unfolding getRefundProvider_def createProviderFromInstance_def
    by (intro bind_ask spec_sum spec_option keeps_ask keeps_Ret stables)
  show ?thesis
    unfolding gwRefund_def
    by (intro spec_if bind_audit keeps_bind [OF prov] spec_option spec_gateway_refund ret stables) simp_all
qed

lemma spec_deduct_error:
  "safe_call q i (refunding q i 0) p \<Longrightarrow>
   spec q i (refunding q i 0) (bind p (\<lambda>_. Ret (Inl e)))
     (\<lambda>r w. shop_inv q w \<and> (\<forall>p. r = Inr p \<longrightarrow> owns i 0 w))"
  by (rule spec_bind) (auto intro!: spec_Ret stables)

lemma spec_deduct_ok:
  "spec q i (refunding q i 0) (Ret (Inr p)) (\<lambda>r w. shop_inv q w \<and> (\<forall>p. r = Inr p \<longrightarrow> owns i 0 w))"
  by (intro spec_Ret stables) simp

lemma spec_deductBalance:
  "spec q i (refunding q i 0) (deductBalance p) (\<lambda>r w. shop_inv q w \<and> (\<forall>p. r = Inr p \<longrightarrow> owns i 0 w))"
  unfolding deductBalance_def
  by (intro spec_if bind_hasAuditLog keeps_bind [OF keeps_add_ledger] spec_option
      spec_deduct_error [OF safe_restoreStatus] spec_deduct_ok stables) simp_all

lemma spec_deductSubscription:
  "spec q i (refunding q i 0) (deductSubscription p) (\<lambda>r w. shop_inv q w \<and> (\<forall>p. r = Inr p \<longrightarrow> owns i 0 w))"
proof -
  let ?Q = "\<lambda>r w. shop_inv q w \<and> (\<forall>p. r = Inr p \<longrightarrow> owns i 0 w)"
  have cases: "spec q i (refunding q i 0) (case r of Extended \<Rightarrow> p1 | WouldExpire \<Rightarrow> p2 | ExtendFailed \<Rightarrow> p3) ?Q"
    if "spec q i (refunding q i 0) p1 ?Q" "spec q i (refunding q i 0) p2 ?Q" "spec q i (refunding q i 0) p3 ?Q"
    for r and p1 p2 p3 :: "(svc_error + RefundPlan) call"
    using that by (cases r) simp_all
  show ?thesis
    unfolding deductSubscription_def
    by (intro spec_if bind_hasAuditLog keeps_bind [OF keeps_ExtendSubscription] cases keeps_bind [OF keeps_add_ledger]
        spec_option spec_deduct_error [OF safe_restoreStatus] spec_deduct_ok stables) simp_all
qed

lemma safe_refundLocked: "safe_call q i (refunding q i 0) (refundLocked p)"
proof -
  have finish: "safe_call q i (\<lambda>w. shop_inv q w \<and> holds_lock i w \<and> (g \<noteq> None \<longrightarrow> owns i 0 w))
      (case g of Some gErr \<Rightarrow> handleGwFail p gErr | None \<Rightarrow> markRefundOk p)" for g p
    by (cases g) (auto intro: safe_weaken [OF safe_handleGwFail] safe_weaken [OF safe_markRefundOk])
  have gateway: "safe_call q i (refunding q i 0) (bind (gwRefund p) (\<lambda>g. case g of
      Some gErr \<Rightarrow> handleGwFail p gErr | None \<Rightarrow> markRefundOk p))" for p
    by (rule spec_bind [OF spec_gwRefund finish])
  have next_step: "safe_call q i (\<lambda>w. shop_inv q w \<and> (\<forall>p. r = Inr p \<longrightarrow> owns i 0 w))
      (case r of Inl e \<Rightarrow> Ret (Inl e) | Inr p \<Rightarrow> k p)"
    if "\<And>p. safe_call q i (refunding q i 0) (k p)"
    for r :: "svc_error + RefundPlan" and k :: "RefundPlan \<Rightarrow> (svc_error + RefundResult) call"
    using that by (cases r) (auto intro!: safe_Ret stables)
  show ?thesis
    unfolding refundLocked_def
    by (intro spec_bind [OF spec_deductBalance] spec_bind [OF spec_deductSubscription] next_step gateway)
qed

lemma spec_refund_lock:
  "spec q i (shop_inv q) (write_db (update_order
      (\<lambda>x. o_ID x = oid \<and> (o_Status x = COMPLETED \<or> o_Status x = REFUND_REQUESTED \<or> o_Status x = REFUND_FAILED))
      (\<lambda>x. x\<lparr>o_Status := REFUNDING\<rparr>)))
    (\<lambda>r w. shop_inv q w \<and> ((\<exists>c. r = Some c \<and> c \<noteq> 0) \<longrightarrow> owns i 0 w))"
proof (rule write_db_step [OF stable_inv])
  fix w
  let ?f = "update_order
      (\<lambda>x. o_ID x = oid \<and> (o_Status x = COMPLETED \<or> o_Status x = REFUND_REQUESTED \<or> o_Status x = REFUND_FAILED))
      (\<lambda>x. x\<lparr>o_Status := REFUNDING\<rparr>)"
  assume inv: "shop_inv q w"
  show g: "shop_guar q i w (fst (?f i w))"
    by (intro update_order_guar inv conjunct2 [OF status_update_intro])
       (auto simp: order_key_def status_edge_def unpaid_def fulfilled_def)
  then have "shop_inv q (fst (?f i w))" using inv by (simp add: shop_guar_def evolves_def)
  moreover have "owns i 0 (fst (?f i w))" if "snd (?f i w) \<noteq> 0"
    using that inv by (auto simp: update_order_def Let_def owns_def holder_after_def shop_inv_def split: if_splits)
  ultimately show "(shop_inv q (fst (?f i w)) \<and> ((\<exists>c. Some (snd (?f i w)) = Some c \<and> c \<noteq> 0) \<longrightarrow> owns i 0 (fst (?f i w)))) \<and>
      (shop_inv q (fst (?f i w)) \<and> ((\<exists>c. None = Some c \<and> c \<noteq> 0) \<longrightarrow> owns i 0 (fst (?f i w)))) \<and>
      shop_inv q w \<and> ((\<exists>c. None = Some c \<and> c \<noteq> 0) \<longrightarrow> owns i 0 w)"
    using inv by auto
qed (intro stables)

lemma safe_ExecuteRefund: "safe_call q i (shop_inv q) (ExecuteRefund p)"
  unfolding ExecuteRefund_def
proof (rule spec_bind [OF spec_refund_lock], rule spec_option)
  fix r :: "nat option" and c
  assume r: "r = Some c"
  show "safe_call q i (\<lambda>w. shop_inv q w \<and> ((\<exists>c. r = Some c \<and> c \<noteq> 0) \<longrightarrow> owns i 0 w))
      (if c = 0 then Ret (Inl (Conflict ''CONFLICT'' ''order status changed'')) else refundLocked p)"
    by (rule spec_if) (auto simp: r intro: safe_Ret stables safe_weaken [OF safe_refundLocked])
qed (auto intro: safe_Ret stables)

lemma safe_ProcessRefund: "safe_call q i (shop_inv q) (ProcessRefund sv oid amt reason force deduct)"
  unfolding ProcessRefund_def
proof (rule keeps_bind [OF keeps_PrepareRefund])
  show "safe_call q i (shop_inv q) (case r of PrepError e \<Rightarrow> Ret (Inl e) | PrepEarly early \<Rightarrow> Ret (Inr early)
      | PrepPlan p \<Rightarrow> ExecuteRefund p)" for r
    by (cases r) (auto intro: safe_Ret stables safe_ExecuteRefund)
qed

section \<open>The server\<close>

lemma safe_ignore: "safe_call q i (shop_inv q) p \<Longrightarrow> safe_call q i (shop_inv q) (ignore p)"
  unfolding ignore_def by (rule safe_then_Ret) (auto intro: safe_Ret stables)

lemma safe_Redeem: "safe_call q i (shop_inv q) (Redeem uid c)"
  by (rule spec_conseq [OF spec_Redeem [OF stable_inv]]) auto

lemma server_call_safe:
  assumes "server_call sv p"
  shows "spec q i (shop_inv q) p (\<lambda>_ _. True)"
proof -
  have "safe_call q i (shop_inv q) p"
    using assms
    by cases (auto intro: safe_ignore safe_HandlePaymentNotification safe_RetryFulfillment safe_CancelOrder
        safe_AdminCancelOrder safe_ExpireTimedOutOrders safe_ReconcilePendingWxpayOrders safe_VerifyOrder
        safe_RequestRefund safe_ProcessRefund safe_Redeem)
  then show ?thesis by (rule spec_conseq) simp_all
qed

end
