(* ===== verification/Payment_Order_Runs.thy ===== *)
theory Payment_Order_Runs
  imports Payment_Order_Safety
begin

text \<open>
  Complete runs of single calls: what a call does when every operation it performs succeeds, and a
  bound on the operations of every call.
\<close>

section \<open>A sample\<close>

definition sample_service :: "f64 service" where
  "sample_service = \<lparr>sv_Affiliate = True, sv_Registry = None,
     sv_Decimal = \<lparr>NewFromFloat = (\<lambda>x. x), dMul = (\<lambda>x y. x), dDiv = (\<lambda>x y. x), dRound = (\<lambda>x n. x),
       InexactFloat64 = (\<lambda>x. x)\<rparr>\<rparr>"

definition sample_shop :: shop where
  "sample_shop = \<lparr>w_order = sample_order, w_codes = (\<lambda>_. None), w_ledger = [], w_audit = [], w_subnotes = None,
     w_rebates = 0, w_cancels = [], w_now = 500, w_user = Some (Fin 0, 1), w_instances = sample_db,
     w_make_provider = (\<lambda>_. Some \<lparr>pv_Key = ''alipay'', pv_Identity = [], pv_Cancelable = False\<rparr>),
     w_registry_provider = (\<lambda>_. None), w_fallback_allowed = (\<lambda>_. False), w_query = (\<lambda>_. None),
     w_refund = Inr (Some ''success''), w_group_active = True, w_entitlement = Inl [], w_active_sub = None,
     w_would_expire = False, w_rebate = Some (Fin 1), w_holder = None, w_accepted = 0\<rparr>"

definition sample_notification :: PaymentNotification where
  "sample_notification = \<lparr>n_TradeNo = ''T1'', n_OrderID = o_OutTradeNo sample_order, n_Amount = Fin 100,
     n_Status = ''success'', n_Metadata = []\<rparr>"

section \<open>Operations that succeed\<close>

lemma smooth_ask: "smooth i (ask f) w = Some (w, f w)"
  by (simp add: ask_def smooth_atom)

lemma smooth_read_db: "smooth i (read_db f) w = Some (w, Some (f w))"
  by (simp add: read_db_def smooth_atom)

lemma smooth_chance: "smooth i chance w = Some (w, True)"
  by (simp add: chance_def smooth_atom)

lemma smooth_write_db: "smooth i (write_db f) w = Some (fst (f i w), Some (snd (f i w)))"
  by (simp add: write_db_def smooth_atom)

lemma smooth_get_order: "o_ID (w_order w) = oid \<Longrightarrow> smooth i (get_order oid) w = Some (w, Some (w_order w))"
  by (simp add: get_order_def smooth_atom)

lemma smooth_writeAuditLog: "smooth i (writeAuditLog a) w = Some (add_audit a w, ())"
  by (simp add: writeAuditLog_def smooth_atom)

lemma smooth_hasAuditLog: "smooth i (hasAuditLog a) w = Some (w, a \<in> set (w_audit w))"
  by (simp add: hasAuditLog_def smooth_atom)

lemma smooth_get_code:
  "smooth i (get_code c) w = Some (w, case w_codes w c of Some r \<Rightarrow> Found r | None \<Rightarrow> Missing)"
  by (simp add: get_code_def smooth_atom)

lemmas smooth_ops = smooth_bind smooth_ask smooth_read_db smooth_chance smooth_write_db smooth_get_order
  smooth_writeAuditLog smooth_hasAuditLog smooth_get_code

lemma add_audit_fields [simp]:
  "w_order (add_audit a w) = w_order w" "w_codes (add_audit a w) = w_codes w"
  "w_ledger (add_audit a w) = w_ledger w" "w_user (add_audit a w) = w_user w"
  "w_now (add_audit a w) = w_now w" "w_rebate (add_audit a w) = w_rebate w"
  "w_instances (add_audit a w) = w_instances w" "w_accepted (add_audit a w) = w_accepted w"
  "w_holder (add_audit a w) = w_holder w" "w_refund (add_audit a w) = w_refund w"
  "w_make_provider (add_audit a w) = w_make_provider w"
  "set (w_audit (add_audit a w)) = insert a (set (w_audit w))"
  by (simp_all add: add_audit_def insert_absorb)

lemma update_order_hit:
  "condition (w_order w) \<Longrightarrow>
   update_order condition change i w =
     (w\<lparr>w_order := (change (w_order w))\<lparr>o_UpdatedAt := w_now w\<rparr>,
        w_holder := holder_after i (st w) (o_Status (change (w_order w))) (w_holder w)\<rparr>, 1)"
  by (simp add: update_order_def Let_def)

section \<open>A payment is credited\<close>

lemma smooth_Redeem:
  assumes "w_codes w c = Some r" and "rc_Code r = c" and "rc_Type r = RedeemTypeBalance" and "rc_Status r = Unused"
    and "rc_ExpiresAt r = None" and "\<not> rc_Value r < Fin 0" and "w_user w = Some (balance, concurrency)"
  shows "smooth i (Redeem uid c) w =
    Some (w\<lparr>w_codes := (w_codes w)(c := Some (r\<lparr>rc_Status := Used, rc_UsedBy := Some uid\<rparr>)),
            w_ledger := w_ledger w @ [Recharged uid c (rc_Value r)]\<rparr>, None)"
proof -
  have tx: "smooth i (redeem_tx uid r balance concurrency) w =
    Some (w\<lparr>w_codes := (w_codes w)(c := Some (r\<lparr>rc_Status := Used, rc_UsedBy := Some uid\<rparr>)),
            w_ledger := w_ledger w @ [Recharged uid c (rc_Value r)]\<rparr>, None)"
    unfolding redeem_tx_def using assms by (intro smooth_atom) (simp add: redeem_effect_def Let_def)
  show ?thesis
    using assms by (simp add: Redeem_def redeemFound_def rereadCode_def smooth_ops tx IsExpiredAt_def CanUse_def)
qed

lemma smooth_CreateCode:
  assumes "go_TrimSpace c = c" and "c \<noteq> []" and "rc_Code r = c" and "rc_Type r = RedeemTypeBalance"
    and "rc_Value r \<noteq> Fin 0" and "rc_Status r = Unused" and "rc_ExpiresAt r = None" and "w_codes w c = None"
  shows "smooth i (CreateCode r) w = Some (w\<lparr>w_codes := (w_codes w)(c := Some r)\<rparr>, None)"
  using assms by (cases r) (simp add: CreateCode_def smooth_ops IsExpiredAt_def insert_code_def)

text \<open>A balance order, its recharge code fresh, that can be credited.\<close>

definition creditable :: "'d service \<Rightarrow> shop \<Rightarrow> bool" where
  "creditable sv w \<longleftrightarrow>
     o_OrderType (w_order w) = OrderTypeBalance \<and> Fin 0 < o_Amount (w_order w) \<and>
     go_TrimSpace (o_RechargeCode (w_order w)) = o_RechargeCode (w_order w) \<and> o_RechargeCode (w_order w) \<noteq> [] \<and>
     w_codes w (o_RechargeCode (w_order w)) = None \<and> w_user w \<noteq> None \<and>
     (sv_Affiliate sv \<longrightarrow> w_rebate w \<noteq> None)"

lemma f64_pos: "Fin 0 < x \<Longrightarrow> x \<noteq> Fin 0 \<and> \<not> x < Fin 0 \<and> \<not> x \<le> Fin 0"
  by (cases x) (simp_all add: less_f64_def less_eq_f64_def)

lemma smooth_rebate:
  assumes "sv_Affiliate sv \<longrightarrow> w_rebate w \<noteq> None"
  shows "\<exists>w'. smooth i (applyAffiliateRebateForOrder sv ord) w = Some (w', None) \<and>
    w_order w' = w_order w \<and> w_codes w' = w_codes w \<and> w_ledger w' = w_ledger w \<and> w_now w' = w_now w \<and>
    w_holder w' = w_holder w \<and> w_accepted w' = w_accepted w"
proof (cases "o_OrderType ord \<noteq> OrderTypeBalance \<or> o_Amount ord \<le> Fin 0 \<or> \<not> sv_Affiliate sv")
  case True
  then show ?thesis by (auto simp: applyAffiliateRebateForOrder_def)
next
  case False
  with assms obtain a where a: "w_rebate w = Some a" by auto
  define w' where "w' = (if ''AFFILIATE_REBATE_APPLIED'' \<in> set (w_audit w) \<or> ''AFFILIATE_REBATE_SKIPPED'' \<in> set (w_audit w)
    then w else if a \<le> Fin 0 then add_audit ''AFFILIATE_REBATE_SKIPPED'' w
    else (add_audit ''AFFILIATE_REBATE_APPLIED'' w)\<lparr>w_rebates := Suc (w_rebates w)\<rparr>)"
  have "smooth i rebate_tx w = Some (w', None)"
    unfolding rebate_tx_def atom_def using a by (simp add: w'_def Let_def)
  then have "smooth i (applyAffiliateRebateForOrder sv ord) w = Some (w', None)"
    using False by (simp add: applyAffiliateRebateForOrder_def smooth_bind)
  moreover have "w_order w' = w_order w \<and> w_codes w' = w_codes w \<and> w_ledger w' = w_ledger w \<and> w_now w' = w_now w \<and>
    w_holder w' = w_holder w \<and> w_accepted w' = w_accepted w"
    by (simp add: w'_def)
  ultimately show ?thesis by blast
qed

lemma smooth_markCompleted:
  assumes "o_ID (w_order w) = o_ID ord" and "st w = RECHARGING"
  shows "\<exists>w'. smooth i (markCompleted ord a) w = Some (w', None) \<and> st w' = COMPLETED \<and>
    order_key (w_order w') = order_key (w_order w) \<and> w_ledger w' = w_ledger w \<and>
    o_CompletedAt (w_order w') = Some (w_now w)"
  using assms by (simp add: markCompleted_def smooth_ops update_order_hit order_key_eq)

text \<open>A run of the fulfilment of a paid order.\<close>

lemma smooth_finishBalance:
  assumes "o_ID (w_order w) = o_ID ord" and "st w = RECHARGING" and "sv_Affiliate sv \<longrightarrow> w_rebate w \<noteq> None"
  shows "\<exists>w'. smooth i (finishBalance sv ord) w = Some (w', None) \<and> st w' = COMPLETED \<and>
    order_key (w_order w') = order_key (w_order w) \<and> w_ledger w' = w_ledger w \<and>
    o_CompletedAt (w_order w') = Some (w_now w)"
proof -
  obtain w1 where r1: "smooth i (applyAffiliateRebateForOrder sv ord) w = Some (w1, None)"
    and w1: "w_order w1 = w_order w" "w_ledger w1 = w_ledger w" "w_now w1 = w_now w"
    using smooth_rebate [OF assms(3)] by blast
  from smooth_markCompleted [of w1 ord i] assms(1,2) w1 show ?thesis
    by (simp add: finishBalance_def smooth_bind r1)
qed

lemma smooth_doBalance:
  assumes "creditable sv w" and "order_key ord = order_key (w_order w)" and "st w = RECHARGING"
  shows "\<exists>w'. smooth i (doBalance sv ord) w = Some (w', None) \<and> st w' = COMPLETED \<and>
    order_key (w_order w') = order_key (w_order w) \<and>
    w_ledger w' = w_ledger w @ [Recharged (o_UserID ord) (o_RechargeCode ord) (o_Amount ord)] \<and>
    o_CompletedAt (w_order w') = Some (w_now w)"
proof -
  let ?c = "o_RechargeCode ord"
  from assms(1,2) obtain balance concurrency where u: "w_user w = Some (balance, concurrency)"
    by (auto simp: creditable_def)
  define w1 where "w1 = w\<lparr>w_codes := (w_codes w)(?c := Some (balance_code ord))\<rparr>"
  have create: "smooth i (CreateCode (balance_code ord)) w = Some (w1, None)"
    unfolding w1_def using assms(1,2) f64_pos [of "o_Amount ord"]
    by (intro smooth_CreateCode) (simp_all add: creditable_def balance_code_def order_key_eq)
  have w1: "w_codes w1 ?c = Some (balance_code ord)" "w_user w1 = Some (balance, concurrency)"
      "w_ledger w1 = w_ledger w" "w_order w1 = w_order w" "w_now w1 = w_now w" "w_rebate w1 = w_rebate w"
    by (simp_all add: w1_def u)
  have "\<exists>w2. smooth i (Redeem (o_UserID ord) ?c) w1 = Some (w2, None) \<and> w_order w2 = w_order w \<and>
      w_ledger w2 = w_ledger w @ [Recharged (o_UserID ord) ?c (o_Amount ord)] \<and> w_now w2 = w_now w \<and>
      w_rebate w2 = w_rebate w"
  proof -
    have "smooth i (Redeem (o_UserID ord) ?c) w1 =
      Some (w1\<lparr>w_codes := (w_codes w1)(?c := Some ((balance_code ord)\<lparr>rc_Status := Used, rc_UsedBy := Some (o_UserID ord)\<rparr>)),
            w_ledger := w_ledger w1 @ [Recharged (o_UserID ord) ?c (rc_Value (balance_code ord))]\<rparr>, None)"
      using assms(1,2) f64_pos [of "o_Amount ord"]
      by (intro smooth_Redeem [OF w1(1) _ _ _ _ _ w1(2)]) (simp_all add: balance_code_def creditable_def order_key_eq)
    then show ?thesis by (simp add: w1 balance_code_def)
  qed
  then obtain w2 where redeem: "smooth i (Redeem (o_UserID ord) ?c) w1 = Some (w2, None)"
    and w2: "w_order w2 = w_order w" "w_now w2 = w_now w" "w_rebate w2 = w_rebate w"
      "w_ledger w2 = w_ledger w @ [Recharged (o_UserID ord) ?c (o_Amount ord)]"
    by blast
  have fresh: "w_codes w ?c = None" using assms(1,2) by (simp add: creditable_def order_key_eq)
  have "smooth i (doBalance sv ord) w = smooth i (finishBalance sv ord) w2"
    by (simp add: doBalance_def redeemAndFinish_def smooth_bind smooth_get_code resolveRedeemAction_def
        fresh create redeem)
  moreover have "\<exists>w'. smooth i (finishBalance sv ord) w2 = Some (w', None) \<and> st w' = COMPLETED \<and>
      order_key (w_order w') = order_key (w_order w2) \<and> w_ledger w' = w_ledger w2 \<and>
      o_CompletedAt (w_order w') = Some (w_now w2)"
    using assms w2 by (intro smooth_finishBalance) (simp_all add: creditable_def order_key_eq)
  ultimately show ?thesis by (simp add: w2)
qed

lemma smooth_fulfil:
  assumes "creditable sv w" and "o_ID (w_order w) = oid" and "st w = PAID \<or> st w = FAILED"
  shows "\<exists>w'. smooth i (executeFulfillment sv oid) w = Some (w', None) \<and> st w' = COMPLETED \<and>
    order_key (w_order w') = order_key (w_order w) \<and>
    w_ledger w' = w_ledger w @
      [Recharged (o_UserID (w_order w)) (o_RechargeCode (w_order w)) (o_Amount (w_order w))] \<and>
    o_CompletedAt (w_order w') = Some (w_now w)"
proof -
  define w1 where "w1 = w\<lparr>w_order := (w_order w)\<lparr>o_Status := RECHARGING, o_UpdatedAt := w_now w\<rparr>, w_holder := None\<rparr>"
  have w1: "st w1 = RECHARGING" "o_ID (w_order w1) = oid" "order_key (w_order w1) = order_key (w_order w)"
      "o_UserID (w_order w1) = o_UserID (w_order w)" "o_RechargeCode (w_order w1) = o_RechargeCode (w_order w)"
      "w_ledger w1 = w_ledger w" "o_Amount (w_order w1) = o_Amount (w_order w)" "w_now w1 = w_now w"
    using assms(2) by (simp_all add: w1_def order_key_eq)
  have "creditable sv w1" using assms(1) by (simp add: creditable_def w1_def)
  then obtain w2 where r2: "smooth i (doBalance sv (w_order w)) w1 = Some (w2, None)" and w2: "st w2 = COMPLETED"
      "order_key (w_order w2) = order_key (w_order w1)"
      "w_ledger w2 = w_ledger w1 @ [Recharged (o_UserID (w_order w)) (o_RechargeCode (w_order w)) (o_Amount (w_order w))]"
      "o_CompletedAt (w_order w2) = Some (w_now w1)"
    using smooth_doBalance [of sv w1 "w_order w" i] w1 by auto
  have hit: "update_order (\<lambda>x. o_ID x = oid \<and> (o_Status x = PAID \<or> o_Status x = FAILED))
      (\<lambda>x. x\<lparr>o_Status := RECHARGING\<rparr>) i w = (w1, 1)"
    using assms(2,3) by (auto simp: update_order_hit w1_def holder_after_def)
  have "smooth i (locked_fulfilment oid (doBalance sv (w_order w))) w = Some (w2, None)"
    by (simp add: locked_fulfilment_def smooth_bind smooth_write_db hit r2)
  then have "smooth i (executeFulfillment sv oid) w = Some (w2, None)"
    using assms by (auto simp: executeFulfillment_def ExecuteBalanceFulfillment_def smooth_bind smooth_get_order
        creditable_def fulfil_guard_def psIsRefundStatus_def)
  with w1 w2 show ?thesis by simp
qed

text \<open>A notification that the checks of \<open>confirmPayment\<close> accept.\<close>

definition acceptable :: "'d service \<Rightarrow> shop \<Rightarrow> PaymentNotification \<Rightarrow> string \<Rightarrow> bool" where
  "acceptable sv w n pk \<longleftrightarrow>
     n_Status n = ''success'' \<and> n_OrderID n = o_OutTradeNo (w_order w) \<and>
     (let expected = expectedNotificationProviderKeyForOrder (sv_Registry sv) (w_order w)
            (case getOrderProviderInstance (w_instances w) (w_order w) of Inr (Some i) \<Rightarrow> pi_ProviderKey i | _ \<Rightarrow> [])
      in expected = [] \<or> go_TrimSpace pk = [] \<or> go_EqualFold expected (go_TrimSpace pk)) \<and>
     validateProviderNotificationMetadata (w_order w) pk (n_Metadata n) = None \<and>
     isValidProviderAmount (n_Amount n) \<and>
     \<not> paymentAmountToleranceForCurrency (PaymentOrderCurrency (w_order w))
         < \<bar>n_Amount n - o_PayAmount (w_order w)\<bar>"

lemma smooth_toPaid:
  assumes "creditable sv w" and "o_ID (w_order w) = o_ID ord"
    and "st w = PENDING \<or> st w = CANCELLED \<or> st w = EXPIRED \<and> w_now w - paymentGrace \<le> o_UpdatedAt (w_order w)"
  shows "\<exists>w'. smooth i (toPaid sv ord t a) w = Some (w', None) \<and> st w' = COMPLETED \<and>
    order_key (w_order w') = order_key (w_order w) \<and>
    w_ledger w' = w_ledger w @
      [Recharged (o_UserID (w_order w)) (o_RechargeCode (w_order w)) (o_Amount (w_order w))]"
proof -
  define w1 where "w1 = w\<lparr>w_order := (w_order w)\<lparr>o_Status := PAID, o_PayAmount := a, o_PaymentTradeNo := t,
    o_PaidAt := Some (w_now w), o_FailedAt := None, o_FailedReason := None, o_UpdatedAt := w_now w\<rparr>, w_holder := None\<rparr>"
  have hit: "update_order
     (\<lambda>x. o_ID x = o_ID ord \<and> (o_Status x = PENDING \<or> o_Status x = CANCELLED \<or>
                 (o_Status x = EXPIRED \<and> w_now w - paymentGrace \<le> o_UpdatedAt x)))
     (\<lambda>x. x\<lparr>o_Status := PAID, o_PayAmount := a, o_PaymentTradeNo := t, o_PaidAt := Some (w_now w),
                    o_FailedAt := None, o_FailedReason := None\<rparr>) i w = (w1, 1)"
    using assms(2,3) by (auto simp: update_order_hit w1_def holder_after_def)
  define w2 where "w2 = (if o_Status ord = CANCELLED \<or> o_Status ord = EXPIRED then add_audit ''ORDER_RECOVERED'' w1 else w1)"
  define w3 where "w3 = add_audit ''ORDER_PAID'' w2"
  have eq: "smooth i (toPaid sv ord t a) w = smooth i (executeFulfillment sv (o_ID ord)) w3"
    by (simp add: toPaid_def smooth_bind smooth_ask smooth_write_db hit smooth_writeAuditLog w2_def w3_def)
  have w3: "st w3 = PAID" "order_key (w_order w3) = order_key (w_order w)" "w_ledger w3 = w_ledger w"
      "o_ID (w_order w3) = o_ID ord"
      "o_UserID (w_order w3) = o_UserID (w_order w)" "o_RechargeCode (w_order w3) = o_RechargeCode (w_order w)"
      "o_Amount (w_order w3) = o_Amount (w_order w)"
    using assms(2) by (simp_all add: w3_def w2_def w1_def order_key_eq)
  have "creditable sv w3"
    using assms(1) by (simp add: creditable_def w3_def w2_def w1_def)
  from smooth_fulfil [OF this w3(4), of i] show ?thesis unfolding eq by (auto simp: w3)
qed

lemma smooth_notification:
  assumes "creditable sv w" and "acceptable sv w n pk"
    and "st w = PENDING \<or> st w = CANCELLED \<or> st w = EXPIRED \<and> w_now w - paymentGrace \<le> o_UpdatedAt (w_order w)"
  shows "\<exists>w'. smooth i (HandlePaymentNotification sv n pk) w = Some (w', None) \<and> st w' = COMPLETED \<and>
    order_key (w_order w') = order_key (w_order w) \<and>
    w_ledger w' = w_ledger w @
      [Recharged (o_UserID (w_order w)) (o_RechargeCode (w_order w)) (o_Amount (w_order w))]"
proof -
  have "smooth i (HandlePaymentNotification sv n pk) w =
      smooth i (toPaid sv (w_order w) (n_TradeNo n) (n_Amount n)) w"
    using assms(2) by (auto simp: acceptable_def HandlePaymentNotification_def confirmPayment_def smooth_bind
        smooth_read_db smooth_get_order smooth_ask Let_def split: sum.splits option.splits)
  with smooth_toPaid [OF assms(1) refl assms(3), of i] show ?thesis by auto
qed

text \<open>
  C35: A payment is credited: when an acceptable notification arrives for a pending order (or one
  cancelled, or expired less than five minutes ago) and nothing fails, the call returns without
  error, the order is COMPLETED and the user's balance has been credited once with its amount.
\<close>
theorem payment_completes:
  assumes "creditable sv w" and "acceptable sv w n pk"
    and "st w = PENDING \<or> st w = CANCELLED \<or> st w = EXPIRED \<and> w_now w - paymentGrace \<le> o_UpdatedAt (w_order w)"
  shows "\<exists>w'. smooth i (HandlePaymentNotification sv n pk) w = Some (w', None) \<and> st w' = COMPLETED \<and>
    w_ledger w' = w_ledger w @
      [Recharged (o_UserID (w_order w)) (o_RechargeCode (w_order w)) (o_Amount (w_order w))]"
  using smooth_notification [OF assms] by blast

section \<open>A refund\<close>

text \<open>An order whose balance refund of \<open>amt\<close> passes the checks of \<open>PrepareRefund\<close>.\<close>

definition refund_allowed :: "shop \<Rightarrow> f64 \<Rightarrow> bool" where
  "refund_allowed w amt \<longleftrightarrow>
     st w \<in> {COMPLETED, REFUND_REQUESTED, REFUND_FAILED} \<and> o_OrderType (w_order w) = OrderTypeBalance \<and>
     Fin 0 < amt \<and> amt \<noteq> PInf \<and>
     \<not> paymentAmountToleranceForCurrency (PaymentOrderCurrency (w_order w)) < amt - o_Amount (w_order w) \<and>
     (\<exists>inst. getRefundOrderProviderInstance (w_instances w) (w_order w) = Inr (Some inst) \<and> pi_RefundEnabled inst)"

text \<open>The provider can moreover be built and is the one that took the payment.\<close>

definition refundable :: "shop \<Rightarrow> f64 \<Rightarrow> bool" where
  "refundable w amt \<longleftrightarrow>
     refund_allowed w amt \<and> o_PaymentTradeNo (w_order w) \<noteq> [] \<and>
     (\<exists>inst prov. getRefundOrderProviderInstance (w_instances w) (w_order w) = Inr (Some inst) \<and>
       w_make_provider w inst = Some prov \<and>
       validateProviderSnapshotMetadata (w_order w) (pv_Key prov) (pv_Identity prov) = None)"

definition refund_plan :: "'d service \<Rightarrow> shop \<Rightarrow> f64 \<Rightarrow> string \<Rightarrow> bool \<Rightarrow> f64 \<Rightarrow> RefundPlan" where
  "refund_plan sv w amt reason force balance =
     \<lparr>p_OrderID = o_ID (w_order w), p_Order = w_order w, p_RefundAmount = amt,
      p_GatewayAmount = calculateGatewayRefundAmount (sv_Decimal sv) (o_Amount (w_order w))
        (o_PayAmount (w_order w)) amt (PaymentOrderCurrency (w_order w)),
      p_Reason = refund_reason (w_order w) reason, p_Force = force, p_DeductBalance = True,
      p_DeductionType = DeductionTypeBalance, p_BalanceToDeduct = f64_min amt balance,
      p_SubDaysToDeduct = 0, p_SubscriptionID = 0\<rparr>"

lemma f64_pos_finite: "Fin 0 < x \<Longrightarrow> x \<noteq> PInf \<Longrightarrow> x \<noteq> NaN \<and> x \<noteq> NInf \<and> \<not> x \<le> Fin 0"
  by (cases x) (simp_all add: less_f64_def less_eq_f64_def)

lemma smooth_PrepareRefund:
  assumes "refund_allowed w amt" and "w_user w = Some (balance, c)" and "oid = o_ID (w_order w)"
  shows "smooth i (PrepareRefund sv oid amt reason force True) w =
    Some (w, PrepPlan (refund_plan sv w amt reason force balance))"
proof -
  note amt = f64_pos_finite [of amt]
  from assms(1) obtain inst where "getRefundOrderProviderInstance (w_instances w) (w_order w) = Inr (Some inst)"
      "pi_RefundEnabled inst" by (auto simp: refund_allowed_def)
  then show ?thesis
    using assms amt
    by (simp add: PrepareRefund_def smooth_bind smooth_get_order smooth_ask refund_allowed_def Let_def prepDeduct_def
        refund_plan_def)
qed

definition locked_for_refund :: "nat \<Rightarrow> shop \<Rightarrow> shop" where
  "locked_for_refund i w =
     w\<lparr>w_order := (w_order w)\<lparr>o_Status := REFUNDING, o_UpdatedAt := w_now w\<rparr>, w_holder := Some i\<rparr>"

lemma locked_for_refund_fields [simp]:
  "st (locked_for_refund i w) = REFUNDING" "o_ID (w_order (locked_for_refund i w)) = o_ID (w_order w)"
  "w_ledger (locked_for_refund i w) = w_ledger w" "w_audit (locked_for_refund i w) = w_audit w"
  "w_instances (locked_for_refund i w) = w_instances w" "w_make_provider (locked_for_refund i w) = w_make_provider w"
  "w_refund (locked_for_refund i w) = w_refund w" "w_now (locked_for_refund i w) = w_now w"
  "w_accepted (locked_for_refund i w) = w_accepted w" "w_holder (locked_for_refund i w) = Some i"
  by (simp_all add: locked_for_refund_def)

lemma smooth_ExecuteRefund:
  assumes "o_ID (w_order w) = p_OrderID p" and "st w \<in> {COMPLETED, REFUND_REQUESTED, REFUND_FAILED}"
  shows "smooth i (ExecuteRefund p) w = smooth i (refundLocked p) (locked_for_refund i w)"
proof -
  have "update_order
      (\<lambda>x. o_ID x = p_OrderID p \<and> (o_Status x = COMPLETED \<or> o_Status x = REFUND_REQUESTED \<or> o_Status x = REFUND_FAILED))
      (\<lambda>x. x\<lparr>o_Status := REFUNDING\<rparr>) i w = (locked_for_refund i w, 1)"
    using assms by (auto simp: update_order_hit locked_for_refund_def holder_after_def)
  then show ?thesis by (simp add: ExecuteRefund_def smooth_bind smooth_write_db)
qed

text \<open>What the deduction steps do to a balance plan: the plan that goes on and what was deducted.\<close>

definition retried :: "shop \<Rightarrow> bool" where
  "retried w \<longleftrightarrow> ''REFUND_ROLLBACK_FAILED'' \<in> set (w_audit w)"

definition balance_deduction :: "shop \<Rightarrow> RefundPlan \<Rightarrow> RefundPlan" where
  "balance_deduction w p = (if retried w \<and> Fin 0 < p_BalanceToDeduct p then p\<lparr>p_BalanceToDeduct := Fin 0\<rparr> else p)"

definition deduction_entries :: "shop \<Rightarrow> RefundPlan \<Rightarrow> ledger_entry list" where
  "deduction_entries w p =
     (if \<not> retried w \<and> Fin 0 < p_BalanceToDeduct p then [Deducted (o_UserID (p_Order p)) (p_BalanceToDeduct p)] else [])"

lemma smooth_deduct:
  assumes "p_DeductionType p = DeductionTypeBalance"
  shows "smooth i (deductBalance p) w =
    Some (w\<lparr>w_ledger := w_ledger w @ deduction_entries w p\<rparr>, Inr (balance_deduction w p))"
  using assms
  by (simp add: deductBalance_def smooth_bind smooth_hasAuditLog add_ledger_def smooth_write_db retried_def
      balance_deduction_def deduction_entries_def)

lemma smooth_gwRefund:
  assumes "o_PaymentTradeNo (p_Order p) \<noteq> []"
    and "getRefundOrderProviderInstance (w_instances w) (p_Order p) = Inr (Some inst)"
    and "w_make_provider w inst = Some prov"
    and "validateProviderSnapshotMetadata (p_Order p) (pv_Key prov) (pv_Identity prov) = None"
  shows "smooth i (gwRefund p) w =
    (case w_refund w of
       Inl e \<Rightarrow> Some (w, Some e)
     | Inr resp \<Rightarrow> (case validateRefundProviderResponse resp of
         None \<Rightarrow> Some (w\<lparr>w_accepted := Suc (w_accepted w)\<rparr>, None)
       | Some e \<Rightarrow> Some (w, Some e)))"
  using assms
  by (auto simp: gwRefund_def getRefundProvider_def createProviderFromInstance_def smooth_bind smooth_ask
      gateway_refund_def atom_def split: sum.splits option.splits)

lemma smooth_deductSubscription:
  assumes "p_DeductionType p = DeductionTypeBalance"
  shows "smooth i (deductSubscription p) w = Some (w, Inr p)"
  using assms by (simp add: deductSubscription_def)

lemma refund_plan_fields [simp]:
  "p_DeductionType (refund_plan sv w amt reason force b) = DeductionTypeBalance"
  "p_OrderID (refund_plan sv w amt reason force b) = o_ID (w_order w)"
  "p_Order (refund_plan sv w amt reason force b) = w_order w"
  "p_RefundAmount (refund_plan sv w amt reason force b) = amt"
  "p_BalanceToDeduct (refund_plan sv w amt reason force b) = f64_min amt b"
  by (simp_all add: refund_plan_def)

lemma balance_deduction_fields [simp]:
  "p_DeductionType (balance_deduction w p) = p_DeductionType p" "p_OrderID (balance_deduction w p) = p_OrderID p"
  "p_Order (balance_deduction w p) = p_Order p" "p_RefundAmount (balance_deduction w p) = p_RefundAmount p"
  by (simp_all add: balance_deduction_def)

text \<open>The store after the deduction, when the gateway is asked.\<close>

definition at_gateway :: "nat \<Rightarrow> shop \<Rightarrow> RefundPlan \<Rightarrow> shop" where
  "at_gateway i w p = (locked_for_refund i w)\<lparr>w_ledger := w_ledger w @ deduction_entries w p\<rparr>"

lemma at_gateway_fields [simp]:
  "st (at_gateway i w p) = REFUNDING" "o_ID (w_order (at_gateway i w p)) = o_ID (w_order w)"
  "w_ledger (at_gateway i w p) = w_ledger w @ deduction_entries w p" "w_audit (at_gateway i w p) = w_audit w"
  "w_refund (at_gateway i w p) = w_refund w" "w_accepted (at_gateway i w p) = w_accepted w"
  "w_instances (at_gateway i w p) = w_instances w" "w_make_provider (at_gateway i w p) = w_make_provider w"
  "w_holder (at_gateway i w p) = Some i"
  by (simp_all add: at_gateway_def)

definition gateway_answer :: "shop \<Rightarrow> string option" where
  "gateway_answer w = (case w_refund w of Inl e \<Rightarrow> Some e | Inr resp \<Rightarrow> validateRefundProviderResponse resp)"

lemma deduction_locked [simp]:
  "deduction_entries (locked_for_refund i w) p = deduction_entries w p"
  "balance_deduction (locked_for_refund i w) p = balance_deduction w p"
  by (simp_all add: deduction_entries_def balance_deduction_def retried_def)

lemma smooth_to_gateway:
  assumes "refundable w amt" and "w_user w = Some (b, c)" and "p = refund_plan sv w amt reason force b"
  shows "smooth i (ProcessRefund sv (o_ID (w_order w)) amt reason force True) w =
    (case gateway_answer w of
       None \<Rightarrow> smooth i (markRefundOk (balance_deduction w p))
                 ((at_gateway i w p)\<lparr>w_accepted := Suc (w_accepted w)\<rparr>)
     | Some e \<Rightarrow> smooth i (handleGwFail (balance_deduction w p) e) (at_gateway i w p))"
proof -
  from assms(1) obtain inst prov where
    inst: "getRefundOrderProviderInstance (w_instances w) (w_order w) = Inr (Some inst)"
    and prov: "w_make_provider w inst = Some prov"
      "validateProviderSnapshotMetadata (w_order w) (pv_Key prov) (pv_Identity prov) = None"
    by (auto simp: refundable_def)
  have st: "st w \<in> {COMPLETED, REFUND_REQUESTED, REFUND_FAILED}" and tr: "o_PaymentTradeNo (w_order w) \<noteq> []"
    using assms(1) by (simp_all add: refundable_def refund_allowed_def)
  have "refund_allowed w amt" using assms(1) by (simp add: refundable_def)
  then have "smooth i (ProcessRefund sv (o_ID (w_order w)) amt reason force True) w =
      smooth i (refundLocked p) (locked_for_refund i w)"
    using smooth_PrepareRefund [OF _ assms(2) refl, of amt i sv reason force] smooth_ExecuteRefund [of w p i] st
    by (simp add: ProcessRefund_def smooth_bind assms(3))
  also have "\<dots> = (case smooth i (gwRefund (balance_deduction w p)) (at_gateway i w p) of None \<Rightarrow> None
      | Some (w', g) \<Rightarrow> smooth i (case g of Some gErr \<Rightarrow> handleGwFail (balance_deduction w p) gErr
          | None \<Rightarrow> markRefundOk (balance_deduction w p)) w')"
    unfolding assms(3) by (simp add: refundLocked_def smooth_bind smooth_deduct smooth_deductSubscription at_gateway_def)
  also have "smooth i (gwRefund (balance_deduction w p)) (at_gateway i w p) =
    (case w_refund w of
       Inl e \<Rightarrow> Some (at_gateway i w p, Some e)
     | Inr resp \<Rightarrow> (case validateRefundProviderResponse resp of
         None \<Rightarrow> Some ((at_gateway i w p)\<lparr>w_accepted := Suc (w_accepted w)\<rparr>, None)
       | Some e \<Rightarrow> Some (at_gateway i w p, Some e)))"
    unfolding assms(3) using inst prov tr by (subst smooth_gwRefund [of _ _ inst prov]) (simp_all split: sum.splits option.splits)
  finally show ?thesis
    by (simp add: gateway_answer_def split: sum.splits option.splits)
qed

text \<open>
  C37: A refund that succeeds: the balance is debited once by the smaller of the refund amount and the
  balance, the gateway acknowledges one refund, the order ends REFUNDED (PARTIALLY_REFUNDED when less
  than its amount was refunded), and the result reports the debit.
\<close>
theorem refund_completes:
  assumes "refundable w amt" and "w_user w = Some (b, c)" and "\<not> retried w" and "gateway_answer w = None"
  shows "\<exists>w'. smooth i (ProcessRefund sv (o_ID (w_order w)) amt reason force True) w =
      Some (w', Inr \<lparr>rr_Success = True, rr_Warning = [], rr_RequireForce = False,
        rr_BalanceDeducted = f64_min amt b, rr_SubDaysDeducted = 0\<rparr>) \<and>
    st w' = (if amt < o_Amount (w_order w) then PARTIALLY_REFUNDED else REFUNDED) \<and>
    w_accepted w' = Suc (w_accepted w) \<and>
    w_ledger w' = w_ledger w @ (if Fin 0 < f64_min amt b then [Deducted (o_UserID (w_order w)) (f64_min amt b)] else [])"
  using assms(3)
  by (simp add: smooth_to_gateway [OF assms(1,2) refl] assms(4) markRefundOk_def set_status_by_id_def smooth_ops
      update_order_hit deduction_entries_def balance_deduction_def refund_plan_def)

lemma smooth_rolled_back:
  assumes "p_DeductionType p = DeductionTypeBalance" and "o_ID (w_order w) = p_OrderID p"
  shows "\<exists>w'. smooth i (handleGwFail p e) w = Some (w', Inr rolled_back) \<and>
    st w' = (if o_Status (p_Order p) = REFUND_REQUESTED then REFUND_REQUESTED else COMPLETED) \<and>
    w_accepted w' = w_accepted w \<and>
    w_ledger w' = w_ledger w @ (if Fin 0 < p_BalanceToDeduct p
      then [Restored (o_UserID (p_Order p)) (p_BalanceToDeduct p)] else [])"
  using assms
  by (simp add: handleGwFail_def RollbackRefund_def add_ledger_def restoreStatus_def set_status_by_id_def smooth_ops
      update_order_hit)

text \<open>
  A refund the gateway rejects: the debit is given back in full, the order returns to the status it
  had (REFUND_REQUESTED, otherwise COMPLETED), and the result says that it was rolled back.
\<close>
theorem refund_rejected_restores:
  assumes "refundable w amt" and "w_user w = Some (b, c)" and "\<not> retried w" and "gateway_answer w = Some e"
  shows "\<exists>w'. smooth i (ProcessRefund sv (o_ID (w_order w)) amt reason force True) w = Some (w', Inr rolled_back) \<and>
    st w' = (if st w = REFUND_REQUESTED then REFUND_REQUESTED else COMPLETED) \<and> w_accepted w' = w_accepted w \<and>
    w_ledger w' = w_ledger w @ (if Fin 0 < f64_min amt b
      then [Deducted (o_UserID (w_order w)) (f64_min amt b), Restored (o_UserID (w_order w)) (f64_min amt b)] else [])"
  using smooth_rolled_back [of "balance_deduction w (refund_plan sv w amt reason force b)"
      "at_gateway i w (refund_plan sv w amt reason force b)" i e] assms(3)
  by (cases "Fin 0 < f64_min amt b")
     (simp_all add: smooth_to_gateway [OF assms(1,2) refl] assms(4) deduction_entries_def balance_deduction_def)

text \<open>
  The retry after a failed rollback: an earlier attempt debited the balance and could not give the
  debit back (REFUND_ROLLBACK_FAILED). A retry that the gateway rejects again restores nothing, because
  it deducted nothing itself, yet it sets the order back to COMPLETED and reports "rolled back": the
  user keeps an order that was never refunded and a balance that stays debited.
\<close>
theorem refund_retry_keeps_debit:
  assumes "refundable w amt" and "w_user w = Some (b, c)" and "retried w" and "gateway_answer w = Some e"
  shows "\<exists>w'. smooth i (ProcessRefund sv (o_ID (w_order w)) amt reason force True) w = Some (w', Inr rolled_back) \<and>
    st w' = (if st w = REFUND_REQUESTED then REFUND_REQUESTED else COMPLETED) \<and> w_accepted w' = w_accepted w \<and>
    w_ledger w' = w_ledger w"
  using smooth_rolled_back [of "balance_deduction w (refund_plan sv w amt reason force b)"
      "at_gateway i w (refund_plan sv w amt reason force b)" i e] assms(3)
  by (cases "Fin 0 < f64_min amt b")
     (simp_all add: smooth_to_gateway [OF assms(1,2) refl] assms(4) deduction_entries_def balance_deduction_def)

section \<open>Every call ends\<close>

named_theorems call_bounds "bounds on the operations of the calls verified so far"

lemma within_op [call_bounds]:
  "ends_within 1 (ask f)" "ends_within 1 (read_db g)" "ends_within 1 chance" "ends_within 1 (write_db h)" "ends_within 1 (get_order oid)"
  "ends_within 1 (writeAuditLog a)" "ends_within 1 (hasAuditLog a)" "ends_within 1 (get_code c)"
  "ends_within 1 (redeem_tx u r b n)" "ends_within 1 rebate_tx" "ends_within 1 (ExtendSubscription s d)" "ends_within 1 (add_ledger e)"
  "ends_within 1 gateway_refund" "ends_within 1 (createProviderFromInstance inst)" "ends_within 1 (atom t)"
  by (simp_all add: ask_def read_db_def chance_def write_db_def get_order_def writeAuditLog_def hasAuditLog_def
      get_code_def redeem_tx_def rebate_tx_def ExtendSubscription_def add_ledger_def gateway_refund_def
      createProviderFromInstance_def)

lemma within_cases:
  "ends_within n p \<Longrightarrow> ends_within n q \<Longrightarrow> ends_within n (if b then p else q)"
  "ends_within n p \<Longrightarrow> (\<And>x. ends_within n (k x)) \<Longrightarrow> ends_within n (case y of None \<Rightarrow> p | Some x \<Rightarrow> k x)"
  "(\<And>x. ends_within n (l x)) \<Longrightarrow> (\<And>x. ends_within n (k x)) \<Longrightarrow> ends_within n (case z of Inl x \<Rightarrow> l x | Inr x \<Rightarrow> k x)"
  "(\<And>x y. ends_within n (c x y)) \<Longrightarrow> ends_within n (case v of (x, y) \<Rightarrow> c x y)"
  by (auto split: option.split sum.split prod.split)

lemma within_lookup:
  "(\<And>x. ends_within n (k x)) \<Longrightarrow> ends_within n p \<Longrightarrow> (\<And>x. ends_within n (l x)) \<Longrightarrow>
   ends_within n (case y of Found x \<Rightarrow> k x | Missing \<Rightarrow> p | LookupFailed x \<Rightarrow> l x)"
  by (simp split: lookup.split)

lemma within_bool: "ends_within n p \<Longrightarrow> ends_within n q \<Longrightarrow> ends_within n (case b of True \<Rightarrow> p | False \<Rightarrow> q)"
  by (simp split: bool.split)

lemma within_action:
  "ends_within n p \<Longrightarrow> ends_within n q \<Longrightarrow> ends_within n r \<Longrightarrow>
   ends_within n (case a of redeemActionCreate \<Rightarrow> p | redeemActionRedeem \<Rightarrow> q | redeemActionSkipCompleted \<Rightarrow> r)"
  by (simp split: redeemAction.split)

lemma within_extend:
  "ends_within n p \<Longrightarrow> ends_within n q \<Longrightarrow> ends_within n r \<Longrightarrow>
   ends_within n (case a of Extended \<Rightarrow> p | WouldExpire \<Rightarrow> q | ExtendFailed \<Rightarrow> r)"
  by (simp split: extend_result.split)

lemma within_prepared:
  "(\<And>x. ends_within n (k x)) \<Longrightarrow> (\<And>x. ends_within n (l x)) \<Longrightarrow> (\<And>x. ends_within n (m x)) \<Longrightarrow>
   ends_within n (case a of PrepError x \<Rightarrow> k x | PrepEarly x \<Rightarrow> l x | PrepPlan x \<Rightarrow> m x)"
  by (simp split: prepared.split)

declare within_op [call_bounds]

lemmas within_intros = ends_within_Ret within_cases within_lookup within_bool within_action within_extend within_prepared

lemma within_note [call_bounds]: "ends_within 1 (if b then Ret () else writeAuditLog a)" "ends_within 1 (if b then writeAuditLog a else Ret ())"
  by (intro call_bounds [THEN ends_within_mono] within_intros; simp)+

lemma within_persist [call_bounds]:
  "ends_within 1 (if b then bind (write_db f) (\<lambda>_. Ret ()) else Ret ())"
  by (intro call_bounds [THEN ends_within_bind'] call_bounds [THEN ends_within_mono] within_intros) simp_all

lemma within_CreateCode [call_bounds]: "ends_within 2 (CreateCode c)"
  unfolding CreateCode_def Let_def
  by (intro call_bounds [THEN ends_within_bind'] call_bounds [THEN ends_within_mono] within_intros) simp_all

lemma within_Redeem [call_bounds]: "ends_within 7 (Redeem u c)"
  unfolding Redeem_def redeemFound_def rereadCode_def Let_def
  by (intro call_bounds [THEN ends_within_bind'] call_bounds [THEN ends_within_mono] within_intros) simp_all

lemma within_markCompleted [call_bounds]: "ends_within 3 (markCompleted ord a)"
  unfolding markCompleted_def Let_def
  by (intro call_bounds [THEN ends_within_bind'] call_bounds [THEN ends_within_mono] within_intros) simp_all

lemma within_markFailed [call_bounds]: "ends_within 3 (markFailed oid c)"
  unfolding markFailed_def Let_def
  by (intro call_bounds [THEN ends_within_bind'] call_bounds [THEN ends_within_mono] within_intros) simp_all

lemma within_rebate [call_bounds]: "ends_within 2 (applyAffiliateRebateForOrder sv ord)"
  unfolding applyAffiliateRebateForOrder_def Let_def
  by (intro call_bounds [THEN ends_within_bind'] call_bounds [THEN ends_within_mono] within_intros) simp_all

lemma within_finishBalance [call_bounds]: "ends_within 5 (finishBalance sv ord)"
  unfolding finishBalance_def Let_def
  by (intro call_bounds [THEN ends_within_bind'] call_bounds [THEN ends_within_mono] within_intros) simp_all

lemma within_redeemAndFinish [call_bounds]: "ends_within 12 (redeemAndFinish sv ord)"
  unfolding redeemAndFinish_def Let_def
  by (intro call_bounds [THEN ends_within_bind'] call_bounds [THEN ends_within_mono] within_intros) simp_all

lemma within_doBalance [call_bounds]: "ends_within 15 (doBalance sv ord)"
  unfolding doBalance_def Let_def
  by (intro call_bounds [THEN ends_within_bind'] call_bounds [THEN ends_within_mono] within_intros) simp_all

lemma within_AlreadyGranted [call_bounds]: "ends_within 3 (AlreadyGranted ord)"
  unfolding AlreadyGranted_def Let_def
  by (intro call_bounds [THEN ends_within_bind'] call_bounds [THEN ends_within_mono] within_intros) simp_all

lemma within_doSub [call_bounds]: "ends_within 10 (doSub ord)"
  unfolding doSub_def Let_def
  by (intro call_bounds [THEN ends_within_bind'] call_bounds [THEN ends_within_mono] within_intros) simp_all

lemma within_locked: "ends_within k work \<Longrightarrow> ends_within (k + 4) (locked_fulfilment oid work)"
proof -
  assume work: "ends_within k work"
  show ?thesis
    unfolding locked_fulfilment_def
    by (intro ends_within_bind' [OF work] call_bounds [THEN ends_within_bind'] call_bounds [THEN ends_within_mono] within_intros)
      simp_all
qed

lemmas within_doBalance_locked [call_bounds] = within_locked [OF within_doBalance, simplified]
lemmas within_doSub_locked [call_bounds] = within_locked [OF within_doSub, simplified]

lemma within_ExecuteBalanceFulfillment [call_bounds]: "ends_within 20 (ExecuteBalanceFulfillment sv oid)"
  unfolding ExecuteBalanceFulfillment_def Let_def
  by (intro call_bounds [THEN ends_within_bind'] call_bounds [THEN ends_within_mono] within_intros) simp_all

lemma within_ExecuteSubscriptionFulfillment [call_bounds]: "ends_within 15 (ExecuteSubscriptionFulfillment oid)"
  unfolding ExecuteSubscriptionFulfillment_def Let_def
  by (intro call_bounds [THEN ends_within_bind'] call_bounds [THEN ends_within_mono] within_intros) simp_all

lemma within_executeFulfillment [call_bounds]: "ends_within 21 (executeFulfillment sv oid)"
  unfolding executeFulfillment_def Let_def
  by (intro call_bounds [THEN ends_within_bind'] call_bounds [THEN ends_within_mono] within_intros) simp_all

lemma within_RetryFulfillment [call_bounds]: "ends_within 24 (RetryFulfillment sv oid)"
  unfolding RetryFulfillment_def Let_def
  by (intro call_bounds [THEN ends_within_bind'] call_bounds [THEN ends_within_mono] within_intros) simp_all

lemma within_alreadyProcessed [call_bounds]: "ends_within 22 (alreadyProcessed sv ord)"
  unfolding alreadyProcessed_def Let_def
  by (intro call_bounds [THEN ends_within_bind'] call_bounds [THEN ends_within_mono] within_intros) simp_all

lemma within_toPaid [call_bounds]: "ends_within 25 (toPaid sv ord t a)"
  unfolding toPaid_def Let_def
  by (intro call_bounds [THEN ends_within_bind'] call_bounds [THEN ends_within_mono] within_intros) simp_all

lemma within_confirmPayment [call_bounds]: "ends_within 27 (confirmPayment sv oid t a pk md)"
  unfolding confirmPayment_def Let_def
  by (intro call_bounds [THEN ends_within_bind'] call_bounds [THEN ends_within_mono] within_intros) simp_all

lemma within_HandlePaymentNotification [call_bounds]: "ends_within 28 (HandlePaymentNotification sv n pk)"
  unfolding HandlePaymentNotification_def Let_def
  by (intro call_bounds [THEN ends_within_bind'] call_bounds [THEN ends_within_mono] within_intros) simp_all

lemma within_getOrderProvider [call_bounds]: "ends_within 3 (getOrderProvider sv ord)"
  unfolding getOrderProvider_def Let_def
  by (intro call_bounds [THEN ends_within_bind'] call_bounds [THEN ends_within_mono] within_intros) simp_all

lemma within_requeryPaidOrderOnce [call_bounds]: "ends_within 1 (requeryPaidOrderOnce q)"
  unfolding requeryPaidOrderOnce_def Let_def
  by (intro call_bounds [THEN ends_within_bind'] call_bounds [THEN ends_within_mono] within_intros) simp_all

lemma within_upstreamPaid [call_bounds]: "ends_within 29 (upstreamPaid sv ord prov q resp)"
  unfolding upstreamPaid_def Let_def
  by (intro call_bounds [THEN ends_within_bind'] call_bounds [THEN ends_within_mono] within_intros) simp_all

lemma within_checkPaidWithOptions [call_bounds]: "ends_within 35 (checkPaidWithOptions sv ord c)"
  unfolding checkPaidWithOptions_def Let_def
  by (intro call_bounds [THEN ends_within_bind'] call_bounds [THEN ends_within_mono] within_intros) simp_all

lemma within_checked [call_bounds]: "ends_within 35 (if b then checkPaidWithOptions sv ord c else Ret [])"
  by (simp add: within_checkPaidWithOptions)

lemma within_cancelCore [call_bounds]: "ends_within 37 (cancelCore sv ord fs)"
  unfolding cancelCore_def checkPaid_def Let_def
  by (intro call_bounds [THEN ends_within_bind'] call_bounds [THEN ends_within_mono] within_intros) simp_all

lemma within_CancelOrder [call_bounds]: "ends_within 38 (CancelOrder sv oid uid)"
  unfolding CancelOrder_def Let_def
  by (intro call_bounds [THEN ends_within_bind'] call_bounds [THEN ends_within_mono] within_intros) simp_all

lemma within_AdminCancelOrder [call_bounds]: "ends_within 38 (AdminCancelOrder sv oid)"
  unfolding AdminCancelOrder_def Let_def
  by (intro call_bounds [THEN ends_within_bind'] call_bounds [THEN ends_within_mono] within_intros) simp_all

lemma within_ExpireTimedOutOrders [call_bounds]: "ends_within 39 (ExpireTimedOutOrders sv)"
  unfolding ExpireTimedOutOrders_def Let_def
  by (intro call_bounds [THEN ends_within_bind'] call_bounds [THEN ends_within_mono] within_intros) simp_all

lemma within_ReconcilePendingWxpayOrders [call_bounds]: "ends_within 37 (ReconcilePendingWxpayOrders sv)"
  unfolding ReconcilePendingWxpayOrders_def reconcilePaid_def Let_def
  by (intro call_bounds [THEN ends_within_bind'] call_bounds [THEN ends_within_mono] within_intros) simp_all

lemma within_VerifyOrderByOutTradeNo [call_bounds]: "ends_within 37 (VerifyOrderByOutTradeNo sv raw uid)"
  unfolding VerifyOrderByOutTradeNo_def reconcilePaid_def Let_def
  by (intro call_bounds [THEN ends_within_bind'] call_bounds [THEN ends_within_mono] within_intros) simp_all

lemma within_RequestRefund [call_bounds]: "ends_within 6 (RequestRefund oid uid reason)"
  unfolding RequestRefund_def Let_def
  by (intro call_bounds [THEN ends_within_bind'] call_bounds [THEN ends_within_mono] within_intros) simp_all

lemma within_prepDeduct [call_bounds]: "ends_within 1 (prepDeduct ord plan force)"
  unfolding prepDeduct_def Let_def
  by (intro call_bounds [THEN ends_within_bind'] call_bounds [THEN ends_within_mono] within_intros) simp_all

lemma within_PrepareRefund [call_bounds]: "ends_within 3 (PrepareRefund sv oid amt reason force deduct)"
  unfolding PrepareRefund_def Let_def
  by (intro call_bounds [THEN ends_within_bind'] call_bounds [THEN ends_within_mono] within_intros) simp_all

lemma within_set_status_by_id [call_bounds]: "ends_within 1 (set_status_by_id oid ch)"
  unfolding set_status_by_id_def Let_def
  by (intro call_bounds [THEN ends_within_bind'] call_bounds [THEN ends_within_mono] within_intros) simp_all

lemma within_restoreStatus [call_bounds]: "ends_within 1 (restoreStatus p)"
  unfolding restoreStatus_def Let_def
  by (intro call_bounds [THEN ends_within_bind'] call_bounds [THEN ends_within_mono] within_intros) simp_all

lemma within_give_back [call_bounds]:
  "ends_within 2 (if b then bind (add_ledger e) (\<lambda>r. case r of Some _ \<Rightarrow> Ret True
     | None \<Rightarrow> bind (writeAuditLog a) (\<lambda>_. Ret False)) else Ret True)"
  by (intro call_bounds [THEN ends_within_bind'] call_bounds [THEN ends_within_mono] within_intros) simp_all

lemma within_RollbackRefund [call_bounds]: "ends_within 4 (RollbackRefund p)"
  unfolding RollbackRefund_def Let_def
  by (intro call_bounds [THEN ends_within_bind'] call_bounds [THEN ends_within_mono] within_intros) simp_all

lemma within_handleGwFail [call_bounds]: "ends_within 7 (handleGwFail p e)"
  unfolding handleGwFail_def Let_def
  by (intro call_bounds [THEN ends_within_bind'] call_bounds [THEN ends_within_mono] within_intros) simp_all

lemma within_markRefundOk [call_bounds]: "ends_within 3 (markRefundOk p)"
  unfolding markRefundOk_def Let_def
  by (intro call_bounds [THEN ends_within_bind'] call_bounds [THEN ends_within_mono] within_intros) simp_all

lemma within_getRefundProvider [call_bounds]: "ends_within 2 (getRefundProvider ord)"
  unfolding getRefundProvider_def Let_def
  by (intro call_bounds [THEN ends_within_bind'] call_bounds [THEN ends_within_mono] within_intros) simp_all

lemma within_gwRefund [call_bounds]: "ends_within 3 (gwRefund p)"
  unfolding gwRefund_def Let_def
  by (intro call_bounds [THEN ends_within_bind'] call_bounds [THEN ends_within_mono] within_intros) simp_all

lemma within_deductBalance [call_bounds]: "ends_within 3 (deductBalance p)"
  unfolding deductBalance_def Let_def
  by (intro call_bounds [THEN ends_within_bind'] call_bounds [THEN ends_within_mono] within_intros) simp_all

lemma within_deductSubscription [call_bounds]: "ends_within 4 (deductSubscription p)"
  unfolding deductSubscription_def Let_def
  by (intro call_bounds [THEN ends_within_bind'] call_bounds [THEN ends_within_mono] within_intros) simp_all

lemma within_refundLocked [call_bounds]: "ends_within 17 (refundLocked p)"
  unfolding refundLocked_def Let_def
  by (intro call_bounds [THEN ends_within_bind'] call_bounds [THEN ends_within_mono] within_intros) simp_all

lemma within_ExecuteRefund [call_bounds]: "ends_within 18 (ExecuteRefund p)"
  unfolding ExecuteRefund_def Let_def
  by (intro call_bounds [THEN ends_within_bind'] call_bounds [THEN ends_within_mono] within_intros) simp_all

lemma within_ProcessRefund [call_bounds]: "ends_within 21 (ProcessRefund sv oid amt reason force deduct)"
  unfolding ProcessRefund_def Let_def
  by (intro call_bounds [THEN ends_within_bind'] call_bounds [THEN ends_within_mono] within_intros) simp_all


lemma sample_creditable: "creditable sample_service sample_shop"
  by code_simp

lemma sample_acceptable: "acceptable sample_service sample_shop sample_notification ''alipay''"
  by code_simp

theorem payment_completes_witness:
  "\<exists>w'. smooth 0 (HandlePaymentNotification sample_service sample_notification ''alipay'') sample_shop = Some (w', None) \<and>
    st w' = COMPLETED \<and>
    w_ledger w' = w_ledger sample_shop @ [Recharged (o_UserID (w_order sample_shop))
      (o_RechargeCode (w_order sample_shop)) (o_Amount (w_order sample_shop))]"
  by (rule payment_completes [OF sample_creditable sample_acceptable]) (simp add: sample_shop_def sample_order_def)

text \<open>The sample order after its completion, the gateway ready to refund or not.\<close>

definition sample_completed :: "string + string option \<Rightarrow> string list \<Rightarrow> shop" where
  "sample_completed answer audit =
     sample_shop\<lparr>w_order := sample_order\<lparr>o_Status := COMPLETED\<rparr>, w_user := Some (Fin 150, 1), w_refund := answer,
       w_audit := audit\<rparr>"

lemma sample_fields:
  "w_user (sample_completed a l) = Some (Fin 150, 1)" "gateway_answer (sample_completed (Inl e) l) = Some e"
  "retried (sample_completed a l) = (''REFUND_ROLLBACK_FAILED'' \<in> set l)"
  by (simp_all add: sample_completed_def gateway_answer_def retried_def)

lemma sample_fields_order:
  "o_Amount (w_order (sample_completed a l)) = Fin 100" "w_ledger (sample_completed a l) = []"
  "o_UserID (w_order (sample_completed a l)) = 5" "w_accepted (sample_completed a l) = 0"
  "st (sample_completed a l) = COMPLETED"
  by (simp_all add: sample_completed_def sample_shop_def sample_order_def)

lemma sample_tolerance: "\<not> paymentAmountToleranceForCurrency (PaymentOrderCurrency sample_order) < Fin 100 - Fin 100"
  by code_simp

lemma sample_min: "f64_min (Fin 100) (Fin 150) = Fin 100"
  by code_simp

lemma sample_refundable: "refundable (sample_completed a l) (Fin 100)"
proof -
  let ?o = "sample_order\<lparr>o_Status := COMPLETED\<rparr>"
  have inst: "getRefundOrderProviderInstance sample_db ?o = Inr (Some sample_instance)" by code_simp
  have meta: "validateProviderSnapshotMetadata ?o ''alipay'' [] = None" by code_simp
  have fields: "w_order (sample_completed a l) = ?o" "w_instances (sample_completed a l) = sample_db"
      "w_make_provider (sample_completed a l) =
        (\<lambda>_. Some \<lparr>pv_Key = ''alipay'', pv_Identity = [], pv_Cancelable = False\<rparr>)"
    by (simp_all add: sample_completed_def sample_shop_def)
  have order: "o_OrderType ?o = OrderTypeBalance" "o_PaymentTradeNo ?o \<noteq> []" "o_Amount ?o = Fin 100"
    by (simp_all add: sample_order_def)
  have currency: "PaymentOrderCurrency ?o = PaymentOrderCurrency sample_order"
    by (simp add: PaymentOrderCurrency_def psOrderProviderSnapshot_def)
  have enabled: "pi_RefundEnabled sample_instance" by (simp add: sample_instance_def)
  show ?thesis
    using inst meta sample_tolerance enabled order
    by (simp add: refundable_def refund_allowed_def fields currency less_f64_def)
qed

theorem refund_completes_witness:
  "\<exists>w'. smooth 0 (ProcessRefund sample_service (o_ID (w_order (sample_completed (Inr (Some ''success'')) [])))
        (Fin 100) [] False True) (sample_completed (Inr (Some ''success'')) []) =
      Some (w', Inr \<lparr>rr_Success = True, rr_Warning = [], rr_RequireForce = False,
        rr_BalanceDeducted = Fin 100, rr_SubDaysDeducted = 0\<rparr>) \<and>
    st w' = REFUNDED \<and> w_accepted w' = 1 \<and> w_ledger w' = [Deducted 5 (Fin 100)]"
proof -
  have g: "gateway_answer (sample_completed (Inr (Some ''success'')) []) = None" by code_simp
  show ?thesis
    using refund_completes [OF sample_refundable sample_fields(1) _ g, where i = 0 and sv = sample_service and reason = "[]" and force = False]
    by (simp add: sample_fields sample_fields_order sample_min)
qed

theorem refund_rejected_restores_witness:
  "\<exists>w'. smooth 0 (ProcessRefund sample_service (o_ID (w_order (sample_completed (Inl ''down'') []))) (Fin 100) [] False True)
        (sample_completed (Inl ''down'') []) = Some (w', Inr rolled_back) \<and>
    st w' = COMPLETED \<and> w_accepted w' = 0 \<and> w_ledger w' = [Deducted 5 (Fin 100), Restored 5 (Fin 100)]"
  using refund_rejected_restores [OF sample_refundable sample_fields(1) _ sample_fields(2) [where l = "[]"],
      where i = 0 and sv = sample_service and reason = "[]" and force = False]
  by (simp add: sample_fields sample_fields_order sample_min)

theorem refund_retry_keeps_debit_witness:
  "\<exists>w'. smooth 0 (ProcessRefund sample_service
        (o_ID (w_order (sample_completed (Inl ''down'') [''REFUND_ROLLBACK_FAILED'']))) (Fin 100) [] False True)
        (sample_completed (Inl ''down'') [''REFUND_ROLLBACK_FAILED'']) = Some (w', Inr rolled_back) \<and>
    st w' = COMPLETED \<and> w_accepted w' = 0 \<and> w_ledger w' = []"
  using refund_retry_keeps_debit [OF sample_refundable sample_fields(1) _ sample_fields(2) [where l = "[''REFUND_ROLLBACK_FAILED'']"],
      where i = 0 and sv = sample_service and reason = "[]" and force = False]
  by (simp add: sample_fields sample_fields_order)


end
