(* ===== verification/Payment_Order_Behaviour.thy ===== *)
theory Payment_Order_Behaviour
  imports Payment_Order_Runs
begin

text \<open>
  What the server guarantees about an order, for every interleaving of the calls of
  \<open>server_call\<close>, every failure of a database operation and every answer of the providers; the
  abstract order machine it refines; complete runs of single calls.
\<close>

section \<open>Orders as they are created\<close>

text \<open>A new order: pending, its recharge code not yet created, nothing recorded about it.\<close>

definition opened :: "shop \<Rightarrow> bool" where
  "opened w \<longleftrightarrow>
     st w = PENDING \<and> w_holder w = None \<and> w_accepted w = 0 \<and> w_rebates w = 0 \<and> \<not> rebate_recorded w \<and>
     credited w = [] \<and> w_codes w (o_RechargeCode (w_order w)) = None \<and>
     (\<forall>c r. w_codes w c = Some r \<longrightarrow> rc_Code r = c)"

abbreviation quoted :: "shop \<Rightarrow> f64" where
  "quoted w \<equiv> o_PayAmount (w_order w)"

abbreviation server_reaches :: "'d service \<Rightarrow> shop \<Rightarrow> (shop, unit) pool \<Rightarrow> bool" where
  "server_reaches sv \<equiv> reachable (server_call sv) shop_env"

abbreviation server_step :: "'d service \<Rightarrow> (shop, unit) pool \<Rightarrow> (shop, unit) pool \<Rightarrow> bool" where
  "server_step sv \<equiv> pool_step (server_call sv) shop_env"

lemma opened_inv: "opened w \<Longrightarrow> shop_inv (quoted w) w"
  by (auto simp: opened_def shop_inv_def inv_codes_def inv_credit_def code_used_def fulfilled_def unpaid_def)

lemma reached_inv:
  "opened w0 \<Longrightarrow> server_reaches sv w0 (w, ps) \<Longrightarrow> shop_inv (quoted w0) w"
  by (rule shop.reachable_inv [OF server_call_safe opened_inv])

lemma reached_step:
  assumes "opened w0" and "server_reaches sv w0 (w, ps)" and "server_step sv (w, ps) (w', ps')"
  shows "(w' = w \<and> (\<exists>p. ps' = ps @ [p])) \<or> (shop_env w w' \<and> ps' = ps) \<or>
    (\<exists>i f p. i < length ps \<and> ps ! i = Atomic f \<and> ps' = ps[i := p] \<and> shop_guar (quoted w0) i w w')"
  by (rule shop.reachable_guarantee [OF server_call_safe opened_inv [OF assms(1)] assms(2,3)])

section \<open>A sample run\<close>

text \<open>The sample order is paid by a notification; then a refund call takes the refund lock and its
  database reports an error although the update took effect.\<close>

lemma returns_ignore: "returns i p w w' x \<Longrightarrow> returns i (ignore p) w w' ()"
  unfolding ignore_def by (rule returns_bind) (assumption, rule returns_Ret)

lemma sample_paid:
  "\<exists>w. reachable (server_call sample_service) shop_env sample_shop (w, [Ret ()]) \<and> st w = COMPLETED \<and>
    order_key (w_order w) = order_key sample_order"
proof -
  let ?call = "HandlePaymentNotification sample_service sample_notification ''alipay''"
  have pending: "st sample_shop = PENDING" and order: "w_order sample_shop = sample_order"
    by (simp_all add: sample_shop_def sample_order_def)
  from smooth_notification [OF sample_creditable sample_acceptable] pending order
  obtain w where "smooth 0 ?call sample_shop = Some (w, None)" "st w = COMPLETED"
      "order_key (w_order w) = order_key sample_order" by metis
  moreover from this(1) have "returns 0 (ignore ?call) sample_shop w ()"
    by (intro returns_ignore [OF returns_smooth])
  ultimately show ?thesis
    using reachable_returns [OF reachable.start [of "server_call sample_service" shop_env sample_shop] server_call.intros(1)]
    by fastforce
qed

lemma refund_allowed_completed:
  assumes "st w = COMPLETED" and "order_key (w_order w) = order_key sample_order" and "w_instances w = sample_db"
  shows "refund_allowed w (Fin 100)"
proof -
  have inst: "getRefundOrderProviderInstance sample_db (w_order w) = getRefundOrderProviderInstance sample_db sample_order"
  proof -
    have "psOrderProviderSnapshot (w_order w) = psOrderProviderSnapshot sample_order"
        "psOrderProviderSnapshot sample_order = None"
      using assms(2) by (simp_all add: psOrderProviderSnapshot_def order_key_eq sample_order_def)
    then show ?thesis using assms(2) by (simp add: getRefundOrderProviderInstance_def order_key_eq)
  qed
  have currency: "PaymentOrderCurrency (w_order w) = PaymentOrderCurrency sample_order"
    using assms(2) by (simp add: PaymentOrderCurrency_def psOrderProviderSnapshot_def order_key_eq)
  have order: "o_OrderType (w_order w) = OrderTypeBalance" "o_Amount (w_order w) = Fin 100"
    using assms(2) by (simp_all add: order_key_eq sample_order_def)
  have enabled: "pi_RefundEnabled sample_instance" by (simp add: sample_instance_def)
  show ?thesis
    using sample_tolerance enabled order assms(1,3) by (simp add: refund_allowed_def inst sample_refund_instance currency)
qed

lemma sample_stuck:
  "\<exists>w. reachable (server_call sample_service) shop_env sample_shop (w, [Ret (), Ret ()]) \<and> w_holder w = Some 1"
proof -
  let ?call = "ProcessRefund sample_service (1 :: int) (Fin 100) [] False True"
  obtain w1 where r1: "reachable (server_call sample_service) shop_env sample_shop (w1, [Ret ()])"
    and w1: "st w1 = COMPLETED" "order_key (w_order w1) = order_key sample_order"
    using sample_paid by blast
  define w where "w = w1\<lparr>w_instances := sample_db, w_user := Some (Fin 150, 1)\<rparr>"
  have "shop_env w1 w" by (simp add: shop_env_def w_def)
  with r1 have r: "reachable (server_call sample_service) shop_env sample_shop (w, [Ret ()])"
    by (blast intro: reachable.step pool_step.environment)
  have w: "st w = COMPLETED" "w_instances w = sample_db" "w_user w = Some (Fin 150, 1)" "o_ID (w_order w) = 1"
      "order_key (w_order w) = order_key sample_order"
    using w1 by (simp_all add: w_def order_key_eq sample_order_def)
  let ?p = "refund_plan sample_service w (Fin 100) [] False (Fin 150)"
  have prepare: "returns 1 (PrepareRefund sample_service 1 (Fin 100) [] False True) w w (PrepPlan ?p)"
    using smooth_PrepareRefund [OF refund_allowed_completed [OF w(1,5,2)] w(3), of 1 1 sample_service "[]" False] w(4)
    by (intro returns_smooth) simp
  have "update_order
      (\<lambda>x. o_ID x = p_OrderID ?p \<and> (o_Status x = COMPLETED \<or> o_Status x = REFUND_REQUESTED \<or> o_Status x = REFUND_FAILED))
      (\<lambda>x. x\<lparr>o_Status := REFUNDING\<rparr>) 1 w = (locked_for_refund 1 w, 1)"
    using w(1) by (simp add: update_order_hit locked_for_refund_def holder_after_def)
  then have "returns 1 (ExecuteRefund ?p) w (locked_for_refund 1 w) (Inl (Plain ''lock''))"
    unfolding ExecuteRefund_def write_db_def
    by (intro returns_bind [OF returns_atom [where x = None and w' = "locked_for_refund 1 w"]]) (simp_all add: returns_Ret)
  with prepare have "returns 1 ?call w (locked_for_refund 1 w) (Inl (Plain ''lock''))"
    unfolding ProcessRefund_def by (intro returns_bind [OF prepare]) simp
  then have "returns 1 (ignore ?call) w (locked_for_refund 1 w) ()" by (rule returns_ignore)
  with reachable_returns [OF r server_call.intros(9), of 1 "Fin 100" "[]" False True "locked_for_refund 1 w"]
  show ?thesis by auto
qed

lemma sample_opened: "opened sample_shop"
  by (simp add: opened_def sample_shop_def sample_order_def)

section \<open>Safety\<close>

text \<open>
  C1: However notifications, retries, cancellations, expiry runs, refunds and redemptions of the
  code interleave and fail, the balance is credited at most once with an order's recharge code;
  a balance order that was completed (or is anywhere in the refund states) has been credited
  exactly once, and the amount credited is the order's amount.
\<close>
theorem order_credited_once:
  assumes "opened w0" and "server_reaches sv w0 (w, ps)"
  shows "length (credited w) \<le> 1 \<and>
    (o_OrderType (w_order w) \<noteq> OrderTypeSubscription \<and> fulfilled (st w) \<longrightarrow> length (credited w) = 1) \<and>
    (\<not> o_Amount (w_order w) < Fin 0 \<longrightarrow> set (credited w) \<subseteq> {o_Amount (w_order w)})"
proof -
  have inv: "shop_inv (quoted w0) w" by (rule reached_inv [OF assms])
  then have "inv_credit w" by (simp add: shop_inv_def)
  then show ?thesis
    using inv by (auto simp: inv_credit_def shop_inv_def split: if_splits)
qed

text \<open>
  C14: The gateway acknowledges at most one refund of an order, and once it has, the order is in
  REFUNDING or in one of the two refunded states: no later call refunds it again.
\<close>
theorem order_refunded_once:
  assumes "opened w0" and "server_reaches sv w0 (w, ps)"
  shows "w_accepted w \<le> 1 \<and> (w_accepted w = 1 \<longrightarrow> st w \<in> {REFUNDING, REFUNDED, PARTIALLY_REFUNDED})"
  using reached_inv [OF assms] by (auto simp: shop_inv_def)


text \<open>
  The affiliate rebate of an order is accrued at most once, and exactly when its audit entry
  exists.
\<close>
theorem order_rebate_once:
  assumes "opened w0" and "server_reaches sv w0 (w, ps)"
  shows "w_rebates w = (if rebate_recorded w then 1 else 0)"
  using reached_inv [OF assms] by (simp add: shop_inv_def)

text \<open>
  Every atomic step of the server moves the status of an order along one of the nineteen edges of
  the order life cycle, or leaves it.
\<close>
lemma order_status_edges:
  assumes "opened w0" and "server_reaches sv w0 (w, ps)" and "server_step sv (w, ps) (w', ps')"
  shows "status_edge (st w) (st w')"
proof -
  have "status_edge s s" for s by (simp add: status_edge_def)
  with reached_step [OF assms] show ?thesis
    by (elim disjE exE conjE) (simp_all add: shop_guar_def shop_env_def)
qed

section \<open>Refinement of the order machine\<close>

text \<open>
  The abstract order: its status, whether it was credited, whether a refund was acknowledged. One
  rule per kind of event, with the condition a reader of the code expects of it.
\<close>

record order_machine =
  m_status :: order_status
  m_credited :: bool
  m_refunded :: bool

inductive machine_step :: "bool \<Rightarrow> order_machine \<Rightarrow> order_machine \<Rightarrow> bool" for subscription where
  payment: "unpaid (m_status m) \<Longrightarrow> machine_step subscription m (m\<lparr>m_status := PAID\<rparr>)"
| closing: "m_status m = PENDING \<Longrightarrow> s \<in> {CANCELLED, EXPIRED} \<Longrightarrow> machine_step subscription m (m\<lparr>m_status := s\<rparr>)"
| locking: "m_status m \<in> {PAID, FAILED} \<Longrightarrow> machine_step subscription m (m\<lparr>m_status := RECHARGING\<rparr>)"
| resetting: "m_status m = FAILED \<Longrightarrow> machine_step subscription m (m\<lparr>m_status := PAID\<rparr>)"
| failing: "m_status m = RECHARGING \<Longrightarrow> machine_step subscription m (m\<lparr>m_status := FAILED\<rparr>)"
| crediting: "\<not> m_credited m \<Longrightarrow> machine_step subscription m (m\<lparr>m_credited := True\<rparr>)"
| completing: "m_status m = RECHARGING \<Longrightarrow> subscription \<or> m_credited m \<Longrightarrow>
    machine_step subscription m (m\<lparr>m_status := COMPLETED\<rparr>)"
| requesting: "m_status m = COMPLETED \<Longrightarrow> machine_step subscription m (m\<lparr>m_status := REFUND_REQUESTED\<rparr>)"
| refunding: "m_status m \<in> {COMPLETED, REFUND_REQUESTED, REFUND_FAILED} \<Longrightarrow> \<not> m_refunded m \<Longrightarrow>
    machine_step subscription m (m\<lparr>m_status := REFUNDING\<rparr>)"
| acknowledging: "m_status m = REFUNDING \<Longrightarrow> \<not> m_refunded m \<Longrightarrow>
    machine_step subscription m (m\<lparr>m_refunded := True\<rparr>)"
| rolling_back: "m_status m = REFUNDING \<Longrightarrow> \<not> m_refunded m \<Longrightarrow> s \<in> {COMPLETED, REFUND_REQUESTED, REFUND_FAILED} \<Longrightarrow>
    machine_step subscription m (m\<lparr>m_status := s\<rparr>)"
| finishing: "m_status m = REFUNDING \<Longrightarrow> s \<in> {REFUNDED, PARTIALLY_REFUNDED} \<Longrightarrow>
    machine_step subscription m (m\<lparr>m_status := s\<rparr>)"

inductive_cases machine_stepE: "machine_step subscription m m'"

definition machine_of :: "shop \<Rightarrow> order_machine" where
  "machine_of w = \<lparr>m_status = st w, m_credited = (credited w \<noteq> []), m_refunded = (w_accepted w \<noteq> 0)\<rparr>"

lemma inv_credited: "shop_inv q w \<Longrightarrow> code_used w \<longleftrightarrow> credited w \<noteq> []"
  by (auto simp: shop_inv_def inv_credit_def split: if_splits)

lemma status_machine_step:
  assumes inv: "shop_inv q w" "shop_inv q w'" and key: "order_key (w_order w') = order_key (w_order w)"
    and edge: "status_edge (st w) (st w')" and neq: "st w' \<noteq> st w"
    and same: "credited w' = credited w" "w_accepted w' = w_accepted w"
  shows "machine_step (o_OrderType (w_order w) = OrderTypeSubscription) (machine_of w) (machine_of w')"
proof -
  let ?sub = "o_OrderType (w_order w) = OrderTypeSubscription"
  have m': "machine_of w' = (machine_of w)\<lparr>m_status := st w'\<rparr>"
    using same by (simp add: machine_of_def)
  have paid_out: "?sub \<or> credited w \<noteq> []" if "st w' = COMPLETED"
    using inv key that same(1) inv_credited [OF inv(2)]
    by (auto simp: shop_inv_def fulfilled_def order_key_eq)
  have acc: "w_accepted w = 0" if "st w' \<notin> {REFUNDING, PARTIALLY_REFUNDED, REFUNDED} \<or>
      st w \<notin> {REFUNDING, PARTIALLY_REFUNDED, REFUNDED}"
    using inv that same(2) by (auto simp: shop_inv_def)
  define m where "m = machine_of w"
  have m: "m_status m = st w" "m_credited m = (credited w \<noteq> [])" "m_refunded m = (w_accepted w \<noteq> 0)"
    by (simp_all add: m_def machine_of_def)
  consider (c_pay) "unpaid (st w)" "st w' = PAID"
    | (c_close) "st w = PENDING" "st w' \<in> {CANCELLED, EXPIRED}"
    | (c_lock) "st w \<in> {PAID, FAILED}" "st w' = RECHARGING"
    | (c_reset) "st w = FAILED" "st w' = PAID"
    | (c_fail) "st w = RECHARGING" "st w' = FAILED"
    | (c_complete) "st w = RECHARGING" "st w' = COMPLETED"
    | (c_request) "st w = COMPLETED" "st w' = REFUND_REQUESTED"
    | (c_refund) "st w \<in> {COMPLETED, REFUND_REQUESTED, REFUND_FAILED}" "st w' = REFUNDING"
    | (c_back) "st w = REFUNDING" "st w' \<in> {COMPLETED, REFUND_REQUESTED, REFUND_FAILED}"
    | (c_finish) "st w = REFUNDING" "st w' \<in> {REFUNDED, PARTIALLY_REFUNDED}"
    using edge neq unfolding status_edge_def unpaid_def by blast
  then have "machine_step ?sub m (m\<lparr>m_status := st w'\<rparr>)"
  proof cases
    case c_pay
    then show ?thesis using machine_step.payment [of m ?sub] by (simp add: m)
  next
    case c_close
    then show ?thesis by (intro machine_step.closing) (simp_all add: m)
  next
    case c_lock
    then show ?thesis using machine_step.locking [of m ?sub] by (simp add: m)
  next
    case c_reset
    then show ?thesis using machine_step.resetting [of m ?sub] by (simp add: m)
  next
    case c_fail
    then show ?thesis using machine_step.failing [of m ?sub] by (simp add: m)
  next
    case c_complete
    then show ?thesis using machine_step.completing [of m ?sub] paid_out by (simp add: m)
  next
    case c_request
    then show ?thesis using machine_step.requesting [of m ?sub] by (simp add: m)
  next
    case c_refund
    then show ?thesis using machine_step.refunding [of m ?sub] acc by (auto simp: m)
  next
    case c_back
    then show ?thesis using acc by (intro machine_step.rolling_back) (auto simp: m)
  next
    case c_finish
    then show ?thesis by (intro machine_step.finishing) (auto simp: m)
  qed
  then show ?thesis by (simp add: m' m_def)
qed

lemma same_machine:
  assumes "st w' = st w" and "credited w' = credited w" and "w_accepted w' = w_accepted w"
  shows "machine_of w' = machine_of w"
  using assms by (simp add: machine_of_def)

lemma guar_machine_step:
  assumes inv: "shop_inv q w" and g: "shop_guar q i w w'"
  shows "machine_of w' = machine_of w \<or>
    machine_step (o_OrderType (w_order w) = OrderTypeSubscription) (machine_of w) (machine_of w')"
proof -
  have inv': "shop_inv q w'" and key: "order_key (w_order w') = order_key (w_order w)"
    and edge: "status_edge (st w) (st w')" and one: "one_change w w'"
    using inv g by (simp_all add: shop_guar_def evolves_def)
  from one consider (same) "credited w' = credited w" "w_accepted w' = w_accepted w"
    | (credit) a where "st w' = st w" "w_accepted w' = w_accepted w" "credited w' = credited w @ [a]"
    | (refund) "st w = REFUNDING" "st w' = REFUNDING" "credited w' = credited w" "w_accepted w' = Suc (w_accepted w)"
    by (auto simp: one_change_def)
  then show ?thesis
  proof cases
    case same
    then show ?thesis
      using status_machine_step [OF inv inv' key edge _ same] same_machine by blast
  next
    case credit
    have "credited w = []"
      using credit(3) inv' inv_credited [OF inv] by (auto simp: shop_inv_def inv_credit_def split: if_splits)
    with credit have "machine_of w' = (machine_of w)\<lparr>m_credited := True\<rparr>" "\<not> m_credited (machine_of w)"
      by (simp_all add: machine_of_def)
    then show ?thesis using machine_step.crediting by metis
  next
    case refund
    have "w_accepted w = 0" using refund(4) inv' by (simp add: shop_inv_def)
    with refund have "machine_of w' = (machine_of w)\<lparr>m_refunded := True\<rparr>" "\<not> m_refunded (machine_of w)"
        "m_status (machine_of w) = REFUNDING"
      by (simp_all add: machine_of_def)
    then show ?thesis using machine_step.acknowledging by metis
  qed
qed


section \<open>A stuck refund\<close>

lemma stuck_step:
  assumes "opened w0" and reach: "server_reaches sv w0 (w, ps)" and step: "server_step sv (w, ps) (w', ps')"
    and j: "j < length ps" "ps ! j = Ret ()" and holder: "w_holder w = Some j"
  shows "j < length ps' \<and> ps' ! j = Ret () \<and> w_holder w' = Some j"
  using reached_step [OF assms(1) reach step]
proof (elim disjE exE conjE)
  fix i f p
  assume i: "i < length ps" "ps ! i = Atomic f" "ps' = ps[i := p]" "shop_guar (quoted w0) i w w'"
  with j have "i \<noteq> j" by auto
  with i(4) holder have "w_holder w' = Some j" by (simp add: shop_guar_def keeps_lock_def)
  with \<open>i \<noteq> j\<close> i j show ?thesis by simp
qed (use j holder in \<open>auto simp: nth_append shop_env_def\<close>)

text \<open>
  C38: A refund call that returns while it still holds the refund lock (its last update failed, after
  the gateway may have paid the money back) leaves the order in REFUNDING for good: no sequence of
  later calls moves it, so it can neither be completed, retried nor refunded again.
\<close>
theorem refund_stuck_forever:
  assumes "opened w0" and "server_reaches sv w0 (w, ps)"
    and "j < length ps" and "ps ! j = Ret ()" and "w_holder w = Some j"
    and "(server_step sv)\<^sup>*\<^sup>* (w, ps) (w', ps')"
  shows "st w' = REFUNDING"
proof -
  have "server_reaches sv w0 c' \<and> j < length (snd c') \<and> snd c' ! j = Ret () \<and> w_holder (fst c') = Some j"
    if "(server_step sv)\<^sup>*\<^sup>* (w, ps) c'" for c'
    using that
  proof (induction rule: rtranclp_induct)
    case base
    with assms show ?case by simp
  next
    case (step c c')
    then show ?case
      using stuck_step [OF assms(1), of sv "fst c" "snd c" "fst c'" "snd c'" j]
      by (auto intro: reachable.step)
  qed
  from this [OF assms(6)] have "server_reaches sv w0 (w', ps')" "w_holder w' = Some j" by simp_all
  with reached_inv [OF assms(1)] show ?thesis by (auto simp: shop_inv_def)
qed

section \<open>The properties at the sample\<close>

theorem order_credited_once_witness:
  "\<exists>w ps. st w = COMPLETED \<and> length (credited w) \<le> 1 \<and>
    (o_OrderType (w_order w) \<noteq> OrderTypeSubscription \<and> fulfilled (st w) \<longrightarrow> length (credited w) = 1) \<and>
    (\<not> o_Amount (w_order w) < Fin 0 \<longrightarrow> set (credited w) \<subseteq> {o_Amount (w_order w)})"
  using sample_paid order_credited_once [OF sample_opened] by blast

theorem order_refunded_once_witness:
  "\<exists>w. st w = COMPLETED \<and> w_accepted w \<le> 1 \<and>
    (w_accepted w = 1 \<longrightarrow> st w \<in> {REFUNDING, REFUNDED, PARTIALLY_REFUNDED})"
  using sample_paid order_refunded_once [OF sample_opened] by blast


theorem order_rebate_once_witness:
  "\<exists>w. st w = COMPLETED \<and> w_rebates w = (if rebate_recorded w then 1 else 0)"
  using sample_paid order_rebate_once [OF sample_opened] by blast


theorem refund_stuck_forever_witness:
  "\<exists>w. server_reaches sample_service sample_shop (w, [Ret (), Ret ()]) \<and> st w = REFUNDING"
proof -
  obtain w where r: "server_reaches sample_service sample_shop (w, [Ret (), Ret ()])" and h: "w_holder w = Some 1"
    using sample_stuck by blast
  have "st w = REFUNDING"
    by (rule refund_stuck_forever [OF sample_opened r _ _ h rtranclp.rtrancl_refl]) simp_all
  with r show ?thesis by blast
qed

end
