(* ===== verification/Codex_Audit.thy ===== *)
theory Codex_Audit
  imports Go_Text "HOL-Library.List_Lexorder" "HOL-Library.Char_ord"
begin

text \<open>
  The audit trail of Codex++ (\<open>service/codexplus_audit_risk.go\<close>): the payload of an event, the
  redaction of everything that is written to it, the risk tags, the query and the summary of a
  user's events.
\<close>

section \<open>Values of type any\<close>

text \<open>
  The dynamic values the code distinguishes. \<open>VScalar\<close> is a boolean or a number, given by its text;
  \<open>VOther\<close> a value of any other type, given by the name of the type and its text. A map is an
  association list with distinct keys; its order, which Go leaves open, has no meaning.
\<close>

datatype any_val =
    VNil
  | VString string
  | VStringer string
  | VScalar string
  | VStrings "string list"
  | VList "any_val list"
  | VMap "(string \<times> any_val) list"
  | VStringMap "(string \<times> string) list"
  | VOther string string

type_synonym payload = "(string \<times> any_val) list"

abbreviation VInt :: "int \<Rightarrow> any_val" where "VInt n \<equiv> VScalar (go_FormatInt n)"
abbreviation VBool :: "bool \<Rightarrow> any_val" where "VBool b \<equiv> VScalar (if b then ''true'' else ''false'')"

definition brackets :: "string list \<Rightarrow> string" where
  "brackets ss = ''['' @ go_Join ss '' '' @ '']''"

text \<open>\<open>fmt.Sprint\<close>; maps are printed in the order of their keys.\<close>

primrec go_Sprint :: "any_val \<Rightarrow> string" where
  "go_Sprint VNil = ''<nil>''"
| "go_Sprint (VString s) = s"
| "go_Sprint (VStringer s) = s"
| "go_Sprint (VScalar s) = s"
| "go_Sprint (VStrings ss) = brackets ss"
| "go_Sprint (VList vs) = brackets (map go_Sprint vs)"
| "go_Sprint (VMap m) =
     ''map'' @ brackets (map (\<lambda>(k, t). k @ '':'' @ t) (sort_key fst (map (map_prod id go_Sprint) m)))"
| "go_Sprint (VStringMap m) = ''map'' @ brackets (map (\<lambda>(k, t). k @ '':'' @ t) (sort_key fst m))"
| "go_Sprint (VOther ty t) = t"

text \<open>More of \<open>strings\<close>: \<open>HasSuffix\<close>, \<open>Count\<close> and \<open>ReplaceAll\<close> of one byte.\<close>

definition go_HasSuffix :: "string \<Rightarrow> string \<Rightarrow> bool" where
  "go_HasSuffix s p \<longleftrightarrow> length p \<le> length s \<and> drop (length s - length p) s = p"

definition count_byte :: "char \<Rightarrow> string \<Rightarrow> nat" where
  "count_byte c s = length (filter ((=) c) s)"

definition replace_byte :: "char \<Rightarrow> char \<Rightarrow> string \<Rightarrow> string" where
  "replace_byte a b s = map (\<lambda>c. if c = a then b else c) s"

section \<open>Time\<close>

text \<open>
  A time is its distance from the epoch in nanoseconds, the zero time is \<open>None\<close>.
  \<open>t.UTC().Format(time.RFC3339)\<close> for the years 0 to 9999, with the proleptic Gregorian calendar
  counted in eras of 400 years that start on a first of March.
\<close>

definition civil_from_days :: "int \<Rightarrow> int \<times> int \<times> int" where
  "civil_from_days days =
     (let z = days + 719468;
          era = z div 146097;
          doe = z mod 146097;
          yoe = (doe - doe div 1460 + doe div 36524 - doe div 146096) div 365;
          doy = doe - (365 * yoe + yoe div 4 - yoe div 100);
          mp = (5 * doy + 2) div 153;
          d = doy - (153 * mp + 2) div 5 + 1;
          m = (if mp < 10 then mp + 3 else mp - 9)
      in (yoe + era * 400 + (if m \<le> 2 then 1 else 0), m, d))"

definition pad_int :: "nat \<Rightarrow> int \<Rightarrow> string" where
  "pad_int n i = (let s = go_FormatInt i in replicate (n - length s) CHR ''0'' @ s)"

definition go_RFC3339 :: "int \<Rightarrow> string" where
  "go_RFC3339 t =
     (let secs = t div 1000000000; days = secs div 86400; rest = secs mod 86400;
          (y, m, d) = civil_from_days days
      in pad_int 4 y @ ''-'' @ pad_int 2 m @ ''-'' @ pad_int 2 d @ ''T'' @ pad_int 2 (rest div 3600) @ '':''
         @ pad_int 2 (rest mod 3600 div 60) @ '':'' @ pad_int 2 (rest mod 60) @ ''Z'')"

section \<open>Redaction\<close>

definition contains_any :: "string \<Rightarrow> string list \<Rightarrow> bool" where
  "contains_any s ps \<longleftrightarrow> list_ex (go_Contains s) ps"

definition has_prefix_any :: "string \<Rightarrow> string list \<Rightarrow> bool" where
  "has_prefix_any s ps \<longleftrightarrow> list_ex (go_HasPrefix s) ps"

definition codexPlusAuditRiskAllowedKeyField :: "string \<Rightarrow> bool" where
  "codexPlusAuditRiskAllowedKeyField normalized \<longleftrightarrow>
     normalized \<in> {''key_id'', ''api_key_id'', ''provider_key_id'', ''key_prefix'', ''masked_key'', ''redacted_key_summary''}"

definition codexPlusAuditRiskDropsField :: "string \<Rightarrow> bool" where
  "codexPlusAuditRiskDropsField key =
     (let normalized = go_ToLower (go_TrimSpace key)
      in if normalized = [] then True
         else if contains_any normalized
           [''authorization'', ''password'', ''credential'', ''secret'', ''jwt'', ''token'', ''prompt'', ''messages'',
            ''completion'', ''request_body'', ''response_body'', ''request_payload'', ''response_payload'',
            ''file_content'', ''file_body'', ''code_content'', ''source_code''] then True
         else if go_Contains normalized ''api_key'' \<and> \<not> go_HasSuffix normalized ''_id'' then True
         else if go_Contains normalized ''apikey'' then True
         else go_Contains normalized ''key'' \<and> \<not> codexPlusAuditRiskAllowedKeyField normalized)"

text \<open>The path separator of Windows, \<open>CHR 92\<close>.\<close>

abbreviation bs :: char where "bs \<equiv> CHR 0x5C"

definition looksLikeCodexPlusLocalPath :: "string \<Rightarrow> bool" where
  "looksLikeCodexPlusLocalPath value =
     (if 3 \<le> length value \<and>
         ((value ! 1 = CHR '':'' \<and> (value ! 2 = bs \<or> value ! 2 = CHR ''/'')) \<or> go_HasPrefix value [bs, bs])
      then True
      else has_prefix_any (go_ToLower (go_TrimSpace value)) [''~/'', ''/users/'', ''/home/'', ''/mnt/'', ''/volumes/''])"

definition containsCodexPlusLocalPathFragment :: "string \<Rightarrow> bool" where
  "containsCodexPlusLocalPathFragment value \<longleftrightarrow>
     contains_any value
       ['':'' @ [bs] @ ''Users'' @ [bs], '':'' @ [bs] @ ''users'' @ [bs], '':'' @ [bs] @ ''Documents'' @ [bs],
        '':'' @ [bs] @ ''documents'' @ [bs], [bs, bs] @ ''Users'' @ [bs], [bs, bs] @ ''users'' @ [bs]] \<or>
     contains_any (go_ToLower value) [''/users/'', ''/home/'', ''/mnt/'', ''/volumes/'']"

definition looksLikeCodexPlusSecretBearingURL :: "string \<Rightarrow> bool" where
  "looksLikeCodexPlusSecretBearingURL value =
     (let lower = go_ToLower (go_TrimSpace value)
      in if \<not> has_prefix_any lower [''http://'', ''https://''] then False
         else contains_any lower [''authorization='', ''api_key='', ''apikey='', ''credential='', ''secret='', ''token=''])"

definition redactCodexPlusAuditRiskString :: "string \<Rightarrow> string \<Rightarrow> string" where
  "redactCodexPlusAuditRiskString key value =
     (let trimmed = go_TrimSpace value; lowerKey = go_ToLower (go_TrimSpace key); lowerValue = go_ToLower trimmed
      in if trimmed = [] then []
         else if go_HasPrefix lowerValue ''bearer '' \<or> go_Contains lowerValue ''sk-'' \<or> 2 \<le> count_byte (CHR ''.'') trimmed
         then ''[redacted]''
         else if looksLikeCodexPlusSecretBearingURL trimmed then ''[redacted_url]''
         else if contains_any lowerKey [''path'', ''directory'', ''workspace''] \<and>
                 (looksLikeCodexPlusLocalPath trimmed \<or> containsCodexPlusLocalPathFragment trimmed)
         then ''[redacted_local_path]''
         else if looksLikeCodexPlusLocalPath trimmed \<or> containsCodexPlusLocalPathFragment trimmed
         then ''[redacted_local_path]''
         else if 512 < length trimmed then take 512 trimmed @ ''...[truncated]''
         else trimmed)"

text \<open>The loop of \<open>RedactCodexPlusAuditRiskMetadata\<close>; each value is given as a function of its key.\<close>

definition redact_fields :: "(string \<times> (string \<Rightarrow> any_val)) list \<Rightarrow> payload" where
  "redact_fields m = fold (\<lambda>(key, value) out.
     let trimmed = go_TrimSpace key
     in if trimmed = [] \<or> codexPlusAuditRiskDropsField trimmed then out
        else AList.update trimmed (value trimmed) out) m []"

definition redact_strings :: "(string \<times> string) list \<Rightarrow> payload" where
  "redact_strings m = fold (\<lambda>(childKey, childValue) out.
     if codexPlusAuditRiskDropsField childKey then out
     else AList.update childKey (VString (redactCodexPlusAuditRiskString childKey childValue)) out) m []"

primrec redactCodexPlusAuditRiskValue :: "any_val \<Rightarrow> string \<Rightarrow> any_val" where
  "redactCodexPlusAuditRiskValue VNil key = VNil"
| "redactCodexPlusAuditRiskValue (VString s) key = VString (redactCodexPlusAuditRiskString key s)"
| "redactCodexPlusAuditRiskValue (VStringer s) key = VString (redactCodexPlusAuditRiskString key s)"
| "redactCodexPlusAuditRiskValue (VScalar s) key = VScalar s"
| "redactCodexPlusAuditRiskValue (VStrings ss) key =
     VList (map (\<lambda>s. VString (redactCodexPlusAuditRiskString key s)) ss)"
| "redactCodexPlusAuditRiskValue (VList vs) key = VList (map (\<lambda>f. f key) (map redactCodexPlusAuditRiskValue vs))"
| "redactCodexPlusAuditRiskValue (VMap m) key = VMap (redact_fields (map (map_prod id redactCodexPlusAuditRiskValue) m))"
| "redactCodexPlusAuditRiskValue (VStringMap m) key = VMap (redact_strings m)"
| "redactCodexPlusAuditRiskValue (VOther ty t) key = VString ty"

definition RedactCodexPlusAuditRiskMetadata :: "payload \<Rightarrow> payload" where
  "RedactCodexPlusAuditRiskMetadata metadata = redact_fields (map (map_prod id redactCodexPlusAuditRiskValue) metadata)"

section \<open>Risk tags and categories\<close>

text \<open>Events of the audit trail by the strings the code compares.\<close>

definition CodexPlusAuditRiskEventCategory :: "string \<Rightarrow> string" where
  "CodexPlusAuditRiskEventCategory eventType =
     (let e = go_TrimSpace eventType
      in if e \<in> {''desktop_login_started'', ''desktop_login_completed'', ''desktop_login_polled''} then ''login''
         else if e = ''bootstrap_requested'' then ''bootstrap''
         else if e = ''device_registered'' then ''device''
         else if e \<in> {''managed_key_created'', ''managed_key_rotated''} then ''managed_key''
         else if e = ''gateway_policy_rejected'' then ''gateway_policy''
         else if e \<in> {''admin_device_revoked'', ''admin_user_blocked''} then ''admin_enforcement''
         else if e \<in> {''config_published'', ''config_rolled_back''} then ''config_change''
         else if e \<in> {''entitlement_adjusted'', ''redeem_attempted''} then ''entitlement''
         else if e = ''payment_compensated'' then ''payment_reconciliation''
         else if e \<in> {''usage_requested'', ''usage_backfilled''} then ''usage''
         else if e = ''risk_signal'' then ''risk_signal''
         else ''audit'')"

definition event_tag :: "string \<Rightarrow> string list" where
  "event_tag e =
     (if e \<in> {''desktop_login_started'', ''desktop_login_completed'', ''desktop_login_polled''} then [''login'']
      else if e = ''bootstrap_requested'' then [''bootstrap'']
      else if e = ''device_registered'' then [''device_activity'']
      else if e \<in> {''managed_key_created'', ''managed_key_rotated''} then [''managed_key_lifecycle'']
      else if e = ''gateway_policy_rejected'' then [''gateway_policy_rejected'']
      else if e \<in> {''admin_device_revoked'', ''admin_user_blocked''} then [''admin_enforcement'']
      else if e \<in> {''config_published'', ''config_rolled_back''} then [''config_change'']
      else if e \<in> {''entitlement_adjusted'', ''redeem_attempted''} then [''entitlement_mutation'']
      else if e = ''payment_compensated'' then [''payment_reconciliation'']
      else if e \<in> {''usage_requested'', ''usage_backfilled''} then [''usage_reconciliation'']
      else [])"

definition error_tag :: "string \<Rightarrow> string list" where
  "error_tag errorCode =
     (let c = go_TrimSpace errorCode
      in if c = ''GATEWAY_POLICY_MODEL_NOT_ALLOWED'' then [''model_rejected'']
         else if c = ''GATEWAY_POLICY_BALANCE_INSUFFICIENT'' then [''balance_insufficient'']
         else if c = ''GATEWAY_POLICY_RATE_LIMITED'' then [''rate_limited'']
         else if c \<in> {''GATEWAY_POLICY_DEVICE_REVOKED'', ''GATEWAY_POLICY_DEVICE_BLOCKED''} then [''device_revoked'']
         else if c = ''GATEWAY_POLICY_CONFIG_UNAVAILABLE'' then [''gateway_unhealthy'']
         else [])"

definition defaultCodexPlusAuditRiskTags :: "string \<Rightarrow> string \<Rightarrow> string list" where
  "defaultCodexPlusAuditRiskTags eventType errorCode = event_tag eventType @ error_tag errorCode"

text \<open>The loop keeps the first of equal tags.\<close>

fun add_tags :: "string list \<Rightarrow> string list \<Rightarrow> string list" where
  "add_tags out [] = out"
| "add_tags out (tag # tags) =
     (let lower = go_ToLower (go_TrimSpace tag); normalized = replace_byte (CHR '' '') (CHR ''_'') lower
      in if lower = [] then add_tags out tags
         else if normalized \<in> set out then add_tags out tags
         else add_tags (out @ [normalized]) tags)"

definition NormalizeCodexPlusAuditRiskTags :: "string list \<Rightarrow> string list" where
  "NormalizeCodexPlusAuditRiskTags tags = add_tags [] tags"

section \<open>Payloads\<close>

definition codexPlusAuditEventType :: "string \<Rightarrow> string" where
  "codexPlusAuditEventType value = (if go_TrimSpace value \<noteq> [] then go_TrimSpace value else ''audit_event'')"

definition codexPlusAuditSeverity :: "string \<Rightarrow> string" where
  "codexPlusAuditSeverity value =
     (let s = go_ToLower (go_TrimSpace value)
      in if s \<in> {''debug'', ''info'', ''notice'', ''warning'', ''error'', ''critical''} then s else ''info'')"

definition codexPlusAuditNullableString :: "string \<Rightarrow> any_val" where
  "codexPlusAuditNullableString value = (if go_TrimSpace value = [] then VNil else VString (go_TrimSpace value))"

definition codexPlusAuditNullableInt64String :: "int \<Rightarrow> any_val" where
  "codexPlusAuditNullableInt64String value = (if value \<le> 0 then VNil else VString (go_FormatInt value))"

definition codexPlusAuditStringPtrIfNotBlank :: "string \<Rightarrow> string option" where
  "codexPlusAuditStringPtrIfNotBlank value = (if go_TrimSpace value = [] then None else Some (go_TrimSpace value))"

definition codexPlusAuditInt64PtrIfPositive :: "int \<Rightarrow> int option" where
  "codexPlusAuditInt64PtrIfPositive value = (if value \<le> 0 then None else Some value)"

definition codexPlusAuditRiskEventID :: "int \<Rightarrow> string \<Rightarrow> string \<Rightarrow> int option \<Rightarrow> string" where
  "codexPlusAuditRiskEventID now eventType requestID createdAt =
     (let p = replace_byte (CHR '' '') (CHR ''_'') (go_TrimSpace eventType);
          prefix = (if p = [] then ''audit_event'' else p);
          rid = go_TrimSpace requestID
      in if rid \<noteq> [] then prefix @ ''-'' @ rid
         else prefix @ ''-'' @ go_FormatInt (case createdAt of None \<Rightarrow> now | Some t \<Rightarrow> t))"

definition codexPlusAuditPayloadString :: "payload \<Rightarrow> string \<Rightarrow> string \<Rightarrow> string" where
  "codexPlusAuditPayloadString payload key fallback =
     (case map_of payload key of
        None \<Rightarrow> go_TrimSpace fallback
      | Some VNil \<Rightarrow> go_TrimSpace fallback
      | Some (VString s) \<Rightarrow> if go_TrimSpace s \<noteq> [] then go_TrimSpace s else go_TrimSpace fallback
      | Some (VStringer s) \<Rightarrow> if go_TrimSpace s \<noteq> [] then go_TrimSpace s else go_TrimSpace fallback
      | Some v \<Rightarrow>
          (let t = go_TrimSpace (go_Sprint v)
           in if t \<noteq> [] \<and> t \<noteq> ''<nil>'' then t else go_TrimSpace fallback))"

definition codexPlusAuditPayloadStringSlice :: "payload \<Rightarrow> string \<Rightarrow> string list" where
  "codexPlusAuditPayloadStringSlice payload key =
     (case map_of payload key of
        Some (VStrings ss) \<Rightarrow> ss
      | Some (VList vs) \<Rightarrow> filter (\<lambda>s. s \<noteq> [] \<and> s \<noteq> ''<nil>'') (map (\<lambda>v. go_TrimSpace (go_Sprint v)) vs)
      | Some (VString s) \<Rightarrow> if go_TrimSpace s = [] then [] else [s]
      | _ \<Rightarrow> [])"

definition put_default :: "string \<Rightarrow> any_val \<Rightarrow> payload \<Rightarrow> payload" where
  "put_default k v p = (if map_of p k = None then AList.update k v p else p)"

definition NormalizeCodexPlusAuditRiskPayload :: "int \<Rightarrow> string \<Rightarrow> payload \<Rightarrow> payload" where
  "NormalizeCodexPlusAuditRiskPayload now eventType0 p0 =
     (let eventType = codexPlusAuditEventType (codexPlusAuditPayloadString p0 ''event_type'' eventType0);
          p1 = AList.update ''event_type'' (VString eventType) p0;
          p2 = AList.update ''event_category'' (VString (CodexPlusAuditRiskEventCategory eventType)) p1;
          p3 = AList.update ''severity'' (VString (codexPlusAuditSeverity (codexPlusAuditPayloadString p2 ''severity'' ''info''))) p2;
          p4 = AList.update ''retention_days'' (VInt 365) p3;
          p5 = AList.update ''redaction_applied'' (VBool True) p4;
          p6 = AList.update ''risk_tags'' (VStrings (NormalizeCodexPlusAuditRiskTags
                 (defaultCodexPlusAuditRiskTags eventType (codexPlusAuditPayloadString p5 ''error_code'' [])
                  @ codexPlusAuditPayloadStringSlice p5 ''risk_tags''))) p5;
          p7 = put_default ''created_at'' (VString (go_RFC3339 now)) p6;
          p8 = put_default ''event_id'' (VString (codexPlusAuditRiskEventID now eventType
                 (codexPlusAuditPayloadString p7 ''request_id'' []) (Some now))) p7;
          p9 = AList.update ''metadata'' (VMap (case map_of p8 ''metadata'' of
                 Some (VMap metadata) \<Rightarrow> RedactCodexPlusAuditRiskMetadata metadata | _ \<Rightarrow> [])) p8
      in map (\<lambda>(key, value). (key,
            if key = ''metadata'' \<or> key = ''risk_tags'' then value else redactCodexPlusAuditRiskValue value key)) p9)"

section \<open>Events\<close>

record CodexPlusEvent =
  e_ID :: int
  e_UserID :: "int option"
  e_DeviceID :: "string option"
  e_EventType :: string
  e_Severity :: string
  e_RequestID :: "string option"
  e_ConfigVersion :: "string option"
  e_Payload :: payload
  e_CreatedAt :: "int option"
  e_UpdatedAt :: "int option"

record CodexPlusEventCreate =
  ec_UserID :: "int option"
  ec_DeviceID :: "string option"
  ec_EventType :: string
  ec_Severity :: string
  ec_RequestID :: "string option"
  ec_ConfigVersion :: "string option"
  ec_Payload :: payload

record CodexPlusAuditRiskEventCreateInput =
  ci_UserID :: int
  ci_DeviceID :: string
  ci_EventType :: string
  ci_Severity :: string
  ci_RequestID :: string
  ci_ConfigVersion :: string
  ci_SnapshotVersion :: string
  ci_ModelID :: string
  ci_ErrorCode :: string
  ci_ProviderKeyID :: string
  ci_APIKeyID :: string
  ci_UsageEventID :: string
  ci_Summary :: string
  ci_RiskTags :: "string list"
  ci_Metadata :: payload
  ci_CreatedAt :: "int option"

record CodexPlusAuditRiskQuery =
  q_UserID :: int
  q_DeviceID :: string
  q_RequestID :: string
  q_EventTypes :: "string list"
  q_RiskTags :: "string list"
  q_Limit :: int
  q_IncludePayload :: bool

record CodexPlusAuditRiskEvent =
  a_ID :: int
  a_EventType :: string
  a_Severity :: string
  a_UserID :: "int option"
  a_DeviceID :: "string option"
  a_RequestID :: "string option"
  a_ConfigVersion :: "string option"
  a_ModelID :: string
  a_ErrorCode :: string
  a_ProviderKeyID :: string
  a_UsageEventID :: string
  a_RiskTags :: "string list"
  a_Summary :: string
  a_CreatedAt :: string
  a_Payload :: payload

definition BuildCodexPlusAuditRiskPayload :: "int \<Rightarrow> CodexPlusAuditRiskEventCreateInput \<Rightarrow> payload" where
  "BuildCodexPlusAuditRiskPayload now input =
     (let createdAt = (case ci_CreatedAt input of None \<Rightarrow> now | Some t \<Rightarrow> t);
          eventType = codexPlusAuditEventType (ci_EventType input);
          errorCode = go_TrimSpace (ci_ErrorCode input);
          riskTags = NormalizeCodexPlusAuditRiskTags (defaultCodexPlusAuditRiskTags eventType errorCode @ ci_RiskTags input)
      in NormalizeCodexPlusAuditRiskPayload now eventType
        [(''event_id'', VString (codexPlusAuditRiskEventID now eventType (ci_RequestID input) (Some createdAt))),
         (''event_type'', VString eventType),
         (''event_category'', VString (CodexPlusAuditRiskEventCategory eventType)),
         (''severity'', VString (codexPlusAuditSeverity (ci_Severity input))),
         (''user_id'', codexPlusAuditNullableInt64String (ci_UserID input)),
         (''device_id'', codexPlusAuditNullableString (ci_DeviceID input)),
         (''request_id'', codexPlusAuditNullableString (ci_RequestID input)),
         (''config_version'', codexPlusAuditNullableString (ci_ConfigVersion input)),
         (''snapshot_version'', codexPlusAuditNullableString (ci_SnapshotVersion input)),
         (''model_id'', codexPlusAuditNullableString (ci_ModelID input)),
         (''error_code'', codexPlusAuditNullableString errorCode),
         (''provider_key_id'', codexPlusAuditNullableString (ci_ProviderKeyID input)),
         (''api_key_id'', codexPlusAuditNullableString (ci_APIKeyID input)),
         (''usage_event_id'', codexPlusAuditNullableString (ci_UsageEventID input)),
         (''risk_tags'', VStrings riskTags),
         (''summary'', codexPlusAuditNullableString (ci_Summary input)),
         (''created_at'', VString (go_RFC3339 createdAt)),
         (''retention_days'', VInt 365),
         (''redaction_applied'', VBool True),
         (''metadata'', VMap (RedactCodexPlusAuditRiskMetadata (ci_Metadata input)))])"

definition BuildCodexPlusAuditRiskEventCreate :: "int \<Rightarrow> CodexPlusAuditRiskEventCreateInput \<Rightarrow> CodexPlusEventCreate" where
  "BuildCodexPlusAuditRiskEventCreate now input =
     \<lparr>ec_UserID = codexPlusAuditInt64PtrIfPositive (ci_UserID input),
      ec_DeviceID = codexPlusAuditStringPtrIfNotBlank (ci_DeviceID input),
      ec_EventType = codexPlusAuditEventType (ci_EventType input),
      ec_Severity = codexPlusAuditSeverity (ci_Severity input),
      ec_RequestID = codexPlusAuditStringPtrIfNotBlank (ci_RequestID input),
      ec_ConfigVersion = codexPlusAuditStringPtrIfNotBlank (ci_ConfigVersion input),
      ec_Payload = BuildCodexPlusAuditRiskPayload now input\<rparr>"

section \<open>Queries\<close>

text \<open>The event repository as the queries see it; the last two methods are optional.\<close>

record 'e event_store =
  Append :: "CodexPlusEventCreate \<Rightarrow> 'e + CodexPlusEvent"
  ListByUser :: "int \<Rightarrow> int \<Rightarrow> 'e + CodexPlusEvent list"
  ListByRequestID :: "(string \<Rightarrow> int \<Rightarrow> 'e + CodexPlusEvent list) option"
  ListByDevice :: "(int \<Rightarrow> string \<Rightarrow> int \<Rightarrow> 'e + CodexPlusEvent list) option"

datatype 'e audit_error = StoreError 'e | AuditError string

definition store_result :: "'e + 'a \<Rightarrow> 'e audit_error + 'a" where
  "store_result r = map_sum StoreError id r"

definition RecordCodexPlusAuditRiskEvent ::
    "int \<Rightarrow> 'e event_store option \<Rightarrow> CodexPlusAuditRiskEventCreateInput \<Rightarrow> 'e audit_error + CodexPlusEvent" where
  "RecordCodexPlusAuditRiskEvent now store input =
     (case store of
        None \<Rightarrow> Inl (AuditError ''codexplus audit risk event store is required'')
      | Some st \<Rightarrow> store_result (Append st (BuildCodexPlusAuditRiskEventCreate now input)))"

definition codexPlusAuditNormalizeLimit :: "int \<Rightarrow> int" where
  "codexPlusAuditNormalizeLimit limit = (if limit \<le> 0 then 50 else if 500 < limit then 500 else limit)"

definition codexPlusAuditContainsString :: "string list \<Rightarrow> string \<Rightarrow> bool" where
  "codexPlusAuditContainsString values target \<longleftrightarrow>
     (if go_TrimSpace target = [] then False else list_ex (\<lambda>v. go_TrimSpace v = go_TrimSpace target) values)"

definition loadCodexPlusAuditRiskEvents ::
    "'e event_store \<Rightarrow> CodexPlusAuditRiskQuery \<Rightarrow> int \<Rightarrow> 'e audit_error + CodexPlusEvent list" where
  "loadCodexPlusAuditRiskEvents store query limit =
     (let requestID = go_TrimSpace (q_RequestID query); deviceID = go_TrimSpace (q_DeviceID query)
      in if 0 < q_UserID query then
           (case (deviceID \<noteq> [], ListByDevice store) of
              (True, Some byDevice) \<Rightarrow> store_result (byDevice (q_UserID query) deviceID limit)
            | _ \<Rightarrow> store_result (ListByUser store (q_UserID query) limit))
         else if requestID \<noteq> [] then
           (case ListByRequestID store of
              Some byRequest \<Rightarrow> store_result (byRequest requestID limit)
            | None \<Rightarrow> Inl (AuditError ''codexplus audit risk request_id query requires repository support or user_id''))
         else Inl (AuditError ''codexplus audit risk query requires user_id''))"

definition payload_metadata :: "payload \<Rightarrow> payload option" where
  "payload_metadata p = (case map_of p ''metadata'' of Some (VMap m) \<Rightarrow> Some m | _ \<Rightarrow> None)"

definition metadata_string :: "payload \<Rightarrow> string \<Rightarrow> string" where
  "metadata_string p key = (case payload_metadata p of Some m \<Rightarrow> codexPlusAuditPayloadString m key [] | None \<Rightarrow> [])"

definition first_non_empty :: "string list \<Rightarrow> string \<Rightarrow> string" where
  "first_non_empty ss d = (case filter (\<lambda>s. s \<noteq> []) ss of [] \<Rightarrow> d | s # _ \<Rightarrow> s)"

definition codexPlusAuditRiskEventFromService :: "int \<Rightarrow> CodexPlusEvent \<Rightarrow> bool \<Rightarrow> CodexPlusAuditRiskEvent" where
  "codexPlusAuditRiskEventFromService now event includePayload =
     (let payload = NormalizeCodexPlusAuditRiskPayload now (e_EventType event) (e_Payload event);
          summary = first_non_empty
            [codexPlusAuditPayloadString payload ''summary'' [], metadata_string payload ''reason'',
             metadata_string payload ''service_status'', codexPlusAuditPayloadString payload ''error_code'' []]
            (e_EventType event)
      in \<lparr>a_ID = e_ID event, a_EventType = codexPlusAuditEventType (e_EventType event),
          a_Severity = codexPlusAuditSeverity (e_Severity event), a_UserID = e_UserID event,
          a_DeviceID = e_DeviceID event, a_RequestID = e_RequestID event, a_ConfigVersion = e_ConfigVersion event,
          a_ModelID = first_non_empty [codexPlusAuditPayloadString payload ''model_id'' []]
            (metadata_string payload ''requested_model''),
          a_ErrorCode = codexPlusAuditPayloadString payload ''error_code'' [],
          a_ProviderKeyID = codexPlusAuditPayloadString payload ''provider_key_id'' [],
          a_UsageEventID = codexPlusAuditPayloadString payload ''usage_event_id'' [],
          a_RiskTags = NormalizeCodexPlusAuditRiskTags (codexPlusAuditPayloadStringSlice payload ''risk_tags''),
          a_Summary = summary,
          a_CreatedAt = go_RFC3339 (case e_CreatedAt event of None \<Rightarrow> now | Some t \<Rightarrow> t),
          a_Payload = (if includePayload then payload else [])\<rparr>)"

definition codexPlusAuditRiskEventMatches :: "CodexPlusAuditRiskEvent \<Rightarrow> CodexPlusAuditRiskQuery \<Rightarrow> bool" where
  "codexPlusAuditRiskEventMatches event query \<longleftrightarrow>
     (0 < q_UserID query \<longrightarrow> a_UserID event = Some (q_UserID query)) \<and>
     (go_TrimSpace (q_DeviceID query) \<noteq> [] \<longrightarrow>
        map_option go_TrimSpace (a_DeviceID event) = Some (go_TrimSpace (q_DeviceID query))) \<and>
     (go_TrimSpace (q_RequestID query) \<noteq> [] \<longrightarrow>
        map_option go_TrimSpace (a_RequestID event) = Some (go_TrimSpace (q_RequestID query))) \<and>
     (q_EventTypes query \<noteq> [] \<longrightarrow> codexPlusAuditContainsString (q_EventTypes query) (a_EventType event)) \<and>
     (q_RiskTags query \<noteq> [] \<longrightarrow>
        list_all (codexPlusAuditContainsString (a_RiskTags event)) (NormalizeCodexPlusAuditRiskTags (q_RiskTags query)))"

text \<open>The zero time is the first of January of the year 1.\<close>

definition time_value :: "int option \<Rightarrow> int" where
  "time_value t = (case t of None \<Rightarrow> - 62135596800000000000 | Some n \<Rightarrow> n)"

text \<open>\<open>sort.SliceStable\<close>: newest first, then the larger id.\<close>

definition sort_events :: "CodexPlusEvent list \<Rightarrow> CodexPlusEvent list" where
  "sort_events events = sort_key (\<lambda>e. - time_value (e_CreatedAt e)) (sort_key (\<lambda>e. - e_ID e) events)"

text \<open>The loop that fills \<open>out\<close> and breaks at the limit.\<close>

fun collect_matches ::
    "int \<Rightarrow> CodexPlusAuditRiskQuery \<Rightarrow> int \<Rightarrow> CodexPlusAuditRiskEvent list \<Rightarrow> CodexPlusEvent list \<Rightarrow> CodexPlusAuditRiskEvent list" where
  "collect_matches now query limit out [] = out"
| "collect_matches now query limit out (event # events) =
     (let summary = codexPlusAuditRiskEventFromService now event (q_IncludePayload query)
      in if \<not> codexPlusAuditRiskEventMatches summary query then collect_matches now query limit out events
         else let out' = out @ [summary]
              in if limit \<le> int (length out') then out' else collect_matches now query limit out' events)"

definition QueryCodexPlusAuditRiskEvents ::
    "int \<Rightarrow> 'e event_store option \<Rightarrow> CodexPlusAuditRiskQuery \<Rightarrow> 'e audit_error + CodexPlusAuditRiskEvent list" where
  "QueryCodexPlusAuditRiskEvents now store query =
     (case store of
        None \<Rightarrow> Inr []
      | Some st \<Rightarrow>
          (let limit = codexPlusAuditNormalizeLimit (q_Limit query);
               sourceLimit = (if go_TrimSpace (q_DeviceID query) \<noteq> [] \<or> go_TrimSpace (q_RequestID query) \<noteq> [] \<or>
                                 q_RiskTags query \<noteq> [] \<or> q_EventTypes query \<noteq> []
                              then codexPlusAuditNormalizeLimit 500 else limit)
           in case loadCodexPlusAuditRiskEvents st query sourceLimit of
                Inl e \<Rightarrow> Inl e
              | Inr events \<Rightarrow> Inr (collect_matches now query limit [] (sort_events events))))"

section \<open>Summaries\<close>

record CodexPlusAuditRiskGatewayRejectSummary =
  gr_RequestID :: string
  gr_DeviceID :: string
  gr_ModelID :: string
  gr_ErrorCode :: string
  gr_ConfigVersion :: string
  gr_RiskTags :: "string list"
  gr_CreatedAt :: string
  gr_Summary :: string

record CodexPlusAuditRiskUserSummary =
  us_EventCount :: nat
  us_RiskEventCount :: nat
  us_GatewayRejectCount :: nat
  us_WarningCount :: nat
  us_ErrorCount :: nat
  us_RecentRiskTags :: "string list"
  us_RecentRequestIDs :: "string list"
  us_RecentGatewayRejects :: "CodexPlusAuditRiskGatewayRejectSummary list"
  us_LastEventAt :: string

text \<open>The inner loop over the tags of one event; \<open>tagSeen\<close> holds exactly the recorded tags.\<close>

fun recent_tags :: "string list \<Rightarrow> string list \<Rightarrow> string list" where
  "recent_tags recorded [] = recorded"
| "recent_tags recorded (raw # tags) =
     (let tag = go_TrimSpace raw
      in if tag = [] then recent_tags recorded tags
         else if tag \<in> set recorded then recent_tags recorded tags
         else if 20 \<le> length (recorded @ [tag]) then recorded @ [tag]
         else recent_tags (recorded @ [tag]) tags)"

definition recent_request :: "string list \<Rightarrow> string option \<Rightarrow> string list" where
  "recent_request recorded requestID =
     (case requestID of
        None \<Rightarrow> recorded
      | Some r \<Rightarrow> if go_TrimSpace r = [] \<or> go_TrimSpace r \<in> set recorded then recorded else recorded @ [go_TrimSpace r])"

definition reject_summary :: "CodexPlusAuditRiskEvent \<Rightarrow> CodexPlusAuditRiskGatewayRejectSummary" where
  "reject_summary event =
     \<lparr>gr_RequestID = (case a_RequestID event of None \<Rightarrow> [] | Some r \<Rightarrow> r),
      gr_DeviceID = (case a_DeviceID event of None \<Rightarrow> [] | Some d \<Rightarrow> d),
      gr_ModelID = a_ModelID event, gr_ErrorCode = a_ErrorCode event,
      gr_ConfigVersion = (case a_ConfigVersion event of None \<Rightarrow> [] | Some c \<Rightarrow> c),
      gr_RiskTags = a_RiskTags event, gr_CreatedAt = a_CreatedAt event, gr_Summary = a_Summary event\<rparr>"

definition summarise_event ::
    "CodexPlusAuditRiskUserSummary \<Rightarrow> CodexPlusAuditRiskEvent \<Rightarrow> CodexPlusAuditRiskUserSummary" where
  "summarise_event s event =
     (let severity = go_ToLower (go_TrimSpace (a_Severity event));
          rejected = (a_EventType event = ''gateway_policy_rejected'')
      in s\<lparr>us_EventCount := Suc (us_EventCount s),
           us_LastEventAt := (if a_CreatedAt event \<noteq> [] \<and> us_LastEventAt s = [] then a_CreatedAt event else us_LastEventAt s),
           us_WarningCount := (if severity = ''warning'' then Suc (us_WarningCount s) else us_WarningCount s),
           us_ErrorCount := (if severity = ''error'' \<or> severity = ''critical'' then Suc (us_ErrorCount s) else us_ErrorCount s),
           us_RiskEventCount := (if a_RiskTags event \<noteq> [] then Suc (us_RiskEventCount s) else us_RiskEventCount s),
           us_RecentRiskTags := recent_tags (us_RecentRiskTags s) (a_RiskTags event),
           us_RecentRequestIDs := recent_request (us_RecentRequestIDs s) (a_RequestID event),
           us_GatewayRejectCount := (if rejected then Suc (us_GatewayRejectCount s) else us_GatewayRejectCount s),
           us_RecentGatewayRejects :=
             (if rejected \<and> length (us_RecentGatewayRejects s) < 10
              then us_RecentGatewayRejects s @ [reject_summary event] else us_RecentGatewayRejects s)\<rparr>)"

definition BuildCodexPlusAuditRiskUserSummary :: "CodexPlusAuditRiskEvent list \<Rightarrow> CodexPlusAuditRiskUserSummary" where
  "BuildCodexPlusAuditRiskUserSummary events = fold (\<lambda>event s. summarise_event s event) events
     \<lparr>us_EventCount = 0, us_RiskEventCount = 0, us_GatewayRejectCount = 0, us_WarningCount = 0, us_ErrorCount = 0,
      us_RecentRiskTags = [], us_RecentRequestIDs = [], us_RecentGatewayRejects = [], us_LastEventAt = []\<rparr>"

definition CodexPlusAuditRiskSummaryForUser ::
    "int \<Rightarrow> 'e event_store option \<Rightarrow> int \<Rightarrow> int \<Rightarrow> 'e audit_error + CodexPlusAuditRiskUserSummary" where
  "CodexPlusAuditRiskSummaryForUser now store userID limit =
     (if userID \<le> 0 then Inl (AuditError ''codexplus audit risk user_id is required'')
      else case QueryCodexPlusAuditRiskEvents now store
             \<lparr>q_UserID = userID, q_DeviceID = [], q_RequestID = [], q_EventTypes = [], q_RiskTags = [],
              q_Limit = limit, q_IncludePayload = False\<rparr> of
        Inl e \<Rightarrow> Inl e
      | Inr events \<Rightarrow> Inr (BuildCodexPlusAuditRiskUserSummary events))"

section \<open>What redaction lets through\<close>

definition no_secret :: "string \<Rightarrow> bool" where
  "no_secret t \<longleftrightarrow>
     \<not> go_HasPrefix (go_ToLower t) ''bearer '' \<and> \<not> go_Contains (go_ToLower t) ''sk-'' \<and> count_byte (CHR ''.'') t < 2 \<and>
     \<not> looksLikeCodexPlusSecretBearingURL t \<and> \<not> looksLikeCodexPlusLocalPath t \<and>
     \<not> containsCodexPlusLocalPathFragment t"

definition redacted_text :: "string \<Rightarrow> bool" where
  "redacted_text s \<longleftrightarrow> s = [] \<or> s \<in> {''[redacted]'', ''[redacted_url]'', ''[redacted_local_path]''} \<or>
     (\<exists>t. no_secret t \<and> (s = t \<or> s = take 512 t @ ''...[truncated]''))"

primrec type_names :: "any_val \<Rightarrow> string set" where
  "type_names VNil = {}"
| "type_names (VString s) = {}"
| "type_names (VStringer s) = {}"
| "type_names (VScalar s) = {}"
| "type_names (VStrings ss) = {}"
| "type_names (VList vs) = \<Union> (set (map type_names vs))"
| "type_names (VMap m) = \<Union> (set (map snd (map (map_prod id type_names) m)))"
| "type_names (VStringMap m) = {}"
| "type_names (VOther ty t) = {ty}"

text \<open>A value all of whose texts are redacted or type names, with no forbidden field at any depth.\<close>

primrec clean_value :: "string set \<Rightarrow> any_val \<Rightarrow> bool" where
  "clean_value T VNil = True"
| "clean_value T (VString s) = (redacted_text s \<or> s \<in> T)"
| "clean_value T (VStringer s) = False"
| "clean_value T (VScalar s) = True"
| "clean_value T (VStrings ss) = False"
| "clean_value T (VList vs) = list_all id (map (clean_value T) vs)"
| "clean_value T (VMap m) =
     list_all (\<lambda>(k, c). \<not> codexPlusAuditRiskDropsField k \<and> c) (map (map_prod id (clean_value T)) m)"
| "clean_value T (VStringMap m) = False"
| "clean_value T (VOther ty t) = False"

lemma redact_string_redacted: "redacted_text (redactCodexPlusAuditRiskString key s)"
proof -
  have "no_secret (go_TrimSpace s)"
    if "\<not> (go_HasPrefix (go_ToLower (go_TrimSpace s)) ''bearer '' \<or> go_Contains (go_ToLower (go_TrimSpace s)) ''sk-'' \<or>
        2 \<le> count_byte (CHR ''.'') (go_TrimSpace s))"
      "\<not> looksLikeCodexPlusSecretBearingURL (go_TrimSpace s)"
      "\<not> (looksLikeCodexPlusLocalPath (go_TrimSpace s) \<or> containsCodexPlusLocalPathFragment (go_TrimSpace s))"
    using that by (simp add: no_secret_def)
  then show ?thesis
    by (simp add: redactCodexPlusAuditRiskString_def redacted_text_def Let_def) blast
qed

lemma set_AList_update: "set (AList.update k v m) \<subseteq> insert (k, v) (set m)"
  by (induction m) auto

lemma list_all_AList_update: "P (k, v) \<Longrightarrow> list_all P m \<Longrightarrow> list_all P (AList.update k v m)"
  using set_AList_update [of k v m] by (auto simp: list_all_iff)

lemma fold_list_all:
  assumes "\<And>x out. x \<in> set m \<Longrightarrow> list_all P out \<Longrightarrow> list_all P (f x out)" and "list_all P out"
  shows "list_all P (fold f m out)"
  using assms by (induction m arbitrary: out) simp_all

lemma redact_fields_all:
  assumes "\<And>k f key. (k, f) \<in> set m \<Longrightarrow> P (f key)"
  shows "list_all (\<lambda>(k, v). \<not> codexPlusAuditRiskDropsField k \<and> P v) (redact_fields m)"
  unfolding redact_fields_def
  by (rule fold_list_all) (auto simp: Let_def intro!: list_all_AList_update assms)

lemma redact_strings_all:
  assumes "\<And>key s. P (VString (redactCodexPlusAuditRiskString key s))"
  shows "list_all (\<lambda>(k, v). \<not> codexPlusAuditRiskDropsField k \<and> P v) (redact_strings m)"
  unfolding redact_strings_def
  by (rule fold_list_all) (auto intro!: list_all_AList_update assms)

lemma clean_VMap:
  "clean_value T (VMap m) \<longleftrightarrow> list_all (\<lambda>(k, v). \<not> codexPlusAuditRiskDropsField k \<and> clean_value T v) m"
  by (simp add: list_all_iff split_beta)

lemma redact_value_clean: "type_names v \<subseteq> T \<Longrightarrow> clean_value T (redactCodexPlusAuditRiskValue v key)"
proof (induction v arbitrary: key)
  case (VStrings ss)
  show ?case by (simp add: list_all_iff redact_string_redacted)
next
  case (VList vs)
  then show ?case by (auto simp: list_all_iff)
next
  case (VMap m)
  have "clean_value T (f key)" if "(k, f) \<in> set (map (map_prod id redactCodexPlusAuditRiskValue) m)" for k f key
  proof -
    from that obtain v where v: "(k, v) \<in> set m" "f = redactCodexPlusAuditRiskValue v" by auto
    from VMap(2) v(1) have "type_names v \<subseteq> T" by force
    with VMap(1) [OF v(1), of v] v(2) show ?thesis by (simp add: prod_set_defs)
  qed
  then show ?case unfolding redactCodexPlusAuditRiskValue.simps clean_VMap by (rule redact_fields_all)
next
  case (VStringMap m)
  show ?case unfolding redactCodexPlusAuditRiskValue.simps clean_VMap
    by (rule redact_strings_all) (simp add: redact_string_redacted)
qed (simp_all add: redact_string_redacted)

text \<open>
  Redaction is complete: in the redacted metadata of an event, however deeply nested, no field with
  a forbidden name remains, and every text is empty, a placeholder, the name of a Go type, or (the
  start of) a text with no bearer token, no key, fewer than two dots, no credential in a URL and no
  local path.
\<close>
theorem redaction_complete:
  "clean_value (type_names (VMap metadata)) (VMap (RedactCodexPlusAuditRiskMetadata metadata))"
  using redact_value_clean [of "VMap metadata" "type_names (VMap metadata)" "[]"]
  by (simp add: RedactCodexPlusAuditRiskMetadata_def)

lemma count_trim_left:
  assumes "\<And>w. w \<in> set ws \<Longrightarrow> c \<notin> set w"
  shows "count_byte c (trim_left_words ws s) = count_byte c s"
  using assms
proof (induction ws s rule: trim_left_words.induct)
  case (1 ws s)
  show ?case
  proof (cases "head_match ws s = 0")
    case True
    then show ?thesis by (simp add: trim_left_words.simps [of ws s])
  next
    case False
    then obtain w where f: "find (\<lambda>w. w \<noteq> [] \<and> go_HasPrefix s w) ws = Some w"
      by (auto simp: head_match_def split: option.splits)
    then have "head_match ws s = length w" by (simp add: head_match_def)
    moreover from f have "w \<in> set ws" "take (length w) s = w" by (auto simp: find_Some_iff go_HasPrefix_def)
    ultimately have w: "w \<in> set ws" "take (length w) s = w" "head_match ws s = length w" by simp_all
    have "count_byte c s = count_byte c (take (length w) s @ drop (length w) s)" by simp
    also have "\<dots> = count_byte c w + count_byte c (drop (length w) s)"
      unfolding count_byte_def w(2) by (simp del: append_take_drop_id)
    also have "count_byte c w = 0" using 1(2) [OF w(1)] by (auto simp: count_byte_def filter_empty_conv)
    finally show ?thesis
      using False 1 w(3) by (simp add: trim_left_words.simps [of ws s])
  qed
qed

lemma space_runes_no_dot: "w \<in> set space_runes \<Longrightarrow> CHR ''.'' \<notin> set w"
  by (auto simp: space_runes_def)

lemma count_TrimSpace: "count_byte (CHR ''.'') (go_TrimSpace s) = count_byte (CHR ''.'') s"
proof -
  have rev: "count_byte c (rev s) = count_byte c s" for c s by (simp add: count_byte_def rev_filter [symmetric])
  have "count_byte (CHR ''.'') (trim_left_words (map rev space_runes) t) = count_byte (CHR ''.'') t" for t
    by (rule count_trim_left) (auto dest: space_runes_no_dot)
  moreover have "count_byte (CHR ''.'') (trim_left_words space_runes t) = count_byte (CHR ''.'') t" for t
    by (rule count_trim_left) (rule space_runes_no_dot)
  ultimately show ?thesis by (simp add: go_TrimSpace_def rev)
qed

text \<open>
  Reading an event redacts it a second time, and the second redaction destroys what the first one
  shortened: a harmless text of more than 512 bytes is stored with an ellipsis of three dots, which
  the rule for tokens (two or more dots) replaces by \<open>[redacted]\<close> as a whole.
\<close>
theorem long_text_lost_on_read:
  assumes "no_secret (go_TrimSpace s)" and "512 < length (go_TrimSpace s)"
  shows "redactCodexPlusAuditRiskString key s = take 512 (go_TrimSpace s) @ ''...[truncated]'' \<and>
    redactCodexPlusAuditRiskString key (redactCodexPlusAuditRiskString key s) = ''[redacted]''"
proof -
  let ?r = "take 512 (go_TrimSpace s) @ ''...[truncated]''"
  have first: "redactCodexPlusAuditRiskString key s = ?r"
    using assms by (auto simp: redactCodexPlusAuditRiskString_def no_secret_def Let_def)
  have dots: "2 \<le> count_byte (CHR ''.'') (go_TrimSpace ?r)"
    unfolding count_TrimSpace by (simp add: count_byte_def)
  then have "go_TrimSpace ?r \<noteq> []" by (auto simp: count_byte_def)
  with dots have "redactCodexPlusAuditRiskString key ?r = ''[redacted]''"
    by (simp add: redactCodexPlusAuditRiskString_def Let_def)
  with first show ?thesis by simp
qed

section \<open>Tags\<close>

lemma add_tags_distinct: "distinct out \<Longrightarrow> distinct (add_tags out tags)"
  by (induction out tags rule: add_tags.induct) (auto simp: Let_def)

lemma add_tags_nonempty: "[] \<notin> set out \<Longrightarrow> [] \<notin> set (add_tags out tags)"
  by (induction out tags rule: add_tags.induct) (auto simp: Let_def replace_byte_def)

section \<open>Queries\<close>

lemma sorted_wrt_insort:
  assumes "sorted_wrt (\<lambda>a b. f a < f b \<or> (f a = f b \<and> h a \<le> h b)) ys" and "\<And>y. y \<in> set ys \<Longrightarrow> h x \<le> h y"
  shows "sorted_wrt (\<lambda>a b. f a < f b \<or> (f a = f b \<and> (h a :: 'k :: linorder) \<le> h b)) (insort_key f x ys)"
  using assms by (induction ys) (auto simp: set_insort_key)

lemma sorted_wrt_two_keys:
  assumes "sorted_wrt (\<lambda>a b. h a \<le> h b) xs"
  shows "sorted_wrt (\<lambda>a b. f a < f b \<or> (f a = f b \<and> (h a :: 'k :: linorder) \<le> h b)) (sort_key f xs)"
  using assms by (induction xs) (auto intro!: sorted_wrt_insort)

definition newest_first :: "CodexPlusEvent \<Rightarrow> CodexPlusEvent \<Rightarrow> bool" where
  "newest_first a b \<longleftrightarrow> time_value (e_CreatedAt b) < time_value (e_CreatedAt a) \<or>
     (time_value (e_CreatedAt a) = time_value (e_CreatedAt b) \<and> e_ID b \<le> e_ID a)"

lemma sort_events_sorted: "sorted_wrt newest_first (sort_events events)"
proof -
  have "sorted_wrt (\<lambda>a b. - e_ID a \<le> - e_ID b) (sort_key (\<lambda>e. - e_ID e) events)"
    using sorted_sort_key [of "\<lambda>e. - e_ID e" events] by (simp add: sorted_wrt_map)
  from sorted_wrt_two_keys [OF this, of "\<lambda>e. - time_value (e_CreatedAt e)"]
  show ?thesis unfolding sort_events_def
    by (rule sorted_wrt_mono_rel [rotated]) (auto simp: newest_first_def)
qed

lemma collect_matches_take:
  assumes "int (length out) < limit"
  shows "collect_matches now query limit out events = out @ take (nat limit - length out)
    (filter (\<lambda>a. codexPlusAuditRiskEventMatches a query)
      (map (\<lambda>e. codexPlusAuditRiskEventFromService now e (q_IncludePayload query)) events))"
  using assms
proof (induction now query limit out events rule: collect_matches.induct)
  case (2 now query limit out event events)
  let ?s = "codexPlusAuditRiskEventFromService now event (q_IncludePayload query)"
  show ?case
  proof (cases "codexPlusAuditRiskEventMatches ?s query")
    case False
    then show ?thesis using 2 by (simp add: Let_def)
  next
    case True
    show ?thesis
    proof (cases "limit \<le> int (length (out @ [?s]))")
      case True
      with 2(3) have "nat limit - length out = 1" by simp
      with True \<open>codexPlusAuditRiskEventMatches ?s query\<close> show ?thesis by (simp add: Let_def)
    next
      case False
      then have "nat limit - length out = Suc (nat limit - length (out @ [?s]))" by simp
      with False True 2(2) [OF refl _ refl] show ?thesis by (simp add: Let_def)
    qed
  qed
qed simp

lemma limit_bounds: "1 \<le> codexPlusAuditNormalizeLimit l \<and> codexPlusAuditNormalizeLimit l \<le> 500"
  by (simp add: codexPlusAuditNormalizeLimit_def)

text \<open>
  A query answers with the newest matching events, at most the limit (which is clipped to 500) of
  them: when the repository returns events, the result is a prefix of the events that match, in the
  order of their creation times, and the loop stops only when the limit is reached.
\<close>
theorem query_newest_matching:
  assumes "loadCodexPlusAuditRiskEvents st query
      (if go_TrimSpace (q_DeviceID query) \<noteq> [] \<or> go_TrimSpace (q_RequestID query) \<noteq> [] \<or>
          q_RiskTags query \<noteq> [] \<or> q_EventTypes query \<noteq> []
       then 500 else codexPlusAuditNormalizeLimit (q_Limit query)) = Inr events"
  shows "\<exists>sorted. set sorted = set events \<and> length sorted = length events \<and> sorted_wrt newest_first sorted \<and>
    QueryCodexPlusAuditRiskEvents now (Some st) query = Inr (take (nat (codexPlusAuditNormalizeLimit (q_Limit query)))
      (filter (\<lambda>a. codexPlusAuditRiskEventMatches a query)
        (map (\<lambda>e. codexPlusAuditRiskEventFromService now e (q_IncludePayload query)) sorted)))"
proof -
  have l500: "codexPlusAuditNormalizeLimit 500 = (500 :: int)" by (simp add: codexPlusAuditNormalizeLimit_def)
  have load: "loadCodexPlusAuditRiskEvents st query
      (if go_TrimSpace (q_DeviceID query) \<noteq> [] \<or> go_TrimSpace (q_RequestID query) \<noteq> [] \<or>
          q_RiskTags query \<noteq> [] \<or> q_EventTypes query \<noteq> []
       then codexPlusAuditNormalizeLimit 500 else codexPlusAuditNormalizeLimit (q_Limit query)) = Inr events"
    using assms by (simp only: l500)
  have "QueryCodexPlusAuditRiskEvents now (Some st) query =
      Inr (collect_matches now query (codexPlusAuditNormalizeLimit (q_Limit query)) [] (sort_events events))"
    by (simp only: QueryCodexPlusAuditRiskEvents_def Let_def option.case load sum.case)
  moreover have "set (sort_events events) = set events" "length (sort_events events) = length events"
    by (simp_all add: sort_events_def)
  ultimately show ?thesis
    using sort_events_sorted [of events] limit_bounds [of "q_Limit query"]
    by (intro exI [of _ "sort_events events"]) (simp add: collect_matches_take)
qed

section \<open>Summaries\<close>

definition rejects :: "CodexPlusAuditRiskEvent list \<Rightarrow> CodexPlusAuditRiskEvent list" where
  "rejects events = filter (\<lambda>e. a_EventType e = ''gateway_policy_rejected'') events"

lemma summary_snoc:
  "BuildCodexPlusAuditRiskUserSummary (events @ [e]) = summarise_event (BuildCodexPlusAuditRiskUserSummary events) e"
  by (simp add: BuildCodexPlusAuditRiskUserSummary_def)

lemmas summarise_fields = summary_snoc summarise_event_def Let_def

lemma recent_tags_distinct: "distinct recorded \<Longrightarrow> distinct (recent_tags recorded tags)"
  by (induction recorded tags rule: recent_tags.induct) (auto simp: Let_def)

text \<open>
  The summary of a user counts every event once by kind, keeps the requests and tags without
  duplicates and the first ten rejections in order.
\<close>
theorem summary_exact:
  "let s = BuildCodexPlusAuditRiskUserSummary events
   in us_EventCount s = length events \<and>
      us_RiskEventCount s = length (filter (\<lambda>e. a_RiskTags e \<noteq> []) events) \<and>
      us_GatewayRejectCount s = length (rejects events) \<and>
      us_RecentGatewayRejects s = take 10 (map reject_summary (rejects events)) \<and>
      distinct (us_RecentRiskTags s) \<and> distinct (us_RecentRequestIDs s) \<and>
      set (us_RecentRequestIDs s) = {go_TrimSpace r | e r. e \<in> set events \<and> a_RequestID e = Some r \<and> go_TrimSpace r \<noteq> []}"
proof (induction events rule: rev_induct)
  case Nil
  show ?case by (simp add: BuildCodexPlusAuditRiskUserSummary_def rejects_def)
next
  case (snoc e events)
  define s where "s = BuildCodexPlusAuditRiskUserSummary events"
  have IH: "us_EventCount s = length events" "us_RiskEventCount s = length (filter (\<lambda>e. a_RiskTags e \<noteq> []) events)"
      "us_GatewayRejectCount s = length (rejects events)"
      "us_RecentGatewayRejects s = take 10 (map reject_summary (rejects events))"
      "distinct (us_RecentRiskTags s)" "distinct (us_RecentRequestIDs s)"
      "set (us_RecentRequestIDs s) = {go_TrimSpace r | e r. e \<in> set events \<and> a_RequestID e = Some r \<and> go_TrimSpace r \<noteq> []}"
    using snoc by (simp_all add: s_def Let_def)
  have req: "set (recent_request (us_RecentRequestIDs s) (a_RequestID e)) =
      {go_TrimSpace r | e' r. e' \<in> set (events @ [e]) \<and> a_RequestID e' = Some r \<and> go_TrimSpace r \<noteq> []}"
    using IH(7) by (auto simp: recent_request_def split: option.splits) blast+
  have dist: "distinct (recent_request (us_RecentRequestIDs s) (a_RequestID e))"
    using IH(6) by (auto simp: recent_request_def split: option.splits)
  have rej: "(if a_EventType e = ''gateway_policy_rejected'' \<and> length (us_RecentGatewayRejects s) < 10
      then us_RecentGatewayRejects s @ [reject_summary e] else us_RecentGatewayRejects s) =
      take 10 (map reject_summary (rejects (events @ [e])))"
    using IH(4) by (auto simp: rejects_def take_Cons' split: if_splits)
  show ?case
    unfolding summary_snoc s_def [symmetric] summarise_event_def Let_def
    using IH req dist rej by (simp add: rejects_def recent_tags_distinct)
qed

text \<open>
  The list of recent tags has no bound: the loop tests its length only after adding a tag and
  leaves only the loop over the tags of one event, so one tag per event is added without end,
  although the code stops at 20.
\<close>
theorem recent_tags_unbounded:
  assumes "distinct ts" and "\<forall>t \<in> set ts. t \<noteq> [] \<and> go_TrimSpace t = t"
  shows "us_RecentRiskTags (BuildCodexPlusAuditRiskUserSummary (map (\<lambda>t. e\<lparr>a_RiskTags := [t]\<rparr>) ts)) = ts"
  using assms
proof (induction ts rule: rev_induct)
  case (snoc t ts)
  then show ?case by (simp add: summarise_fields)
qed (simp add: BuildCodexPlusAuditRiskUserSummary_def)

section \<open>Samples\<close>

lemma go_HasPrefix_set: "go_HasPrefix s p \<Longrightarrow> set p \<subseteq> set s"
  unfolding go_HasPrefix_def by (metis set_take_subset)

lemma go_Contains_set: "go_Contains s p \<Longrightarrow> set p \<subseteq> set s"
proof (induction s)
  case (Cons c s)
  then show ?case using go_HasPrefix_set [of "c # s" p] by auto
qed simp

definition sample_text :: string where
  "sample_text = replicate 513 CHR ''a''"

lemma sample_text_facts: "no_secret sample_text" "go_TrimSpace sample_text = sample_text" "length sample_text = 513"
proof -
  have token: "list_all token_byte sample_text"
    by (simp add: sample_text_def list_all_iff token_byte_def byte_def)
  then show trim: "go_TrimSpace sample_text = sample_text" by (rule go_TrimSpace_token)
  have lower: "go_ToLower sample_text = sample_text"
    using go_ToLower_ascii [OF token_bytes_ascii [OF token]]
    by (simp add: sample_text_def lower_byte_def ascii_upper_def byte_def)
  have set: "set sample_text = {CHR ''a''}" by (simp add: sample_text_def)
  have contains: "\<not> go_Contains sample_text p" if "\<not> set p \<subseteq> {CHR ''a''}" for p
    using that go_Contains_set [of sample_text p] set by auto
  have prefix: "\<not> go_HasPrefix sample_text p" if "\<not> set p \<subseteq> {CHR ''a''}" for p
    using that go_HasPrefix_set [of sample_text p] set by auto
  show "length sample_text = 513" by (simp add: sample_text_def)
  have nth: "sample_text ! 1 = CHR ''a''" by (simp add: sample_text_def)
  have "count_byte (CHR ''.'') sample_text = 0"
    by (simp add: count_byte_def filter_empty_conv set)
  then show "no_secret sample_text"
    using nth by (simp add: no_secret_def looksLikeCodexPlusSecretBearingURL_def looksLikeCodexPlusLocalPath_def
      containsCodexPlusLocalPathFragment_def contains_any_def has_prefix_any_def trim lower contains prefix)
qed

theorem long_text_lost_on_read_witness:
  "redactCodexPlusAuditRiskString ''summary'' (redactCodexPlusAuditRiskString ''summary'' sample_text) = ''[redacted]''"
proof -
  have "no_secret (go_TrimSpace sample_text)" "512 < length (go_TrimSpace sample_text)"
    using sample_text_facts by simp_all
  from long_text_lost_on_read [OF this] show ?thesis by (rule conjunct2)
qed

definition sample_event :: CodexPlusEvent where
  "sample_event = \<lparr>e_ID = 1, e_UserID = Some 5, e_DeviceID = None, e_EventType = ''risk_signal'', e_Severity = ''info'',
     e_RequestID = Some ''r1'', e_ConfigVersion = None, e_Payload = [], e_CreatedAt = Some 0, e_UpdatedAt = None\<rparr>"

definition sample_store :: "unit event_store" where
  "sample_store = \<lparr>Append = (\<lambda>_. Inl ()), ListByUser = (\<lambda>_ _. Inr [sample_event]), ListByRequestID = None,
     ListByDevice = None\<rparr>"

definition sample_query :: CodexPlusAuditRiskQuery where
  "sample_query = \<lparr>q_UserID = 5, q_DeviceID = [], q_RequestID = [], q_EventTypes = [], q_RiskTags = [], q_Limit = 10,
     q_IncludePayload = False\<rparr>"

theorem query_newest_matching_witness:
  "\<exists>sorted. set sorted = {sample_event} \<and> length sorted = 1 \<and> sorted_wrt newest_first sorted \<and>
    QueryCodexPlusAuditRiskEvents 0 (Some sample_store) sample_query = Inr (take 10
      (filter (\<lambda>a. codexPlusAuditRiskEventMatches a sample_query)
        (map (\<lambda>e. codexPlusAuditRiskEventFromService 0 e False) sorted)))"
proof -
  have limit: "codexPlusAuditNormalizeLimit (q_Limit sample_query) = 10"
    by (simp add: sample_query_def codexPlusAuditNormalizeLimit_def)
  have load: "loadCodexPlusAuditRiskEvents sample_store sample_query
      (if go_TrimSpace (q_DeviceID sample_query) \<noteq> [] \<or> go_TrimSpace (q_RequestID sample_query) \<noteq> [] \<or>
          q_RiskTags sample_query \<noteq> [] \<or> q_EventTypes sample_query \<noteq> []
       then 500 else codexPlusAuditNormalizeLimit (q_Limit sample_query)) = Inr [sample_event]"
    by (simp add: loadCodexPlusAuditRiskEvents_def sample_query_def sample_store_def store_result_def)
  have "q_IncludePayload sample_query = False" by (simp add: sample_query_def)
  with query_newest_matching [OF load, of 0] limit show ?thesis by simp
qed

theorem recent_tags_unbounded_witness:
  "length (us_RecentRiskTags (BuildCodexPlusAuditRiskUserSummary
    (map (\<lambda>t. codexPlusAuditRiskEventFromService 0 sample_event False\<lparr>a_RiskTags := [t]\<rparr>)
      (map (\<lambda>n. ''t'' @ nat_digits n) [0..<21])))) = 21"
proof -
  let ?ts = "map (\<lambda>n. ''t'' @ nat_digits n) [0..<21]"
  have "inj nat_digits"
    using digits_value_nat_digits by (metis injI of_nat_eq_iff option.inject)
  then have "distinct ?ts" by (simp add: distinct_map inj_on_def)
  moreover have "go_TrimSpace t = t" if "t \<in> set ?ts" for t
  proof -
    from that obtain n where "t = ''t'' @ nat_digits n" by auto
    then have "list_all token_byte t"
      using nat_digits_digits [of n] token_byte_cases(2) [of "CHR ''t''"] token_byte_cases(3)
      by (auto simp: list_all_iff ascii_lower_def byte_def)
    then show ?thesis by (rule go_TrimSpace_token)
  qed
  ultimately show ?thesis
    using recent_tags_unbounded [of ?ts "codexPlusAuditRiskEventFromService 0 sample_event False"] by auto
qed

end
