(* ===== verification/Codex_Config.thy ===== *)
theory Codex_Config
  imports Codex_Audit Go_Float
begin

text \<open>
  The configuration of Codex++ (\<open>service/codexplus_config_service.go\<close>): plans, models, usage policies
  and feature flags, their checks in the service, and what reading a stored configuration repairs.
\<close>

section \<open>The configuration\<close>

record CodexPlusEntitlementSources =
  SubscriptionGroupIDs :: "int list"
  APIKeyGroupIDs :: "int list"
  GroupNames :: "string list"

record CodexPlusEntitlementGrant =
  BalanceCredit :: int
  DurationDays :: int
  eg_DailyQuota :: "int option"
  PeriodQuota :: "int option"

record CodexPlusPlanCopyKeys =
  pk_PurchaseAction :: string
  pk_RenewAction :: string
  UpgradeAction :: string
  NotPurchasedMessage :: string
  pk_ExpiredMessage :: string
  pk_LowBalanceMessage :: string

record CodexPlusPlanExternalBillingRefs =
  ProductID :: "string option"
  SKUID :: "string option"

record CodexPlusPlan =
  PlanID :: string
  pl_Name :: string
  pl_Description :: string
  BillingPeriod :: string
  pl_Currency :: string
  PriceAmountMinor :: int
  DisplayPrice :: string
  EntitlementGrant :: CodexPlusEntitlementGrant
  EntitlementSources :: CodexPlusEntitlementSources
  pl_ModelGroups :: "string list"
  UsagePolicyID :: string
  PurchaseURL :: "string option"
  RenewURL :: "string option"
  pl_CopyKeys :: CodexPlusPlanCopyKeys
  IsListed :: bool
  pl_Status :: string
  pl_SortOrder :: int
  ExternalBillingRefs :: CodexPlusPlanExternalBillingRefs

record CodexPlusModel =
  ModelID :: string
  DisplayName :: string
  RouteModel :: string
  ModelGroup :: string
  ContextWindow :: int
  BillingMultiplier :: f64
  IsDefault :: bool
  IsEnabled :: bool
  IsHidden :: bool
  DisabledReason :: "string option"
  RolloutChannel :: string
  QualityTier :: string
  FallbackModelID :: "string option"
  DeprecationAt :: "string option"
  DisabledReplacementModelID :: "string option"
  DisabledMessageKey :: "string option"
  md_SortOrder :: int
  OperatorTags :: "string list"

record CodexPlusUsagePolicyAppliesTo =
  at_PlanIDs :: "string list"
  at_ModelGroups :: "string list"
  UserSegments :: "string list"

record CodexPlusUsagePolicyCopyKeys =
  uk_LowBalanceMessage :: string
  uk_InsufficientBalanceMessage :: string
  uk_RateLimitedMessage :: string
  uk_ExpiredMessage :: string
  uk_RenewAction :: string
  uk_PurchaseAction :: string
  DeviceRevokedMessage :: string

record CodexPlusUsagePolicyDeviceMessageKeys =
  LimitReached :: string
  ReplacementCooldown :: string
  Revoked :: string
  SupportUnlockRequired :: string

record CodexPlusUsagePolicyDevicePolicy =
  RegistrationRequired :: bool
  MaxDevicesPerUser :: int
  AllowSelfServiceReplacement :: bool
  ReplacementCooldownHours :: int
  StrictEnforcementDefault :: bool
  RevokeReasonTaxonomy :: "string list"
  SupportUnlockPolicy :: string
  RevokedBehavior :: string
  MessageKeys :: CodexPlusUsagePolicyDeviceMessageKeys

text \<open>The rule of the registry (\<open>configregistry.UsagePolicyRule\<close>) and the one of the service, which keeps two
  older messages.\<close>

record UsagePolicyRule =
  PolicyID :: string
  AppliesTo :: CodexPlusUsagePolicyAppliesTo
  LowBalanceThreshold :: int
  ur_DailyQuota :: int
  MonthlyQuota :: "int option"
  ConcurrencyLimit :: int
  RPMLimit :: int
  TPMLimit :: int
  BurstLimit :: int
  RateLimitWindowSeconds :: int
  ExpiredBehavior :: string
  GracePeriodHours :: int
  OverageBehavior :: string
  ur_CopyKeys :: CodexPlusUsagePolicyCopyKeys
  DevicePolicy :: CodexPlusUsagePolicyDevicePolicy

record CodexPlusUsageRule = UsagePolicyRule +
  InsufficientBalanceMessage :: string
  RateLimitedMessage :: string

record CodexPlusFeatureFlags =
  AdvancedProviderConfig :: bool
  InstallAssistant :: bool
  NewUserTutorial :: bool
  ModelSelector :: bool
  DiagnosticExport :: bool
  Announcements :: bool
  ForceUpdatePrompt :: bool
  StrictDeviceEnforcement :: bool

record CodexPlusFeatureFlagExposure =
  ClientVisible :: "string list"
  ServerOnly :: "string list"

record CodexPlusFeatureFlagCopyKeys =
  fk_ForceUpdatePrompt :: string
  InstallAssistantEntry :: string
  NewUserTutorialEntry :: string
  DiagnosticExportEntry :: string
  AnnouncementEntry :: string

text \<open>The fields the four catalogs and the configuration have in common.\<close>

record document_meta =
  ConfigVersion :: string
  DraftStatus :: string
  PublishScope :: string
  RollbackFrom :: "string option"
  UpdatedBy :: string
  UpdatedAt :: string
  ChangeReason :: string

record CodexPlusPlanCatalog = document_meta +
  Plans :: "CodexPlusPlan list"

record CodexPlusModelCatalog = document_meta +
  Models :: "CodexPlusModel list"

record CodexPlusUsagePolicy = document_meta +
  Policies :: "CodexPlusUsageRule list"

record CodexPlusFeatureFlagsDoc = document_meta +
  Flags :: CodexPlusFeatureFlags
  Exposure :: CodexPlusFeatureFlagExposure
  fd_CopyKeys :: CodexPlusFeatureFlagCopyKeys

record CodexPlusConfig = document_meta +
  PlanCatalog :: CodexPlusPlanCatalog
  ModelCatalog :: CodexPlusModelCatalog
  UsagePolicy :: CodexPlusUsagePolicy
  FeatureFlags :: CodexPlusFeatureFlagsDoc

abbreviation plans_of :: "CodexPlusConfig \<Rightarrow> CodexPlusPlan list" where
  "plans_of cfg \<equiv> Plans (PlanCatalog cfg)"

abbreviation models_of :: "CodexPlusConfig \<Rightarrow> CodexPlusModel list" where
  "models_of cfg \<equiv> Models (ModelCatalog cfg)"

abbreviation policies_of :: "CodexPlusConfig \<Rightarrow> CodexPlusUsageRule list" where
  "policies_of cfg \<equiv> Policies (UsagePolicy cfg)"

section \<open>The checks of the service\<close>

text \<open>An error is its message without the prefix of \<open>ErrCodexPlusConfigInvalid\<close>; indices and quoted
  values in it are cut out.\<close>

definition validCodexPlusDraftStatus :: "string \<Rightarrow> bool" where
  "validCodexPlusDraftStatus status \<longleftrightarrow>
     go_TrimSpace status \<in> {''draft'', ''editing'', ''ready_for_review'', ''approved'', ''published'', ''archived''}"

definition validCodexPlusPublishScope :: "string \<Rightarrow> bool" where
  "validCodexPlusPublishScope scope \<longleftrightarrow> go_TrimSpace scope \<in> {''draft'', ''internal'', ''canary'', ''production''}"

definition validCodexPlusExpiredBehavior :: "string \<Rightarrow> bool" where
  "validCodexPlusExpiredBehavior value \<longleftrightarrow> go_TrimSpace value \<in> {''block'', ''degrade'', ''allow_grace_period''}"

text \<open>The first error of a loop over a list with the ids seen so far.\<close>

fun first_error :: "(string list \<Rightarrow> 'a \<Rightarrow> string option) \<Rightarrow> ('a \<Rightarrow> string) \<Rightarrow> string list \<Rightarrow> 'a list \<Rightarrow> string option" where
  "first_error check key seen [] = None"
| "first_error check key seen (x # xs) =
     (case check seen x of Some e \<Rightarrow> Some e | None \<Rightarrow> first_error check key (key x # seen) xs)"

definition validateCodexPlusEntitlementSources :: "CodexPlusEntitlementSources \<Rightarrow> string option" where
  "validateCodexPlusEntitlementSources sources =
     (if list_ex (\<lambda>id. id \<le> 0) (SubscriptionGroupIDs sources)
      then Some ''entitlement_sources.subscription_group_ids must be positive''
      else if list_ex (\<lambda>id. id \<le> 0) (APIKeyGroupIDs sources)
      then Some ''entitlement_sources.api_key_group_ids must be positive''
      else if list_ex (\<lambda>name. go_TrimSpace name = []) (GroupNames sources)
      then Some ''entitlement_sources.group_names cannot contain empty values''
      else None)"

definition check_plan :: "string list \<Rightarrow> CodexPlusPlan \<Rightarrow> string option" where
  "check_plan seen plan =
     (let id = go_TrimSpace (PlanID plan)
      in if id = [] then Some ''plan_id is required''
         else if id \<in> set seen then Some ''duplicate plan_id''
         else if go_TrimSpace (pl_Name plan) = [] then Some ''name is required''
         else if pl_ModelGroups plan = [] then Some ''must reference at least one model group''
         else if BalanceCredit (EntitlementGrant plan) < 0 \<or> DurationDays (EntitlementGrant plan) < 0
         then Some ''entitlement values cannot be negative''
         else validateCodexPlusEntitlementSources (EntitlementSources plan))"

definition validateCodexPlusPlans :: "CodexPlusPlan list \<Rightarrow> string option" where
  "validateCodexPlusPlans plans =
     (if plans = [] then Some ''at least one plan is required''
      else first_error check_plan (\<lambda>plan. go_TrimSpace (PlanID plan)) [] plans)"

definition check_model :: "string list \<Rightarrow> CodexPlusModel \<Rightarrow> string option" where
  "check_model seen model =
     (let id = go_TrimSpace (ModelID model)
      in if id = [] then Some ''model_id is required''
         else if id \<in> set seen then Some ''duplicate model_id''
         else if go_TrimSpace (RouteModel model) = [] then Some ''route_model is required''
         else if go_TrimSpace (ModelGroup model) = [] then Some ''model_group is required''
         else if ContextWindow model < 1024 then Some ''context_window is too small''
         else if BillingMultiplier model \<le> Fin 0 then Some ''billing_multiplier must be positive''
         else if IsDefault model \<and> \<not> IsEnabled model then Some ''default model must be enabled''
         else None)"

definition validateCodexPlusModels :: "CodexPlusModel list \<Rightarrow> string option" where
  "validateCodexPlusModels models =
     (if models = [] then Some ''at least one model is required''
      else case first_error check_model (\<lambda>model. go_TrimSpace (ModelID model)) [] models of
        Some e \<Rightarrow> Some e
      | None \<Rightarrow> if length (filter IsDefault models) \<noteq> 1 then Some ''exactly one default model is required'' else None)"

definition check_policy :: "string list \<Rightarrow> CodexPlusUsageRule \<Rightarrow> string option" where
  "check_policy seen policy =
     (let id = go_TrimSpace (PolicyID policy)
      in if id = [] then Some ''policy_id is required''
         else if id \<in> set seen then Some ''duplicate policy_id''
         else if LowBalanceThreshold policy < 0 \<or> ur_DailyQuota policy < 0 \<or> GracePeriodHours policy < 0
         then Some ''numeric thresholds cannot be negative''
         else if ConcurrencyLimit policy < 1 \<or> RPMLimit policy < 1 \<or> TPMLimit policy < 1
         then Some ''limits must be positive''
         else if \<not> validCodexPlusExpiredBehavior (ExpiredBehavior policy) then Some ''invalid expired_behavior''
         else if go_TrimSpace (InsufficientBalanceMessage policy) = [] \<and>
                 go_TrimSpace (uk_InsufficientBalanceMessage (ur_CopyKeys policy)) = []
         then Some ''insufficient_balance_message is required''
         else None)"

definition validateCodexPlusUsagePolicies :: "CodexPlusUsageRule list \<Rightarrow> string option" where
  "validateCodexPlusUsagePolicies policies =
     (if policies = [] then Some ''at least one usage policy is required''
      else first_error check_policy (\<lambda>policy. go_TrimSpace (PolicyID policy)) [] policies)"

definition normalizeCodexPlusStoredConfigForRead :: "CodexPlusConfig \<Rightarrow> CodexPlusConfig" where
  "normalizeCodexPlusStoredConfigForRead cfg =
     cfg\<lparr>ModelCatalog := (ModelCatalog cfg)\<lparr>Models := map (\<lambda>model.
       if IsDefault model \<and> IsEnabled model \<and> IsHidden model then model\<lparr>IsHidden := False\<rparr> else model)
       (models_of cfg)\<rparr>\<rparr>"

section \<open>What an accepted catalog satisfies\<close>

lemma first_check_None:
  "first_error check key seen xs = None \<longleftrightarrow>
     (\<forall>i < length xs. check (rev (map key (take i xs)) @ seen) (xs ! i) = None)"
proof (induction xs arbitrary: seen)
  case (Cons x xs)
  show ?case
    by (auto simp: Cons nth_Cons All_less_Suc2 split: option.splits)
qed simp

lemma first_error_distinct:
  assumes "first_error check key seen xs = None" and "\<And>seen x. check seen x = None \<Longrightarrow> key x \<notin> set seen"
  shows "distinct (map key xs) \<and> set (map key xs) \<inter> set seen = {}"
  using assms(1)
proof (induction xs arbitrary: seen)
  case (Cons x xs)
  from Cons.prems have head: "check seen x = None" and rest: "first_error check key (key x # seen) xs = None"
    by (auto split: option.splits)
  from assms(2) [OF head] Cons.IH [OF rest] show ?case by auto
qed simp

lemma first_error_all:
  assumes "first_error check key seen xs = None" and "x \<in> set xs"
  shows "\<exists>seen. check seen x = None"
  using assms by (induction xs arbitrary: seen) (auto split: option.splits)

lemma check_policy_fresh: "check_policy seen policy = None \<Longrightarrow> go_TrimSpace (PolicyID policy) \<notin> set seen"
  by (auto simp: check_policy_def Let_def split: if_splits)

lemma check_model_fresh: "check_model seen model = None \<Longrightarrow> go_TrimSpace (ModelID model) \<notin> set seen"
  by (auto simp: check_model_def Let_def split: if_splits)

lemma check_plan_fresh: "check_plan seen plan = None \<Longrightarrow> go_TrimSpace (PlanID plan) \<notin> set seen"
  by (auto simp: check_plan_def Let_def split: if_splits)

lemma accepted_policies:
  assumes "validateCodexPlusUsagePolicies policies = None"
  shows "policies \<noteq> []" and "distinct (map (\<lambda>p. go_TrimSpace (PolicyID p)) policies)"
    and "\<And>p. p \<in> set policies \<Longrightarrow> 1 \<le> ConcurrencyLimit p \<and> 1 \<le> RPMLimit p \<and> 1 \<le> TPMLimit p"
proof -
  from assms have ne: "policies \<noteq> []"
    and ok: "first_error check_policy (\<lambda>policy. go_TrimSpace (PolicyID policy)) [] policies = None"
    by (auto simp: validateCodexPlusUsagePolicies_def split: if_splits)
  show "policies \<noteq> []" by (rule ne)
  show "distinct (map (\<lambda>p. go_TrimSpace (PolicyID p)) policies)"
    using first_error_distinct [OF ok check_policy_fresh] by simp
  fix p
  assume "p \<in> set policies"
  from first_error_all [OF ok this] show "1 \<le> ConcurrencyLimit p \<and> 1 \<le> RPMLimit p \<and> 1 \<le> TPMLimit p"
    by (auto simp: check_policy_def Let_def split: if_splits)
qed

end
