(* ===== verification/Codex_Policy.thy ===== *)
theory Codex_Policy
  imports Codex_Config
begin

text \<open>
  The gateway policy of Codex++ (\<open>service/codexplus_gateway_policy_service.go\<close>, with its handler
  \<open>handler/codexplus_gateway_policy.go\<close>): whether a request made with a managed API key may use the
  model it names, and the event that is recorded for the decision.
\<close>

section \<open>Codes\<close>

definition CodexPlusGatewayPolicyEventRejected :: string where
  "CodexPlusGatewayPolicyEventRejected = ''gateway_policy_rejected''"
definition CodexPlusGatewayPolicyEventUsage :: string where
  "CodexPlusGatewayPolicyEventUsage = ''usage_recorded''"

text \<open>The states of the service and the codes of the errors, by their constants in the code.\<close>

datatype service_status =
    Available
  | NotPurchased
  | Expired
  | LowBalance
  | Disabled
  | DeviceRevoked
  | ModelUnavailable
  | RateLimited
  | GatewayUnhealthy

primrec status_text :: "service_status \<Rightarrow> string" where
  "status_text Available = ''available''"
| "status_text NotPurchased = ''not_purchased''"
| "status_text Expired = ''expired''"
| "status_text LowBalance = ''low_balance''"
| "status_text Disabled = ''disabled''"
| "status_text DeviceRevoked = ''device_revoked''"
| "status_text ModelUnavailable = ''model_unavailable''"
| "status_text RateLimited = ''rate_limited''"
| "status_text GatewayUnhealthy = ''gateway_unhealthy''"

datatype gateway_error =
    ErrorModelNotAllowed
  | ErrorBalanceInsufficient
  | ErrorEntitlementExpired
  | ErrorDeviceRevoked
  | ErrorRateLimited
  | ErrorConfigUnavailable
  | ErrorEntitlementDisabled
  | ErrorEntitlementNotBought
  | ErrorDeviceBlocked
  | ErrorQuotaExceeded
  | ErrorConcurrencyLimited
  | ErrorTPMLimited

primrec error_text :: "gateway_error \<Rightarrow> string" where
  "error_text ErrorModelNotAllowed = ''GATEWAY_POLICY_MODEL_NOT_ALLOWED''"
| "error_text ErrorBalanceInsufficient = ''GATEWAY_POLICY_BALANCE_INSUFFICIENT''"
| "error_text ErrorEntitlementExpired = ''GATEWAY_POLICY_ENTITLEMENT_EXPIRED''"
| "error_text ErrorDeviceRevoked = ''GATEWAY_POLICY_DEVICE_REVOKED''"
| "error_text ErrorRateLimited = ''GATEWAY_POLICY_RATE_LIMITED''"
| "error_text ErrorConfigUnavailable = ''GATEWAY_POLICY_CONFIG_UNAVAILABLE''"
| "error_text ErrorEntitlementDisabled = ''GATEWAY_POLICY_ENTITLEMENT_DISABLED''"
| "error_text ErrorEntitlementNotBought = ''GATEWAY_POLICY_ENTITLEMENT_NOT_PURCHASED''"
| "error_text ErrorDeviceBlocked = ''GATEWAY_POLICY_DEVICE_BLOCKED''"
| "error_text ErrorQuotaExceeded = ''GATEWAY_POLICY_QUOTA_EXCEEDED''"
| "error_text ErrorConcurrencyLimited = ''GATEWAY_POLICY_CONCURRENCY_LIMITED''"
| "error_text ErrorTPMLimited = ''GATEWAY_POLICY_TPM_LIMITED''"

section \<open>Data\<close>

text \<open>Users, groups, keys and subscriptions with the fields the policy reads. A time that is zero
  is \<open>None\<close>.\<close>

record Group =
  g_ID :: int
  g_Name :: string

record User =
  u_ID :: int

record APIKey =
  k_ID :: int
  k_UserID :: int
  k_Key :: string
  k_GroupID :: "int option"
  k_User :: "User option"
  k_Group :: "Group option"

record UserSubscription =
  s_GroupID :: int
  s_ExpiresAt :: "int option"
  s_Status :: string
  s_Group :: "Group option"

record CodexPlusManagedProviderKey =
  mk_ID :: int
  mk_UserID :: int
  mk_APIKeyID :: int
  mk_ManagedProviderID :: string
  mk_DisplayName :: string
  mk_KeyPrefix :: "string option"
  mk_Status :: string
  mk_LastUsedAt :: "int option"
  mk_CreatedAt :: "int option"
  mk_UpdatedAt :: "int option"

record CodexPlusDevice =
  dv_ID :: int
  dv_UserID :: int
  dv_DeviceID :: string
  DeviceName :: "string option"
  dv_Platform :: "string option"
  AppVersion :: "string option"
  FingerprintHash :: "string option"
  dv_Status :: string
  LastSeenAt :: "int option"
  RevokedAt :: "int option"
  dv_Metadata :: payload
  dv_CreatedAt :: "int option"
  dv_UpdatedAt :: "int option"

record CodexPlusGatewayEntitlementContext =
  en_Status :: string
  en_PlanID :: string
  en_ModelGroups :: "string list"

record CodexPlusGatewayPolicyInput =
  in_APIKey :: "APIKey option"
  in_User :: "User option"
  in_Group :: "Group option"
  in_Subscription :: "UserSubscription option"
  in_RequestedModel :: string
  in_Endpoint :: string
  in_RequestID :: string
  in_DeviceID :: string
  in_Platform :: string
  in_EstimatedTokens :: int
  in_Entitlement :: CodexPlusGatewayEntitlementContext
  in_StrictDeviceEnforcement :: bool
  in_CheckBilling :: bool
  in_Metadata :: payload

text \<open>\<open>EventError\<close> and \<open>UsageEventError\<close> hold what the recorder answers.\<close>

record CodexPlusGatewayPolicyDecision =
  Allowed :: bool
  Skipped :: bool
  HTTPStatus :: int
  d_ErrorCode :: "gateway_error option"
  ServiceStatus :: service_status
  d_Reason :: string
  Retryable :: bool
  d_EventType :: string
  d_ConfigVersion :: string
  ManagedKey :: "CodexPlusManagedProviderKey option"
  d_Model :: "CodexPlusModel option"
  EventPayload :: payload
  EventError :: "string option"
  UsageEventPayload :: payload
  UsageEventError :: "string option"

text \<open>The error of a reader: not found (\<open>ErrCodexPlusManagedProviderKeyNotFound\<close>,
  \<open>ErrCodexPlusDeviceNotFound\<close>) or another one.\<close>

datatype reader_error = NotFound | ReaderError string

datatype billing_error =
    InsufficientBalance
  | SubscriptionInvalid
  | SubscriptionExpired
  | SubscriptionSuspended
  | DailyLimitExceeded
  | WeeklyLimitExceeded
  | MonthlyLimitExceeded
  | UserPlatformDailyQuotaExhausted
  | UserPlatformWeeklyQuotaExhausted
  | UserPlatformMonthlyQuotaExhausted
  | APIKeyRateLimit5hExceeded
  | APIKeyRateLimit1dExceeded
  | APIKeyRateLimit7dExceeded
  | GroupRPMExceeded
  | UserRPMExceeded
  | BillingServiceUnavailable
  | OtherBillingError string

text \<open>
  The service. The readers, the recorder and the billing check are functions of the environment; a
  missing one is \<open>None\<close>. A reader of keys or devices may answer with no value and no error. \<open>p_now\<close> is
  what the clock shows during the call.
\<close>

record CodexPlusGatewayPolicyService =
  configReader :: "(string + CodexPlusConfig) option"
  managedKeyReader :: "(int \<Rightarrow> reader_error + CodexPlusManagedProviderKey option) option"
  deviceReader :: "(int \<Rightarrow> string \<Rightarrow> reader_error + CodexPlusDevice option) option"
  eventRecorder :: "(CodexPlusEventCreate \<Rightarrow> string option) option"
  billingChecker :: "(User \<Rightarrow> APIKey \<Rightarrow> Group option \<Rightarrow> UserSubscription option \<Rightarrow> string \<Rightarrow> billing_error option) option"
  p_now :: int

record codexPlusGatewayPolicyResolution =
  r_Entitlement :: CodexPlusGatewayEntitlementContext
  r_Plan :: "CodexPlusPlan option"
  UsageRule :: "CodexPlusUsageRule option"

text \<open>A decision, and the events it gave to the recorder.\<close>

type_synonym decided = "CodexPlusGatewayPolicyDecision \<times> CodexPlusEventCreate list"

section \<open>Groups, plans and models\<close>

definition CodexPlusManagedProviderID :: string where
  "CodexPlusManagedProviderID = ''codex-plus-cloud''"

definition containsCodexPlusInt64 :: "int list \<Rightarrow> int \<Rightarrow> bool" where
  "containsCodexPlusInt64 values target \<longleftrightarrow> (if target \<le> 0 then False else list_ex ((=) target) values)"

definition containsCodexPlusStringFold :: "string list \<Rightarrow> string \<Rightarrow> bool" where
  "containsCodexPlusStringFold values target \<longleftrightarrow>
     (if go_TrimSpace target = [] then False
      else list_ex (\<lambda>value. go_EqualFold (go_TrimSpace value) (go_TrimSpace target)) values)"

definition codexPlusGroupID :: "Group option \<Rightarrow> int" where
  "codexPlusGroupID grp = (case grp of None \<Rightarrow> 0 | Some g \<Rightarrow> g_ID g)"

definition codexPlusGroupName :: "Group option \<Rightarrow> string" where
  "codexPlusGroupName grp = (case grp of None \<Rightarrow> [] | Some g \<Rightarrow> go_TrimSpace (g_Name g))"

definition codexPlusAPIKeyGroup :: "APIKey option \<Rightarrow> Group option" where
  "codexPlusAPIKeyGroup apiKey = (case apiKey of None \<Rightarrow> None | Some k \<Rightarrow> k_Group k)"

definition codexPlusAPIKeyGroupID :: "APIKey option \<Rightarrow> int" where
  "codexPlusAPIKeyGroupID apiKey =
     (case apiKey of
        Some k \<Rightarrow> (case k_GroupID k of Some gid \<Rightarrow> gid | None \<Rightarrow> codexPlusGroupID (codexPlusAPIKeyGroup apiKey))
      | None \<Rightarrow> codexPlusGroupID (codexPlusAPIKeyGroup apiKey))"

definition codexPlusSubscriptionGroup :: "UserSubscription option \<Rightarrow> Group option" where
  "codexPlusSubscriptionGroup subscription = (case subscription of None \<Rightarrow> None | Some s \<Rightarrow> s_Group s)"

definition isCodexPlusPlanEnabled :: "string \<Rightarrow> bool" where
  "isCodexPlusPlanEnabled status \<longleftrightarrow> go_ToLower (go_TrimSpace status) \<in> {[], ''active'', ''hidden'', ''internal''}"

definition isCodexPlusActiveStatus :: "string \<Rightarrow> bool" where
  "isCodexPlusActiveStatus status \<longleftrightarrow> go_ToLower (go_TrimSpace status) \<in> {[], ''active''}"

definition codexPlusPlanMatchesGatewayInput :: "CodexPlusPlan \<Rightarrow> CodexPlusGatewayPolicyInput \<Rightarrow> bool" where
  "codexPlusPlanMatchesGatewayInput plan input =
     (let sources = EntitlementSources plan
      in if (case in_Subscription input of Some s \<Rightarrow> containsCodexPlusInt64 (SubscriptionGroupIDs sources) (s_GroupID s)
             | None \<Rightarrow> False) then True
         else if containsCodexPlusInt64 (APIKeyGroupIDs sources) (codexPlusAPIKeyGroupID (in_APIKey input)) then True
         else if containsCodexPlusInt64 (APIKeyGroupIDs sources) (codexPlusGroupID (in_Group input)) then True
         else if (case in_Subscription input of
               Some s \<Rightarrow> containsCodexPlusInt64 (SubscriptionGroupIDs sources) (codexPlusGroupID (s_Group s))
             | None \<Rightarrow> False) then True
         else list_ex (containsCodexPlusStringFold (GroupNames sources))
           [codexPlusGroupName (in_Group input),
            codexPlusGroupName (codexPlusAPIKeyGroup (in_APIKey input)),
            codexPlusGroupName (codexPlusSubscriptionGroup (in_Subscription input))])"

definition codexPlusPlanForGatewayInput ::
    "CodexPlusConfig \<Rightarrow> CodexPlusGatewayPolicyInput \<Rightarrow> CodexPlusPlan option" where
  "codexPlusPlanForGatewayInput cfg input =
     find (\<lambda>plan. go_TrimSpace (PlanID plan) \<noteq> [] \<and> isCodexPlusPlanEnabled (pl_Status plan) \<and>
        codexPlusPlanMatchesGatewayInput plan input) (plans_of cfg)"

definition codexPlusUsageRuleForGatewayPlan :: "CodexPlusConfig \<Rightarrow> CodexPlusPlan \<Rightarrow> CodexPlusUsageRule option" where
  "codexPlusUsageRuleForGatewayPlan cfg plan =
     (let policyID = go_TrimSpace (UsagePolicyID plan)
      in if policyID \<noteq> [] then find (\<lambda>p. go_TrimSpace (PolicyID p) = policyID) (policies_of cfg)
         else case find (\<lambda>p. containsCodexPlusStringFold (at_PlanIDs (AppliesTo p)) (PlanID plan) \<or>
                list_ex (containsCodexPlusStringFold (at_ModelGroups (AppliesTo p))) (pl_ModelGroups plan)) (policies_of cfg) of
           Some p \<Rightarrow> Some p
         | None \<Rightarrow> (case policies_of cfg of p # _ \<Rightarrow> Some p | [] \<Rightarrow> None))"

definition findCodexPlusModel :: "CodexPlusConfig \<Rightarrow> string \<Rightarrow> CodexPlusModel option" where
  "findCodexPlusModel cfg requestedModel =
     (let requested = go_TrimSpace requestedModel
      in find (\<lambda>model. (requested = [] \<and> IsDefault model) \<or> requested = ModelID model \<or> requested = RouteModel model)
           (models_of cfg))"

definition resolveCodexPlusGatewayPolicy ::
    "CodexPlusConfig \<Rightarrow> CodexPlusGatewayPolicyInput \<Rightarrow> codexPlusGatewayPolicyResolution" where
  "resolveCodexPlusGatewayPolicy cfg input =
     (let ent0 = in_Entitlement input;
          entitlement = (if go_TrimSpace (en_Status ent0) = [] then ent0\<lparr>en_Status := status_text Available\<rparr> else ent0)
      in if go_TrimSpace (en_Status entitlement) \<noteq> status_text Available
         then \<lparr>r_Entitlement = entitlement, r_Plan = None, UsageRule = None\<rparr>
         else case codexPlusPlanForGatewayInput cfg input of
           None \<Rightarrow> \<lparr>r_Entitlement = entitlement\<lparr>en_Status := status_text NotPurchased, en_PlanID := [], en_ModelGroups := []\<rparr>,
                    r_Plan = None, UsageRule = None\<rparr>
         | Some plan \<Rightarrow>
             \<lparr>r_Entitlement = entitlement\<lparr>en_PlanID := PlanID plan, en_ModelGroups := pl_ModelGroups plan\<rparr>,
              r_Plan = Some plan, UsageRule = codexPlusUsageRuleForGatewayPlan cfg plan\<rparr>)"

definition resolveCodexPlusGatewayEntitlement ::
    "CodexPlusConfig option \<Rightarrow> CodexPlusGatewayPolicyInput \<Rightarrow> CodexPlusGatewayEntitlementContext" where
  "resolveCodexPlusGatewayEntitlement cfg input =
     (let ent0 = in_Entitlement input;
          entitlement = (if go_TrimSpace (en_Status ent0) = [] then ent0\<lparr>en_Status := status_text Available\<rparr> else ent0)
      in if go_TrimSpace (en_Status entitlement) \<noteq> status_text Available then entitlement
         else if go_TrimSpace (en_PlanID entitlement) \<noteq> [] \<or> en_ModelGroups entitlement \<noteq> [] then entitlement
         else case cfg of
           None \<Rightarrow> entitlement
         | Some c \<Rightarrow> (case codexPlusPlanForGatewayInput c input of
               Some plan \<Rightarrow> entitlement\<lparr>en_PlanID := PlanID plan\<rparr>
             | None \<Rightarrow> entitlement\<lparr>en_Status := status_text NotPurchased\<rparr>))"

text \<open>The trimmed groups that are not empty, as the code collects them in a map.\<close>

definition group_set :: "string list \<Rightarrow> string list" where
  "group_set groups = filter (\<lambda>g. g \<noteq> []) (map go_TrimSpace groups)"

definition modelAllowedByEntitlement ::
    "CodexPlusConfig \<Rightarrow> CodexPlusModel \<Rightarrow> CodexPlusGatewayEntitlementContext \<Rightarrow> bool" where
  "modelAllowedByEntitlement cfg model entitlement =
     (let planID = go_TrimSpace (en_PlanID entitlement);
          groups = group_set (en_ModelGroups entitlement) @
            (if planID \<noteq> []
             then concat (map (\<lambda>plan. group_set (pl_ModelGroups plan))
               (filter (\<lambda>plan. PlanID plan = planID \<and> isCodexPlusPlanEnabled (pl_Status plan)) (plans_of cfg)))
             else [])
      in if groups = [] then False else ModelGroup model \<in> set groups)"

section \<open>The payload of an event\<close>

definition nullableString :: "string \<Rightarrow> any_val" where
  "nullableString value = (if go_TrimSpace value = [] then VNil else VString (go_TrimSpace value))"

definition stringPtrIfNotBlank :: "string \<Rightarrow> string option" where
  "stringPtrIfNotBlank value = (if go_TrimSpace value = [] then None else Some (go_TrimSpace value))"

definition int64PtrIfPositive :: "int \<Rightarrow> int option" where
  "int64PtrIfPositive value = (if value \<le> 0 then None else Some value)"

definition providerKeyIDString :: "CodexPlusManagedProviderKey option \<Rightarrow> any_val" where
  "providerKeyIDString key =
     (case key of None \<Rightarrow> VNil | Some k \<Rightarrow> if mk_ID k \<le> 0 then VNil else VString (go_FormatInt (mk_ID k)))"

definition apiKeyIDString :: "APIKey option \<Rightarrow> any_val" where
  "apiKeyIDString key = (case key of None \<Rightarrow> VNil | Some k \<Rightarrow> if k_ID k \<le> 0 then VNil else VString (go_FormatInt (k_ID k)))"

definition managedProviderID :: "CodexPlusManagedProviderKey option \<Rightarrow> string" where
  "managedProviderID key =
     (case key of
        None \<Rightarrow> CodexPlusManagedProviderID
      | Some k \<Rightarrow> if go_TrimSpace (mk_ManagedProviderID k) = [] then CodexPlusManagedProviderID
                  else go_TrimSpace (mk_ManagedProviderID k))"

text \<open>The last part of \<open>redactedGatewayAPIKeySummary\<close>, for the trimmed key.\<close>

definition key_summary :: "string \<Rightarrow> string" where
  "key_summary key =
     (if key = [] then []
      else if length key \<le> 8 then ''[redacted]''
      else take 8 key @ ''...'' @ drop (length key - 4) key)"

definition redactedGatewayAPIKeySummary :: "APIKey option \<Rightarrow> CodexPlusManagedProviderKey option \<Rightarrow> string" where
  "redactedGatewayAPIKeySummary apiKey managedKey =
     (case Option.bind managedKey mk_KeyPrefix of
        Some p \<Rightarrow> if go_TrimSpace p \<noteq> [] then go_TrimSpace p @ ''...redacted''
          else (case apiKey of None \<Rightarrow> [] | Some k \<Rightarrow> key_summary (go_TrimSpace (k_Key k)))
      | None \<Rightarrow> (case apiKey of None \<Rightarrow> [] | Some k \<Rightarrow> key_summary (go_TrimSpace (k_Key k))))"

definition codexPlusGatewayPolicyEventID :: "string \<Rightarrow> int \<Rightarrow> string" where
  "codexPlusGatewayPolicyEventID requestID createdAt =
     (if go_TrimSpace requestID \<noteq> [] then ''gateway-'' @ go_TrimSpace requestID
      else ''gateway-'' @ go_FormatInt createdAt)"

definition codexPlusGatewayUsageEventID :: "string \<Rightarrow> any_val \<Rightarrow> string" where
  "codexPlusGatewayUsageEventID requestID fallback =
     (if go_TrimSpace requestID \<noteq> [] then ''usage-'' @ go_TrimSpace requestID
      else case fallback of
        VString value \<Rightarrow>
          if go_TrimSpace value \<noteq> []
          then ''usage-'' @ (let t = go_TrimSpace value in if go_HasPrefix t ''gateway-'' then drop 8 t else t)
          else []
      | _ \<Rightarrow> [])"

definition codexPlusGatewayBalanceState :: "gateway_error \<Rightarrow> string" where
  "codexPlusGatewayBalanceState errorCode = (if errorCode = ErrorBalanceInsufficient then ''insufficient'' else ''unknown'')"

definition codexPlusGatewayRateLimitKind :: "gateway_error \<Rightarrow> string" where
  "codexPlusGatewayRateLimitKind errorCode =
     (case errorCode of
        ErrorRateLimited \<Rightarrow> ''rpm''
      | ErrorTPMLimited \<Rightarrow> ''tpm''
      | ErrorConcurrencyLimited \<Rightarrow> ''concurrency''
      | ErrorQuotaExceeded \<Rightarrow> ''daily_quota''
      | _ \<Rightarrow> ''unknown'')"

definition codexPlusGatewayLimitScope :: "gateway_error \<Rightarrow> string" where
  "codexPlusGatewayLimitScope errorCode =
     (case errorCode of
        ErrorModelNotAllowed \<Rightarrow> ''model''
      | ErrorDeviceRevoked \<Rightarrow> ''device''
      | ErrorDeviceBlocked \<Rightarrow> ''device''
      | _ \<Rightarrow> ''user'')"

definition userIDFromGatewayPolicyInput :: "CodexPlusGatewayPolicyInput \<Rightarrow> int" where
  "userIDFromGatewayPolicyInput input =
     (case in_User input of
        Some u \<Rightarrow> u_ID u
      | None \<Rightarrow> (case in_APIKey input of Some k \<Rightarrow> k_UserID k | None \<Rightarrow> 0))"

definition isForbiddenCodexPlusGatewayEventField :: "string \<Rightarrow> bool" where
  "isForbiddenCodexPlusGatewayEventField key \<longleftrightarrow>
     contains_any key [''authorization'', ''api_key'', ''apikey'', ''jwt'', ''token'', ''credential'', ''secret'',
       ''prompt'', ''response_body'']"

definition redactCodexPlusSecretLikeString :: "string \<Rightarrow> string" where
  "redactCodexPlusSecretLikeString value =
     (let trimmed = go_TrimSpace value
      in if trimmed = [] then []
         else if go_HasPrefix trimmed ''sk-'' \<or> 2 \<le> count_byte (CHR ''.'') trimmed \<or>
                 go_HasPrefix (go_ToLower trimmed) ''bearer ''
         then ''[redacted]'' else trimmed)"

text \<open>The name of the type of a value, for the values the switch does not list (\<open>fmt.Sprintf("%T")\<close>).\<close>

definition redact_event_value :: "any_val \<Rightarrow> any_val" where
  "redact_event_value v =
     (case v of
        VString s \<Rightarrow> VString (redactCodexPlusSecretLikeString s)
      | VStringer s \<Rightarrow> VString (redactCodexPlusSecretLikeString s)
      | VScalar s \<Rightarrow> VScalar s
      | VNil \<Rightarrow> VNil
      | VStrings _ \<Rightarrow> VString ''[]string''
      | VList _ \<Rightarrow> VString ''[]interface {}''
      | VMap _ \<Rightarrow> VString ''map[string]interface {}''
      | VStringMap _ \<Rightarrow> VString ''map[string]string''
      | VOther ty _ \<Rightarrow> VString ty)"

definition RedactCodexPlusGatewayEventMetadata :: "payload \<Rightarrow> payload" where
  "RedactCodexPlusGatewayEventMetadata metadata =
     map (map_prod id redact_event_value)
       (filter (\<lambda>(k, v). let key = go_ToLower (go_TrimSpace k)
                         in \<not> (key = [] \<or> isForbiddenCodexPlusGatewayEventField key)) metadata)"

definition BuildCodexPlusGatewayPolicyRejectionPayload ::
    "CodexPlusGatewayPolicyInput \<Rightarrow> CodexPlusManagedProviderKey option \<Rightarrow> CodexPlusModel option \<Rightarrow> string \<Rightarrow>
     gateway_error \<Rightarrow> service_status \<Rightarrow> string \<Rightarrow> int \<Rightarrow> payload" where
  "BuildCodexPlusGatewayPolicyRejectionPayload input managedKey model configVersion errorCode serviceStatus reason createdAt =
     (let requested = go_TrimSpace (in_RequestedModel input);
          modelID = (case model of Some m \<Rightarrow> if ModelID m \<noteq> [] then ModelID m else requested | None \<Rightarrow> requested);
          routeModel = (case model of Some m \<Rightarrow> RouteModel m | None \<Rightarrow> []);
          modelGroup = (case model of Some m \<Rightarrow> ModelGroup m | None \<Rightarrow> []);
          metadata =
            [(''endpoint'', VString (go_TrimSpace (in_Endpoint input))),
             (''requested_model'', VString (go_TrimSpace (in_RequestedModel input))),
             (''route_model'', VString routeModel),
             (''model_group'', VString modelGroup),
             (''managed_provider_id'', VString (managedProviderID managedKey)),
             (''api_key_id'', apiKeyIDString (in_APIKey input)),
             (''redacted_key_summary'', VString (redactedGatewayAPIKeySummary (in_APIKey input) managedKey)),
             (''reason'', VString reason),
             (''service_status'', VString (status_text serviceStatus))]
      in [(''event_id'', VString (codexPlusGatewayPolicyEventID (in_RequestID input) createdAt)),
          (''event_type'', VString CodexPlusGatewayPolicyEventRejected),
          (''user_id'', VString (go_FormatInt (userIDFromGatewayPolicyInput input))),
          (''device_id'', nullableString (in_DeviceID input)),
          (''request_id'', nullableString (in_RequestID input)),
          (''config_version'', nullableString configVersion),
          (''snapshot_version'', VNil),
          (''model_id'', nullableString modelID),
          (''error_code'', nullableString (error_text errorCode)),
          (''provider_key_id'', providerKeyIDString managedKey),
          (''usage_event_id'', VNil),
          (''risk_tags'', VStrings [''gateway_policy_rejected'']),
          (''created_at'', VString (go_RFC3339 createdAt)),
          (''redaction_applied'', VBool True),
          (''metadata'', VMap (fold (\<lambda>(k, v) m. AList.update k v m)
             (RedactCodexPlusGatewayEventMetadata (in_Metadata input)) metadata))])"

definition BuildCodexPlusGatewayPolicyUsagePayload ::
    "CodexPlusGatewayPolicyInput \<Rightarrow> CodexPlusManagedProviderKey option \<Rightarrow> CodexPlusModel option \<Rightarrow> string \<Rightarrow>
     codexPlusGatewayPolicyResolution \<Rightarrow> int \<Rightarrow> payload" where
  "BuildCodexPlusGatewayPolicyUsagePayload input managedKey model configVersion resolved createdAt =
     (let requested = go_TrimSpace (in_RequestedModel input);
          modelID = (case model of Some m \<Rightarrow> if go_TrimSpace (ModelID m) \<noteq> [] then ModelID m else requested | None \<Rightarrow> requested);
          routeModel = (case model of Some m \<Rightarrow> RouteModel m | None \<Rightarrow> []);
          modelGroup = (case model of Some m \<Rightarrow> ModelGroup m | None \<Rightarrow> []);
          policyID = (case UsageRule resolved of Some rule \<Rightarrow> PolicyID rule | None \<Rightarrow> [])
      in [(''event_id'', VString (codexPlusGatewayUsageEventID (in_RequestID input) VNil)),
          (''event_type'', VString CodexPlusGatewayPolicyEventUsage),
          (''user_id'', VString (go_FormatInt (userIDFromGatewayPolicyInput input))),
          (''device_id'', nullableString (in_DeviceID input)),
          (''request_id'', nullableString (in_RequestID input)),
          (''config_version'', nullableString configVersion),
          (''snapshot_version'', VNil),
          (''model_id'', nullableString modelID),
          (''error_code'', VNil),
          (''service_status'', VString (status_text Available)),
          (''http_status'', VInt 200),
          (''retryable'', VBool False),
          (''provider_key_id'', providerKeyIDString managedKey),
          (''usage_event_id'', VString (codexPlusGatewayUsageEventID (in_RequestID input) VNil)),
          (''risk_tags'', VStrings [''usage_reconciliation'']),
          (''created_at'', VString (go_RFC3339 createdAt)),
          (''redaction_applied'', VBool True),
          (''metadata'', VMap
            [(''route_model'', nullableString routeModel),
             (''model_group'', nullableString modelGroup),
             (''plan_id'', nullableString (en_PlanID (r_Entitlement resolved))),
             (''policy_decision_id'', nullableString (codexPlusGatewayPolicyEventID (in_RequestID input) createdAt)),
             (''provider_route_id'', nullableString (in_Endpoint input)),
             (''platform'', nullableString (in_Platform input)),
             (''entitlement_state'', VString ''active''),
             (''balance_state'', VString ''ok''),
             (''rate_limit_kind'', VString ''unknown''),
             (''limit_scope'', VString ''user''),
             (''sampled'', VBool False),
             (''usage_policy_id'', nullableString policyID),
             (''estimated_tokens'', VInt (in_EstimatedTokens input)),
             (''settlement_stage'', VString ''preflight_authorized''),
             (''requires_settlement'', VBool True),
             (''managed_provider_id'', VString (managedProviderID managedKey)),
             (''redacted_key_summary'', VString (redactedGatewayAPIKeySummary (in_APIKey input) managedKey))])])"

section \<open>Decisions\<close>

text \<open>
  The empty decision. The fields of the rejection payload that \<open>reject\<close> adds are set before the
  payload is normalised; the map under \<open>metadata\<close> is the one in the payload.
\<close>

definition no_decision :: CodexPlusGatewayPolicyDecision where
  "no_decision = \<lparr>Allowed = False, Skipped = False, HTTPStatus = 0, d_ErrorCode = None, ServiceStatus = Available,
     d_Reason = [], Retryable = False, d_EventType = [], d_ConfigVersion = [], ManagedKey = None, d_Model = None,
     EventPayload = [], EventError = None, UsageEventPayload = [], UsageEventError = None\<rparr>"

definition rejection_payload ::
    "CodexPlusGatewayPolicyService \<Rightarrow> CodexPlusGatewayPolicyInput \<Rightarrow> CodexPlusManagedProviderKey option \<Rightarrow>
     CodexPlusModel option \<Rightarrow> string \<Rightarrow> int \<Rightarrow> gateway_error \<Rightarrow> service_status \<Rightarrow> string \<Rightarrow> bool \<Rightarrow> payload" where
  "rejection_payload s input managedKey model configVersion httpStatus errorCode serviceStatus reason retryable =
     (let p0 = BuildCodexPlusGatewayPolicyRejectionPayload input managedKey model configVersion errorCode serviceStatus
            reason (p_now s);
          event_id = (case map_of p0 ''event_id'' of Some v \<Rightarrow> v | None \<Rightarrow> VNil);
          p1 = AList.update ''http_status'' (VInt httpStatus) p0;
          p2 = AList.update ''retryable'' (VBool retryable) p1;
          p3 = AList.update ''service_status'' (nullableString (status_text serviceStatus)) p2;
          p4 = AList.update ''usage_event_id'' (VString (codexPlusGatewayUsageEventID (in_RequestID input) event_id)) p3;
          p5 = (case map_of p4 ''metadata'' of
              Some (VMap metadata) \<Rightarrow> AList.update ''metadata'' (VMap
                (AList.update ''limit_scope'' (VString (codexPlusGatewayLimitScope errorCode))
                 (AList.update ''rate_limit_kind'' (VString (codexPlusGatewayRateLimitKind errorCode))
                  (AList.update ''balance_state'' (VString (codexPlusGatewayBalanceState errorCode))
                   (AList.update ''policy_decision_id'' event_id metadata))))) p4
            | _ \<Rightarrow> p4)
      in NormalizeCodexPlusAuditRiskPayload (p_now s) CodexPlusGatewayPolicyEventRejected p5)"

definition reject ::
    "CodexPlusGatewayPolicyService \<Rightarrow> CodexPlusGatewayPolicyInput \<Rightarrow> CodexPlusManagedProviderKey option \<Rightarrow>
     CodexPlusModel option \<Rightarrow> string \<Rightarrow> int \<Rightarrow> gateway_error \<Rightarrow> service_status \<Rightarrow> string \<Rightarrow> bool \<Rightarrow> decided" where
  "reject s input managedKey model configVersion httpStatus errorCode serviceStatus reason retryable =
     (let payload = rejection_payload s input managedKey model configVersion httpStatus errorCode serviceStatus reason retryable;
          decision = no_decision\<lparr>Allowed := False, HTTPStatus := httpStatus, d_ErrorCode := Some errorCode,
            ServiceStatus := serviceStatus, d_Reason := reason, Retryable := retryable,
            d_EventType := CodexPlusGatewayPolicyEventRejected, d_ConfigVersion := configVersion,
            ManagedKey := managedKey, d_Model := model, EventPayload := payload\<rparr>;
          event = \<lparr>ec_UserID = int64PtrIfPositive (userIDFromGatewayPolicyInput input),
            ec_DeviceID = stringPtrIfNotBlank (in_DeviceID input), ec_EventType = CodexPlusGatewayPolicyEventRejected,
            ec_Severity = ''warning'', ec_RequestID = stringPtrIfNotBlank (in_RequestID input),
            ec_ConfigVersion = stringPtrIfNotBlank configVersion, ec_Payload = payload\<rparr>
      in case eventRecorder s of
           None \<Rightarrow> (decision, [])
         | Some recorder \<Rightarrow> (decision\<lparr>EventError := recorder event\<rparr>, [event]))"

definition allow ::
    "CodexPlusGatewayPolicyService \<Rightarrow> CodexPlusGatewayPolicyInput \<Rightarrow> CodexPlusManagedProviderKey option \<Rightarrow>
     CodexPlusModel option \<Rightarrow> string \<Rightarrow> codexPlusGatewayPolicyResolution \<Rightarrow> decided" where
  "allow s input managedKey model configVersion resolved =
     (let payload = BuildCodexPlusGatewayPolicyUsagePayload input managedKey model configVersion resolved (p_now s);
          decision = no_decision\<lparr>Allowed := True, HTTPStatus := 200, ServiceStatus := Available,
            d_Reason := ''Codex++ gateway policy passed'', d_EventType := CodexPlusGatewayPolicyEventUsage,
            d_ConfigVersion := configVersion, ManagedKey := managedKey, d_Model := model, UsageEventPayload := payload\<rparr>;
          event = \<lparr>ec_UserID = int64PtrIfPositive (userIDFromGatewayPolicyInput input),
            ec_DeviceID = stringPtrIfNotBlank (in_DeviceID input), ec_EventType = CodexPlusGatewayPolicyEventUsage,
            ec_Severity = ''info'', ec_RequestID = stringPtrIfNotBlank (in_RequestID input),
            ec_ConfigVersion = stringPtrIfNotBlank configVersion, ec_Payload = payload\<rparr>
      in case eventRecorder s of
           None \<Rightarrow> (decision, [])
         | Some recorder \<Rightarrow> (decision\<lparr>UsageEventError := recorder event\<rparr>, [event]))"

section \<open>The checks\<close>

definition lookupManagedKey ::
    "CodexPlusGatewayPolicyService \<Rightarrow> int \<Rightarrow> reader_error + CodexPlusManagedProviderKey" where
  "lookupManagedKey s apiKeyID =
     (case managedKeyReader s of
        None \<Rightarrow> Inl NotFound
      | Some getByAPIKeyID \<Rightarrow>
          (case getByAPIKeyID apiKeyID of
             Inl e \<Rightarrow> Inl e
           | Inr None \<Rightarrow> Inl NotFound
           | Inr (Some key) \<Rightarrow> Inr key))"

definition getConfig :: "CodexPlusGatewayPolicyService \<Rightarrow> string + CodexPlusConfig" where
  "getConfig s =
     (case configReader s of
        None \<Rightarrow> Inl ''codexplus gateway policy config reader is not initialized''
      | Some answer \<Rightarrow> answer)"

definition checkEntitlement ::
    "CodexPlusGatewayPolicyService \<Rightarrow> CodexPlusGatewayPolicyInput \<Rightarrow> CodexPlusManagedProviderKey \<Rightarrow> CodexPlusConfig \<Rightarrow> decided option" where
  "checkEntitlement s input managedKey cfg =
     (let status = go_TrimSpace (en_Status (in_Entitlement input));
          forbid = (\<lambda>http code st reason. Some (reject s input (Some managedKey) None (ConfigVersion cfg) http code st reason False))
      in if status = [] \<or> status = status_text Available then
           (case in_Subscription input of
              None \<Rightarrow> None
            | Some sub \<Rightarrow>
                if s_Status sub \<noteq> [] \<and> s_Status sub \<noteq> ''active''
                then forbid 403 ErrorEntitlementExpired Expired ''subscription is not active''
                else if (case s_ExpiresAt sub of None \<Rightarrow> False | Some t \<Rightarrow> \<not> p_now s < t)
                then forbid 403 ErrorEntitlementExpired Expired ''subscription is expired''
                else None)
         else if status = status_text NotPurchased
         then forbid 403 ErrorEntitlementNotBought NotPurchased ''Codex++ entitlement is missing''
         else if status = status_text Expired
         then forbid 403 ErrorEntitlementExpired Expired ''Codex++ entitlement is expired''
         else if status = status_text Disabled
         then forbid 403 ErrorEntitlementDisabled Disabled ''Codex++ entitlement is disabled''
         else if status = status_text LowBalance
         then forbid 402 ErrorBalanceInsufficient LowBalance ''Codex++ balance or quota is exhausted''
         else forbid 403 ErrorEntitlementDisabled Disabled ''Codex++ entitlement status is not allowed'')"

definition checkDevice ::
    "CodexPlusGatewayPolicyService \<Rightarrow> CodexPlusGatewayPolicyInput \<Rightarrow> User \<Rightarrow> CodexPlusManagedProviderKey \<Rightarrow> CodexPlusModel \<Rightarrow>
     string \<Rightarrow> decided option" where
  "checkDevice s input user managedKey model configVersion =
     (let deviceID = go_TrimSpace (in_DeviceID input);
          strict = in_StrictDeviceEnforcement input;
          forbid = (\<lambda>code reason. Some (reject s input (Some managedKey) (Some model) configVersion 403 code DeviceRevoked reason False));
          unhealthy = (\<lambda>reason. Some (reject s input (Some managedKey) (Some model) configVersion 503 ErrorConfigUnavailable
            GatewayUnhealthy reason True))
      in if deviceID = [] then
           (if strict then forbid ErrorDeviceRevoked ''Codex++ device context is required'' else None)
         else case deviceReader s of
           None \<Rightarrow> if strict then unhealthy ''Codex++ device policy reader is unavailable'' else None
         | Some getByUserAndDevice \<Rightarrow>
             (case getByUserAndDevice (u_ID user) deviceID of
                Inl NotFound \<Rightarrow> if strict then forbid ErrorDeviceRevoked ''Codex++ device is unknown'' else None
              | Inl (ReaderError _) \<Rightarrow> unhealthy ''Codex++ device policy lookup failed''
              | Inr None \<Rightarrow> if strict then forbid ErrorDeviceRevoked ''Codex++ device is unknown'' else None
              | Inr (Some device) \<Rightarrow>
                  (let status = go_ToLower (go_TrimSpace (dv_Status device))
                   in if status = [] \<or> status = ''active'' then None
                      else if status = ''blocked'' then forbid ErrorDeviceBlocked ''Codex++ device is blocked''
                      else if status = ''revoked'' then forbid ErrorDeviceRevoked ''Codex++ device is revoked''
                      else forbid ErrorDeviceRevoked ''Codex++ device status is not allowed'')))"

definition checkUsagePolicy ::
    "CodexPlusGatewayPolicyService \<Rightarrow> CodexPlusGatewayPolicyInput \<Rightarrow> CodexPlusManagedProviderKey \<Rightarrow> CodexPlusModel \<Rightarrow>
     string \<Rightarrow> codexPlusGatewayPolicyResolution \<Rightarrow> decided option" where
  "checkUsagePolicy s input managedKey model configVersion resolved =
     (let limited = (\<lambda>code reason. Some (reject s input (Some managedKey) (Some model) configVersion 429 code RateLimited reason True))
      in case UsageRule resolved of
           None \<Rightarrow> Some (reject s input (Some managedKey) (Some model) configVersion 503 ErrorConfigUnavailable GatewayUnhealthy
             ''Codex++ usage policy is unavailable'' True)
         | Some rule \<Rightarrow>
             if ConcurrencyLimit rule < 1 then limited ErrorConcurrencyLimited ''Codex++ concurrency limit is exhausted''
             else if RPMLimit rule < 1 then limited ErrorRateLimited ''Codex++ RPM limit is exhausted''
             else if TPMLimit rule < 1 then limited ErrorTPMLimited ''Codex++ TPM limit is exhausted''
             else if 0 < in_EstimatedTokens input \<and> TPMLimit rule < in_EstimatedTokens input
             then limited ErrorTPMLimited ''Codex++ estimated tokens exceed TPM limit''
             else None)"

definition rejectForBillingError ::
    "CodexPlusGatewayPolicyService \<Rightarrow> CodexPlusGatewayPolicyInput \<Rightarrow> CodexPlusManagedProviderKey \<Rightarrow> CodexPlusModel \<Rightarrow>
     string \<Rightarrow> billing_error \<Rightarrow> decided" where
  "rejectForBillingError s input managedKey model configVersion err =
     (let rej = reject s input (Some managedKey) (Some model) configVersion
      in if err = InsufficientBalance
         then rej 402 ErrorBalanceInsufficient LowBalance ''Codex++ balance is insufficient'' False
         else if err \<in> {SubscriptionInvalid, SubscriptionExpired, SubscriptionSuspended}
         then rej 403 ErrorEntitlementExpired Expired ''Codex++ subscription is not eligible'' False
         else if err \<in> {DailyLimitExceeded, WeeklyLimitExceeded, MonthlyLimitExceeded}
         then rej 429 ErrorQuotaExceeded RateLimited ''Codex++ usage quota is exhausted'' True
         else if err \<in> {UserPlatformDailyQuotaExhausted, UserPlatformWeeklyQuotaExhausted, UserPlatformMonthlyQuotaExhausted}
         then rej 429 ErrorQuotaExceeded RateLimited ''Codex++ platform usage quota is exhausted'' True
         else if err \<in> {APIKeyRateLimit5hExceeded, APIKeyRateLimit1dExceeded, APIKeyRateLimit7dExceeded, GroupRPMExceeded, UserRPMExceeded}
         then rej 429 ErrorRateLimited RateLimited ''Codex++ request rate or usage window is limited'' True
         else if err = BillingServiceUnavailable
         then rej 503 ErrorConfigUnavailable GatewayUnhealthy ''Codex++ billing eligibility is unavailable'' True
         else rej 503 ErrorConfigUnavailable GatewayUnhealthy ''Codex++ billing eligibility failed'' True)"

definition codexPlusStrictDeviceEnforcementEnabled :: "CodexPlusConfig \<Rightarrow> bool" where
  "codexPlusStrictDeviceEnforcementEnabled cfg = StrictDeviceEnforcement (Flags (FeatureFlags cfg))"

definition checkBilling ::
    "CodexPlusGatewayPolicyService \<Rightarrow> CodexPlusGatewayPolicyInput \<Rightarrow> APIKey \<Rightarrow> User \<Rightarrow> billing_error option" where
  "checkBilling s input apiKey user =
     (if in_CheckBilling input
      then case billingChecker s of
          Some check \<Rightarrow> check user apiKey (in_Group input) (in_Subscription input) (in_Platform input)
        | None \<Rightarrow> None
      else None)"

text \<open>\<open>Evaluate\<close> from the resolved policy on; \<open>input\<close> holds the resolved entitlement and strictness.\<close>

definition evaluate_resolved ::
    "CodexPlusGatewayPolicyService \<Rightarrow> CodexPlusGatewayPolicyInput \<Rightarrow> APIKey \<Rightarrow> User \<Rightarrow> CodexPlusManagedProviderKey \<Rightarrow>
     CodexPlusConfig \<Rightarrow> codexPlusGatewayPolicyResolution \<Rightarrow> decided" where
  "evaluate_resolved s input apiKey user managedKey cfg resolved =
     (let not_allowed = (\<lambda>model reason. reject s input (Some managedKey) model (ConfigVersion cfg) 403 ErrorModelNotAllowed
            ModelUnavailable reason False)
      in case checkEntitlement s input managedKey cfg of
           Some decision \<Rightarrow> decision
         | None \<Rightarrow>
         (case findCodexPlusModel cfg (in_RequestedModel input) of
            None \<Rightarrow> not_allowed None ''requested model is not in Codex++ model catalog''
          | Some model \<Rightarrow>
              if \<not> IsEnabled model then not_allowed (Some model) ''requested model is disabled''
              else if \<not> modelAllowedByEntitlement cfg model (in_Entitlement input)
              then not_allowed (Some model) ''requested model is outside the Codex++ entitlement''
              else case checkUsagePolicy s input managedKey model (ConfigVersion cfg) resolved of
                Some decision \<Rightarrow> decision
              | None \<Rightarrow>
                (case checkDevice s input user managedKey model (ConfigVersion cfg) of
                   Some decision \<Rightarrow> decision
                 | None \<Rightarrow>
                   (case checkBilling s input apiKey user of
                      Some err \<Rightarrow> rejectForBillingError s input managedKey model (ConfigVersion cfg) err
                    | None \<Rightarrow> allow s input (Some managedKey) (Some model) (ConfigVersion cfg) resolved))))"

text \<open>From the configuration on: strictness, the resolved policy and the entitlement go into the input.\<close>

definition evaluate_configured ::
    "CodexPlusGatewayPolicyService \<Rightarrow> CodexPlusGatewayPolicyInput \<Rightarrow> APIKey \<Rightarrow> User \<Rightarrow> CodexPlusManagedProviderKey \<Rightarrow>
     CodexPlusConfig \<Rightarrow> decided" where
  "evaluate_configured s input0 apiKey user managedKey cfg =
     (let input1 = input0\<lparr>in_StrictDeviceEnforcement :=
            in_StrictDeviceEnforcement input0 \<or> codexPlusStrictDeviceEnforcementEnabled cfg\<rparr>;
          resolved = resolveCodexPlusGatewayPolicy cfg input1;
          input2 = input1\<lparr>in_Entitlement := r_Entitlement resolved\<rparr>;
          input3 = (case UsageRule resolved of
              Some rule \<Rightarrow> if StrictEnforcementDefault (DevicePolicy rule)
                then input2\<lparr>in_StrictDeviceEnforcement := True\<rparr> else input2
            | None \<Rightarrow> input2)
      in evaluate_resolved s input3 apiKey user managedKey cfg resolved)"

text \<open>The decision, the error that is returned beside it, and the recorded events.\<close>

type_synonym evaluated = "CodexPlusGatewayPolicyDecision \<times> string option \<times> CodexPlusEventCreate list"

definition no_error :: "decided \<Rightarrow> evaluated" where
  "no_error d = (fst d, None, snd d)"

definition with_error :: "string \<Rightarrow> decided \<Rightarrow> evaluated" where
  "with_error e d = (fst d, Some e, snd d)"

definition Evaluate :: "CodexPlusGatewayPolicyService \<Rightarrow> CodexPlusGatewayPolicyInput \<Rightarrow> evaluated" where
  "Evaluate s input0 =
     (let unhealthy = (\<lambda>input key reason. reject s input key None [] 503 ErrorConfigUnavailable GatewayUnhealthy reason True)
      in case in_APIKey input0 of
           None \<Rightarrow> no_error (unhealthy input0 None ''authenticated API key context is missing'')
         | Some apiKey \<Rightarrow>
         (let input = (if in_User input0 = None then input0\<lparr>in_User := k_User apiKey\<rparr> else input0)
          in case in_User input of
               None \<Rightarrow> no_error (unhealthy input None ''authenticated user context is missing'')
             | Some user \<Rightarrow>
             (case lookupManagedKey s (k_ID apiKey) of
                Inl NotFound \<Rightarrow> no_error (no_decision\<lparr>Allowed := True, Skipped := True, ServiceStatus := Available,
                  d_Reason := ''api key is not managed by Codex++''\<rparr>, [])
              | Inl (ReaderError e) \<Rightarrow> with_error e (unhealthy input None ''managed provider key lookup failed'')
              | Inr managedKey \<Rightarrow>
                  if go_TrimSpace (mk_ManagedProviderID managedKey) \<noteq> CodexPlusManagedProviderID
                  then no_error (no_decision\<lparr>Allowed := True, Skipped := True, ServiceStatus := Available,
                    d_Reason := ''api key belongs to another managed provider'', ManagedKey := Some managedKey\<rparr>, [])
                  else if mk_APIKeyID managedKey \<noteq> k_ID apiKey \<or> mk_UserID managedKey \<noteq> u_ID user \<or>
                          mk_UserID managedKey \<noteq> k_UserID apiKey
                  then no_error (reject s input (Some managedKey) None [] 403 ErrorEntitlementDisabled Disabled
                    ''managed provider key ownership mismatch'' False)
                  else if \<not> isCodexPlusActiveStatus (mk_Status managedKey)
                  then no_error (reject s input (Some managedKey) None [] 403 ErrorEntitlementDisabled Disabled
                    ''managed provider key is not active'' False)
                  else case getConfig s of
                    Inl e \<Rightarrow> with_error e (unhealthy input (Some managedKey) ''Codex++ gateway policy config is unavailable'')
                  | Inr cfg \<Rightarrow>
                      no_error (evaluate_configured s input apiKey user managedKey cfg))))"

section \<open>The handler\<close>

text \<open>
  What a request shows to the handler: its method and path, the two request ids of its context and
  the headers by name. The handler refuses the request by writing a status, a code and a message.
\<close>

record request_context =
  rq_Method :: string
  rq_Path :: string
  rq_RequestID :: "string option"
  rq_ClientRequestID :: "string option"
  rq_Header :: "string \<Rightarrow> string"
  rq_Platform :: string

text \<open>The first non-empty trimmed value.\<close>

definition first_trimmed :: "string list \<Rightarrow> string" where
  "first_trimmed values = first_non_empty (map go_TrimSpace values) []"

definition codexPlusGatewayPolicyEndpoint :: "request_context \<Rightarrow> string \<Rightarrow> string" where
  "codexPlusGatewayPolicyEndpoint c fallback = (if go_TrimSpace fallback \<noteq> [] then go_TrimSpace fallback else rq_Path c)"

definition codexPlusGatewayPolicyRequestID :: "request_context \<Rightarrow> string" where
  "codexPlusGatewayPolicyRequestID c =
     first_trimmed [case_option [] id (rq_RequestID c), case_option [] id (rq_ClientRequestID c),
       rq_Header c ''X-Request-ID'', rq_Header c ''X-Request-Id'', rq_Header c ''X-Client-Request-ID'']"

definition codexPlusGatewayPolicyDeviceID :: "request_context \<Rightarrow> string" where
  "codexPlusGatewayPolicyDeviceID c =
     first_trimmed [rq_Header c ''X-CodexPlus-Device-Id'', rq_Header c ''X-CodexPlus-Device-ID'', rq_Header c ''X-Codex-Device-ID'']"

definition codexPlusGatewayPolicyError :: "CodexPlusGatewayPolicyDecision \<Rightarrow> int \<times> string \<times> string" where
  "codexPlusGatewayPolicyError decision =
     (let code = (case d_ErrorCode decision of Some e \<Rightarrow> error_text e | None \<Rightarrow> [])
      in (if 0 < HTTPStatus decision then HTTPStatus decision else 503,
          if go_TrimSpace code \<noteq> [] then go_TrimSpace code else error_text ErrorConfigUnavailable,
          if go_TrimSpace (d_Reason decision) \<noteq> [] then go_TrimSpace (d_Reason decision)
          else ''Codex++ gateway policy is temporarily unavailable.''))"

definition handler_input ::
    "request_context \<Rightarrow> APIKey option \<Rightarrow> UserSubscription option \<Rightarrow> string \<Rightarrow> string \<Rightarrow> CodexPlusGatewayPolicyInput" where
  "handler_input c apiKey subscription requestedModel endpoint =
     \<lparr>in_APIKey = apiKey, in_User = Option.bind apiKey k_User, in_Group = Option.bind apiKey k_Group,
      in_Subscription = subscription, in_RequestedModel = go_TrimSpace requestedModel,
      in_Endpoint = codexPlusGatewayPolicyEndpoint c endpoint, in_RequestID = codexPlusGatewayPolicyRequestID c,
      in_DeviceID = codexPlusGatewayPolicyDeviceID c, in_Platform = rq_Platform c, in_EstimatedTokens = 0,
      in_Entitlement = \<lparr>en_Status = status_text Available, en_PlanID = [], en_ModelGroups = []\<rparr>,
      in_StrictDeviceEnforcement = False, in_CheckBilling = True,
      in_Metadata = [(''method'', VString (rq_Method c)), (''path'', VString (rq_Path c))]\<rparr>"

text \<open>The result is \<open>None\<close> when the request goes on; otherwise what is written.\<close>

definition enforceCodexPlusGatewayPolicy ::
    "CodexPlusGatewayPolicyService option \<Rightarrow> request_context \<Rightarrow> APIKey option \<Rightarrow> UserSubscription option \<Rightarrow> string \<Rightarrow> string \<Rightarrow>
     (int \<times> string \<times> string) option \<times> CodexPlusEventCreate list" where
  "enforceCodexPlusGatewayPolicy service c apiKey subscription requestedModel endpoint =
     (case service of
        None \<Rightarrow> (None, [])
      | Some s \<Rightarrow>
          (let (decision, err, events) = Evaluate s (handler_input c apiKey subscription requestedModel endpoint)
           in (if Allowed decision \<or> Skipped decision then None else Some (codexPlusGatewayPolicyError decision), events)))"

end
