(* ===== verification/Codex_Policy_Safety.thy ===== *)
theory Codex_Policy_Safety
  imports Codex_Policy
begin

text \<open>
  What the gateway policy guarantees: the form of a decision, the conditions under which a request is
  allowed, the events it leaves, and what the checks of the configuration add.
\<close>

lemma status_text_trim [simp]: "go_TrimSpace (status_text st) = status_text st"
  by (rule go_TrimSpace_token) (cases st; simp add: token_byte_def byte_def)

lemma status_text_inj [simp]: "status_text a = status_text b \<longleftrightarrow> a = b" "status_text a \<noteq> []"
  by (cases a; cases b; simp) (cases a; simp)

declare status_text.simps [simp del] error_text.simps [simp del]

section \<open>What a refusal writes down\<close>

definition untyped :: "payload \<Rightarrow> bool" where
  "untyped p \<longleftrightarrow> set p \<subseteq> {x. type_names (snd x) = {}}"

lemma untyped_VMap: "type_names (VMap m) = {} \<longleftrightarrow> untyped m"
  by (auto simp: untyped_def)

lemma untyped_update: "type_names v = {} \<Longrightarrow> untyped p \<Longrightarrow> untyped (AList.update k v p)"
  unfolding untyped_def by (rule subset_trans [OF set_AList_update]) simp

lemma untyped_default: "type_names v = {} \<Longrightarrow> untyped p \<Longrightarrow> untyped (put_default k v p)"
  by (simp add: put_default_def untyped_update)

lemma untyped_map_of: "untyped p \<Longrightarrow> map_of p k = Some v \<Longrightarrow> type_names v = {}"
  using map_of_SomeD by (fastforce simp: untyped_def)

lemma map_of_map_keyed: "map_of (map (\<lambda>(k, v). (k, f k v)) p) k = map_option (f k) (map_of p k)"
  by (induction p) auto

text \<open>A payload all of whose values but the risk tags are clean.\<close>

definition redacted_payload :: "payload \<Rightarrow> bool" where
  "redacted_payload p \<longleftrightarrow> ran ((map_of p)(''risk_tags'' := None)) \<subseteq> Collect (clean_value {})"

lemma Normalize_clean:
  assumes "untyped p"
  shows "redacted_payload (NormalizeCodexPlusAuditRiskPayload now e p)"
proof -
  have metadata: "clean_value {} (VMap (case x of Some (VMap m) \<Rightarrow> RedactCodexPlusAuditRiskMetadata m | _ \<Rightarrow> []))"
    if "\<And>v. x = Some v \<Longrightarrow> type_names v = {}" for x
  proof -
    have "clean_value {} (VMap (RedactCodexPlusAuditRiskMetadata m))" if "type_names (VMap m) = {}" for m
      using redact_value_clean [of "VMap m" "{}" "[]"] that by (simp add: RedactCodexPlusAuditRiskMetadata_def)
    with that show ?thesis by (auto split: option.split any_val.split)
  qed
  have body: "ran ((map_of (map (\<lambda>(key, value). (key, if key = ''metadata'' \<or> key = ''risk_tags'' then value
      else redactCodexPlusAuditRiskValue value key))
        (AList.update ''metadata'' (VMap (case map_of q ''metadata'' of
           Some (VMap m) \<Rightarrow> RedactCodexPlusAuditRiskMetadata m | _ \<Rightarrow> [])) q)))(''risk_tags'' := None)) \<subseteq> Collect (clean_value {})"
    if "untyped q" for q
    using metadata [of "map_of q ''metadata''"] untyped_map_of [OF that] redact_value_clean
    by (auto simp: ran_def map_of_map_keyed update_conv' split: if_splits)
  show ?thesis
    unfolding NormalizeCodexPlusAuditRiskPayload_def Let_def redacted_payload_def
    by (rule body) (intro untyped_update untyped_default assms; simp)
qed

lemma untyped_event_metadata: "untyped (RedactCodexPlusGatewayEventMetadata m)"
  by (auto simp: untyped_def RedactCodexPlusGatewayEventMetadata_def redact_event_value_def split: any_val.splits)

lemma untyped_fold_update: "untyped m \<Longrightarrow> untyped p \<Longrightarrow> untyped (fold (\<lambda>(k, v) m. AList.update k v m) m p)"
proof (induction m arbitrary: p)
  case (Cons x m)
  then have "type_names (snd x) = {}" "untyped m" by (simp_all add: untyped_def)
  with Cons show ?case by (simp add: untyped_update split_beta)
qed simp

lemma untyped_values [simp]:
  "type_names (nullableString t) = {}" "type_names (apiKeyIDString k) = {}" "type_names (providerKeyIDString mk) = {}"
  by (simp_all add: nullableString_def apiKeyIDString_def providerKeyIDString_def split: option.split)

lemma untyped_rejection:
  "untyped (BuildCodexPlusGatewayPolicyRejectionPayload input key model v code st reason now)"
proof -
  have "untyped (fold (\<lambda>(k, v) m. AList.update k v m) (RedactCodexPlusGatewayEventMetadata (in_Metadata input))
      [(''endpoint'', VString a), (''requested_model'', VString b), (''route_model'', VString c), (''model_group'', VString d),
       (''managed_provider_id'', VString e), (''api_key_id'', apiKeyIDString f), (''redacted_key_summary'', VString g),
       (''reason'', VString h), (''service_status'', VString i)])" for a b c d e f g h i
    by (rule untyped_fold_update) (simp_all add: untyped_event_metadata, simp add: untyped_def)
  then show ?thesis
    unfolding BuildCodexPlusGatewayPolicyRejectionPayload_def Let_def by (simp add: untyped_def [of "_ # _"] untyped_VMap [simplified])
qed

lemma rejection_redacted: "redacted_payload (rejection_payload s input key model v http code st reason retry)"
proof -
  let ?p = "BuildCodexPlusGatewayPolicyRejectionPayload input key model v code st reason (p_now s)"
  have id: "type_names (case map_of ?p ''event_id'' of Some v \<Rightarrow> v | None \<Rightarrow> VNil) = {}"
    using untyped_map_of [OF untyped_rejection] by (auto split: option.split)
  have metadata: "untyped (case map_of q ''metadata'' of
      Some (VMap m) \<Rightarrow> AList.update ''metadata'' (VMap (AList.update ''limit_scope'' (VString a)
        (AList.update ''rate_limit_kind'' (VString b) (AList.update ''balance_state'' (VString c)
          (AList.update ''policy_decision_id'' w m))))) q
    | _ \<Rightarrow> q)" if q: "untyped q" and w: "type_names w = {}" for q w a b c
  proof (cases "map_of q ''metadata''")
    case None
    then show ?thesis using q by simp
  next
    case (Some x)
    with untyped_map_of [OF q] have x: "type_names x = {}" by blast
    show ?thesis
    proof (cases x)
      case (VMap m)
      have "untyped m" using x VMap untyped_VMap [of m] by simp
      then have "type_names (VMap (AList.update ''limit_scope'' (VString a)
        (AList.update ''rate_limit_kind'' (VString b) (AList.update ''balance_state'' (VString c)
          (AList.update ''policy_decision_id'' w m))))) = {}"
        unfolding untyped_VMap by (intro untyped_update w) simp_all
      with Some VMap q show ?thesis by (simp add: untyped_update)
    qed (use Some q in simp_all)
  qed
  show ?thesis
    unfolding rejection_payload_def Let_def
    by (intro Normalize_clean metadata untyped_update untyped_rejection id) simp_all
qed

section \<open>The form of a decision\<close>

text \<open>The status, the state of the service and whether a retry may help belong to the code of the error.\<close>

primrec code_table :: "gateway_error \<Rightarrow> int \<times> service_status \<times> bool" where
  "code_table ErrorModelNotAllowed = (403, ModelUnavailable, False)"
| "code_table ErrorBalanceInsufficient = (402, LowBalance, False)"
| "code_table ErrorEntitlementExpired = (403, Expired, False)"
| "code_table ErrorDeviceRevoked = (403, DeviceRevoked, False)"
| "code_table ErrorRateLimited = (429, RateLimited, True)"
| "code_table ErrorConfigUnavailable = (503, GatewayUnhealthy, True)"
| "code_table ErrorEntitlementDisabled = (403, Disabled, False)"
| "code_table ErrorEntitlementNotBought = (403, NotPurchased, False)"
| "code_table ErrorDeviceBlocked = (403, DeviceRevoked, False)"
| "code_table ErrorQuotaExceeded = (429, RateLimited, True)"
| "code_table ErrorConcurrencyLimited = (429, RateLimited, True)"
| "code_table ErrorTPMLimited = (429, RateLimited, True)"

definition refusal :: "CodexPlusGatewayPolicyDecision \<Rightarrow> bool" where
  "refusal d \<longleftrightarrow> \<not> Allowed d \<and> \<not> Skipped d \<and> d_Reason d \<noteq> [] \<and> d_EventType d = CodexPlusGatewayPolicyEventRejected \<and>
     (\<exists>e. d_ErrorCode d = Some e \<and> code_table e = (HTTPStatus d, ServiceStatus d, Retryable d))"

definition admission :: "CodexPlusGatewayPolicyDecision \<Rightarrow> bool" where
  "admission d \<longleftrightarrow> Allowed d \<and> d_ErrorCode d = None \<and> ServiceStatus d = Available \<and> \<not> Retryable d \<and>
     (if Skipped d then HTTPStatus d = 0 \<and> d_EventType d = [] \<and> d_Model d = None
      else HTTPStatus d = 200 \<and> d_EventType d = CodexPlusGatewayPolicyEventUsage \<and> (\<exists>m. d_Model d = Some m \<and> IsEnabled m))"

text \<open>The events of a decision: none when it is skipped, otherwise one with its type and payload.\<close>

definition recorded :: "CodexPlusGatewayPolicyService \<Rightarrow> CodexPlusGatewayPolicyDecision \<Rightarrow> CodexPlusEventCreate list \<Rightarrow> bool" where
  "recorded s d events \<longleftrightarrow>
     (if Skipped d \<or> eventRecorder s = None then events = []
      else \<exists>ev. events = [ev] \<and> ec_EventType ev = d_EventType d \<and>
        ec_Payload ev = (if Allowed d then UsageEventPayload d else EventPayload d) \<and>
        ec_Severity ev = (if Allowed d then ''info'' else ''warning''))"

definition well_decided :: "CodexPlusGatewayPolicyService \<Rightarrow> decided \<Rightarrow> bool" where
  "well_decided s d \<longleftrightarrow> (refusal (fst d) \<or> admission (fst d)) \<and> recorded s (fst d) (snd d) \<and>
     redacted_payload (EventPayload (fst d))"

lemma reject_fields [simp]:
  "Allowed (fst (reject s input key model v http code st reason retry)) = False"
  "Skipped (fst (reject s input key model v http code st reason retry)) = False"
  "HTTPStatus (fst (reject s input key model v http code st reason retry)) = http"
  "d_ErrorCode (fst (reject s input key model v http code st reason retry)) = Some code"
  "ServiceStatus (fst (reject s input key model v http code st reason retry)) = st"
  "d_Reason (fst (reject s input key model v http code st reason retry)) = reason"
  "Retryable (fst (reject s input key model v http code st reason retry)) = retry"
  "d_EventType (fst (reject s input key model v http code st reason retry)) = CodexPlusGatewayPolicyEventRejected"
  "EventPayload (fst (reject s input key model v http code st reason retry)) =
     rejection_payload s input key model v http code st reason retry"
  by (simp_all add: reject_def Let_def no_decision_def split: option.splits)

lemma reject_recorded: "recorded s (fst (reject s input key model v http code st reason retry))
    (snd (reject s input key model v http code st reason retry))"
  by (cases "eventRecorder s") (simp_all add: recorded_def reject_def Let_def no_decision_def)

lemma reject_well:
  assumes "code_table code = (http, st, retry)" and "reason \<noteq> []"
  shows "well_decided s (reject s input key model v http code st reason retry)"
  using assms by (simp add: well_decided_def refusal_def reject_recorded rejection_redacted)

lemma allow_fields [simp]:
  "Allowed (fst (allow s input key model v resolved))"
  "\<not> Skipped (fst (allow s input key model v resolved))"
  "d_Model (fst (allow s input key model v resolved)) = model"
  by (simp_all add: allow_def Let_def no_decision_def split: option.splits)

lemma allow_well:
  assumes "IsEnabled model"
  shows "well_decided s (allow s input key (Some model) v resolved)"
  using assms
  by (cases "eventRecorder s")
    (simp_all add: well_decided_def redacted_payload_def refusal_def admission_def recorded_def allow_def Let_def no_decision_def)

lemma skip_well:
  "well_decided s (no_decision\<lparr>Allowed := True, Skipped := True, ServiceStatus := Available, d_Reason := r\<rparr>, [])"
  "well_decided s (no_decision\<lparr>Allowed := True, Skipped := True, ServiceStatus := Available, d_Reason := r,
     ManagedKey := key\<rparr>, [])"
  by (simp_all add: well_decided_def redacted_payload_def admission_def refusal_def recorded_def no_decision_def)

lemma checkEntitlement_well: "checkEntitlement s input key cfg = Some d \<Longrightarrow> well_decided s d"
  by (auto simp: checkEntitlement_def Let_def reject_well split: if_splits option.splits)

lemma checkUsagePolicy_well: "checkUsagePolicy s input key model v resolved = Some d \<Longrightarrow> well_decided s d"
  by (auto simp: checkUsagePolicy_def Let_def reject_well split: if_splits option.splits)

lemma checkDevice_well: "checkDevice s input user key model v = Some d \<Longrightarrow> well_decided s d"
  by (auto simp: checkDevice_def Let_def reject_well split: if_splits option.splits sum.splits reader_error.splits)

lemmas checks_well = checkEntitlement_well checkUsagePolicy_well checkDevice_well

lemma billing_well: "well_decided s (rejectForBillingError s input key model v err)"
  by (cases err) (simp_all add: rejectForBillingError_def Let_def reject_well)

lemma evaluate_resolved_well: "well_decided s (evaluate_resolved s input apiKey user key cfg resolved)"
  unfolding evaluate_resolved_def Let_def
  by (auto intro: checks_well billing_well reject_well allow_well split: option.split)

lemma Evaluate_well: "well_decided s (fst (Evaluate s input), snd (snd (Evaluate s input)))"
  unfolding Evaluate_def Let_def no_error_def with_error_def
  by (auto intro: reject_well skip_well evaluate_resolved_well simp: evaluate_configured_def Let_def
      split: option.split sum.split reader_error.split)

section \<open>When a request is allowed\<close>

lemma checkUsagePolicy_None:
  "checkUsagePolicy s input key model v resolved = None \<longleftrightarrow>
     (\<exists>rule. UsageRule resolved = Some rule \<and> 1 \<le> ConcurrencyLimit rule \<and> 1 \<le> RPMLimit rule \<and> 1 \<le> TPMLimit rule \<and>
        in_EstimatedTokens input \<le> TPMLimit rule)"
  by (cases "UsageRule resolved") (auto simp: checkUsagePolicy_def Let_def)

definition live_subscription :: "int \<Rightarrow> CodexPlusGatewayPolicyInput \<Rightarrow> bool" where
  "live_subscription now input \<longleftrightarrow>
     (\<forall>sub. in_Subscription input = Some sub \<longrightarrow> s_Status sub \<in> {[], ''active''} \<and>
        (\<forall>t. s_ExpiresAt sub = Some t \<longrightarrow> now < t))"

lemma checkEntitlement_None:
  "checkEntitlement s input key cfg = None \<longleftrightarrow>
     go_TrimSpace (en_Status (in_Entitlement input)) \<in> {[], status_text Available} \<and> live_subscription (p_now s) input"
  by (auto simp: checkEntitlement_def Let_def live_subscription_def split: option.splits if_splits)

text \<open>A device is admitted when its state is empty or active; a missing, unknown or unreadable device
  as the strictness says, but a failing lookup never.\<close>

definition device_admitted :: "CodexPlusGatewayPolicyService \<Rightarrow> User \<Rightarrow> string \<Rightarrow> bool \<Rightarrow> bool" where
  "device_admitted s user deviceID strict \<longleftrightarrow>
     (if deviceID = [] then \<not> strict
      else case Option.bind (deviceReader s) (\<lambda>r. Some (r (u_ID user) deviceID)) of
        Some (Inr (Some device)) \<Rightarrow> isCodexPlusActiveStatus (dv_Status device)
      | Some (Inl (ReaderError e)) \<Rightarrow> False
      | _ \<Rightarrow> \<not> strict)"

lemma checkDevice_None:
  "checkDevice s input user key model v = None \<longleftrightarrow>
     device_admitted s user (go_TrimSpace (in_DeviceID input)) (in_StrictDeviceEnforcement input)"
  by (auto simp: checkDevice_def Let_def device_admitted_def isCodexPlusActiveStatus_def
      split: option.splits sum.splits reader_error.splits if_splits)

lemma rejectForBillingError_refuses [simp]: "\<not> Allowed (fst (rejectForBillingError s input key model v err))"
  by (simp add: rejectForBillingError_def Let_def)

lemma checks_refuse:
  "checkEntitlement s input key cfg = Some d \<Longrightarrow> \<not> Allowed (fst d)"
  "checkUsagePolicy s input key model v resolved = Some d \<Longrightarrow> \<not> Allowed (fst d)"
  "checkDevice s input user key model v = Some d \<Longrightarrow> \<not> Allowed (fst d)"
  by (auto simp: checkEntitlement_def checkUsagePolicy_def checkDevice_def Let_def
      split: if_splits option.splits sum.splits reader_error.splits)

lemma evaluate_resolved_allows:
  "Allowed (fst (evaluate_resolved s input apiKey user key cfg resolved)) \<longleftrightarrow>
     checkEntitlement s input key cfg = None \<and>
     (\<exists>model. findCodexPlusModel cfg (in_RequestedModel input) = Some model \<and> IsEnabled model \<and>
        modelAllowedByEntitlement cfg model (in_Entitlement input) \<and>
        checkUsagePolicy s input key model (ConfigVersion cfg) resolved = None \<and>
        checkDevice s input user key model (ConfigVersion cfg) = None \<and> checkBilling s input apiKey user = None)"
  unfolding evaluate_resolved_def Let_def
  by (auto dest: checks_refuse split: option.split)

text \<open>The groups of a plan: its own and those of the enabled plans with its id.\<close>

definition plan_groups :: "CodexPlusConfig \<Rightarrow> CodexPlusPlan \<Rightarrow> string set" where
  "plan_groups cfg plan = {go_TrimSpace g | g p. g \<in> set (pl_ModelGroups p) \<and> go_TrimSpace g \<noteq> [] \<and>
     (p = plan \<or> p \<in> set (plans_of cfg) \<and> isCodexPlusPlanEnabled (pl_Status p) \<and> PlanID p = go_TrimSpace (PlanID plan) \<and>
        go_TrimSpace (PlanID plan) \<noteq> [])}"

text \<open>What a request needs once its key is known: a plan, a model of the plan, a usage rule that admits
  it, an admitted device and no objection of the billing.\<close>

definition may_use ::
    "CodexPlusGatewayPolicyService \<Rightarrow> CodexPlusGatewayPolicyInput \<Rightarrow> APIKey \<Rightarrow> User \<Rightarrow> CodexPlusConfig \<Rightarrow> bool" where
  "may_use s input apiKey user cfg \<longleftrightarrow>
     go_TrimSpace (en_Status (in_Entitlement input)) \<in> {[], status_text Available} \<and> live_subscription (p_now s) input \<and>
     (\<exists>plan model rule. codexPlusPlanForGatewayInput cfg input = Some plan \<and>
        findCodexPlusModel cfg (in_RequestedModel input) = Some model \<and> IsEnabled model \<and>
        ModelGroup model \<in> plan_groups cfg plan \<and>
        codexPlusUsageRuleForGatewayPlan cfg plan = Some rule \<and>
        1 \<le> ConcurrencyLimit rule \<and> 1 \<le> RPMLimit rule \<and> 1 \<le> TPMLimit rule \<and> in_EstimatedTokens input \<le> TPMLimit rule \<and>
        device_admitted s user (go_TrimSpace (in_DeviceID input))
          (in_StrictDeviceEnforcement input \<or> codexPlusStrictDeviceEnforcementEnabled cfg \<or>
           StrictEnforcementDefault (DevicePolicy rule))) \<and>
     checkBilling s input apiKey user = None"

lemma plan_for_input_cong:
  "codexPlusPlanForGatewayInput cfg (input\<lparr>in_StrictDeviceEnforcement := b\<rparr>) = codexPlusPlanForGatewayInput cfg input"
  by (simp add: codexPlusPlanForGatewayInput_def codexPlusPlanMatchesGatewayInput_def)

lemma set_group_set: "set (group_set groups) = {go_TrimSpace g | g. g \<in> set groups \<and> go_TrimSpace g \<noteq> []}"
  by (auto simp: group_set_def)

lemma modelAllowed_iff:
  "modelAllowedByEntitlement cfg model (ent\<lparr>en_PlanID := PlanID plan, en_ModelGroups := pl_ModelGroups plan\<rparr>) \<longleftrightarrow>
     ModelGroup model \<in> plan_groups cfg plan"
proof -
  have member: "(if gs = [] then False else x \<in> set gs) \<longleftrightarrow> x \<in> set gs" for gs :: "string list" and x by auto
  show ?thesis
    unfolding modelAllowedByEntitlement_def Let_def member by (auto simp: plan_groups_def set_group_set)
qed

lemma strict_flag:
  "in_StrictDeviceEnforcement (case rule of
      Some r \<Rightarrow> if StrictEnforcementDefault (DevicePolicy r) then i\<lparr>in_StrictDeviceEnforcement := True\<rparr> else i
    | None \<Rightarrow> i) \<longleftrightarrow> in_StrictDeviceEnforcement i \<or>
      (\<exists>r. rule = Some r \<and> StrictEnforcementDefault (DevicePolicy r))"
  by (auto split: option.split)

lemma strict_others:
  fixes i rule
  defines "j \<equiv> (case rule of
      Some r \<Rightarrow> if StrictEnforcementDefault (DevicePolicy r) then i\<lparr>in_StrictDeviceEnforcement := True\<rparr> else i
    | None \<Rightarrow> i)"
  shows "in_Entitlement j = in_Entitlement i" "in_Subscription j = in_Subscription i" "in_DeviceID j = in_DeviceID i"
    "in_RequestedModel j = in_RequestedModel i" "in_EstimatedTokens j = in_EstimatedTokens i"
    "checkBilling s j apiKey user = checkBilling s i apiKey user"
  by (simp_all add: j_def checkBilling_def split: option.split)

lemma checkBilling_cong:
  "checkBilling s (i\<lparr>in_StrictDeviceEnforcement := b, in_Entitlement := e\<rparr>) apiKey user = checkBilling s i apiKey user"
  by (simp add: checkBilling_def split: option.split)

lemma evaluate_configured_allows:
  "Allowed (fst (evaluate_configured s input apiKey user key cfg)) \<longleftrightarrow> may_use s input apiKey user cfg"
proof -
  let ?i = "input\<lparr>in_StrictDeviceEnforcement := in_StrictDeviceEnforcement input \<or> codexPlusStrictDeviceEnforcementEnabled cfg\<rparr>"
  let ?st = "go_TrimSpace (en_Status (in_Entitlement input))"
  consider (other) "?st \<notin> {[], status_text Available}"
    | (noplan) "?st \<in> {[], status_text Available}" "codexPlusPlanForGatewayInput cfg input = None"
    | (plan) plan where "?st \<in> {[], status_text Available}" "codexPlusPlanForGatewayInput cfg input = Some plan"
    by (cases "codexPlusPlanForGatewayInput cfg input") auto
  then show ?thesis
  proof cases
    case other
    then have "r_Entitlement (resolveCodexPlusGatewayPolicy cfg ?i) = in_Entitlement input"
      by (simp add: resolveCodexPlusGatewayPolicy_def Let_def)
    with other show ?thesis
      unfolding evaluate_configured_def Let_def evaluate_resolved_allows checkEntitlement_None
      by (simp add: strict_others may_use_def)
  next
    case noplan
    then have "en_Status (r_Entitlement (resolveCodexPlusGatewayPolicy cfg ?i)) = status_text NotPurchased"
      by (auto simp: resolveCodexPlusGatewayPolicy_def Let_def plan_for_input_cong)
    with noplan show ?thesis
      unfolding evaluate_configured_def Let_def evaluate_resolved_allows checkEntitlement_None
      by (simp add: strict_others may_use_def)
  next
    case plan
    define ent where "ent = (if ?st = [] then (in_Entitlement input)\<lparr>en_Status := status_text Available\<rparr> else in_Entitlement input)"
    have resolved: "resolveCodexPlusGatewayPolicy cfg ?i =
        \<lparr>r_Entitlement = ent\<lparr>en_PlanID := PlanID plan, en_ModelGroups := pl_ModelGroups plan\<rparr>, r_Plan = Some plan,
         UsageRule = codexPlusUsageRuleForGatewayPlan cfg plan\<rparr>"
      using plan by (auto simp: resolveCodexPlusGatewayPolicy_def Let_def plan_for_input_cong ent_def)
    have status: "go_TrimSpace (en_Status ent) = status_text Available"
      using plan(1) by (auto simp: ent_def)
    show ?thesis
      unfolding evaluate_configured_def Let_def evaluate_resolved_allows checkEntitlement_None checkUsagePolicy_None
        checkDevice_None resolved
      using plan status
      by (auto simp: strict_flag strict_others may_use_def live_subscription_def checkBilling_cong modelAllowed_iff)
  qed
qed


text \<open>Everything \<open>Evaluate\<close> tests, in no order: the key and its owner, then the configuration.\<close>

definition owned_key :: "CodexPlusManagedProviderKey \<Rightarrow> APIKey \<Rightarrow> User \<Rightarrow> bool" where
  "owned_key key apiKey user \<longleftrightarrow> mk_APIKeyID key = k_ID apiKey \<and> mk_UserID key = u_ID user \<and>
     k_UserID apiKey = u_ID user \<and> isCodexPlusActiveStatus (mk_Status key)"

definition admissible :: "CodexPlusGatewayPolicyService \<Rightarrow> CodexPlusGatewayPolicyInput \<Rightarrow> bool" where
  "admissible s input \<longleftrightarrow>
     (\<exists>apiKey user. in_APIKey input = Some apiKey \<and>
        (in_User input = Some user \<or> in_User input = None \<and> k_User apiKey = Some user) \<and>
        (lookupManagedKey s (k_ID apiKey) = Inl NotFound \<or>
         (\<exists>key. lookupManagedKey s (k_ID apiKey) = Inr key \<and>
            (go_TrimSpace (mk_ManagedProviderID key) \<noteq> CodexPlusManagedProviderID \<or>
             owned_key key apiKey user \<and> (\<exists>cfg. getConfig s = Inr cfg \<and> may_use s input apiKey user cfg)))))"

lemma may_use_user: "may_use s (input\<lparr>in_User := u\<rparr>) apiKey user cfg = may_use s input apiKey user cfg"
  by (simp add: may_use_def live_subscription_def codexPlusPlanForGatewayInput_def codexPlusPlanMatchesGatewayInput_def
      checkBilling_def split: option.split)

definition evaluate_user ::
    "CodexPlusGatewayPolicyService \<Rightarrow> CodexPlusGatewayPolicyInput \<Rightarrow> APIKey \<Rightarrow> User \<Rightarrow> evaluated" where
  "evaluate_user s input apiKey user =
     (case lookupManagedKey s (k_ID apiKey) of
        Inl NotFound \<Rightarrow> no_error (no_decision\<lparr>Allowed := True, Skipped := True, ServiceStatus := Available,
          d_Reason := ''api key is not managed by Codex++''\<rparr>, [])
      | Inl (ReaderError e) \<Rightarrow> with_error e (reject s input None None [] 503 ErrorConfigUnavailable GatewayUnhealthy
          ''managed provider key lookup failed'' True)
      | Inr managedKey \<Rightarrow>
          if go_TrimSpace (mk_ManagedProviderID managedKey) \<noteq> CodexPlusManagedProviderID
          then no_error (no_decision\<lparr>Allowed := True, Skipped := True, ServiceStatus := Available,
            d_Reason := ''api key belongs to another managed provider'', ManagedKey := Some managedKey\<rparr>, [])
          else if mk_APIKeyID managedKey \<noteq> k_ID apiKey \<or> mk_UserID managedKey \<noteq> u_ID user \<or>
                  mk_UserID managedKey \<noteq> k_UserID apiKey
          then no_error (reject s input (Some managedKey) None [] 403 ErrorEntitlementDisabled Disabled
            ''managed provider key ownership mismatch'' False)
          else if \<not> isCodexPlusActiveStatus (mk_Status managedKey)
          then no_error (reject s input (Some managedKey) None [] 403 ErrorEntitlementDisabled Disabled
            ''managed provider key is not active'' False)
          else case getConfig s of
            Inl e \<Rightarrow> with_error e (reject s input (Some managedKey) None [] 503 ErrorConfigUnavailable GatewayUnhealthy
              ''Codex++ gateway policy config is unavailable'' True)
          | Inr cfg \<Rightarrow> no_error (evaluate_configured s input apiKey user managedKey cfg))"

lemma Evaluate_cases:
  "in_APIKey input = None \<Longrightarrow> \<not> Allowed (fst (Evaluate s input))"
  "in_APIKey input = Some apiKey \<Longrightarrow> in_User input = Some user \<Longrightarrow> Evaluate s input = evaluate_user s input apiKey user"
  "in_APIKey input = Some apiKey \<Longrightarrow> in_User input = None \<Longrightarrow> k_User apiKey = Some user \<Longrightarrow>
     Evaluate s input = evaluate_user s (input\<lparr>in_User := Some user\<rparr>) apiKey user"
  "in_APIKey input = Some apiKey \<Longrightarrow> in_User input = None \<Longrightarrow> k_User apiKey = None \<Longrightarrow> \<not> Allowed (fst (Evaluate s input))"
  by (simp_all add: Evaluate_def evaluate_user_def Let_def no_error_def)

lemma evaluate_user_allows:
  "Allowed (fst (evaluate_user s input apiKey user)) \<longleftrightarrow>
     lookupManagedKey s (k_ID apiKey) = Inl NotFound \<or>
     (\<exists>key. lookupManagedKey s (k_ID apiKey) = Inr key \<and>
        (go_TrimSpace (mk_ManagedProviderID key) \<noteq> CodexPlusManagedProviderID \<or>
         owned_key key apiKey user \<and> (\<exists>cfg. getConfig s = Inr cfg \<and> may_use s input apiKey user cfg)))"
proof (cases "lookupManagedKey s (k_ID apiKey)")
  case (Inl e)
  then show ?thesis by (cases e) (simp_all add: evaluate_user_def no_error_def with_error_def no_decision_def)
next
  case (Inr key)
  show ?thesis
  proof (cases "getConfig s")
    case (Inl e)
    with Inr show ?thesis
      by (simp add: evaluate_user_def no_error_def with_error_def no_decision_def owned_key_def)
  next
    case (Inr cfg)
    with \<open>lookupManagedKey s (k_ID apiKey) = Inr key\<close> show ?thesis
      by (auto simp: evaluate_user_def no_error_def with_error_def no_decision_def owned_key_def evaluate_configured_allows)
  qed
qed

lemma Evaluate_allows: "Allowed (fst (Evaluate s input)) \<longleftrightarrow> admissible s input"
proof (cases "in_APIKey input")
  case None
  then show ?thesis by (simp add: Evaluate_cases admissible_def)
next
  case (Some apiKey)
  then show ?thesis
    by (cases "in_User input"; cases "k_User apiKey")
      (simp_all add: Evaluate_cases admissible_def evaluate_user_allows may_use_user)
qed

text \<open>
  C3: A request passes the gateway policy exactly when it is admissible: its key is not a key of Codex++,
  or the key is active and belongs to the user, the configuration is available, the subscription is
  live, and there are an enabled plan for the user's groups, an enabled model in a group of that plan, a usage
  rule with positive limits that admits the estimated tokens, an admitted device and no objection of the
  billing. Every other request is refused.
\<close>
theorem evaluate_allows_iff: "Allowed (fst (Evaluate s input)) \<longleftrightarrow> admissible s input"
  by (rule Evaluate_allows)

text \<open>
  C19: Every decision has one of two forms: an admission with status 200 (or none, when the key is
  not managed) and an enabled model, or a refusal whose status, state of the service and
  retryability are those of its code; only a refusal comes with an error of a reader.
\<close>
theorem decisions_well_formed:
  "let (d, err, events) = Evaluate s input in (refusal d \<or> admission d) \<and> (err = None \<or> refusal d)"
proof -
  obtain d err events where run: "Evaluate s input = (d, err, events)" by (cases "Evaluate s input")
  have "refusal d" if "err = Some e" for e
    using run Evaluate_well [of s input] that
    by (auto simp: Evaluate_def Let_def no_error_def with_error_def well_decided_def admission_def refusal_def
        split: option.splits sum.splits reader_error.splits if_splits)
  with run Evaluate_well [of s input] show ?thesis
    by (cases err) (simp_all add: well_decided_def)
qed

text \<open>
  A decision about a managed key leaves exactly one event with the recorder, a rejection with
  severity warning or a usage event with severity info, carrying the payload of the decision; a
  skipped decision leaves none.
\<close>
theorem one_event_per_decision:
  "let (d, err, events) = Evaluate s input in recorded s d events"
  using Evaluate_well [of s input] by (cases "Evaluate s input") (simp add: well_decided_def)

text \<open>
  C20: The event of a refusal is redacted: whatever the request, its headers and its metadata were, no
  field of the recorded payload has a forbidden name inside, and no text in it (at any depth) shows a
  bearer token, a key, a credential in a URL or a local path.
\<close>
theorem refusal_events_redacted: "redacted_payload (EventPayload (fst (Evaluate s input)))"
  using Evaluate_well [of s input] by (simp add: well_decided_def)

section \<open>The handler\<close>

lemma error_text_trim [simp]: "go_TrimSpace (error_text e) = error_text e"
  by (rule go_TrimSpace_token) (cases e; simp add: error_text.simps token_byte_def byte_def ascii_upper_def)

lemma error_text_inj [simp]: "error_text a = error_text b \<longleftrightarrow> a = b"
  by (cases a; cases b; simp add: error_text.simps)

lemma error_text_not_Nil [simp]: "error_text e \<noteq> []"
  by (cases e) (simp_all add: error_text.simps)

lemma code_table_status: "fst (code_table e) \<in> {402, 403, 429, 503}"
  by (cases e) simp_all

lemma handler_refuses:
  assumes "fst (enforceCodexPlusGatewayPolicy (Some s) c apiKey sub model endpoint) = Some (status, code, message)"
  shows "\<exists>e. d_ErrorCode (fst (Evaluate s (handler_input c apiKey sub model endpoint))) = Some e \<and>
    code = error_text e \<and> status = fst (code_table e)"
proof -
  obtain d err events where run: "Evaluate s (handler_input c apiKey sub model endpoint) = (d, err, events)"
    by (cases "Evaluate s (handler_input c apiKey sub model endpoint)")
  with Evaluate_well [of s "handler_input c apiKey sub model endpoint"] have form: "refusal d \<or> admission d"
    by (simp add: well_decided_def)
  from assms run have not_allowed: "\<not> Allowed d" and answer: "codexPlusGatewayPolicyError d = (status, code, message)"
    by (auto simp: enforceCodexPlusGatewayPolicy_def split: if_splits)
  with form have "refusal d" by (simp add: admission_def)
  then obtain e where e: "d_ErrorCode d = Some e" "code_table e = (HTTPStatus d, ServiceStatus d, Retryable d)"
    by (auto simp: refusal_def)
  have "0 < HTTPStatus d" using code_table_status [of e] e(2) by auto
  with answer e have "code = error_text e" "status = HTTPStatus d"
    by (simp_all add: codexPlusGatewayPolicyError_def Let_def)
  with e run show ?thesis by simp
qed

text \<open>
  The gateway either lets a request go on, which it does exactly when there is no policy service or
  the request is admissible, or it answers with one of the twelve codes and the status of that
  code, which is 402, 403, 429 or 503.
\<close>
theorem handler_answers:
  "case fst (enforceCodexPlusGatewayPolicy service c apiKey sub model endpoint) of
     None \<Rightarrow> service = None \<or> admissible (the service) (handler_input c apiKey sub model endpoint)
   | Some (status, code, message) \<Rightarrow>
       service \<noteq> None \<and> \<not> admissible (the service) (handler_input c apiKey sub model endpoint) \<and>
       status \<in> {402, 403, 429, 503} \<and> (\<exists>e. code = error_text e \<and> status = fst (code_table e))"
proof (cases service)
  case None
  then show ?thesis by (simp add: enforceCodexPlusGatewayPolicy_def)
next
  case (Some s)
  let ?i = "handler_input c apiKey sub model endpoint"
  have allowed: "fst (enforceCodexPlusGatewayPolicy service c apiKey sub model endpoint) = None \<longleftrightarrow> Allowed (fst (Evaluate s ?i))"
    using Some Evaluate_well [of s ?i]
    by (cases "Evaluate s ?i") (auto simp: enforceCodexPlusGatewayPolicy_def well_decided_def refusal_def admission_def)
  show ?thesis
  proof (cases "fst (enforceCodexPlusGatewayPolicy service c apiKey sub model endpoint)")
    case None
    with allowed Some show ?thesis using Evaluate_allows [of s ?i] by simp
  next
    case (Some answer)
    then show ?thesis
      using allowed \<open>service = Some s\<close> handler_refuses [of s c apiKey sub model endpoint] code_table_status
        Evaluate_allows [of s ?i]
      by (cases answer) auto
  qed
qed

section \<open>Policies that pass the checks\<close>

definition answer_code :: "evaluated \<Rightarrow> gateway_error option" where
  "answer_code r = d_ErrorCode (fst r)"

definition limit_code :: "gateway_error option \<Rightarrow> bool" where
  "limit_code c \<longleftrightarrow> c = Some ErrorConcurrencyLimited \<or> c = Some ErrorTPMLimited"

lemma rule_of_config:
  assumes "codexPlusUsageRuleForGatewayPlan cfg plan = Some rule"
  shows "rule \<in> set (policies_of cfg)"
  using assms
  by (auto simp: codexPlusUsageRuleForGatewayPlan_def Let_def find_Some_iff split: if_splits option.splits list.splits)

lemma resolved_rule:
  "UsageRule (resolveCodexPlusGatewayPolicy cfg input) = Some rule \<Longrightarrow> rule \<in> set (policies_of cfg)"
  by (auto simp: resolveCodexPlusGatewayPolicy_def Let_def rule_of_config split: if_splits option.splits)

lemma other_codes:
  "checkEntitlement s input key cfg = Some d \<Longrightarrow> \<not> limit_code (d_ErrorCode (fst d))"
  "checkDevice s input user key model v = Some d \<Longrightarrow> \<not> limit_code (d_ErrorCode (fst d))"
  "\<not> limit_code (d_ErrorCode (fst (rejectForBillingError s input key model v err)))"
  "\<not> limit_code (d_ErrorCode (fst (allow s input key' model' v resolved)))"
  by (auto simp: checkEntitlement_def checkDevice_def rejectForBillingError_def allow_def no_decision_def limit_code_def
      Let_def split: if_splits option.splits sum.splits reader_error.splits)

lemma usage_codes:
  assumes "checkUsagePolicy s input key model v resolved = Some d" and "in_EstimatedTokens input = 0"
    and "\<And>rule. UsageRule resolved = Some rule \<Longrightarrow> 1 \<le> ConcurrencyLimit rule \<and> 1 \<le> RPMLimit rule \<and> 1 \<le> TPMLimit rule"
  shows "\<not> limit_code (d_ErrorCode (fst d))"
proof (cases "UsageRule resolved")
  case None
  with assms(1) show ?thesis by (auto simp: checkUsagePolicy_def Let_def limit_code_def)
next
  case (Some rule)
  with assms(3) [OF this] assms(1,2) show ?thesis by (simp add: checkUsagePolicy_def Let_def)
qed

lemma evaluate_resolved_codes:
  assumes "in_EstimatedTokens input = 0"
    and "\<And>rule. UsageRule resolved = Some rule \<Longrightarrow> 1 \<le> ConcurrencyLimit rule \<and> 1 \<le> RPMLimit rule \<and> 1 \<le> TPMLimit rule"
  shows "\<not> limit_code (d_ErrorCode (fst (evaluate_resolved s input apiKey user key cfg resolved)))"
proof -
  have model: "\<not> limit_code (Some ErrorModelNotAllowed)" by (simp add: limit_code_def)
  show ?thesis
    unfolding evaluate_resolved_def Let_def
    using other_codes usage_codes [OF _ assms] model
    by (cases "checkEntitlement s input key cfg"; cases "findCodexPlusModel cfg (in_RequestedModel input)")
      (simp_all split: option.split)
qed

lemma configured_codes:
  assumes "validateCodexPlusUsagePolicies (policies_of cfg) = None" and "in_EstimatedTokens input = 0"
  shows "\<not> limit_code (d_ErrorCode (fst (evaluate_configured s input apiKey user key cfg)))"
  unfolding evaluate_configured_def Let_def
  by (rule evaluate_resolved_codes) (simp_all add: strict_others assms(2) accepted_policies(3) [OF assms(1)] resolved_rule)

text \<open>
  C40: The limits of a usage policy are never reached: with policies that pass the checks of the
  configuration, no request is refused for its concurrency or its tokens, because the gateway
  compares the limits only with 1 and the handler passes no estimate of the tokens.
\<close>
theorem policy_limits_never_reached:
  assumes "configReader s = Some (Inr cfg)" and "validateCodexPlusUsagePolicies (policies_of cfg) = None"
    and "fst (enforceCodexPlusGatewayPolicy (Some s) c apiKey sub model endpoint) = Some (status, code, message)"
  shows "code \<notin> {error_text ErrorConcurrencyLimited, error_text ErrorTPMLimited}"
proof -
  let ?i = "handler_input c apiKey sub model endpoint"
  have "\<not> limit_code (d_ErrorCode (fst (Evaluate s ?i)))"
    unfolding Evaluate_def Let_def no_error_def with_error_def getConfig_def assms(1)
    using configured_codes [OF assms(2)]
    by (auto simp: limit_code_def no_decision_def handler_input_def split: option.split sum.split reader_error.split)
  with handler_refuses [OF assms(3)] show ?thesis by (auto simp: limit_code_def)
qed


text \<open>
  The checks of a model ignore the spaces around its id and its group, but the gateway does not: a
  group with spaces around it is accepted and then outside every entitlement, and a model whose id and
  route have spaces around them is accepted and then never found under any name.
\<close>
theorem spaces_accepted_but_unreachable:
  assumes "go_TrimSpace x \<noteq> x"
  shows "check_model seen (m\<lparr>ModelGroup := x\<rparr>) = check_model seen (m\<lparr>ModelGroup := go_TrimSpace x\<rparr>) \<and>
    \<not> modelAllowedByEntitlement cfg (m\<lparr>ModelGroup := x\<rparr>) entitlement \<and>
    check_model seen (m\<lparr>ModelID := x, RouteModel := x\<rparr>) =
      check_model seen (m\<lparr>ModelID := go_TrimSpace x, RouteModel := go_TrimSpace x\<rparr>) \<and>
    (go_TrimSpace name = [] \<or> findCodexPlusModel cfg name \<noteq> Some (m\<lparr>ModelID := x, RouteModel := x\<rparr>))"
proof (intro conjI)
  have group: "x \<notin> set (group_set gs)" for gs
    using assms by (auto simp: group_set_def)
  then show "\<not> modelAllowedByEntitlement cfg (m\<lparr>ModelGroup := x\<rparr>) entitlement"
    by (simp add: modelAllowedByEntitlement_def Let_def)
  have "go_TrimSpace name \<noteq> x" using assms by auto
  moreover have "P (m\<lparr>ModelID := x, RouteModel := x\<rparr>)" if "find P ms = Some (m\<lparr>ModelID := x, RouteModel := x\<rparr>)" for P ms
    using that by (auto simp: find_Some_iff)
  ultimately show "go_TrimSpace name = [] \<or> findCodexPlusModel cfg name \<noteq> Some (m\<lparr>ModelID := x, RouteModel := x\<rparr>)"
    by (fastforce simp: findCodexPlusModel_def Let_def)
qed (simp_all add: check_model_def Let_def)


section \<open>Samples\<close>

definition sample_meta :: document_meta where
  "sample_meta = \<lparr>ConfigVersion = ''v1'', DraftStatus = ''published'', PublishScope = ''production'', RollbackFrom = None,
     UpdatedBy = ''ops'', UpdatedAt = [], ChangeReason = []\<rparr>"

definition sample_rule :: CodexPlusUsageRule where
  "sample_rule = \<lparr>PolicyID = ''default'', AppliesTo = \<lparr>at_PlanIDs = [''pro''], at_ModelGroups = [], UserSegments = []\<rparr>,
     LowBalanceThreshold = 0, ur_DailyQuota = 0, MonthlyQuota = None, ConcurrencyLimit = 2, RPMLimit = 10, TPMLimit = 1000,
     BurstLimit = 10, RateLimitWindowSeconds = 60, ExpiredBehavior = ''block'', GracePeriodHours = 0, OverageBehavior = ''block'',
     ur_CopyKeys = \<lparr>uk_LowBalanceMessage = [], uk_InsufficientBalanceMessage = [], uk_RateLimitedMessage = [],
       uk_ExpiredMessage = [], uk_RenewAction = [], uk_PurchaseAction = [], DeviceRevokedMessage = []\<rparr>,
     DevicePolicy = \<lparr>RegistrationRequired = False, MaxDevicesPerUser = 3, AllowSelfServiceReplacement = True,
       ReplacementCooldownHours = 0, StrictEnforcementDefault = False, RevokeReasonTaxonomy = [], SupportUnlockPolicy = [],
       RevokedBehavior = [], MessageKeys = \<lparr>LimitReached = [], ReplacementCooldown = [], Revoked = [],
         SupportUnlockRequired = []\<rparr>\<rparr>,
     InsufficientBalanceMessage = ''low'', RateLimitedMessage = []\<rparr>"

definition sample_config :: CodexPlusConfig where
  "sample_config = document_meta.extend sample_meta (CodexPlusConfig.fields
     (document_meta.extend sample_meta (CodexPlusPlanCatalog.fields []))
     (document_meta.extend sample_meta (CodexPlusModelCatalog.fields []))
     (document_meta.extend sample_meta (CodexPlusUsagePolicy.fields [sample_rule]))
     (document_meta.extend sample_meta (CodexPlusFeatureFlagsDoc.fields
        \<lparr>AdvancedProviderConfig = False, InstallAssistant = True, NewUserTutorial = True, ModelSelector = True,
          DiagnosticExport = False, Announcements = True, ForceUpdatePrompt = False, StrictDeviceEnforcement = False\<rparr>
        \<lparr>ClientVisible = [], ServerOnly = []\<rparr>
        \<lparr>fk_ForceUpdatePrompt = [], InstallAssistantEntry = [], NewUserTutorialEntry = [],
          DiagnosticExportEntry = [], AnnouncementEntry = []\<rparr>)))"

definition sample_managed_key :: CodexPlusManagedProviderKey where
  "sample_managed_key = \<lparr>mk_ID = 1, mk_UserID = 5, mk_APIKeyID = 7, mk_ManagedProviderID = ''codex-plus-cloud'',
     mk_DisplayName = [], mk_KeyPrefix = None, mk_Status = ''revoked'', mk_LastUsedAt = None, mk_CreatedAt = None,
     mk_UpdatedAt = None\<rparr>"

definition sample_service :: CodexPlusGatewayPolicyService where
  "sample_service = \<lparr>configReader = Some (Inr sample_config),
     managedKeyReader = Some (\<lambda>_. Inr (Some sample_managed_key)),
     deviceReader = None, eventRecorder = None, billingChecker = None, p_now = 0\<rparr>"

definition sample_request :: request_context where
  "sample_request = \<lparr>rq_Method = ''POST'', rq_Path = ''/v1/responses'', rq_RequestID = Some ''r1'', rq_ClientRequestID = None,
     rq_Header = (\<lambda>_. []), rq_Platform = ''openai''\<rparr>"

definition sample_key :: APIKey where
  "sample_key = \<lparr>k_ID = 7, k_UserID = 5, k_Key = ''k'', k_GroupID = None, k_User = Some \<lparr>u_ID = 5\<rparr>, k_Group = None\<rparr>"

definition sample_model :: CodexPlusModel where
  "sample_model = \<lparr>ModelID = ''gpt-5'', DisplayName = ''GPT'', RouteModel = ''gpt-5'', ModelGroup = ''pro'', ContextWindow = 128000,
     BillingMultiplier = Fin 1, IsDefault = True, IsEnabled = True, IsHidden = False, DisabledReason = None,
     RolloutChannel = ''stable'', QualityTier = ''standard'', FallbackModelID = None, DeprecationAt = None,
     DisabledReplacementModelID = None, DisabledMessageKey = None, md_SortOrder = 0, OperatorTags = []\<rparr>"

theorem spaces_accepted_but_unreachable_witness:
  "check_model [] (sample_model\<lparr>ModelGroup := ''pro ''\<rparr>) = check_model [] (sample_model\<lparr>ModelGroup := ''pro''\<rparr>) \<and>
   \<not> modelAllowedByEntitlement sample_config (sample_model\<lparr>ModelGroup := ''pro ''\<rparr>) \<lparr>en_Status = [], en_PlanID = [], en_ModelGroups = [''pro '', ''pro'']\<rparr>"
proof -
  have trim: "go_TrimSpace ''pro '' = ''pro''" by code_simp
  then have "go_TrimSpace ''pro '' \<noteq> ''pro ''" by simp
  from spaces_accepted_but_unreachable [OF this, of "[]" sample_model sample_config
      "\<lparr>en_Status = [], en_PlanID = [], en_ModelGroups = [''pro '', ''pro'']\<rparr>"]
  show ?thesis unfolding trim by blast
qed

lemma sample_config_accepted: "validateCodexPlusUsagePolicies (policies_of sample_config) = None"
proof -
  have "policies_of sample_config = [sample_rule]"
    by (simp add: sample_config_def sample_meta_def document_meta.defs CodexPlusConfig.defs CodexPlusUsagePolicy.defs)
  moreover have "check_policy [] sample_rule = None" by code_simp
  ultimately show ?thesis by (simp add: validateCodexPlusUsagePolicies_def)
qed

lemma sample_refused:
  "\<exists>message. fst (enforceCodexPlusGatewayPolicy (Some sample_service) sample_request (Some sample_key) None ''gpt'' []) =
     Some (403, error_text ErrorEntitlementDisabled, message)"
proof -
  let ?i = "handler_input sample_request (Some sample_key) None ''gpt'' []"
  have key: "in_APIKey ?i = Some sample_key" "in_User ?i = Some \<lparr>u_ID = 5\<rparr>"
    by (simp_all add: handler_input_def sample_key_def)
  have lookup: "lookupManagedKey sample_service (k_ID sample_key) = Inr sample_managed_key"
    by (simp add: lookupManagedKey_def sample_service_def)
  have id: "go_TrimSpace ''codex-plus-cloud'' = CodexPlusManagedProviderID" by code_simp
  have inactive: "\<not> isCodexPlusActiveStatus ''revoked''" by code_simp
  have "fst (Evaluate sample_service ?i) =
      fst (reject sample_service ?i (Some sample_managed_key) None [] 403
       ErrorEntitlementDisabled Disabled ''managed provider key is not active'' False)"
    unfolding Evaluate_cases(2) [OF key] evaluate_user_def lookup
    by (simp add: id inactive sample_key_def sample_managed_key_def no_error_def)
  then show ?thesis
    by (cases "Evaluate sample_service ?i")
      (simp add: enforceCodexPlusGatewayPolicy_def codexPlusGatewayPolicyError_def Let_def)
qed

theorem policy_limits_never_reached_witness:
  "\<exists>code message. fst (enforceCodexPlusGatewayPolicy (Some sample_service) sample_request (Some sample_key) None ''gpt'' []) =
     Some (403, code, message) \<and> code \<notin> {error_text ErrorConcurrencyLimited, error_text ErrorTPMLimited}"
proof -
  obtain message where answer: "fst (enforceCodexPlusGatewayPolicy (Some sample_service) sample_request (Some sample_key)
      None ''gpt'' []) = Some (403, error_text ErrorEntitlementDisabled, message)"
    using sample_refused by blast
  have "configReader sample_service = Some (Inr sample_config)" by (simp add: sample_service_def)
  from policy_limits_never_reached [OF this sample_config_accepted answer] answer show ?thesis by blast
qed

end
