(* ===== verification/Codex_Registry.thy ===== *)
theory Codex_Registry
  imports Codex_Config "HOL-Library.Multiset"
begin

text \<open>
  The registry of the configuration catalogs (\<open>codexplus/configregistry\<close>): the strict checks of plans,
  models, usage policies and feature flags, their queries and their defaults.
\<close>

section \<open>Errors and documents (\<open>common.go\<close>)\<close>

text \<open>A field error is the path of the field and a message. A check returns the errors it adds.\<close>

type_synonym field_errors = "(string \<times> string) list"

record ValidationError =
  ve_Scope :: string
  ve_Fields :: field_errors

definition ValidationError_Error :: "ValidationError option \<Rightarrow> string" where
  "ValidationError_Error e =
     (case e of
        None \<Rightarrow> ''codexplus config validation failed''
      | Some v \<Rightarrow>
          (case ve_Fields v of
             [] \<Rightarrow> ''codexplus '' @ ve_Scope v @ '' validation failed''
           | f # _ \<Rightarrow> ''codexplus '' @ ve_Scope v @ '' validation failed: '' @ snd f))"

definition Err :: "string \<Rightarrow> field_errors \<Rightarrow> ValidationError option" where
  "Err scope errs = (if errs = [] then None else Some \<lparr>ve_Scope = scope, ve_Fields = errs\<rparr>)"

definition add_if :: "bool \<Rightarrow> string \<Rightarrow> string \<Rightarrow> field_errors" where
  "add_if c field message = (if c then [(field, message)] else [])"

text \<open>A loop over a slice with its index and a local state.\<close>

fun check_each :: "(nat \<Rightarrow> 's \<Rightarrow> 'a \<Rightarrow> field_errors \<times> 's) \<Rightarrow> nat \<Rightarrow> 's \<Rightarrow> 'a list \<Rightarrow> field_errors \<times> 's" where
  "check_each f i s [] = ([], s)"
| "check_each f i s (x # xs) =
     (let (e, s1) = f i s x; (es, s2) = check_each f (Suc i) s1 xs in (e @ es, s2))"

definition go_Itoa :: "nat \<Rightarrow> string" where
  "go_Itoa n = go_FormatInt (int n)"

definition indexed :: "string \<Rightarrow> nat \<Rightarrow> string" where
  "indexed field i = field @ ''['' @ go_Itoa i @ '']''"

definition ValidDraftStatus :: "string \<Rightarrow> bool" where
  "ValidDraftStatus value \<longleftrightarrow>
     go_TrimSpace value \<in> {''draft'', ''editing'', ''ready_for_review'', ''approved'', ''published'', ''archived''}"

definition ValidPublishScope :: "string \<Rightarrow> bool" where
  "ValidPublishScope value \<longleftrightarrow> go_TrimSpace value \<in> {''draft'', ''internal'', ''canary'', ''production''}"

definition TrimmedSet :: "string list \<Rightarrow> string list" where
  "TrimmedSet values = filter (\<lambda>v. v \<noteq> []) (map go_TrimSpace values)"

section \<open>Standard library: RFC 3339, runes, patterns\<close>

definition is_digit :: "char option \<Rightarrow> bool" where
  "is_digit c = (case c of Some d \<Rightarrow> ascii_digit d | None \<Rightarrow> False)"

definition char_at :: "string \<Rightarrow> nat \<Rightarrow> char option" where
  "char_at s i = (if i < length s then Some (s ! i) else None)"

definition digit_value :: "char \<Rightarrow> nat" where
  "digit_value c = byte c - 48"

text \<open>\<open>getnum\<close> of the package \<open>time\<close>: two digits, or one when the number is not fixed.\<close>

definition getnum :: "string \<Rightarrow> bool \<Rightarrow> (nat \<times> string) option" where
  "getnum s fixed =
     (if \<not> is_digit (char_at s 0) then None
      else if \<not> is_digit (char_at s 1)
      then (if fixed then None else Some (digit_value (s ! 0), drop 1 s))
      else Some (10 * digit_value (s ! 0) + digit_value (s ! 1), drop 2 s))"

definition take_year :: "string \<Rightarrow> (nat \<times> string) option" where
  "take_year s =
     (if 4 \<le> length s \<and> list_all ascii_digit (take 4 s)
      then Some (foldl (\<lambda>n c. 10 * n + digit_value c) 0 (take 4 s), drop 4 s) else None)"

definition skip_char :: "char \<Rightarrow> string \<Rightarrow> string option" where
  "skip_char c s = (case s of x # xs \<Rightarrow> if x = c then Some xs else None | [] \<Rightarrow> None)"

definition skip_fraction :: "string \<Rightarrow> string" where
  "skip_fraction s =
     (case s of
        c # d # rest \<Rightarrow> if (c = CHR ''.'' \<or> c = CHR '','') \<and> ascii_digit d then dropWhile ascii_digit (d # rest) else s
      | _ \<Rightarrow> s)"

definition zone_ok :: "string \<Rightarrow> bool" where
  "zone_ok s \<longleftrightarrow> s = ''Z'' \<or>
     (length s = 6 \<and> s ! 3 = CHR '':'' \<and> (s ! 0 = CHR ''+'' \<or> s ! 0 = CHR ''-'') \<and>
      (case (getnum (take 2 (drop 1 s)) True, getnum (drop 4 s) True) of
         (Some (hr, _), Some (mm, _)) \<Rightarrow> hr \<le> 24 \<and> mm \<le> 60 | _ \<Rightarrow> False))"

definition leap_year :: "nat \<Rightarrow> bool" where
  "leap_year y \<longleftrightarrow> y mod 4 = 0 \<and> (y mod 100 \<noteq> 0 \<or> y mod 400 = 0)"

definition days_in :: "nat \<Rightarrow> nat \<Rightarrow> nat" where
  "days_in m y = (if m = 2 then (if leap_year y then 29 else 28) else if m \<in> {4, 6, 9, 11} then 30 else 31)"

text \<open>Whether \<open>time.Parse(time.RFC3339, s)\<close> succeeds. The hour may have one digit, a fraction of the
  seconds of any length is accepted, and so are offsets up to 24:60.\<close>

definition rfc3339_ok :: "string \<Rightarrow> bool" where
  "rfc3339_ok s =
     (case Option.bind (take_year s) (\<lambda>(y, s). Option.bind (skip_char (CHR ''-'') s) (\<lambda>s.
        Option.bind (getnum s True) (\<lambda>(m, s). Option.bind (skip_char (CHR ''-'') s) (\<lambda>s.
        Option.bind (getnum s True) (\<lambda>(d, s). Option.bind (skip_char (CHR ''T'') s) (\<lambda>s.
        Option.bind (getnum s False) (\<lambda>(hh, s). Option.bind (skip_char (CHR '':'') s) (\<lambda>s.
        Option.bind (getnum s True) (\<lambda>(mi, s). Option.bind (skip_char (CHR '':'') s) (\<lambda>s.
        Option.bind (getnum s True) (\<lambda>(ss, s). Some (y, m, d, hh, mi, ss, s)))))))))))) of
        None \<Rightarrow> False
      | Some (y, m, d, hh, mi, ss, s) \<Rightarrow>
          1 \<le> m \<and> m \<le> 12 \<and> hh < 24 \<and> mi < 60 \<and> ss < 60 \<and> zone_ok (skip_fraction s) \<and> 1 \<le> d \<and> d \<le> days_in m y)"

definition cont_byte :: "char option \<Rightarrow> bool" where
  "cont_byte c = (case c of Some b \<Rightarrow> 128 \<le> byte b \<and> byte b < 192 | None \<Rightarrow> False)"

text \<open>The length of the first rune of a string that is not empty; an invalid byte counts as one rune.\<close>

definition rune_bytes :: "string \<Rightarrow> nat" where
  "rune_bytes s =
     (let b = byte (hd s); second = (case char_at s 1 of Some c \<Rightarrow> byte c | None \<Rightarrow> 0)
      in if 194 \<le> b \<and> b \<le> 223 \<and> cont_byte (char_at s 1) then 2
         else if 224 \<le> b \<and> b \<le> 239 \<and> cont_byte (char_at s 1) \<and> cont_byte (char_at s 2) \<and>
                 (b = 224 \<longrightarrow> 160 \<le> second) \<and> (b = 237 \<longrightarrow> second \<le> 159) then 3
         else if 240 \<le> b \<and> b \<le> 244 \<and> cont_byte (char_at s 1) \<and> cont_byte (char_at s 2) \<and> cont_byte (char_at s 3) \<and>
                 (b = 240 \<longrightarrow> 144 \<le> second) \<and> (b = 244 \<longrightarrow> second \<le> 143) then 4
         else 1)"

lemma rune_bytes_pos: "0 < rune_bytes s"
  by (simp add: rune_bytes_def Let_def)

function RuneCount :: "string \<Rightarrow> nat" where
  "RuneCount s = (if s = [] then 0 else Suc (RuneCount (drop (rune_bytes s) s)))"
  by auto
termination
  by (relation "measure length") (auto simp: rune_bytes_pos)

declare RuneCount.simps [simp del]

definition ident_char :: "char \<Rightarrow> bool" where
  "ident_char c \<longleftrightarrow> ascii_lower c \<or> ascii_digit c \<or> c = CHR ''_'' \<or> c = CHR ''-''"

text \<open>\<open>^[a-z][a-z0-9_-]{1,63}$\<close>\<close>

definition ident_pattern :: "string \<Rightarrow> bool" where
  "ident_pattern s \<longleftrightarrow> 2 \<le> length s \<and> length s \<le> 64 \<and> ascii_lower (hd s) \<and> list_all ident_char (tl s)"

text \<open>\<open>^[a-z][a-z0-9_.-]{2,127}$\<close>\<close>

definition copy_key_pattern :: "string \<Rightarrow> bool" where
  "copy_key_pattern s \<longleftrightarrow> 3 \<le> length s \<and> length s \<le> 128 \<and> ascii_lower (hd s) \<and>
     list_all (\<lambda>c. ident_char c \<or> c = CHR ''.'') (tl s)"

text \<open>\<open>^[A-Z]{3}$\<close>\<close>

definition currency_pattern :: "string \<Rightarrow> bool" where
  "currency_pattern s \<longleftrightarrow> length s = 3 \<and> list_all ascii_upper s"

text \<open>\<open>^[a-zA-Z0-9._:-]{2,128}$\<close>\<close>

definition model_id_pattern :: "string \<Rightarrow> bool" where
  "model_id_pattern s \<longleftrightarrow> 2 \<le> length s \<and> length s \<le> 128 \<and>
     list_all (\<lambda>c. ascii_upper c \<or> ascii_lower c \<or> ascii_digit c \<or> c \<in> {CHR ''.'', CHR ''_'', CHR '':'', CHR ''-''}) s"

definition trimmedLen :: "string \<Rightarrow> nat" where
  "trimmedLen value = length (go_TrimSpace value)"

section \<open>The head of a document\<close>

text \<open>The checks of \<open>updated_at\<close>, which the five functions for the head of a document share.\<close>

definition updated_at_errors :: "'a document_meta_scheme \<Rightarrow> field_errors" where
  "updated_at_errors meta =
     (if go_TrimSpace (UpdatedAt meta) = [] then [(''updated_at'', ''updated_at is required'')]
      else add_if (\<not> rfc3339_ok (UpdatedAt meta)) ''updated_at'' ''updated_at must be RFC3339'')"

definition scope_errors :: "'a document_meta_scheme \<Rightarrow> field_errors" where
  "scope_errors meta = add_if (\<not> ValidPublishScope (PublishScope meta))
     ''publish_scope'' ''publish_scope must be draft, internal, canary, or production''"

definition ValidateMeta :: "string \<Rightarrow> 'a document_meta_scheme \<Rightarrow> ValidationError option" where
  "ValidateMeta scope meta = Err scope
     (add_if (go_TrimSpace (ConfigVersion meta) = []) ''config_version'' ''config_version is required'' @
      add_if (\<not> ValidDraftStatus (DraftStatus meta)) ''draft_status''
        ''draft_status must be draft, editing, ready_for_review, approved, published, or archived'' @
      scope_errors meta @
      add_if (go_TrimSpace (UpdatedBy meta) = []) ''updated_by'' ''updated_by is required'' @
      add_if (go_TrimSpace (ChangeReason meta) = []) ''change_reason'' ''change_reason is required'' @
      updated_at_errors meta)"

text \<open>The status of a catalog: without \<open>draft\<close>. Each catalog has its own function with these values.\<close>

definition catalog_status :: "string \<Rightarrow> bool" where
  "catalog_status value \<longleftrightarrow> go_TrimSpace value \<in> {''editing'', ''ready_for_review'', ''approved'', ''published'', ''archived''}"

definition validPlanCatalogDraftStatus :: "string \<Rightarrow> bool" where
  "validPlanCatalogDraftStatus value = catalog_status value"
definition ValidModelCatalogDraftStatus :: "string \<Rightarrow> bool" where
  "ValidModelCatalogDraftStatus value = catalog_status value"
definition ValidUsagePolicyDraftStatus :: "string \<Rightarrow> bool" where
  "ValidUsagePolicyDraftStatus value = catalog_status value"
definition validFeatureFlagsDraftStatus :: "string \<Rightarrow> bool" where
  "validFeatureFlagsDraftStatus value = catalog_status value"

definition status_errors :: "bool \<Rightarrow> field_errors" where
  "status_errors valid = add_if (\<not> valid) ''draft_status''
     ''draft_status must be editing, ready_for_review, approved, published, or archived''"

definition head_errors :: "bool \<Rightarrow> 'a document_meta_scheme \<Rightarrow> field_errors" where
  "head_errors valid meta =
     add_if (go_TrimSpace (ConfigVersion meta) = []) ''config_version'' ''config_version is required'' @
     status_errors valid @ scope_errors meta @
     add_if (go_TrimSpace (UpdatedBy meta) = []) ''updated_by'' ''updated_by is required''"

definition validatePlanCatalogMeta :: "'a document_meta_scheme \<Rightarrow> field_errors" where
  "validatePlanCatalogMeta meta =
     head_errors (validPlanCatalogDraftStatus (DraftStatus meta)) meta @ updated_at_errors meta @
     add_if (trimmedLen (ChangeReason meta) = 0 \<or> 500 < trimmedLen (ChangeReason meta)) ''change_reason''
       ''change_reason is required and must be at most 500 characters''"

definition validateModelCatalogMeta :: "'a document_meta_scheme \<Rightarrow> field_errors" where
  "validateModelCatalogMeta meta =
     head_errors (ValidModelCatalogDraftStatus (DraftStatus meta)) meta @ updated_at_errors meta @
     (let reason = go_TrimSpace (ChangeReason meta)
      in if reason = [] then [(''change_reason'', ''change_reason is required'')]
         else add_if (500 < RuneCount reason) ''change_reason'' ''change_reason must be at most 500 characters'')"

definition validateUsagePolicyMeta :: "'a document_meta_scheme \<Rightarrow> field_errors" where
  "validateUsagePolicyMeta meta =
     head_errors (ValidUsagePolicyDraftStatus (DraftStatus meta)) meta @ updated_at_errors meta @
     (let reason = go_TrimSpace (ChangeReason meta)
      in if reason = [] then [(''change_reason'', ''change_reason is required'')]
         else add_if (500 < length reason) ''change_reason'' ''change_reason must be at most 500 characters'')"

definition validateFeatureFlagsMeta :: "'a document_meta_scheme \<Rightarrow> field_errors" where
  "validateFeatureFlagsMeta meta =
     head_errors (validFeatureFlagsDraftStatus (DraftStatus meta)) meta @
     (let reason = go_TrimSpace (ChangeReason meta)
      in if reason = [] then [(''change_reason'', ''change_reason is required'')]
         else add_if (500 < length reason) ''change_reason'' ''change_reason must be at most 500 characters'') @
     updated_at_errors meta"

section \<open>Plans (\<open>plan_catalog.go\<close>)\<close>

text \<open>
  The structs of the registry have the fields of those of the service in \<open>Codex_Config\<close>, so the
  records are shared. \<open>url.Parse\<close> is a parameter: the scheme and the host of a string, \<open>None\<close> when it
  fails.
\<close>

type_synonym url_parser = "string \<Rightarrow> (string \<times> string) option"

definition ValidBillingPeriod :: "string \<Rightarrow> bool" where
  "ValidBillingPeriod value \<longleftrightarrow>
     go_TrimSpace value \<in> {''none'', ''trial'', ''monthly'', ''quarterly'', ''yearly'', ''one_time''}"

definition ValidPlanStatus :: "string \<Rightarrow> bool" where
  "ValidPlanStatus value \<longleftrightarrow> go_TrimSpace value \<in> {''active'', ''hidden'', ''disabled''}"

definition validateEntitlementGrant :: "string \<Rightarrow> CodexPlusEntitlementGrant \<Rightarrow> field_errors" where
  "validateEntitlementGrant field grant =
     add_if (BalanceCredit grant < 0) (field @ ''.balance_credit'') ''balance_credit must be >= 0'' @
     add_if (DurationDays grant < 0) (field @ ''.duration_days'') ''duration_days must be >= 0'' @
     add_if (\<exists>q \<in> set_option (eg_DailyQuota grant). q < 0) (field @ ''.daily_quota'') ''daily_quota must be null or >= 0'' @
     add_if (\<exists>q \<in> set_option (PeriodQuota grant). q < 0) (field @ ''.period_quota'') ''period_quota must be null or >= 0''"

text \<open>Entries that must be valid and new; the first check that fails skips the rest of the entry.\<close>

definition unique_entry ::
    "('a \<Rightarrow> bool) \<Rightarrow> string \<Rightarrow> (nat \<Rightarrow> string) \<Rightarrow> string \<Rightarrow> nat \<Rightarrow> ('a \<rightharpoonup> nat) \<Rightarrow> 'a \<Rightarrow> field_errors \<times> ('a \<rightharpoonup> nat)" where
  "unique_entry valid invalid duplicate field i seen x =
     (if \<not> valid x then ([(indexed field i, invalid)], seen)
      else case seen x of
        Some first \<Rightarrow> ([(indexed field i, duplicate first)], seen)
      | None \<Rightarrow> ([], seen(x \<mapsto> i)))"

definition validatePositiveUniqueInts :: "string \<Rightarrow> int list \<Rightarrow> field_errors" where
  "validatePositiveUniqueInts field values = fst (check_each
     (unique_entry (\<lambda>v. 1 \<le> v) ''entitlement source ids must be >= 1''
       (\<lambda>n. ''entitlement source id duplicates index '' @ go_Itoa n) field) 0 Map.empty values)"

definition validateEntitlementSources :: "string \<Rightarrow> CodexPlusEntitlementSources \<Rightarrow> field_errors" where
  "validateEntitlementSources field sources =
     validatePositiveUniqueInts (field @ ''.subscription_group_ids'') (SubscriptionGroupIDs sources) @
     validatePositiveUniqueInts (field @ ''.api_key_group_ids'') (APIKeyGroupIDs sources) @
     fst (check_each (unique_entry (\<lambda>t. t \<noteq> []) ''group_names entries must be non-empty''
       (\<lambda>n. ''group_names entry duplicates index '' @ go_Itoa n) (field @ ''.group_names'')) 0 Map.empty
       (map go_TrimSpace (GroupNames sources)))"

definition validateModelGroups :: "string \<Rightarrow> string list \<Rightarrow> field_errors" where
  "validateModelGroups field groups =
     (if groups = [] then [(field, ''model_groups must contain at least one group'')]
      else fst (check_each (unique_entry ident_pattern ''model_groups entries must match ^[a-z][a-z0-9_-]{1,63}$''
        (\<lambda>n. ''model_groups entry duplicates index '' @ go_Itoa n) field) 0 Map.empty (map go_TrimSpace groups)))"

definition validateCommerceURL :: "url_parser \<Rightarrow> string \<Rightarrow> string option \<Rightarrow> field_errors" where
  "validateCommerceURL parse field raw =
     (case raw of
        None \<Rightarrow> []
      | Some u \<Rightarrow>
          add_if (go_TrimSpace u = [] \<or>
              (case parse (go_TrimSpace u) of None \<Rightarrow> True | Some (scheme, host) \<Rightarrow> scheme = [] \<or> host = []))
            field ''commerce URL must be null or an absolute URI'')"

definition validatePlanCopyKey :: "string \<Rightarrow> string \<Rightarrow> field_errors" where
  "validatePlanCopyKey field value = add_if (\<not> copy_key_pattern (go_TrimSpace value)) field
     ''copy key is required and must match ^[a-z][a-z0-9_.-]{2,127}$''"

definition validateCopyKeys :: "string \<Rightarrow> CodexPlusPlanCopyKeys \<Rightarrow> field_errors" where
  "validateCopyKeys field keys =
     validatePlanCopyKey (field @ ''.purchase_action'') (pk_PurchaseAction keys) @
     validatePlanCopyKey (field @ ''.renew_action'') (pk_RenewAction keys) @
     validatePlanCopyKey (field @ ''.upgrade_action'') (UpgradeAction keys) @
     validatePlanCopyKey (field @ ''.not_purchased_message'') (NotPurchasedMessage keys) @
     validatePlanCopyKey (field @ ''.expired_message'') (pk_ExpiredMessage keys) @
     validatePlanCopyKey (field @ ''.low_balance_message'') (pk_LowBalanceMessage keys)"

text \<open>The checks of one plan after its id, which do not depend on the other plans.\<close>

definition plan_field_errors :: "url_parser \<Rightarrow> (string \<Rightarrow> string) \<Rightarrow> CodexPlusPlan \<Rightarrow> field_errors" where
  "plan_field_errors parse field plan =
     add_if (trimmedLen (pl_Name plan) = 0 \<or> 80 < trimmedLen (pl_Name plan)) (field ''name'')
       ''name is required and must be at most 80 characters'' @
     add_if (trimmedLen (pl_Description plan) = 0 \<or> 400 < trimmedLen (pl_Description plan)) (field ''description'')
       ''description is required and must be at most 400 characters'' @
     add_if (\<not> ValidBillingPeriod (BillingPeriod plan)) (field ''billing_period'')
       ''billing_period must be none, trial, monthly, quarterly, yearly, or one_time'' @
     add_if (\<not> currency_pattern (go_TrimSpace (pl_Currency plan))) (field ''currency'')
       ''currency must be an ISO 4217 uppercase code'' @
     add_if (PriceAmountMinor plan < 0) (field ''price_amount_minor'') ''price_amount_minor must be >= 0'' @
     add_if (go_TrimSpace (DisplayPrice plan) = []) (field ''display_price'')
       ''display_price is required and must be backend supplied'' @
     validateEntitlementGrant (field ''entitlement_grant'') (EntitlementGrant plan) @
     validateEntitlementSources (field ''entitlement_sources'') (EntitlementSources plan) @
     validateModelGroups (field ''model_groups'') (pl_ModelGroups plan) @
     add_if (\<not> ident_pattern (go_TrimSpace (UsagePolicyID plan))) (field ''usage_policy_id'')
       ''usage_policy_id is required and must match ^[a-z][a-z0-9_-]{1,63}$'' @
     validateCommerceURL parse (field ''purchase_url'') (PurchaseURL plan) @
     validateCommerceURL parse (field ''renew_url'') (RenewURL plan) @
     validateCopyKeys (field ''copy_keys'') (pl_CopyKeys plan) @
     add_if (\<not> ValidPlanStatus (pl_Status plan)) (field ''status'') ''status must be active, hidden, or disabled'' @
     add_if (pl_SortOrder plan < 0) (field ''sort_order'') ''sort_order must be >= 0'' @
     add_if (pl_Status plan \<noteq> ''active'' \<and> IsListed plan) (field ''is_listed'') ''only active plans can be listed'' @
     add_if (PurchaseURL plan \<noteq> None \<and> (\<not> IsListed plan \<or> pl_Status plan \<noteq> ''active'')) (field ''purchase_url'')
       ''unlisted, hidden, or disabled plans cannot be purchased'' @
     add_if (pl_Status plan = ''disabled'' \<and> RenewURL plan \<noteq> None) (field ''renew_url'') ''disabled plans cannot be renewed''"

definition catalog_plan ::
    "url_parser \<Rightarrow> nat \<Rightarrow> (string \<rightharpoonup> nat) \<Rightarrow> CodexPlusPlan \<Rightarrow> field_errors \<times> (string \<rightharpoonup> nat)" where
  "catalog_plan parse i seen plan =
     (let field = (\<lambda>name. indexed ''plans'' i @ ''.'' @ name);
          planID = go_TrimSpace (PlanID plan);
          (id_errors, seen') =
            (if \<not> ident_pattern planID
             then ([(field ''plan_id'', ''plan_id must match ^[a-z][a-z0-9_-]{1,63}$'')], seen)
             else case seen planID of
               Some first \<Rightarrow> ([(field ''plan_id'', ''plan_id duplicates '' @ indexed ''plans'' first @ ''.plan_id'')], seen)
             | None \<Rightarrow> ([], seen(planID \<mapsto> i)))
      in (id_errors @ plan_field_errors parse field plan, seen'))"

definition ValidatePlanCatalog :: "url_parser \<Rightarrow> CodexPlusPlanCatalog \<Rightarrow> ValidationError option" where
  "ValidatePlanCatalog parse catalog = Err ''plan_catalog''
     (validatePlanCatalogMeta catalog @
      (if Plans catalog = [] then [(''plans'', ''plans must contain at least one plan'')]
       else fst (check_each (catalog_plan parse) 0 Map.empty (Plans catalog))))"

section \<open>Models (\<open>model_catalog.go\<close>)\<close>

definition ValidModelCatalogRolloutChannel :: "string \<Rightarrow> bool" where
  "ValidModelCatalogRolloutChannel value \<longleftrightarrow> go_TrimSpace value \<in> {''internal'', ''canary'', ''stable'', ''deprecated''}"

definition ValidModelCatalogQualityTier :: "string \<Rightarrow> bool" where
  "ValidModelCatalogQualityTier value \<longleftrightarrow> go_TrimSpace value \<in> {''standard'', ''premium'', ''experimental'', ''legacy''}"

definition validateOptionalModelID :: "string \<Rightarrow> string option \<Rightarrow> field_errors" where
  "validateOptionalModelID field modelID =
     (case modelID of
        None \<Rightarrow> []
      | Some m \<Rightarrow>
          if go_TrimSpace m = [] then [(field, ''model_id reference must be null or non-empty'')]
          else add_if (\<not> model_id_pattern (go_TrimSpace m)) field ''model_id reference must match ^[a-zA-Z0-9._:-]{2,128}$'')"

definition operator_tag :: "string \<Rightarrow> nat \<Rightarrow> (string \<rightharpoonup> nat) \<Rightarrow> string \<Rightarrow> field_errors \<times> (string \<rightharpoonup> nat)" where
  "operator_tag field i seen tag0 =
     (let tag = go_TrimSpace tag0
      in if tag = [] then ([(indexed field i, ''operator tag must be non-empty'')], seen)
         else let long = add_if (40 < RuneCount tag) (indexed field i) ''operator tag must be at most 40 characters''
              in case seen tag of
                   Some first \<Rightarrow> (long @ [(indexed field i, ''operator tag duplicates '' @ indexed field first)], seen)
                 | None \<Rightarrow> (long, seen(tag \<mapsto> i)))"

definition validateOperatorTags :: "string \<Rightarrow> string list \<Rightarrow> field_errors" where
  "validateOperatorTags field tags = fst (check_each (operator_tag field) 0 Map.empty tags)"

definition blank :: "string option \<Rightarrow> bool" where
  "blank s = (case s of None \<Rightarrow> True | Some t \<Rightarrow> go_TrimSpace t = [])"

definition validateModelCatalogModelShape :: "string \<Rightarrow> CodexPlusModel \<Rightarrow> field_errors" where
  "validateModelCatalogModelShape path model =
     (let modelID = go_TrimSpace (ModelID model); displayName = go_TrimSpace (DisplayName model);
          modelGroup = go_TrimSpace (ModelGroup model); bm = BillingMultiplier model;
          key_ok = (case DisabledMessageKey model of None \<Rightarrow> False | Some k \<Rightarrow> copy_key_pattern (go_TrimSpace k))
      in
       (if modelID = [] then [(path @ ''.model_id'', ''model_id is required'')]
        else add_if (\<not> model_id_pattern modelID) (path @ ''.model_id'') ''model_id must match ^[a-zA-Z0-9._:-]{2,128}$'') @
       (if displayName = [] then [(path @ ''.display_name'', ''display_name is required'')]
        else add_if (80 < RuneCount displayName) (path @ ''.display_name'') ''display_name must be at most 80 characters'') @
       add_if (go_TrimSpace (RouteModel model) = []) (path @ ''.route_model'') ''route_model is required'' @
       (if modelGroup = [] then [(path @ ''.model_group'', ''model_group is required'')]
        else add_if (\<not> ident_pattern modelGroup) (path @ ''.model_group'')
          ''model_group must match ^[a-z][a-z0-9_-]{1,63}$'') @
       add_if (ContextWindow model < 1024) (path @ ''.context_window'') ''context_window must be at least 1024'' @
       add_if (bm \<le> Fin 0 \<or> bm = NaN \<or> bm = PInf \<or> bm = NInf) (path @ ''.billing_multiplier'')
         ''billing_multiplier must be a positive finite number'' @
       add_if (\<exists>r \<in> set_option (DisabledReason model). 160 < RuneCount r) (path @ ''.disabled_reason'')
         ''disabled_reason must be at most 160 characters'' @
       (if \<not> IsEnabled model then
          add_if (blank (DisabledReason model)) (path @ ''.disabled_reason'') ''disabled model requires disabled_reason'' @
          add_if (\<not> key_ok) (path @ ''.disabled_message_key'') ''disabled model requires a valid disabled_message_key''
        else add_if (\<not> blank (DisabledMessageKey model) \<and> \<not> key_ok) (path @ ''.disabled_message_key'')
          ''disabled_message_key must match ^[a-z][a-z0-9_.-]{2,127}$'') @
       add_if (\<not> ValidModelCatalogRolloutChannel (RolloutChannel model)) (path @ ''.rollout_channel'')
         ''rollout_channel must be internal, canary, stable, or deprecated'' @
       add_if (\<not> ValidModelCatalogQualityTier (QualityTier model)) (path @ ''.quality_tier'')
         ''quality_tier must be standard, premium, experimental, or legacy'' @
       add_if (RolloutChannel model = ''deprecated'' \<and> blank (DeprecationAt model)) (path @ ''.deprecation_at'')
         ''deprecated model requires deprecation_at'' @
       add_if (\<exists>t \<in> set_option (DeprecationAt model). go_TrimSpace t \<noteq> [] \<and> \<not> rfc3339_ok (go_TrimSpace t))
         (path @ ''.deprecation_at'') ''deprecation_at must be RFC3339'' @
       validateOptionalModelID (path @ ''.fallback_model_id'') (FallbackModelID model) @
       validateOptionalModelID (path @ ''.disabled_replacement_model_id'') (DisabledReplacementModelID model) @
       add_if (md_SortOrder model < 0) (path @ ''.sort_order'') ''sort_order must be at least 0'' @
       validateOperatorTags (path @ ''.operator_tags'') (OperatorTags model))"

definition validateModelCatalogReference ::
    "string \<Rightarrow> string \<Rightarrow> string option \<Rightarrow> (string \<rightharpoonup> nat) \<Rightarrow> field_errors" where
  "validateModelCatalogReference field sourceModelID targetRef modelIDs =
     (case targetRef of
        None \<Rightarrow> []
      | Some t \<Rightarrow>
          (let target = go_TrimSpace t
           in if target = [] \<or> \<not> model_id_pattern target then []
              else if modelIDs target = None then [(field, ''referenced model_id must exist in models'')]
              else add_if (sourceModelID \<noteq> [] \<and> target = sourceModelID) field
                ''referenced model_id must not point to itself''))"

definition validateModelCatalogReferences :: "string \<Rightarrow> CodexPlusModel \<Rightarrow> (string \<rightharpoonup> nat) \<Rightarrow> field_errors" where
  "validateModelCatalogReferences path model modelIDs =
     (let modelID = go_TrimSpace (ModelID model)
      in validateModelCatalogReference (path @ ''.fallback_model_id'') modelID (FallbackModelID model) modelIDs @
         validateModelCatalogReference (path @ ''.disabled_replacement_model_id'') modelID
           (DisabledReplacementModelID model) modelIDs)"

definition catalog_model :: "nat \<Rightarrow> (string \<rightharpoonup> nat) \<Rightarrow> CodexPlusModel \<Rightarrow> field_errors \<times> (string \<rightharpoonup> nat)" where
  "catalog_model i modelIDs model =
     (let path = indexed ''models'' i; modelID = go_TrimSpace (ModelID model);
          (id_errors, modelIDs') =
            (if modelID \<noteq> [] \<and> model_id_pattern modelID
             then case modelIDs modelID of
                 Some first \<Rightarrow> ([(path @ ''.model_id'', ''model_id duplicates '' @ indexed ''models'' first @ ''.model_id'')], modelIDs)
               | None \<Rightarrow> ([], modelIDs(modelID \<mapsto> i))
             else ([], modelIDs));
          default_errors =
            (if IsDefault model
             then add_if (\<not> IsEnabled model) (path @ ''.is_enabled'') ''default model must be enabled'' @
                  add_if (IsHidden model) (path @ ''.is_hidden'') ''default model must not be hidden''
             else [])
      in (validateModelCatalogModelShape path model @ id_errors @ default_errors, modelIDs'))"

definition default_count_errors :: "CodexPlusModel list \<Rightarrow> field_errors" where
  "default_count_errors models =
     (let defaultCount = length (filter IsDefault models)
      in if defaultCount = 0 then [(''models'', ''exactly one model must be marked as default'')]
         else add_if (1 < defaultCount) ''models'' ''only one model can be marked as default'')"

definition ValidateModelCatalog :: "CodexPlusModelCatalog \<Rightarrow> ValidationError option" where
  "ValidateModelCatalog catalog = Err ''model_catalog''
     (validateModelCatalogMeta catalog @
      (if Models catalog = [] then [(''models'', ''models must contain at least one model'')]
       else let (errors, modelIDs) = check_each catalog_model 0 Map.empty (Models catalog)
            in errors @ default_count_errors (Models catalog) @
               fst (check_each (\<lambda>i s model. (validateModelCatalogReferences (indexed ''models'' i) model modelIDs, s)) 0 ()
                 (Models catalog))))"

definition DefaultModel :: "CodexPlusModelCatalog \<Rightarrow> CodexPlusModel option" where
  "DefaultModel catalog = find IsDefault (Models catalog)"

definition ModelByID :: "CodexPlusModelCatalog \<Rightarrow> string \<Rightarrow> CodexPlusModel option" where
  "ModelByID catalog modelID = find (\<lambda>m. ModelID m = go_TrimSpace modelID) (Models catalog)"

definition EnabledModels :: "CodexPlusModelCatalog \<Rightarrow> CodexPlusModel list" where
  "EnabledModels catalog = filter IsEnabled (Models catalog)"

definition VisibleEnabledModels :: "CodexPlusModelCatalog \<Rightarrow> CodexPlusModel list" where
  "VisibleEnabledModels catalog = filter (\<lambda>m. IsEnabled m \<and> \<not> IsHidden m) (Models catalog)"

definition ModelsByGroup :: "CodexPlusModelCatalog \<Rightarrow> (string \<rightharpoonup> CodexPlusModel list)" where
  "ModelsByGroup catalog = fold (\<lambda>model groups.
     let g = go_TrimSpace (ModelGroup model)
     in if g = [] then groups
        else groups(g \<mapsto> (case groups g of None \<Rightarrow> [] | Some ms \<Rightarrow> ms) @ [model])) (Models catalog) Map.empty"

section \<open>Usage policies (\<open>usage_policy.go\<close>)\<close>

record UsagePolicyCatalog = document_meta +
  up_Policies :: "UsagePolicyRule list"

definition ValidUsagePolicyExpiredBehavior :: "string \<Rightarrow> bool" where
  "ValidUsagePolicyExpiredBehavior value \<longleftrightarrow> go_TrimSpace value \<in> {''block'', ''degrade'', ''allow_grace_period''}"

definition ValidUsagePolicyOverageBehavior :: "string \<Rightarrow> bool" where
  "ValidUsagePolicyOverageBehavior value \<longleftrightarrow> go_TrimSpace value \<in> {''block'', ''degrade'', ''allow_paid_overage''}"

definition ValidDeviceSupportUnlockPolicy :: "string \<Rightarrow> bool" where
  "ValidDeviceSupportUnlockPolicy value \<longleftrightarrow> go_TrimSpace value \<in> {''disabled'', ''support_only'', ''admin_or_support''}"

definition ValidDeviceRevokedBehavior :: "string \<Rightarrow> bool" where
  "ValidDeviceRevokedBehavior value \<longleftrightarrow> go_TrimSpace value \<in> {''block_bootstrap'', ''allow_usage_view_only''}"

definition DefaultDeviceRevokeReasonTaxonomy :: "string list" where
  "DefaultDeviceRevokeReasonTaxonomy =
     [''user_requested'', ''admin_revoked'', ''device_limit_exceeded'', ''risk_control'', ''inactive'', ''compromised'',
      ''support_unlock'', ''unknown'']"

definition ValidDeviceRevokeReason :: "string \<Rightarrow> bool" where
  "ValidDeviceRevokeReason value \<longleftrightarrow>
     go_TrimSpace value \<in> {''user_requested'', ''admin_revoked'', ''device_limit_exceeded'', ''risk_control'', ''inactive'',
       ''compromised'', ''support_unlock'', ''unknown''}"

definition validateNonNegative :: "string \<Rightarrow> int \<Rightarrow> field_errors" where
  "validateNonNegative field value = add_if (value < 0) field ''must be greater than or equal to 0''"

definition validateAtLeastOne :: "string \<Rightarrow> int \<Rightarrow> field_errors" where
  "validateAtLeastOne field value = add_if (value < 1) field ''must be greater than or equal to 1''"

definition validateCopyKey :: "string \<Rightarrow> string \<Rightarrow> field_errors" where
  "validateCopyKey field value =
     (if go_TrimSpace value = [] then [(field, ''copy key is required'')]
      else add_if (\<not> copy_key_pattern (go_TrimSpace value)) field ''copy key must match ^[a-z][a-z0-9_.-]{2,127}$'')"

text \<open>An entry that does not match the pattern is still remembered; \<open>%q\<close> is cut out of the message.\<close>

definition policy_id_entry :: "string \<Rightarrow> nat \<Rightarrow> (string \<rightharpoonup> nat) \<Rightarrow> string \<Rightarrow> field_errors \<times> (string \<rightharpoonup> nat)" where
  "policy_id_entry field i seen value =
     (let trimmed = go_TrimSpace value
      in if trimmed = [] then ([(indexed field i, ''value is required'')], seen)
         else let pattern = add_if (\<not> ident_pattern trimmed) (indexed field i) ''value must match ^[a-z][a-z0-9_-]{1,63}$''
              in case seen trimmed of
                   Some previous \<Rightarrow> (pattern @ [(indexed field i, ''duplicate value already used at '' @ indexed field previous)], seen)
                 | None \<Rightarrow> (pattern, seen(trimmed \<mapsto> i)))"

definition validateUsagePolicyIDList :: "string \<Rightarrow> string list \<Rightarrow> field_errors" where
  "validateUsagePolicyIDList field values = fst (check_each (policy_id_entry field) 0 Map.empty values)"

definition validateUsagePolicyAppliesTo :: "string \<Rightarrow> CodexPlusUsagePolicyAppliesTo \<Rightarrow> field_errors" where
  "validateUsagePolicyAppliesTo prefix appliesTo =
     validateUsagePolicyIDList (prefix @ ''.plan_ids'') (at_PlanIDs appliesTo) @
     validateUsagePolicyIDList (prefix @ ''.model_groups'') (at_ModelGroups appliesTo) @
     validateUsagePolicyIDList (prefix @ ''.user_segments'') (UserSegments appliesTo)"

definition validateUsagePolicyCopyKeys :: "string \<Rightarrow> CodexPlusUsagePolicyCopyKeys \<Rightarrow> field_errors" where
  "validateUsagePolicyCopyKeys prefix keys =
     validateCopyKey (prefix @ ''.low_balance_message'') (uk_LowBalanceMessage keys) @
     validateCopyKey (prefix @ ''.insufficient_balance_message'') (uk_InsufficientBalanceMessage keys) @
     validateCopyKey (prefix @ ''.rate_limited_message'') (uk_RateLimitedMessage keys) @
     validateCopyKey (prefix @ ''.expired_message'') (uk_ExpiredMessage keys) @
     validateCopyKey (prefix @ ''.renew_action'') (uk_RenewAction keys) @
     validateCopyKey (prefix @ ''.purchase_action'') (uk_PurchaseAction keys) @
     validateCopyKey (prefix @ ''.device_revoked_message'') (DeviceRevokedMessage keys)"

definition validateUsagePolicyDeviceMessageKeys :: "string \<Rightarrow> CodexPlusUsagePolicyDeviceMessageKeys \<Rightarrow> field_errors" where
  "validateUsagePolicyDeviceMessageKeys prefix keys =
     validateCopyKey (prefix @ ''.limit_reached'') (LimitReached keys) @
     validateCopyKey (prefix @ ''.replacement_cooldown'') (ReplacementCooldown keys) @
     validateCopyKey (prefix @ ''.revoked'') (Revoked keys) @
     validateCopyKey (prefix @ ''.support_unlock_required'') (SupportUnlockRequired keys)"

definition validateUsagePolicyDevicePolicy :: "string \<Rightarrow> CodexPlusUsagePolicyDevicePolicy \<Rightarrow> field_errors" where
  "validateUsagePolicyDevicePolicy prefix policy =
     (let taxonomy = prefix @ ''.revoke_reason_taxonomy''
      in validateAtLeastOne (prefix @ ''.max_devices_per_user'') (MaxDevicesPerUser policy) @
         validateNonNegative (prefix @ ''.replacement_cooldown_hours'') (ReplacementCooldownHours policy) @
         add_if (RevokeReasonTaxonomy policy = []) taxonomy ''at least one revoke reason is required'' @
         fst (check_each (unique_entry ValidDeviceRevokeReason ''revoke reason is not allowed''
           (\<lambda>n. ''duplicate revoke reason already used at '' @ indexed taxonomy n) taxonomy) 0 Map.empty
           (map go_TrimSpace (RevokeReasonTaxonomy policy))) @
         add_if (\<not> ValidDeviceSupportUnlockPolicy (SupportUnlockPolicy policy)) (prefix @ ''.support_unlock_policy'')
           ''support_unlock_policy must be disabled, support_only, or admin_or_support'' @
         add_if (\<not> ValidDeviceRevokedBehavior (RevokedBehavior policy)) (prefix @ ''.revoked_behavior'')
           ''revoked_behavior must be block_bootstrap or allow_usage_view_only'' @
         validateUsagePolicyDeviceMessageKeys (prefix @ ''.message_keys'') (MessageKeys policy))"

text \<open>The checks of a rule after its id.\<close>

definition rule_field_errors :: "(string \<Rightarrow> string) \<Rightarrow> 'a UsagePolicyRule_scheme \<Rightarrow> field_errors" where
  "rule_field_errors path policy =
     validateUsagePolicyAppliesTo (path ''applies_to'') (AppliesTo policy) @
     validateNonNegative (path ''low_balance_threshold'') (LowBalanceThreshold policy) @
     validateNonNegative (path ''daily_quota'') (ur_DailyQuota policy) @
     (case MonthlyQuota policy of None \<Rightarrow> [] | Some q \<Rightarrow> validateNonNegative (path ''monthly_quota'') q) @
     validateAtLeastOne (path ''concurrency_limit'') (ConcurrencyLimit policy) @
     validateAtLeastOne (path ''rpm_limit'') (RPMLimit policy) @
     validateAtLeastOne (path ''tpm_limit'') (TPMLimit policy) @
     validateAtLeastOne (path ''burst_limit'') (BurstLimit policy) @
     validateAtLeastOne (path ''rate_limit_window_seconds'') (RateLimitWindowSeconds policy) @
     add_if (\<not> ValidUsagePolicyExpiredBehavior (ExpiredBehavior policy)) (path ''expired_behavior'')
       ''expired_behavior must be block, degrade, or allow_grace_period'' @
     validateNonNegative (path ''grace_period_hours'') (GracePeriodHours policy) @
     add_if (\<not> ValidUsagePolicyOverageBehavior (OverageBehavior policy)) (path ''overage_behavior'')
       ''overage_behavior must be block, degrade, or allow_paid_overage'' @
     validateUsagePolicyCopyKeys (path ''copy_keys'') (ur_CopyKeys policy) @
     validateUsagePolicyDevicePolicy (path ''device_policy'') (DevicePolicy policy)"

definition validateUsagePolicyRule ::
    "nat \<Rightarrow> (string \<rightharpoonup> nat) \<Rightarrow> 'a UsagePolicyRule_scheme \<Rightarrow> field_errors \<times> (string \<rightharpoonup> nat)" where
  "validateUsagePolicyRule index seen policy =
     (let path = (\<lambda>field. indexed ''policies'' index @ ''.'' @ field);
          id = go_TrimSpace (PolicyID policy);
          (id_errors, seen') =
            (if id = [] then ([(path ''policy_id'', ''policy_id is required'')], seen)
             else let pattern = add_if (\<not> ident_pattern id) (path ''policy_id'') ''policy_id must match ^[a-z][a-z0-9_-]{1,63}$''
                  in case seen id of
                       Some previous \<Rightarrow>
                         (pattern @ [(path ''policy_id'', ''duplicate policy_id already used by '' @ indexed ''policies'' previous)], seen)
                     | None \<Rightarrow> (pattern, seen(id \<mapsto> index)))
      in (id_errors @ rule_field_errors path policy, seen'))"

definition ValidateUsagePolicyCatalog :: "UsagePolicyCatalog \<Rightarrow> ValidationError option" where
  "ValidateUsagePolicyCatalog catalog = Err ''usage_policy''
     (validateUsagePolicyMeta catalog @
      (if up_Policies catalog = [] then [(''policies'', ''at least one usage policy is required'')]
       else fst (check_each validateUsagePolicyRule 0 Map.empty (up_Policies catalog))))"

section \<open>Feature flags (\<open>feature_flags.go\<close>)\<close>

record FeatureFlags = CodexPlusFeatureFlagsDoc +
  DiagnosticExportRedactionReady :: bool

definition allFeatureFlagNames :: "string list" where
  "allFeatureFlagNames =
     [''advanced_provider_config'', ''install_assistant'', ''new_user_tutorial'', ''model_selector'', ''diagnostic_export'',
      ''announcements'', ''force_update_prompt'', ''strict_device_enforcement'']"

definition clientVisibleFeatureFlags :: "string list" where
  "clientVisibleFeatureFlags =
     [''advanced_provider_config'', ''install_assistant'', ''new_user_tutorial'', ''model_selector'', ''diagnostic_export'',
      ''announcements'', ''force_update_prompt'']"

definition AllFeatureFlagNames :: "string list" where
  "AllFeatureFlagNames = allFeatureFlagNames"

definition validFeatureFlagName :: "string \<Rightarrow> bool" where
  "validFeatureFlagName value = list_ex ((=) value) allFeatureFlagNames"

definition exposed_flag ::
    "string \<Rightarrow> nat \<Rightarrow> (string \<rightharpoonup> string) \<Rightarrow> string \<Rightarrow> field_errors \<times> (string \<rightharpoonup> string)" where
  "exposed_flag side i seen flag =
     (let field = ''exposure.'' @ side
      in if \<not> validFeatureFlagName flag then ([(field, side @ '' contains unknown feature flag '' @ flag)], seen)
         else case seen flag of
           Some prev \<Rightarrow> ([(field, flag @ '' is already listed in '' @ prev)], seen)
         | None \<Rightarrow> ([], seen(flag \<mapsto> side)))"

definition validateFeatureFlagExposure :: "CodexPlusFeatureFlagExposure \<Rightarrow> field_errors" where
  "validateFeatureFlagExposure exposure =
     (let (client_errors, seen1) = check_each (exposed_flag ''client_visible'') 0 Map.empty (ClientVisible exposure);
          (server_errors, seen) = check_each (exposed_flag ''server_only'') 0 seen1 (ServerOnly exposure)
      in client_errors @ server_errors @
         concat (map (\<lambda>flag. add_if (seen flag = None) ''exposure''
           (flag @ '' must be classified as client_visible or server_only'')) allFeatureFlagNames) @
         concat (map (\<lambda>flag. add_if (seen flag \<noteq> Some ''client_visible'') ''exposure.client_visible''
           (flag @ '' must remain client_visible because clients only use it to show or hide entry points''))
           clientVisibleFeatureFlags) @
         add_if (seen ''strict_device_enforcement'' \<noteq> Some ''server_only'') ''exposure.server_only''
           ''strict_device_enforcement must remain server_only because it is a gateway rollout switch'')"

definition validateFeatureFlagCopyKey :: "string \<Rightarrow> string \<Rightarrow> field_errors" where
  "validateFeatureFlagCopyKey field value =
     (if go_TrimSpace value = [] then [(field, field @ '' is required'')]
      else add_if (\<not> copy_key_pattern (go_TrimSpace value)) field (field @ '' must be a stable copy key''))"

definition validateFeatureFlagCopyKeys :: "CodexPlusFeatureFlagCopyKeys \<Rightarrow> field_errors" where
  "validateFeatureFlagCopyKeys keys =
     validateFeatureFlagCopyKey ''copy_keys.force_update_prompt'' (fk_ForceUpdatePrompt keys) @
     validateFeatureFlagCopyKey ''copy_keys.install_assistant_entry'' (InstallAssistantEntry keys) @
     validateFeatureFlagCopyKey ''copy_keys.new_user_tutorial_entry'' (NewUserTutorialEntry keys) @
     validateFeatureFlagCopyKey ''copy_keys.diagnostic_export_entry'' (DiagnosticExportEntry keys) @
     validateFeatureFlagCopyKey ''copy_keys.announcement_entry'' (AnnouncementEntry keys)"

definition ValidateFeatureFlags :: "FeatureFlags \<Rightarrow> ValidationError option" where
  "ValidateFeatureFlags cfg = Err ''feature_flags''
     (validateFeatureFlagsMeta cfg @ validateFeatureFlagExposure (Exposure cfg) @ validateFeatureFlagCopyKeys (fd_CopyKeys cfg) @
      add_if (DiagnosticExport (Flags cfg) \<and> \<not> DiagnosticExportRedactionReady cfg) ''flags.diagnostic_export''
        ''diagnostic_export requires redaction-ready diagnostics before it can be enabled'')"

text \<open>\<open>FeatureFlagValues.UnmarshalJSON\<close> after \<open>json.Unmarshal\<close>: \<open>raw\<close> gives the flags that are present.\<close>

definition FeatureFlagValues_UnmarshalJSON :: "(string \<rightharpoonup> bool) \<Rightarrow> ValidationError + CodexPlusFeatureFlags" where
  "FeatureFlagValues_UnmarshalJSON raw =
     (let missing = filter (\<lambda>n. raw n = None) allFeatureFlagNames; get = (\<lambda>n. raw n = Some True)
      in if missing \<noteq> []
         then Inl \<lparr>ve_Scope = ''feature_flags.flags'',
                ve_Fields = [(''flags'', ''missing required feature flags: '' @ go_Join missing '', '')]\<rparr>
         else Inr \<lparr>AdvancedProviderConfig = get ''advanced_provider_config'', InstallAssistant = get ''install_assistant'',
                NewUserTutorial = get ''new_user_tutorial'', ModelSelector = get ''model_selector'',
                DiagnosticExport = get ''diagnostic_export'', Announcements = get ''announcements'',
                ForceUpdatePrompt = get ''force_update_prompt'',
                StrictDeviceEnforcement = get ''strict_device_enforcement''\<rparr>)"

section \<open>Defaults and samples\<close>

definition DefaultPlanCatalog :: CodexPlusPlanCatalog where
  "DefaultPlanCatalog =
     \<lparr>ConfigVersion = ''plan-catalog.default.v1'', DraftStatus = ''published'', PublishScope = ''production'',
      RollbackFrom = None, UpdatedBy = ''system'', UpdatedAt = ''2026-01-01T00:00:00Z'',
      ChangeReason = ''default plan catalog seed'',
      Plans =
        [\<lparr>PlanID = ''pro_monthly'', pl_Name = ''Codex++ Pro Monthly'',
          pl_Description = ''Monthly Codex++ managed access with configured model groups and quota policy.'',
          BillingPeriod = ''monthly'', pl_Currency = ''USD'', PriceAmountMinor = 1999, DisplayPrice = ''$19.99/month'',
          EntitlementGrant = \<lparr>BalanceCredit = 2000, DurationDays = 30, eg_DailyQuota = Some 500, PeriodQuota = Some 15000\<rparr>,
          EntitlementSources = \<lparr>SubscriptionGroupIDs = [101], APIKeyGroupIDs = [201], GroupNames = [''codex-plus-pro'']\<rparr>,
          pl_ModelGroups = [''codex_standard'', ''codex_premium''], UsagePolicyID = ''pro_monthly_policy'',
          PurchaseURL = Some ''https://codex-plus.local/billing/plans/pro-monthly/purchase'',
          RenewURL = Some ''https://codex-plus.local/billing/plans/pro-monthly/renew'',
          pl_CopyKeys = \<lparr>pk_PurchaseAction = ''billing.action.purchase'', pk_RenewAction = ''billing.action.renew'',
            UpgradeAction = ''billing.action.upgrade'', NotPurchasedMessage = ''billing.message.not_purchased'',
            pk_ExpiredMessage = ''billing.message.expired'', pk_LowBalanceMessage = ''billing.message.low_balance''\<rparr>,
          IsListed = True, pl_Status = ''active'', pl_SortOrder = 10,
          ExternalBillingRefs = \<lparr>ProductID = Some ''codex-plus-pro'', SKUID = Some ''pro-monthly''\<rparr>\<rparr>]\<rparr>"

definition codex_standard :: CodexPlusModel where
  "codex_standard =
     \<lparr>ModelID = ''codex-standard'', DisplayName = ''Codex Standard'', RouteModel = ''gpt-5-mini'', ModelGroup = ''codex'',
      ContextWindow = 128000, BillingMultiplier = Fin 1, IsDefault = True, IsEnabled = True, IsHidden = False,
      DisabledReason = None, RolloutChannel = ''stable'', QualityTier = ''standard'', FallbackModelID = None,
      DeprecationAt = None, DisabledReplacementModelID = None, DisabledMessageKey = None, md_SortOrder = 10,
      OperatorTags = [''default'', ''public'']\<rparr>"

definition codex_pro :: CodexPlusModel where
  "codex_pro =
     \<lparr>ModelID = ''codex-pro'', DisplayName = ''Codex Pro'', RouteModel = ''gpt-5'', ModelGroup = ''codex'',
      ContextWindow = 256000, BillingMultiplier = Fin (5 / 2), IsDefault = False, IsEnabled = True, IsHidden = False,
      DisabledReason = None, RolloutChannel = ''stable'', QualityTier = ''premium'', FallbackModelID = Some ''codex-standard'',
      DeprecationAt = None, DisabledReplacementModelID = None, DisabledMessageKey = None, md_SortOrder = 20,
      OperatorTags = [''premium'']\<rparr>"

definition DefaultModelCatalog :: CodexPlusModelCatalog where
  "DefaultModelCatalog =
     \<lparr>ConfigVersion = ''model-catalog-v1'', DraftStatus = ''published'', PublishScope = ''production'',
      RollbackFrom = None, UpdatedBy = ''system'', UpdatedAt = ''2026-01-01T00:00:00Z'',
      ChangeReason = ''Initial Codex++ model catalog defaults'', Models = [codex_standard, codex_pro]\<rparr>"

definition SampleModelCatalog :: CodexPlusModelCatalog where
  "SampleModelCatalog = DefaultModelCatalog
     \<lparr>ConfigVersion := ''model-catalog-sample-v1'',
      ChangeReason := ''Sample model catalog covering hidden, deprecated, fallback, and disabled fields'',
      Models := Models DefaultModelCatalog @
        [\<lparr>ModelID = ''codex-lab'', DisplayName = ''Codex Lab'', RouteModel = ''gpt-5-codex-lab'', ModelGroup = ''codex'',
          ContextWindow = 192000, BillingMultiplier = Fin (7 / 4), IsDefault = False, IsEnabled = True, IsHidden = True,
          DisabledReason = None, RolloutChannel = ''canary'', QualityTier = ''experimental'',
          FallbackModelID = Some ''codex-standard'', DeprecationAt = None, DisabledReplacementModelID = None,
          DisabledMessageKey = None, md_SortOrder = 30, OperatorTags = [''canary'', ''operator-preview'']\<rparr>,
         \<lparr>ModelID = ''codex-legacy'', DisplayName = ''Codex Legacy'', RouteModel = ''gpt-4.1'', ModelGroup = ''legacy'',
          ContextWindow = 64000, BillingMultiplier = Fin (3 / 4), IsDefault = False, IsEnabled = False, IsHidden = True,
          DisabledReason = Some ''Deprecated route retired after migration to Codex Standard'',
          RolloutChannel = ''deprecated'', QualityTier = ''legacy'', FallbackModelID = Some ''codex-standard'',
          DeprecationAt = Some ''2026-03-01T00:00:00Z'', DisabledReplacementModelID = Some ''codex-standard'',
          DisabledMessageKey = Some ''model.codex-legacy.disabled'', md_SortOrder = 90, OperatorTags = [''deprecated'']\<rparr>]\<rparr>"

definition DefaultUsagePolicyCopyKeys :: CodexPlusUsagePolicyCopyKeys where
  "DefaultUsagePolicyCopyKeys =
     \<lparr>uk_LowBalanceMessage = ''usage.low_balance'', uk_InsufficientBalanceMessage = ''usage.insufficient_balance'',
      uk_RateLimitedMessage = ''usage.rate_limited'', uk_ExpiredMessage = ''usage.expired'',
      uk_RenewAction = ''usage.renew_action'', uk_PurchaseAction = ''usage.purchase_action'',
      DeviceRevokedMessage = ''device.revoked''\<rparr>"

definition DefaultUsagePolicyDeviceMessageKeys :: CodexPlusUsagePolicyDeviceMessageKeys where
  "DefaultUsagePolicyDeviceMessageKeys =
     \<lparr>LimitReached = ''device.limit_reached'', ReplacementCooldown = ''device.replacement_cooldown'',
      Revoked = ''device.revoked'', SupportUnlockRequired = ''device.support_unlock_required''\<rparr>"

definition DefaultUsagePolicyDevicePolicy :: CodexPlusUsagePolicyDevicePolicy where
  "DefaultUsagePolicyDevicePolicy =
     \<lparr>RegistrationRequired = True, MaxDevicesPerUser = 1, AllowSelfServiceReplacement = False,
      ReplacementCooldownHours = 0, StrictEnforcementDefault = False,
      RevokeReasonTaxonomy = DefaultDeviceRevokeReasonTaxonomy, SupportUnlockPolicy = ''support_only'',
      RevokedBehavior = ''block_bootstrap'', MessageKeys = DefaultUsagePolicyDeviceMessageKeys\<rparr>"

definition DefaultUsagePolicyRule :: UsagePolicyRule where
  "DefaultUsagePolicyRule =
     \<lparr>PolicyID = ''default'',
      AppliesTo = \<lparr>at_PlanIDs = [''starter''], at_ModelGroups = [''default''], UserSegments = [''all'']\<rparr>,
      LowBalanceThreshold = 0, ur_DailyQuota = 0, MonthlyQuota = Some 3000000, ConcurrencyLimit = 1, RPMLimit = 1,
      TPMLimit = 1000, BurstLimit = 1, RateLimitWindowSeconds = 60, ExpiredBehavior = ''block'', GracePeriodHours = 0,
      OverageBehavior = ''block'', ur_CopyKeys = DefaultUsagePolicyCopyKeys, DevicePolicy = DefaultUsagePolicyDevicePolicy\<rparr>"

definition DefaultUsagePolicyCatalog :: "int \<Rightarrow> UsagePolicyCatalog" where
  "DefaultUsagePolicyCatalog now =
     \<lparr>ConfigVersion = ''codexplus-mvp-1'', DraftStatus = ''published'', PublishScope = ''production'', RollbackFrom = None,
      UpdatedBy = ''system'', UpdatedAt = go_RFC3339 now, ChangeReason = ''initial Codex++ usage policy config'',
      up_Policies = [DefaultUsagePolicyRule]\<rparr>"

definition SampleUsagePolicyCatalog :: "int \<Rightarrow> UsagePolicyCatalog" where
  "SampleUsagePolicyCatalog now = (DefaultUsagePolicyCatalog now)
     \<lparr>ConfigVersion := ''codexplus-usage-policy-sample-1'', DraftStatus := ''editing'', PublishScope := ''draft'',
      ChangeReason := ''sample Codex++ usage policy draft for admin review'',
      up_Policies := up_Policies (DefaultUsagePolicyCatalog now) @
        [\<lparr>PolicyID = ''pro'',
          AppliesTo = \<lparr>at_PlanIDs = [''pro''], at_ModelGroups = [''default'', ''premium''], UserSegments = [''paid'']\<rparr>,
          LowBalanceThreshold = 50000, ur_DailyQuota = 500000, MonthlyQuota = Some 30000000, ConcurrencyLimit = 4,
          RPMLimit = 120, TPMLimit = 200000, BurstLimit = 20, RateLimitWindowSeconds = 60,
          ExpiredBehavior = ''allow_grace_period'', GracePeriodHours = 24, OverageBehavior = ''allow_paid_overage'',
          ur_CopyKeys = DefaultUsagePolicyCopyKeys,
          DevicePolicy = \<lparr>RegistrationRequired = True, MaxDevicesPerUser = 3, AllowSelfServiceReplacement = True,
            ReplacementCooldownHours = 72, StrictEnforcementDefault = True,
            RevokeReasonTaxonomy = DefaultDeviceRevokeReasonTaxonomy, SupportUnlockPolicy = ''admin_or_support'',
            RevokedBehavior = ''block_bootstrap'', MessageKeys = DefaultUsagePolicyDeviceMessageKeys\<rparr>\<rparr>]\<rparr>"

text \<open>The zero time becomes the epoch.\<close>

definition featureFlagsTimestamp :: "int option \<Rightarrow> int" where
  "featureFlagsTimestamp now = (case now of None \<Rightarrow> 0 | Some t \<Rightarrow> t)"

definition DefaultFeatureFlags :: "int option \<Rightarrow> FeatureFlags" where
  "DefaultFeatureFlags now =
     \<lparr>ConfigVersion = ''feature-flags-default-v1'', DraftStatus = ''published'', PublishScope = ''production'',
      RollbackFrom = None, UpdatedBy = ''system'', UpdatedAt = go_RFC3339 (featureFlagsTimestamp now),
      ChangeReason = ''default safe Codex++ feature flag config'',
      Flags = \<lparr>AdvancedProviderConfig = False, InstallAssistant = True, NewUserTutorial = True, ModelSelector = True,
        DiagnosticExport = True, Announcements = True, ForceUpdatePrompt = False, StrictDeviceEnforcement = False\<rparr>,
      Exposure = \<lparr>ClientVisible = clientVisibleFeatureFlags, ServerOnly = [''strict_device_enforcement'']\<rparr>,
      fd_CopyKeys = \<lparr>fk_ForceUpdatePrompt = ''codexplus.update.force_prompt'',
        InstallAssistantEntry = ''codexplus.install_assistant.entry'',
        NewUserTutorialEntry = ''codexplus.tutorial.new_user_entry'',
        DiagnosticExportEntry = ''codexplus.diagnostics.redacted_export_entry'',
        AnnouncementEntry = ''codexplus.announcements.entry''\<rparr>,
      DiagnosticExportRedactionReady = True\<rparr>"

definition SampleFeatureFlags :: "int option \<Rightarrow> FeatureFlags" where
  "SampleFeatureFlags now =
     (let cfg = DefaultFeatureFlags now
      in cfg\<lparr>ConfigVersion := ''feature-flags-sample-v1'', DraftStatus := ''ready_for_review'', PublishScope := ''internal'',
          ChangeReason := ''sample Codex++ feature flag config for admin review'',
          Flags := (Flags cfg)\<lparr>AdvancedProviderConfig := True, ForceUpdatePrompt := True, StrictDeviceEnforcement := True\<rparr>\<rparr>)"

section \<open>Literals\<close>

text \<open>Facts that evaluate the checks of literal strings.\<close>

lemma go_TrimSpace_ends:
  assumes "token_byte x" and "token_byte (last (x # xs))"
  shows "go_TrimSpace (x # xs) = x # xs"
proof -
  have "trim_left_words space_runes (x # xs) = x # xs"
    using assms(1) by (intro trim_left_words_token space_runes_not_token) auto
  moreover have "trim_left_words (map rev space_runes) (rev (x # xs)) = rev (x # xs)"
    using assms(2) by (intro trim_left_words_token space_runes_not_token) (metis hd_rev list.sel(1))
  ultimately show ?thesis by (simp add: go_TrimSpace_def del: rev.simps)
qed

lemmas literal_trim = go_TrimSpace_ends token_byte_def byte_def

lemmas literal_chars = model_id_pattern_def ident_pattern_def ident_char_def copy_key_pattern_def currency_pattern_def
  ascii_lower_def ascii_upper_def ascii_digit_def byte_def

lemmas literal_runes = RuneCount.simps rune_bytes_def byte_def

section \<open>What an accepted catalog satisfies\<close>

lemma Err_None [simp]: "Err scope errs = None \<longleftrightarrow> errs = []"
  by (simp add: Err_def)

lemma add_if_Nil [simp]: "add_if c field message = [] \<longleftrightarrow> \<not> c"
  by (simp add: add_if_def)


text \<open>
  The loops over plans, models, policies, tags, groups and ids have one contract: an entry is accepted
  when it is valid and its key is new, and then its key is remembered. The loop then accepts exactly the
  lists of valid entries with distinct keys, and remembers these keys.
\<close>

locale unique_check =
  fixes check :: "nat \<Rightarrow> ('k \<rightharpoonup> 'v) \<Rightarrow> 'a \<Rightarrow> field_errors \<times> ('k \<rightharpoonup> 'v)"
    and valid :: "'a \<Rightarrow> bool"
    and key :: "'a \<Rightarrow> 'k"
  assumes accepts: "fst (check i seen x) = [] \<longleftrightarrow> valid x \<and> key x \<notin> dom seen"
    and remembers: "fst (check i seen x) = [] \<Longrightarrow> dom (snd (check i seen x)) = insert (key x) (dom seen)"
begin

lemma all_accepted:
  "fst (check_each check i seen xs) = [] \<longleftrightarrow>
    (\<forall>x \<in> set xs. valid x) \<and> distinct (map key xs) \<and> key ` set xs \<inter> dom seen = {}"
proof (induction xs arbitrary: i seen)
  case (Cons x xs)
  show ?case
  proof (cases "fst (check i seen x) = []")
    case True
    then show ?thesis
      using Cons [of "Suc i" "snd (check i seen x)"] accepts [of i seen x] remembers [OF True]
      by (simp add: split_beta Let_def) blast
  next
    case False
    then show ?thesis using accepts [of i seen x] by (auto simp: split_beta Let_def)
  qed
qed simp

lemma all_accepted_from_empty:
  "fst (check_each check i Map.empty xs) = [] \<longleftrightarrow> (\<forall>x \<in> set xs. valid x) \<and> distinct (map key xs)"
  by (simp add: all_accepted)

lemma all_remembered:
  "fst (check_each check i seen xs) = [] \<Longrightarrow> dom (snd (check_each check i seen xs)) = dom seen \<union> key ` set xs"
proof (induction xs arbitrary: i seen)
  case (Cons x xs)
  then have ok: "fst (check i seen x) = []"
      "fst (check_each check (Suc i) (snd (check i seen x)) xs) = []"
    by (simp_all add: split_beta Let_def)
  show ?case using Cons.IH [OF ok(2)] remembers [OF ok(1)] by (simp add: split_beta Let_def)
qed simp

end

text \<open>A loop without a state accepts when it accepts every entry.\<close>

lemma check_each_stateless:
  "fst (check_each (\<lambda>i s x. (g i x, ())) k () xs) = [] \<longleftrightarrow> (\<forall>i < length xs. g (k + i) (xs ! i) = [])"
proof (induction xs arbitrary: k)
  case (Cons x xs)
  show ?case using Cons [of "Suc k"] by (simp add: split_beta Let_def All_less_Suc2)
qed simp

interpretation entries: unique_check "unique_entry valid invalid duplicate field" valid "\<lambda>x. x"
  for valid invalid duplicate field
  by unfold_locales (auto simp: unique_entry_def split: option.splits if_splits)

interpretation tags: unique_check "operator_tag field"
  "\<lambda>t. go_TrimSpace t \<noteq> [] \<and> RuneCount (go_TrimSpace t) \<le> 40" go_TrimSpace
  for field
  by unfold_locales (auto simp: operator_tag_def Let_def split: option.splits if_splits)

interpretation policy_ids: unique_check "policy_id_entry field" "\<lambda>v. ident_pattern (go_TrimSpace v)" go_TrimSpace
  for field
  by unfold_locales (auto simp: policy_id_entry_def Let_def ident_pattern_def split: option.splits if_splits)

interpretation flags: unique_check "exposed_flag side" validFeatureFlagName "\<lambda>x. x"
  for side
  by unfold_locales (auto simp: exposed_flag_def Let_def split: option.splits if_splits)

named_theorems no_errors \<open>when a check adds no error\<close>

declare entries.all_accepted_from_empty [no_errors] tags.all_accepted_from_empty [no_errors]
  policy_ids.all_accepted_from_empty [no_errors]

lemma validatePositiveUniqueInts_ok [no_errors]:
  "validatePositiveUniqueInts field values = [] \<longleftrightarrow> (\<forall>v \<in> set values. 1 \<le> v) \<and> distinct values"
  by (simp add: validatePositiveUniqueInts_def no_errors)

lemma validateEntitlementSources_ok [no_errors]:
  "validateEntitlementSources field sources = [] \<longleftrightarrow>
    (\<forall>v \<in> set (SubscriptionGroupIDs sources) \<union> set (APIKeyGroupIDs sources). 1 \<le> v) \<and>
    distinct (SubscriptionGroupIDs sources) \<and> distinct (APIKeyGroupIDs sources) \<and>
    (\<forall>g \<in> set (GroupNames sources). go_TrimSpace g \<noteq> []) \<and> distinct (map go_TrimSpace (GroupNames sources))"
  by (auto simp: validateEntitlementSources_def no_errors)

lemma validateModelGroups_ok [no_errors]:
  "validateModelGroups field groups = [] \<longleftrightarrow> groups \<noteq> [] \<and>
    (\<forall>g \<in> set groups. ident_pattern (go_TrimSpace g)) \<and> distinct (map go_TrimSpace groups)"
  by (auto simp: validateModelGroups_def no_errors)

lemma validateOperatorTags_ok [no_errors]:
  "validateOperatorTags field xs = [] \<longleftrightarrow>
    (\<forall>t \<in> set xs. go_TrimSpace t \<noteq> [] \<and> RuneCount (go_TrimSpace t) \<le> 40) \<and> distinct (map go_TrimSpace xs)"
  by (simp add: validateOperatorTags_def no_errors)

lemma validateUsagePolicyIDList_ok [no_errors]:
  "validateUsagePolicyIDList field values = [] \<longleftrightarrow>
    (\<forall>v \<in> set values. ident_pattern (go_TrimSpace v)) \<and> distinct (map go_TrimSpace values)"
  by (simp add: validateUsagePolicyIDList_def no_errors)

lemma validateEntitlementGrant_ok [no_errors]:
  "validateEntitlementGrant field grant = [] \<longleftrightarrow> 0 \<le> BalanceCredit grant \<and> 0 \<le> DurationDays grant \<and>
    (\<forall>q \<in> set_option (eg_DailyQuota grant) \<union> set_option (PeriodQuota grant). 0 \<le> q)"
  by (auto simp: validateEntitlementGrant_def)

lemma validateCommerceURL_ok [no_errors]:
  "validateCommerceURL parse field raw = [] \<longleftrightarrow>
    (\<forall>u \<in> set_option raw. go_TrimSpace u \<noteq> [] \<and>
      (\<exists>scheme host. parse (go_TrimSpace u) = Some (scheme, host) \<and> scheme \<noteq> [] \<and> host \<noteq> []))"
  by (auto simp: validateCommerceURL_def split: option.splits)

lemma copy_key_not_empty: "\<not> copy_key_pattern []"
  by (simp add: copy_key_pattern_def)

lemma validateCopyKeys_ok [no_errors]:
  "validateCopyKeys field keys = [] \<longleftrightarrow>
    (\<forall>k \<in> {pk_PurchaseAction keys, pk_RenewAction keys, UpgradeAction keys, NotPurchasedMessage keys,
      pk_ExpiredMessage keys, pk_LowBalanceMessage keys}. copy_key_pattern (go_TrimSpace k))"
  by (simp add: validateCopyKeys_def validatePlanCopyKey_def)

lemma validateCopyKey_ok [no_errors]: "validateCopyKey field value = [] \<longleftrightarrow> copy_key_pattern (go_TrimSpace value)"
  by (auto simp: validateCopyKey_def copy_key_not_empty)

text \<open>The plans, models and rules that are accepted, each by itself.\<close>

definition plan_ok :: "url_parser \<Rightarrow> CodexPlusPlan \<Rightarrow> bool" where
  "plan_ok parse plan \<longleftrightarrow>
     ident_pattern (go_TrimSpace (PlanID plan)) \<and> trimmedLen (pl_Name plan) \<in> {1..80} \<and>
     trimmedLen (pl_Description plan) \<in> {1..400} \<and> ValidBillingPeriod (BillingPeriod plan) \<and>
     currency_pattern (go_TrimSpace (pl_Currency plan)) \<and> 0 \<le> PriceAmountMinor plan \<and>
     go_TrimSpace (DisplayPrice plan) \<noteq> [] \<and>
     validateEntitlementGrant [] (EntitlementGrant plan) = [] \<and>
     validateEntitlementSources [] (EntitlementSources plan) = [] \<and>
     validateModelGroups [] (pl_ModelGroups plan) = [] \<and> ident_pattern (go_TrimSpace (UsagePolicyID plan)) \<and>
     validateCommerceURL parse [] (PurchaseURL plan) = [] \<and> validateCommerceURL parse [] (RenewURL plan) = [] \<and>
     validateCopyKeys [] (pl_CopyKeys plan) = [] \<and> ValidPlanStatus (pl_Status plan) \<and> 0 \<le> pl_SortOrder plan \<and>
     (IsListed plan \<longrightarrow> pl_Status plan = ''active'') \<and>
     (PurchaseURL plan \<noteq> None \<longrightarrow> IsListed plan) \<and>
     (pl_Status plan = ''disabled'' \<longrightarrow> RenewURL plan = None)"

lemma plan_field_errors_ok:
  "plan_field_errors parse field plan = [] \<and> ident_pattern (go_TrimSpace (PlanID plan)) \<longleftrightarrow> plan_ok parse plan"
  by (auto simp: plan_field_errors_def plan_ok_def no_errors)

interpretation plans: unique_check "catalog_plan parse" "plan_ok parse" "\<lambda>p. go_TrimSpace (PlanID p)"
  for parse
proof (unfold_locales)
  fix parse i and seen :: "string \<rightharpoonup> nat" and x :: CodexPlusPlan
  let ?id = "go_TrimSpace (PlanID x)"
  let ?field = "\<lambda>name. indexed ''plans'' i @ ''.'' @ name"
  show "fst (catalog_plan parse i seen x) = [] \<longleftrightarrow> plan_ok parse x \<and> ?id \<notin> dom seen"
    unfolding plan_field_errors_ok [where field = ?field, symmetric]
    by (cases "ident_pattern ?id"; cases "seen ?id") (auto simp: catalog_plan_def Let_def)
  show "dom (snd (catalog_plan parse i seen x)) = insert ?id (dom seen)"
    if "fst (catalog_plan parse i seen x) = []"
    using that by (cases "ident_pattern ?id"; cases "seen ?id") (auto simp: catalog_plan_def Let_def)
qed

lemma plan_catalog_accepts:
  "ValidatePlanCatalog parse catalog = None \<longleftrightarrow>
    validatePlanCatalogMeta catalog = [] \<and> Plans catalog \<noteq> [] \<and>
    (\<forall>plan \<in> set (Plans catalog). plan_ok parse plan) \<and> distinct (map (go_TrimSpace \<circ> PlanID) (Plans catalog))"
  by (simp add: ValidatePlanCatalog_def plans.all_accepted_from_empty comp_def)

definition model_ok :: "CodexPlusModel \<Rightarrow> bool" where
  "model_ok m \<longleftrightarrow>
     model_id_pattern (go_TrimSpace (ModelID m)) \<and>
     go_TrimSpace (DisplayName m) \<noteq> [] \<and> RuneCount (go_TrimSpace (DisplayName m)) \<le> 80 \<and>
     go_TrimSpace (RouteModel m) \<noteq> [] \<and> ident_pattern (go_TrimSpace (ModelGroup m)) \<and> 1024 \<le> ContextWindow m \<and>
     (\<exists>r > 0. BillingMultiplier m = Fin r) \<and>
     (\<forall>r \<in> set_option (DisabledReason m). RuneCount r \<le> 160) \<and>
     (\<not> IsEnabled m \<longrightarrow> \<not> blank (DisabledReason m) \<and> \<not> blank (DisabledMessageKey m)) \<and>
     (\<forall>k \<in> set_option (DisabledMessageKey m). blank (Some k) \<or> copy_key_pattern (go_TrimSpace k)) \<and>
     ValidModelCatalogRolloutChannel (RolloutChannel m) \<and> ValidModelCatalogQualityTier (QualityTier m) \<and>
     (RolloutChannel m = ''deprecated'' \<longrightarrow> \<not> blank (DeprecationAt m)) \<and>
     (\<forall>t \<in> set_option (DeprecationAt m). blank (Some t) \<or> rfc3339_ok (go_TrimSpace t)) \<and>
     (\<forall>r \<in> set_option (FallbackModelID m) \<union> set_option (DisabledReplacementModelID m). model_id_pattern (go_TrimSpace r)) \<and>
     0 \<le> md_SortOrder m \<and> validateOperatorTags [] (OperatorTags m) = []"

lemma validateOptionalModelID_ok [no_errors]:
  "validateOptionalModelID field ref = [] \<longleftrightarrow> (\<forall>r \<in> set_option ref. model_id_pattern (go_TrimSpace r))"
  by (auto simp: validateOptionalModelID_def model_id_pattern_def split: option.splits)

lemma multiplier_ok: "\<not> (bm \<le> Fin 0 \<or> bm = NaN \<or> bm = PInf \<or> bm = NInf) \<longleftrightarrow> (\<exists>r > 0. bm = Fin r)"
  by (cases bm) (auto simp: less_eq_f64_def)

lemma disabled_ok:
  "(if \<not> IsEnabled m then
      add_if (blank (DisabledReason m)) p1 t1 @
      add_if (\<not> (case DisabledMessageKey m of None \<Rightarrow> False | Some k \<Rightarrow> copy_key_pattern (go_TrimSpace k))) p2 t2
    else add_if (\<not> blank (DisabledMessageKey m) \<and>
      \<not> (case DisabledMessageKey m of None \<Rightarrow> False | Some k \<Rightarrow> copy_key_pattern (go_TrimSpace k))) p2 t3) = [] \<longleftrightarrow>
   (\<not> IsEnabled m \<longrightarrow> \<not> blank (DisabledReason m) \<and> \<not> blank (DisabledMessageKey m)) \<and>
   (\<forall>k \<in> set_option (DisabledMessageKey m). blank (Some k) \<or> copy_key_pattern (go_TrimSpace k))"
  by (cases "DisabledMessageKey m") (auto simp: blank_def copy_key_not_empty)

lemma if_append_Nil: "(if b then xs else ys) = [] \<longleftrightarrow> (if b then xs = [] else ys = [])"
  by simp

lemma validateModelCatalogModelShape_ok:
  "validateModelCatalogModelShape path m = [] \<longleftrightarrow> model_ok m"
  unfolding validateModelCatalogModelShape_def Let_def append_is_Nil_conv disabled_ok add_if_Nil multiplier_ok no_errors
  by (auto simp: model_ok_def blank_def model_id_pattern_def ident_pattern_def no_errors split: if_splits)

definition default_ok :: "CodexPlusModel \<Rightarrow> bool" where
  "default_ok m \<longleftrightarrow> (IsDefault m \<longrightarrow> IsEnabled m \<and> \<not> IsHidden m)"

interpretation models: unique_check catalog_model "\<lambda>m. model_ok m \<and> default_ok m" "\<lambda>m. go_TrimSpace (ModelID m)"
proof (unfold_locales)
  fix i and seen :: "string \<rightharpoonup> nat" and x :: CodexPlusModel
  let ?id = "go_TrimSpace (ModelID x)"
  have ok: "model_ok x \<Longrightarrow> ?id \<noteq> [] \<and> model_id_pattern ?id"
    by (auto simp: model_ok_def model_id_pattern_def)
  show "fst (catalog_model i seen x) = [] \<longleftrightarrow> (model_ok x \<and> default_ok x) \<and> ?id \<notin> dom seen"
    using ok by (cases "seen ?id")
      (auto simp: catalog_model_def Let_def validateModelCatalogModelShape_ok default_ok_def)
  show "dom (snd (catalog_model i seen x)) = insert ?id (dom seen)" if "fst (catalog_model i seen x) = []"
    using that ok by (cases "seen ?id")
      (auto simp: catalog_model_def Let_def validateModelCatalogModelShape_ok)
qed

lemma default_count_ok: "default_count_errors models = [] \<longleftrightarrow> length (filter IsDefault models) = 1"
proof -
  have "(if n = 0 then [e] else add_if (1 < n) field message) = [] \<longleftrightarrow> n = 1" for n :: nat and e field message
    by auto
  then show ?thesis by (simp only: default_count_errors_def Let_def)
qed

text \<open>A reference names another model of the catalog.\<close>

definition references_ok :: "string set \<Rightarrow> CodexPlusModel \<Rightarrow> bool" where
  "references_ok ids m \<longleftrightarrow>
     (\<forall>r \<in> set_option (FallbackModelID m) \<union> set_option (DisabledReplacementModelID m).
       go_TrimSpace r \<in> ids - {go_TrimSpace (ModelID m)})"

lemma validateModelCatalogReferences_ok:
  assumes "model_ok m"
  shows "validateModelCatalogReferences path m modelIDs = [] \<longleftrightarrow> references_ok (dom modelIDs) m"
proof -
  have "validateModelCatalogReference field (go_TrimSpace (ModelID m)) ref modelIDs = [] \<longleftrightarrow>
      (\<forall>r \<in> set_option ref. go_TrimSpace r \<in> dom modelIDs - {go_TrimSpace (ModelID m)})"
    if "\<forall>r \<in> set_option ref. model_id_pattern (go_TrimSpace r)" for field ref
    using that assms
    by (cases ref) (auto simp: validateModelCatalogReference_def Let_def model_ok_def model_id_pattern_def)
  then show ?thesis
    using assms by (auto simp: validateModelCatalogReferences_def Let_def references_ok_def model_ok_def)
qed

lemma model_catalog_accepts:
  "ValidateModelCatalog catalog = None \<longleftrightarrow>
    validateModelCatalogMeta catalog = [] \<and>
    (\<forall>m \<in> set (Models catalog). model_ok m \<and> default_ok m \<and>
      references_ok ((go_TrimSpace \<circ> ModelID) ` set (Models catalog)) m) \<and>
    distinct (map (go_TrimSpace \<circ> ModelID) (Models catalog)) \<and>
    length (filter IsDefault (Models catalog)) = 1"
proof (cases "fst (check_each catalog_model 0 Map.empty (Models catalog)) = []")
  case True
  let ?result = "check_each catalog_model 0 Map.empty (Models catalog)"
  have ids: "dom (snd ?result) = (go_TrimSpace \<circ> ModelID) ` set (Models catalog)"
    using models.all_remembered [OF True] by (simp add: comp_def)
  have ok: "\<forall>m \<in> set (Models catalog). model_ok m \<and> default_ok m"
      "distinct (map (go_TrimSpace \<circ> ModelID) (Models catalog))"
    using True by (auto simp: models.all_accepted_from_empty comp_def)
  have refs: "(\<forall>i < length (Models catalog).
        validateModelCatalogReferences (indexed ''models'' (0 + i)) (Models catalog ! i) (snd ?result) = []) \<longleftrightarrow>
      (\<forall>m \<in> set (Models catalog). references_ok ((go_TrimSpace \<circ> ModelID) ` set (Models catalog)) m)"
    using ok(1) by (simp add: validateModelCatalogReferences_ok ids all_set_conv_all_nth)
  show ?thesis
    using True ok refs
    by (auto simp: ValidateModelCatalog_def split_beta Let_def check_each_stateless default_count_ok)
next
  case False
  then show ?thesis
    by (auto simp: ValidateModelCatalog_def split_beta Let_def models.all_accepted_from_empty comp_def)
qed



text \<open>A usage policy that is accepted.\<close>

definition device_policy_ok :: "CodexPlusUsagePolicyDevicePolicy \<Rightarrow> bool" where
  "device_policy_ok d \<longleftrightarrow>
     1 \<le> MaxDevicesPerUser d \<and> 0 \<le> ReplacementCooldownHours d \<and> RevokeReasonTaxonomy d \<noteq> [] \<and>
     (\<forall>r \<in> set (RevokeReasonTaxonomy d). ValidDeviceRevokeReason (go_TrimSpace r)) \<and>
     distinct (map go_TrimSpace (RevokeReasonTaxonomy d)) \<and>
     ValidDeviceSupportUnlockPolicy (SupportUnlockPolicy d) \<and> ValidDeviceRevokedBehavior (RevokedBehavior d) \<and>
     (\<forall>k \<in> {LimitReached (MessageKeys d), ReplacementCooldown (MessageKeys d), Revoked (MessageKeys d),
       SupportUnlockRequired (MessageKeys d)}. copy_key_pattern (go_TrimSpace k))"

definition usage_keys_ok :: "CodexPlusUsagePolicyCopyKeys \<Rightarrow> bool" where
  "usage_keys_ok k \<longleftrightarrow>
     (\<forall>s \<in> {uk_LowBalanceMessage k, uk_InsufficientBalanceMessage k, uk_RateLimitedMessage k, uk_ExpiredMessage k,
       uk_RenewAction k, uk_PurchaseAction k, DeviceRevokedMessage k}. copy_key_pattern (go_TrimSpace s))"

definition rule_ok :: "'a UsagePolicyRule_scheme \<Rightarrow> bool" where
  "rule_ok p \<longleftrightarrow>
     ident_pattern (go_TrimSpace (PolicyID p)) \<and>
     (\<forall>vs \<in> {at_PlanIDs (AppliesTo p), at_ModelGroups (AppliesTo p), UserSegments (AppliesTo p)}.
       validateUsagePolicyIDList [] vs = []) \<and>
     0 \<le> LowBalanceThreshold p \<and> 0 \<le> ur_DailyQuota p \<and> (\<forall>q \<in> set_option (MonthlyQuota p). 0 \<le> q) \<and>
     1 \<le> ConcurrencyLimit p \<and> 1 \<le> RPMLimit p \<and> 1 \<le> TPMLimit p \<and> 1 \<le> BurstLimit p \<and>
     1 \<le> RateLimitWindowSeconds p \<and> ValidUsagePolicyExpiredBehavior (ExpiredBehavior p) \<and>
     0 \<le> GracePeriodHours p \<and> ValidUsagePolicyOverageBehavior (OverageBehavior p) \<and>
     usage_keys_ok (ur_CopyKeys p) \<and> device_policy_ok (DevicePolicy p)"

lemma validateUsagePolicyDevicePolicy_ok:
  "validateUsagePolicyDevicePolicy field d = [] \<longleftrightarrow> device_policy_ok d"
  by (auto simp: validateUsagePolicyDevicePolicy_def validateUsagePolicyDeviceMessageKeys_def Let_def
      device_policy_ok_def no_errors validateAtLeastOne_def validateNonNegative_def)

lemma validateUsagePolicyCopyKeys_ok: "validateUsagePolicyCopyKeys field k = [] \<longleftrightarrow> usage_keys_ok k"
  by (simp add: validateUsagePolicyCopyKeys_def usage_keys_ok_def no_errors)

lemma rule_field_errors_ok:
  "rule_field_errors path p = [] \<and> ident_pattern (go_TrimSpace (PolicyID p)) \<longleftrightarrow> rule_ok p"
  by (cases "MonthlyQuota p")
    (auto simp: rule_field_errors_def rule_ok_def validateUsagePolicyDevicePolicy_ok validateUsagePolicyCopyKeys_ok
      validateUsagePolicyAppliesTo_def no_errors validateAtLeastOne_def validateNonNegative_def)

interpretation rules: unique_check validateUsagePolicyRule rule_ok "\<lambda>p. go_TrimSpace (PolicyID p)"
proof (unfold_locales)
  fix i and seen :: "string \<rightharpoonup> nat" and x :: "'a UsagePolicyRule_scheme"
  let ?id = "go_TrimSpace (PolicyID x)"
  let ?path = "\<lambda>field. indexed ''policies'' i @ ''.'' @ field"
  have Nil: "\<not> ident_pattern []" by (simp add: ident_pattern_def)
  show "fst (validateUsagePolicyRule i seen x) = [] \<longleftrightarrow> rule_ok x \<and> ?id \<notin> dom seen"
    unfolding rule_field_errors_ok [where path = ?path, symmetric]
    using Nil by (cases "?id = []"; cases "seen ?id") (auto simp: validateUsagePolicyRule_def Let_def)
  show "dom (snd (validateUsagePolicyRule i seen x)) = insert ?id (dom seen)"
    if "fst (validateUsagePolicyRule i seen x) = []"
    using that by (cases "?id = []"; cases "seen ?id") (auto simp: validateUsagePolicyRule_def Let_def)
qed

lemma usage_policies_accepts:
  "ValidateUsagePolicyCatalog catalog = None \<longleftrightarrow>
    validateUsagePolicyMeta catalog = [] \<and> up_Policies catalog \<noteq> [] \<and>
    (\<forall>p \<in> set (up_Policies catalog). rule_ok p) \<and> distinct (map (go_TrimSpace \<circ> PolicyID) (up_Policies catalog))"
  by (simp add: ValidateUsagePolicyCatalog_def rules.all_accepted_from_empty comp_def)

text \<open>The exposure of the flags.\<close>

lemma exposed_step:
  "fst (exposed_flag side i seen x) = [] \<Longrightarrow>
    exposed_flag side i seen x = ([], seen(x \<mapsto> side)) \<and> validFeatureFlagName x \<and> x \<notin> dom seen"
  by (auto simp: exposed_flag_def Let_def split: option.splits if_splits)

lemma exposed_sides:
  assumes "fst (check_each (exposed_flag side) i seen xs) = []"
  shows "snd (check_each (exposed_flag side) i seen xs) f = (if f \<in> set xs then Some side else seen f)"
  using assms
proof (induction xs arbitrary: i seen)
  case (Cons x xs)
  then have x: "exposed_flag side i seen x = ([], seen(x \<mapsto> side))"
      and xs: "fst (check_each (exposed_flag side) (Suc i) (seen(x \<mapsto> side)) xs) = []"
    using exposed_step [of side i seen x] by (simp_all add: split_beta Let_def)
  show ?case using Cons.IH [OF xs]
    by (cases "f = x") (simp_all add: x split_beta Let_def fun_upd_same fun_upd_other del: fun_upd_apply)
qed simp

lemma sides_classify:
  assumes "A = insert a V" and "a \<notin> V" and "S = {a}" and "C = V"
  shows "(\<forall>f \<in> A. (if f \<in> S then Some s else if f \<in> C then Some c else None) \<noteq> None) \<and>
    (\<forall>f \<in> V. (if f \<in> S then Some s else if f \<in> C then Some c else None) = Some c) \<and>
    (if a \<in> S then Some s else if a \<in> C then Some c else None) = Some s"
  using assms by auto

text \<open>
  the exposure of the flags is accepted exactly when the client sees the seven flags for its entry
  points, each once, and the server alone sees the rollout switch of the gateway.
\<close>

theorem exposure_accepted_iff:
  "validateFeatureFlagExposure e = [] \<longleftrightarrow>
    mset (ClientVisible e) = mset clientVisibleFeatureFlags \<and> ServerOnly e = [''strict_device_enforcement'']"
proof -
  let ?c = "check_each (exposed_flag ''client_visible'') 0 Map.empty (ClientVisible e)"
  let ?s = "check_each (exposed_flag ''server_only'') 0 (snd ?c) (ServerOnly e)"
  let ?all = "set allFeatureFlagNames" and ?vis = "set clientVisibleFeatureFlags"
  have names: "validFeatureFlagName x \<longleftrightarrow> x \<in> ?all" for x
    by (simp add: validFeatureFlagName_def list_ex_iff)
  have all: "?all = insert ''strict_device_enforcement'' ?vis" "''strict_device_enforcement'' \<notin> ?vis"
      "distinct clientVisibleFeatureFlags"
    by (auto simp: allFeatureFlagNames_def clientVisibleFeatureFlags_def)
  have accepted: "validateFeatureFlagExposure e = [] \<longleftrightarrow> fst ?c = [] \<and> fst ?s = [] \<and>
      (\<forall>f \<in> ?all. snd ?s f \<noteq> None) \<and> (\<forall>f \<in> ?vis. snd ?s f = Some ''client_visible'') \<and>
      snd ?s ''strict_device_enforcement'' = Some ''server_only''"
    by (simp add: validateFeatureFlagExposure_def split_beta Let_def)
  have sides: "snd ?s f = (if f \<in> set (ServerOnly e) then Some ''server_only''
      else if f \<in> set (ClientVisible e) then Some ''client_visible'' else None)" if "fst ?c = []" "fst ?s = []" for f
    using exposed_sides [OF that(2)] exposed_sides [OF that(1)] by simp
  have both: "fst ?c = [] \<and> fst ?s = [] \<longleftrightarrow> set (ClientVisible e) \<union> set (ServerOnly e) \<subseteq> ?all \<and>
      distinct (ClientVisible e) \<and> distinct (ServerOnly e) \<and> set (ClientVisible e) \<inter> set (ServerOnly e) = {}"
    using flags.all_remembered [of "''client_visible''" 0 Map.empty "ClientVisible e"]
    by (auto simp: flags.all_accepted names)
  have "validateFeatureFlagExposure e = [] \<longleftrightarrow>
      distinct (ClientVisible e) \<and> set (ClientVisible e) = ?vis \<and>
      distinct (ServerOnly e) \<and> set (ServerOnly e) = {''strict_device_enforcement''}"
  proof
    assume "validateFeatureFlagExposure e = []"
    then have ok: "fst ?c = []" "fst ?s = []"
        and rest: "\<forall>f \<in> ?vis. snd ?s f = Some ''client_visible''"
          "snd ?s ''strict_device_enforcement'' = Some ''server_only''"
      by (simp_all add: accepted)
    have vis: "f \<notin> set (ServerOnly e)" "f \<in> set (ClientVisible e)" if "f \<in> ?vis" for f
      using rest(1) that unfolding sides [OF ok] by (auto split: if_splits)
    have strict: "''strict_device_enforcement'' \<in> set (ServerOnly e)"
      using rest(2) unfolding sides [OF ok] by (auto split: if_splits)
    have sub: "set (ClientVisible e) \<subseteq> ?all" "set (ServerOnly e) \<subseteq> ?all"
        and disj: "set (ClientVisible e) \<inter> set (ServerOnly e) = {}"
        and dist: "distinct (ClientVisible e)" "distinct (ServerOnly e)"
      using ok both by auto
    have "''strict_device_enforcement'' \<notin> set (ClientVisible e)" using disj strict by blast
    then have client: "set (ClientVisible e) = ?vis" using sub(1) vis(2) unfolding all(1) by blast
    moreover have "set (ServerOnly e) = {''strict_device_enforcement''}"
      using sub(2) vis(1) strict unfolding all(1) by blast
    ultimately show "distinct (ClientVisible e) \<and> set (ClientVisible e) = ?vis \<and>
        distinct (ServerOnly e) \<and> set (ServerOnly e) = {''strict_device_enforcement''}"
      using dist by blast
  next
    assume *: "distinct (ClientVisible e) \<and> set (ClientVisible e) = ?vis \<and>
        distinct (ServerOnly e) \<and> set (ServerOnly e) = {''strict_device_enforcement''}"
    have "set (ClientVisible e) \<union> set (ServerOnly e) \<subseteq> ?all" unfolding all(1) using * by simp
    moreover have "set (ClientVisible e) \<inter> set (ServerOnly e) = {}" using * all(2) by simp
    ultimately have ok: "fst ?c = []" "fst ?s = []" using both * by metis+
    have "set (ServerOnly e) = {''strict_device_enforcement''}" "set (ClientVisible e) = ?vis" using * by simp_all
    from conjI [OF ok(1) conjI [OF ok(2) sides_classify [OF all(1,2) this]]]
    show "validateFeatureFlagExposure e = []" unfolding accepted sides [OF ok] .
  qed
  also have "\<dots> \<longleftrightarrow> mset (ClientVisible e) = mset clientVisibleFeatureFlags \<and> ServerOnly e = [''strict_device_enforcement'']"
  proof -
    have one: "distinct xs \<and> set xs = {a} \<longleftrightarrow> xs = [a]" for xs :: "string list" and a
      by (cases xs) (auto simp: distinct_length_2_or_more subset_singleton_iff)
    have two: "distinct xs \<and> set xs = ?vis \<longleftrightarrow> mset xs = mset clientVisibleFeatureFlags" for xs
      using all(3) by (metis mset_eq_imp_distinct_iff mset_eq_setD set_eq_iff_mset_eq_distinct)
    show ?thesis by (simp only: one [symmetric] two [symmetric] conj_assoc)
  qed
  finally show ?thesis .
qed

end
