(* ===== verification/Setting_Store.thy ===== *)
theory Setting_Store
  imports Go_Prelude
begin

text \<open>
  The store of settings (\<open>repository/setting_repo.go\<close>): a table with one row for each key, and the
  contract of \<open>SettingRepository\<close> on which the services rely.
\<close>

section \<open>The table\<close>

record Setting =
  st_ID :: int
  st_Key :: string
  st_Value :: string
  st_UpdatedAt :: int

text \<open>The table, the next id of its sequence, and the error of the database while it cannot be reached.\<close>

record settings_db =
  st_rows :: "Setting list"
  st_next :: int
  st_fault :: "string option"

datatype setting_error = SettingNotFound | SettingFailed string

definition unique_keys :: "settings_db \<Rightarrow> bool" where
  "unique_keys db \<longleftrightarrow> distinct (map st_Key (st_rows db))"

text \<open>A query for the rows that satisfy a condition.\<close>

definition query :: "settings_db \<Rightarrow> (Setting \<Rightarrow> bool) \<Rightarrow> string + Setting list" where
  "query db P = (case st_fault db of Some e \<Rightarrow> Inl e | None \<Rightarrow> Inr (filter P (st_rows db)))"

text \<open>\<open>INSERT ... ON CONFLICT (key) DO UPDATE\<close>: the row keeps its id.\<close>

definition upsert :: "int \<Rightarrow> string \<times> string \<Rightarrow> settings_db \<Rightarrow> settings_db" where
  "upsert now = (\<lambda>(key, value) db.
     if key \<in> st_Key ` set (st_rows db)
     then db\<lparr>st_rows := map (\<lambda>m. if st_Key m = key then m\<lparr>st_Value := value, st_UpdatedAt := now\<rparr> else m) (st_rows db)\<rparr>
     else db\<lparr>st_rows := st_rows db @ [\<lparr>st_ID = st_next db, st_Key = key, st_Value = value, st_UpdatedAt = now\<rparr>],
             st_next := st_next db + 1\<rparr>)"

section \<open>The operations\<close>

definition setting_Get :: "settings_db \<Rightarrow> string \<Rightarrow> setting_error + Setting" where
  "setting_Get db key =
     (case query db (\<lambda>m. st_Key m = key) of
        Inl e \<Rightarrow> Inl (SettingFailed e)
      | Inr [] \<Rightarrow> Inl SettingNotFound
      | Inr [m] \<Rightarrow> Inr m
      | Inr _ \<Rightarrow> Inl (SettingFailed ''ent: setting not singular''))"

definition setting_GetValue :: "settings_db \<Rightarrow> string \<Rightarrow> setting_error + string" where
  "setting_GetValue db key = map_sum (\<lambda>e. e) st_Value (setting_Get db key)"

definition setting_Set :: "int \<Rightarrow> settings_db \<Rightarrow> string \<Rightarrow> string \<Rightarrow> string option \<times> settings_db" where
  "setting_Set now db key value =
     (case st_fault db of Some e \<Rightarrow> (Some e, db) | None \<Rightarrow> (None, upsert now (key, value) db))"

definition rows_map :: "Setting list \<Rightarrow> (string \<rightharpoonup> string)" where
  "rows_map rows = fold (\<lambda>s result. result(st_Key s \<mapsto> st_Value s)) rows Map.empty"

definition setting_GetMultiple :: "settings_db \<Rightarrow> string list \<Rightarrow> string + (string \<rightharpoonup> string)" where
  "setting_GetMultiple db keys =
     (if keys = [] then Inr Map.empty
      else map_sum (\<lambda>e. e) rows_map (query db (\<lambda>m. st_Key m \<in> set keys)))"

text \<open>The settings in the order in which the map is traversed, which Go leaves open.\<close>

definition setting_SetMultiple ::
    "int \<Rightarrow> settings_db \<Rightarrow> (string \<times> string) list \<Rightarrow> string option \<times> settings_db" where
  "setting_SetMultiple now db settings =
     (if settings = [] then (None, db)
      else case st_fault db of Some e \<Rightarrow> (Some e, db) | None \<Rightarrow> (None, fold (upsert now) settings db))"

definition setting_GetAll :: "settings_db \<Rightarrow> string + (string \<rightharpoonup> string)" where
  "setting_GetAll db = map_sum (\<lambda>e. e) rows_map (query db (\<lambda>m. True))"

definition setting_Delete :: "settings_db \<Rightarrow> string \<Rightarrow> string option \<times> settings_db" where
  "setting_Delete db key =
     (case st_fault db of Some e \<Rightarrow> (Some e, db)
      | None \<Rightarrow> (None, db\<lparr>st_rows := filter (\<lambda>m. st_Key m \<noteq> key) (st_rows db)\<rparr>))"

section \<open>The contract\<close>

text \<open>What a service may rely on: a value that was stored is read back, other keys keep their values,
  and an error leaves the store as it was.\<close>

locale setting_repository =
  fixes inv :: "'s \<Rightarrow> bool"
    and getv :: "'s \<Rightarrow> string \<Rightarrow> setting_error + string"
    and setv :: "'s \<Rightarrow> string \<Rightarrow> string \<Rightarrow> string option \<times> 's"
  assumes get_set: "inv s \<Longrightarrow> fst (setv s key value) = None \<Longrightarrow> getv (snd (setv s key value)) key = Inr value"
    and get_other: "inv s \<Longrightarrow> key' \<noteq> key \<Longrightarrow> getv (snd (setv s key value)) key' = getv s key'"
    and set_inv: "inv s \<Longrightarrow> inv (snd (setv s key value))"
    and set_failed: "fst (setv s key value) = Some e \<Longrightarrow> snd (setv s key value) = s"
begin

lemma last_set_wins:
  assumes "inv s" and "fst (setv s key v1) = None" and "fst (setv (snd (setv s key v1)) key v2) = None"
  shows "getv (snd (setv (snd (setv s key v1)) key v2)) key = Inr v2"
  using assms get_set set_inv by blast

end

text \<open>The table seen as a map.\<close>

definition stored :: "settings_db \<Rightarrow> (string \<rightharpoonup> string)" where
  "stored db = map_of (map (\<lambda>m. (st_Key m, st_Value m)) (st_rows db))"

lemma find_SomeD: "find P xs = Some x \<Longrightarrow> x \<in> set xs \<and> P x"
  by (induction xs) (auto split: if_splits)

lemma filter_unique_key:
  assumes "distinct (map st_Key rows)"
  shows "filter (\<lambda>m. st_Key m = key) rows = (case find (\<lambda>m. st_Key m = key) rows of None \<Rightarrow> [] | Some m \<Rightarrow> [m])"
  using assms
proof (induction rows)
  case (Cons m rows)
  then show ?case
    by (auto simp: filter_empty_conv find_None_iff split: option.splits dest!: find_SomeD)
qed simp

lemma find_map_of: "map_option st_Value (find (\<lambda>m. st_Key m = key) rows) = map_of (map (\<lambda>m. (st_Key m, st_Value m)) rows) key"
  by (induction rows) auto

lemma GetValue_stored:
  assumes "unique_keys db"
  shows "setting_GetValue db key =
    (case st_fault db of Some e \<Rightarrow> Inl (SettingFailed e)
     | None \<Rightarrow> (case stored db key of None \<Rightarrow> Inl SettingNotFound | Some v \<Rightarrow> Inr v))"
  using assms find_map_of [of key "st_rows db"]
  by (auto simp: setting_GetValue_def setting_Get_def query_def filter_unique_key unique_keys_def stored_def
      split: option.splits)

lemma stored_upsert: "stored (upsert now (key, value) db) = (stored db)(key \<mapsto> value)"
proof -
  let ?upd = "\<lambda>m. if st_Key m = key then m\<lparr>st_Value := value, st_UpdatedAt := now\<rparr> else m"
  have update: "map_of (map (\<lambda>m. (st_Key m, st_Value m)) (map ?upd rows)) x =
      (if x = key \<and> key \<in> st_Key ` set rows then Some value else map_of (map (\<lambda>m. (st_Key m, st_Value m)) rows) x)" for rows x
    by (induction rows) auto
  have insert: "map_of (map (\<lambda>m. (st_Key m, st_Value m)) rows @ [(key, value)]) x =
      (if x = key then Some value else map_of (map (\<lambda>m. (st_Key m, st_Value m)) rows) x)"
    if "key \<notin> st_Key ` set rows" for rows x
    using that by (induction rows) auto
  show ?thesis
  proof (cases "key \<in> st_Key ` set (st_rows db)")
    case True
    then show ?thesis
      by (simp add: stored_def upsert_def fun_eq_iff update del: map_map)
  next
    case False
    then show ?thesis
      by (simp add: stored_def upsert_def fun_eq_iff insert del: map_of_append)
  qed
qed

lemma upsert_fault [simp]: "st_fault (upsert now kv db) = st_fault db"
  by (cases kv) (simp add: upsert_def)

lemma upsert_unique_keys: "unique_keys db \<Longrightarrow> unique_keys (upsert now kv db)"
proof (cases kv)
  case (Pair key v)
  have "map st_Key (map (\<lambda>m. if st_Key m = key then m\<lparr>st_Value := v, st_UpdatedAt := now\<rparr> else m) rows) = map st_Key rows"
    for rows :: "Setting list" by (induction rows) auto
  then show "unique_keys db \<Longrightarrow> unique_keys (upsert now kv db)"
    by (auto simp: Pair upsert_def unique_keys_def simp del: map_map)
qed

interpretation settings: setting_repository unique_keys setting_GetValue "setting_Set now"
  for now
  by unfold_locales
    (auto simp: setting_Set_def GetValue_stored upsert_unique_keys stored_upsert split: option.splits)

lemma fold_upsert:
  "unique_keys db \<Longrightarrow> unique_keys (fold (upsert now) kvs db) \<and> st_fault (fold (upsert now) kvs db) = st_fault db \<and>
    stored (fold (upsert now) kvs db) = stored db ++ map_of (rev kvs)"
proof (induction kvs arbitrary: db)
  case (Cons kv kvs)
  then show ?case
    by (cases kv) (simp add: upsert_unique_keys stored_upsert del: fun_upd_apply)
qed simp

lemma setting_operations_keep_unique_keys:
  assumes "unique_keys db"
  shows "unique_keys (snd (setting_Set now db key value))"
    and "unique_keys (snd (setting_SetMultiple now db kvs))"
    and "unique_keys (snd (setting_Delete db key))"
  using assms fold_upsert [OF assms]
  by (simp_all add: setting_Set_def setting_SetMultiple_def setting_Delete_def upsert_unique_keys split: option.splits)
    (simp add: unique_keys_def distinct_map_filter)

lemma rows_map_stored: "distinct (map st_Key rows) \<Longrightarrow> rows_map rows = map_of (map (\<lambda>m. (st_Key m, st_Value m)) rows)"
proof -
  assume d: "distinct (map st_Key rows)"
  have "fold (\<lambda>s result. result(st_Key s \<mapsto> st_Value s)) rows m = m ++ map_of (rev (map (\<lambda>m. (st_Key m, st_Value m)) rows))" for m
    by (induction rows arbitrary: m) (simp_all del: fun_upd_apply)
  then have "rows_map rows = map_of (rev (map (\<lambda>m. (st_Key m, st_Value m)) rows))"
    by (simp add: rows_map_def)
  also have "\<dots> = map_of (map (\<lambda>m. (st_Key m, st_Value m)) rows)"
    using d by (subst map_of_inject_set) (simp_all add: rev_map [symmetric] comp_def)
  finally show ?thesis .
qed



end
