(* ===== verification/Codex_Publish.thy ===== *)
theory Codex_Publish
  imports Codex_Registry Setting_Store Codex_Policy_Safety
begin

text \<open>
  Publishing and reading the configuration (\<open>service/codexplus_config_service.go\<close>): the translation to
  the registry, the whole check, the defaults, and the operations on the store of settings.
\<close>

section \<open>The head of a catalog\<close>

definition CodexPlusConfigSettingKey :: string where
  "CodexPlusConfigSettingKey = ''codexplus_config_v1''"

definition CodexPlusConfigVersionMVP :: string where
  "CodexPlusConfigVersionMVP = ''codexplus-mvp-1''"

definition codexPlusFallbackString :: "string \<Rightarrow> string \<Rightarrow> string" where
  "codexPlusFallbackString value fallback = (if go_TrimSpace value \<noteq> [] then go_TrimSpace value else fallback)"

definition codexPlusPositiveOrDefault :: "int \<Rightarrow> int \<Rightarrow> int" where
  "codexPlusPositiveOrDefault value fallback = (if 0 < value then value else if 0 < fallback then fallback else 1)"

definition codexPlusCatalogDraftStatus :: "string \<Rightarrow> string \<Rightarrow> string \<Rightarrow> string" where
  "codexPlusCatalogDraftStatus value topLevelStatus publishScope =
     (let status0 = go_TrimSpace value; status = (if status0 = [] then go_TrimSpace topLevelStatus else status0)
      in if status \<in> {''editing'', ''ready_for_review'', ''approved'', ''published'', ''archived''} then status
         else if status = ''draft'' then ''editing''
         else if go_TrimSpace publishScope = ''production'' then ''published''
         else ''editing'')"

definition codexPlusCatalogPublishScope :: "string \<Rightarrow> string \<Rightarrow> string" where
  "codexPlusCatalogPublishScope value topLevelScope =
     (let scope0 = go_TrimSpace value; scope = (if scope0 = [] then go_TrimSpace topLevelScope else scope0)
      in if scope = [] then ''production'' else scope)"

definition codexPlusCatalogUpdatedBy :: "string \<Rightarrow> string \<Rightarrow> string" where
  "codexPlusCatalogUpdatedBy value topLevelValue =
     codexPlusFallbackString value (codexPlusFallbackString topLevelValue ''system'')"

definition codexPlusCatalogUpdatedAt :: "string \<Rightarrow> string \<Rightarrow> string" where
  "codexPlusCatalogUpdatedAt value topLevelValue =
     codexPlusFallbackString value (codexPlusFallbackString topLevelValue (go_RFC3339 0))"

definition codexPlusCatalogChangeReason :: "string \<Rightarrow> string \<Rightarrow> string" where
  "codexPlusCatalogChangeReason value topLevelValue =
     codexPlusFallbackString value (codexPlusFallbackString topLevelValue ''Codex++ config center update'')"

text \<open>The head of a catalog as the registry sees it; the callers always have a configuration.\<close>

definition codexPlusRegistryMeta :: "CodexPlusConfig option \<Rightarrow> 'a document_meta_scheme \<Rightarrow> document_meta" where
  "codexPlusRegistryMeta cfg catalog =
     (let top = (case cfg of Some c \<Rightarrow> (ConfigVersion c, DraftStatus c, PublishScope c, UpdatedBy c, UpdatedAt c, ChangeReason c)
          | None \<Rightarrow> ([], [], [], [], [], []));
          (topVersion, topStatus, topScope, topBy, topAt, topReason) = top;
          version = (if cfg = None then ConfigVersion catalog else codexPlusFallbackString (ConfigVersion catalog) topVersion)
      in \<lparr>ConfigVersion = codexPlusFallbackString version CodexPlusConfigVersionMVP,
          DraftStatus = codexPlusCatalogDraftStatus (DraftStatus catalog) topStatus
            (if cfg = None then PublishScope catalog else topScope),
          PublishScope = codexPlusCatalogPublishScope (PublishScope catalog) topScope,
          RollbackFrom = RollbackFrom catalog,
          UpdatedBy = codexPlusCatalogUpdatedBy (UpdatedBy catalog) topBy,
          UpdatedAt = codexPlusCatalogUpdatedAt (UpdatedAt catalog) topAt,
          ChangeReason = codexPlusCatalogChangeReason (ChangeReason catalog) topReason\<rparr>)"

section \<open>To the registry\<close>

text \<open>The ids of groups are converted between \<open>int\<close> and \<open>int64\<close>, which agree.\<close>

definition codexPlusBillingPeriodForRegistry :: "string \<Rightarrow> string" where
  "codexPlusBillingPeriodForRegistry value =
     (let v = go_TrimSpace value
      in if v = ''month'' then ''monthly''
         else if v = ''quarter'' then ''quarterly''
         else if v = ''year'' \<or> v = ''annual'' then ''yearly''
         else if v = ''one-time'' \<or> v = ''one_time'' then ''one_time''
         else if v = [] then ''none'' else v)"

definition codexPlusPlanStatusForRegistry :: "string \<Rightarrow> string" where
  "codexPlusPlanStatusForRegistry value = (if go_TrimSpace value = [] then ''hidden'' else go_TrimSpace value)"

definition codexPlusPlanCopyKeysForRegistry :: "CodexPlusPlanCopyKeys \<Rightarrow> CodexPlusPlanCopyKeys" where
  "codexPlusPlanCopyKeysForRegistry keys =
     \<lparr>pk_PurchaseAction = codexPlusFallbackString (pk_PurchaseAction keys) ''billing.action.purchase'',
      pk_RenewAction = codexPlusFallbackString (pk_RenewAction keys) ''billing.action.renew'',
      UpgradeAction = codexPlusFallbackString (UpgradeAction keys) ''billing.action.upgrade'',
      NotPurchasedMessage = codexPlusFallbackString (NotPurchasedMessage keys) ''billing.message.not_purchased'',
      pk_ExpiredMessage = codexPlusFallbackString (pk_ExpiredMessage keys) ''billing.message.expired'',
      pk_LowBalanceMessage = codexPlusFallbackString (pk_LowBalanceMessage keys) ''billing.message.low_balance''\<rparr>"

definition plan_to_registry :: "CodexPlusPlan \<Rightarrow> CodexPlusPlan" where
  "plan_to_registry plan =
     \<lparr>PlanID = go_TrimSpace (PlanID plan),
      pl_Name = codexPlusFallbackString (pl_Name plan) (PlanID plan),
      pl_Description = codexPlusFallbackString (pl_Description plan)
        (codexPlusFallbackString (pl_Name plan) (PlanID plan) @ '' plan''),
      BillingPeriod = codexPlusBillingPeriodForRegistry (BillingPeriod plan),
      pl_Currency = codexPlusFallbackString (pl_Currency plan) ''USD'',
      PriceAmountMinor = PriceAmountMinor plan,
      DisplayPrice = go_TrimSpace (DisplayPrice plan),
      EntitlementGrant = EntitlementGrant plan,
      EntitlementSources = EntitlementSources plan,
      pl_ModelGroups = pl_ModelGroups plan,
      UsagePolicyID = codexPlusFallbackString (UsagePolicyID plan) ''default'',
      PurchaseURL = PurchaseURL plan,
      RenewURL = RenewURL plan,
      pl_CopyKeys = codexPlusPlanCopyKeysForRegistry (pl_CopyKeys plan),
      IsListed = IsListed plan,
      pl_Status = codexPlusPlanStatusForRegistry (pl_Status plan),
      pl_SortOrder = pl_SortOrder plan,
      ExternalBillingRefs = ExternalBillingRefs plan\<rparr>"

definition codexPlusPlanCatalogToRegistry :: "CodexPlusConfig \<Rightarrow> CodexPlusPlanCatalog" where
  "codexPlusPlanCatalogToRegistry cfg =
     document_meta.extend (codexPlusRegistryMeta (Some cfg) (PlanCatalog cfg))
       (CodexPlusPlanCatalog.fields (map plan_to_registry (plans_of cfg)))"

definition model_to_registry :: "CodexPlusModel \<Rightarrow> CodexPlusModel" where
  "model_to_registry model = model
     \<lparr>ModelID := go_TrimSpace (ModelID model),
      DisplayName := codexPlusFallbackString (DisplayName model) (ModelID model),
      RouteModel := go_TrimSpace (RouteModel model),
      ModelGroup := go_TrimSpace (ModelGroup model),
      DisabledReason := (if \<not> IsEnabled model \<and> blank (DisabledReason model) then Some ''disabled by admin'' else DisabledReason model),
      RolloutChannel := codexPlusFallbackString (RolloutChannel model) ''stable'',
      QualityTier := codexPlusFallbackString (QualityTier model) ''standard'',
      DisabledMessageKey := (if \<not> IsEnabled model \<and> blank (DisabledMessageKey model) then Some ''model.disabled''
        else DisabledMessageKey model)\<rparr>"

definition codexPlusModelCatalogToRegistry :: "CodexPlusConfig \<Rightarrow> CodexPlusModelCatalog" where
  "codexPlusModelCatalogToRegistry cfg =
     document_meta.extend (codexPlusRegistryMeta (Some cfg) (ModelCatalog cfg))
       (CodexPlusModelCatalog.fields (map model_to_registry (models_of cfg)))"

definition codexPlusUsageCopyKeysForRegistry :: "CodexPlusUsageRule \<Rightarrow> CodexPlusUsagePolicyCopyKeys" where
  "codexPlusUsageCopyKeysForRegistry policy =
     (let keys = ur_CopyKeys policy
      in \<lparr>uk_LowBalanceMessage = codexPlusFallbackString (uk_LowBalanceMessage keys) ''usage.low_balance'',
          uk_InsufficientBalanceMessage = codexPlusFallbackString (uk_InsufficientBalanceMessage keys) ''usage.insufficient_balance'',
          uk_RateLimitedMessage = codexPlusFallbackString (uk_RateLimitedMessage keys) ''usage.rate_limited'',
          uk_ExpiredMessage = codexPlusFallbackString (uk_ExpiredMessage keys) ''usage.expired'',
          uk_RenewAction = codexPlusFallbackString (uk_RenewAction keys) ''usage.renew_action'',
          uk_PurchaseAction = codexPlusFallbackString (uk_PurchaseAction keys) ''usage.purchase_action'',
          DeviceRevokedMessage = codexPlusFallbackString (DeviceRevokedMessage keys) ''device.revoked''\<rparr>)"

text \<open>The value of a field that is not blank, as it is, and the default otherwise.\<close>

definition keep_or :: "string \<Rightarrow> string \<Rightarrow> string" where
  "keep_or value fallback = (if go_TrimSpace value = [] then fallback else value)"

definition codexPlusDevicePolicyForRegistry :: "CodexPlusUsagePolicyDevicePolicy \<Rightarrow> CodexPlusUsagePolicyDevicePolicy" where
  "codexPlusDevicePolicyForRegistry policy =
     (let defaults = DefaultUsagePolicyDevicePolicy; keys = MessageKeys policy; dkeys = MessageKeys defaults
      in policy
       \<lparr>MaxDevicesPerUser := (if MaxDevicesPerUser policy < 1 then MaxDevicesPerUser defaults else MaxDevicesPerUser policy),
        RevokeReasonTaxonomy := (if RevokeReasonTaxonomy policy = [] then RevokeReasonTaxonomy defaults else RevokeReasonTaxonomy policy),
        SupportUnlockPolicy := keep_or (SupportUnlockPolicy policy) (SupportUnlockPolicy defaults),
        RevokedBehavior := keep_or (RevokedBehavior policy) (RevokedBehavior defaults),
        MessageKeys :=
          \<lparr>LimitReached = keep_or (LimitReached keys) (LimitReached dkeys),
           ReplacementCooldown = keep_or (ReplacementCooldown keys) (ReplacementCooldown dkeys),
           Revoked = keep_or (Revoked keys) (Revoked dkeys),
           SupportUnlockRequired = keep_or (SupportUnlockRequired keys) (SupportUnlockRequired dkeys)\<rparr>\<rparr>)"

definition policy_to_registry :: "CodexPlusUsageRule \<Rightarrow> UsagePolicyRule" where
  "policy_to_registry policy =
     \<lparr>PolicyID = go_TrimSpace (PolicyID policy),
      AppliesTo = AppliesTo policy,
      LowBalanceThreshold = LowBalanceThreshold policy,
      ur_DailyQuota = ur_DailyQuota policy,
      MonthlyQuota = MonthlyQuota policy,
      ConcurrencyLimit = ConcurrencyLimit policy,
      RPMLimit = RPMLimit policy,
      TPMLimit = TPMLimit policy,
      BurstLimit = codexPlusPositiveOrDefault (BurstLimit policy) (RPMLimit policy),
      RateLimitWindowSeconds = codexPlusPositiveOrDefault (RateLimitWindowSeconds policy) 60,
      ExpiredBehavior = codexPlusFallbackString (ExpiredBehavior policy) ''block'',
      GracePeriodHours = GracePeriodHours policy,
      OverageBehavior = codexPlusFallbackString (OverageBehavior policy) ''block'',
      ur_CopyKeys = codexPlusUsageCopyKeysForRegistry policy,
      DevicePolicy = codexPlusDevicePolicyForRegistry (DevicePolicy policy)\<rparr>"

definition codexPlusUsagePolicyToRegistry :: "CodexPlusConfig \<Rightarrow> UsagePolicyCatalog" where
  "codexPlusUsagePolicyToRegistry cfg =
     document_meta.extend (codexPlusRegistryMeta (Some cfg) (UsagePolicy cfg))
       (UsagePolicyCatalog.fields (map policy_to_registry (policies_of cfg)))"

definition codexPlusFeatureFlagsToRegistry :: "CodexPlusConfig \<Rightarrow> FeatureFlags" where
  "codexPlusFeatureFlagsToRegistry cfg =
     (let doc = FeatureFlags cfg; defaults = DefaultFeatureFlags (Some 0); keys = fd_CopyKeys doc; dkeys = fd_CopyKeys defaults
      in CodexPlusFeatureFlagsDoc.extend
          (document_meta.extend (codexPlusRegistryMeta (Some cfg) doc)
            (CodexPlusFeatureFlagsDoc.fields (Flags doc)
              (if ClientVisible (Exposure doc) = [] \<and> ServerOnly (Exposure doc) = [] then Exposure defaults else Exposure doc)
              \<lparr>fk_ForceUpdatePrompt = codexPlusFallbackString (fk_ForceUpdatePrompt keys) (fk_ForceUpdatePrompt dkeys),
               InstallAssistantEntry = codexPlusFallbackString (InstallAssistantEntry keys) (InstallAssistantEntry dkeys),
               NewUserTutorialEntry = codexPlusFallbackString (NewUserTutorialEntry keys) (NewUserTutorialEntry dkeys),
               DiagnosticExportEntry = codexPlusFallbackString (DiagnosticExportEntry keys) (DiagnosticExportEntry dkeys),
               AnnouncementEntry = codexPlusFallbackString (AnnouncementEntry keys) (AnnouncementEntry dkeys)\<rparr>))
          (FeatureFlags.fields True))"

section \<open>From the registry\<close>

definition codexPlusPlanCatalogFromRegistry :: "CodexPlusPlanCatalog \<Rightarrow> CodexPlusPlanCatalog" where
  "codexPlusPlanCatalogFromRegistry catalog = catalog"

definition codexPlusModelCatalogFromRegistry :: "CodexPlusModelCatalog \<Rightarrow> CodexPlusModelCatalog" where
  "codexPlusModelCatalogFromRegistry catalog = catalog"

definition policy_from_registry :: "UsagePolicyRule \<Rightarrow> CodexPlusUsageRule" where
  "policy_from_registry policy = UsagePolicyRule.extend policy
     (CodexPlusUsageRule.fields (uk_InsufficientBalanceMessage (ur_CopyKeys policy)) (uk_RateLimitedMessage (ur_CopyKeys policy)))"

definition codexPlusUsagePolicyFromRegistry :: "UsagePolicyCatalog \<Rightarrow> CodexPlusUsagePolicy" where
  "codexPlusUsagePolicyFromRegistry catalog = document_meta.extend (document_meta.truncate catalog)
     (CodexPlusUsagePolicy.fields (map policy_from_registry (up_Policies catalog)))"

definition codexPlusFeatureFlagsFromRegistry :: "FeatureFlags \<Rightarrow> CodexPlusFeatureFlagsDoc" where
  "codexPlusFeatureFlagsFromRegistry flags = CodexPlusFeatureFlagsDoc.truncate flags"

section \<open>The whole check\<close>

text \<open>An error of a check is its message without the prefix of \<open>ErrCodexPlusConfigInvalid\<close>. The
  configuration is never \<open>nil\<close> here.\<close>

fun first_of :: "string option list \<Rightarrow> string option" where
  "first_of [] = None"
| "first_of (Some e # es) = Some e"
| "first_of (None # es) = first_of es"

definition registry_error :: "ValidationError option \<Rightarrow> string option" where
  "registry_error e = (case e of None \<Rightarrow> None | Some v \<Rightarrow> Some (ValidationError_Error (Some v)))"

definition ValidateCodexPlusConfig :: "url_parser \<Rightarrow> CodexPlusConfig \<Rightarrow> string option" where
  "ValidateCodexPlusConfig parse cfg =
     (if go_TrimSpace (ConfigVersion cfg) = [] then Some ''config_version is required''
      else if go_TrimSpace (DraftStatus cfg) \<noteq> [] \<and> \<not> validCodexPlusDraftStatus (DraftStatus cfg)
      then Some ''invalid draft_status''
      else if \<not> validCodexPlusPublishScope (PublishScope cfg) then Some ''invalid publish_scope''
      else if go_TrimSpace (UpdatedAt cfg) \<noteq> [] \<and> \<not> rfc3339_ok (UpdatedAt cfg) then Some ''updated_at must be RFC3339''
      else first_of
        [validateCodexPlusPlans (plans_of cfg),
         validateCodexPlusModels (models_of cfg),
         validateCodexPlusUsagePolicies (policies_of cfg),
         registry_error (ValidatePlanCatalog parse (codexPlusPlanCatalogToRegistry cfg)),
         registry_error (ValidateModelCatalog (codexPlusModelCatalogToRegistry cfg)),
         registry_error (ValidateUsagePolicyCatalog (codexPlusUsagePolicyToRegistry cfg)),
         registry_error (ValidateFeatureFlags (codexPlusFeatureFlagsToRegistry cfg))])"

section \<open>Normalisation before publishing\<close>

text \<open>The four functions for the catalogs have the same body.\<close>

definition normalize_meta :: "CodexPlusConfig \<Rightarrow> 'a document_meta_scheme \<Rightarrow> 'a document_meta_scheme" where
  "normalize_meta cfg catalog = catalog
     \<lparr>ConfigVersion := (if go_TrimSpace (ConfigVersion catalog) = [] then ConfigVersion cfg else ConfigVersion catalog),
      DraftStatus := codexPlusCatalogDraftStatus [] (DraftStatus cfg) (PublishScope cfg),
      PublishScope := codexPlusCatalogPublishScope (PublishScope catalog) (PublishScope cfg),
      UpdatedBy := codexPlusCatalogUpdatedBy (UpdatedBy catalog) (UpdatedBy cfg),
      UpdatedAt := codexPlusCatalogUpdatedAt (UpdatedAt catalog) (UpdatedAt cfg),
      ChangeReason := codexPlusCatalogChangeReason (ChangeReason catalog) (ChangeReason cfg)\<rparr>"

definition normalizeCodexPlusPlanCatalogMeta :: "CodexPlusConfig \<Rightarrow> CodexPlusPlanCatalog \<Rightarrow> CodexPlusPlanCatalog" where
  "normalizeCodexPlusPlanCatalogMeta cfg catalog = normalize_meta cfg catalog"
definition normalizeCodexPlusModelCatalogMeta :: "CodexPlusConfig \<Rightarrow> CodexPlusModelCatalog \<Rightarrow> CodexPlusModelCatalog" where
  "normalizeCodexPlusModelCatalogMeta cfg catalog = normalize_meta cfg catalog"
definition normalizeCodexPlusUsagePolicyMeta :: "CodexPlusConfig \<Rightarrow> CodexPlusUsagePolicy \<Rightarrow> CodexPlusUsagePolicy" where
  "normalizeCodexPlusUsagePolicyMeta cfg policy = normalize_meta cfg policy"
definition normalizeCodexPlusFeatureFlagsMeta :: "CodexPlusConfig \<Rightarrow> CodexPlusFeatureFlagsDoc \<Rightarrow> CodexPlusFeatureFlagsDoc" where
  "normalizeCodexPlusFeatureFlagsMeta cfg flags = normalize_meta cfg flags"

definition NormalizeCodexPlusConfig :: "CodexPlusConfig \<Rightarrow> int \<Rightarrow> string \<Rightarrow> string \<Rightarrow> CodexPlusConfig" where
  "NormalizeCodexPlusConfig cfg0 now actor reason =
     (let cfg = cfg0
          \<lparr>ConfigVersion := (if go_TrimSpace (ConfigVersion cfg0) = [] then CodexPlusConfigVersionMVP else ConfigVersion cfg0),
           DraftStatus := ''published'',
           PublishScope := (if go_TrimSpace (PublishScope cfg0) = [] then ''production'' else PublishScope cfg0),
           UpdatedBy := (if actor = [] then ''system'' else actor),
           UpdatedAt := go_RFC3339 now,
           ChangeReason := go_TrimSpace (if reason = [] then ChangeReason cfg0 else reason)\<rparr>
      in cfg
          \<lparr>PlanCatalog := normalizeCodexPlusPlanCatalogMeta cfg (PlanCatalog cfg),
           ModelCatalog := normalizeCodexPlusModelCatalogMeta cfg (ModelCatalog cfg),
           UsagePolicy := normalizeCodexPlusUsagePolicyMeta cfg (UsagePolicy cfg),
           FeatureFlags := normalizeCodexPlusFeatureFlagsMeta cfg (FeatureFlags cfg)\<rparr>)"

section \<open>The default configuration\<close>

definition codexPlusUsagePolicyExists :: "CodexPlusConfig \<Rightarrow> string \<Rightarrow> bool" where
  "codexPlusUsagePolicyExists cfg policyID0 =
     (let policyID = go_TrimSpace policyID0
      in policyID \<noteq> [] \<and> list_ex (\<lambda>policy. go_TrimSpace (PolicyID policy) = policyID) (policies_of cfg))"

definition codexPlusSliceIntersectsSet :: "string list \<Rightarrow> string list \<Rightarrow> bool" where
  "codexPlusSliceIntersectsSet values allowed = list_ex (\<lambda>v. go_TrimSpace v \<in> set allowed) values"

definition codexPlusPlanHasKnownModelGroup :: "CodexPlusPlan \<Rightarrow> string list \<Rightarrow> bool" where
  "codexPlusPlanHasKnownModelGroup plan modelGroups = list_ex (\<lambda>g. go_TrimSpace g \<in> set modelGroups) (pl_ModelGroups plan)"

text \<open>The groups of the models in the order in which they first occur.\<close>

definition known_groups :: "CodexPlusConfig \<Rightarrow> string list" where
  "known_groups cfg = rev (fold (\<lambda>model groups.
     let g = go_TrimSpace (ModelGroup model) in if g = [] \<or> g \<in> set groups then groups else g # groups) (models_of cfg) [])"

definition align_plan :: "CodexPlusConfig \<Rightarrow> CodexPlusPlan \<Rightarrow> CodexPlusPlan" where
  "align_plan cfg plan =
     (let modelGroups = known_groups cfg;
          policyID = (case policies_of cfg of [] \<Rightarrow> [] | p # _ \<Rightarrow> go_TrimSpace (PolicyID p))
      in plan
       \<lparr>UsagePolicyID := (if policyID \<noteq> [] \<and> \<not> codexPlusUsagePolicyExists cfg (UsagePolicyID plan) then policyID
          else UsagePolicyID plan),
        pl_ModelGroups := (if modelGroups \<noteq> [] \<and> \<not> codexPlusPlanHasKnownModelGroup plan modelGroups then modelGroups
          else pl_ModelGroups plan)\<rparr>)"

definition align_policy :: "string list \<Rightarrow> string list \<Rightarrow> CodexPlusUsageRule \<Rightarrow> CodexPlusUsageRule" where
  "align_policy planIDs modelGroups policy =
     (let applies = AppliesTo policy
      in policy\<lparr>AppliesTo := applies
       \<lparr>at_PlanIDs := (if planIDs \<noteq> [] \<and> \<not> codexPlusSliceIntersectsSet (at_PlanIDs applies) planIDs then planIDs
          else at_PlanIDs applies),
        at_ModelGroups := (if modelGroups \<noteq> [] \<and> \<not> codexPlusSliceIntersectsSet (at_ModelGroups applies) modelGroups then modelGroups
          else at_ModelGroups applies)\<rparr>\<rparr>)"

definition codexPlusAlignDefaultConfigReferences :: "CodexPlusConfig \<Rightarrow> CodexPlusConfig" where
  "codexPlusAlignDefaultConfigReferences cfg =
     (let plans = map (align_plan cfg) (plans_of cfg);
          planIDs = filter (\<lambda>id. id \<noteq> []) (map (\<lambda>plan. go_TrimSpace (PlanID plan)) plans)
      in cfg\<lparr>PlanCatalog := (PlanCatalog cfg)\<lparr>Plans := plans\<rparr>,
             UsagePolicy := (UsagePolicy cfg)\<lparr>Policies := map (align_policy planIDs (known_groups cfg)) (policies_of cfg)\<rparr>\<rparr>)"

definition DefaultCodexPlusConfig :: "int \<Rightarrow> CodexPlusConfig" where
  "DefaultCodexPlusConfig now =
      codexPlusAlignDefaultConfigReferences
       \<lparr>ConfigVersion = CodexPlusConfigVersionMVP, DraftStatus = ''published'', PublishScope = ''production'', RollbackFrom = None,
        UpdatedBy = ''system'', UpdatedAt = go_RFC3339 now, ChangeReason = ''initial Codex++ config center defaults'',
        PlanCatalog = codexPlusPlanCatalogFromRegistry DefaultPlanCatalog,
        ModelCatalog = codexPlusModelCatalogFromRegistry DefaultModelCatalog,
        UsagePolicy = codexPlusUsagePolicyFromRegistry (DefaultUsagePolicyCatalog now),
        FeatureFlags = codexPlusFeatureFlagsFromRegistry (DefaultFeatureFlags (Some now))\<rparr>"

section \<open>The service\<close>

text \<open>
  The configuration is stored as JSON; \<open>json.Marshal\<close> and \<open>json.Unmarshal\<close> for it, \<open>url.Parse\<close> and the
  repository of settings are parameters. The service reads the clock once in each operation.
\<close>

record 's SettingRepository =
  GetValue :: "'s \<Rightarrow> string \<Rightarrow> setting_error + string"
  SetValue :: "'s \<Rightarrow> string \<Rightarrow> string \<Rightarrow> string option \<times> 's"

record config_library =
  url_Parse :: url_parser
  json_Marshal :: "CodexPlusConfig \<Rightarrow> string + string"
  json_Unmarshal :: "string \<Rightarrow> string + CodexPlusConfig"

datatype config_error =
  NotInitialized | GetFailed string | DecodeFailed string | ConfigInvalid string | MarshalFailed string | StoreFailed string

definition DecodeCodexPlusConfig :: "config_library \<Rightarrow> string \<Rightarrow> config_error + CodexPlusConfig" where
  "DecodeCodexPlusConfig lib raw = map_sum DecodeFailed (\<lambda>cfg. cfg) (json_Unmarshal lib raw)"

definition EncodeCodexPlusConfig :: "config_library \<Rightarrow> CodexPlusConfig \<Rightarrow> config_error + string" where
  "EncodeCodexPlusConfig lib cfg =
     (case ValidateCodexPlusConfig (url_Parse lib) cfg of
        Some e \<Rightarrow> Inl (ConfigInvalid e)
      | None \<Rightarrow> map_sum MarshalFailed (\<lambda>raw. raw) (json_Marshal lib cfg))"

definition GetConfig :: "config_library \<Rightarrow> 's SettingRepository option \<Rightarrow> int \<Rightarrow> 's \<Rightarrow> config_error + CodexPlusConfig" where
  "GetConfig lib repo now s =
     (case repo of
        None \<Rightarrow> Inl NotInitialized
      | Some r \<Rightarrow>
          (case GetValue r s CodexPlusConfigSettingKey of
             Inl SettingNotFound \<Rightarrow> Inr (DefaultCodexPlusConfig now)
           | Inl (SettingFailed e) \<Rightarrow> Inl (GetFailed e)
           | Inr raw \<Rightarrow>
               (case DecodeCodexPlusConfig lib raw of
                  Inl e \<Rightarrow> Inl e
                | Inr cfg0 \<Rightarrow>
                    (let cfg = normalizeCodexPlusStoredConfigForRead cfg0
                     in case ValidateCodexPlusConfig (url_Parse lib) cfg of
                          Some e \<Rightarrow> Inl (ConfigInvalid e)
                        | None \<Rightarrow> Inr cfg))))"

text \<open>Checking, encoding and storing a configuration, the end of both operations that write.\<close>

definition store_config ::
    "config_library \<Rightarrow> 's SettingRepository \<Rightarrow> CodexPlusConfig \<Rightarrow> 's \<Rightarrow> (config_error + CodexPlusConfig) \<times> 's" where
  "store_config lib r cfg s =
     (case EncodeCodexPlusConfig lib cfg of
        Inl e \<Rightarrow> (Inl e, s)
      | Inr raw \<Rightarrow>
          (case SetValue r s CodexPlusConfigSettingKey raw of
             (Some e, s') \<Rightarrow> (Inl (StoreFailed e), s')
           | (None, s') \<Rightarrow> (Inr cfg, s')))"

definition EnsureDefault ::
    "config_library \<Rightarrow> 's SettingRepository option \<Rightarrow> int \<Rightarrow> 's \<Rightarrow> (config_error + CodexPlusConfig) \<times> 's" where
  "EnsureDefault lib repo now s =
     (case repo of
        None \<Rightarrow> (Inl NotInitialized, s)
      | Some r \<Rightarrow> (case GetConfig lib repo now s of Inl e \<Rightarrow> (Inl e, s) | Inr cfg \<Rightarrow> store_config lib r cfg s))"

definition Publish ::
    "config_library \<Rightarrow> 's SettingRepository option \<Rightarrow> int \<Rightarrow> CodexPlusConfig \<Rightarrow> string \<Rightarrow> string \<Rightarrow> 's \<Rightarrow>
     (config_error + CodexPlusConfig) \<times> 's" where
  "Publish lib repo now draft actor reason s =
     (case repo of
        None \<Rightarrow> (Inl NotInitialized, s)
      | Some r \<Rightarrow>
          (let cfg = NormalizeCodexPlusConfig draft now (go_TrimSpace actor) (go_TrimSpace reason)
           in case ValidateCodexPlusConfig (url_Parse lib) cfg of
                Some e \<Rightarrow> (Inl (ConfigInvalid e), s)
              | None \<Rightarrow> store_config lib r cfg s))"

text \<open>The repository of the program.\<close>

definition settingRepository :: "int \<Rightarrow> settings_db SettingRepository" where
  "settingRepository now = \<lparr>GetValue = setting_GetValue, SetValue = setting_Set now\<rparr>"

section \<open>What a valid configuration satisfies\<close>

lemma first_of_None: "first_of es = None \<longleftrightarrow> (\<forall>e \<in> set es. e = None)"
  by (induction es rule: first_of.induct) auto

lemma registry_error_None [simp]: "registry_error e = None \<longleftrightarrow> e = None"
  by (simp add: registry_error_def split: option.splits)

lemma Validate_None:
  "ValidateCodexPlusConfig parse cfg = None \<longleftrightarrow>
    go_TrimSpace (ConfigVersion cfg) \<noteq> [] \<and>
    (go_TrimSpace (DraftStatus cfg) \<noteq> [] \<longrightarrow> validCodexPlusDraftStatus (DraftStatus cfg)) \<and>
    validCodexPlusPublishScope (PublishScope cfg) \<and>
    (go_TrimSpace (UpdatedAt cfg) \<noteq> [] \<longrightarrow> rfc3339_ok (UpdatedAt cfg)) \<and>
    validateCodexPlusPlans (plans_of cfg) = None \<and> validateCodexPlusModels (models_of cfg) = None \<and>
    validateCodexPlusUsagePolicies (policies_of cfg) = None \<and>
    ValidatePlanCatalog parse (codexPlusPlanCatalogToRegistry cfg) = None \<and>
    ValidateModelCatalog (codexPlusModelCatalogToRegistry cfg) = None \<and>
    ValidateUsagePolicyCatalog (codexPlusUsagePolicyToRegistry cfg) = None \<and>
    ValidateFeatureFlags (codexPlusFeatureFlagsToRegistry cfg) = None"
  by (auto simp: ValidateCodexPlusConfig_def first_of_None)

lemma registry_catalogs [simp]:
  "Plans (codexPlusPlanCatalogToRegistry cfg) = map plan_to_registry (plans_of cfg)"
  "Models (codexPlusModelCatalogToRegistry cfg) = map model_to_registry (models_of cfg)"
  "up_Policies (codexPlusUsagePolicyToRegistry cfg) = map policy_to_registry (policies_of cfg)"
  by (simp_all add: codexPlusPlanCatalogToRegistry_def codexPlusModelCatalogToRegistry_def
      codexPlusUsagePolicyToRegistry_def document_meta.defs CodexPlusPlanCatalog.defs CodexPlusModelCatalog.defs
      UsagePolicyCatalog.defs)

lemma model_to_registry_simps [simp]:
  "ModelID (model_to_registry m) = go_TrimSpace (ModelID m)" "IsDefault (model_to_registry m) = IsDefault m"
  "IsEnabled (model_to_registry m) = IsEnabled m" "IsHidden (model_to_registry m) = IsHidden m"
  "ModelGroup (model_to_registry m) = go_TrimSpace (ModelGroup m)"
  "FallbackModelID (model_to_registry m) = FallbackModelID m"
  "DisabledReplacementModelID (model_to_registry m) = DisabledReplacementModelID m"
  by (simp_all add: model_to_registry_def)

lemma filter_default_registry:
  "length (filter IsDefault (map model_to_registry ms)) = length (filter IsDefault ms)"
  by (induction ms) auto

text \<open>The models of a valid configuration.\<close>

definition models_sound :: "CodexPlusConfig \<Rightarrow> bool" where
  "models_sound cfg \<longleftrightarrow>
     (let ids = map (go_TrimSpace \<circ> ModelID) (models_of cfg)
      in distinct ids \<and> [] \<notin> set ids \<and> length (filter IsDefault (models_of cfg)) = 1 \<and>
         (\<forall>m \<in> set (models_of cfg). (IsDefault m \<longrightarrow> IsEnabled m \<and> \<not> IsHidden m) \<and>
           (\<forall>r \<in> set_option (FallbackModelID m) \<union> set_option (DisabledReplacementModelID m).
             go_TrimSpace r \<in> set ids - {go_TrimSpace (ModelID m)})))"

lemma trim_idem_comp: "go_TrimSpace \<circ> (go_TrimSpace \<circ> f) = go_TrimSpace \<circ> f"
  by (simp add: fun_eq_iff)

lemma valid_models_sound:
  assumes "ValidateCodexPlusConfig parse cfg = None"
  shows "models_sound cfg"
proof -
  let ?ms = "models_of cfg"
  have ids: "map (go_TrimSpace \<circ> ModelID) (map model_to_registry ?ms) = map (go_TrimSpace \<circ> ModelID) ?ms"
      "(go_TrimSpace \<circ> ModelID) ` set (map model_to_registry ?ms) = set (map (go_TrimSpace \<circ> ModelID) ?ms)"
    by (simp_all add: image_image)
  have "ValidateModelCatalog (codexPlusModelCatalogToRegistry cfg) = None" using assms by (simp add: Validate_None)
  then have ok: "\<forall>m \<in> set ?ms. model_ok (model_to_registry m) \<and> default_ok (model_to_registry m) \<and>
        references_ok (set (map (go_TrimSpace \<circ> ModelID) ?ms)) (model_to_registry m)"
      and rest: "distinct (map (go_TrimSpace \<circ> ModelID) ?ms)" "length (filter IsDefault ?ms) = 1"
    unfolding model_catalog_accepts registry_catalogs ids filter_default_registry by simp_all
  have "[] \<notin> set (map (go_TrimSpace \<circ> ModelID) ?ms)"
    using ok by (auto simp: model_ok_def model_id_pattern_def)
  with ok rest show ?thesis
    by (simp add: models_sound_def Let_def default_ok_def references_ok_def)
qed

text \<open>Reading repairs a hidden default model; a valid configuration has none.\<close>

lemma normalizeStored_valid:
  assumes "ValidateCodexPlusConfig parse cfg = None"
  shows "normalizeCodexPlusStoredConfigForRead cfg = cfg"
proof -
  have "\<forall>m \<in> set (models_of cfg). \<not> (IsDefault m \<and> IsEnabled m \<and> IsHidden m)"
    using valid_models_sound [OF assms] by (auto simp: models_sound_def Let_def)
  then have "map (\<lambda>model. if IsDefault model \<and> IsEnabled model \<and> IsHidden model then model\<lparr>IsHidden := False\<rparr> else model)
      (models_of cfg) = models_of cfg"
    by (intro map_idI) auto
  then show ?thesis by (simp add: normalizeCodexPlusStoredConfigForRead_def)
qed

section \<open>Storing and reading\<close>

definition keeps :: "config_library \<Rightarrow> CodexPlusConfig \<Rightarrow> bool" where
  "keeps lib cfg \<longleftrightarrow> (\<forall>raw. json_Marshal lib cfg = Inr raw \<longrightarrow> json_Unmarshal lib raw = Inr cfg)"

lemma Encode_Inr:
  "EncodeCodexPlusConfig lib cfg = Inr raw \<longleftrightarrow>
    ValidateCodexPlusConfig (url_Parse lib) cfg = None \<and> json_Marshal lib cfg = Inr raw"
  by (cases "ValidateCodexPlusConfig (url_Parse lib) cfg"; cases "json_Marshal lib cfg")
    (simp_all add: EncodeCodexPlusConfig_def)

lemma store_config_Inr:
  assumes "store_config lib r cfg s = (Inr cfg', s')"
  obtains raw where "ValidateCodexPlusConfig (url_Parse lib) cfg = None" and "json_Marshal lib cfg = Inr raw"
    and "SetValue r s CodexPlusConfigSettingKey raw = (None, s')" and "cfg' = cfg"
proof (cases "EncodeCodexPlusConfig lib cfg")
  case (Inl e)
  then show ?thesis using assms by (simp add: store_config_def)
next
  case (Inr raw)
  obtain e s1 where set: "SetValue r s CodexPlusConfigSettingKey raw = (e, s1)" by fastforce
  have "e = None \<and> s1 = s' \<and> cfg' = cfg"
    using assms by (cases e) (simp_all add: store_config_def Inr set)
  then show ?thesis using Inr [unfolded Encode_Inr] set by (intro that [of raw]) simp_all
qed

lemma store_config_Inl:
  assumes "store_config lib r cfg s = (Inl e, s')"
  obtains "s' = s" | raw e' where "SetValue r s CodexPlusConfigSettingKey raw = (Some e', s')"
proof (cases "EncodeCodexPlusConfig lib cfg")
  case (Inl e)
  then show ?thesis using assms that(1) by (simp add: store_config_def)
next
  case (Inr raw)
  obtain e s1 where set: "SetValue r s CodexPlusConfigSettingKey raw = (e, s1)" by fastforce
  then obtain e' where "e = Some e'" and "s1 = s'"
    using assms by (cases e) (simp_all add: store_config_def Inr)
  then show ?thesis using set by (intro that(2) [of raw e']) simp
qed

context setting_repository
begin

lemma store_then_get:
  assumes "inv s" and "store_config lib \<lparr>GetValue = getv, SetValue = setv\<rparr> cfg s = (Inr cfg', s')" and "keeps lib cfg"
  shows "cfg' = cfg \<and> inv s' \<and> GetConfig lib (Some \<lparr>GetValue = getv, SetValue = setv\<rparr>) now s' = Inr cfg"
proof -
  from store_config_Inr [OF assms(2)] obtain raw where
    raw: "ValidateCodexPlusConfig (url_Parse lib) cfg = None" "json_Marshal lib cfg = Inr raw"
      and set: "setv s CodexPlusConfigSettingKey raw = (None, s')" and cfg': "cfg' = cfg"
    by auto
  have get: "getv s' CodexPlusConfigSettingKey = Inr raw" and inv: "inv s'"
    using get_set [OF assms(1), of CodexPlusConfigSettingKey raw] set_inv [OF assms(1), of CodexPlusConfigSettingKey raw] set
    by simp_all
  have "json_Unmarshal lib raw = Inr cfg" using assms(3) raw(2) by (simp add: keeps_def)
  then show ?thesis
    using get inv cfg' raw(1) by (simp add: GetConfig_def DecodeCodexPlusConfig_def normalizeStored_valid Let_def)
qed

lemma store_failed:
  assumes "store_config lib \<lparr>GetValue = getv, SetValue = setv\<rparr> cfg s = (Inl e, s')"
  shows "s' = s"
  using assms
proof (cases rule: store_config_Inl)
  case (2 raw e')
  then show ?thesis using set_failed [of s CodexPlusConfigSettingKey raw e'] by simp
qed

end

lemma publish_outcome:
  assumes "Publish lib (Some (settingRepository t)) now draft actor reason db = (Inr cfg, db')"
  shows "store_config lib (settingRepository t) cfg db = (Inr cfg, db')"
    and "cfg = NormalizeCodexPlusConfig draft now (go_TrimSpace actor) (go_TrimSpace reason)"
    and "ValidateCodexPlusConfig (url_Parse lib) cfg = None"
proof -
  let ?cfg = "NormalizeCodexPlusConfig draft now (go_TrimSpace actor) (go_TrimSpace reason)"
  have valid: "ValidateCodexPlusConfig (url_Parse lib) ?cfg = None"
      and stored: "store_config lib (settingRepository t) ?cfg db = (Inr cfg, db')"
    using assms by (cases "ValidateCodexPlusConfig (url_Parse lib) ?cfg"; simp add: Publish_def Let_def)+
  from store_config_Inr [OF stored] show "cfg = ?cfg" by auto
  with valid stored show "store_config lib (settingRepository t) cfg db = (Inr cfg, db')"
      "ValidateCodexPlusConfig (url_Parse lib) cfg = None" by simp_all
qed

text \<open>
  C11: what was published is what is read. Publishing that succeeds stores the configuration it returns,
  and a later read of the store gives exactly this configuration, whatever the clock says and although
  reading repairs and checks it again, provided JSON keeps the configuration.
\<close>

theorem publish_then_get:
  assumes "unique_keys db"
    and "Publish lib (Some (settingRepository t)) now draft actor reason db = (Inr cfg, db')"
    and "keeps lib cfg"
  shows "GetConfig lib (Some (settingRepository t')) now' db' = Inr cfg"
proof -
  have "GetConfig lib (Some (settingRepository t')) now' db' = GetConfig lib (Some (settingRepository t)) now' db'"
    by (simp add: GetConfig_def settingRepository_def)
  with settings.store_then_get [OF assms(1) publish_outcome(1) [OF assms(2), unfolded settingRepository_def] assms(3)]
  show ?thesis by (simp add: settingRepository_def)
qed

lemma publish_failed:
  assumes "Publish lib (Some (settingRepository t)) now draft actor reason db = (Inl e, db')"
  shows "db' = db"
proof -
  let ?cfg = "NormalizeCodexPlusConfig draft now (go_TrimSpace actor) (go_TrimSpace reason)"
  show ?thesis
  proof (cases "ValidateCodexPlusConfig (url_Parse lib) ?cfg")
    case None
    then have "store_config lib (settingRepository t) ?cfg db = (Inl e, db')"
      using assms by (simp add: Publish_def Let_def)
    then show ?thesis unfolding settingRepository_def by (rule settings.store_failed)
  next
    case (Some e')
    then show ?thesis using assms by (simp add: Publish_def Let_def)
  qed
qed

lemma ensure_outcome:
  assumes "EnsureDefault lib (Some (settingRepository t)) now db = (out, db')"
  shows "(\<exists>e. out = Inl e \<and> db' = db) \<or>
    (\<exists>cfg. GetConfig lib (Some (settingRepository t)) now db = Inr cfg \<and> out = Inr cfg \<and>
      store_config lib (settingRepository t) cfg db = (Inr cfg, db'))"
proof (cases "GetConfig lib (Some (settingRepository t)) now db")
  case (Inl e)
  then have "out = Inl e \<and> db' = db" using assms by (simp add: EnsureDefault_def)
  then show ?thesis by blast
next
  case (Inr cfg)
  then have st: "store_config lib (settingRepository t) cfg db = (out, db')" using assms by (simp add: EnsureDefault_def)
  show ?thesis
  proof (cases out)
    case (Inl e)
    then have "db' = db" using st unfolding settingRepository_def by (metis settings.store_failed)
    then show ?thesis using Inl by simp
  next
    case (Inr cfg')
    from store_config_Inr [OF st [unfolded Inr]] have "cfg' = cfg" by auto
    then show ?thesis using Inr st \<open>GetConfig _ _ _ _ = Inr cfg\<close> by simp
  qed
qed

text \<open>
  publishing that fails, because the draft is invalid, cannot be encoded or cannot be stored, leaves
  every setting as it was.
\<close>

theorem failed_publish_changes_nothing:
  assumes "Publish lib (Some (settingRepository t)) now draft actor reason db = (Inl e, db')"
  shows "db' = db"
  by (rule publish_failed [OF assms])

text \<open>
  creating the default is idempotent: once it has succeeded, every read returns the same
  configuration, also when the clock has moved on, and creating it again succeeds and changes no setting.
\<close>

theorem ensure_default_settles:
  assumes "unique_keys db" and "EnsureDefault lib (Some (settingRepository t)) now db = (Inr cfg, db')" and "keeps lib cfg"
  shows "GetConfig lib (Some (settingRepository t')) now' db' = Inr cfg \<and>
    fst (EnsureDefault lib (Some (settingRepository t')) now' db') = Inr cfg \<and>
    stored (snd (EnsureDefault lib (Some (settingRepository t')) now' db')) = stored db'"
proof -
  from ensure_outcome [OF assms(2)] have st: "store_config lib (settingRepository t) cfg db = (Inr cfg, db')" by auto
  from store_config_Inr [OF st] obtain raw where
    raw: "ValidateCodexPlusConfig (url_Parse lib) cfg = None" "json_Marshal lib cfg = Inr raw"
      and set: "setting_Set t db CodexPlusConfigSettingKey raw = (None, db')"
    by (auto simp: settingRepository_def)
  have get: "GetConfig lib (Some (settingRepository t')) now' db' = Inr cfg" and inv: "unique_keys db'"
    using settings.store_then_get [OF assms(1) st [unfolded settingRepository_def] assms(3)]
    by (simp_all add: GetConfig_def settingRepository_def)
  have db': "st_fault db' = None" "stored db' CodexPlusConfigSettingKey = Some raw"
    using set by (auto simp: setting_Set_def stored_upsert split: option.splits)
  have again: "setting_Set t' db' CodexPlusConfigSettingKey raw = (None, upsert t' (CodexPlusConfigSettingKey, raw) db')"
    by (simp add: setting_Set_def db')
  have "EnsureDefault lib (Some (settingRepository t')) now' db' =
      (Inr cfg, upsert t' (CodexPlusConfigSettingKey, raw) db')"
    using get raw again
    by (simp add: EnsureDefault_def store_config_def EncodeCodexPlusConfig_def settingRepository_def)
  with get db'(2) show ?thesis by (simp add: stored_upsert map_upd_triv del: fun_upd_apply)
qed

section \<open>What publishing writes\<close>

lemma fallback_not_blank: "fallback \<noteq> [] \<Longrightarrow> codexPlusFallbackString value fallback \<noteq> []"
  by (simp add: codexPlusFallbackString_def)

lemma normalize_meta_rest [simp]:
  "Plans (normalize_meta cfg pc) = Plans pc" "Models (normalize_meta cfg mc) = Models mc"
  "Policies (normalize_meta cfg up) = Policies up" "Flags (normalize_meta cfg ff) = Flags ff"
  "Exposure (normalize_meta cfg ff) = Exposure ff" "fd_CopyKeys (normalize_meta cfg ff) = fd_CopyKeys ff"
  by (simp_all add: normalize_meta_def)

section \<open>The references of the default configuration\<close>

lemma set_known_groups:
  "set (known_groups cfg) = {go_TrimSpace (ModelGroup m) | m. m \<in> set (models_of cfg)} - {[]}"
proof -
  have "set (fold (\<lambda>model groups. let g = go_TrimSpace (ModelGroup model)
      in if g = [] \<or> g \<in> set groups then groups else g # groups) ms acc) =
      set acc \<union> ({go_TrimSpace (ModelGroup m) | m. m \<in> set ms} - {[]})" for ms :: "CodexPlusModel list" and acc
    by (induction ms arbitrary: acc) (auto simp: Let_def)
  then show ?thesis by (simp add: known_groups_def)
qed

text \<open>What the alignment promises: plans name existing policies and known groups, and policies apply to
  plans and groups that exist.\<close>

definition references_aligned :: "CodexPlusConfig \<Rightarrow> bool" where
  "references_aligned cfg \<longleftrightarrow>
     (\<forall>plan \<in> set (plans_of cfg). codexPlusUsagePolicyExists cfg (UsagePolicyID plan) \<and>
        codexPlusPlanHasKnownModelGroup plan (known_groups cfg)) \<and>
     (\<forall>policy \<in> set (policies_of cfg).
        (\<exists>plan \<in> set (plans_of cfg). go_TrimSpace (PlanID plan) \<in> go_TrimSpace ` set (at_PlanIDs (AppliesTo policy))) \<and>
        codexPlusSliceIntersectsSet (at_ModelGroups (AppliesTo policy)) (known_groups cfg))"

lemma trim_known: "g \<in> set (known_groups cfg) \<Longrightarrow> go_TrimSpace g = g"
  by (auto simp: set_known_groups)

lemma alignment_references:
  assumes "\<exists>p ps. policies_of cfg = p # ps \<and> go_TrimSpace (PolicyID p) \<noteq> []"
    and "\<exists>m \<in> set (models_of cfg). go_TrimSpace (ModelGroup m) \<noteq> []"
    and "\<exists>plan \<in> set (plans_of cfg). go_TrimSpace (PlanID plan) \<noteq> []"
  shows "references_aligned (codexPlusAlignDefaultConfigReferences cfg)"
proof -
  let ?out = "codexPlusAlignDefaultConfigReferences cfg"
  let ?ids = "filter (\<lambda>id. id \<noteq> []) (map (\<lambda>plan. go_TrimSpace (PlanID plan)) (map (align_plan cfg) (plans_of cfg)))"
  have PlanID_align: "PlanID (align_plan cfg plan) = PlanID plan" for plan
    by (simp add: align_plan_def Let_def)
  have PolicyID_align: "PolicyID (align_policy a b policy) = PolicyID policy" for a b policy
    by (simp add: align_policy_def Let_def)
  have plans: "plans_of ?out = map (align_plan cfg) (plans_of cfg)"
      and policies: "policies_of ?out = map (align_policy ?ids (known_groups cfg)) (policies_of cfg)"
      and models: "models_of ?out = models_of cfg"
    by (simp_all add: codexPlusAlignDefaultConfigReferences_def Let_def)
  have groups: "known_groups ?out = known_groups cfg" by (simp add: known_groups_def models)
  obtain g where g: "g \<in> set (known_groups cfg)" using assms(2) by (auto simp: set_known_groups)
  then have ne: "known_groups cfg \<noteq> []" and g_trim: "go_TrimSpace g \<in> set (known_groups cfg)"
    by (auto simp: trim_known)
  obtain id where id: "id \<in> set ?ids" using assms(3) by (auto simp: PlanID_align)
  have exists: "codexPlusUsagePolicyExists ?out pid = codexPlusUsagePolicyExists cfg pid" for pid
    by (simp add: codexPlusUsagePolicyExists_def policies Let_def list_ex_iff PolicyID_align)
  obtain p ps where first: "policies_of cfg = p # ps" "go_TrimSpace (PolicyID p) \<noteq> []" using assms(1) by blast
  have plan_ok: "codexPlusUsagePolicyExists ?out (UsagePolicyID (align_plan cfg plan)) \<and>
      codexPlusPlanHasKnownModelGroup (align_plan cfg plan) (known_groups cfg)" for plan
  proof -
    have "codexPlusUsagePolicyExists cfg (go_TrimSpace (PolicyID p))"
      using first by (simp add: codexPlusUsagePolicyExists_def Let_def)
    moreover have "codexPlusPlanHasKnownModelGroup (plan\<lparr>pl_ModelGroups := known_groups cfg\<rparr>) (known_groups cfg)" for plan
      using g g_trim by (auto simp: codexPlusPlanHasKnownModelGroup_def list_ex_iff)
    ultimately show ?thesis
      unfolding exists using first ne
      by (auto simp: align_plan_def Let_def codexPlusPlanHasKnownModelGroup_def)
  qed
  have policy_ok: "codexPlusSliceIntersectsSet (at_PlanIDs (AppliesTo (align_policy ?ids (known_groups cfg) q))) ?ids \<and>
      codexPlusSliceIntersectsSet (at_ModelGroups (AppliesTo (align_policy ?ids (known_groups cfg) q))) (known_groups cfg)" for q
  proof -
    have "codexPlusSliceIntersectsSet ?ids ?ids"
      using id by (auto simp: codexPlusSliceIntersectsSet_def list_ex_iff)
    moreover have "codexPlusSliceIntersectsSet (known_groups cfg) (known_groups cfg)"
      using g g_trim by (auto simp: codexPlusSliceIntersectsSet_def list_ex_iff)
    moreover have "?ids \<noteq> []" using id by (metis empty_iff list.set(1))
    ultimately show ?thesis using ne by (auto simp: align_policy_def Let_def)
  qed
  have "\<exists>plan \<in> set (plans_of cfg). go_TrimSpace (PlanID plan) \<in> go_TrimSpace ` set xs"
    if "codexPlusSliceIntersectsSet xs ?ids" for xs
    using that by (auto simp: codexPlusSliceIntersectsSet_def list_ex_iff PlanID_align) (metis image_eqI)
  then show ?thesis
    using plan_ok policy_ok by (simp add: references_aligned_def plans policies groups PlanID_align)
qed

section \<open>The default configuration is valid\<close>

lemma RFC3339_token: "list_all token_byte (go_RFC3339 t)"
proof -
  have int: "list_all token_byte (go_FormatInt i)" for i
    using nat_digits_digits token_byte_cases(3)
    by (auto simp: go_FormatInt_def list_all_iff token_byte_def byte_def)
  have pad: "list_all token_byte (pad_int n i)" for n i
    using int [of i] by (auto simp: pad_int_def Let_def list_all_iff token_byte_def byte_def)
  have "list_all token_byte ''-''" "list_all token_byte ''T''" "list_all token_byte '':''" "list_all token_byte ''Z''"
    by (simp_all add: token_byte_def byte_def)
  with pad show ?thesis by (simp add: go_RFC3339_def Let_def split_beta)
qed

lemma trim_RFC3339 [simp]: "go_TrimSpace (go_RFC3339 t) = go_RFC3339 t"
  by (rule go_TrimSpace_token [OF RFC3339_token])

text \<open>A complete head is taken over as it is.\<close>

definition complete_head :: "'a document_meta_scheme \<Rightarrow> bool" where
  "complete_head m \<longleftrightarrow>
     (\<forall>f \<in> {ConfigVersion m, PublishScope m, UpdatedBy m, UpdatedAt m, ChangeReason m}. f \<noteq> [] \<and> go_TrimSpace f = f) \<and>
     DraftStatus m \<in> {''editing'', ''ready_for_review'', ''approved'', ''published'', ''archived''} \<and>
     go_TrimSpace (DraftStatus m) = DraftStatus m"

lemma registry_meta_complete:
  assumes "complete_head m"
  shows "codexPlusRegistryMeta (Some cfg) m = document_meta.truncate m"
proof -
  have f: "codexPlusFallbackString v x = v" if "v \<noteq> []" "go_TrimSpace v = v" for v x
    using that by (simp add: codexPlusFallbackString_def)
  have "DraftStatus m \<noteq> []" using assms by (auto simp: complete_head_def)
  then show ?thesis
    using assms
    by (simp add: complete_head_def codexPlusRegistryMeta_def f codexPlusCatalogDraftStatus_def
        codexPlusCatalogPublishScope_def codexPlusCatalogUpdatedBy_def codexPlusCatalogUpdatedAt_def
        codexPlusCatalogChangeReason_def Let_def document_meta.defs)
qed

lemma default_heads:
  "complete_head DefaultPlanCatalog" "complete_head DefaultModelCatalog"
  by (simp_all add: complete_head_def DefaultPlanCatalog_def DefaultModelCatalog_def literal_trim)

lemma default_heads_now:
  assumes "rfc3339_ok (go_RFC3339 now)"
  shows "complete_head (DefaultUsagePolicyCatalog now)" "complete_head (DefaultFeatureFlags (Some now))"
proof -
  have "go_RFC3339 now \<noteq> []" by (auto simp: go_RFC3339_def Let_def split_beta)
  then show "complete_head (DefaultUsagePolicyCatalog now)" "complete_head (DefaultFeatureFlags (Some now))"
    by (simp_all add: complete_head_def DefaultUsagePolicyCatalog_def DefaultFeatureFlags_def featureFlagsTimestamp_def
        literal_trim)
qed

lemma default_known_groups: "known_groups (DefaultCodexPlusConfig 0) = [''codex'']"
  by (simp add: DefaultCodexPlusConfig_def codexPlusAlignDefaultConfigReferences_def Let_def known_groups_def
      codexPlusModelCatalogFromRegistry_def DefaultModelCatalog_def codex_standard_def codex_pro_def literal_trim)

lemma default_models_list: "models_of (DefaultCodexPlusConfig now) = [codex_standard, codex_pro]"
  by (simp add: DefaultCodexPlusConfig_def codexPlusAlignDefaultConfigReferences_def Let_def
      codexPlusModelCatalogFromRegistry_def DefaultModelCatalog_def)

lemma default_plans_list: "plans_of (DefaultCodexPlusConfig now) =
    map (\<lambda>plan. plan\<lparr>UsagePolicyID := ''default'', pl_ModelGroups := [''codex'']\<rparr>) (Plans DefaultPlanCatalog)"
proof -
  have groups: "known_groups c = [''codex'']" if "ModelCatalog c = DefaultModelCatalog" for c
    using that by (simp add: known_groups_def DefaultModelCatalog_def codex_standard_def codex_pro_def literal_trim)
  have policies: "policies_of c = [policy_from_registry DefaultUsagePolicyRule]"
    if "UsagePolicy c = codexPlusUsagePolicyFromRegistry (DefaultUsagePolicyCatalog now)" for c
    using that by (simp add: codexPlusUsagePolicyFromRegistry_def DefaultUsagePolicyCatalog_def document_meta.defs
        CodexPlusUsagePolicy.defs)
  have "align_plan c (hd (Plans DefaultPlanCatalog)) =
      (hd (Plans DefaultPlanCatalog))\<lparr>UsagePolicyID := ''default'', pl_ModelGroups := [''codex'']\<rparr>"
    if "ModelCatalog c = DefaultModelCatalog"
      "UsagePolicy c = codexPlusUsagePolicyFromRegistry (DefaultUsagePolicyCatalog now)" for c
    unfolding align_plan_def groups [OF that(1)] codexPlusUsagePolicyExists_def policies [OF that(2)] Let_def
    by (simp add: DefaultPlanCatalog_def codexPlusPlanHasKnownModelGroup_def policy_from_registry_def DefaultUsagePolicyRule_def
        UsagePolicyRule.defs CodexPlusUsageRule.defs literal_trim)
  then show ?thesis
    by (simp add: DefaultCodexPlusConfig_def codexPlusAlignDefaultConfigReferences_def Let_def
        codexPlusPlanCatalogFromRegistry_def codexPlusModelCatalogFromRegistry_def DefaultPlanCatalog_def)
qed

lemma default_policies_list: "policies_of (DefaultCodexPlusConfig now) =
    [(policy_from_registry DefaultUsagePolicyRule)\<lparr>AppliesTo :=
       \<lparr>at_PlanIDs = [''pro_monthly''], at_ModelGroups = [''codex''], UserSegments = [''all'']\<rparr>\<rparr>]"
proof -
  have "policies_of (DefaultCodexPlusConfig now) = map (align_policy
      (filter (\<lambda>id. id \<noteq> []) (map (\<lambda>plan. go_TrimSpace (PlanID plan)) (plans_of (DefaultCodexPlusConfig now)))) [''codex''])
      [policy_from_registry DefaultUsagePolicyRule]"
    using default_known_groups
    by (simp add: DefaultCodexPlusConfig_def codexPlusAlignDefaultConfigReferences_def Let_def
        codexPlusModelCatalogFromRegistry_def known_groups_def codexPlusUsagePolicyFromRegistry_def
        DefaultUsagePolicyCatalog_def document_meta.defs CodexPlusUsagePolicy.defs)
  then show ?thesis
    unfolding default_plans_list
    by (simp add: DefaultPlanCatalog_def align_policy_def Let_def policy_from_registry_def DefaultUsagePolicyRule_def
        UsagePolicyRule.defs CodexPlusUsageRule.defs codexPlusSliceIntersectsSet_def literal_trim)
qed

lemma default_models_checked:
  "validateCodexPlusModels [codex_standard, codex_pro] = None"
  by (simp add: validateCodexPlusModels_def check_model_def Let_def codex_standard_def codex_pro_def literal_trim less_eq_f64_def)

lemma default_models_ok: "model_ok (model_to_registry codex_standard)" "model_ok (model_to_registry codex_pro)"
  by (simp_all add: model_ok_def model_to_registry_def codex_standard_def codex_pro_def literal_trim codexPlusFallbackString_def
      literal_chars literal_runes ValidModelCatalogRolloutChannel_def ValidModelCatalogQualityTier_def blank_def no_errors)
    (rule exI [of _ "5 / 2"], simp)

lemma default_plans_checked: "validateCodexPlusPlans (plans_of (DefaultCodexPlusConfig now)) = None"
  unfolding default_plans_list
  by (simp add: DefaultPlanCatalog_def validateCodexPlusPlans_def check_plan_def Let_def
      validateCodexPlusEntitlementSources_def literal_trim)

text \<open>The two URLs of the default plan, which \<open>url.Parse\<close> splits into a scheme and a host.\<close>

definition absolute :: "url_parser \<Rightarrow> string \<Rightarrow> bool" where
  "absolute parse u \<longleftrightarrow> (case parse u of None \<Rightarrow> False | Some (scheme, host) \<Rightarrow> scheme \<noteq> [] \<and> host \<noteq> [])"

lemma default_plans_ok:
  assumes "absolute parse ''https://codex-plus.local/billing/plans/pro-monthly/purchase''"
    and "absolute parse ''https://codex-plus.local/billing/plans/pro-monthly/renew''"
  shows "\<forall>plan \<in> set (plans_of (DefaultCodexPlusConfig now)). plan_ok parse (plan_to_registry plan)"
proof -
  have "\<exists>scheme host. parse u = Some (scheme, host) \<and> scheme \<noteq> [] \<and> host \<noteq> []" if "absolute parse u" for u
    using that by (auto simp: absolute_def split: option.splits)
  note urls = this [OF assms(1)] this [OF assms(2)]
  show ?thesis
    unfolding default_plans_list
    using urls
    by (simp add: DefaultPlanCatalog_def plan_ok_def plan_to_registry_def literal_trim codexPlusFallbackString_def
        trimmedLen_def ValidBillingPeriod_def ValidPlanStatus_def codexPlusBillingPeriodForRegistry_def
        codexPlusPlanStatusForRegistry_def codexPlusPlanCopyKeysForRegistry_def Let_def literal_chars no_errors)
qed

lemma default_policies_checked: "validateCodexPlusUsagePolicies (policies_of (DefaultCodexPlusConfig now)) = None"
  unfolding default_policies_list
  by (simp add: validateCodexPlusUsagePolicies_def check_policy_def Let_def policy_from_registry_def
      DefaultUsagePolicyRule_def UsagePolicyRule.defs CodexPlusUsageRule.defs validCodexPlusExpiredBehavior_def
      DefaultUsagePolicyCopyKeys_def literal_trim)

lemma default_policies_ok:
  "\<forall>p \<in> set (policies_of (DefaultCodexPlusConfig now)). rule_ok (policy_to_registry p)"
  unfolding default_policies_list
  by (simp add: policy_to_registry_def policy_from_registry_def DefaultUsagePolicyRule_def UsagePolicyRule.defs
      CodexPlusUsageRule.defs rule_ok_def usage_keys_ok_def device_policy_ok_def codexPlusPositiveOrDefault_def
      codexPlusFallbackString_def codexPlusUsageCopyKeysForRegistry_def codexPlusDevicePolicyForRegistry_def keep_or_def
      DefaultUsagePolicyDevicePolicy_def DefaultUsagePolicyDeviceMessageKeys_def DefaultDeviceRevokeReasonTaxonomy_def
      DefaultUsagePolicyCopyKeys_def ValidUsagePolicyExpiredBehavior_def ValidUsagePolicyOverageBehavior_def
      ValidDeviceRevokeReason_def ValidDeviceSupportUnlockPolicy_def ValidDeviceRevokedBehavior_def
      literal_trim literal_chars no_errors Let_def)

lemma default_docs:
  "document_meta.truncate (PlanCatalog (DefaultCodexPlusConfig now)) = document_meta.truncate DefaultPlanCatalog"
  "document_meta.truncate (ModelCatalog (DefaultCodexPlusConfig now)) = document_meta.truncate DefaultModelCatalog"
  "document_meta.truncate (UsagePolicy (DefaultCodexPlusConfig now)) = document_meta.truncate (DefaultUsagePolicyCatalog now)"
  "FeatureFlags (DefaultCodexPlusConfig now) = codexPlusFeatureFlagsFromRegistry (DefaultFeatureFlags (Some now))"
  by (simp_all add: DefaultCodexPlusConfig_def codexPlusAlignDefaultConfigReferences_def Let_def document_meta.defs
      codexPlusPlanCatalogFromRegistry_def codexPlusModelCatalogFromRegistry_def codexPlusUsagePolicyFromRegistry_def
      CodexPlusUsagePolicy.defs)

lemma registry_meta_cong:
  "document_meta.truncate m = document_meta.truncate m' \<Longrightarrow> codexPlusRegistryMeta (Some cfg) m = codexPlusRegistryMeta (Some cfg) m'"
  by (cases m; cases m') (simp add: codexPlusRegistryMeta_def document_meta.defs)

lemma default_registry_meta:
  assumes "rfc3339_ok (go_RFC3339 now)"
  defines "cfg \<equiv> DefaultCodexPlusConfig now"
  shows "codexPlusRegistryMeta (Some cfg) (PlanCatalog cfg) = document_meta.truncate DefaultPlanCatalog"
    "codexPlusRegistryMeta (Some cfg) (ModelCatalog cfg) = document_meta.truncate DefaultModelCatalog"
    "codexPlusRegistryMeta (Some cfg) (UsagePolicy cfg) = document_meta.truncate (DefaultUsagePolicyCatalog now)"
    "codexPlusRegistryMeta (Some cfg) (FeatureFlags cfg) = document_meta.truncate (DefaultFeatureFlags (Some now))"
  using registry_meta_complete [OF default_heads(1), of cfg] registry_meta_complete [OF default_heads(2), of cfg]
    registry_meta_complete [OF default_heads_now(1) [OF assms(1)], of cfg]
    registry_meta_complete [OF default_heads_now(2) [OF assms(1)], of cfg]
    registry_meta_cong [OF default_docs(1) [of now], of cfg] registry_meta_cong [OF default_docs(2) [of now], of cfg]
    registry_meta_cong [OF default_docs(3) [of now], of cfg]
    registry_meta_cong [of "FeatureFlags cfg" "DefaultFeatureFlags (Some now)" cfg]
  by (simp_all add: cfg_def default_docs(4) codexPlusFeatureFlagsFromRegistry_def CodexPlusFeatureFlagsDoc.defs
      document_meta.defs)

lemma default_head_checked:
  assumes "rfc3339_ok (go_RFC3339 now)"
  defines "cfg \<equiv> DefaultCodexPlusConfig now"
  shows "validatePlanCatalogMeta (codexPlusPlanCatalogToRegistry cfg) = []"
    "validateModelCatalogMeta (codexPlusModelCatalogToRegistry cfg) = []"
    "validateUsagePolicyMeta (codexPlusUsagePolicyToRegistry cfg) = []"
    "validateFeatureFlagsMeta (codexPlusFeatureFlagsToRegistry cfg) = []"
proof -
  note meta = default_registry_meta [OF assms(1), folded cfg_def]
  note heads = head_errors_def status_errors_def scope_errors_def updated_at_errors_def catalog_status_def
    ValidPublishScope_def trimmedLen_def Let_def literal_trim document_meta.defs
  have rfc: "rfc3339_ok ''2026-01-01T00:00:00Z''" by code_simp
  have now: "go_RFC3339 now \<noteq> []" by (auto simp: go_RFC3339_def Let_def split_beta)
  show "validatePlanCatalogMeta (codexPlusPlanCatalogToRegistry cfg) = []"
    unfolding codexPlusPlanCatalogToRegistry_def meta
    by (simp add: validatePlanCatalogMeta_def validPlanCatalogDraftStatus_def DefaultPlanCatalog_def rfc heads)
  show "validateModelCatalogMeta (codexPlusModelCatalogToRegistry cfg) = []"
    unfolding codexPlusModelCatalogToRegistry_def meta
    by (simp add: validateModelCatalogMeta_def ValidModelCatalogDraftStatus_def DefaultModelCatalog_def rfc heads literal_runes)
  show "validateUsagePolicyMeta (codexPlusUsagePolicyToRegistry cfg) = []"
    unfolding codexPlusUsagePolicyToRegistry_def meta
    using assms(1) now
    by (simp add: validateUsagePolicyMeta_def ValidUsagePolicyDraftStatus_def DefaultUsagePolicyCatalog_def heads)
  show "validateFeatureFlagsMeta (codexPlusFeatureFlagsToRegistry cfg) = []"
    unfolding codexPlusFeatureFlagsToRegistry_def meta Let_def
    using assms(1) now
    by (simp add: validateFeatureFlagsMeta_def validFeatureFlagsDraftStatus_def DefaultFeatureFlags_def heads
        featureFlagsTimestamp_def
        CodexPlusFeatureFlagsDoc.defs FeatureFlags.defs)
qed

lemma default_flags_checked:
  assumes "rfc3339_ok (go_RFC3339 now)"
  shows "ValidateFeatureFlags (codexPlusFeatureFlagsToRegistry (DefaultCodexPlusConfig now)) = None"
proof -
  have exposure: "Exposure (codexPlusFeatureFlagsToRegistry (DefaultCodexPlusConfig now)) = Exposure (DefaultFeatureFlags (Some 0))"
    and keys: "fd_CopyKeys (codexPlusFeatureFlagsToRegistry (DefaultCodexPlusConfig now)) =
      fd_CopyKeys (DefaultFeatureFlags (Some 0))"
    and ready: "DiagnosticExportRedactionReady (codexPlusFeatureFlagsToRegistry (DefaultCodexPlusConfig now))"
    by (simp_all add: codexPlusFeatureFlagsToRegistry_def Let_def default_docs(4) codexPlusFeatureFlagsFromRegistry_def
        DefaultFeatureFlags_def CodexPlusFeatureFlagsDoc.defs FeatureFlags.defs document_meta.defs codexPlusFallbackString_def
        literal_trim)
  show ?thesis
    using default_head_checked(4) [OF assms] ready
    by (simp add: ValidateFeatureFlags_def exposure keys)
      (simp add: DefaultFeatureFlags_def validateFeatureFlagExposure_def exposed_flag_def validFeatureFlagName_def
        allFeatureFlagNames_def clientVisibleFeatureFlags_def validateFeatureFlagCopyKeys_def validateFeatureFlagCopyKey_def
        literal_trim literal_chars Let_def)
qed

lemma default_valid:
  assumes "rfc3339_ok (go_RFC3339 now)"
    and "absolute parse ''https://codex-plus.local/billing/plans/pro-monthly/purchase''"
    and "absolute parse ''https://codex-plus.local/billing/plans/pro-monthly/renew''"
  shows "ValidateCodexPlusConfig parse (DefaultCodexPlusConfig now) = None"
proof -
  let ?cfg = "DefaultCodexPlusConfig now"
  have "ConfigVersion ?cfg = ''codexplus-mvp-1''" "DraftStatus ?cfg = ''published''" "PublishScope ?cfg = ''production''"
      "UpdatedAt ?cfg = go_RFC3339 now"
    by (simp_all add: DefaultCodexPlusConfig_def codexPlusAlignDefaultConfigReferences_def Let_def CodexPlusConfigVersionMVP_def)
  then have top: "go_TrimSpace (ConfigVersion ?cfg) \<noteq> []" "validCodexPlusDraftStatus (DraftStatus ?cfg)"
      "validCodexPlusPublishScope (PublishScope ?cfg)" "rfc3339_ok (UpdatedAt ?cfg)"
    using assms(1) by (simp_all add: literal_trim validCodexPlusDraftStatus_def validCodexPlusPublishScope_def)
  have ne: "plans_of ?cfg \<noteq> []" "policies_of ?cfg \<noteq> []"
    by (simp_all add: default_plans_list default_policies_list DefaultPlanCatalog_def)
  have "ValidatePlanCatalog parse (codexPlusPlanCatalogToRegistry ?cfg) = None"
    unfolding plan_catalog_accepts
    using default_plans_ok [OF assms(2,3), of now] default_head_checked(1) [OF assms(1)] ne
    by (simp add: default_plans_list DefaultPlanCatalog_def)
  moreover have "ValidateModelCatalog (codexPlusModelCatalogToRegistry ?cfg) = None"
    unfolding model_catalog_accepts registry_catalogs default_models_list
    using default_models_ok default_head_checked(2) [OF assms(1)]
    by (simp add: default_ok_def references_ok_def) (simp add: codex_standard_def codex_pro_def literal_trim)
  moreover have "ValidateUsagePolicyCatalog (codexPlusUsagePolicyToRegistry ?cfg) = None"
    unfolding usage_policies_accepts registry_catalogs
    using default_policies_ok [of now] default_head_checked(3) [OF assms(1)]
    by (simp add: default_policies_list)
  ultimately show ?thesis
    unfolding Validate_None
    using top default_plans_checked default_models_checked default_policies_checked default_flags_checked [OF assms(1)]
    by (simp add: default_models_list)
qed

lemma default_alignment: "references_aligned (DefaultCodexPlusConfig now)"
proof -
  let ?cfg = "DefaultCodexPlusConfig now"
  have groups: "known_groups ?cfg = [''codex'']"
    by (simp add: known_groups_def default_models_list codex_standard_def codex_pro_def literal_trim)
  have plan: "\<forall>p \<in> set (plans_of ?cfg). UsagePolicyID p = ''default'' \<and> pl_ModelGroups p = [''codex''] \<and> PlanID p = ''pro_monthly''"
    by (simp add: default_plans_list DefaultPlanCatalog_def)
  have exists: "codexPlusUsagePolicyExists ?cfg ''default''"
    by (simp add: codexPlusUsagePolicyExists_def default_policies_list policy_from_registry_def DefaultUsagePolicyRule_def
        UsagePolicyRule.defs CodexPlusUsageRule.defs literal_trim)
  show ?thesis
    unfolding references_aligned_def groups
    using plan exists
    by (simp add: codexPlusPlanHasKnownModelGroup_def codexPlusSliceIntersectsSet_def default_policies_list literal_trim)
      (simp add: default_plans_list DefaultPlanCatalog_def)
qed

text \<open>
  the default configuration is valid, and its references are resolved, although the defaults of the
  registry do not name each other's entries. The time must have a form that RFC 3339 allows.
\<close>

theorem default_config_valid:
  assumes "rfc3339_ok (go_RFC3339 now)"
    and "absolute parse ''https://codex-plus.local/billing/plans/pro-monthly/purchase''"
    and "absolute parse ''https://codex-plus.local/billing/plans/pro-monthly/renew''"
  shows "ValidateCodexPlusConfig parse (DefaultCodexPlusConfig now) = None \<and> references_aligned (DefaultCodexPlusConfig now)"
  using default_valid [OF assms] default_alignment by blast

definition sample_url :: url_parser where
  "sample_url u = Some (''https'', ''codex-plus.local'')"

lemma sample_time: "rfc3339_ok (go_RFC3339 0)"
  by code_simp

lemma sample_absolute: "absolute sample_url u"
  by (simp add: absolute_def sample_url_def)

theorem default_config_valid_witness:
  "ValidateCodexPlusConfig sample_url (DefaultCodexPlusConfig 0) = None \<and> references_aligned (DefaultCodexPlusConfig 0)"
  by (rule default_config_valid [OF sample_time sample_absolute sample_absolute])

text \<open>
  the alignment resolves every reference between the catalogs: each plan then names a policy that
  exists and a group of the models, and each policy applies to a plan and a group that exist.
\<close>

theorem alignment_resolves_references:
  assumes "\<exists>p ps. policies_of cfg = p # ps \<and> go_TrimSpace (PolicyID p) \<noteq> []"
    and "\<exists>m \<in> set (models_of cfg). go_TrimSpace (ModelGroup m) \<noteq> []"
    and "\<exists>plan \<in> set (plans_of cfg). go_TrimSpace (PlanID plan) \<noteq> []"
  shows "references_aligned (codexPlusAlignDefaultConfigReferences cfg)"
  by (rule alignment_references [OF assms])

text \<open>A configuration whose plans name a policy that does not exist.\<close>

definition with_policy :: "string \<Rightarrow> CodexPlusConfig \<Rightarrow> CodexPlusConfig" where
  "with_policy pid cfg = cfg\<lparr>PlanCatalog := (PlanCatalog cfg)\<lparr>Plans := map (\<lambda>p. p\<lparr>UsagePolicyID := pid\<rparr>) (plans_of cfg)\<rparr>\<rparr>"

theorem alignment_resolves_references_witness:
  "references_aligned (codexPlusAlignDefaultConfigReferences (with_policy ''gone'' (DefaultCodexPlusConfig 0)))"
  by (rule alignment_resolves_references)
    (simp_all add: with_policy_def default_policies_list default_models_list default_plans_list DefaultPlanCatalog_def
      policy_from_registry_def DefaultUsagePolicyRule_def UsagePolicyRule.defs CodexPlusUsageRule.defs codex_standard_def
      literal_trim)

section \<open>Witnesses of the service\<close>

lemma normalize_complete:
  assumes "complete_head m" and "DraftStatus m = ''published''" and "DraftStatus cfg = ''published''"
  shows "normalize_meta cfg m = m"
  using assms
  by (cases m) (simp add: complete_head_def normalize_meta_def codexPlusCatalogDraftStatus_def codexPlusFallbackString_def
      codexPlusCatalogPublishScope_def codexPlusCatalogUpdatedBy_def codexPlusCatalogUpdatedAt_def
      codexPlusCatalogChangeReason_def Let_def literal_trim)

lemma catalog_head_update [simp]:
  "PlanCatalog (ConfigVersion_update f r) = PlanCatalog r" "PlanCatalog (DraftStatus_update f r) = PlanCatalog r" "PlanCatalog (PublishScope_update f r) = PlanCatalog r"
  "PlanCatalog (UpdatedBy_update f r) = PlanCatalog r" "PlanCatalog (UpdatedAt_update f r) = PlanCatalog r" "PlanCatalog (ChangeReason_update f r) = PlanCatalog r"
  "ModelCatalog (ConfigVersion_update f r) = ModelCatalog r" "ModelCatalog (DraftStatus_update f r) = ModelCatalog r" "ModelCatalog (PublishScope_update f r) = ModelCatalog r"
  "ModelCatalog (UpdatedBy_update f r) = ModelCatalog r" "ModelCatalog (UpdatedAt_update f r) = ModelCatalog r" "ModelCatalog (ChangeReason_update f r) = ModelCatalog r"
  "UsagePolicy (ConfigVersion_update f r) = UsagePolicy r" "UsagePolicy (DraftStatus_update f r) = UsagePolicy r" "UsagePolicy (PublishScope_update f r) = UsagePolicy r"
  "UsagePolicy (UpdatedBy_update f r) = UsagePolicy r" "UsagePolicy (UpdatedAt_update f r) = UsagePolicy r" "UsagePolicy (ChangeReason_update f r) = UsagePolicy r"
  "FeatureFlags (ConfigVersion_update f r) = FeatureFlags r" "FeatureFlags (DraftStatus_update f r) = FeatureFlags r" "FeatureFlags (PublishScope_update f r) = FeatureFlags r"
  "FeatureFlags (UpdatedBy_update f r) = FeatureFlags r" "FeatureFlags (UpdatedAt_update f r) = FeatureFlags r" "FeatureFlags (ChangeReason_update f r) = FeatureFlags r"
  by (cases r; simp)+

lemma default_normalized:
  assumes "rfc3339_ok (go_RFC3339 now)"
  shows "NormalizeCodexPlusConfig (DefaultCodexPlusConfig now) now [] [] = DefaultCodexPlusConfig now"
proof -
  have cong: "complete_head m \<and> DraftStatus m = ''published''"
    if "complete_head m'" "DraftStatus m' = ''published''" "document_meta.truncate m = document_meta.truncate m'"
    for m :: "'a document_meta_scheme" and m' :: "'b document_meta_scheme"
    using that by (cases m; cases m') (simp add: complete_head_def document_meta.defs)
  have status: "DraftStatus DefaultPlanCatalog = ''published''" "DraftStatus DefaultModelCatalog = ''published''"
      "DraftStatus (DefaultUsagePolicyCatalog now) = ''published''" "DraftStatus (DefaultFeatureFlags (Some now)) = ''published''"
    by (simp_all add: DefaultPlanCatalog_def DefaultModelCatalog_def DefaultUsagePolicyCatalog_def DefaultFeatureFlags_def)
  have flags: "document_meta.truncate (FeatureFlags (DefaultCodexPlusConfig now)) =
      document_meta.truncate (DefaultFeatureFlags (Some now))"
    by (simp add: default_docs(4) codexPlusFeatureFlagsFromRegistry_def CodexPlusFeatureFlagsDoc.defs document_meta.defs)
  have same: "normalize_meta c (PlanCatalog (DefaultCodexPlusConfig now)) = PlanCatalog (DefaultCodexPlusConfig now)"
      "normalize_meta c (ModelCatalog (DefaultCodexPlusConfig now)) = ModelCatalog (DefaultCodexPlusConfig now)"
      "normalize_meta c (UsagePolicy (DefaultCodexPlusConfig now)) = UsagePolicy (DefaultCodexPlusConfig now)"
      "normalize_meta c (FeatureFlags (DefaultCodexPlusConfig now)) = FeatureFlags (DefaultCodexPlusConfig now)"
    if "DraftStatus c = ''published''" for c
    using cong [OF default_heads(1) status(1) default_docs(1) [of now]] cong [OF default_heads(2) status(2) default_docs(2) [of now]]
      cong [OF default_heads_now(1) [OF assms] status(3) default_docs(3)] cong [OF default_heads_now(2) [OF assms] status(4) flags]
      normalize_complete that
    by blast+
  have top: "ConfigVersion (DefaultCodexPlusConfig now) = ''codexplus-mvp-1''" "DraftStatus (DefaultCodexPlusConfig now) = ''published''"
      "PublishScope (DefaultCodexPlusConfig now) = ''production''" "UpdatedBy (DefaultCodexPlusConfig now) = ''system''"
      "UpdatedAt (DefaultCodexPlusConfig now) = go_RFC3339 now"
      "ChangeReason (DefaultCodexPlusConfig now) = ''initial Codex++ config center defaults''"
    by (simp_all add: DefaultCodexPlusConfig_def codexPlusAlignDefaultConfigReferences_def Let_def CodexPlusConfigVersionMVP_def)
  let ?D = "DefaultCodexPlusConfig now"
  have "?D\<lparr>ConfigVersion := (if go_TrimSpace (ConfigVersion ?D) = [] then CodexPlusConfigVersionMVP else ConfigVersion ?D),
      DraftStatus := ''published'', PublishScope := (if go_TrimSpace (PublishScope ?D) = [] then ''production'' else PublishScope ?D),
      UpdatedBy := (if [] = [] then ''system'' else []), UpdatedAt := go_RFC3339 now,
      ChangeReason := go_TrimSpace (if [] = [] then ChangeReason ?D else [])\<rparr> = ?D"
    by (rule CodexPlusConfig.equality) (simp_all add: top literal_trim)
  moreover have "?D\<lparr>PlanCatalog := normalize_meta ?D (PlanCatalog ?D), ModelCatalog := normalize_meta ?D (ModelCatalog ?D),
      UsagePolicy := normalize_meta ?D (UsagePolicy ?D), FeatureFlags := normalize_meta ?D (FeatureFlags ?D)\<rparr> = ?D"
    by (rule CodexPlusConfig.equality) (simp_all add: same [OF top(2)])
  ultimately show ?thesis
    unfolding NormalizeCodexPlusConfig_def normalizeCodexPlusPlanCatalogMeta_def normalizeCodexPlusModelCatalogMeta_def
      normalizeCodexPlusUsagePolicyMeta_def normalizeCodexPlusFeatureFlagsMeta_def Let_def
    by simp
qed

definition sample_lib :: config_library where
  "sample_lib = \<lparr>url_Parse = sample_url, json_Marshal = (\<lambda>cfg. Inr ''document''),
     json_Unmarshal = (\<lambda>raw. Inr (DefaultCodexPlusConfig 0))\<rparr>"

definition empty_db :: settings_db where
  "empty_db = \<lparr>st_rows = [], st_next = 1, st_fault = None\<rparr>"

definition filled_db :: settings_db where
  "filled_db = \<lparr>st_rows = [\<lparr>st_ID = 1, st_Key = CodexPlusConfigSettingKey, st_Value = ''document'', st_UpdatedAt = 0\<rparr>],
     st_next = 2, st_fault = None\<rparr>"

lemma sample_valid: "ValidateCodexPlusConfig sample_url (DefaultCodexPlusConfig 0) = None"
  by (rule default_valid [OF sample_time sample_absolute sample_absolute])

lemma sample_keeps: "keeps sample_lib (DefaultCodexPlusConfig 0)"
  by (simp add: keeps_def sample_lib_def)

lemma sample_store:
  "store_config sample_lib (settingRepository 0) (DefaultCodexPlusConfig 0) empty_db = (Inr (DefaultCodexPlusConfig 0), filled_db)"
  by (simp add: store_config_def EncodeCodexPlusConfig_def sample_lib_def sample_valid settingRepository_def setting_Set_def
      upsert_def empty_db_def filled_db_def)

lemma sample_publish:
  "Publish sample_lib (Some (settingRepository 0)) 0 (DefaultCodexPlusConfig 0) [] [] empty_db =
    (Inr (DefaultCodexPlusConfig 0), filled_db)"
proof -
  have "go_TrimSpace [] = []" by code_simp
  then show ?thesis
    using sample_store by (simp add: Publish_def default_normalized [OF sample_time] sample_lib_def sample_valid)
qed

theorem publish_then_get_witness:
  "GetConfig sample_lib (Some (settingRepository 1)) 5 filled_db = Inr (DefaultCodexPlusConfig 0)"
  by (rule publish_then_get [OF _ sample_publish sample_keeps]) (simp add: unique_keys_def empty_db_def)

theorem ensure_default_settles_witness:
  "GetConfig sample_lib (Some (settingRepository 1)) 5 filled_db = Inr (DefaultCodexPlusConfig 0) \<and>
    fst (EnsureDefault sample_lib (Some (settingRepository 1)) 5 filled_db) = Inr (DefaultCodexPlusConfig 0) \<and>
    stored (snd (EnsureDefault sample_lib (Some (settingRepository 1)) 5 filled_db)) = stored filled_db"
proof (rule ensure_default_settles [OF _ _ sample_keeps])
  show "unique_keys empty_db" by (simp add: unique_keys_def empty_db_def)
  have "GetConfig sample_lib (Some (settingRepository 0)) 0 empty_db = Inr (DefaultCodexPlusConfig 0)"
    by (simp add: GetConfig_def settingRepository_def setting_GetValue_def setting_Get_def query_def empty_db_def)
  then show "EnsureDefault sample_lib (Some (settingRepository 0)) 0 empty_db = (Inr (DefaultCodexPlusConfig 0), filled_db)"
    by (simp add: EnsureDefault_def sample_store)
qed

definition failing_db :: settings_db where
  "failing_db = empty_db\<lparr>st_fault := Some ''connection refused''\<rparr>"

lemma failing_publish:
  "Publish sample_lib (Some (settingRepository 0)) 0 (DefaultCodexPlusConfig 0) [] [] failing_db =
    (Inl (StoreFailed ''connection refused''), failing_db)"
proof -
  have "go_TrimSpace [] = []" by code_simp
  then show ?thesis
    by (simp add: Publish_def default_normalized [OF sample_time] sample_lib_def sample_valid store_config_def
        EncodeCodexPlusConfig_def settingRepository_def setting_Set_def failing_db_def)
qed

theorem failed_publish_changes_nothing_witness:
  "snd (Publish sample_lib (Some (settingRepository 0)) 0 (DefaultCodexPlusConfig 0) [] [] failing_db) = failing_db"
  using failed_publish_changes_nothing [OF failing_publish] by (simp add: failing_publish)

text \<open>
  what the whole check guarantees of the models: ids are present and distinct, exactly one model is
  the default and it is enabled and visible, and every fallback and replacement names another model.
\<close>

theorem valid_config_models:
  assumes "ValidateCodexPlusConfig parse cfg = None"
  shows "models_sound cfg"
  by (rule valid_models_sound [OF assms])

theorem valid_config_models_witness: "models_sound (DefaultCodexPlusConfig 0)"
  by (rule valid_config_models [OF sample_valid])

section \<open>References that the check does not follow\<close>

lemma first_error_map:
  assumes "\<And>seen x. check seen (f x) = check seen x" and "\<And>x. key (f x) = key x"
  shows "first_error check key seen (map f xs) = first_error check key seen xs"
  by (induction xs arbitrary: seen) (simp_all add: assms split: option.split)

lemma with_policy_simps [simp]:
  "ConfigVersion (with_policy pid cfg) = ConfigVersion cfg" "DraftStatus (with_policy pid cfg) = DraftStatus cfg"
  "PublishScope (with_policy pid cfg) = PublishScope cfg" "UpdatedBy (with_policy pid cfg) = UpdatedBy cfg"
  "UpdatedAt (with_policy pid cfg) = UpdatedAt cfg" "ChangeReason (with_policy pid cfg) = ChangeReason cfg"
  "ModelCatalog (with_policy pid cfg) = ModelCatalog cfg" "UsagePolicy (with_policy pid cfg) = UsagePolicy cfg"
  "FeatureFlags (with_policy pid cfg) = FeatureFlags cfg"
  "plans_of (with_policy pid cfg) = map (\<lambda>p. p\<lparr>UsagePolicyID := pid\<rparr>) (plans_of cfg)"
  "document_meta.truncate (PlanCatalog (with_policy pid cfg)) = document_meta.truncate (PlanCatalog cfg)"
  by (cases cfg; simp add: with_policy_def document_meta.defs)+

lemma with_policy_valid:
  assumes "ValidateCodexPlusConfig parse cfg = None" and "ident_pattern (go_TrimSpace pid)"
  shows "ValidateCodexPlusConfig parse (with_policy pid cfg) = None"
proof -
  let ?f = "\<lambda>p. p\<lparr>UsagePolicyID := pid\<rparr>"
  have plans: "plans_of (with_policy pid cfg) = map ?f (plans_of cfg)" by simp
  have checked: "validateCodexPlusPlans (map ?f ps) = validateCodexPlusPlans ps" for ps
  proof -
    have "first_error check_plan (\<lambda>plan. go_TrimSpace (PlanID plan)) [] (map ?f ps) =
        first_error check_plan (\<lambda>plan. go_TrimSpace (PlanID plan)) [] ps"
      by (rule first_error_map) (simp_all add: check_plan_def Let_def)
    then show ?thesis by (simp add: validateCodexPlusPlans_def)
  qed
  have head: "codexPlusRegistryMeta (Some (with_policy pid cfg)) m = codexPlusRegistryMeta (Some cfg) m"
    for m :: "'a document_meta_scheme"
    by (simp add: codexPlusRegistryMeta_def)
  have same: "codexPlusModelCatalogToRegistry (with_policy pid cfg) = codexPlusModelCatalogToRegistry cfg"
      "codexPlusUsagePolicyToRegistry (with_policy pid cfg) = codexPlusUsagePolicyToRegistry cfg"
      "codexPlusFeatureFlagsToRegistry (with_policy pid cfg) = codexPlusFeatureFlagsToRegistry cfg"
      "models_of (with_policy pid cfg) = models_of cfg" "policies_of (with_policy pid cfg) = policies_of cfg"
    unfolding codexPlusModelCatalogToRegistry_def codexPlusUsagePolicyToRegistry_def codexPlusFeatureFlagsToRegistry_def head
    by simp_all
  have "plan_ok parse (plan_to_registry (?f p))" if "plan_ok parse (plan_to_registry p)" for p
  proof -
    have "codexPlusFallbackString pid ''default'' = go_TrimSpace pid"
      using assms(2) by (auto simp: codexPlusFallbackString_def ident_pattern_def)
    then show ?thesis using that assms(2) by (simp add: plan_ok_def plan_to_registry_def)
  qed
  moreover have "validatePlanCatalogMeta (codexPlusPlanCatalogToRegistry (with_policy pid cfg)) =
      validatePlanCatalogMeta (codexPlusPlanCatalogToRegistry cfg)"
  proof -
    have "codexPlusRegistryMeta (Some cfg) (PlanCatalog (with_policy pid cfg)) = codexPlusRegistryMeta (Some cfg) (PlanCatalog cfg)"
      by (rule registry_meta_cong) simp
    then show ?thesis
      unfolding codexPlusPlanCatalogToRegistry_def head
      by (simp add: validatePlanCatalogMeta_def head_errors_def scope_errors_def updated_at_errors_def document_meta.defs)
  qed
  moreover have "(go_TrimSpace \<circ> PlanID) (plan_to_registry (?f p)) = (go_TrimSpace \<circ> PlanID) (plan_to_registry p)" for p
    by (simp add: plan_to_registry_def)
  ultimately have "ValidatePlanCatalog parse (codexPlusPlanCatalogToRegistry (with_policy pid cfg)) = None"
    using assms(1) unfolding Validate_None plan_catalog_accepts registry_catalogs plans by (simp add: comp_def)
  then show ?thesis
    using assms(1) unfolding Validate_None plans checked same by simp
qed



end
