(* ===== verification/Codex_Devices.thy ===== *)
theory Codex_Devices
  imports Codex_Policy_Safety Codex_Publish
begin

text \<open>
  The tables of Codex++ (\<open>repository/codexplus_foundation_repo.go\<close>) and the administration of devices
  (\<open>service/codexplus_device_management.go\<close>), with what a revocation guarantees at the gateway.
\<close>

section \<open>The table of devices\<close>

record CodexPlusDeviceUpsert =
  du_UserID :: int
  du_DeviceID :: string
  du_DeviceName :: "string option"
  du_Platform :: "string option"
  du_AppVersion :: "string option"
  du_FingerprintHash :: "string option"
  du_Status :: string
  du_LastSeenAt :: "int option"
  du_Metadata :: payload

text \<open>
  A row and whether it is deleted; the next id of the sequence; the error of the database while it
  cannot be used. What \<open>json.Marshal\<close>, the column of type \<open>jsonb\<close> and \<open>json.Unmarshal\<close> make of
  metadata is a parameter.
\<close>

record device_row =
  row_device :: CodexPlusDevice
  row_deleted :: bool

record devices_db =
  dr_rows :: "device_row list"
  dr_next :: int
  dr_fault :: "string option"

datatype device_error = DeviceDBError string | DeviceIDRequired | DeviceNotFound

type_synonym json_column = "payload \<Rightarrow> string + payload"

definition live_device :: "int \<Rightarrow> string \<Rightarrow> device_row \<Rightarrow> bool" where
  "live_device user device row \<longleftrightarrow>
     dv_UserID (row_device row) = user \<and> dv_DeviceID (row_device row) = device \<and> \<not> row_deleted row"

definition find_device :: "devices_db \<Rightarrow> int \<Rightarrow> string \<Rightarrow> CodexPlusDevice option" where
  "find_device db user device = map_option row_device (find (live_device user device) (dr_rows db))"

definition change_device :: "int \<Rightarrow> string \<Rightarrow> (CodexPlusDevice \<Rightarrow> CodexPlusDevice) \<Rightarrow> devices_db \<Rightarrow> devices_db" where
  "change_device user device f db = db\<lparr>dr_rows := map (\<lambda>row.
     if live_device user device row then row\<lparr>row_device := f (row_device row)\<rparr> else row) (dr_rows db)\<rparr>"

text \<open>The status after an upsert: a device that is revoked or blocked is not made active.\<close>

definition merged_status :: "string \<Rightarrow> string \<Rightarrow> string" where
  "merged_status old new = (if old \<in> {''revoked'', ''blocked''} \<and> new = ''active'' then old else new)"

definition device_Upsert ::
    "json_column \<Rightarrow> int \<Rightarrow> devices_db \<Rightarrow> CodexPlusDeviceUpsert \<Rightarrow> (string + CodexPlusDevice) \<times> devices_db" where
  "device_Upsert json now db input =
     (let status = (if du_Status input = [] then ''active'' else du_Status input)
      in case json (du_Metadata input) of
        Inl e \<Rightarrow> (Inl e, db)
      | Inr metadata \<Rightarrow>
          (case dr_fault db of
             Some e \<Rightarrow> (Inl e, db)
           | None \<Rightarrow>
               (let excluded = \<lparr>dv_ID = dr_next db, dv_UserID = du_UserID input, dv_DeviceID = du_DeviceID input,
                      DeviceName = du_DeviceName input, dv_Platform = du_Platform input, AppVersion = du_AppVersion input,
                      FingerprintHash = du_FingerprintHash input, dv_Status = status, LastSeenAt = du_LastSeenAt input,
                      RevokedAt = None, dv_Metadata = metadata, dv_CreatedAt = Some now, dv_UpdatedAt = Some now\<rparr>
                in case find_device db (du_UserID input) (du_DeviceID input) of
                     None \<Rightarrow>
                       (Inr excluded,
                        db\<lparr>dr_rows := dr_rows db @ [\<lparr>row_device = excluded, row_deleted = False\<rparr>], dr_next := dr_next db + 1\<rparr>)
                   | Some old \<Rightarrow>
                       (let update = (\<lambda>d. excluded\<lparr>dv_ID := dv_ID d, dv_Status := merged_status (dv_Status d) status,
                              RevokedAt := RevokedAt d, dv_CreatedAt := dv_CreatedAt d\<rparr>)
                        in (Inr (update old), change_device (du_UserID input) (du_DeviceID input) update db)))))"

definition device_GetByUserAndDevice :: "devices_db \<Rightarrow> int \<Rightarrow> string \<Rightarrow> string + CodexPlusDevice option" where
  "device_GetByUserAndDevice db user device =
     (case dr_fault db of Some e \<Rightarrow> Inl e | None \<Rightarrow> Inr (find_device db user device))"

definition normalizeCodexPlusListLimit :: "int \<Rightarrow> int" where
  "normalizeCodexPlusListLimit limit = (if limit \<le> 0 then 50 else if 500 < limit then 500 else limit)"

text \<open>\<open>ORDER BY COALESCE(last_seen_at, updated_at, created_at) DESC, id DESC LIMIT n\<close>.\<close>

definition last_use :: "CodexPlusDevice \<Rightarrow> int" where
  "last_use d = (case LastSeenAt d of Some t \<Rightarrow> t
     | None \<Rightarrow> (case dv_UpdatedAt d of Some t \<Rightarrow> t | None \<Rightarrow> (case dv_CreatedAt d of Some t \<Rightarrow> t | None \<Rightarrow> 0)))"

definition latest_devices :: "int \<Rightarrow> CodexPlusDevice list \<Rightarrow> CodexPlusDevice list" where
  "latest_devices limit ds = take (nat limit) (sort_key (\<lambda>d. - last_use d) (sort_key (\<lambda>d. - dv_ID d) ds))"

definition user_devices :: "devices_db \<Rightarrow> int \<Rightarrow> (string \<Rightarrow> bool) \<Rightarrow> CodexPlusDevice list" where
  "user_devices db user P =
     map row_device (filter (\<lambda>row. dv_UserID (row_device row) = user \<and> \<not> row_deleted row \<and> P (dv_Status (row_device row)))
       (dr_rows db))"

definition device_ListByUser :: "devices_db \<Rightarrow> int \<Rightarrow> int \<Rightarrow> string + CodexPlusDevice list" where
  "device_ListByUser db user limit =
     (case dr_fault db of Some e \<Rightarrow> Inl e
      | None \<Rightarrow> Inr (latest_devices (normalizeCodexPlusListLimit limit) (user_devices db user (\<lambda>s. True))))"

definition device_ListByUserAndStatuses ::
    "devices_db \<Rightarrow> int \<Rightarrow> string list \<Rightarrow> int \<Rightarrow> string + CodexPlusDevice list" where
  "device_ListByUserAndStatuses db user statuses limit0 =
     (let limit = normalizeCodexPlusListLimit limit0;
          wanted = filter (\<lambda>s. s \<noteq> []) (map (\<lambda>s. go_ToLower (go_TrimSpace s)) statuses)
      in if wanted = [] then device_ListByUser db user limit
         else case dr_fault db of Some e \<Rightarrow> Inl e
           | None \<Rightarrow> Inr (latest_devices limit (user_devices db user (\<lambda>s. s \<in> set wanted))))"

definition device_SetStatus ::
    "int \<Rightarrow> devices_db \<Rightarrow> int \<Rightarrow> string \<Rightarrow> string \<Rightarrow> int option \<Rightarrow> (device_error + CodexPlusDevice) \<times> devices_db" where
  "device_SetStatus now db user device0 status0 revokedAt =
     (let status1 = go_ToLower (go_TrimSpace status0); device = go_TrimSpace device0;
          status = (if status1 = [] then ''active'' else status1);
          update = (\<lambda>d. d\<lparr>dv_Status := status, RevokedAt := revokedAt, dv_UpdatedAt := Some now\<rparr>)
      in if device = [] then (Inl DeviceIDRequired, db)
         else case dr_fault db of
           Some e \<Rightarrow> (Inl (DeviceDBError e), db)
         | None \<Rightarrow>
             (case find_device db user device of
                None \<Rightarrow> (Inl DeviceNotFound, db)
              | Some d \<Rightarrow> (Inr (update d), change_device user device update db)))"

definition device_UpdateStatus ::
    "int \<Rightarrow> devices_db \<Rightarrow> int \<Rightarrow> string \<Rightarrow> string \<Rightarrow> int option \<Rightarrow> device_error option \<times> devices_db" where
  "device_UpdateStatus now db user device status revokedAt =
     (case device_SetStatus now db user device status revokedAt of
        (Inl e, db') \<Rightarrow> (Some e, db')
      | (Inr _, db') \<Rightarrow> (None, db'))"

section \<open>The table of managed keys\<close>

record CodexPlusManagedProviderKeyUpsert =
  mu_UserID :: int
  mu_APIKeyID :: int
  mu_ManagedProviderID :: string
  mu_DisplayName :: string
  mu_KeyPrefix :: "string option"
  mu_Status :: string

text \<open>The rows that are not deleted; a user has one row for each provider.\<close>

record keys_db =
  kr_rows :: "CodexPlusManagedProviderKey list"
  kr_next :: int
  kr_fault :: "string option"

definition or_default :: "string \<Rightarrow> string \<Rightarrow> string" where
  "or_default value fallback = (if value = [] then fallback else value)"

definition key_of :: "int \<Rightarrow> string \<Rightarrow> CodexPlusManagedProviderKey \<Rightarrow> bool" where
  "key_of user provider k \<longleftrightarrow> mk_UserID k = user \<and> mk_ManagedProviderID k = provider"

definition managed_Upsert ::
    "int \<Rightarrow> keys_db \<Rightarrow> CodexPlusManagedProviderKeyUpsert \<Rightarrow> (string + CodexPlusManagedProviderKey) \<times> keys_db" where
  "managed_Upsert now db input =
     (let provider = or_default (mu_ManagedProviderID input) CodexPlusManagedProviderID;
          excluded = \<lparr>mk_ID = kr_next db, mk_UserID = mu_UserID input, mk_APIKeyID = mu_APIKeyID input,
            mk_ManagedProviderID = provider, mk_DisplayName = or_default (mu_DisplayName input) ''Codex++ Cloud'',
            mk_KeyPrefix = mu_KeyPrefix input, mk_Status = or_default (mu_Status input) ''active'', mk_LastUsedAt = None,
            mk_CreatedAt = Some now, mk_UpdatedAt = Some now\<rparr>
      in case kr_fault db of
           Some e \<Rightarrow> (Inl e, db)
         | None \<Rightarrow>
             (case find (key_of (mu_UserID input) provider) (kr_rows db) of
                None \<Rightarrow> (Inr excluded, db\<lparr>kr_rows := kr_rows db @ [excluded], kr_next := kr_next db + 1\<rparr>)
              | Some old \<Rightarrow>
                  (let update = (\<lambda>k. excluded\<lparr>mk_ID := mk_ID k, mk_LastUsedAt := mk_LastUsedAt k, mk_CreatedAt := mk_CreatedAt k\<rparr>)
                   in (Inr (update old),
                       db\<lparr>kr_rows := map (\<lambda>k. if key_of (mu_UserID input) provider k then update k else k) (kr_rows db)\<rparr>))))"

definition managed_GetByUserAndProvider :: "keys_db \<Rightarrow> int \<Rightarrow> string \<Rightarrow> string + CodexPlusManagedProviderKey option" where
  "managed_GetByUserAndProvider db user provider =
     (case kr_fault db of Some e \<Rightarrow> Inl e
      | None \<Rightarrow> Inr (find (key_of user (or_default provider CodexPlusManagedProviderID)) (kr_rows db)))"

definition managed_GetByAPIKeyID :: "keys_db \<Rightarrow> int \<Rightarrow> string + CodexPlusManagedProviderKey option" where
  "managed_GetByAPIKeyID db apiKeyID =
     (case kr_fault db of Some e \<Rightarrow> Inl e | None \<Rightarrow> Inr (find (\<lambda>k. mk_APIKeyID k = apiKeyID) (kr_rows db)))"

section \<open>The table of events\<close>

record events_db =
  er_rows :: "CodexPlusEvent list"
  er_next :: int
  er_fault :: "string option"

definition event_Append :: "json_column \<Rightarrow> int \<Rightarrow> events_db \<Rightarrow> CodexPlusEventCreate \<Rightarrow> (string + CodexPlusEvent) \<times> events_db" where
  "event_Append json now db input =
     (case json (ec_Payload input) of
        Inl e \<Rightarrow> (Inl e, db)
      | Inr payload \<Rightarrow>
          (case er_fault db of
             Some e \<Rightarrow> (Inl e, db)
           | None \<Rightarrow>
               (let event = \<lparr>e_ID = er_next db, e_UserID = ec_UserID input, e_DeviceID = ec_DeviceID input,
                      e_EventType = ec_EventType input, e_Severity = or_default (ec_Severity input) ''info'',
                      e_RequestID = ec_RequestID input, e_ConfigVersion = ec_ConfigVersion input, e_Payload = payload,
                      e_CreatedAt = Some now, e_UpdatedAt = Some now\<rparr>
                in (Inr event, db\<lparr>er_rows := er_rows db @ [event], er_next := er_next db + 1\<rparr>))))"

definition event_ListByUser :: "events_db \<Rightarrow> int \<Rightarrow> int \<Rightarrow> string + CodexPlusEvent list" where
  "event_ListByUser db user limit =
     (case er_fault db of Some e \<Rightarrow> Inl e
      | None \<Rightarrow> Inr (take (nat (normalizeCodexPlusListLimit limit))
          (sort_key (\<lambda>e. case e_CreatedAt e of Some t \<Rightarrow> - t | None \<Rightarrow> 0) (sort_key (\<lambda>e. - e_ID e)
            (filter (\<lambda>e. e_UserID e = Some user) (er_rows db))))))"

section \<open>The administration of devices\<close>

record CodexPlusAdminDevice =
  ad_ID :: int
  ad_UserID :: int
  ad_DeviceID :: string
  ad_DeviceName :: "string option"
  ad_Platform :: "string option"
  ad_AppVersion :: "string option"
  ad_CodexVersion :: "string option"
  ad_Status :: string
  ad_LastSeenAt :: "string option"
  ad_RevokedAt :: "string option"
  ad_CreatedAt :: string
  ad_UpdatedAt :: string

record CodexPlusDeviceAdminActionInput =
  ai_UserID :: int
  ai_DeviceID :: string
  ai_Actor :: string
  ai_Reason :: string

datatype admin_error =
    UserIDInvalid
  | AdminDeviceIDRequired
  | AdminDeviceIDInvalid
  | DeviceStatusInvalid
  | DeviceRepositoryUnavailable
  | AdminDeviceError device_error

definition validateCodexPlusAdminDeviceAction :: "CodexPlusDeviceAdminActionInput \<Rightarrow> admin_error option" where
  "validateCodexPlusAdminDeviceAction input =
     (if ai_UserID input \<le> 0 then Some UserIDInvalid
      else if go_TrimSpace (ai_DeviceID input) = [] then Some AdminDeviceIDRequired
      else if 128 < length (ai_DeviceID input) then Some AdminDeviceIDInvalid
      else None)"

text \<open>The statuses of a filter, each once, in the order in which they first occur.\<close>

fun collect_statuses :: "string list \<Rightarrow> string list \<Rightarrow> admin_error + string list" where
  "collect_statuses out [] = Inr out"
| "collect_statuses out (part # parts) =
     (let status = go_ToLower (go_TrimSpace part)
      in if status = [] then collect_statuses out parts
         else if status \<notin> {''active'', ''revoked'', ''blocked''} then Inl DeviceStatusInvalid
         else if status \<in> set out then collect_statuses out parts
         else collect_statuses (out @ [status]) parts)"

definition normalizeCodexPlusAdminDeviceStatuses :: "string list \<Rightarrow> admin_error + string list" where
  "normalizeCodexPlusAdminDeviceStatuses statuses = collect_statuses [] (concat (map (go_SplitByte CHR '','') statuses))"

definition normalizeCodexPlusAdminDeviceLimit :: "int \<Rightarrow> int" where
  "normalizeCodexPlusAdminDeviceLimit limit = (if limit \<le> 0 then 100 else if 500 < limit then 500 else limit)"

definition codexPlusAdminDeviceStatus :: "string \<Rightarrow> string" where
  "codexPlusAdminDeviceStatus status0 =
     (let status = go_ToLower (go_TrimSpace status0) in if status = [] then ''active'' else status)"

definition codexPlusAdminDeviceTimeString :: "int option \<Rightarrow> string option" where
  "codexPlusAdminDeviceTimeString t = map_option go_RFC3339 t"

definition codexPlusAdminDeviceMetadataString :: "payload \<Rightarrow> string \<Rightarrow> string option" where
  "codexPlusAdminDeviceMetadataString metadata key =
     (case map_of metadata key of
        None \<Rightarrow> None
      | Some VNil \<Rightarrow> None
      | Some v \<Rightarrow> (let out = go_TrimSpace (go_Sprint v) in if out = [] \<or> out = ''<nil>'' then None else Some out))"

text \<open>\<open>0001-01-01T00:00:00Z\<close> for a time that is zero.\<close>

definition time_text :: "int option \<Rightarrow> string" where
  "time_text t = (case t of None \<Rightarrow> ''0001-01-01T00:00:00Z'' | Some n \<Rightarrow> go_RFC3339 n)"

definition adminDeviceFromCodexPlusDevice :: "CodexPlusDevice \<Rightarrow> CodexPlusAdminDevice" where
  "adminDeviceFromCodexPlusDevice d =
     \<lparr>ad_ID = dv_ID d, ad_UserID = dv_UserID d, ad_DeviceID = dv_DeviceID d, ad_DeviceName = DeviceName d,
      ad_Platform = dv_Platform d, ad_AppVersion = AppVersion d,
      ad_CodexVersion = codexPlusAdminDeviceMetadataString (dv_Metadata d) ''codex_version'',
      ad_Status = codexPlusAdminDeviceStatus (dv_Status d),
      ad_LastSeenAt = codexPlusAdminDeviceTimeString (LastSeenAt d),
      ad_RevokedAt = codexPlusAdminDeviceTimeString (RevokedAt d),
      ad_CreatedAt = time_text (dv_CreatedAt d), ad_UpdatedAt = time_text (dv_UpdatedAt d)\<rparr>"

text \<open>
  The service: whether it has a repository of devices and one of events, and the clock. The events it
  appends are returned; what the repository of events answers is ignored.
\<close>

record CodexPlusAdminService =
  as_devices :: bool
  as_events :: bool
  as_now :: int

definition ListUserDevices ::
    "CodexPlusAdminService \<Rightarrow> devices_db \<Rightarrow> int \<Rightarrow> string list \<Rightarrow> int \<Rightarrow> admin_error + CodexPlusAdminDevice list" where
  "ListUserDevices s db userID statuses0 limit0 =
     (if userID \<le> 0 then Inl UserIDInvalid
      else if \<not> as_devices s then Inr []
      else case normalizeCodexPlusAdminDeviceStatuses statuses0 of
        Inl e \<Rightarrow> Inl e
      | Inr statuses \<Rightarrow>
          (let limit = normalizeCodexPlusAdminDeviceLimit limit0
           in map_sum (\<lambda>e. AdminDeviceError (DeviceDBError e)) (map adminDeviceFromCodexPlusDevice)
                (if statuses = [] then device_ListByUser db userID limit
                 else device_ListByUserAndStatuses db userID statuses limit)))"

definition recordCodexPlusAdminDeviceEvent ::
    "CodexPlusAdminService \<Rightarrow> string \<Rightarrow> CodexPlusDeviceAdminActionInput \<Rightarrow> CodexPlusDevice \<Rightarrow> CodexPlusEventCreate list" where
  "recordCodexPlusAdminDeviceEvent s eventType input d =
     (if \<not> as_events s then []
      else [\<lparr>ec_UserID = Some (ai_UserID input), ec_DeviceID = Some (dv_DeviceID d), ec_EventType = eventType,
             ec_Severity = ''warning'', ec_RequestID = None, ec_ConfigVersion = None,
             ec_Payload =
               [(''summary'', VString ((case go_CutPrefix eventType ''admin_device_'' of Some r \<Rightarrow> r | None \<Rightarrow> eventType) @
                  '' device '' @ dv_DeviceID d)),
                (''actor'', VString (go_TrimSpace (ai_Actor input))),
                (''reason'', VString (go_TrimSpace (ai_Reason input))),
                (''status'', VString (dv_Status d)),
                (''device_id'', VString (dv_DeviceID d)),
                (''created_at'', VString (go_RFC3339 (as_now s)))]\<rparr>])"

text \<open>The common part of revoking and restoring.\<close>

definition set_user_device ::
    "CodexPlusAdminService \<Rightarrow> devices_db \<Rightarrow> string \<Rightarrow> string \<Rightarrow> int option \<Rightarrow> CodexPlusDeviceAdminActionInput \<Rightarrow>
     (admin_error + CodexPlusAdminDevice) \<times> devices_db \<times> CodexPlusEventCreate list" where
  "set_user_device s db eventType status revokedAt input0 =
     (let input = input0\<lparr>ai_DeviceID := go_TrimSpace (ai_DeviceID input0)\<rparr>
      in case validateCodexPlusAdminDeviceAction input of
           Some e \<Rightarrow> (Inl e, db, [])
         | None \<Rightarrow>
             if \<not> as_devices s then (Inl DeviceRepositoryUnavailable, db, [])
             else case device_SetStatus (as_now s) db (ai_UserID input) (ai_DeviceID input) status revokedAt of
               (Inl e, db') \<Rightarrow> (Inl (AdminDeviceError e), db', [])
             | (Inr d, db') \<Rightarrow>
                 (Inr (adminDeviceFromCodexPlusDevice d), db', recordCodexPlusAdminDeviceEvent s eventType input d))"

definition RevokeUserDevice ::
    "CodexPlusAdminService \<Rightarrow> devices_db \<Rightarrow> CodexPlusDeviceAdminActionInput \<Rightarrow>
     (admin_error + CodexPlusAdminDevice) \<times> devices_db \<times> CodexPlusEventCreate list" where
  "RevokeUserDevice s db input = set_user_device s db ''admin_device_revoked'' ''revoked'' (Some (as_now s)) input"

definition RestoreUserDevice ::
    "CodexPlusAdminService \<Rightarrow> devices_db \<Rightarrow> CodexPlusDeviceAdminActionInput \<Rightarrow>
     (admin_error + CodexPlusAdminDevice) \<times> devices_db \<times> CodexPlusEventCreate list" where
  "RestoreUserDevice s db input = set_user_device s db ''admin_device_restored'' ''active'' None input"

section \<open>The table as a map\<close>

definition keeps_owner :: "(CodexPlusDevice \<Rightarrow> CodexPlusDevice) \<Rightarrow> bool" where
  "keeps_owner f \<longleftrightarrow> (\<forall>d. dv_UserID (f d) = dv_UserID d \<and> dv_DeviceID (f d) = dv_DeviceID d)"

text \<open>A change of the row of one device, and of no other.\<close>

lemma find_change_device:
  assumes "\<And>d. dv_UserID d = u \<Longrightarrow> dv_DeviceID d = i \<Longrightarrow> dv_UserID (f d) = u \<and> dv_DeviceID (f d) = i"
  shows "find_device (change_device u i f db) user device =
    (if user = u \<and> device = i then map_option f (find_device db user device) else find_device db user device)"
proof -
  have "map_option row_device (find (live_device user device) (map (\<lambda>row.
       if live_device u i row then row\<lparr>row_device := f (row_device row)\<rparr> else row) rows)) =
      (if user = u \<and> device = i then map_option f (map_option row_device (find (live_device user device) rows))
       else map_option row_device (find (live_device user device) rows))" for rows
  proof (induction rows)
    case (Cons row rows)
    show ?case
    proof (cases "live_device u i row")
      case True
      with assms [of "row_device row"]
      have "live_device user device (row\<lparr>row_device := f (row_device row)\<rparr>) \<longleftrightarrow> user = u \<and> device = i"
          "live_device user device row \<longleftrightarrow> user = u \<and> device = i"
        by (auto simp: live_device_def)
      then show ?thesis using Cons True by simp
    next
      case False
      then show ?thesis using Cons by auto
    qed
  qed simp
  then show ?thesis by (simp add: find_device_def change_device_def)
qed

lemma change_device_fault [simp]: "dr_fault (change_device u i f db) = dr_fault db"
  by (simp add: change_device_def)

lemma find_device_append:
  "find_device (db\<lparr>dr_rows := dr_rows db @ [\<lparr>row_device = d, row_deleted = False\<rparr>], dr_next := n\<rparr>) user device =
    (case find_device db user device of Some d' \<Rightarrow> Some d'
     | None \<Rightarrow> if dv_UserID d = user \<and> dv_DeviceID d = device then Some d else None)"
proof -
  have "find (live_device user device) (rows @ [r]) =
      (case find (live_device user device) rows of Some x \<Rightarrow> Some x | None \<Rightarrow> if live_device user device r then Some r else None)"
    for rows r
    by (induction rows) auto
  moreover have "live_device user device \<lparr>row_device = d, row_deleted = False\<rparr> \<longleftrightarrow> dv_UserID d = user \<and> dv_DeviceID d = device"
    by (simp add: live_device_def)
  ultimately show ?thesis by (simp add: find_device_def split: option.split)
qed

lemma find_device_owner: "find_device db user device = Some d \<Longrightarrow> dv_UserID d = user \<and> dv_DeviceID d = device"
  by (auto simp: find_device_def live_device_def dest!: find_SomeD)

text \<open>What an upsert returns is what the table holds; other devices do not change.\<close>

lemma Upsert_found:
  assumes "device_Upsert json now db input = (Inr d, db')"
  shows "find_device db' user device =
      (if user = du_UserID input \<and> device = du_DeviceID input then Some d else find_device db user device)"
    and "dv_Status d = (case find_device db (du_UserID input) (du_DeviceID input) of
        None \<Rightarrow> or_default (du_Status input) ''active''
      | Some old \<Rightarrow> merged_status (dv_Status old) (or_default (du_Status input) ''active''))"
proof -
  from assms obtain metadata where ok: "json (du_Metadata input) = Inr metadata" "dr_fault db = None"
    by (cases "json (du_Metadata input)"; cases "dr_fault db") (simp_all add: device_Upsert_def Let_def)
  note unfolded = assms [unfolded device_Upsert_def Let_def ok sum.case option.case]
  show "find_device db' user device =
      (if user = du_UserID input \<and> device = du_DeviceID input then Some d else find_device db user device)"
  proof (cases "find_device db (du_UserID input) (du_DeviceID input)")
    case None
    then show ?thesis using unfolded by (auto simp: find_device_append split: option.split)
  next
    case (Some old)
    then show ?thesis using unfolded by (auto simp: find_change_device)
  qed
  show "dv_Status d = (case find_device db (du_UserID input) (du_DeviceID input) of
        None \<Rightarrow> or_default (du_Status input) ''active''
      | Some old \<Rightarrow> merged_status (dv_Status old) (or_default (du_Status input) ''active''))"
    using unfolded by (cases "find_device db (du_UserID input) (du_DeviceID input)") (auto simp: or_default_def)
qed

lemma Upsert_failed: "device_Upsert json now db input = (Inl e, db') \<Longrightarrow> db' = db"
  by (auto simp: device_Upsert_def Let_def split: sum.splits option.splits)

lemma SetStatus_found:
  assumes "device_SetStatus now db user device status revoked = (Inr d, db')"
  shows "find_device db' user' device' =
      (if user' = user \<and> device' = go_TrimSpace device then Some d else find_device db user' device')"
    and "dv_Status d = or_default (go_ToLower (go_TrimSpace status)) ''active''"
proof -
  let ?i = "go_TrimSpace device"
  from assms obtain old where ok: "?i \<noteq> []" "dr_fault db = None" "find_device db user ?i = Some old"
    by (cases "?i = []"; cases "dr_fault db"; cases "find_device db user ?i") (simp_all add: device_SetStatus_def Let_def)
  note unfolded = assms [unfolded device_SetStatus_def Let_def ok(2,3) option.case]
  show "find_device db' user' device' =
      (if user' = user \<and> device' = ?i then Some d else find_device db user' device')"
    using unfolded ok by (auto simp: find_change_device)
  show "dv_Status d = or_default (go_ToLower (go_TrimSpace status)) ''active''"
    using unfolded ok(1) by (auto simp: or_default_def)
qed

lemma SetStatus_failed: "device_SetStatus now db user device status revoked = (Inl e, db') \<Longrightarrow> db' = db"
  by (auto simp: device_SetStatus_def Let_def split: if_splits option.splits)

section \<open>Revocation\<close>

text \<open>What happens to the table: clients register their devices, administrators revoke and restore.\<close>

datatype device_op =
    ClientSeen int CodexPlusDeviceUpsert
  | Revoke CodexPlusAdminService CodexPlusDeviceAdminActionInput
  | Restore CodexPlusAdminService CodexPlusDeviceAdminActionInput

fun run_op :: "json_column \<Rightarrow> device_op \<Rightarrow> devices_db \<Rightarrow> devices_db" where
  "run_op json (ClientSeen now input) db = snd (device_Upsert json now db input)"
| "run_op json (Revoke s input) db = fst (snd (RevokeUserDevice s db input))"
| "run_op json (Restore s input) db = fst (snd (RestoreUserDevice s db input))"

text \<open>An operation that does not restore the device. A client registers a device as active.\<close>

fun no_restore :: "int \<Rightarrow> string \<Rightarrow> device_op \<Rightarrow> bool" where
  "no_restore user device (ClientSeen now input) \<longleftrightarrow> du_Status input \<in> {[], ''active''}"
| "no_restore user device (Revoke s input) \<longleftrightarrow> True"
| "no_restore user device (Restore s input) \<longleftrightarrow> ai_UserID input \<noteq> user \<or> go_TrimSpace (ai_DeviceID input) \<noteq> device"

definition has_status :: "devices_db \<Rightarrow> int \<Rightarrow> string \<Rightarrow> string \<Rightarrow> bool" where
  "has_status db user device status \<longleftrightarrow> (\<exists>d. find_device db user device = Some d \<and> dv_Status d = status)"

lemma set_user_device_cases:
  obtains e where "set_user_device s db ev st w input = (Inl e, db, [])"
  | d db' where "device_SetStatus (as_now s) db (ai_UserID input) (go_TrimSpace (ai_DeviceID input)) st w = (Inr d, db')"
      and "set_user_device s db ev st w input = (Inr (adminDeviceFromCodexPlusDevice d), db',
        recordCodexPlusAdminDeviceEvent s ev (input\<lparr>ai_DeviceID := go_TrimSpace (ai_DeviceID input)\<rparr>) d)"
proof (cases "validateCodexPlusAdminDeviceAction (input\<lparr>ai_DeviceID := go_TrimSpace (ai_DeviceID input)\<rparr>) = None \<and> as_devices s")
  case False
  then have "\<exists>e. set_user_device s db ev st w input = (Inl e, db, [])"
    by (cases "validateCodexPlusAdminDeviceAction (input\<lparr>ai_DeviceID := go_TrimSpace (ai_DeviceID input)\<rparr>)")
      (simp_all add: set_user_device_def Let_def)
  then show ?thesis using that(1) by blast
next
  case True
  obtain out db' where set: "device_SetStatus (as_now s) db (ai_UserID input) (go_TrimSpace (ai_DeviceID input)) st w = (out, db')"
    by fastforce
  show ?thesis
  proof (cases out)
    case (Inl e)
    then have "db' = db" using set SetStatus_failed by blast
    then show ?thesis using that(1) True set Inl by (simp add: set_user_device_def Let_def)
  next
    case (Inr d)
    then show ?thesis using that(2) True set by (simp add: set_user_device_def Let_def)
  qed
qed

lemma set_user_device_status:
  assumes "has_status db user device status" and "ai_UserID input \<noteq> user \<or> go_TrimSpace (ai_DeviceID input) \<noteq> device \<or> status = st"
    and "or_default (go_ToLower (go_TrimSpace st)) ''active'' = st"
  shows "has_status (fst (snd (set_user_device s db ev st w input))) user device status"
proof (cases rule: set_user_device_cases [of s db ev st w input])
  case (1 e)
  then show ?thesis using assms(1) by simp
next
  case (2 d db')
  then show ?thesis using assms SetStatus_found [OF 2(1)] by (auto simp: has_status_def)
qed

lemma status_words [simp]:
  "or_default (go_ToLower (go_TrimSpace ''revoked'')) ''active'' = ''revoked''"
  "or_default (go_ToLower (go_TrimSpace ''active'')) ''active'' = ''active''"
  by code_simp+

lemma run_op_revoked:
  assumes "has_status db user device ''revoked''" and "no_restore user device op"
  shows "has_status (run_op json op db) user device ''revoked''"
proof (cases op)
  case (ClientSeen now input)
  show ?thesis
  proof (cases "device_Upsert json now db input")
    case (Pair out db')
    then show ?thesis
      using assms ClientSeen Upsert_failed [of json now db input _ db'] Upsert_found [of json now db input _ db']
      by (cases out) (auto simp: has_status_def or_default_def merged_status_def)
  qed
next
  case (Revoke s input)
  then show ?thesis using set_user_device_status [OF assms(1), of input "''revoked''"]
    by (simp add: RevokeUserDevice_def)
next
  case (Restore s input)
  then show ?thesis using assms set_user_device_status [OF assms(1), of input "''active''"]
    by (auto simp: RestoreUserDevice_def)
qed

lemma run_ops_revoked:
  "has_status db user device ''revoked'' \<Longrightarrow> list_all (no_restore user device) ops \<Longrightarrow>
    has_status (fold (run_op json) ops db) user device ''revoked''"
  by (induction ops arbitrary: db) (simp_all add: run_op_revoked)

lemma revoke_sets:
  assumes "RevokeUserDevice s db input = (Inr ad, db', events)"
  shows "has_status db' (ai_UserID input) (go_TrimSpace (ai_DeviceID input)) ''revoked''"
proof (cases rule: set_user_device_cases [of s db "''admin_device_revoked''" "''revoked''" "Some (as_now s)" input])
  case (1 e)
  then show ?thesis using assms by (simp add: RevokeUserDevice_def)
next
  case (2 d db'')
  then show ?thesis using assms SetStatus_found [OF 2(1)] by (simp add: RevokeUserDevice_def has_status_def)
qed

text \<open>The gateway reads the table.\<close>

definition table_reader :: "devices_db \<Rightarrow> int \<Rightarrow> string \<Rightarrow> reader_error + CodexPlusDevice option" where
  "table_reader db user device = map_sum ReaderError (\<lambda>d. d) (device_GetByUserAndDevice db user device)"

lemma revoked_not_admitted:
  assumes "has_status db (u_ID user) device ''revoked''" and "deviceReader svc = Some (table_reader db)"
    and "device \<noteq> []"
  shows "\<not> device_admitted svc user device strict"
proof -
  have "\<not> isCodexPlusActiveStatus ''revoked''" by code_simp
  with assms show ?thesis
    by (auto simp: device_admitted_def has_status_def table_reader_def device_GetByUserAndDevice_def split: option.splits)
qed

lemma revoked_refused:
  assumes "has_status db (u_ID user) (go_TrimSpace (in_DeviceID input)) ''revoked''"
    and "deviceReader svc = Some (table_reader db)" and "go_TrimSpace (in_DeviceID input) \<noteq> []"
  shows "\<not> Allowed (fst (evaluate_configured svc input apiKey user key cfg))"
  using revoked_not_admitted [OF assms] unfolding evaluate_configured_allows may_use_def by blast

text \<open>
  C7: a revocation holds until the device is restored. When an administrator has revoked a device, then
  whatever clients register and whatever administrators do to other devices, in any order, the gateway
  refuses every request of its user from this device, also where devices are not enforced strictly.
\<close>

theorem revocation_holds:
  assumes "RevokeUserDevice s db input = (Inr ad, db1, events)"
    and "list_all (no_restore (ai_UserID input) (go_TrimSpace (ai_DeviceID input))) ops"
    and "deviceReader svc = Some (table_reader (fold (run_op json) ops db1))"
    and "u_ID user = ai_UserID input" and "go_TrimSpace (in_DeviceID req) = go_TrimSpace (ai_DeviceID input)"
  shows "\<not> Allowed (fst (evaluate_configured svc req apiKey user key cfg))"
proof (rule revoked_refused [OF _ assms(3)])
  show "has_status (fold (run_op json) ops db1) (u_ID user) (go_TrimSpace (in_DeviceID req)) ''revoked''"
    unfolding assms(4,5) by (rule run_ops_revoked [OF revoke_sets [OF assms(1)] assms(2)])
  show "go_TrimSpace (in_DeviceID req) \<noteq> []"
  proof
    assume "go_TrimSpace (in_DeviceID req) = []"
    then have "validateCodexPlusAdminDeviceAction (input\<lparr>ai_DeviceID := go_TrimSpace (ai_DeviceID input)\<rparr>) \<noteq> None"
      by (simp add: validateCodexPlusAdminDeviceAction_def assms(5))
    then show False using assms(1) by (auto simp: RevokeUserDevice_def set_user_device_def Let_def split: option.splits)
  qed
qed

text \<open>A table with one device that is active.\<close>

definition sample_device :: CodexPlusDevice where
  "sample_device = \<lparr>dv_ID = 1, dv_UserID = 7, dv_DeviceID = ''laptop'', DeviceName = None, dv_Platform = None, AppVersion = None,
     FingerprintHash = None, dv_Status = ''active'', LastSeenAt = Some 0, RevokedAt = None, dv_Metadata = [],
     dv_CreatedAt = Some 0, dv_UpdatedAt = Some 0\<rparr>"

definition sample_devices :: devices_db where
  "sample_devices = \<lparr>dr_rows = [\<lparr>row_device = sample_device, row_deleted = False\<rparr>], dr_next = 2, dr_fault = None\<rparr>"

definition sample_admin :: CodexPlusAdminService where
  "sample_admin = \<lparr>as_devices = True, as_events = True, as_now = 0\<rparr>"

definition sample_action :: CodexPlusDeviceAdminActionInput where
  "sample_action = \<lparr>ai_UserID = 7, ai_DeviceID = ''laptop'', ai_Actor = ''root'', ai_Reason = ''lost''\<rparr>"

definition sample_upsert :: CodexPlusDeviceUpsert where
  "sample_upsert = \<lparr>du_UserID = 7, du_DeviceID = ''laptop'', du_DeviceName = None, du_Platform = Some ''mac'',
     du_AppVersion = None, du_FingerprintHash = None, du_Status = ''active'', du_LastSeenAt = Some 5, du_Metadata = []\<rparr>"

definition sample_input :: CodexPlusGatewayPolicyInput where
  "sample_input = \<lparr>in_APIKey = None, in_User = None, in_Group = None, in_Subscription = None, in_RequestedModel = [],
     in_Endpoint = [], in_RequestID = [], in_DeviceID = '' laptop '', in_Platform = [], in_EstimatedTokens = 0,
     in_Entitlement = \<lparr>en_Status = [], en_PlanID = [], en_ModelGroups = []\<rparr>, in_StrictDeviceEnforcement = False,
     in_CheckBilling = False, in_Metadata = []\<rparr>"

definition sample_service :: "devices_db \<Rightarrow> CodexPlusGatewayPolicyService" where
  "sample_service db = \<lparr>configReader = None, managedKeyReader = None, deviceReader = Some (table_reader db),
     eventRecorder = None, billingChecker = None, p_now = 0\<rparr>"

lemma sample_revoke:
  "fst (RevokeUserDevice sample_admin sample_devices sample_action) \<in> range Inr"
proof -
  have "go_TrimSpace ''laptop'' = ''laptop''" by (simp add: literal_trim)
  then show ?thesis
    by (simp add: RevokeUserDevice_def set_user_device_def sample_admin_def sample_devices_def sample_action_def
        validateCodexPlusAdminDeviceAction_def device_SetStatus_def find_device_def live_device_def sample_device_def Let_def)
qed

theorem revocation_holds_witness:
  "\<forall>apiKey key cfg. \<not> Allowed (fst (evaluate_configured
    (sample_service (run_op Inr (ClientSeen 5 sample_upsert) (fst (snd (RevokeUserDevice sample_admin sample_devices sample_action)))))
    sample_input apiKey \<lparr>u_ID = 7\<rparr> key cfg))"
proof (intro allI)
  fix apiKey key cfg
  obtain ad db1 events where r: "RevokeUserDevice sample_admin sample_devices sample_action = (Inr ad, db1, events)"
    using sample_revoke by (cases "RevokeUserDevice sample_admin sample_devices sample_action") auto
  have "go_TrimSpace '' laptop '' = ''laptop''" by code_simp
  then show "\<not> Allowed (fst (evaluate_configured
    (sample_service (run_op Inr (ClientSeen 5 sample_upsert) (fst (snd (RevokeUserDevice sample_admin sample_devices sample_action)))))
    sample_input apiKey \<lparr>u_ID = 7\<rparr> key cfg))"
    by (intro revocation_holds [OF r, where ops = "[ClientSeen 5 sample_upsert]" and json = Inr])
      (simp add: sample_upsert_def, simp add: sample_service_def r, simp add: sample_action_def,
       simp add: sample_action_def sample_input_def literal_trim)
qed

text \<open>
  restoring undoes a revocation: after a successful restoration, a device passes the device check of
  the gateway, strict or not, until the next operation on it.
\<close>

theorem restored_is_admitted:
  assumes "RestoreUserDevice s db input = (Inr ad, db1, events)" and "deviceReader svc = Some (table_reader db1)"
    and "u_ID user = ai_UserID input" and "dr_fault db1 = None"
  shows "device_admitted svc user (go_TrimSpace (ai_DeviceID input)) strict"
proof (cases rule: set_user_device_cases [of s db "''admin_device_restored''" "''active''" None input])
  case (1 e)
  then show ?thesis using assms(1) by (simp add: RestoreUserDevice_def)
next
  case (2 d db')
  then have db': "db' = db1" using assms(1) by (simp add: RestoreUserDevice_def)
  have ne: "go_TrimSpace (ai_DeviceID input) \<noteq> []"
    using 2(1) by (auto simp: device_SetStatus_def Let_def)
  have "find_device db1 (u_ID user) (go_TrimSpace (ai_DeviceID input)) = Some d" and "dv_Status d = ''active''"
    using SetStatus_found [OF 2(1)] db' assms(3) by simp_all
  moreover have "isCodexPlusActiveStatus ''active''" by code_simp
  ultimately show ?thesis
    using ne assms(2,4) by (simp add: device_admitted_def table_reader_def device_GetByUserAndDevice_def)
qed

lemma sample_restore: "RestoreUserDevice sample_admin sample_devices sample_action =
  (Inr (adminDeviceFromCodexPlusDevice (sample_device\<lparr>RevokedAt := None, dv_UpdatedAt := Some 0\<rparr>)), sample_devices,
   recordCodexPlusAdminDeviceEvent sample_admin ''admin_device_restored'' sample_action sample_device)"
proof -
  have "go_TrimSpace ''laptop'' = ''laptop''" by (simp add: literal_trim)
  moreover have "go_ToLower (go_TrimSpace ''active'') = ''active''" by code_simp
  ultimately show ?thesis
    by (simp add: RestoreUserDevice_def set_user_device_def sample_admin_def sample_devices_def sample_action_def
        validateCodexPlusAdminDeviceAction_def device_SetStatus_def find_device_def live_device_def sample_device_def
        change_device_def Let_def)
qed

theorem restored_is_admitted_witness:
  "device_admitted (sample_service sample_devices) \<lparr>u_ID = 7\<rparr> (go_TrimSpace (ai_DeviceID sample_action)) True"
  by (rule restored_is_admitted [OF sample_restore])
    (simp_all add: sample_service_def sample_action_def sample_devices_def)

section \<open>Lists\<close>

lemma collect_statuses_sound:
  assumes "collect_statuses out parts = Inr sts" and "distinct out" and "set out \<subseteq> {''active'', ''revoked'', ''blocked''}"
  shows "distinct sts \<and> set sts \<subseteq> {''active'', ''revoked'', ''blocked''}"
  using assms
proof (induction out parts rule: collect_statuses.induct)
  case (2 out part parts)
  let ?st = "go_ToLower (go_TrimSpace part)"
  from "2.prems"(1) have "?st = [] \<or> ?st \<in> {''active'', ''revoked'', ''blocked''}"
    by (auto simp: Let_def split: if_splits)
  with 2 show ?case by (auto simp: Let_def split: if_splits)
qed simp

lemma latest_devices_sound:
  "length (latest_devices limit ds) \<le> nat limit \<and> set (latest_devices limit ds) \<subseteq> set ds \<and>
    sorted (map (\<lambda>d. - last_use d) (latest_devices limit ds))"
  by (auto simp: latest_devices_def take_map [symmetric] sorted_wrt_take dest: in_set_takeD)

definition wanted_statuses :: "string list \<Rightarrow> string list" where
  "wanted_statuses statuses = filter (\<lambda>s. s \<noteq> []) (map (\<lambda>s. go_ToLower (go_TrimSpace s)) statuses)"

lemma ListByUser_Inr:
  "device_ListByUser db user limit = Inr ds \<Longrightarrow>
    ds = latest_devices (normalizeCodexPlusListLimit limit) (user_devices db user (\<lambda>s. True))"
  by (simp add: device_ListByUser_def split: option.splits)

lemma normalize_limit_idem [simp]:
  "normalizeCodexPlusListLimit (normalizeCodexPlusListLimit limit) = normalizeCodexPlusListLimit limit"
  by (simp add: normalizeCodexPlusListLimit_def)

lemma ListByUserAndStatuses_Inr:
  assumes "device_ListByUserAndStatuses db user statuses limit = Inr ds"
  shows "ds = latest_devices (normalizeCodexPlusListLimit limit) (user_devices db user
    (\<lambda>s. wanted_statuses statuses = [] \<or> s \<in> set (wanted_statuses statuses)))"
proof (cases "wanted_statuses statuses")
  case Nil
  then have "device_ListByUser db user (normalizeCodexPlusListLimit limit) = Inr ds"
    using assms by (simp only: device_ListByUserAndStatuses_def Let_def wanted_statuses_def [symmetric] if_True simp_thms)
  from ListByUser_Inr [OF this] show ?thesis by (simp add: Nil)
next
  case (Cons w ws)
  then have "(case dr_fault db of Some e \<Rightarrow> Inl e
      | None \<Rightarrow> Inr (latest_devices (normalizeCodexPlusListLimit limit)
          (user_devices db user (\<lambda>s. s \<in> set (wanted_statuses statuses))))) = Inr ds"
    using assms by (simp only: device_ListByUserAndStatuses_def Let_def wanted_statuses_def [symmetric] list.distinct if_False)
  then show ?thesis by (cases "dr_fault db") (simp_all add: Cons)
qed

lemma ListUserDevices_Inr:
  assumes "ListUserDevices s db userID statuses limit = Inr out" and "as_devices s"
  obtains sts where "normalizeCodexPlusAdminDeviceStatuses statuses = Inr sts"
    and "out = map adminDeviceFromCodexPlusDevice (latest_devices (normalizeCodexPlusListLimit (normalizeCodexPlusAdminDeviceLimit limit))
      (user_devices db userID (\<lambda>s. wanted_statuses sts = [] \<or> s \<in> set (wanted_statuses sts))))"
proof (cases "normalizeCodexPlusAdminDeviceStatuses statuses")
  case (Inl e)
  then show ?thesis using assms by (simp add: ListUserDevices_def split: if_splits)
next
  case (Inr sts)
  let ?l = "normalizeCodexPlusAdminDeviceLimit limit"
  from assms Inr have list: "map_sum (\<lambda>e. AdminDeviceError (DeviceDBError e)) (map adminDeviceFromCodexPlusDevice)
      (if sts = [] then device_ListByUser db userID ?l else device_ListByUserAndStatuses db userID sts ?l) = Inr out"
    by (simp add: ListUserDevices_def Let_def split: if_splits)
  show ?thesis
  proof (cases "sts = []")
    case True
    then obtain ds where "device_ListByUser db userID ?l = Inr ds" "out = map adminDeviceFromCodexPlusDevice ds"
      using list by (cases "device_ListByUser db userID ?l") auto
    with ListByUser_Inr [OF this(1)] True show ?thesis by (intro that [OF Inr]) (simp add: wanted_statuses_def)
  next
    case False
    then obtain ds where "device_ListByUserAndStatuses db userID sts ?l = Inr ds" "out = map adminDeviceFromCodexPlusDevice ds"
      using list by (cases "device_ListByUserAndStatuses db userID sts ?l") auto
    with ListByUserAndStatuses_Inr [OF this(1)] show ?thesis by (intro that [OF Inr]) simp
  qed
qed



end
