(* ===== verification/Codex_Client.thy ===== *)
theory Codex_Client
  imports Codex_Devices Payment_Orders
begin

text \<open>
  What a desktop client of Codex++ asks the service (\<open>service/codexplus_client.go\<close>): the bootstrap
  snapshot, its usage, the registration of its device and the redemption of a code.
\<close>

section \<open>Data\<close>

record ClientUser = User +
  cu_Balance :: f64
  cu_AllowedGroups :: "int list"

record ClientSubscription = UserSubscription +
  cs_StartsAt :: "int option"
  cs_DailyWindowStart :: "int option"
  cs_DailyUsageUSD :: f64

record ClientKey =
  ck_ID :: int
  ck_UserID :: int
  ck_Key :: string
  ck_Name :: string
  ck_CreatedAt :: int
  ck_LastUsedAt :: "int option"

text \<open>The statuses of the service; a device status is a string.\<close>

datatype client_status =
  CAvailable | CNotPurchased | CExpired | CLowBalance | CDeviceRevoked | CModelUnavailable | CGatewayUnhealthy

fun client_status_text :: "client_status \<Rightarrow> string" where
  "client_status_text CAvailable = ''available''"
| "client_status_text CNotPurchased = ''not_purchased''"
| "client_status_text CExpired = ''expired''"
| "client_status_text CLowBalance = ''low_balance''"
| "client_status_text CDeviceRevoked = ''device_revoked''"
| "client_status_text CModelUnavailable = ''model_unavailable''"
| "client_status_text CGatewayUnhealthy = ''gateway_unhealthy''"

record CodexPlusBootstrapInput =
  bi_UserID :: int
  bi_DeviceID :: string
  bi_ClientVersion :: string
  bi_RequestID :: string

record CodexPlusUsageInput =
  ui_UserID :: int
  ui_DeviceID :: string
  ui_RequestID :: string

record CodexPlusDeviceInput =
  di_DeviceID :: string
  di_Platform :: string
  di_AppVersion :: string
  di_CodexVersion :: "string option"
  di_LastSeenAt :: "int option"
  di_RequestID :: string

record CodexPlusClientEvent =
  ce_Type :: string
  ce_UserID :: int
  ce_DeviceID :: string
  ce_Status :: string
  ce_RequestID :: string
  ce_ConfigVersion :: string
  ce_OccurredAt :: int
  ce_Metadata :: "(string \<times> string) list"

record CodexPlusClientAction =
  ca_ActionType :: string
  ca_MessageKey :: "string option"
  ca_ActionCopyKey :: "string option"
  ca_Label :: string
  ca_URL :: "string option"

record CodexPlusClientServiceState =
  ss_Status :: string
  ss_Message :: string
  ss_MessageKey :: string
  ss_ActionHint :: string
  ss_Retryable :: bool
  ss_SupportURL :: "string option"
  ss_ErrorCode :: "string option"

record CodexPlusManagedProviderKeySummary =
  ks_KeyID :: string
  ks_MaskedKey :: string
  ks_CreatedAt :: int
  ks_LastUsedAt :: "int option"

record CodexPlusManagedProvider =
  mp_ProviderID :: string
  mp_DisplayName :: string
  mp_GatewayBaseURL :: string
  mp_AuthMode :: string
  mp_APIKey :: "string option"
  mp_KeySummary :: CodexPlusManagedProviderKeySummary
  mp_DefaultModel :: string

record CodexPlusClientPlanSummary =
  cp_PlanID :: string
  cp_Name :: string
  cp_Status :: string
  cp_ExpiresAt :: "int option"
  cp_RenewURL :: "string option"
  cp_CommerceAction :: CodexPlusClientAction

record CodexPlusClientModel =
  cm_ModelID :: string
  cm_RouteModel :: string
  cm_Label :: string
  cm_IsDefault :: bool
  cm_IsAvailable :: bool
  cm_DisabledReason :: "string option"

record CodexPlusClientUsageSummary =
  us_BalanceDisplay :: string
  us_LowBalance :: bool
  us_PeriodUsageDisplay :: string
  us_RateLimitState :: string
  us_RenewAction :: CodexPlusClientAction

record CodexPlusClientAnnouncement =
  an_ID :: string
  an_Severity :: string
  an_Message :: string
  an_URL :: "string option"

record CodexPlusClientVersionPolicy =
  vp_ConfigVersion :: string
  vp_SnapshotVersion :: string
  vp_RefreshTTLSeconds :: int
  vp_ForceRefresh :: bool
  vp_MinimumClientVersion :: string

record CodexPlusDeviceSnapshot =
  ds_DeviceID :: string
  ds_Status :: string
  ds_Message :: string
  ds_SnapshotVersion :: string

record CodexPlusBootstrapSnapshot =
  bs_Service :: CodexPlusClientServiceState
  bs_Provider :: CodexPlusManagedProvider
  bs_Plan :: CodexPlusClientPlanSummary
  bs_Models :: "CodexPlusClientModel list"
  bs_Usage :: CodexPlusClientUsageSummary
  bs_FeatureFlags :: CodexPlusFeatureFlags
  bs_Announcements :: "CodexPlusClientAnnouncement list"
  bs_VersionPolicy :: CodexPlusClientVersionPolicy
  bs_Device :: CodexPlusDeviceSnapshot

record CodexPlusClientPeriodUsageSummary =
  pu_PeriodID :: string
  pu_UsageDisplay :: string
  pu_ResetAt :: "int option"

record CodexPlusUsageSnapshot =
  uu_ServiceStatus :: client_status
  uu_BalanceDisplay :: string
  uu_LowBalance :: bool
  uu_PeriodUsage :: CodexPlusClientPeriodUsageSummary
  uu_RateLimitState :: string
  uu_RenewAction :: CodexPlusClientAction
  uu_LastUpdatedAt :: int
  uu_SnapshotVersion :: string

record CodexPlusRedeemResult =
  rr_RedeemStatus :: string
  rr_EntitlementDeltaSummary :: string
  rr_ServiceStatusAfter :: client_status
  rr_SnapshotVersion :: string
  rr_Message :: string

record codexPlusEntitlement =
  ent_active :: bool
  ent_expired :: bool
  ent_lowBalance :: bool
  ent_activeSub :: "ClientSubscription option"
  ent_expiredSub :: "ClientSubscription option"
  ent_policy :: "CodexPlusUsageRule option"
  ent_plan :: "CodexPlusPlan option"
  ent_defaultModel :: "CodexPlusModel option"

text \<open>
  The collaborators of the service, over a state \<open>'w\<close> of the world that their writes change. The readers
  and stores are interfaces of which each may be missing; a reader of a pointer may return neither a value
  nor an error. \<open>cl_now\<close> is what the clock shows during an operation.
\<close>

datatype key_error = KeyNotFound | KeyExists | KeyFailed string

datatype redeem_failure = CodeNotFound | CodeUsed | CodeExpired | RedeemFailed string

record 'w api_keys =
  createKey :: "'w \<Rightarrow> int \<Rightarrow> string \<Rightarrow> (key_error + ClientKey) \<times> 'w"
  keyByID :: "'w \<Rightarrow> int \<Rightarrow> key_error + ClientKey option"
  listKeys :: "'w \<Rightarrow> int \<Rightarrow> key_error + ClientKey list"

record 'w device_store =
  deviceGet :: "'w \<Rightarrow> int \<Rightarrow> string \<Rightarrow> reader_error + CodexPlusDevice option"
  deviceUpsert :: "'w \<Rightarrow> CodexPlusDeviceUpsert \<Rightarrow> (string + CodexPlusDevice) \<times> 'w"

record 'w managed_store =
  managedGet :: "'w \<Rightarrow> int \<Rightarrow> string \<Rightarrow> reader_error + CodexPlusManagedProviderKey option"
  managedUpsert :: "'w \<Rightarrow> CodexPlusManagedProviderKeyUpsert \<Rightarrow> (string + CodexPlusManagedProviderKey) \<times> 'w"

record 'w CodexPlusClientService =
  cl_config :: "('w \<Rightarrow> string + CodexPlusConfig option) option"
  cl_users :: "('w \<Rightarrow> int \<Rightarrow> string + ClientUser option) option"
  cl_subscriptions :: "(('w \<Rightarrow> int \<Rightarrow> string + ClientSubscription list) \<times> ('w \<Rightarrow> int \<Rightarrow> string + ClientSubscription list)) option"
  cl_apiKeys :: "'w api_keys option"
  cl_redeem :: "('w \<Rightarrow> int \<Rightarrow> string \<Rightarrow> (redeem_failure + RedeemCode option) \<times> 'w) option"
  cl_devices :: "'w device_store option"
  cl_managedKeys :: "'w managed_store option"
  cl_events :: "('w \<Rightarrow> CodexPlusClientEvent \<Rightarrow> 'w) option"
  cl_gatewayBaseURL :: string
  cl_supportBaseURL :: string
  cl_minClientVersion :: string
  cl_now :: int

section \<open>Text\<close>

text \<open>\<open>time.Format\<close> with the layouts \<open>20060102_150405\<close> and \<open>2006-01-02\<close>.\<close>

definition stamp :: "int \<Rightarrow> string" where
  "stamp t =
     (let secs = t div 1000000000; rest = secs mod 86400; (y, m, d) = civil_from_days (secs div 86400)
      in pad_int 4 y @ pad_int 2 m @ pad_int 2 d @ ''_'' @ pad_int 2 (rest div 3600) @ pad_int 2 (rest mod 3600 div 60)
         @ pad_int 2 (rest mod 60))"

definition date_text :: "int \<Rightarrow> string" where
  "date_text t =
     (let (y, m, d) = civil_from_days (t div 1000000000 div 86400)
      in pad_int 4 y @ ''-'' @ pad_int 2 m @ ''-'' @ pad_int 2 d)"

definition snapshotVersion :: "string \<Rightarrow> int \<Rightarrow> string" where
  "snapshotVersion status0 now =
     (let status = (if status0 = [] then ''unknown'' else status0)
      in ''snap_'' @ stamp now @ ''_'' @ replace_byte CHR ''-'' CHR ''_'' status)"

text \<open>\<open>math.Round\<close> rounds half away from zero. \<open>strconv.FormatFloat(v, 'f', 2, 64)\<close> rounds the exact
  value to two digits, half to even.\<close>

definition go_Round :: "f64 \<Rightarrow> f64" where
  "go_Round v = (case v of Fin q \<Rightarrow> Fin (of_int (if q < 0 then - \<lfloor>1 / 2 - q\<rfloor> else \<lfloor>q + 1 / 2\<rfloor>)) | _ \<Rightarrow> v)"

definition format_f2 :: "f64 \<Rightarrow> string" where
  "format_f2 v =
     (case v of
        NaN \<Rightarrow> ''NaN'' | PInf \<Rightarrow> ''+Inf'' | NInf \<Rightarrow> ''-Inf''
      | Fin q \<Rightarrow>
          (let n = round_half_even (\<bar>q\<bar> * 100)
           in (if q < 0 then ''-'' else []) @ go_FormatInt (n div 100) @ ''.'' @ pad_int 2 (n mod 100)))"

text \<open>The conversion to \<open>int64\<close>; a value out of its range becomes its least value, as on amd64.\<close>

definition to_int64 :: "f64 \<Rightarrow> int" where
  "to_int64 v =
     (case v of
        Fin q \<Rightarrow> (let n = (if q < 0 then \<lceil>q\<rceil> else \<lfloor>q\<rfloor>) in if - (2 ^ 63) \<le> n \<and> n < 2 ^ 63 then n else - (2 ^ 63))
      | _ \<Rightarrow> - (2 ^ 63))"

definition formatCredits :: "f64 \<Rightarrow> string" where
  "formatCredits v =
     (if \<bar>v - go_Round v\<bar> < f64_round (1 / 1000000) then go_FormatInt (to_int64 (go_Round v)) else format_f2 v)"

definition codexPlusClientStringPtrIfNotBlank :: "string \<Rightarrow> string option" where
  "codexPlusClientStringPtrIfNotBlank v = (if go_TrimSpace v = [] then None else Some (go_TrimSpace v))"

definition codexPlusClientNullableStringPtr :: "string option \<Rightarrow> any_val" where
  "codexPlusClientNullableStringPtr v =
     (case v of None \<Rightarrow> VNil | Some s \<Rightarrow> if go_TrimSpace s = [] then VNil else VString (go_TrimSpace s))"

definition codexPlusClientAPIKeyPrefixPtr :: "string \<Rightarrow> string option" where
  "codexPlusClientAPIKeyPrefixPtr key = (if go_TrimSpace key = [] then None else Some (take 8 (go_TrimSpace key)))"

definition MaskAPIKeyForCodexPlusClient :: "string \<Rightarrow> string" where
  "MaskAPIKeyForCodexPlusClient key0 =
     (let key = go_TrimSpace key0
      in if key = [] then []
         else if length key \<le> 8 then ''...'' @ key
         else take 7 key @ ''...'' @ drop (length key - 4) key)"

definition derefString :: "string option \<Rightarrow> string" where
  "derefString v = (case v of None \<Rightarrow> [] | Some s \<Rightarrow> s)"

definition trim_slashes :: "string \<Rightarrow> string" where
  "trim_slashes s = rev (dropWhile ((=) CHR ''/'') (rev s))"

definition SetGatewayBaseURL :: "string \<Rightarrow> 'w CodexPlusClientService \<Rightarrow> 'w CodexPlusClientService" where
  "SetGatewayBaseURL v s = (if go_TrimSpace v \<noteq> [] then s\<lparr>cl_gatewayBaseURL := go_TrimSpace v\<rparr> else s)"

definition SetSupportBaseURL :: "string \<Rightarrow> 'w CodexPlusClientService \<Rightarrow> 'w CodexPlusClientService" where
  "SetSupportBaseURL v s =
     (let trimmed = trim_slashes (go_TrimSpace v) in if trimmed \<noteq> [] then s\<lparr>cl_supportBaseURL := trimmed\<rparr> else s)"

definition SetDeviceStore :: "'w device_store option \<Rightarrow> 'w CodexPlusClientService \<Rightarrow> 'w CodexPlusClientService" where
  [simp]: "SetDeviceStore store s = s\<lparr>cl_devices := store\<rparr>"

definition SetManagedProviderKeyStore :: "'w managed_store option \<Rightarrow> 'w CodexPlusClientService \<Rightarrow> 'w CodexPlusClientService" where
  [simp]: "SetManagedProviderKeyStore store s = s\<lparr>cl_managedKeys := store\<rparr>"

definition SetEventSink :: "('w \<Rightarrow> CodexPlusClientEvent \<Rightarrow> 'w) option \<Rightarrow> 'w CodexPlusClientService \<Rightarrow> 'w CodexPlusClientService" where
  [simp]: "SetEventSink sink s = s\<lparr>cl_events := sink\<rparr>"

definition SetNow :: "int option \<Rightarrow> 'w CodexPlusClientService \<Rightarrow> 'w CodexPlusClientService" where
  [simp]: "SetNow now s = (case now of Some t \<Rightarrow> s\<lparr>cl_now := t\<rparr> | None \<Rightarrow> s)"

definition client_url :: "'w CodexPlusClientService \<Rightarrow> string \<Rightarrow> string" where
  "client_url s path =
     (let base = trim_slashes (cl_supportBaseURL s) in (if base = [] then ''https://codex-plus.example'' else base) @ path)"

section \<open>Plans, models and policies\<close>

definition findDefaultModel :: "CodexPlusConfig \<Rightarrow> CodexPlusModel option" where
  "findDefaultModel cfg = find IsDefault (models_of cfg)"

definition plan_for_subscription :: "UserSubscription \<Rightarrow> CodexPlusPlan \<Rightarrow> bool" where
  "plan_for_subscription sub plan \<longleftrightarrow>
     (let sources = EntitlementSources plan
      in containsCodexPlusInt64 (SubscriptionGroupIDs sources) (s_GroupID sub) \<or>
         (case s_Group sub of
            None \<Rightarrow> False
          | Some g \<Rightarrow> containsCodexPlusInt64 (SubscriptionGroupIDs sources) (g_ID g) \<or>
              containsCodexPlusStringFold (GroupNames sources) (g_Name g)))"

definition codexPlusClientPlanForSubscription :: "CodexPlusConfig \<Rightarrow> ClientSubscription \<Rightarrow> CodexPlusPlan option" where
  "codexPlusClientPlanForSubscription cfg sub =
     find (\<lambda>plan. isCodexPlusPlanEnabled (pl_Status plan) \<and> plan_for_subscription (UserSubscription.truncate sub) plan) (plans_of cfg)"

definition codexPlusClientPlanForUserGroups :: "CodexPlusConfig \<Rightarrow> ClientUser \<Rightarrow> CodexPlusPlan option" where
  "codexPlusClientPlanForUserGroups cfg user =
     (if cu_AllowedGroups user = [] then None
      else find (\<lambda>plan. isCodexPlusPlanEnabled (pl_Status plan) \<and>
        list_ex (\<lambda>g. containsCodexPlusInt64 (SubscriptionGroupIDs (EntitlementSources plan)) g \<or>
          containsCodexPlusInt64 (APIKeyGroupIDs (EntitlementSources plan)) g) (cu_AllowedGroups user)) (plans_of cfg))"

definition codexPlusClientUsagePolicyForPlan :: "CodexPlusConfig \<Rightarrow> CodexPlusPlan \<Rightarrow> CodexPlusUsageRule option" where
  "codexPlusClientUsagePolicyForPlan cfg plan =
     (let policyID = go_TrimSpace (UsagePolicyID plan)
      in if policyID = [] then None else find (\<lambda>p. go_TrimSpace (PolicyID p) = policyID) (policies_of cfg))"

definition codexPlusClientModelAllowedByPlan :: "CodexPlusPlan \<Rightarrow> CodexPlusModel \<Rightarrow> bool" where
  "codexPlusClientModelAllowedByPlan plan model \<longleftrightarrow>
     (let modelGroup = go_TrimSpace (ModelGroup model)
      in modelGroup \<noteq> [] \<and> list_ex (\<lambda>allowed. go_EqualFold (go_TrimSpace allowed) modelGroup) (pl_ModelGroups plan))"

definition codexPlusClientDefaultModelForPlan :: "CodexPlusConfig \<Rightarrow> CodexPlusPlan \<Rightarrow> CodexPlusModel option" where
  "codexPlusClientDefaultModelForPlan cfg plan =
     (let usable = (\<lambda>m. IsEnabled m \<and> \<not> IsHidden m \<and> codexPlusClientModelAllowedByPlan plan m)
      in case find (\<lambda>m. IsDefault m \<and> usable m) (models_of cfg) of
           Some m \<Rightarrow> Some m
         | None \<Rightarrow> find usable (models_of cfg))"

definition defaultModelID :: "CodexPlusModel option \<Rightarrow> string" where
  "defaultModelID model = (case model of None \<Rightarrow> [] | Some m \<Rightarrow> ModelID m)"

definition sub_expired :: "int \<Rightarrow> ClientSubscription \<Rightarrow> bool" where
  "sub_expired now sub \<longleftrightarrow> (case s_ExpiresAt sub of None \<Rightarrow> True | Some t \<Rightarrow> t < now)"

text \<open>The first element for which a function has a value, with the value.\<close>

fun first_some :: "('a \<Rightarrow> 'b option) \<Rightarrow> 'a list \<Rightarrow> ('a \<times> 'b) option" where
  "first_some f [] = None"
| "first_some f (x # xs) = (case f x of Some y \<Rightarrow> Some (x, y) | None \<Rightarrow> first_some f xs)"

definition no_entitlement :: codexPlusEntitlement where
  "no_entitlement = \<lparr>ent_active = False, ent_expired = False, ent_lowBalance = False, ent_activeSub = None,
     ent_expiredSub = None, ent_policy = None, ent_plan = None, ent_defaultModel = None\<rparr>"

definition subscriptions_of :: "'w CodexPlusClientService \<Rightarrow> 'w \<Rightarrow> int \<Rightarrow> ClientSubscription list \<times> ClientSubscription list" where
  "subscriptions_of s w userID =
     (case cl_subscriptions s of
        None \<Rightarrow> ([], [])
      | Some (listActive, listAll) \<Rightarrow>
          (case listActive w userID of Inl _ \<Rightarrow> [] | Inr subs \<Rightarrow> subs,
           case listAll w userID of Inl _ \<Rightarrow> [] | Inr subs \<Rightarrow> subs))"

definition resolveEntitlement ::
    "'w CodexPlusClientService \<Rightarrow> 'w \<Rightarrow> ClientUser option \<Rightarrow> CodexPlusConfig \<Rightarrow> codexPlusEntitlement" where
  "resolveEntitlement s w user0 cfg =
     (case user0 of
        None \<Rightarrow> no_entitlement
      | Some user \<Rightarrow>
          (let (activeSubs, allSubs) = subscriptions_of s w (u_ID user);
               planFor = codexPlusClientPlanForSubscription cfg;
               positive = Fin 0 < cu_Balance user;
               ent1 = (case first_some planFor activeSubs of
                   Some (sub, plan) \<Rightarrow> no_entitlement\<lparr>ent_activeSub := Some sub, ent_plan := Some plan, ent_active := True\<rparr>
                 | None \<Rightarrow>
                     (case first_some planFor (filter (\<lambda>sub. sub_expired (cl_now s) sub \<or> s_Status sub = ''expired'') allSubs) of
                        Some (sub, plan) \<Rightarrow> no_entitlement\<lparr>ent_expiredSub := Some sub, ent_plan := Some plan, ent_expired := True\<rparr>
                      | None \<Rightarrow> no_entitlement));
               ent2 = (if \<not> ent_active ent1 \<and> \<not> ent_expired ent1 \<and> positive
                 then (case codexPlusClientPlanForUserGroups cfg user of
                     Some plan \<Rightarrow> ent1\<lparr>ent_plan := Some plan, ent_active := True\<rparr>
                   | None \<Rightarrow> ent1)
                 else ent1);
               ent3 = (case ent_plan ent2 of
                   Some plan \<Rightarrow> ent2\<lparr>ent_policy := codexPlusClientUsagePolicyForPlan cfg plan,
                                    ent_defaultModel := codexPlusClientDefaultModelForPlan cfg plan\<rparr>
                 | None \<Rightarrow> ent2\<lparr>ent_defaultModel := findDefaultModel cfg\<rparr>);
               ent4 = (if ent_plan ent3 \<noteq> None \<and> positive \<and> \<not> ent_expired ent3 then ent3\<lparr>ent_active := True\<rparr> else ent3)
           in case ent_policy ent4 of
                Some policy \<Rightarrow>
                  if ent_active ent4 \<and> positive \<and> cu_Balance user \<le> f64_round (of_int (LowBalanceThreshold policy))
                  then ent4\<lparr>ent_lowBalance := True\<rparr> else ent4
              | None \<Rightarrow> ent4))"

definition resolveServiceStatus :: "bool \<Rightarrow> CodexPlusDeviceSnapshot \<Rightarrow> codexPlusEntitlement \<Rightarrow> client_status" where
  "resolveServiceStatus configErr device ent =
     (if ds_Status device = ''revoked'' \<or> ds_Status device = ''blocked'' then CDeviceRevoked
      else if configErr then CGatewayUnhealthy
      else if \<not> ent_active ent then (if ent_expired ent then CExpired else CNotPurchased)
      else if (case ent_defaultModel ent of None \<Rightarrow> True | Some m \<Rightarrow> \<not> IsEnabled m \<or> IsHidden m) then CModelUnavailable
      else if ent_lowBalance ent then CLowBalance
      else CAvailable)"

definition canReturnProviderKey :: "client_status \<Rightarrow> bool" where
  "canReturnProviderKey status \<longleftrightarrow> status \<in> {CAvailable, CLowBalance, CModelUnavailable}"

section \<open>Message keys and actions\<close>

definition clientAction :: "string \<Rightarrow> string \<Rightarrow> string \<Rightarrow> string \<Rightarrow> string option \<Rightarrow> CodexPlusClientAction" where
  "clientAction actionType messageKey actionCopyKey label link =
     \<lparr>ca_ActionType = codexPlusFallbackString actionType ''none'',
      ca_MessageKey = codexPlusClientStringPtrIfNotBlank messageKey,
      ca_ActionCopyKey = codexPlusClientStringPtrIfNotBlank actionCopyKey,
      ca_Label = codexPlusFallbackString label ''Continue'',
      ca_URL = link\<rparr>"

text \<open>The first of some optional keys that is not blank.\<close>

fun first_key :: "string option list \<Rightarrow> string \<Rightarrow> string" where
  "first_key [] fallback = fallback"
| "first_key (k # ks) fallback =
     (case k of Some v \<Rightarrow> if go_TrimSpace v \<noteq> [] then v else first_key ks fallback | None \<Rightarrow> first_key ks fallback)"

definition messageKeyForStatus :: "client_status \<Rightarrow> codexPlusEntitlement \<Rightarrow> string" where
  "messageKeyForStatus status ent =
     (let policyKey = (\<lambda>f. map_option (f \<circ> ur_CopyKeys) (ent_policy ent));
          planKey = (\<lambda>f. map_option (f \<circ> pl_CopyKeys) (ent_plan ent))
      in case status of
           CAvailable \<Rightarrow> ''service.available''
         | CLowBalance \<Rightarrow> first_key [policyKey uk_LowBalanceMessage, planKey pk_LowBalanceMessage] ''usage.low_balance''
         | CExpired \<Rightarrow> first_key [policyKey uk_ExpiredMessage, planKey pk_ExpiredMessage] ''usage.expired''
         | CNotPurchased \<Rightarrow> first_key [planKey NotPurchasedMessage] ''billing.message.not_purchased''
         | CDeviceRevoked \<Rightarrow>
             first_key [policyKey DeviceRevokedMessage, map_option (Revoked \<circ> MessageKeys \<circ> DevicePolicy) (ent_policy ent)]
               ''device.revoked''
         | CModelUnavailable \<Rightarrow> ''model.unavailable''
         | CGatewayUnhealthy \<Rightarrow> ''gateway.unhealthy'')"

definition planMessageKey :: "CodexPlusPlan option \<Rightarrow> string \<Rightarrow> string" where
  "planMessageKey plan status =
     (let name = (case plan of None \<Rightarrow> [] | Some p \<Rightarrow> go_TrimSpace (PlanID p))
      in ''plan.'' @ (if name = [] then ''none'' else name) @ ''.'' @ codexPlusFallbackString status ''unknown'')"

definition planActionCopyKey :: "CodexPlusPlan option \<Rightarrow> string \<Rightarrow> string" where
  "planActionCopyKey plan action =
     (let (fallback, field) =
        (if action = ''renew'' then (''billing.action.renew'', pk_RenewAction)
         else if action = ''upgrade'' then (''billing.action.upgrade'', UpgradeAction)
         else (''billing.action.purchase'', pk_PurchaseAction))
      in case plan of None \<Rightarrow> fallback | Some p \<Rightarrow> codexPlusFallbackString (field (pl_CopyKeys p)) fallback)"

definition usageActionCopyKey :: "CodexPlusUsageRule option \<Rightarrow> string \<Rightarrow> string" where
  "usageActionCopyKey policy action =
     (let (fallback, field) =
        (if action = ''renew'' then (''usage.renew_action'', uk_RenewAction) else (''usage.purchase_action'', uk_PurchaseAction))
      in case policy of None \<Rightarrow> fallback | Some p \<Rightarrow> codexPlusFallbackString (field (ur_CopyKeys p)) fallback)"

section \<open>The parts of a snapshot\<close>

definition featureFlagsForStatus :: "CodexPlusConfig \<Rightarrow> client_status \<Rightarrow> CodexPlusFeatureFlags" where
  "featureFlagsForStatus cfg status =
     (let flags0 = Flags (FeatureFlags cfg);
          flags1 = (if status = CDeviceRevoked then flags0\<lparr>NewUserTutorial := False, ModelSelector := False\<rparr> else flags0)
      in if status \<in> {CExpired, CNotPurchased, CGatewayUnhealthy} then flags1\<lparr>ModelSelector := False\<rparr> else flags1)"

definition announcementsForStatus :: "client_status \<Rightarrow> string \<Rightarrow> CodexPlusClientAnnouncement list" where
  "announcementsForStatus status supportBaseURL =
     (if status \<noteq> CGatewayUnhealthy then []
      else [\<lparr>an_ID = ''gateway-maintenance'', an_Severity = ''warning'', an_Message = ''Gateway maintenance is in progress.'',
             an_URL = Some (trim_slashes supportBaseURL @ ''/status'')\<rparr>])"

definition serviceStateForStatus :: "client_status \<Rightarrow> string \<Rightarrow> codexPlusEntitlement \<Rightarrow> CodexPlusClientServiceState" where
  "serviceStateForStatus status supportBaseURL ent =
     (let page = (\<lambda>path. Some (trim_slashes supportBaseURL @ path));
          state = (\<lambda>message hint retryable support code. \<lparr>ss_Status = client_status_text status, ss_Message = message,
            ss_MessageKey = messageKeyForStatus status ent, ss_ActionHint = hint, ss_Retryable = retryable,
            ss_SupportURL = support, ss_ErrorCode = code\<rparr>)
      in case status of
           CAvailable \<Rightarrow> state ''Ready to use Codex++ Cloud.'' ''none'' True None None
         | CLowBalance \<Rightarrow> state ''Your remaining Codex++ balance is low.'' ''recharge'' True (page ''/billing'')
             (Some ''CLIENT_ENTITLEMENT_LOW_BALANCE'')
         | CExpired \<Rightarrow> state ''Your Codex++ plan has expired.'' ''renew'' False (page ''/billing'') (Some ''CLIENT_ENTITLEMENT_EXPIRED'')
         | CNotPurchased \<Rightarrow> state ''Purchase or redeem a Codex++ plan to continue.'' ''purchase'' False (page ''/billing'')
             (Some ''CLIENT_ENTITLEMENT_NOT_PURCHASED'')
         | CDeviceRevoked \<Rightarrow> state ''This device cannot use Codex++ Cloud.'' ''contact_support'' False (page ''/support'')
             (Some ''CLIENT_DEVICE_REVOKED'')
         | CModelUnavailable \<Rightarrow> state ''The selected model is currently unavailable.'' ''retry'' True None
             (Some ''GATEWAY_POLICY_MODEL_NOT_ALLOWED'')
         | CGatewayUnhealthy \<Rightarrow> state ''Codex++ Cloud is temporarily unavailable. Please retry later.'' ''retry'' True
             (page ''/status'') (Some ''GATEWAY_POLICY_CONFIG_UNAVAILABLE''))"

definition refreshTTLForStatus :: "client_status \<Rightarrow> int" where
  "refreshTTLForStatus status =
     (case status of CGatewayUnhealthy \<Rightarrow> 60 | CModelUnavailable \<Rightarrow> 120 | CLowBalance \<Rightarrow> 180 | _ \<Rightarrow> 300)"

definition periodUsageDisplay :: "ClientSubscription option \<Rightarrow> string" where
  "periodUsageDisplay sub =
     (case sub of None \<Rightarrow> ''0 credits used today'' | Some u \<Rightarrow> formatCredits (cs_DailyUsageUSD u) @ '' credits used today'')"

abbreviation day :: int where "day \<equiv> 86400 * 1000000000"

definition nextUTCDateBoundary :: "int \<Rightarrow> int" where
  "nextUTCDateBoundary now = (now div day + 1) * day"

text \<open>\<open>HasOneTimeDailyQuota\<close> and \<open>DailyResetTime\<close> of \<open>user_subscription.go\<close>, with times in UTC.\<close>

definition HasOneTimeDailyQuota :: "ClientSubscription \<Rightarrow> bool" where
  "HasOneTimeDailyQuota sub \<longleftrightarrow>
     (case (cs_StartsAt sub, s_ExpiresAt sub) of (Some starts, Some expires) \<Rightarrow> expires \<le> starts + day | _ \<Rightarrow> False)"

definition DailyResetTime :: "ClientSubscription \<Rightarrow> int option" where
  "DailyResetTime sub =
     (case cs_DailyWindowStart sub of
        None \<Rightarrow> None
      | Some start \<Rightarrow> if HasOneTimeDailyQuota sub then s_ExpiresAt sub else Some (start + day))"

definition periodUsageSummary :: "ClientSubscription option \<Rightarrow> int \<Rightarrow> CodexPlusClientPeriodUsageSummary" where
  "periodUsageSummary sub now =
     (let out = \<lparr>pu_PeriodID = date_text now, pu_UsageDisplay = periodUsageDisplay sub,
            pu_ResetAt = Some (nextUTCDateBoundary now)\<rparr>
      in case Option.bind sub (\<lambda>u. map_option (\<lambda>start. (u, start)) (cs_DailyWindowStart u)) of
           None \<Rightarrow> out
         | Some (u, start) \<Rightarrow> out\<lparr>pu_PeriodID := date_text start,
             pu_ResetAt := (case DailyResetTime u of Some t \<Rightarrow> Some t | None \<Rightarrow> pu_ResetAt out)\<rparr>)"

definition planFor :: "'w CodexPlusClientService \<Rightarrow> codexPlusEntitlement \<Rightarrow> client_status \<Rightarrow> CodexPlusClientPlanSummary" where
  "planFor s ent status =
     (let billingURL = client_url s ''/billing'';
          none = (\<lambda>action. \<lparr>cp_PlanID = [], cp_Name = [], cp_Status = ''none'', cp_ExpiresAt = None,
            cp_RenewURL = Some billingURL, cp_CommerceAction = action\<rparr>);
          mk = messageKeyForStatus
      in if status = CNotPurchased
         then none (clientAction ''purchase'' (mk status ent) (planActionCopyKey (ent_plan ent) ''purchase'') ''Choose a plan'' (Some billingURL))
         else case ent_plan ent of
           None \<Rightarrow> none (clientAction ''purchase'' (mk CNotPurchased ent) ''billing.action.purchase'' ''Choose a plan'' (Some billingURL))
         | Some plan \<Rightarrow>
             (let renew = (case RenewURL plan of None \<Rightarrow> Some billingURL | Some u \<Rightarrow> Some u);
                  out = \<lparr>cp_PlanID = PlanID plan, cp_Name = pl_Name plan, cp_Status = ''active'',
                    cp_ExpiresAt = Option.bind (ent_activeSub ent) s_ExpiresAt, cp_RenewURL = renew,
                    cp_CommerceAction = clientAction ''manage_plan'' (planMessageKey (Some plan) ''active'') ''action.manage_plan''
                      ''Manage plan'' renew\<rparr>
              in case status of
                   CExpired \<Rightarrow> out\<lparr>cp_Status := ''expired'',
                     cp_CommerceAction := clientAction ''renew'' (mk status ent) (planActionCopyKey (Some plan) ''renew'') ''Renew plan'' renew,
                     cp_ExpiresAt := (case ent_expiredSub ent of Some u \<Rightarrow> s_ExpiresAt u | None \<Rightarrow> cp_ExpiresAt out)\<rparr>
                 | CLowBalance \<Rightarrow> out\<lparr>cp_CommerceAction :=
                     clientAction ''recharge'' (mk status ent) (usageActionCopyKey (ent_policy ent) ''renew'') ''Recharge'' renew\<rparr>
                 | CDeviceRevoked \<Rightarrow> out\<lparr>cp_CommerceAction :=
                     clientAction ''contact_support'' (mk status ent) ''action.contact_support'' ''Contact support'' (Some (client_url s ''/support''))\<rparr>
                 | CGatewayUnhealthy \<Rightarrow> out\<lparr>cp_CommerceAction :=
                     clientAction ''check_status'' (mk status ent) ''action.check_status'' ''Check status'' (Some (client_url s ''/status''))\<rparr>
                 | CModelUnavailable \<Rightarrow> out\<lparr>cp_CommerceAction :=
                     clientAction ''check_status'' (mk status ent) ''action.check_status'' ''Check status'' (Some (client_url s ''/status''))\<rparr>
                 | _ \<Rightarrow> out))"

definition modelsFor :: "CodexPlusConfig \<Rightarrow> codexPlusEntitlement \<Rightarrow> client_status \<Rightarrow> CodexPlusClientModel list" where
  "modelsFor cfg ent status =
     (if status \<in> {CNotPurchased, CExpired, CDeviceRevoked, CGatewayUnhealthy} then []
      else map (\<lambda>m. \<lparr>cm_ModelID = ModelID m, cm_RouteModel = RouteModel m, cm_Label = DisplayName m, cm_IsDefault = IsDefault m,
             cm_IsAvailable = IsEnabled m,
             cm_DisabledReason = (if \<not> IsEnabled m \<and> DisabledReason m = None then Some ''disabled_by_admin'' else DisabledReason m)\<rparr>)
           (filter (\<lambda>m. \<not> IsHidden m \<and>
              (case ent_plan ent of None \<Rightarrow> True | Some plan \<Rightarrow> codexPlusClientModelAllowedByPlan plan m)) (models_of cfg)))"

definition usageFor ::
    "'w CodexPlusClientService \<Rightarrow> ClientUser option \<Rightarrow> codexPlusEntitlement \<Rightarrow> client_status \<Rightarrow> CodexPlusClientUsageSummary" where
  "usageFor s user ent status =
     (let page = (\<lambda>path. Some (client_url s path)); mk = messageKeyForStatus status ent;
          out = (\<lambda>balance low period state action. \<lparr>us_BalanceDisplay = balance, us_LowBalance = low, us_PeriodUsageDisplay = period,
            us_RateLimitState = state, us_RenewAction = action\<rparr>);
          balance = (case user of None \<Rightarrow> Fin 0 | Some u \<Rightarrow> cu_Balance u);
          shown = (\<lambda>action. out (formatCredits balance @ '' credits remaining'') (status = CLowBalance)
            (periodUsageDisplay (ent_activeSub ent)) ''normal'' action)
      in case status of
           CNotPurchased \<Rightarrow> out ''No active plan'' False ''No usage'' ''blocked''
             (clientAction ''purchase'' mk (usageActionCopyKey (ent_policy ent) ''purchase'') ''Choose a plan'' (page ''/billing''))
         | CExpired \<Rightarrow> out ''Plan expired'' False ''No current usage'' ''blocked''
             (clientAction ''renew'' mk (usageActionCopyKey (ent_policy ent) ''renew'') ''Renew plan'' (page ''/billing''))
         | CDeviceRevoked \<Rightarrow> out ''Hidden while device is revoked'' False ''Hidden while device is revoked'' ''blocked''
             (clientAction ''contact_support'' mk ''action.contact_support'' ''Contact support'' (page ''/support''))
         | CGatewayUnhealthy \<Rightarrow> out ''Temporarily unavailable'' False ''Temporarily unavailable'' ''blocked''
             (clientAction ''check_status'' mk ''action.check_status'' ''Check status'' (page ''/status''))
         | CLowBalance \<Rightarrow> shown (clientAction ''recharge'' mk (usageActionCopyKey (ent_policy ent) ''renew'') ''Recharge'' (page ''/billing''))
         | _ \<Rightarrow> shown (clientAction ''manage_plan'' ''usage.manage_plan'' ''action.manage_plan'' ''Manage plan'' (page ''/billing'')))"

definition deviceSnapshotFromRecord :: "CodexPlusDevice option \<Rightarrow> string \<Rightarrow> CodexPlusDeviceSnapshot" where
  "deviceSnapshotFromRecord d0 version =
     (case d0 of
        None \<Rightarrow> \<lparr>ds_DeviceID = [], ds_Status = ''unknown'', ds_Message = ''Device not registered.'', ds_SnapshotVersion = version\<rparr>
      | Some d \<Rightarrow>
          (let status0 = go_TrimSpace (dv_Status d); status = (if status0 = [] then ''active'' else status0)
           in \<lparr>ds_DeviceID = dv_DeviceID d, ds_Status = status,
               ds_Message = (if status = ''revoked'' then ''Device revoked by administrator.''
                 else if status = ''blocked'' then ''Device blocked.'' else ''Device active.''),
               ds_SnapshotVersion = version\<rparr>))"

section \<open>The managed key\<close>

text \<open>A step either aborts with a nil pointer or returns.\<close>

datatype 'a outcome = Panic | Returned 'a

datatype provider_error = KeyError key_error | StoreError string

abbreviation CodexPlusClientProviderName :: string where "CodexPlusClientProviderName \<equiv> ''Codex++ Cloud''"

definition findManagedAPIKeyByName :: "'w api_keys \<Rightarrow> 'w \<Rightarrow> int \<Rightarrow> key_error + ClientKey option" where
  "findManagedAPIKeyByName api w userID =
     map_sum (\<lambda>e. e) (find (\<lambda>k. ck_UserID k = userID \<and> ck_Name k = CodexPlusClientProviderName)) (listKeys api w userID)"

definition createManagedAPIKey :: "'w api_keys \<Rightarrow> 'w \<Rightarrow> int \<Rightarrow> (key_error + ClientKey option) \<times> 'w" where
  "createManagedAPIKey api w userID =
     (case createKey api w userID CodexPlusClientProviderName of
        (Inl KeyExists, w') \<Rightarrow> (findManagedAPIKeyByName api w' userID, w')
      | (Inl e, w') \<Rightarrow> (Inl e, w')
      | (Inr key, w') \<Rightarrow> (Inr (Some key), w'))"

text \<open>The key that the record of the user names, if it exists and belongs to the user.\<close>

definition recorded_key :: "'w api_keys \<Rightarrow> 'w managed_store \<Rightarrow> 'w \<Rightarrow> int \<Rightarrow> provider_error + ClientKey option" where
  "recorded_key api store w userID =
     (case managedGet store w userID CodexPlusManagedProviderID of
        Inl reader_error.NotFound \<Rightarrow> Inr None
      | Inl (ReaderError e) \<Rightarrow> Inl (StoreError e)
      | Inr None \<Rightarrow> Inr None
      | Inr (Some rec) \<Rightarrow>
          (if mk_APIKeyID rec \<le> 0 then Inr None
           else case keyByID api w (mk_APIKeyID rec) of
             Inl KeyNotFound \<Rightarrow> Inr None
           | Inl e \<Rightarrow> Inl (KeyError e)
           | Inr None \<Rightarrow> Inr None
           | Inr (Some key) \<Rightarrow> Inr (if ck_UserID key = userID then Some key else None)))"

definition key_record :: "int \<Rightarrow> ClientKey \<Rightarrow> CodexPlusManagedProviderKeyUpsert" where
  "key_record userID key = \<lparr>mu_UserID = userID, mu_APIKeyID = ck_ID key, mu_ManagedProviderID = CodexPlusManagedProviderID,
     mu_DisplayName = CodexPlusClientProviderName, mu_KeyPrefix = codexPlusClientAPIKeyPrefixPtr (ck_Key key), mu_Status = ''active''\<rparr>"

text \<open>When the record cannot be stored, the code returns the key beside the error; the caller reads only the
  error. The key that was created is read without a check.\<close>

definition ensureManagedAPIKey ::
    "'w CodexPlusClientService \<Rightarrow> 'w \<Rightarrow> int \<Rightarrow> bool \<Rightarrow> (provider_error + ClientKey option) outcome \<times> 'w" where
  "ensureManagedAPIKey s w userID createIfMissing =
     (case cl_apiKeys s of
        None \<Rightarrow> (Returned (Inr None), w)
      | Some api \<Rightarrow>
          (case cl_managedKeys s of
             Some store \<Rightarrow>
               (case recorded_key api store w userID of
                  Inl e \<Rightarrow> (Returned (Inl e), w)
                | Inr (Some key) \<Rightarrow> (Returned (Inr (Some key)), w)
                | Inr None \<Rightarrow>
                    if \<not> createIfMissing then (Returned (Inr None), w)
                    else case createManagedAPIKey api w userID of
                      (Inl e, w1) \<Rightarrow> (Returned (Inl (KeyError e)), w1)
                    | (Inr None, w1) \<Rightarrow> (Panic, w1)
                    | (Inr (Some key), w1) \<Rightarrow>
                        (case managedUpsert store w1 (key_record userID key) of
                           (Inl e, w2) \<Rightarrow> (Returned (Inl (StoreError e)), w2)
                         | (Inr _, w2) \<Rightarrow> (Returned (Inr (Some key)), w2)))
           | None \<Rightarrow>
               (case findManagedAPIKeyByName api w userID of
                  Inl e \<Rightarrow> (Returned (Inl (KeyError e)), w)
                | Inr (Some key) \<Rightarrow> (Returned (Inr (Some key)), w)
                | Inr None \<Rightarrow>
                    if \<not> createIfMissing then (Returned (Inr None), w)
                    else (case createManagedAPIKey api w userID of
                      (Inl e, w1) \<Rightarrow> (Returned (Inl (KeyError e)), w1)
                    | (Inr key, w1) \<Rightarrow> (Returned (Inr key), w1)))))"

definition key_summary_of :: "ClientKey \<Rightarrow> CodexPlusManagedProviderKeySummary" where
  "key_summary_of key = \<lparr>ks_KeyID = go_FormatInt (ck_ID key), ks_MaskedKey = MaskAPIKeyForCodexPlusClient (ck_Key key),
     ks_CreatedAt = ck_CreatedAt key, ks_LastUsedAt = ck_LastUsedAt key\<rparr>"

definition providerForStatus ::
    "'w CodexPlusClientService \<Rightarrow> 'w \<Rightarrow> int \<Rightarrow> client_status \<Rightarrow> codexPlusEntitlement \<Rightarrow>
     (CodexPlusManagedProvider \<times> provider_error option) outcome \<times> 'w" where
  "providerForStatus s w userID status ent =
     (let provider = \<lparr>mp_ProviderID = CodexPlusManagedProviderID, mp_DisplayName = CodexPlusClientProviderName,
            mp_GatewayBaseURL = cl_gatewayBaseURL s, mp_AuthMode = ''user_side_api_key'', mp_APIKey = None,
            mp_KeySummary = \<lparr>ks_KeyID = [], ks_MaskedKey = [], ks_CreatedAt = cl_now s, ks_LastUsedAt = None\<rparr>,
            mp_DefaultModel = defaultModelID (ent_defaultModel ent)\<rparr>;
          may = canReturnProviderKey status
      in case ensureManagedAPIKey s w userID may of
           (Panic, w1) \<Rightarrow> (Panic, w1)
         | (Returned (Inl e), w1) \<Rightarrow> (Returned (provider, Some e), w1)
         | (Returned (Inr None), w1) \<Rightarrow>
             (Returned (if may then provider else provider\<lparr>mp_DefaultModel := []\<rparr>, None), w1)
         | (Returned (Inr (Some key)), w1) \<Rightarrow>
             (let known = provider\<lparr>mp_KeySummary := key_summary_of key\<rparr>
              in (Returned (if may then known\<lparr>mp_APIKey := Some (ck_Key key)\<rparr> else known\<lparr>mp_DefaultModel := []\<rparr>, None), w1)))"

section \<open>Operations\<close>

datatype client_error =
    ClientServiceUnavailable
  | GetUserFailed string
  | ClientDeviceIDRequired
  | UpsertDeviceFailed string
  | RedeemCodeRequired
  | RedeemUnavailable

definition validateReady :: "'w CodexPlusClientService \<Rightarrow> client_error option" where
  "validateReady s = (if cl_config s = None \<or> cl_users s = None then Some ClientServiceUnavailable else None)"

definition defaultClientConfig :: "int \<Rightarrow> CodexPlusConfig" where
  "defaultClientConfig now = DefaultCodexPlusConfig now"

text \<open>The configuration that is used and whether reading it failed.\<close>

definition read_config :: "'w CodexPlusClientService \<Rightarrow> 'w \<Rightarrow> bool \<times> CodexPlusConfig" where
  "read_config s w =
     (case (case cl_config s of Some f \<Rightarrow> f w | None \<Rightarrow> Inr None) of
        Inl _ \<Rightarrow> (True, defaultClientConfig (cl_now s))
      | Inr None \<Rightarrow> (False, defaultClientConfig (cl_now s))
      | Inr (Some cfg) \<Rightarrow> (False, cfg))"

text \<open>The user, after the checks with which every operation begins.\<close>

definition read_user :: "'w CodexPlusClientService \<Rightarrow> 'w \<Rightarrow> int \<Rightarrow> client_error + ClientUser option" where
  "read_user s w userID =
     (case validateReady s of
        Some e \<Rightarrow> Inl e
      | None \<Rightarrow> (case cl_users s of
          None \<Rightarrow> Inl ClientServiceUnavailable
        | Some f \<Rightarrow> map_sum GetUserFailed (\<lambda>u. u) (f w userID)))"

definition unknown_device :: "string \<Rightarrow> string \<Rightarrow> string \<Rightarrow> int \<Rightarrow> CodexPlusDeviceSnapshot" where
  "unknown_device deviceID message version now =
     \<lparr>ds_DeviceID = deviceID, ds_Status = ''unknown'', ds_Message = message, ds_SnapshotVersion = snapshotVersion version now\<rparr>"

text \<open>A reader that returns no device and no error: the status of the device is read through a nil pointer.\<close>

definition loadDevice :: "'w CodexPlusClientService \<Rightarrow> 'w \<Rightarrow> int \<Rightarrow> string \<Rightarrow> CodexPlusDeviceSnapshot outcome" where
  "loadDevice s w userID deviceID0 =
     (let deviceID = go_TrimSpace deviceID0
      in if deviceID = [] then Returned (unknown_device [] ''Device not registered.'' ''unknown'' (cl_now s))
         else case cl_devices s of
           None \<Rightarrow> Returned \<lparr>ds_DeviceID = deviceID, ds_Status = ''active'', ds_Message = ''Device active.'',
             ds_SnapshotVersion = snapshotVersion ''active'' (cl_now s)\<rparr>
         | Some store \<Rightarrow>
             (case deviceGet store w userID deviceID of
                Inl reader_error.NotFound \<Rightarrow> Returned (unknown_device deviceID ''Device not registered.'' ''unknown'' (cl_now s))
              | Inl (ReaderError e) \<Rightarrow>
                  Returned (unknown_device deviceID ''Device state temporarily unavailable.'' ''gateway_unhealthy'' (cl_now s))
              | Inr None \<Rightarrow> Panic
              | Inr (Some rec) \<Rightarrow> Returned (deviceSnapshotFromRecord (Some rec) (snapshotVersion (dv_Status rec) (cl_now s)))))"

definition snapshotFor ::
    "'w CodexPlusClientService \<Rightarrow> ClientUser option \<Rightarrow> CodexPlusConfig \<Rightarrow> CodexPlusDeviceSnapshot \<Rightarrow> codexPlusEntitlement \<Rightarrow>
     client_status \<Rightarrow> CodexPlusManagedProvider \<Rightarrow> CodexPlusBootstrapSnapshot" where
  "snapshotFor s user cfg device ent status provider =
     (let version = snapshotVersion (client_status_text status) (cl_now s)
      in \<lparr>bs_Service = serviceStateForStatus status (cl_supportBaseURL s) ent,
          bs_Provider = provider,
          bs_Plan = planFor s ent status,
          bs_Models = modelsFor cfg ent status,
          bs_Usage = usageFor s user ent status,
          bs_FeatureFlags = featureFlagsForStatus cfg status,
          bs_Announcements = announcementsForStatus status (cl_supportBaseURL s),
          bs_VersionPolicy = \<lparr>vp_ConfigVersion = ConfigVersion cfg, vp_SnapshotVersion = version,
            vp_RefreshTTLSeconds = refreshTTLForStatus status, vp_ForceRefresh = (status = CModelUnavailable),
            vp_MinimumClientVersion = cl_minClientVersion s\<rparr>,
          bs_Device = device\<lparr>ds_SnapshotVersion := version\<rparr>\<rparr>)"

definition emit ::
    "'w CodexPlusClientService \<Rightarrow> string \<Rightarrow> int \<Rightarrow> string \<Rightarrow> string \<Rightarrow> (string \<times> string) list \<Rightarrow> string \<Rightarrow> string \<Rightarrow> 'w \<Rightarrow> 'w" where
  "emit s eventType userID deviceID status metadata requestID configVersion w =
     (case cl_events s of
        None \<Rightarrow> w
      | Some record_event \<Rightarrow> record_event w \<lparr>ce_Type = eventType, ce_UserID = userID, ce_DeviceID = deviceID, ce_Status = status,
          ce_RequestID = requestID, ce_ConfigVersion = configVersion, ce_OccurredAt = cl_now s, ce_Metadata = metadata\<rparr>)"

definition Bootstrap ::
    "'w CodexPlusClientService \<Rightarrow> CodexPlusBootstrapInput \<Rightarrow> 'w \<Rightarrow> (client_error + CodexPlusBootstrapSnapshot) outcome \<times> 'w" where
  "Bootstrap s input w =
     (case read_user s w (bi_UserID input) of
        Inl e \<Rightarrow> (Returned (Inl e), w)
      | Inr user \<Rightarrow>
          (let (cfgErr, cfg) = read_config s w
           in case loadDevice s w (bi_UserID input) (bi_DeviceID input) of
                Panic \<Rightarrow> (Panic, w)
              | Returned device \<Rightarrow>
                  (let ent = resolveEntitlement s w user cfg; status0 = resolveServiceStatus cfgErr device ent
                   in case providerForStatus s w (bi_UserID input) status0 ent of
                        (Panic, w1) \<Rightarrow> (Panic, w1)
                      | (Returned (provider0, keyErr), w1) \<Rightarrow>
                          (let degraded = keyErr \<noteq> None \<and> canReturnProviderKey status0;
                               status = (if degraded then CGatewayUnhealthy else status0);
                               provider = (if degraded then provider0\<lparr>mp_APIKey := None, mp_DefaultModel := defaultModelID (ent_defaultModel ent)\<rparr>
                                 else provider0);
                               snapshot = snapshotFor s user cfg device ent status provider
                           in (Returned (Inr snapshot),
                               emit s ''bootstrap_requested'' (bi_UserID input) (ds_DeviceID device) (client_status_text status)
                                 [(''client_version'', bi_ClientVersion input),
                                  (''snapshot_version'', vp_SnapshotVersion (bs_VersionPolicy snapshot))]
                                 (bi_RequestID input) (ConfigVersion cfg) w1)))))"

text \<open>Usage is asked without a device, so a revoked device does not hide it.\<close>

definition usage ::
    "'w CodexPlusClientService \<Rightarrow> CodexPlusUsageInput \<Rightarrow> bool \<Rightarrow> 'w \<Rightarrow> (client_error + CodexPlusUsageSnapshot) \<times> 'w" where
  "usage s input emitEvent w =
     (case read_user s w (ui_UserID input) of
        Inl e \<Rightarrow> (Inl e, w)
      | Inr user \<Rightarrow>
          (let (cfgErr, cfg) = read_config s w; ent = resolveEntitlement s w user cfg;
               status = resolveServiceStatus cfgErr
                 \<lparr>ds_DeviceID = [], ds_Status = ''active'', ds_Message = [], ds_SnapshotVersion = []\<rparr> ent;
               shown = usageFor s user ent status;
               snapshot = \<lparr>uu_ServiceStatus = status, uu_BalanceDisplay = us_BalanceDisplay shown, uu_LowBalance = us_LowBalance shown,
                 uu_PeriodUsage = periodUsageSummary (ent_activeSub ent) (cl_now s), uu_RateLimitState = us_RateLimitState shown,
                 uu_RenewAction = us_RenewAction shown, uu_LastUpdatedAt = cl_now s,
                 uu_SnapshotVersion = snapshotVersion (client_status_text status) (cl_now s)\<rparr>
           in (Inr snapshot,
               if emitEvent
               then emit s ''usage_requested'' (ui_UserID input) (ui_DeviceID input) (client_status_text status)
                 [(''snapshot_version'', uu_SnapshotVersion snapshot)] (ui_RequestID input) (ConfigVersion cfg) w
               else w)))"

definition Usage :: "'w CodexPlusClientService \<Rightarrow> int \<Rightarrow> 'w \<Rightarrow> (client_error + CodexPlusUsageSnapshot) \<times> 'w" where
  "Usage s userID = usage s \<lparr>ui_UserID = userID, ui_DeviceID = [], ui_RequestID = []\<rparr> False"

definition ClientUsage :: "'w CodexPlusClientService \<Rightarrow> CodexPlusUsageInput \<Rightarrow> 'w \<Rightarrow> (client_error + CodexPlusUsageSnapshot) \<times> 'w" where
  "ClientUsage s input = usage s input True"

definition UpsertDevice ::
    "'w CodexPlusClientService \<Rightarrow> int \<Rightarrow> CodexPlusDeviceInput \<Rightarrow> 'w \<Rightarrow> (client_error + CodexPlusDeviceSnapshot) \<times> 'w" where
  "UpsertDevice s userID input w =
     (let deviceID = go_TrimSpace (di_DeviceID input);
          seenAt = (case di_LastSeenAt input of Some t \<Rightarrow> t | None \<Rightarrow> cl_now s);
          finish = (\<lambda>rec w1.
            (let out = deviceSnapshotFromRecord (Some rec) (snapshotVersion (dv_Status rec) (cl_now s))
             in (Inr out,
                 emit s ''device_registered'' userID (ds_DeviceID out) (ds_Status out)
                   [(''platform'', di_Platform input), (''app_version'', di_AppVersion input)] (di_RequestID input) [] w1)))
      in if deviceID = [] then (Inl ClientDeviceIDRequired, w)
         else case cl_devices s of
           None \<Rightarrow> finish \<lparr>dv_ID = 0, dv_UserID = userID, dv_DeviceID = deviceID, DeviceName = None, dv_Platform = None, AppVersion = None,
             FingerprintHash = None, dv_Status = ''active'', LastSeenAt = Some seenAt, RevokedAt = None, dv_Metadata = [],
             dv_CreatedAt = Some seenAt, dv_UpdatedAt = Some seenAt\<rparr> w
         | Some store \<Rightarrow>
             (case deviceUpsert store w \<lparr>du_UserID = userID, du_DeviceID = deviceID, du_DeviceName = None,
                du_Platform = codexPlusClientStringPtrIfNotBlank (di_Platform input),
                du_AppVersion = codexPlusClientStringPtrIfNotBlank (di_AppVersion input), du_FingerprintHash = None,
                du_Status = ''active'', du_LastSeenAt = Some seenAt,
                du_Metadata = [(''codex_version'', codexPlusClientNullableStringPtr (di_CodexVersion input))]\<rparr> of
                (Inl e, w1) \<Rightarrow> (Inl (UpsertDeviceFailed e), w1)
              | (Inr rec, w1) \<Rightarrow> finish rec w1))"

definition redeemDeltaSummary :: "RedeemCode option \<Rightarrow> string" where
  "redeemDeltaSummary code =
     (case code of
        None \<Rightarrow> ''Redeem applied.''
      | Some c \<Rightarrow>
          if rc_Type c = ''balance'' then formatCredits (rc_Value c) @ '' credits added.''
          else if rc_Type c = ''concurrency'' then formatCredits (rc_Value c) @ '' concurrency added.''
          else if rc_Type c = ''subscription'' then ''Subscription updated.''
          else ''Redeem applied.'')"

definition status_after :: "'w CodexPlusClientService \<Rightarrow> int \<Rightarrow> client_status \<Rightarrow> 'w \<Rightarrow> client_status" where
  "status_after s userID fallback w = (case fst (Usage s userID w) of Inr u \<Rightarrow> uu_ServiceStatus u | Inl _ \<Rightarrow> fallback)"

definition redeemErrorResult :: "'w CodexPlusClientService \<Rightarrow> int \<Rightarrow> redeem_failure \<Rightarrow> 'w \<Rightarrow> CodexPlusRedeemResult" where
  "redeemErrorResult s userID err w =
     (let (status, message) =
        (case err of
           CodeNotFound \<Rightarrow> (''invalid'', ''Redeem code is invalid.'')
         | CodeUsed \<Rightarrow> (''already_used'', ''Redeem code has already been used.'')
         | CodeExpired \<Rightarrow> (''expired'', ''Redeem code has expired.'')
         | RedeemFailed e \<Rightarrow> (''not_allowed'', ''Redeem code could not be applied.''));
        serviceStatus = status_after s userID CNotPurchased w
      in \<lparr>rr_RedeemStatus = status, rr_EntitlementDeltaSummary = [], rr_ServiceStatusAfter = serviceStatus,
          rr_SnapshotVersion = snapshotVersion (client_status_text serviceStatus) (cl_now s), rr_Message = message\<rparr>)"

definition RedeemClient ::
    "'w CodexPlusClientService \<Rightarrow> int \<Rightarrow> string \<Rightarrow> string option \<Rightarrow> string \<Rightarrow> 'w \<Rightarrow> (client_error + CodexPlusRedeemResult) \<times> 'w" where
  "RedeemClient s userID code0 deviceID requestID w =
     (let code = go_TrimSpace code0;
          finish = (\<lambda>result w1. (Inr result,
            emit s ''redeem_attempted'' userID (derefString deviceID) (rr_RedeemStatus result) [] requestID [] w1))
      in if code = [] then (Inl RedeemCodeRequired, w)
         else case cl_redeem s of
           None \<Rightarrow> (Inl RedeemUnavailable, w)
         | Some redeem \<Rightarrow>
             (case redeem w userID code of
                (Inl err, w1) \<Rightarrow> finish (redeemErrorResult s userID err w1) w1
              | (Inr redeemed, w1) \<Rightarrow>
                  (let statusAfter = status_after s userID CAvailable w1
                   in finish \<lparr>rr_RedeemStatus = ''applied'', rr_EntitlementDeltaSummary = redeemDeltaSummary redeemed,
                        rr_ServiceStatusAfter = statusAfter,
                        rr_SnapshotVersion = snapshotVersion (client_status_text statusAfter) (cl_now s),
                        rr_Message = ''Redeem code applied.''\<rparr> w1)))"

section \<open>What a key may be handed out for\<close>

lemma status_of_device:
  "ds_Status device = ''revoked'' \<or> ds_Status device = ''blocked'' \<Longrightarrow> resolveServiceStatus e device ent = CDeviceRevoked"
  by (simp add: resolveServiceStatus_def)

lemma no_key_when_revoked [simp]: "\<not> canReturnProviderKey CDeviceRevoked" "\<not> canReturnProviderKey CGatewayUnhealthy"
  by (simp_all add: canReturnProviderKey_def)

text \<open>A result of the operations on keys.\<close>

definition key_result :: "('k \<Rightarrow> bool) \<Rightarrow> 'e + 'k option \<Rightarrow> bool" where
  "key_result P r = (case r of Inr (Some k) \<Rightarrow> P k | _ \<Rightarrow> True)"

lemma key_result_simps [simp]:
  "key_result P (Inl e)" "key_result P (Inr r) = (case r of Some k \<Rightarrow> P k | None \<Rightarrow> True)"
  by (simp_all add: key_result_def split: option.splits)

text \<open>The contract of the key service: what it creates for a user belongs to the user.\<close>

definition creates_own :: "'w api_keys \<Rightarrow> bool" where
  "creates_own api \<longleftrightarrow> (\<forall>w user key w'. createKey api w user CodexPlusClientProviderName = (Inr key, w') \<longrightarrow> ck_UserID key = user)"

lemma found_by_name_own: "key_result (\<lambda>k. ck_UserID k = user) (findManagedAPIKeyByName api w user)"
  by (cases "listKeys api w user")
    (auto simp: findManagedAPIKeyByName_def key_result_def find_Some_iff split: option.splits)

lemma created_own: "creates_own api \<Longrightarrow> key_result (\<lambda>k. ck_UserID k = user) (fst (createManagedAPIKey api w user))"
  using found_by_name_own [of user api]
  by (auto simp: createManagedAPIKey_def creates_own_def split: prod.splits sum.splits key_error.splits)

lemma recorded_own: "key_result (\<lambda>k. ck_UserID k = user) (recorded_key api store w user)"
  by (auto simp: recorded_key_def split: sum.splits option.splits reader_error.splits key_error.splits)

lemma ensured_own:
  assumes "case cl_apiKeys s of Some api \<Rightarrow> creates_own api | None \<Rightarrow> True"
    and "ensureManagedAPIKey s w user c = (Returned r, w')"
  shows "key_result (\<lambda>k. ck_UserID k = user) r"
proof (cases "cl_apiKeys s")
  case None
  then show ?thesis using assms(2) by (auto simp: ensureManagedAPIKey_def)
next
  case (Some api)
  then have "creates_own api" using assms(1) by simp
  note own = created_own [OF this, of user w] found_by_name_own [of user api w]
  show ?thesis
  proof (cases "cl_managedKeys s")
    case None
    then show ?thesis using assms(2) Some own
      by (auto simp: ensureManagedAPIKey_def split: sum.splits option.splits if_splits prod.splits)
  next
    case (Some store)
    note def = assms(2) [unfolded ensureManagedAPIKey_def \<open>cl_apiKeys s = Some api\<close> Some option.case]
    show ?thesis
    proof (cases "recorded_key api store w user")
      case (Inr key)
      have "key_result (\<lambda>k. ck_UserID k = user) (Inr key :: provider_error + ClientKey option)"
        using recorded_own [of user api store w] unfolding Inr .
      then show ?thesis using def own
        by (cases key) (auto simp: Inr split: sum.splits option.splits if_splits prod.splits)
    next
      case (Inl e)
      with def have "r = Inl e" by simp
      then show ?thesis by simp
    qed
  qed
qed

end
