(* ===== verification/Codex_Client_Keys.thy ===== *)
theory Codex_Client_Keys
  imports Codex_Client
begin

text \<open>
  The client service on the tables of the program: the table and the service of API keys as the client
  uses them, the wiring, and what clients may rely on (who gets a key, which key, what a revocation does).
\<close>

section \<open>API keys (\<open>api_key_repo.go\<close>, \<open>api_key_service.go\<close>)\<close>

text \<open>The rows, each with whether it is deleted. Keys are unique over all rows.\<close>

record apikeys_db =
  ak_rows :: "(ClientKey \<times> bool) list"
  ak_next :: int
  ak_fault :: "string option"

definition apikey_active :: "apikeys_db \<Rightarrow> ClientKey list" where
  "apikey_active db = map fst (filter (\<lambda>row. \<not> snd row) (ak_rows db))"

definition apikey_Create :: "int \<Rightarrow> apikeys_db \<Rightarrow> ClientKey \<Rightarrow> (key_error + ClientKey) \<times> apikeys_db" where
  "apikey_Create now db key =
     (case ak_fault db of
        Some e \<Rightarrow> (Inl (KeyFailed e), db)
      | None \<Rightarrow>
          if ck_Key key \<in> set (map (ck_Key \<circ> fst) (ak_rows db)) then (Inl KeyExists, db)
          else (let created = key\<lparr>ck_ID := ak_next db, ck_CreatedAt := now\<rparr>
                in (Inr created, db\<lparr>ak_rows := ak_rows db @ [(created, False)], ak_next := ak_next db + 1\<rparr>)))"

definition apikey_GetByID :: "apikeys_db \<Rightarrow> int \<Rightarrow> key_error + ClientKey" where
  "apikey_GetByID db i =
     (case ak_fault db of
        Some e \<Rightarrow> Inl (KeyFailed e)
      | None \<Rightarrow>
          (case filter (\<lambda>k. ck_ID k = i) (apikey_active db) of
             [] \<Rightarrow> Inl KeyNotFound
           | [k] \<Rightarrow> Inr k
           | _ \<Rightarrow> Inl (KeyFailed ''ent: api_key not singular'')))"

text \<open>The first page of the keys of a user without filters, the newest first.\<close>

definition apikey_ListByUserID :: "apikeys_db \<Rightarrow> int \<Rightarrow> nat \<Rightarrow> key_error + ClientKey list" where
  "apikey_ListByUserID db user limit =
     (case ak_fault db of
        Some e \<Rightarrow> Inl (KeyFailed e)
      | None \<Rightarrow> Inr (take limit (sort_key (\<lambda>k. - ck_CreatedAt k) (sort_key (\<lambda>k. - ck_ID k)
          (filter (\<lambda>k. ck_UserID k = user) (apikey_active db))))))"

definition html_EscapeString :: "string \<Rightarrow> string" where
  "html_EscapeString s = concat (map (\<lambda>c.
     if c = CHR ''&'' then ''&amp;'' else if c = CHR 0x27 then ''&#39;'' else if c = CHR ''<'' then ''&lt;''
     else if c = CHR ''>'' then ''&gt;'' else if c = CHR 0x22 then ''&#34;'' else [c]) s)"

text \<open>\<open>crypto/rand\<close> with \<open>hex.EncodeToString\<close> is a parameter: the digits, or an error.\<close>

definition GenerateKey :: "string \<Rightarrow> string + string \<Rightarrow> string + string" where
  "GenerateKey prefix random = map_sum (\<lambda>e. ''generate random bytes: '' @ e) (\<lambda>hex. (if prefix = [] then ''sk-'' else prefix) @ hex) random"

section \<open>The wiring of the program (\<open>wire.go\<close>)\<close>

text \<open>The tables of Codex++ and what else the collaborators change.\<close>

record 'a codex_tables =
  ct_devices :: devices_db
  ct_keys :: keys_db
  ct_events :: events_db
  ct_apiKeys :: apikeys_db
  ct_rest :: 'a

text \<open>\<open>APIKeyService.Create\<close> for a request that has only a name: no IP lists, group, own key, quota or expiry.\<close>

definition APIKeyService_Create ::
    "int \<Rightarrow> string \<Rightarrow> ('a codex_tables \<Rightarrow> string + string) \<Rightarrow> ('a codex_tables \<Rightarrow> int \<Rightarrow> string + ClientUser option) \<Rightarrow>
     'a codex_tables \<Rightarrow> int \<Rightarrow> string \<Rightarrow> (key_error + ClientKey) \<times> 'a codex_tables" where
  "APIKeyService_Create now prefix random users w userID name =
     (case users w userID of
        Inl e \<Rightarrow> (Inl (KeyFailed (''get user: '' @ e)), w)
      | Inr _ \<Rightarrow>
          (case GenerateKey prefix (random w) of
             Inl e \<Rightarrow> (Inl (KeyFailed (''generate key: '' @ e)), w)
           | Inr key \<Rightarrow>
               (case apikey_Create now (ct_apiKeys w) \<lparr>ck_ID = 0, ck_UserID = userID, ck_Key = key,
                  ck_Name = html_EscapeString name, ck_CreatedAt = 0, ck_LastUsedAt = None\<rparr> of
                  (out, db) \<Rightarrow> (out, w\<lparr>ct_apiKeys := db\<rparr>))))"

definition APIKeyService ::
    "int \<Rightarrow> string \<Rightarrow> ('a codex_tables \<Rightarrow> string + string) \<Rightarrow> ('a codex_tables \<Rightarrow> int \<Rightarrow> string + ClientUser option) \<Rightarrow>
     'a codex_tables api_keys" where
  "APIKeyService now prefix random users =
     \<lparr>createKey = APIKeyService_Create now prefix random users,
      keyByID = (\<lambda>w i. map_sum (\<lambda>e. e) Some (apikey_GetByID (ct_apiKeys w) i)),
      listKeys = (\<lambda>w user. apikey_ListByUserID (ct_apiKeys w) user 100)\<rparr>"

definition table_devices :: "json_column \<Rightarrow> int \<Rightarrow> 'a codex_tables device_store" where
  "table_devices json now =
     \<lparr>deviceGet = (\<lambda>w. table_reader (ct_devices w)),
      deviceUpsert = (\<lambda>w input. case device_Upsert json now (ct_devices w) input of (out, db) \<Rightarrow> (out, w\<lparr>ct_devices := db\<rparr>))\<rparr>"

definition table_keys :: "int \<Rightarrow> 'a codex_tables managed_store" where
  "table_keys now =
     \<lparr>managedGet = (\<lambda>w user provider. map_sum ReaderError (\<lambda>k. k) (managed_GetByUserAndProvider (ct_keys w) user provider)),
      managedUpsert = (\<lambda>w input. case managed_Upsert now (ct_keys w) input of (out, db) \<Rightarrow> (out, w\<lparr>ct_keys := db\<rparr>))\<rparr>"

definition client_event_create :: "CodexPlusClientEvent \<Rightarrow> CodexPlusEventCreate" where
  "client_event_create event =
     \<lparr>ec_UserID = (if 0 < ce_UserID event then Some (ce_UserID event) else None),
      ec_DeviceID = (if go_TrimSpace (ce_DeviceID event) = [] then None else Some (go_TrimSpace (ce_DeviceID event))),
      ec_EventType = ce_Type event, ec_Severity = ''info'', ec_RequestID = stringPtrIfNotBlank (ce_RequestID event),
      ec_ConfigVersion = stringPtrIfNotBlank (ce_ConfigVersion event),
      ec_Payload = fold (\<lambda>(key, v). AList.update key (VString v)) (ce_Metadata event)
        [(''status'', VString (ce_Status event)), (''occurred_at'', VString (go_RFC3339 (ce_OccurredAt event)))]\<rparr>"

text \<open>\<open>codexPlusClientEventSink.Record\<close>; the caller drops its error.\<close>

definition codexPlusClientEventSink_Record :: "json_column \<Rightarrow> int \<Rightarrow> 'a codex_tables \<Rightarrow> CodexPlusClientEvent \<Rightarrow> 'a codex_tables" where
  "codexPlusClientEventSink_Record json now w event =
     w\<lparr>ct_events := snd (event_Append json now (ct_events w) (client_event_create event))\<rparr>"

definition NewCodexPlusClientService ::
    "int \<Rightarrow> ('w \<Rightarrow> string + CodexPlusConfig option) \<Rightarrow> ('w \<Rightarrow> int \<Rightarrow> string + ClientUser option) \<Rightarrow>
     ('w \<Rightarrow> int \<Rightarrow> string + ClientSubscription list) \<times> ('w \<Rightarrow> int \<Rightarrow> string + ClientSubscription list) \<Rightarrow>
     'w api_keys \<Rightarrow> ('w \<Rightarrow> int \<Rightarrow> string \<Rightarrow> (redeem_failure + RedeemCode option) \<times> 'w) \<Rightarrow> 'w CodexPlusClientService" where
  "NewCodexPlusClientService now config users subs api redeem =
     \<lparr>cl_config = Some config, cl_users = Some users, cl_subscriptions = Some subs, cl_apiKeys = Some api, cl_redeem = Some redeem,
      cl_devices = None, cl_managedKeys = None, cl_events = None,
      cl_gatewayBaseURL = ''https://api.codex-plus.example/v1'', cl_supportBaseURL = ''https://codex-plus.example'',
      cl_minClientVersion = ''0.1.0'', cl_now = now\<rparr>"

definition ProvideCodexPlusClientService ::
    "json_column \<Rightarrow> int \<Rightarrow> ('a codex_tables \<Rightarrow> string + CodexPlusConfig option) \<Rightarrow> ('a codex_tables \<Rightarrow> int \<Rightarrow> string + ClientUser option) \<Rightarrow>
     ('a codex_tables \<Rightarrow> int \<Rightarrow> string + ClientSubscription list) \<times> ('a codex_tables \<Rightarrow> int \<Rightarrow> string + ClientSubscription list) \<Rightarrow>
     'a codex_tables api_keys \<Rightarrow> ('a codex_tables \<Rightarrow> int \<Rightarrow> string \<Rightarrow> (redeem_failure + RedeemCode option) \<times> 'a codex_tables) \<Rightarrow>
     'a codex_tables CodexPlusClientService" where
  "ProvideCodexPlusClientService json now config users subs api redeem =
     SetEventSink (Some (codexPlusClientEventSink_Record json now))
       (SetManagedProviderKeyStore (Some (table_keys now))
         (SetDeviceStore (Some (table_devices json now)) (NewCodexPlusClientService now config users subs api redeem)))"

section \<open>The contract of the key service and of the records\<close>

definition own_key :: "'w api_keys \<Rightarrow> 'w \<Rightarrow> int \<Rightarrow> ClientKey \<Rightarrow> bool" where
  "own_key api w user key \<longleftrightarrow> ck_UserID key = user \<and> 0 < ck_ID key \<and> keyByID api w (ck_ID key) = Inr (Some key)"

text \<open>What the client relies on: a key that was created or is listed belongs to the user and is found by its
  id; an operation that fails changes nothing.\<close>

locale key_manager =
  fixes api :: "'w api_keys" and wf :: "'w \<Rightarrow> bool"
  assumes created: "\<lbrakk>wf w; createKey api w user name = (Inr key, w')\<rbrakk> \<Longrightarrow>
      wf w' \<and> ck_UserID key = user \<and> 0 < ck_ID key \<and> keyByID api w' (ck_ID key) = Inr (Some key)"
    and refused: "createKey api w user name = (Inl e, w') \<Longrightarrow> w' = w"
    and listed: "\<lbrakk>wf w; listKeys api w user = Inr keys; k \<in> set keys\<rbrakk> \<Longrightarrow>
      ck_UserID k = user \<and> 0 < ck_ID k \<and> keyByID api w (ck_ID k) = Inr (Some k)"
begin

lemma found_own:
  assumes "wf w" and "findManagedAPIKeyByName api w user = Inr (Some key)"
  shows "own_key api w user key"
proof -
  from assms(2) obtain keys where "listKeys api w user = Inr keys" "key \<in> set keys"
    by (cases "listKeys api w user") (auto simp: findManagedAPIKeyByName_def dest: find_SomeD)
  with listed [OF assms(1)] show ?thesis by (simp add: own_key_def)
qed

lemma managed_created:
  assumes "wf w" and "createManagedAPIKey api w user = (Inr (Some key), w')"
  shows "wf w' \<and> own_key api w' user key"
proof (cases "createKey api w user CodexPlusClientProviderName")
  case (Pair out w1)
  show ?thesis
  proof (cases out)
    case (Inl e)
    then have "w1 = w" using Pair refused by blast
    with assms Inl Pair found_own show ?thesis
      by (cases e) (auto simp: createManagedAPIKey_def)
  next
    case (Inr k)
    then show ?thesis using assms Pair created [OF assms(1)]
      by (auto simp: createManagedAPIKey_def own_key_def)
  qed
qed

end

text \<open>A record that was stored is found, and storing it does not touch the keys.\<close>

locale managed_keys = key_manager api wf for api :: "'w api_keys" and wf +
  fixes store :: "'w managed_store"
  assumes stored: "managedUpsert store w input = (Inr rec, w') \<Longrightarrow> wf w' = wf w \<and> keyByID api w' i = keyByID api w i"
    and stored_get: "\<lbrakk>managedUpsert store w input = (Inr rec, w'); mu_ManagedProviderID input \<noteq> []\<rbrakk> \<Longrightarrow>
      \<exists>found. managedGet store w' (mu_UserID input) (mu_ManagedProviderID input) = Inr (Some found) \<and>
        mk_APIKeyID found = mu_APIKeyID input"
begin

text \<open>After a key was handed out, the record of the user names this key.\<close>

lemma ensured_recorded:
  assumes "cl_apiKeys s = Some api" and "cl_managedKeys s = Some store" and "wf w"
    and "ensureManagedAPIKey s w user c = (Returned (Inr (Some key)), w')"
  shows "recorded_key api store w' user = Inr (Some key) \<and> ck_UserID key = user"
proof (cases "recorded_key api store w user")
  case (Inr r)
  show ?thesis
  proof (cases r)
    case (Some k)
    then have "k = key" "w' = w" using assms(1,2,4) Inr by (simp_all add: ensureManagedAPIKey_def)
    with Some Inr recorded_own [of user api store w] show ?thesis by simp
  next
    case None
    then obtain w1 rec where create: "createManagedAPIKey api w user = (Inr (Some key), w1)"
        and store: "managedUpsert store w1 (key_record user key) = (Inr rec, w')"
      using assms(1,2,4) Inr
      by (auto simp: ensureManagedAPIKey_def split: if_splits prod.splits sum.splits option.splits)
    from managed_created [OF assms(3) create] have own: "own_key api w1 user key" by simp
    obtain found where "managedGet store w' user CodexPlusManagedProviderID = Inr (Some found)" "mk_APIKeyID found = ck_ID key"
      using stored_get [OF store] by (auto simp: key_record_def CodexPlusManagedProviderID_def)
    with own stored [OF store] show ?thesis by (simp add: recorded_key_def own_key_def)
  qed
next
  case (Inl e)
  then show ?thesis using assms(1,2,4) by (simp add: ensureManagedAPIKey_def)
qed

lemma recorded_ensured:
  assumes "cl_apiKeys s = Some api" and "cl_managedKeys s = Some store"
    and "recorded_key api store w user = Inr (Some key)"
  shows "ensureManagedAPIKey s w user c = (Returned (Inr (Some key)), w)"
  using assms by (simp add: ensureManagedAPIKey_def)

end

text \<open>The table: ids are positive, distinct and below the next one.\<close>

definition apikeys_wf :: "apikeys_db \<Rightarrow> bool" where
  "apikeys_wf db \<longleftrightarrow> distinct (map (ck_ID \<circ> fst) (ak_rows db)) \<and> 0 < ak_next db \<and>
     (\<forall>row \<in> set (ak_rows db). 0 < ck_ID (fst row) \<and> ck_ID (fst row) < ak_next db)"

lemma filter_unique_id:
  assumes "distinct (map f xs)" and "x \<in> set xs"
  shows "filter (\<lambda>y. f y = f x) xs = [x]"
  using assms
proof (induction xs)
  case (Cons y ys)
  show ?case
  proof (cases "x = y")
    case True
    with Cons.prems(1) have "filter (\<lambda>z. f z = f x) ys = []" by (auto simp: filter_empty_conv image_iff)
    with True show ?thesis by simp
  next
    case False
    with Cons show ?thesis by auto
  qed
qed simp

lemma active_ids: "apikeys_wf db \<Longrightarrow> distinct (map ck_ID (apikey_active db))"
  by (auto simp: apikeys_wf_def apikey_active_def comp_def intro: distinct_map_filter)

lemma GetByID_active:
  assumes "apikeys_wf db" and "k \<in> set (apikey_active db)" and "ak_fault db = None"
  shows "apikey_GetByID db (ck_ID k) = Inr k"
  using filter_unique_id [OF active_ids [OF assms(1)] assms(2)] assms(3) by (simp add: apikey_GetByID_def)

lemma Create_created:
  assumes "apikeys_wf db" and "apikey_Create now db key = (Inr created, db')"
  shows "apikeys_wf db' \<and> ak_fault db' = None \<and> created \<in> set (apikey_active db') \<and> 0 < ck_ID created \<and>
    ck_UserID created = ck_UserID key"
proof -
  from assms(2) have ok: "ak_fault db = None" "created = key\<lparr>ck_ID := ak_next db, ck_CreatedAt := now\<rparr>"
      "db' = db\<lparr>ak_rows := ak_rows db @ [(created, False)], ak_next := ak_next db + 1\<rparr>"
    by (auto simp: apikey_Create_def Let_def split: option.splits if_splits)
  with assms(1) show ?thesis by (auto simp: apikeys_wf_def apikey_active_def)
qed

lemma find_map_update:
  assumes "\<And>x. P x \<Longrightarrow> P (f x)"
  shows "find P (map (\<lambda>x. if P x then f x else x) xs) = map_option f (find P xs)"
  using assms by (induction xs) auto

lemma find_after_none: "find P xs = None \<Longrightarrow> find P (xs @ [x]) = (if P x then Some x else None)"
  by (induction xs) (auto split: if_splits)

lemma managed_upsert_get:
  assumes "managed_Upsert now db input = (Inr rec, db')" and "mu_ManagedProviderID input \<noteq> []"
  shows "\<exists>found. managed_GetByUserAndProvider db' (mu_UserID input) (mu_ManagedProviderID input) = Inr (Some found) \<and>
    mk_APIKeyID found = mu_APIKeyID input"
proof -
  let ?P = "key_of (mu_UserID input) (mu_ManagedProviderID input)"
  have ok: "kr_fault db = None" using assms(1) by (auto simp: managed_Upsert_def Let_def split: option.splits)
  show ?thesis
  proof (cases "find ?P (kr_rows db)")
    case None
    then show ?thesis using ok assms find_after_none [OF None]
      by (auto simp: managed_Upsert_def Let_def or_default_def managed_GetByUserAndProvider_def key_of_def)
  next
    case (Some old)
    let ?f = "\<lambda>k. \<lparr>mk_ID = mk_ID k, mk_UserID = mu_UserID input, mk_APIKeyID = mu_APIKeyID input,
      mk_ManagedProviderID = mu_ManagedProviderID input, mk_DisplayName = or_default (mu_DisplayName input) ''Codex++ Cloud'',
      mk_KeyPrefix = mu_KeyPrefix input, mk_Status = or_default (mu_Status input) ''active'', mk_LastUsedAt = mk_LastUsedAt k,
      mk_CreatedAt = mk_CreatedAt k, mk_UpdatedAt = Some now\<rparr>"
    have provider: "or_default (mu_ManagedProviderID input) CodexPlusManagedProviderID = mu_ManagedProviderID input"
      using assms(2) by (simp add: or_default_def)
    have "db' = db\<lparr>kr_rows := map (\<lambda>k. if ?P k then ?f k else k) (kr_rows db)\<rparr>"
      using assms(1) Some ok by (simp add: managed_Upsert_def Let_def provider cong: if_cong)
    moreover have "find ?P (map (\<lambda>k. if ?P k then ?f k else k) (kr_rows db)) = map_option ?f (find ?P (kr_rows db))"
      by (rule find_map_update) (simp add: key_of_def)
    ultimately show ?thesis using Some ok by (simp add: managed_GetByUserAndProvider_def provider)
  qed
qed

interpretation client_keys: managed_keys "APIKeyService now prefix random users" "\<lambda>w. apikeys_wf (ct_apiKeys w)" "table_keys now'"
proof (unfold_locales, goal_cases)
  case (1 w user name key w')
  then obtain hex db where create: "apikey_Create now (ct_apiKeys w) \<lparr>ck_ID = 0, ck_UserID = user, ck_Key = hex,
        ck_Name = html_EscapeString name, ck_CreatedAt = 0, ck_LastUsedAt = None\<rparr> = (Inr key, db)"
      and w': "w' = w\<lparr>ct_apiKeys := db\<rparr>"
    by (auto simp: APIKeyService_def APIKeyService_Create_def split: sum.splits prod.splits)
  from Create_created [OF 1(1) create] w' show ?case
    by (simp add: APIKeyService_def GetByID_active)
next
  case (2 w user name e w')
  then show ?case
    by (auto simp: APIKeyService_def APIKeyService_Create_def apikey_Create_def Let_def
        split: sum.splits prod.splits option.splits if_splits)
next
  case (3 w user keys k)
  then have "ak_fault (ct_apiKeys w) = None" "k \<in> set (apikey_active (ct_apiKeys w))" "ck_UserID k = user"
    by (auto simp: APIKeyService_def apikey_ListByUserID_def dest!: in_set_takeD split: option.splits)
  moreover from this(2) 3(1) have "0 < ck_ID k" by (auto simp: apikeys_wf_def apikey_active_def)
  ultimately show ?case using 3(1) by (simp add: APIKeyService_def GetByID_active)
next
  case (4 w input rec w' i)
  then show ?case by (auto simp: table_keys_def APIKeyService_def split: prod.splits)
next
  case (5 w input rec w')
  then obtain db where "managed_Upsert now' (ct_keys w) input = (Inr rec, db)" "w' = w\<lparr>ct_keys := db\<rparr>"
    by (auto simp: table_keys_def split: prod.splits)
  with managed_upsert_get [OF this(1) 5(2)] show ?case by (auto simp: table_keys_def)
qed

section \<open>A bootstrap\<close>

lemma service_state_status [simp]: "ss_Status (serviceStateForStatus status base ent) = client_status_text status"
  by (cases status) (simp_all add: serviceStateForStatus_def Let_def)

lemma client_status_text_inj: "client_status_text a = client_status_text b \<longleftrightarrow> a = b"
  by (cases a; cases b) simp_all

lemma snapshot_fields [simp]:
  "bs_Service (snapshotFor s user cfg device ent status provider) = serviceStateForStatus status (cl_supportBaseURL s) ent"
  "bs_Provider (snapshotFor s user cfg device ent status provider) = provider"
  "bs_Plan (snapshotFor s user cfg device ent status provider) = planFor s ent status"
  "bs_Models (snapshotFor s user cfg device ent status provider) = modelsFor cfg ent status"
  "bs_Usage (snapshotFor s user cfg device ent status provider) = usageFor s user ent status"
  "ds_Status (bs_Device (snapshotFor s user cfg device ent status provider)) = ds_Status device"
  by (simp_all add: snapshotFor_def Let_def)

definition base_status :: "'w CodexPlusClientService \<Rightarrow> 'w \<Rightarrow> ClientUser option \<Rightarrow> CodexPlusDeviceSnapshot \<Rightarrow> client_status" where
  "base_status s w user device =
     resolveServiceStatus (fst (read_config s w)) device (resolveEntitlement s w user (snd (read_config s w)))"

definition shown_status :: "client_status \<Rightarrow> provider_error option \<Rightarrow> client_status" where
  "shown_status status keyErr = (if keyErr \<noteq> None \<and> canReturnProviderKey status then CGatewayUnhealthy else status)"

definition shown_provider ::
    "client_status \<Rightarrow> provider_error option \<Rightarrow> codexPlusEntitlement \<Rightarrow> CodexPlusManagedProvider \<Rightarrow> CodexPlusManagedProvider" where
  "shown_provider status keyErr ent provider =
     (if keyErr \<noteq> None \<and> canReturnProviderKey status
      then provider\<lparr>mp_APIKey := None, mp_DefaultModel := defaultModelID (ent_defaultModel ent)\<rparr> else provider)"

abbreviation used_config :: "'w CodexPlusClientService \<Rightarrow> 'w \<Rightarrow> CodexPlusConfig" where
  "used_config s w \<equiv> snd (read_config s w)"

abbreviation used_entitlement :: "'w CodexPlusClientService \<Rightarrow> 'w \<Rightarrow> ClientUser option \<Rightarrow> codexPlusEntitlement" where
  "used_entitlement s w user \<equiv> resolveEntitlement s w user (used_config s w)"

lemma Bootstrap_eq:
  assumes "read_user s w (bi_UserID input) = Inr user"
    and "loadDevice s w (bi_UserID input) (bi_DeviceID input) = Returned device"
    and "providerForStatus s w (bi_UserID input) (base_status s w user device) (used_entitlement s w user) =
      (Returned (provider, keyErr), w1)"
  shows "fst (Bootstrap s input w) = Returned (Inr (snapshotFor s user (used_config s w) device (used_entitlement s w user)
      (shown_status (base_status s w user device) keyErr)
      (shown_provider (base_status s w user device) keyErr (used_entitlement s w user) provider)))"
    and "\<exists>a b c d e f g. snd (Bootstrap s input w) = emit s a b c d e f g w1"
proof -
  obtain cfgErr cfg where c: "read_config s w = (cfgErr, cfg)" by fastforce
  let ?ent = "resolveEntitlement s w user cfg" and ?st = "base_status s w user device"
  have st: "resolveServiceStatus cfgErr device ?ent = ?st" by (simp add: base_status_def c)
  have p: "providerForStatus s w (bi_UserID input) ?st ?ent = (Returned (provider, keyErr), w1)" using assms(3) c by simp
  show "fst (Bootstrap s input w) = Returned (Inr (snapshotFor s user (used_config s w) device (used_entitlement s w user)
      (shown_status ?st keyErr) (shown_provider ?st keyErr (used_entitlement s w user) provider)))"
    by (simp add: Bootstrap_def assms(1,2) c st p Let_def shown_status_def shown_provider_def)
  show "\<exists>a b c d e f g. snd (Bootstrap s input w) = emit s a b c d e f g w1"
    by (simp add: Bootstrap_def assms(1,2) c st p Let_def) blast
qed

lemma Bootstrap_Inr:
  assumes "Bootstrap s input w = (Returned (Inr snap), w')"
  obtains user device provider keyErr w1 where
    "read_user s w (bi_UserID input) = Inr user"
    "loadDevice s w (bi_UserID input) (bi_DeviceID input) = Returned device"
    "providerForStatus s w (bi_UserID input) (base_status s w user device) (used_entitlement s w user) =
      (Returned (provider, keyErr), w1)"
    "snap = snapshotFor s user (used_config s w) device (used_entitlement s w user)
      (shown_status (base_status s w user device) keyErr)
      (shown_provider (base_status s w user device) keyErr (used_entitlement s w user) provider)"
    "\<exists>a b c d e f g. w' = emit s a b c d e f g w1"
proof -
  obtain cfgErr cfg where c: "read_config s w = (cfgErr, cfg)" by fastforce
  obtain user where u: "read_user s w (bi_UserID input) = Inr user"
    using assms by (cases "read_user s w (bi_UserID input)") (simp_all add: Bootstrap_def)
  obtain device where d: "loadDevice s w (bi_UserID input) (bi_DeviceID input) = Returned device"
    using assms u c by (cases "loadDevice s w (bi_UserID input) (bi_DeviceID input)") (simp_all add: Bootstrap_def)
  have st: "resolveServiceStatus cfgErr device (resolveEntitlement s w user cfg) = base_status s w user device"
    by (simp add: base_status_def c)
  obtain out w1 where o: "providerForStatus s w (bi_UserID input) (base_status s w user device) (used_entitlement s w user) = (out, w1)"
    by fastforce
  obtain provider keyErr where p: "out = Returned (provider, keyErr)"
    using assms u c d o st by (cases out) (auto simp: Bootstrap_def Let_def)
  note eqs = Bootstrap_eq [OF u d o [unfolded p]]
  show ?thesis
    by (rule that [OF u d o [unfolded p]]) (use eqs assms in simp_all)
qed

lemma provider_key:
  assumes "providerForStatus s w user status ent = (Returned (provider, keyErr), w1)" and "mp_APIKey provider = Some k"
  shows "\<exists>key. ensureManagedAPIKey s w user True = (Returned (Inr (Some key)), w1) \<and> ck_Key key = k \<and>
    canReturnProviderKey status \<and> mp_KeySummary provider = key_summary_of key \<and> keyErr = None"
  using assms
  by (cases "ensureManagedAPIKey s w user (canReturnProviderKey status)")
    (auto simp: providerForStatus_def Let_def split: outcome.splits sum.splits option.splits if_splits)

lemma bootstrap_key:
  assumes "Bootstrap s input w = (Returned (Inr snap), w')" and "mp_APIKey (bs_Provider snap) = Some k"
  obtains key w1 status where
    "ensureManagedAPIKey s w (bi_UserID input) True = (Returned (Inr (Some key)), w1)"
    "ck_Key key = k" "mp_KeySummary (bs_Provider snap) = key_summary_of key"
    "canReturnProviderKey status" "ss_Status (bs_Service snap) = client_status_text status"
    "ds_Status (bs_Device snap) \<noteq> ''revoked''" "ds_Status (bs_Device snap) \<noteq> ''blocked''"
    "\<exists>a b c d e f g. w' = emit s a b c d e f g w1"
proof (rule Bootstrap_Inr [OF assms(1)])
  fix user device provider keyErr w1
  let ?st = "base_status s w user device" and ?ent = "used_entitlement s w user"
  assume prov: "providerForStatus s w (bi_UserID input) ?st ?ent = (Returned (provider, keyErr), w1)"
    and snap: "snap = snapshotFor s user (used_config s w) device ?ent (shown_status ?st keyErr) (shown_provider ?st keyErr ?ent provider)"
    and w': "\<exists>a b c d e f g. w' = emit s a b c d e f g w1"
  from assms(2) snap have "mp_APIKey provider = Some k" by (simp add: shown_provider_def split: if_splits)
  from provider_key [OF prov this] obtain key where key: "ensureManagedAPIKey s w (bi_UserID input) True = (Returned (Inr (Some key)), w1)"
      "ck_Key key = k" "canReturnProviderKey ?st" "mp_KeySummary provider = key_summary_of key" "keyErr = None"
    by blast
  have "ds_Status device \<noteq> ''revoked'' \<and> ds_Status device \<noteq> ''blocked''"
    using key(3) status_of_device [of device] no_key_when_revoked(1) unfolding base_status_def by metis
  then show thesis
    using that [OF key(1,2) _ key(3) _ _ _ w'] snap key(4,5) by (simp add: shown_status_def shown_provider_def)
qed

lemma emit_tables [simp]:
  assumes "s = ProvideCodexPlusClientService json now config users subs api redeem"
  shows "ct_apiKeys (emit s a b c d e f g w) = ct_apiKeys w" "ct_keys (emit s a b c d e f g w) = ct_keys w"
    "ct_devices (emit s a b c d e f g w) = ct_devices w"
  using assms by (simp_all add: emit_def ProvideCodexPlusClientService_def codexPlusClientEventSink_Record_def)

lemma wired_fields [simp]:
  "cl_users (ProvideCodexPlusClientService json now config users subs api redeem) = Some users"
  "cl_config (ProvideCodexPlusClientService json now config users subs api redeem) = Some config"
  "cl_apiKeys (ProvideCodexPlusClientService json now config users subs api redeem) = Some api"
  "cl_managedKeys (ProvideCodexPlusClientService json now config users subs api redeem) = Some (table_keys now)"
  "cl_devices (ProvideCodexPlusClientService json now config users subs api redeem) = Some (table_devices json now)"
  "cl_now (ProvideCodexPlusClientService json now config users subs api redeem) = now"
  by (simp_all add: ProvideCodexPlusClientService_def NewCodexPlusClientService_def)

lemma wired_user [simp]:
  "read_user (ProvideCodexPlusClientService json now config users subs api redeem) w userID = map_sum GetUserFailed (\<lambda>u. u) (users w userID)"
  by (simp add: read_user_def validateReady_def)

text \<open>The service with the key service of the program.\<close>

abbreviation wired ::
    "json_column \<Rightarrow> int \<Rightarrow> string \<Rightarrow> ('a codex_tables \<Rightarrow> string + string) \<Rightarrow> ('a codex_tables \<Rightarrow> string + CodexPlusConfig option) \<Rightarrow>
     ('a codex_tables \<Rightarrow> int \<Rightarrow> string + ClientUser option) \<Rightarrow>
     ('a codex_tables \<Rightarrow> int \<Rightarrow> string + ClientSubscription list) \<times> ('a codex_tables \<Rightarrow> int \<Rightarrow> string + ClientSubscription list) \<Rightarrow>
     ('a codex_tables \<Rightarrow> int \<Rightarrow> string \<Rightarrow> (redeem_failure + RedeemCode option) \<times> 'a codex_tables) \<Rightarrow>
     'a codex_tables CodexPlusClientService" where
  "wired json now prefix random config users subs redeem \<equiv>
     ProvideCodexPlusClientService json now config users subs (APIKeyService now prefix random users) redeem"

lemma APIKeyService_creates_own: "creates_own (APIKeyService now prefix random users)"
  by (auto simp: creates_own_def APIKeyService_def APIKeyService_Create_def apikey_Create_def Let_def
      split: sum.splits prod.splits option.splits if_splits)

lemma recorded_key_tables:
  assumes "ct_apiKeys w' = ct_apiKeys w" and "ct_keys w' = ct_keys w"
  shows "recorded_key (APIKeyService now1 p1 r1 u1) (table_keys now1') w' user =
    recorded_key (APIKeyService now2 p2 r2 u2) (table_keys now2') w user"
proof -
  have "keyByID (APIKeyService now1 p1 r1 u1) w' = keyByID (APIKeyService now2 p2 r2 u2) w"
    "managedGet (table_keys now1') w' = managedGet (table_keys now2') w"
    using assms by (simp_all add: APIKeyService_def table_keys_def fun_eq_iff)
  then show ?thesis unfolding recorded_key_def by (simp only:)
qed



lemma device_of_table:
  assumes "go_TrimSpace deviceID \<noteq> []"
  shows "loadDevice (ProvideCodexPlusClientService json now config users subs api redeem) w user deviceID =
    (case dr_fault (ct_devices w) of
       Some e \<Rightarrow> Returned (unknown_device (go_TrimSpace deviceID) ''Device state temporarily unavailable.'' ''gateway_unhealthy'' now)
     | None \<Rightarrow> (case find_device (ct_devices w) user (go_TrimSpace deviceID) of
         None \<Rightarrow> Panic
       | Some d \<Rightarrow> Returned (deviceSnapshotFromRecord (Some d) (snapshotVersion (dv_Status d) now))))"
  using assms
  by (simp add: loadDevice_def Let_def table_devices_def table_reader_def device_GetByUserAndDevice_def split: option.splits)

lemma revoke_named:
  assumes "RevokeUserDevice s db action = (Inr ad, db1, events)"
  shows "go_TrimSpace (ai_DeviceID action) \<noteq> []"
  using assms
  by (auto simp: RevokeUserDevice_def set_user_device_def Let_def validateCodexPlusAdminDeviceAction_def split: option.splits if_splits)

lemma ensure_without_creating:
  assumes "cl_apiKeys s = Some api" and "cl_managedKeys s = Some store"
  shows "\<exists>r. ensureManagedAPIKey s w user False = (Returned r, w)"
  using assms by (simp add: ensureManagedAPIKey_def split: sum.splits option.splits)

lemma provider_without_key:
  assumes "cl_apiKeys s = Some api" and "cl_managedKeys s = Some store" and "\<not> canReturnProviderKey status"
  obtains provider keyErr where "providerForStatus s w user status ent = (Returned (provider, keyErr), w)" "mp_APIKey provider = None"
proof -
  from ensure_without_creating [OF assms(1,2)]
  obtain r where "ensureManagedAPIKey s w user False = (Returned r, w)" by blast
  with assms(3) that show ?thesis
    by (cases r; cases "projr r") (auto simp: providerForStatus_def Let_def split: option.splits)
qed

text \<open>
  C9: the client of a revoked device gets nothing. When an administrator has revoked a device, then whatever
  is registered and administered afterwards except its restoration, a bootstrap of this device answers that
  the device is revoked, shows no key and no models, and neither creates nor records a key. This needs a
  table of devices that can be read.
\<close>

theorem revoked_device_gets_nothing:
  assumes "RevokeUserDevice s db action = (Inr ad, db1, events)"
    and "list_all (no_restore (ai_UserID action) (go_TrimSpace (ai_DeviceID action))) ops"
    and "dr_rows (ct_devices w) = dr_rows (fold (run_op json) ops db1)" and "dr_fault (ct_devices w) = None"
    and "bi_UserID input = ai_UserID action" and "go_TrimSpace (bi_DeviceID input) = go_TrimSpace (ai_DeviceID action)"
    and "users w (ai_UserID action) = Inr user"
  shows "\<exists>snap w'. Bootstrap (wired json' now prefix random config users subs redeem) input w = (Returned (Inr snap), w') \<and>
    ss_Status (bs_Service snap) = ''device_revoked'' \<and> mp_APIKey (bs_Provider snap) = None \<and> bs_Models snap = [] \<and>
    ct_apiKeys w' = ct_apiKeys w \<and> ct_keys w' = ct_keys w"
proof -
  let ?s = "wired json' now prefix random config users subs redeem" and ?id = "go_TrimSpace (bi_DeviceID input)"
  let ?cfg = "snd (read_config ?s w)"
  let ?ent = "resolveEntitlement ?s w user ?cfg"
  have "has_status (fold (run_op json) ops db1) (bi_UserID input) ?id ''revoked''"
    unfolding assms(5,6) by (rule run_ops_revoked [OF revoke_sets [OF assms(1)] assms(2)])
  then obtain d where d: "find_device (ct_devices w) (bi_UserID input) ?id = Some d" "dv_Status d = ''revoked''"
    using assms(3) by (auto simp: has_status_def find_device_def)
  have id: "?id \<noteq> []"
    using revoke_named [OF assms(1)] assms(6) by simp
  have "go_TrimSpace ''revoked'' = ''revoked''" by (simp add: literal_trim)
  then have dev: "\<exists>device. loadDevice ?s w (bi_UserID input) (bi_DeviceID input) = Returned device \<and> ds_Status device = ''revoked''"
    using d assms(4) by (simp add: device_of_table [OF id] deviceSnapshotFromRecord_def Let_def)
  then obtain device where device: "loadDevice ?s w (bi_UserID input) (bi_DeviceID input) = Returned device" "ds_Status device = ''revoked''"
    by blast
  then have st: "resolveServiceStatus cfgErr device ent = CDeviceRevoked" for cfgErr ent by (simp add: status_of_device)
  obtain cfgErr cfg where cfg: "read_config ?s w = (cfgErr, cfg)" by fastforce
  obtain provider keyErr where p: "providerForStatus ?s w (bi_UserID input) CDeviceRevoked ?ent = (Returned (provider, keyErr), w)"
      "mp_APIKey provider = None"
    by (rule provider_without_key [of ?s _ _ CDeviceRevoked w "bi_UserID input" ?ent]) simp_all
  show ?thesis
    using device(1) assms(5,7) p cfg by (simp add: Bootstrap_def st modelsFor_def Let_def)
qed

lemma Bootstrap_same_status:
  assumes "Bootstrap s input w = (Returned (Inr snap), w')"
    and "loadDevice s w (bi_UserID input) (bi_DeviceID input) = Returned device"
    and "loadDevice s w (bi_UserID input) d0 = Returned device0" and "ds_Status device0 = ds_Status device"
  shows "\<exists>snap0 w0. Bootstrap s (input\<lparr>bi_DeviceID := d0\<rparr>) w = (Returned (Inr snap0), w0) \<and>
    bs_Service snap = bs_Service snap0 \<and> bs_Provider snap = bs_Provider snap0 \<and> bs_Plan snap = bs_Plan snap0 \<and>
    bs_Models snap = bs_Models snap0 \<and> bs_Usage snap = bs_Usage snap0"
proof (rule Bootstrap_Inr [OF assms(1)])
  fix user dev provider keyErr w1
  let ?st = "base_status s w user device" and ?ent = "used_entitlement s w user"
  assume u: "read_user s w (bi_UserID input) = Inr user"
    and d: "loadDevice s w (bi_UserID input) (bi_DeviceID input) = Returned dev"
    and prov: "providerForStatus s w (bi_UserID input) (base_status s w user dev) ?ent = (Returned (provider, keyErr), w1)"
    and snap: "snap = snapshotFor s user (used_config s w) dev ?ent (shown_status (base_status s w user dev) keyErr)
      (shown_provider (base_status s w user dev) keyErr ?ent provider)"
  from d assms(2) have dev: "dev = device" by simp
  have st: "base_status s w user device0 = ?st" by (simp add: base_status_def resolveServiceStatus_def assms(4))
  have prov0: "providerForStatus s w (bi_UserID input) (base_status s w user device0) ?ent = (Returned (provider, keyErr), w1)"
    using prov by (simp add: st dev)
  obtain snap0 w0 where r: "Bootstrap s (input\<lparr>bi_DeviceID := d0\<rparr>) w = (snap0, w0)" by fastforce
  from Bootstrap_eq(1) [of s w "input\<lparr>bi_DeviceID := d0\<rparr>" user device0] u assms(3) prov0 r
  have "snap0 = Returned (Inr (snapshotFor s user (used_config s w) device0 ?ent (shown_status ?st keyErr)
      (shown_provider ?st keyErr ?ent provider)))"
    by (simp add: st)
  then show ?thesis unfolding r snap dev by simp
qed

text \<open>
  C30: a table of devices that cannot be read opens the service. The answer to a bootstrap is then the
  answer without any device: the same status, key, plan, models and usage, so that a revoked device is
  given a key again.
\<close>

theorem unreadable_devices_admitted:
  assumes "dr_fault (ct_devices w) = Some e"
    and "Bootstrap (wired json now prefix random config users subs redeem) input w = (Returned (Inr snap), w')"
  shows "\<exists>snap0 w0. Bootstrap (wired json now prefix random config users subs redeem) (input\<lparr>bi_DeviceID := []\<rparr>) w = (Returned (Inr snap0), w0) \<and>
    bs_Service snap = bs_Service snap0 \<and> bs_Provider snap = bs_Provider snap0 \<and> bs_Plan snap = bs_Plan snap0 \<and>
    bs_Models snap = bs_Models snap0 \<and> bs_Usage snap = bs_Usage snap0"
proof -
  let ?s = "wired json now prefix random config users subs redeem"
  have none: "loadDevice ?s w user d = Returned (unknown_device [] ''Device not registered.'' ''unknown'' now)"
    if "go_TrimSpace d = []" for user d
    using that by (simp add: loadDevice_def)
  have "\<exists>device. loadDevice ?s w (bi_UserID input) (bi_DeviceID input) = Returned device \<and> ds_Status device = ''unknown''"
    using assms(1) none by (cases "go_TrimSpace (bi_DeviceID input) = []") (simp_all add: device_of_table unknown_device_def)
  then obtain device where device: "loadDevice ?s w (bi_UserID input) (bi_DeviceID input) = Returned device"
      "ds_Status device = ''unknown''"
    by blast
  show ?thesis
    by (rule Bootstrap_same_status [OF assms(2) device(1) none]) (simp_all add: device(2) unknown_device_def)
qed

lemma fresh_key_created:
  assumes "\<forall>key. GenerateKey prefix (random w) = Inr key \<longrightarrow> key \<notin> set (map (ck_Key \<circ> fst) (ak_rows (ct_apiKeys w)))"
  shows "fst (createManagedAPIKey (APIKeyService now prefix random users) w user) \<noteq> Inr None"
  using assms
  by (auto simp: createManagedAPIKey_def APIKeyService_def APIKeyService_Create_def apikey_Create_def Let_def
      split: sum.splits option.splits prod.splits key_error.splits if_splits)

lemma provider_no_panic:
  assumes "cl_apiKeys s = Some api" and "cl_managedKeys s = Some store"
    and "fst (createManagedAPIKey api w user) \<noteq> Inr None"
  shows "fst (providerForStatus s w user status ent) \<noteq> Panic"
proof -
  have "fst (ensureManagedAPIKey s w user c) \<noteq> Panic" for c
    using assms by (auto simp: ensureManagedAPIKey_def split: sum.splits option.splits prod.splits if_splits)
  from this [of "canReturnProviderKey status"] show ?thesis
    by (cases "ensureManagedAPIKey s w user (canReturnProviderKey status)")
      (auto simp: providerForStatus_def Let_def split: outcome.splits sum.splits option.splits if_splits)
qed

lemma Bootstrap_Panic_iff:
  assumes "read_user s w (bi_UserID input) = Inr user"
    and "\<And>status ent. fst (providerForStatus s w (bi_UserID input) status ent) \<noteq> Panic"
  shows "fst (Bootstrap s input w) = Panic \<longleftrightarrow> loadDevice s w (bi_UserID input) (bi_DeviceID input) = Panic"
proof (cases "loadDevice s w (bi_UserID input) (bi_DeviceID input)")
  case Panic
  then show ?thesis by (simp add: Bootstrap_def assms(1) split: prod.split)
next
  case (Returned device)
  obtain out w1 where o: "providerForStatus s w (bi_UserID input) (base_status s w user device) (used_entitlement s w user) = (out, w1)"
    by fastforce
  with assms(2) [of "base_status s w user device" "used_entitlement s w user"]
  obtain provider keyErr where "out = Returned (provider, keyErr)" by (cases out) auto
  from Bootstrap_eq(1) [OF assms(1) Returned o [unfolded this]] Returned show ?thesis by simp
qed

lemma bootstrap_aborts:
  assumes "users w (bi_UserID input) = Inr user"
    and "\<forall>key. GenerateKey prefix (random w) = Inr key \<longrightarrow> key \<notin> set (map (ck_Key \<circ> fst) (ak_rows (ct_apiKeys w)))"
  shows "fst (Bootstrap (wired json now prefix random config users subs redeem) input w) = Panic \<longleftrightarrow>
    go_TrimSpace (bi_DeviceID input) \<noteq> [] \<and> dr_fault (ct_devices w) = None \<and>
    find_device (ct_devices w) (bi_UserID input) (go_TrimSpace (bi_DeviceID input)) = None"
proof -
  let ?s = "wired json now prefix random config users subs redeem"
  have "fst (providerForStatus ?s w (bi_UserID input) status ent) \<noteq> Panic" for status ent
    by (rule provider_no_panic [OF _ _ fresh_key_created [where random = random, OF assms(2)]]) simp_all
  then have "fst (Bootstrap ?s input w) = Panic \<longleftrightarrow> loadDevice ?s w (bi_UserID input) (bi_DeviceID input) = Panic"
    using Bootstrap_Panic_iff [of ?s w input user] assms(1) by simp
  moreover have "loadDevice ?s w (bi_UserID input) (bi_DeviceID input) \<noteq> Panic" if "go_TrimSpace (bi_DeviceID input) = []"
    using that by (simp add: loadDevice_def)
  ultimately show ?thesis
    by (cases "go_TrimSpace (bi_DeviceID input) = []") (auto simp: device_of_table split: option.splits)
qed

text \<open>
  C29: a bootstrap aborts exactly for a device that is not registered. While random keys are fresh, it reads
  a nil pointer if and only if it names a device of which the table, which can be read, has no row.
\<close>

theorem bootstrap_aborts_iff:
  assumes "users w (bi_UserID input) = Inr user"
    and "\<forall>key. GenerateKey prefix (random w) = Inr key \<longrightarrow> key \<notin> set (map (ck_Key \<circ> fst) (ak_rows (ct_apiKeys w)))"
  shows "fst (Bootstrap (wired json now prefix random config users subs redeem) input w) = Panic \<longleftrightarrow>
    go_TrimSpace (bi_DeviceID input) \<noteq> [] \<and> dr_fault (ct_devices w) = None \<and>
    find_device (ct_devices w) (bi_UserID input) (go_TrimSpace (bi_DeviceID input)) = None"
  by (rule bootstrap_aborts [where users = users and random = random, OF assms])

lemma Bootstrap_outcome:
  assumes "read_user s w (bi_UserID input) = Inr user" and "fst (Bootstrap s input w) \<noteq> Panic"
  shows "\<exists>snap w'. Bootstrap s input w = (Returned (Inr snap), w')"
proof -
  obtain device where d: "loadDevice s w (bi_UserID input) (bi_DeviceID input) = Returned device"
    using assms by (cases "loadDevice s w (bi_UserID input) (bi_DeviceID input)") (auto simp: Bootstrap_def split: prod.splits)
  obtain out w1 where o: "providerForStatus s w (bi_UserID input) (base_status s w user device) (used_entitlement s w user) = (out, w1)"
    by fastforce
  obtain cfgErr cfg where c: "read_config s w = (cfgErr, cfg)" by fastforce
  have "resolveServiceStatus cfgErr device (resolveEntitlement s w user cfg) = base_status s w user device"
    by (simp add: base_status_def c)
  then obtain provider keyErr where "out = Returned (provider, keyErr)"
    using assms d o c by (cases out) (auto simp: Bootstrap_def Let_def)
  from Bootstrap_eq(1) [OF assms(1) d o [unfolded this]] show ?thesis
    by (cases "Bootstrap s input w") auto
qed

lemma UpsertDevice_registers:
  assumes "UpsertDevice (ProvideCodexPlusClientService json now config users subs api redeem) user din w = (Inr ds, w1)"
  shows "\<exists>d. find_device (ct_devices w1) user (go_TrimSpace (di_DeviceID din)) = Some d" and "dr_fault (ct_devices w1) = None"
    and "ct_apiKeys w1 = ct_apiKeys w"
proof -
  let ?s = "ProvideCodexPlusClientService json now config users subs api redeem"
  from assms obtain upsert rec db a b c d e f g where up: "device_Upsert json now (ct_devices w) upsert = (Inr rec, db)"
      and key: "du_UserID upsert = user" "du_DeviceID upsert = go_TrimSpace (di_DeviceID din)"
      and w1: "w1 = emit ?s a b c d e f g (w\<lparr>ct_devices := db\<rparr>)"
    by (auto simp: UpsertDevice_def Let_def table_devices_def split: if_splits sum.splits prod.splits)
  have tables: "ct_devices w1 = db" "ct_apiKeys w1 = ct_apiKeys w" by (simp_all add: w1)
  from Upsert_found(1) [OF up, of user "go_TrimSpace (di_DeviceID din)"] key tables(1)
  show "\<exists>d. find_device (ct_devices w1) user (go_TrimSpace (di_DeviceID din)) = Some d" by simp
  from up have "dr_fault db = None"
    by (auto simp: device_Upsert_def Let_def change_device_fault split: sum.splits option.splits)
  with tables(1) show "dr_fault (ct_devices w1) = None" by simp
  from tables(2) show "ct_apiKeys w1 = ct_apiKeys w" .
qed

text \<open>
  a device that was registered can start. After a registration that succeeded, a bootstrap of the same
  user and device returns a snapshot, whatever status the device has.
\<close>

theorem registered_device_starts:
  assumes "UpsertDevice (wired json now prefix random config users subs redeem) (bi_UserID input) din w = (Inr ds, w1)"
    and "go_TrimSpace (di_DeviceID din) = go_TrimSpace (bi_DeviceID input)"
    and "users w1 (bi_UserID input) = Inr user"
    and "\<forall>key. GenerateKey prefix (random w1) = Inr key \<longrightarrow> key \<notin> set (map (ck_Key \<circ> fst) (ak_rows (ct_apiKeys w)))"
  shows "\<exists>snap w2. Bootstrap (wired json now prefix random config users subs redeem) input w1 = (Returned (Inr snap), w2)"
proof (rule Bootstrap_outcome)
  show "read_user (wired json now prefix random config users subs redeem) w1 (bi_UserID input) = Inr user" using assms(3) by simp
  have "\<exists>d. find_device (ct_devices w1) (bi_UserID input) (go_TrimSpace (bi_DeviceID input)) = Some d"
    using UpsertDevice_registers(1) [OF assms(1)] by (simp add: assms(2))
  then show "fst (Bootstrap (wired json now prefix random config users subs redeem) input w1) \<noteq> Panic"
    using bootstrap_aborts [where users = users and random = random and prefix = prefix and w = w1 and input = input and user = user] assms(3,4) UpsertDevice_registers(3) [OF assms(1)] by auto
qed

section \<open>A run\<close>

text \<open>A user with a balance and a group of the only plan, which has no policy, in a world without models.\<close>

definition demo_user :: ClientUser where
  "demo_user = \<lparr>u_ID = 7, cu_Balance = Fin 5, cu_AllowedGroups = [1]\<rparr>"

definition demo_plan :: CodexPlusPlan where
  "demo_plan = (hd (Plans DefaultPlanCatalog))
     \<lparr>EntitlementSources := \<lparr>SubscriptionGroupIDs = [1], APIKeyGroupIDs = [], GroupNames = []\<rparr>, UsagePolicyID := [], pl_Status := []\<rparr>"

definition demo_config :: CodexPlusConfig where
  "demo_config = sample_config
     \<lparr>PlanCatalog := document_meta.extend sample_meta (CodexPlusPlanCatalog.fields [demo_plan])\<rparr>"

definition demo_service :: "unit codex_tables CodexPlusClientService" where
  "demo_service = wired Inr 100 [] (\<lambda>_. Inr ''00ff'') (\<lambda>_. Inr (Some demo_config)) (\<lambda>_ _. Inr (Some demo_user))
     (\<lambda>_ _. Inr [], \<lambda>_ _. Inr []) (\<lambda>w _ _. (Inr None, w))"

definition demo_world :: "unit codex_tables" where
  "demo_world = \<lparr>ct_devices = \<lparr>dr_rows = [], dr_next = 1, dr_fault = None\<rparr>, ct_keys = \<lparr>kr_rows = [], kr_next = 1, kr_fault = None\<rparr>,
     ct_events = \<lparr>er_rows = [], er_next = 1, er_fault = None\<rparr>, ct_apiKeys = \<lparr>ak_rows = [], ak_next = 1, ak_fault = None\<rparr>,
     ct_rest = ()\<rparr>"

definition demo_input :: CodexPlusBootstrapInput where
  "demo_input = \<lparr>bi_UserID = 7, bi_DeviceID = [], bi_ClientVersion = ''1'', bi_RequestID = ''r''\<rparr>"

lemma demo_config_lists: "plans_of demo_config = [demo_plan]" "models_of demo_config = []"
  by (simp_all add: demo_config_def sample_config_def sample_meta_def document_meta.defs CodexPlusConfig.defs
      CodexPlusPlanCatalog.defs CodexPlusModelCatalog.defs)

lemma demo_entitlement:
  "resolveEntitlement demo_service w (Some demo_user) demo_config = no_entitlement\<lparr>ent_plan := Some demo_plan, ent_active := True\<rparr>"
proof -
  have "isCodexPlusPlanEnabled []" by code_simp
  then have "codexPlusClientPlanForUserGroups demo_config demo_user = Some demo_plan"
    by (simp add: codexPlusClientPlanForUserGroups_def demo_config_lists demo_user_def demo_plan_def containsCodexPlusInt64_def)
  moreover have "subscriptions_of demo_service w u = ([], [])" for u
    by (simp add: subscriptions_of_def demo_service_def ProvideCodexPlusClientService_def NewCodexPlusClientService_def)
  moreover have "codexPlusClientUsagePolicyForPlan demo_config demo_plan = None"
    by (simp add: codexPlusClientUsagePolicyForPlan_def demo_plan_def)
  moreover have "codexPlusClientDefaultModelForPlan demo_config demo_plan = None"
    by (simp add: codexPlusClientDefaultModelForPlan_def demo_config_lists)
  ultimately show ?thesis
    by (simp add: resolveEntitlement_def no_entitlement_def demo_user_def less_f64_def)
qed

lemma demo_at:
  assumes "loadDevice demo_service w 7 d = Returned device" and "ds_Status device = ''unknown''"
    and "ensureManagedAPIKey demo_service w 7 True = (Returned (Inr (Some key)), w1)"
  shows "\<exists>snap w'. Bootstrap demo_service (demo_input\<lparr>bi_DeviceID := d\<rparr>) w = (Returned (Inr snap), w') \<and>
    mp_APIKey (bs_Provider snap) = Some (ck_Key key) \<and> ct_apiKeys w' = ct_apiKeys w1 \<and> ct_keys w' = ct_keys w1"
proof -
  have cfg: "read_config demo_service w = (False, demo_config)" by (simp add: read_config_def demo_service_def)
  have user: "read_user demo_service w 7 = Inr (Some demo_user)" by (simp add: demo_service_def)
  have st: "base_status demo_service w (Some demo_user) device = CModelUnavailable"
    using assms(2) by (simp add: base_status_def cfg demo_entitlement resolveServiceStatus_def no_entitlement_def)
  have may: "canReturnProviderKey CModelUnavailable" by (simp add: canReturnProviderKey_def)
  obtain provider where p: "providerForStatus demo_service w 7 CModelUnavailable (used_entitlement demo_service w (Some demo_user)) =
      (Returned (provider, None), w1)" "mp_APIKey provider = Some (ck_Key key)"
    using assms(3) may by (simp add: providerForStatus_def Let_def)
  obtain out w' where r: "Bootstrap demo_service (demo_input\<lparr>bi_DeviceID := d\<rparr>) w = (out, w')" by fastforce
  from Bootstrap_eq [of demo_service w "demo_input\<lparr>bi_DeviceID := d\<rparr>" "Some demo_user" device provider None w1]
  have "out = Returned (Inr (snapshotFor demo_service (Some demo_user) demo_config device (used_entitlement demo_service w (Some demo_user))
        CModelUnavailable provider))" "\<exists>a b c d e f g. w' = emit demo_service a b c d e f g w1"
    using user assms(1) p(1) cfg r by (simp_all add: demo_input_def st shown_status_def shown_provider_def)
  with p(2) r show ?thesis by (auto simp: demo_service_def)
qed

lemma demo_unknown: "loadDevice demo_service w 7 [] = Returned (unknown_device [] ''Device not registered.'' ''unknown'' 100)"
  by (simp add: loadDevice_def demo_service_def)

lemma demo_ensure:
  assumes "ct_keys w = ct_keys demo_world" and "ct_apiKeys w = ct_apiKeys demo_world"
  shows "\<exists>key w1. ensureManagedAPIKey demo_service w 7 True = (Returned (Inr (Some key)), w1) \<and> ck_Key key = ''sk-00ff''"
  using assms
  by (simp add: ensureManagedAPIKey_def demo_service_def demo_world_def recorded_key_def table_keys_def managed_GetByUserAndProvider_def
      createManagedAPIKey_def APIKeyService_def APIKeyService_Create_def GenerateKey_def apikey_Create_def managed_Upsert_def Let_def)

lemma demo_first:
  obtains snap w' where "Bootstrap demo_service demo_input demo_world = (Returned (Inr snap), w')"
    "mp_APIKey (bs_Provider snap) = Some ''sk-00ff''"
proof -
  obtain key w1 where "ensureManagedAPIKey demo_service demo_world 7 True = (Returned (Inr (Some key)), w1)" "ck_Key key = ''sk-00ff''"
    using demo_ensure by blast
  from demo_at [OF demo_unknown _ this(1)] this(2) show ?thesis using that by (auto simp: unknown_device_def demo_input_def)
qed


lemma demo_again:
  assumes "recorded_key (APIKeyService 100 [] (\<lambda>_. Inr ''00ff'') (\<lambda>_ _. Inr (Some demo_user))) (table_keys 100) w 7 = Inr (Some key)"
  shows "\<exists>snap w'. Bootstrap demo_service demo_input w = (Returned (Inr snap), w') \<and> mp_APIKey (bs_Provider snap) = Some (ck_Key key)"
proof -
  have "ensureManagedAPIKey demo_service w 7 True = (Returned (Inr (Some key)), w)"
    by (rule client_keys.recorded_ensured [OF _ _ assms]) (simp_all add: demo_service_def)
  from demo_at [OF demo_unknown _ this] show ?thesis by (auto simp: unknown_device_def demo_input_def)
qed


lemma demo_revoked:
  obtains ad db events where "RevokeUserDevice sample_admin sample_devices sample_action = (Inr ad, db, events)" "dr_fault db = None"
proof -
  obtain ad db events where r: "RevokeUserDevice sample_admin sample_devices sample_action = (Inr ad, db, events)"
    using sample_revoke by (cases "RevokeUserDevice sample_admin sample_devices sample_action") auto
  moreover have "dr_fault db = None"
    using r by (auto simp: RevokeUserDevice_def set_user_device_def device_SetStatus_def Let_def sample_devices_def change_device_def
        split: option.splits sum.splits prod.splits if_splits)
  ultimately show ?thesis using that by blast
qed

theorem revoked_device_gets_nothing_witness:
  "\<exists>snap w'. Bootstrap demo_service (demo_input\<lparr>bi_DeviceID := ''laptop''\<rparr>)
      (demo_world\<lparr>ct_devices := fst (snd (RevokeUserDevice sample_admin sample_devices sample_action))\<rparr>) = (Returned (Inr snap), w') \<and>
    mp_APIKey (bs_Provider snap) = None"
proof (rule demo_revoked)
  fix ad db events
  assume r: "RevokeUserDevice sample_admin sample_devices sample_action = (Inr ad, db, events)" "dr_fault db = None"
  have "\<exists>snap w'. Bootstrap demo_service (demo_input\<lparr>bi_DeviceID := ''laptop''\<rparr>) (demo_world\<lparr>ct_devices := db\<rparr>) = (Returned (Inr snap), w') \<and>
    ss_Status (bs_Service snap) = ''device_revoked'' \<and> mp_APIKey (bs_Provider snap) = None \<and> bs_Models snap = [] \<and>
    ct_apiKeys w' = ct_apiKeys (demo_world\<lparr>ct_devices := db\<rparr>) \<and> ct_keys w' = ct_keys (demo_world\<lparr>ct_devices := db\<rparr>)"
    unfolding demo_service_def
    by (rule revoked_device_gets_nothing [OF r(1), where ops = "[]" and json = Inr])
      (simp_all add: r(2) demo_input_def sample_action_def)
  then show ?thesis using r(1) by auto
qed

theorem unreadable_devices_admitted_witness:
  "\<exists>snap w' snap0 w0. Bootstrap demo_service (demo_input\<lparr>bi_DeviceID := ''laptop''\<rparr>)
      (demo_world\<lparr>ct_devices := (fst (snd (RevokeUserDevice sample_admin sample_devices sample_action)))\<lparr>dr_fault := Some ''down''\<rparr>\<rparr>) =
      (Returned (Inr snap), w') \<and> mp_APIKey (bs_Provider snap) = Some ''sk-00ff'' \<and>
    Bootstrap demo_service (demo_input\<lparr>bi_DeviceID := []\<rparr>)
      (demo_world\<lparr>ct_devices := (fst (snd (RevokeUserDevice sample_admin sample_devices sample_action)))\<lparr>dr_fault := Some ''down''\<rparr>\<rparr>) =
      (Returned (Inr snap0), w0) \<and> bs_Provider snap = bs_Provider snap0"
proof -
  let ?w = "demo_world\<lparr>ct_devices := (fst (snd (RevokeUserDevice sample_admin sample_devices sample_action)))\<lparr>dr_fault := Some ''down''\<rparr>\<rparr>"
  have "go_TrimSpace ''laptop'' = ''laptop''" by (simp add: literal_trim)
  then obtain device where d: "loadDevice demo_service ?w 7 ''laptop'' = Returned device" "ds_Status device = ''unknown''"
    by (simp add: demo_service_def device_of_table unknown_device_def)
  obtain key v where e: "ensureManagedAPIKey demo_service ?w 7 True = (Returned (Inr (Some key)), v)" "ck_Key key = ''sk-00ff''"
    using demo_ensure [of ?w] by auto
  from demo_at [OF d e(1)] e(2) obtain snap w' where
    b: "Bootstrap demo_service (demo_input\<lparr>bi_DeviceID := ''laptop''\<rparr>) ?w = (Returned (Inr snap), w')"
      "mp_APIKey (bs_Provider snap) = Some ''sk-00ff''" by auto
  from unreadable_devices_admitted [OF _ b(1) [unfolded demo_service_def], of "''down''"]
  have "\<exists>snap0 w0. Bootstrap demo_service (demo_input\<lparr>bi_DeviceID := []\<rparr>) ?w = (Returned (Inr snap0), w0) \<and>
      bs_Provider snap = bs_Provider snap0"
    unfolding demo_service_def by auto
  with b show ?thesis by blast
qed

theorem bootstrap_aborts_iff_witness:
  "fst (Bootstrap demo_service (demo_input\<lparr>bi_DeviceID := ''laptop''\<rparr>) demo_world) = Panic"
proof -
  have "go_TrimSpace ''laptop'' = ''laptop''" by (simp add: literal_trim)
  then show ?thesis
    unfolding demo_service_def
    by (subst bootstrap_aborts_iff) (simp_all add: demo_world_def find_device_def)
qed

theorem registered_device_starts_witness:
  "\<exists>ds w1 snap w2. UpsertDevice demo_service 7 \<lparr>di_DeviceID = ''laptop'', di_Platform = ''mac'', di_AppVersion = [], di_CodexVersion = None,
      di_LastSeenAt = None, di_RequestID = []\<rparr> demo_world = (Inr ds, w1) \<and>
    Bootstrap demo_service (demo_input\<lparr>bi_DeviceID := ''laptop''\<rparr>) w1 = (Returned (Inr snap), w2)"
proof -
  let ?din = "\<lparr>di_DeviceID = ''laptop'', di_Platform = ''mac'', di_AppVersion = [], di_CodexVersion = None,
      di_LastSeenAt = None, di_RequestID = []\<rparr>"
  have "go_TrimSpace ''laptop'' = ''laptop''" by (simp add: literal_trim)
  then obtain ds w1 where u: "UpsertDevice demo_service 7 ?din demo_world = (Inr ds, w1)"
    by (simp add: UpsertDevice_def demo_service_def table_devices_def device_Upsert_def demo_world_def find_device_def Let_def)
  have "\<exists>snap w2. Bootstrap demo_service (demo_input\<lparr>bi_DeviceID := ''laptop''\<rparr>) w1 = (Returned (Inr snap), w2)"
    unfolding demo_service_def
    by (rule registered_device_starts [where din = ?din and w = demo_world and ds = ds])
      (use u in \<open>simp_all add: demo_service_def demo_input_def demo_world_def\<close>)
  then show ?thesis using u by blast
qed

end
