(* ===== verification/Idempotency_Store.thy ===== *)
theory Idempotency_Store
  imports Codex_Audit Interaction
begin

text \<open>
  The table of idempotent requests (\<open>repository/idempotency_repo.go\<close> on the schema of
  \<open>migrations/057_add_idempotency_records.sql\<close>), the keys, fingerprints and stored responses of
  \<open>service/idempotency.go\<close>, and the redaction of a stored response (\<open>util/logredact\<close>).

  Times are nanoseconds since the epoch; the database and the program read the same clock.
\<close>

section \<open>Errors\<close>

text \<open>\<open>pkg/errors\<close>: an application error without the cause it wraps, and any other error by its text.\<close>

record ApplicationError =
  ae_Code :: int
  ae_Reason :: string
  ae_Message :: string
  ae_Metadata :: "(string \<times> string) list option"

datatype go_error = AppError ApplicationError | PlainError string

definition NewError :: "int \<Rightarrow> string \<Rightarrow> string \<Rightarrow> ApplicationError" where
  "NewError code reason message =
     \<lparr>ae_Code = code, ae_Reason = reason, ae_Message = message, ae_Metadata = None\<rparr>"

definition WithMetadata :: "ApplicationError \<Rightarrow> (string \<times> string) list \<Rightarrow> ApplicationError" where
  "WithMetadata e md = e\<lparr>ae_Metadata := Some md\<rparr>"

definition FromError :: "go_error \<Rightarrow> ApplicationError" where
  "FromError e = (case e of AppError a \<Rightarrow> a | PlainError t \<Rightarrow> NewError 500 [] ''internal error'')"

definition ErrorReason :: "go_error \<Rightarrow> string" where
  "ErrorReason e = ae_Reason (FromError e)"

definition ErrorCode :: "go_error \<Rightarrow> int" where
  "ErrorCode e = ae_Code (FromError e)"

definition ErrIdempotencyKeyRequired :: ApplicationError where
  "ErrIdempotencyKeyRequired = NewError 400 ''IDEMPOTENCY_KEY_REQUIRED'' ''idempotency key is required''"

definition ErrIdempotencyKeyInvalid :: ApplicationError where
  "ErrIdempotencyKeyInvalid = NewError 400 ''IDEMPOTENCY_KEY_INVALID'' ''idempotency key is invalid''"

definition ErrIdempotencyKeyConflict :: ApplicationError where
  "ErrIdempotencyKeyConflict = NewError 409 ''IDEMPOTENCY_KEY_CONFLICT'' ''idempotency key reused with different payload''"

definition ErrIdempotencyInProgress :: ApplicationError where
  "ErrIdempotencyInProgress = NewError 409 ''IDEMPOTENCY_IN_PROGRESS'' ''idempotent request is still processing''"

definition ErrIdempotencyRetryBackoff :: ApplicationError where
  "ErrIdempotencyRetryBackoff = NewError 409 ''IDEMPOTENCY_RETRY_BACKOFF'' ''idempotent request is in retry backoff window''"

definition ErrIdempotencyStoreUnavail :: ApplicationError where
  "ErrIdempotencyStoreUnavail = NewError 503 ''IDEMPOTENCY_STORE_UNAVAILABLE'' ''idempotency store unavailable''"

definition ErrIdempotencyInvalidPayload :: ApplicationError where
  "ErrIdempotencyInvalidPayload = NewError 400 ''IDEMPOTENCY_PAYLOAD_INVALID'' ''failed to normalize request payload''"

named_theorems idem_errors \<open>the application errors of idempotent requests\<close>

lemmas [idem_errors] = NewError_def ErrIdempotencyKeyRequired_def ErrIdempotencyKeyInvalid_def
  ErrIdempotencyKeyConflict_def ErrIdempotencyInProgress_def ErrIdempotencyRetryBackoff_def
  ErrIdempotencyStoreUnavail_def ErrIdempotencyInvalidPayload_def

section \<open>Records\<close>

abbreviation IdempotencyStatusProcessing :: string where "IdempotencyStatusProcessing \<equiv> ''processing''"
abbreviation IdempotencyStatusSucceeded :: string where "IdempotencyStatusSucceeded \<equiv> ''succeeded''"
abbreviation IdempotencyStatusFailedRetryable :: string where "IdempotencyStatusFailedRetryable \<equiv> ''failed_retryable''"

record IdempotencyRecord =
  ir_ID :: int
  ir_Scope :: string
  ir_IdempotencyKeyHash :: string
  ir_RequestFingerprint :: string
  ir_Status :: string
  ir_ResponseStatus :: "int option"
  ir_ResponseBody :: "string option"
  ir_ErrorReason :: "string option"
  ir_LockedUntil :: "int option"
  ir_ExpiresAt :: int
  ir_CreatedAt :: int
  ir_UpdatedAt :: int

text \<open>The table and the next value of the sequence of its ids.\<close>

record idem_db =
  db_rows :: "IdempotencyRecord list"
  db_next :: int

definition find_record :: "string \<Rightarrow> string \<Rightarrow> idem_db \<Rightarrow> IdempotencyRecord option" where
  "find_record scope keyHash db =
     find (\<lambda>r. ir_Scope r = scope \<and> ir_IdempotencyKeyHash r = keyHash) (db_rows db)"

text \<open>A \<open>VARCHAR(n)\<close> column: at most \<open>n\<close> characters, counted by the bytes that start one.\<close>

definition fits_column :: "nat \<Rightarrow> string \<Rightarrow> bool" where
  "fits_column n s \<longleftrightarrow> length (filter (\<lambda>c. byte c < 128 \<or> 192 \<le> byte c) s) \<le> n"

text \<open>
  The statements. Each is given the time at which it runs; \<open>None\<close> is a value the schema refuses.
  The row is inserted unless its scope and key hash exist already.
\<close>

definition insert_processing :: "int \<Rightarrow> IdempotencyRecord \<Rightarrow> idem_db \<Rightarrow> (idem_db \<times> int option) option" where
  "insert_processing now r db =
     (if \<not> (fits_column 128 (ir_Scope r) \<and> fits_column 64 (ir_IdempotencyKeyHash r) \<and>
            fits_column 64 (ir_RequestFingerprint r) \<and> fits_column 32 (ir_Status r)) then None
      else if find_record (ir_Scope r) (ir_IdempotencyKeyHash r) db \<noteq> None then Some (db, None)
      else Some (\<lparr>db_rows = db_rows db @ [\<lparr>ir_ID = db_next db, ir_Scope = ir_Scope r,
                   ir_IdempotencyKeyHash = ir_IdempotencyKeyHash r,
                   ir_RequestFingerprint = ir_RequestFingerprint r, ir_Status = ir_Status r,
                   ir_ResponseStatus = None, ir_ResponseBody = None, ir_ErrorReason = None,
                   ir_LockedUntil = ir_LockedUntil r, ir_ExpiresAt = ir_ExpiresAt r,
                   ir_CreatedAt = now, ir_UpdatedAt = now\<rparr>],
                 db_next = db_next db + 1\<rparr>, Some (db_next db)))"

definition update_records ::
    "(IdempotencyRecord \<Rightarrow> bool) \<Rightarrow> (IdempotencyRecord \<Rightarrow> IdempotencyRecord) \<Rightarrow> idem_db \<Rightarrow> idem_db \<times> nat" where
  "update_records P change db =
     (db\<lparr>db_rows := map (\<lambda>r. if P r then change r else r) (db_rows db)\<rparr>, length (filter P (db_rows db)))"

definition try_reclaim :: "int \<Rightarrow> int \<Rightarrow> string \<Rightarrow> int \<Rightarrow> int \<Rightarrow> int \<Rightarrow> idem_db \<Rightarrow> idem_db \<times> bool" where
  "try_reclaim clock rid fromStatus now newLockedUntil newExpiresAt db =
     map_prod id (\<lambda>affected. 0 < affected)
       (update_records
         (\<lambda>r. ir_ID r = rid \<and> ir_Status r = fromStatus \<and>
              (case ir_LockedUntil r of None \<Rightarrow> True | Some l \<Rightarrow> l \<le> now))
         (\<lambda>r. r\<lparr>ir_Status := IdempotencyStatusProcessing, ir_LockedUntil := Some newLockedUntil,
                ir_ErrorReason := None, ir_UpdatedAt := clock, ir_ExpiresAt := newExpiresAt\<rparr>) db)"

definition extend_lock :: "int \<Rightarrow> int \<Rightarrow> string \<Rightarrow> int \<Rightarrow> int \<Rightarrow> idem_db \<Rightarrow> idem_db \<times> bool" where
  "extend_lock clock rid requestFingerprint newLockedUntil newExpiresAt db =
     map_prod id (\<lambda>affected. 0 < affected)
       (update_records
         (\<lambda>r. ir_ID r = rid \<and> ir_Status r = IdempotencyStatusProcessing \<and>
              ir_RequestFingerprint r = requestFingerprint)
         (\<lambda>r. r\<lparr>ir_LockedUntil := Some newLockedUntil, ir_ExpiresAt := newExpiresAt, ir_UpdatedAt := clock\<rparr>) db)"

definition mark_succeeded :: "int \<Rightarrow> int \<Rightarrow> int \<Rightarrow> string \<Rightarrow> int \<Rightarrow> idem_db \<Rightarrow> idem_db" where
  "mark_succeeded clock rid responseStatus responseBody expiresAt db =
     fst (update_records (\<lambda>r. ir_ID r = rid)
       (\<lambda>r. r\<lparr>ir_Status := IdempotencyStatusSucceeded, ir_ResponseStatus := Some responseStatus,
              ir_ResponseBody := Some responseBody, ir_ErrorReason := None, ir_LockedUntil := None,
              ir_ExpiresAt := expiresAt, ir_UpdatedAt := clock\<rparr>) db)"

definition mark_failed :: "int \<Rightarrow> int \<Rightarrow> string \<Rightarrow> int \<Rightarrow> int \<Rightarrow> idem_db \<Rightarrow> idem_db option" where
  "mark_failed clock rid errorReason lockedUntil expiresAt db =
     (if \<not> fits_column 128 errorReason then None
      else Some (fst (update_records (\<lambda>r. ir_ID r = rid)
        (\<lambda>r. r\<lparr>ir_Status := IdempotencyStatusFailedRetryable, ir_ErrorReason := Some errorReason,
               ir_LockedUntil := Some lockedUntil, ir_ExpiresAt := expiresAt, ir_UpdatedAt := clock\<rparr>) db)))"

definition delete_expired :: "int \<Rightarrow> int \<Rightarrow> idem_db \<Rightarrow> idem_db \<times> nat" where
  "delete_expired now limit db =
     (let limit = (if limit \<le> 0 then 500 else limit);
          victims = map ir_ID (take (nat limit) (sort_key ir_ExpiresAt (filter (\<lambda>r. ir_ExpiresAt r \<le> now) (db_rows db))))
      in (db\<lparr>db_rows := filter (\<lambda>r. ir_ID r \<notin> set victims) (db_rows db)\<rparr>,
          length (filter (\<lambda>r. ir_ID r \<in> set victims) (db_rows db))))"

section \<open>UTF-8\<close>

text \<open>\<open>utf8.ValidString\<close>: the well-formed byte sequences of the Unicode standard.\<close>

definition tail_byte :: "char \<Rightarrow> bool" where
  "tail_byte c \<longleftrightarrow> 128 \<le> byte c \<and> byte c \<le> 191"

definition second_ok :: "nat \<Rightarrow> char \<Rightarrow> bool" where
  "second_ok lead c \<longleftrightarrow> tail_byte c \<and>
     (lead = 224 \<longrightarrow> 160 \<le> byte c) \<and> (lead = 237 \<longrightarrow> byte c \<le> 159) \<and>
     (lead = 240 \<longrightarrow> 144 \<le> byte c) \<and> (lead = 244 \<longrightarrow> byte c \<le> 143)"

fun go_ValidString :: "string \<Rightarrow> bool" where
  "go_ValidString [] = True"
| "go_ValidString (a # s) =
     (if byte a < 128 then go_ValidString s
      else if 194 \<le> byte a \<and> byte a \<le> 223 then
        (case s of b # s' \<Rightarrow> second_ok (byte a) b \<and> go_ValidString s' | _ \<Rightarrow> False)
      else if 224 \<le> byte a \<and> byte a \<le> 239 then
        (case s of b # c # s' \<Rightarrow> second_ok (byte a) b \<and> tail_byte c \<and> go_ValidString s' | _ \<Rightarrow> False)
      else if 240 \<le> byte a \<and> byte a \<le> 244 then
        (case s of b # c # d # s' \<Rightarrow> second_ok (byte a) b \<and> tail_byte c \<and> tail_byte d \<and> go_ValidString s'
         | _ \<Rightarrow> False)
      else False)"

text \<open>The loop of \<open>truncateUTF8\<close> from \<open>maxBytes = n\<close> on.\<close>

fun shrink_to_valid :: "nat \<Rightarrow> string \<Rightarrow> string" where
  "shrink_to_valid 0 s = []"
| "shrink_to_valid (Suc n) s =
     (if go_ValidString (take (Suc n) s) then take (Suc n) s else shrink_to_valid n s)"

definition truncateUTF8 :: "string \<Rightarrow> int \<Rightarrow> string" where
  "truncateUTF8 s maxBytes =
     (if maxBytes \<le> 0 \<or> int (length s) \<le> maxBytes then s else shrink_to_valid (nat maxBytes) s)"

lemma shrink_to_valid: "go_ValidString (shrink_to_valid n s) \<and> length (shrink_to_valid n s) \<le> n \<and>
    (\<exists>r. s = shrink_to_valid n s @ r)"
proof (induction n)
  case (Suc n)
  have "\<exists>r. s = take (Suc n) s @ r" by (metis append_take_drop_id)
  with Suc show ?case by auto
qed simp

section \<open>Keys and fingerprints\<close>

definition NormalizeIdempotencyKey :: "string \<Rightarrow> ApplicationError + string" where
  "NormalizeIdempotencyKey raw =
     (let key = go_TrimSpace raw
      in if key = [] then Inr []
         else if 128 < length key then Inl ErrIdempotencyKeyInvalid
         else if list_ex (\<lambda>c. byte c < 33 \<or> 126 < byte c) key then Inl ErrIdempotencyKeyInvalid
         else Inr key)"

text \<open>
  What is called in other packages: \<open>json.Marshal\<close> of a payload, of what an executor returned and
  of a decoded value, \<open>json.Unmarshal\<close> into an \<open>any\<close>, \<open>json.Valid\<close>, the regular expressions of
  \<open>logredact\<close>, SHA-256 in hexadecimal.
\<close>

record ('p, 'v) idem_codec =
  json_payload :: "'p \<Rightarrow> string option"
  json_data :: "'v \<Rightarrow> string option"
  json_any :: "any_val \<Rightarrow> string option"
  json_parse :: "string \<Rightarrow> any_val option"
  json_Valid :: "string \<Rightarrow> bool"
  redact_patterns :: "string \<Rightarrow> string"
  sha256_hex :: "string \<Rightarrow> string"

definition HashIdempotencyKey :: "('p, 'v) idem_codec \<Rightarrow> string \<Rightarrow> string" where
  "HashIdempotencyKey J key = sha256_hex J key"

definition BuildIdempotencyFingerprint ::
    "('p, 'v) idem_codec \<Rightarrow> string \<Rightarrow> string \<Rightarrow> string \<Rightarrow> 'p \<Rightarrow> ApplicationError + string" where
  "BuildIdempotencyFingerprint J method route actorScope payload =
     (let method = (if method = [] then ''POST'' else method);
          route = (if route = [] then ''/'' else route);
          actorScope = (if actorScope = [] then ''anonymous'' else actorScope)
      in case json_payload J payload of
           None \<Rightarrow> Inl ErrIdempotencyInvalidPayload
         | Some raw \<Rightarrow> Inr (sha256_hex J (go_ToUpper method @ [CHR 10] @ route @ [CHR 10] @ actorScope @ [CHR 10] @ raw)))"

section \<open>Redaction\<close>

definition maxRedactDepth :: nat where
  "maxRedactDepth = 32"

definition defaultSensitiveKeyList :: "string list" where
  "defaultSensitiveKeyList =
     [''authorization_code'', ''code'', ''code_verifier'', ''access_token'', ''refresh_token'', ''id_token'',
      ''client_secret'', ''password'']"

definition normalizeKey :: "string \<Rightarrow> string" where
  "normalizeKey key = go_ToLower (go_TrimSpace key)"

definition isSensitiveKey :: "string \<Rightarrow> bool" where
  "isSensitiveKey key \<longleftrightarrow> normalizeKey key \<in> set defaultSensitiveKeyList"

primrec redactValueWithDepth :: "any_val \<Rightarrow> nat \<Rightarrow> any_val" where
  "redactValueWithDepth VNil depth = (if maxRedactDepth < depth then VString ''<depth limit exceeded>'' else VNil)"
| "redactValueWithDepth (VString s) depth =
     (if maxRedactDepth < depth then VString ''<depth limit exceeded>'' else VString s)"
| "redactValueWithDepth (VStringer s) depth =
     (if maxRedactDepth < depth then VString ''<depth limit exceeded>'' else VStringer s)"
| "redactValueWithDepth (VScalar s) depth =
     (if maxRedactDepth < depth then VString ''<depth limit exceeded>'' else VScalar s)"
| "redactValueWithDepth (VStrings ss) depth =
     (if maxRedactDepth < depth then VString ''<depth limit exceeded>'' else VStrings ss)"
| "redactValueWithDepth (VList vs) depth =
     (if maxRedactDepth < depth then VString ''<depth limit exceeded>''
      else VList (map (\<lambda>f. f (Suc depth)) (map redactValueWithDepth vs)))"
| "redactValueWithDepth (VMap m) depth =
     (if maxRedactDepth < depth then VString ''<depth limit exceeded>''
      else VMap (map (\<lambda>(k, f). if isSensitiveKey k then (k, VString ''***'') else (k, f (Suc depth)))
             (map (map_prod id redactValueWithDepth) m)))"
| "redactValueWithDepth (VStringMap m) depth =
     (if maxRedactDepth < depth then VString ''<depth limit exceeded>'' else VStringMap m)"
| "redactValueWithDepth (VOther ty t) depth =
     (if maxRedactDepth < depth then VString ''<depth limit exceeded>'' else VOther ty t)"

definition RedactJSON :: "('p, 'v) idem_codec \<Rightarrow> string \<Rightarrow> string" where
  "RedactJSON J raw =
     (if raw = [] then []
      else case json_parse J raw of
        None \<Rightarrow> ''<non-json payload redacted>''
      | Some value \<Rightarrow> (case json_any J (redactValueWithDepth value 0) of
          None \<Rightarrow> ''<redacted>'' | Some encoded \<Rightarrow> encoded))"

definition RedactText :: "('p, 'v) idem_codec \<Rightarrow> string \<Rightarrow> string" where
  "RedactText J input =
     (let input = go_TrimSpace input
      in if input = [] then []
         else if json_Valid J input then RedactJSON J input
         else redact_patterns J input)"

section \<open>Stored responses\<close>

record IdempotencyConfig =
  cfg_DefaultTTL :: int
  cfg_SystemOperationTTL :: int
  cfg_ProcessingTimeout :: int
  cfg_FailedRetryBackoff :: int
  cfg_MaxStoredResponseLen :: int
  cfg_ObserveOnly :: bool

abbreviation Second :: int where "Second \<equiv> 1000000000"

definition DefaultIdempotencyConfig :: IdempotencyConfig where
  "DefaultIdempotencyConfig =
     \<lparr>cfg_DefaultTTL = 24 * 3600 * Second, cfg_SystemOperationTTL = 3600 * Second,
      cfg_ProcessingTimeout = 30 * Second, cfg_FailedRetryBackoff = 5 * Second,
      cfg_MaxStoredResponseLen = 64 * 1024, cfg_ObserveOnly = True\<rparr>"

definition marshalStoredResponse :: "('p, 'v) idem_codec \<Rightarrow> IdempotencyConfig \<Rightarrow> 'v \<Rightarrow> string option" where
  "marshalStoredResponse J cfg data =
     (case json_data J data of
        None \<Rightarrow> None
      | Some raw \<Rightarrow>
          (let redacted = RedactText J raw
           in Some (if 0 < cfg_MaxStoredResponseLen cfg \<and> cfg_MaxStoredResponseLen cfg < int (length redacted)
                    then truncateUTF8 redacted (cfg_MaxStoredResponseLen cfg) @ ''...(truncated)''
                    else redacted)))"

definition decodeStoredResponse :: "('p, 'v) idem_codec \<Rightarrow> string option \<Rightarrow> any_val option" where
  "decodeStoredResponse J stored =
     (case stored of
        None \<Rightarrow> Some (VMap [])
      | Some s \<Rightarrow> if go_TrimSpace s = [] then Some (VMap []) else json_parse J s)"

definition conflictWithRetryAfter :: "ApplicationError \<Rightarrow> int option \<Rightarrow> int \<Rightarrow> ApplicationError" where
  "conflictWithRetryAfter base lockedUntil now =
     (case lockedUntil of
        None \<Rightarrow> base
      | Some l \<Rightarrow>
          (let sec = (l - now) div Second; sec = (if sec \<le> 0 then 1 else sec)
           in WithMetadata base [(''retry_after'', go_FormatInt sec)]))"

definition RetryAfterSecondsFromError :: "go_error \<Rightarrow> int" where
  "RetryAfterSecondsFromError err =
     (case err of
        PlainError t \<Rightarrow> 0
      | AppError e \<Rightarrow>
          (case ae_Metadata e of
             None \<Rightarrow> 0
           | Some md \<Rightarrow>
               (let v = go_TrimSpace (case map_of md ''retry_after'' of None \<Rightarrow> [] | Some t \<Rightarrow> t)
                in if v = [] then 0
                   else case go_ParseInt v of None \<Rightarrow> 0 | Some seconds \<Rightarrow> if seconds \<le> 0 then 0 else seconds)))"

end
