(* ===== verification/Idempotency.thy ===== *)
theory Idempotency
  imports Idempotency_Store
begin

text \<open>
  The coordinator of idempotent requests (\<open>service/idempotency.go\<close>) and the handlers that use it
  (\<open>handler/idempotency_helper.go\<close>, \<open>handler/admin/idempotency_helper.go\<close>) as programs whose
  operations on the table interleave with those of other requests, and the clean-up of expired
  records (\<open>service/idempotency_cleanup_service.go\<close>).
\<close>

section \<open>The world of a request\<close>

record 'p IdempotencyExecuteOptions =
  op_Scope :: string
  op_ActorScope :: string
  op_Method :: string
  op_Route :: string
  op_IdempotencyKey :: string
  op_Payload :: 'p
  op_TTL :: int
  op_RequireKey :: bool

text \<open>The data of an answer: what the executor returned now, or what was decoded from the table.\<close>

datatype 'v response_data = Fresh 'v | Stored any_val

record 'v IdempotencyExecuteResult =
  er_Data :: "'v response_data"
  er_Replayed :: bool

text \<open>The HTTP response of a handler with the headers it sets.\<close>

datatype 'v reply =
    SuccessReply "(string \<times> string) list" "'v response_data"
  | ErrorReply "(string \<times> string) list" go_error

record success =
  su_row :: int
  su_scope :: string
  su_hash :: string
  su_fingerprint :: string
  su_body :: string

datatype idem_event = Claimed int | StoredFailure int | StoredSuccess success

text \<open>
  The table, the clock, the rest of the application, on which the executors act, and the responses
  that were sent. The other fields only record history: which call has claimed which row and until
  when (the earlier of the lock and the expiry it wrote), whether a claim ever ended after that
  time, the rows that have expired at some time, and what happened to the rows.
\<close>

record ('x, 'p, 'v) idem_world =
  iw_db :: idem_db
  iw_now :: int
  iw_app :: 'x
  iw_sent :: "('p IdempotencyExecuteOptions \<times> 'v reply) list"
  iw_claims :: "int \<Rightarrow> nat \<Rightarrow> int option"
  iw_late :: bool
  iw_aged :: "int set"
  iw_log :: "idem_event list"

type_synonym ('x, 'p, 'v, 'a) icall = "(('x, 'p, 'v) idem_world, 'a) prog"

definition expired_rows :: "int \<Rightarrow> idem_db \<Rightarrow> int set" where
  "expired_rows now db = ir_ID ` set (filter (\<lambda>r. ir_ExpiresAt r \<le> now) (db_rows db))"

definition settle :: "('x, 'p, 'v) idem_world \<Rightarrow> ('x, 'p, 'v) idem_world" where
  "settle w = w\<lparr>iw_aged := iw_aged w \<union> expired_rows (iw_now w) (iw_db w)\<rparr>"

definition set_claim :: "int \<Rightarrow> nat \<Rightarrow> int option \<Rightarrow> ('x, 'p, 'v) idem_world \<Rightarrow> ('x, 'p, 'v) idem_world" where
  "set_claim rid i d w = w\<lparr>iw_claims := (iw_claims w)(rid := (iw_claims w rid)(i := d))\<rparr>"

definition live :: "('x, 'p, 'v) idem_world \<Rightarrow> int \<Rightarrow> nat \<Rightarrow> bool" where
  "live w rid i \<longleftrightarrow> (case iw_claims w rid i of None \<Rightarrow> False | Some d \<Rightarrow> iw_now w < d)"

definition noted :: "idem_event \<Rightarrow> ('x, 'p, 'v) idem_world \<Rightarrow> ('x, 'p, 'v) idem_world" where
  "noted e w = w\<lparr>iw_log := iw_log w @ [e]\<rparr>"

definition begin_claim :: "int \<Rightarrow> nat \<Rightarrow> int \<Rightarrow> ('x, 'p, 'v) idem_world \<Rightarrow> ('x, 'p, 'v) idem_world" where
  "begin_claim rid i deadline w = noted (Claimed rid) (set_claim rid i (Some deadline) w)"

text \<open>The claim ends; it was in time if its deadline has not passed.\<close>

definition end_claim :: "int \<Rightarrow> nat \<Rightarrow> idem_event \<Rightarrow> ('x, 'p, 'v) idem_world \<Rightarrow> ('x, 'p, 'v) idem_world" where
  "end_claim rid i e w = noted e ((set_claim rid i None w)\<lparr>iw_late := (iw_late w \<or> \<not> live w rid i)\<rparr>)"

section \<open>Statements\<close>

datatype 'a answer = DbError | Answer 'a

definition clock :: "('x, 'p, 'v, int) icall" where
  "clock = atom (\<lambda>i w. [(w, iw_now w)])"

text \<open>A statement is carried out and answered, fails, or is carried out while its answer is lost.\<close>

definition statement ::
    "(nat \<Rightarrow> ('x, 'p, 'v) idem_world \<Rightarrow> (('x, 'p, 'v) idem_world \<times> 'a) option) \<Rightarrow> ('x, 'p, 'v, 'a answer) icall" where
  "statement f = atom (\<lambda>i w. case f i w of
     None \<Rightarrow> [(w, DbError)]
   | Some (w', x) \<Rightarrow> [(settle w', Answer x), (w, DbError), (settle w', DbError)])"

definition do_create ::
    "IdempotencyRecord \<Rightarrow> int \<Rightarrow> nat \<Rightarrow> ('x, 'p, 'v) idem_world \<Rightarrow> (('x, 'p, 'v) idem_world \<times> int option) option" where
  "do_create r deadline i w =
     (case insert_processing (iw_now w) r (iw_db w) of
        None \<Rightarrow> None
      | Some (db, None) \<Rightarrow> Some (w\<lparr>iw_db := db\<rparr>, None)
      | Some (db, Some rid) \<Rightarrow> Some (begin_claim rid i deadline (w\<lparr>iw_db := db\<rparr>), Some rid))"

definition CreateProcessing :: "IdempotencyRecord \<Rightarrow> int \<Rightarrow> ('x, 'p, 'v, int option answer) icall" where
  "CreateProcessing r deadline = statement (do_create r deadline)"

definition GetByScopeAndKeyHash :: "string \<Rightarrow> string \<Rightarrow> ('x, 'p, 'v, IdempotencyRecord option answer) icall" where
  "GetByScopeAndKeyHash scope keyHash =
     atom (\<lambda>i w. [(w, Answer (find_record scope keyHash (iw_db w))), (w, DbError)])"

definition do_reclaim ::
    "int \<Rightarrow> string \<Rightarrow> int \<Rightarrow> int \<Rightarrow> int \<Rightarrow> nat \<Rightarrow> ('x, 'p, 'v) idem_world \<Rightarrow> (('x, 'p, 'v) idem_world \<times> bool) option" where
  "do_reclaim rid fromStatus now newLockedUntil newExpiresAt i w =
     (case try_reclaim (iw_now w) rid fromStatus now newLockedUntil newExpiresAt (iw_db w) of
        (db, taken) \<Rightarrow>
          Some (if taken then begin_claim rid i (min newLockedUntil newExpiresAt) (w\<lparr>iw_db := db\<rparr>)
                else w\<lparr>iw_db := db\<rparr>, taken))"

definition TryReclaim :: "int \<Rightarrow> string \<Rightarrow> int \<Rightarrow> int \<Rightarrow> int \<Rightarrow> ('x, 'p, 'v, bool answer) icall" where
  "TryReclaim rid fromStatus now newLockedUntil newExpiresAt =
     statement (do_reclaim rid fromStatus now newLockedUntil newExpiresAt)"

definition do_extend ::
    "int \<Rightarrow> string \<Rightarrow> int \<Rightarrow> int \<Rightarrow> nat \<Rightarrow> ('x, 'p, 'v) idem_world \<Rightarrow> (('x, 'p, 'v) idem_world \<times> bool) option" where
  "do_extend rid requestFingerprint newLockedUntil newExpiresAt i w =
     (case extend_lock (iw_now w) rid requestFingerprint newLockedUntil newExpiresAt (iw_db w) of
        (db, ok) \<Rightarrow>
          Some (if ok \<and> live w rid i then set_claim rid i (Some (min newLockedUntil newExpiresAt)) (w\<lparr>iw_db := db\<rparr>)
                else w\<lparr>iw_db := db, iw_late := (iw_late w \<or> ok)\<rparr>, ok))"

definition ExtendProcessingLock :: "int \<Rightarrow> string \<Rightarrow> int \<Rightarrow> int \<Rightarrow> ('x, 'p, 'v, bool answer) icall" where
  "ExtendProcessingLock rid requestFingerprint newLockedUntil newExpiresAt =
     statement (do_extend rid requestFingerprint newLockedUntil newExpiresAt)"

text \<open>The key and fingerprint under which the call runs are history only.\<close>

definition do_succeed ::
    "string \<times> string \<times> string \<Rightarrow> int \<Rightarrow> int \<Rightarrow> string \<Rightarrow> int \<Rightarrow> nat \<Rightarrow> ('x, 'p, 'v) idem_world \<Rightarrow>
       (('x, 'p, 'v) idem_world \<times> unit) option" where
  "do_succeed who rid responseStatus responseBody expiresAt i w =
     (case who of (scope, keyHash, fp) \<Rightarrow>
        Some (end_claim rid i
                (StoredSuccess \<lparr>su_row = rid, su_scope = scope, su_hash = keyHash, su_fingerprint = fp,
                                su_body = responseBody\<rparr>)
                (w\<lparr>iw_db := mark_succeeded (iw_now w) rid responseStatus responseBody expiresAt (iw_db w)\<rparr>), ()))"

definition MarkSucceeded ::
    "string \<times> string \<times> string \<Rightarrow> int \<Rightarrow> int \<Rightarrow> string \<Rightarrow> int \<Rightarrow> ('x, 'p, 'v, unit answer) icall" where
  "MarkSucceeded who rid responseStatus responseBody expiresAt =
     statement (do_succeed who rid responseStatus responseBody expiresAt)"

definition do_fail ::
    "int \<Rightarrow> string \<Rightarrow> int \<Rightarrow> int \<Rightarrow> nat \<Rightarrow> ('x, 'p, 'v) idem_world \<Rightarrow> (('x, 'p, 'v) idem_world \<times> unit) option" where
  "do_fail rid errorReason lockedUntil expiresAt i w =
     (case mark_failed (iw_now w) rid errorReason lockedUntil expiresAt (iw_db w) of
        None \<Rightarrow> None
      | Some db \<Rightarrow> Some (end_claim rid i (StoredFailure rid) (w\<lparr>iw_db := db\<rparr>), ()))"

definition MarkFailedRetryable :: "int \<Rightarrow> string \<Rightarrow> int \<Rightarrow> int \<Rightarrow> ('x, 'p, 'v, unit answer) icall" where
  "MarkFailedRetryable rid errorReason lockedUntil expiresAt =
     statement (do_fail rid errorReason lockedUntil expiresAt)"

definition do_delete :: "int \<Rightarrow> int \<Rightarrow> nat \<Rightarrow> ('x, 'p, 'v) idem_world \<Rightarrow> (('x, 'p, 'v) idem_world \<times> nat) option" where
  "do_delete now limit i w =
     (case delete_expired now limit (iw_db w) of (db, n) \<Rightarrow> Some (w\<lparr>iw_db := db\<rparr>, n))"

definition DeleteExpired :: "int \<Rightarrow> int \<Rightarrow> ('x, 'p, 'v, nat answer) icall" where
  "DeleteExpired now limit = statement (do_delete now limit)"

text \<open>A program of the rest of the application, run inside this world.\<close>

primrec on_app :: "('x, 'a) prog \<Rightarrow> ('x, 'p, 'v, 'a) icall" where
  "on_app (Ret x) = Ret x"
| "on_app (Atomic f) = Atomic (\<lambda>i w. map (\<lambda>(x, p). (w\<lparr>iw_app := x\<rparr>, p)) (map (map_prod id on_app) (f i (iw_app w))))"

section \<open>The coordinator\<close>

datatype claim_result = Rejected go_error | Replay any_val | Owner int

abbreviation unavailable :: go_error where "unavailable \<equiv> AppError ErrIdempotencyStoreUnavail"

text \<open>The \<open>switch\<close> on the status of the record that was found.\<close>

definition dispatchExisting ::
    "('p, 'v) idem_codec \<Rightarrow> IdempotencyRecord \<Rightarrow> int \<Rightarrow> int \<Rightarrow> int \<Rightarrow> ('x, 'p, 'v, claim_result) icall" where
  "dispatchExisting J existing now lockedUntil expiresAt =
     (if ir_Status existing = IdempotencyStatusSucceeded then
        (case decodeStoredResponse J (ir_ResponseBody existing) of
           None \<Rightarrow> Ret (Rejected unavailable)
         | Some data \<Rightarrow> Ret (Replay data))
      else if ir_Status existing = IdempotencyStatusProcessing then
        Ret (Rejected (AppError (conflictWithRetryAfter ErrIdempotencyInProgress (ir_LockedUntil existing) now)))
      else if ir_Status existing = IdempotencyStatusFailedRetryable then
        (if (case ir_LockedUntil existing of None \<Rightarrow> False | Some l \<Rightarrow> now < l)
         then Ret (Rejected (AppError (conflictWithRetryAfter ErrIdempotencyRetryBackoff (ir_LockedUntil existing) now)))
         else bind (TryReclaim (ir_ID existing) IdempotencyStatusFailedRetryable now lockedUntil expiresAt) (\<lambda>r.
           case r of
             DbError \<Rightarrow> Ret (Rejected unavailable)
           | Answer False \<Rightarrow>
               Ret (Rejected (AppError (conflictWithRetryAfter ErrIdempotencyInProgress (ir_LockedUntil existing) now)))
           | Answer True \<Rightarrow> Ret (Owner (ir_ID existing))))
      else Ret (Rejected (AppError ErrIdempotencyKeyConflict)))"

text \<open>A record with the key exists already.\<close>

definition reuseExisting ::
    "('p, 'v) idem_codec \<Rightarrow> string \<Rightarrow> string \<Rightarrow> string \<Rightarrow> int \<Rightarrow> int \<Rightarrow> int \<Rightarrow> ('x, 'p, 'v, claim_result) icall" where
  "reuseExisting J scope keyHash fingerprint now lockedUntil expiresAt =
     bind (GetByScopeAndKeyHash scope keyHash) (\<lambda>r. case r of
       DbError \<Rightarrow> Ret (Rejected unavailable)
     | Answer None \<Rightarrow> Ret (Rejected unavailable)
     | Answer (Some existing) \<Rightarrow>
         if ir_RequestFingerprint existing \<noteq> fingerprint then Ret (Rejected (AppError ErrIdempotencyKeyConflict))
         else if ir_ExpiresAt existing > now then dispatchExisting J existing now lockedUntil expiresAt
         else bind (TryReclaim (ir_ID existing) (ir_Status existing) now lockedUntil expiresAt) (\<lambda>t. case t of
           DbError \<Rightarrow> Ret (Rejected unavailable)
         | Answer True \<Rightarrow> Ret (Owner (ir_ID existing))
         | Answer False \<Rightarrow>
             bind (GetByScopeAndKeyHash scope keyHash) (\<lambda>l. case l of
               DbError \<Rightarrow> Ret (Rejected unavailable)
             | Answer None \<Rightarrow> Ret (Rejected unavailable)
             | Answer (Some latest) \<Rightarrow>
                 if ir_RequestFingerprint latest \<noteq> fingerprint then Ret (Rejected (AppError ErrIdempotencyKeyConflict))
                 else dispatchExisting J latest now lockedUntil expiresAt)))"

definition processing_record :: "string \<Rightarrow> string \<Rightarrow> string \<Rightarrow> int \<Rightarrow> int \<Rightarrow> IdempotencyRecord" where
  "processing_record scope keyHash fingerprint lockedUntil expiresAt =
     \<lparr>ir_ID = 0, ir_Scope = scope, ir_IdempotencyKeyHash = keyHash, ir_RequestFingerprint = fingerprint,
      ir_Status = IdempotencyStatusProcessing, ir_ResponseStatus = None, ir_ResponseBody = None,
      ir_ErrorReason = None, ir_LockedUntil = Some lockedUntil, ir_ExpiresAt = expiresAt, ir_CreatedAt = 0,
      ir_UpdatedAt = 0\<rparr>"

definition claimKey ::
    "('p, 'v) idem_codec \<Rightarrow> string \<Rightarrow> string \<Rightarrow> string \<Rightarrow> int \<Rightarrow> int \<Rightarrow> int \<Rightarrow> ('x, 'p, 'v, claim_result) icall" where
  "claimKey J scope keyHash fingerprint now lockedUntil expiresAt =
     bind (CreateProcessing (processing_record scope keyHash fingerprint lockedUntil expiresAt) (min lockedUntil expiresAt))
       (\<lambda>r. case r of
          DbError \<Rightarrow> Ret (Rejected unavailable)
        | Answer (Some rid) \<Rightarrow> Ret (Owner rid)
        | Answer None \<Rightarrow> reuseExisting J scope keyHash fingerprint now lockedUntil expiresAt)"

text \<open>The executor runs under the claim, and its outcome is stored.\<close>

definition failure_reason :: "go_error \<Rightarrow> string" where
  "failure_reason e = (if ErrorReason e = [] then ''EXECUTION_FAILED'' else ErrorReason e)"

definition runClaimed ::
    "('p, 'v) idem_codec \<Rightarrow> IdempotencyConfig \<Rightarrow> string \<times> string \<times> string \<Rightarrow> int \<Rightarrow> int \<Rightarrow>
       ('x, 'p, 'v, go_error + 'v) icall \<Rightarrow> ('x, 'p, 'v, go_error + 'v IdempotencyExecuteResult) icall" where
  "runClaimed J cfg who expiresAt rid execute =
     bind execute (\<lambda>res. case res of
       Inl execErr \<Rightarrow>
         bind clock (\<lambda>t.
         bind (MarkFailedRetryable rid (failure_reason execErr) (t + cfg_FailedRetryBackoff cfg) expiresAt) (\<lambda>_.
         Ret (Inl execErr)))
     | Inr data \<Rightarrow>
         (case marshalStoredResponse J cfg data of
            None \<Rightarrow> Ret (Inl unavailable)
          | Some storedBody \<Rightarrow>
              bind (MarkSucceeded who rid 200 storedBody expiresAt) (\<lambda>r. case r of
                DbError \<Rightarrow> Ret (Inl unavailable)
              | Answer _ \<Rightarrow> Ret (Inr \<lparr>er_Data = Fresh data, er_Replayed = False\<rparr>))))"

text \<open>\<open>Execute\<close> for a key that is present.\<close>

definition executeKeyed ::
    "('p, 'v) idem_codec \<Rightarrow> IdempotencyConfig \<Rightarrow> 'p IdempotencyExecuteOptions \<Rightarrow> string \<Rightarrow> string \<Rightarrow>
       ('x, 'p, 'v, go_error + 'v) icall \<Rightarrow> ('x, 'p, 'v, go_error + 'v IdempotencyExecuteResult) icall" where
  "executeKeyed J cfg opts key fingerprint execute =
     (let ttl = (if op_TTL opts \<le> 0 then cfg_DefaultTTL cfg else op_TTL opts);
          keyHash = HashIdempotencyKey J key
      in bind clock (\<lambda>now.
         bind (claimKey J (op_Scope opts) keyHash fingerprint now (now + cfg_ProcessingTimeout cfg) (now + ttl)) (\<lambda>c.
         case c of
           Rejected e \<Rightarrow> Ret (Inl e)
         | Replay data \<Rightarrow> Ret (Inr \<lparr>er_Data = Stored data, er_Replayed = True\<rparr>)
         | Owner rid \<Rightarrow>
             if rid = 0 then Ret (Inl unavailable)
             else runClaimed J cfg (op_Scope opts, keyHash, fingerprint) (now + ttl) rid execute)))"

text \<open>A coordinator: whether it has a repository, and its configuration.\<close>

record IdempotencyCoordinator =
  co_repo :: bool
  co_cfg :: IdempotencyConfig

definition Execute ::
    "('p, 'v) idem_codec \<Rightarrow> IdempotencyCoordinator \<Rightarrow> 'p IdempotencyExecuteOptions \<Rightarrow>
       ('x, 'p, 'v, go_error + 'v) icall option \<Rightarrow> ('x, 'p, 'v, go_error + 'v IdempotencyExecuteResult) icall" where
  "Execute J c opts executor =
     (case executor of
        None \<Rightarrow> Ret (Inl (AppError (NewError 500 ''IDEMPOTENCY_EXECUTOR_NIL'' ''idempotency executor is nil'')))
      | Some execute \<Rightarrow>
          (case NormalizeIdempotencyKey (op_IdempotencyKey opts) of
             Inl e \<Rightarrow> Ret (Inl (AppError e))
           | Inr key \<Rightarrow>
               if key = [] then
                 (if op_RequireKey opts \<and> \<not> cfg_ObserveOnly (co_cfg c) then Ret (Inl (AppError ErrIdempotencyKeyRequired))
                  else bind execute (\<lambda>res. case res of
                    Inl e \<Rightarrow> Ret (Inl e)
                  | Inr data \<Rightarrow> Ret (Inr \<lparr>er_Data = Fresh data, er_Replayed = False\<rparr>)))
               else if \<not> co_repo c then Ret (Inl unavailable)
               else if op_Scope opts = [] then
                 Ret (Inl (AppError (NewError 400 ''IDEMPOTENCY_SCOPE_REQUIRED'' ''idempotency scope is required'')))
               else (case BuildIdempotencyFingerprint J (op_Method opts) (op_Route opts) (op_ActorScope opts) (op_Payload opts) of
                 Inl e \<Rightarrow> Ret (Inl (AppError e))
               | Inr fingerprint \<Rightarrow> executeKeyed J (co_cfg c) opts key fingerprint execute)))"

section \<open>Handlers and clean-up\<close>

definition send :: "'p IdempotencyExecuteOptions \<Rightarrow> 'v reply \<Rightarrow> ('x, 'p, 'v, unit) icall" where
  "send opts r = atom (\<lambda>i w. [(w\<lparr>iw_sent := iw_sent w @ [(opts, r)]\<rparr>, ())])"

definition retry_header :: "go_error \<Rightarrow> (string \<times> string) list" where
  "retry_header err =
     (if 0 < RetryAfterSecondsFromError err then [(''Retry-After'', go_FormatInt (RetryAfterSecondsFromError err))] else [])"

text \<open>
  \<open>executeUserIdempotentJSON\<close> and \<open>executeAdminIdempotentJSONWithMode\<close> for the request that \<open>opts\<close>
  was built from; \<open>None\<close> is a server without a coordinator.
\<close>

datatype unavailable_mode = FailClose | FailOpen

definition sendExecuted :: "'p IdempotencyExecuteOptions \<Rightarrow> (string \<times> string) list \<Rightarrow> go_error + 'v \<Rightarrow> ('x, 'p, 'v, unit) icall" where
  "sendExecuted opts hs res =
     (case res of Inl e \<Rightarrow> send opts (ErrorReply [] e) | Inr data \<Rightarrow> send opts (SuccessReply hs (Fresh data)))"

definition executeUserIdempotentJSON ::
    "('p, 'v) idem_codec \<Rightarrow> IdempotencyCoordinator option \<Rightarrow> 'p IdempotencyExecuteOptions \<Rightarrow>
       ('x, 'p, 'v, go_error + 'v) icall \<Rightarrow> ('x, 'p, 'v, unit) icall" where
  "executeUserIdempotentJSON J coordinator opts execute =
     (case coordinator of
        None \<Rightarrow> bind execute (sendExecuted opts [])
      | Some c \<Rightarrow>
          bind (Execute J c (opts\<lparr>op_RequireKey := True\<rparr>) (Some execute)) (\<lambda>r. case r of
            Inl err \<Rightarrow> send opts (ErrorReply (retry_header err) err)
          | Inr result \<Rightarrow>
              send opts (SuccessReply (if er_Replayed result then [(''X-Idempotency-Replayed'', ''true'')] else [])
                           (er_Data result))))"

definition executeAdminIdempotentJSONWithMode ::
    "('p, 'v) idem_codec \<Rightarrow> IdempotencyCoordinator option \<Rightarrow> unavailable_mode \<Rightarrow> 'p IdempotencyExecuteOptions \<Rightarrow>
       ('x, 'p, 'v, go_error + 'v) icall \<Rightarrow> ('x, 'p, 'v, unit) icall" where
  "executeAdminIdempotentJSONWithMode J coordinator mode opts execute =
     (case coordinator of
        None \<Rightarrow> bind execute (\<lambda>res. case res of
          Inl err \<Rightarrow>
            if ErrorCode err = ErrorCode unavailable \<and> mode = FailOpen
            then bind execute (sendExecuted opts [(''X-Idempotency-Degraded'', ''store-unavailable'')])
            else send opts (ErrorReply (retry_header err) err)
        | Inr data \<Rightarrow> send opts (SuccessReply [] (Fresh data)))
      | Some c \<Rightarrow>
          bind (Execute J c (opts\<lparr>op_RequireKey := True\<rparr>) (Some execute)) (\<lambda>r. case r of
            Inl err \<Rightarrow>
              if ErrorCode err = ErrorCode unavailable \<and> mode = FailOpen
              then bind execute (sendExecuted opts [(''X-Idempotency-Degraded'', ''store-unavailable'')])
              else send opts (ErrorReply (retry_header err) err)
          | Inr result \<Rightarrow>
              send opts (SuccessReply (if er_Replayed result then [(''X-Idempotency-Replayed'', ''true'')] else [])
                           (er_Data result))))"

definition executeAdminIdempotentJSON ::
    "('p, 'v) idem_codec \<Rightarrow> IdempotencyCoordinator option \<Rightarrow> 'p IdempotencyExecuteOptions \<Rightarrow>
       ('x, 'p, 'v, go_error + 'v) icall \<Rightarrow> ('x, 'p, 'v, unit) icall" where
  "executeAdminIdempotentJSON J coordinator opts execute =
     executeAdminIdempotentJSONWithMode J coordinator FailClose opts execute"

definition executeAdminIdempotentJSONFailOpenOnStoreUnavailable ::
    "('p, 'v) idem_codec \<Rightarrow> IdempotencyCoordinator option \<Rightarrow> 'p IdempotencyExecuteOptions \<Rightarrow>
       ('x, 'p, 'v, go_error + 'v) icall \<Rightarrow> ('x, 'p, 'v, unit) icall" where
  "executeAdminIdempotentJSONFailOpenOnStoreUnavailable J coordinator opts execute =
     executeAdminIdempotentJSONWithMode J coordinator FailOpen opts execute"

definition cleanupOnce :: "int \<Rightarrow> ('x, 'p, 'v, unit) icall" where
  "cleanupOnce batch = bind clock (\<lambda>now. bind (DeleteExpired now batch) (\<lambda>_. Ret ()))"

end
