(* ===== verification/System_Lock.thy ===== *)
theory System_Lock
  imports Idempotency
begin

text \<open>
  The lock that serialises update, rollback and restart of the service
  (\<open>service/system_operation_lock_service.go\<close>, \<open>handler/admin/system_handler.go\<close>): one row of the
  table of idempotent requests, leased to its holder and renewed while the operation runs.
\<close>

definition systemOperationLockScope :: string where
  "systemOperationLockScope = ''admin.system.operations.global_lock''"

definition systemOperationLockKey :: string where
  "systemOperationLockKey = ''global-system-operation-lock''"

definition ErrSystemOperationBusy :: ApplicationError where
  "ErrSystemOperationBusy = NewError 409 ''SYSTEM_OPERATION_BUSY'' ''another system operation is in progress''"

record SystemOperationLock =
  lk_recordID :: int
  lk_operationID :: string

record SystemOperationLockService =
  sl_lease :: int
  sl_renewInterval :: int
  sl_ttl :: int

definition NewSystemOperationLockService :: "IdempotencyConfig \<Rightarrow> SystemOperationLockService" where
  "NewSystemOperationLockService cfg =
     (let lease = (if cfg_ProcessingTimeout cfg \<le> 0 then 30 * Second else cfg_ProcessingTimeout cfg);
          renewInterval = (if lease div 3 < Second then Second else lease div 3);
          ttl = (if cfg_SystemOperationTTL cfg \<le> 0 then 3600 * Second else cfg_SystemOperationTTL cfg)
      in \<lparr>sl_lease = lease, sl_renewInterval = renewInterval, sl_ttl = ttl\<rparr>)"

definition busyError :: "string \<Rightarrow> int option \<Rightarrow> int \<Rightarrow> ApplicationError" where
  "busyError operationID lockedUntil now =
     (let metadata = (if operationID \<noteq> [] then [(''operation_id'', operationID)] else []) @
            (case lockedUntil of
               None \<Rightarrow> []
             | Some l \<Rightarrow> let sec = (l - now) div Second; sec = (if sec \<le> 0 then 1 else sec)
                         in [(''retry_after'', go_FormatInt sec)])
      in if metadata = [] then ErrSystemOperationBusy else WithMetadata ErrSystemOperationBusy metadata)"

definition lock_hash :: "('p, 'v) idem_codec \<Rightarrow> string" where
  "lock_hash J = HashIdempotencyKey J systemOperationLockKey"

text \<open>A record of the lock exists already: refuse while it is leased, take it over otherwise.\<close>

definition takeOverLock ::
    "('p, 'v) idem_codec \<Rightarrow> int \<Rightarrow> int \<Rightarrow> int \<Rightarrow> ('x, 'p, 'v, go_error + int) icall" where
  "takeOverLock J now lockedUntil expiresAt =
     bind (GetByScopeAndKeyHash systemOperationLockScope (lock_hash J)) (\<lambda>r. case r of
       DbError \<Rightarrow> Ret (Inl unavailable)
     | Answer None \<Rightarrow> Ret (Inl unavailable)
     | Answer (Some existing) \<Rightarrow>
         if ir_Status existing = IdempotencyStatusProcessing \<and>
            (case ir_LockedUntil existing of None \<Rightarrow> False | Some l \<Rightarrow> now < l)
         then Ret (Inl (AppError (busyError (ir_RequestFingerprint existing) (ir_LockedUntil existing) now)))
         else bind (TryReclaim (ir_ID existing) (ir_Status existing) now lockedUntil expiresAt) (\<lambda>t. case t of
           DbError \<Rightarrow> Ret (Inl unavailable)
         | Answer True \<Rightarrow> Ret (Inr (ir_ID existing))
         | Answer False \<Rightarrow>
             bind (GetByScopeAndKeyHash systemOperationLockScope (lock_hash J)) (\<lambda>l. case l of
               Answer (Some latest) \<Rightarrow>
                 Ret (Inl (AppError (busyError (ir_RequestFingerprint latest) (ir_LockedUntil latest) now)))
             | _ \<Rightarrow> Ret (Inl (AppError ErrSystemOperationBusy)))))"

definition acquireRecord ::
    "('p, 'v) idem_codec \<Rightarrow> SystemOperationLockService \<Rightarrow> string \<Rightarrow> ('x, 'p, 'v, go_error + int) icall" where
  "acquireRecord J s operationID =
     bind clock (\<lambda>now.
       let expiresAt = now + sl_ttl s; lockedUntil = now + sl_lease s
       in bind (CreateProcessing (processing_record systemOperationLockScope (lock_hash J) operationID lockedUntil expiresAt)
                  (min lockedUntil expiresAt))
            (\<lambda>r. case r of
               DbError \<Rightarrow> Ret (Inl unavailable)
             | Answer (Some rid) \<Rightarrow> Ret (Inr rid)
             | Answer None \<Rightarrow> takeOverLock J now lockedUntil expiresAt))"

definition Acquire ::
    "('p, 'v) idem_codec \<Rightarrow> SystemOperationLockService option \<Rightarrow> string \<Rightarrow>
       ('x, 'p, 'v, go_error + SystemOperationLock) icall" where
  "Acquire J svc operationID =
     (case svc of
        None \<Rightarrow> Ret (Inl unavailable)
      | Some s \<Rightarrow>
          if operationID = [] then
            Ret (Inl (AppError (NewError 400 ''SYSTEM_OPERATION_ID_REQUIRED'' ''operation id is required'')))
          else bind (acquireRecord J s operationID) (\<lambda>r. case r of
            Inl e \<Rightarrow> Ret (Inl e)
          | Inr rid \<Rightarrow> if rid = 0 then Ret (Inl unavailable)
                       else Ret (Inr \<lparr>lk_recordID = rid, lk_operationID = operationID\<rparr>)))"

definition release_body :: "string \<Rightarrow> string" where
  "release_body operationID = ''{\"operation_id\":\"'' @ operationID @ ''\",\"released\":true}''"

definition Release ::
    "('p, 'v) idem_codec \<Rightarrow> SystemOperationLockService \<Rightarrow> SystemOperationLock \<Rightarrow> bool \<Rightarrow> string \<Rightarrow> ('x, 'p, 'v, unit answer) icall" where
  "Release J s lock succeeded failureReason =
     bind clock (\<lambda>t.
       let expiresAt = t + sl_ttl s
       in if succeeded then
            MarkSucceeded (systemOperationLockScope, lock_hash J, lk_operationID lock) (lk_recordID lock) 200
              (release_body (lk_operationID lock)) expiresAt
          else bind clock (\<lambda>t'.
            MarkFailedRetryable (lk_recordID lock)
              (if failureReason = [] then ''SYSTEM_OPERATION_FAILED'' else failureReason) t' expiresAt))"

text \<open>One turn of \<open>renewLoop\<close>: whether the loop goes on.\<close>

definition renewTick :: "SystemOperationLockService \<Rightarrow> SystemOperationLock \<Rightarrow> ('x, 'p, 'v, bool) icall" where
  "renewTick s lock =
     bind clock (\<lambda>now.
     bind (ExtendProcessingLock (lk_recordID lock) (lk_operationID lock) (now + sl_lease s) (now + sl_ttl s)) (\<lambda>r.
     case r of DbError \<Rightarrow> Ret True | Answer ok \<Rightarrow> Ret ok))"

text \<open>
  The operation and its renewal goroutine, in an order of their steps: \<open>None\<close> is a turn of the
  renewal loop, \<open>Some p\<close> a part of the operation's work.
\<close>

primrec holding ::
    "SystemOperationLockService \<Rightarrow> SystemOperationLock \<Rightarrow> ('x, unit) prog option list \<Rightarrow> bool \<Rightarrow> ('x, 'p, 'v, unit) icall" where
  "holding s lock [] = (\<lambda>renewing. Ret ())"
| "holding s lock (t # ts) = (\<lambda>renewing. case t of
     None \<Rightarrow> if renewing then bind (renewTick s lock) (\<lambda>ok. holding s lock ts ok) else holding s lock ts False
   | Some p \<Rightarrow> bind (on_app p) (\<lambda>_. holding s lock ts renewing))"

text \<open>
  An operation of the system handler: it acquires the lock, works, and releases the lock with its
  outcome, whose last part is \<open>finish\<close>.
\<close>

definition systemOperation ::
    "('p, 'v) idem_codec \<Rightarrow> SystemOperationLockService option \<Rightarrow> string \<Rightarrow> string \<Rightarrow>
       ('x, unit) prog option list \<Rightarrow> ('x, go_error + 'v) prog \<Rightarrow> ('x, 'p, 'v, go_error + 'v) icall" where
  "systemOperation J svc operationID releaseReason work finish =
     bind (Acquire J svc operationID) (\<lambda>a. case a of
       Inl e \<Rightarrow> Ret (Inl e)
     | Inr lock \<Rightarrow>
         (case svc of
            None \<Rightarrow> Ret (Inl unavailable)
          | Some s \<Rightarrow>
              bind (holding s lock work True) (\<lambda>_.
              bind (on_app finish) (\<lambda>res.
              bind (case res of
                      Inl e \<Rightarrow> Release J s lock False releaseReason
                    | Inr data \<Rightarrow> Release J s lock True []) (\<lambda>_.
              Ret res)))))"

definition buildSystemOperationID ::
    "('p, 'v) idem_codec \<Rightarrow> string \<Rightarrow> string \<Rightarrow> string \<Rightarrow> string \<Rightarrow> string \<Rightarrow> string" where
  "buildSystemOperationID J operation header actorScope fullPath nowBase36 =
     (let key = go_TrimSpace header
      in if key = [] then ''sysop-'' @ operation @ ''-'' @ nowBase36
         else ''sysop-'' @ take 24 (HashIdempotencyKey J
                (operation @ ''|'' @ actorScope @ ''|'' @ fullPath @ ''|'' @ key)))"

end
