(* ===== verification/Idempotency_Safety.thy ===== *)
theory Idempotency_Safety
  imports System_Lock
begin

text \<open>
  What holds of the table of idempotent requests under every interleaving of requests, clean-ups and
  system operations: the claims of a row exclude each other, a request is not carried out again
  before its record expires, and a replayed response is one that was stored for the same request.
\<close>

section \<open>The invariant\<close>

abbreviation rows :: "('x, 'p, 'v) idem_world \<Rightarrow> IdempotencyRecord list" where
  "rows w \<equiv> db_rows (iw_db w)"

abbreviation next_id :: "('x, 'p, 'v) idem_world \<Rightarrow> int" where
  "next_id w \<equiv> db_next (iw_db w)"

definition record_key :: "IdempotencyRecord \<Rightarrow> string \<times> string \<times> string" where
  "record_key r = (ir_Scope r, ir_IdempotencyKeyHash r, ir_RequestFingerprint r)"

primrec event_row :: "idem_event \<Rightarrow> int" where
  "event_row (Claimed rid) = rid"
| "event_row (StoredFailure rid) = rid"
| "event_row (StoredSuccess s) = su_row s"

definition history :: "('x, 'p, 'v) idem_world \<Rightarrow> int \<Rightarrow> idem_event list" where
  "history w rid = filter (\<lambda>e. event_row e = rid) (iw_log w)"

text \<open>
  The life of a record before it expires: claimed, then failed or succeeded; only a failure may be
  claimed again. The states are the statuses, the empty one before the record is inserted.
\<close>

fun life_step :: "string \<Rightarrow> idem_event \<Rightarrow> string option" where
  "life_step s (Claimed rid) =
     (if s = [] \<or> s = IdempotencyStatusFailedRetryable then Some IdempotencyStatusProcessing else None)"
| "life_step s (StoredFailure rid) =
     (if s = IdempotencyStatusProcessing then Some IdempotencyStatusFailedRetryable else None)"
| "life_step s (StoredSuccess x) =
     (if s = IdempotencyStatusProcessing then Some IdempotencyStatusSucceeded else None)"

definition stored_for :: "IdempotencyRecord \<Rightarrow> success \<Rightarrow> bool" where
  "stored_for r s \<longleftrightarrow> su_scope s = ir_Scope r \<and> su_hash s = ir_IdempotencyKeyHash r \<and>
     ir_ResponseBody r = Some (su_body s) \<and>
     (ir_Scope r \<noteq> systemOperationLockScope \<longrightarrow> su_fingerprint s = ir_RequestFingerprint r)"

definition table_ok :: "('x, 'p, 'v) idem_world \<Rightarrow> bool" where
  "table_ok w \<longleftrightarrow> distinct (map ir_ID (rows w)) \<and>
     distinct (map (\<lambda>r. (ir_Scope r, ir_IdempotencyKeyHash r)) (rows w)) \<and>
     (\<forall>r \<in> set (rows w). ir_ID r < next_id w) \<and>
     (\<forall>e \<in> set (iw_log w). event_row e < next_id w) \<and>
     (\<forall>rid i. iw_claims w rid i \<noteq> None \<longrightarrow> rid < next_id w)"

definition held :: "('x, 'p, 'v) idem_world \<Rightarrow> int \<Rightarrow> int \<Rightarrow> bool" where
  "held w rid d \<longleftrightarrow> (\<exists>r \<in> set (rows w). ir_ID r = rid \<and> ir_Status r = IdempotencyStatusProcessing \<and>
     (\<exists>l. ir_LockedUntil r = Some l \<and> d \<le> l) \<and> d \<le> ir_ExpiresAt r)"

definition claims_ok :: "('x, 'p, 'v) idem_world \<Rightarrow> bool" where
  "claims_ok w \<longleftrightarrow>
     (\<forall>rid i d. iw_claims w rid i = Some d \<longrightarrow> iw_now w < d \<longrightarrow> held w rid d) \<and>
     (\<forall>rid i j. live w rid i \<longrightarrow> live w rid j \<longrightarrow> i = j)"

definition lives_ok :: "('x, 'p, 'v) idem_world \<Rightarrow> bool" where
  "lives_ok w \<longleftrightarrow> (\<forall>r \<in> set (rows w). ir_ID r \<notin> iw_aged w \<longrightarrow> ir_Scope r \<noteq> systemOperationLockScope \<longrightarrow>
     run_check life_step [] (history w (ir_ID r)) = Some (ir_Status r))"

definition stored_ok :: "('x, 'p, 'v) idem_world \<Rightarrow> bool" where
  "stored_ok w \<longleftrightarrow> (\<forall>r \<in> set (rows w). ir_Status r = IdempotencyStatusSucceeded \<longrightarrow>
     (\<exists>s. StoredSuccess s \<in> set (iw_log w) \<and> stored_for r s))"

text \<open>A success with which the request \<open>opts\<close> may be answered again.\<close>

definition answers :: "('p, 'v) idem_codec \<Rightarrow> 'p IdempotencyExecuteOptions \<Rightarrow> any_val \<Rightarrow> success \<Rightarrow> bool" where
  "answers J opts data s \<longleftrightarrow> su_scope s = op_Scope opts \<and>
     (\<exists>key. NormalizeIdempotencyKey (op_IdempotencyKey opts) = Inr key \<and> su_hash s = HashIdempotencyKey J key) \<and>
     (op_Scope opts \<noteq> systemOperationLockScope \<longrightarrow>
        BuildIdempotencyFingerprint J (op_Method opts) (op_Route opts) (op_ActorScope opts) (op_Payload opts)
          = Inr (su_fingerprint s)) \<and>
     decodeStoredResponse J (Some (su_body s)) = Some data"

definition sent_ok :: "('p, 'v) idem_codec \<Rightarrow> ('x, 'p, 'v) idem_world \<Rightarrow> bool" where
  "sent_ok J w \<longleftrightarrow> (\<forall>opts hs data. (opts, SuccessReply hs (Stored data)) \<in> set (iw_sent w) \<longrightarrow>
     (\<exists>s. StoredSuccess s \<in> set (iw_log w) \<and> answers J opts data s))"

definition idem_inv :: "('p, 'v) idem_codec \<Rightarrow> ('x, 'p, 'v) idem_world \<Rightarrow> bool" where
  "idem_inv J w \<longleftrightarrow> table_ok w \<and> expired_rows (iw_now w) (iw_db w) \<subseteq> iw_aged w \<and> stored_ok w \<and> sent_ok J w \<and>
     (\<not> iw_late w \<longrightarrow> claims_ok w \<and> lives_ok w)"

section \<open>Rely and guarantee\<close>

definition same_records :: "('x, 'p, 'v) idem_world \<Rightarrow> ('x, 'p, 'v) idem_world \<Rightarrow> bool" where
  "same_records w w' \<longleftrightarrow> (\<forall>r' \<in> set (rows w'). ir_ID r' < next_id w \<longrightarrow>
     (\<exists>r \<in> set (rows w). ir_ID r = ir_ID r' \<and> record_key r = record_key r'))"

definition idem_evolves :: "('p, 'v) idem_codec \<Rightarrow> ('x, 'p, 'v) idem_world \<Rightarrow> ('x, 'p, 'v) idem_world \<Rightarrow> bool" where
  "idem_evolves J w w' \<longleftrightarrow> (idem_inv J w \<longrightarrow> idem_inv J w') \<and> iw_now w \<le> iw_now w' \<and> next_id w \<le> next_id w' \<and>
     (iw_late w \<longrightarrow> iw_late w') \<and> iw_aged w \<subseteq> iw_aged w' \<and> set (iw_log w) \<subseteq> set (iw_log w') \<and> same_records w w'"

definition idem_rely :: "('p, 'v) idem_codec \<Rightarrow> nat \<Rightarrow> ('x, 'p, 'v) idem_world \<Rightarrow> ('x, 'p, 'v) idem_world \<Rightarrow> bool" where
  "idem_rely J i w w' \<longleftrightarrow> idem_evolves J w w' \<and> (\<forall>rid. iw_claims w' rid i = iw_claims w rid i)"

definition claims_something :: "nat \<Rightarrow> ('x, 'p, 'v) idem_world \<Rightarrow> bool" where
  "claims_something i w \<longleftrightarrow> (\<exists>rid. iw_claims w rid i \<noteq> None)"

definition idem_guar :: "('p, 'v) idem_codec \<Rightarrow> nat \<Rightarrow> ('x, 'p, 'v) idem_world \<Rightarrow> ('x, 'p, 'v) idem_world \<Rightarrow> bool" where
  "idem_guar J i w w' \<longleftrightarrow> idem_evolves J w w' \<and> (\<forall>j rid. j \<noteq> i \<longrightarrow> iw_claims w' rid j = iw_claims w rid j) \<and>
     (iw_app w' \<noteq> iw_app w \<longrightarrow> claims_something i w)"

text \<open>By itself only the clock moves on.\<close>

definition idem_env :: "('x, 'p, 'v) idem_world \<Rightarrow> ('x, 'p, 'v) idem_world \<Rightarrow> bool" where
  "idem_env w w' \<longleftrightarrow> (\<exists>t \<ge> iw_now w. w' = settle (w\<lparr>iw_now := t\<rparr>))"

lemma same_records_refl [simp]: "same_records w w"
  by (auto simp: same_records_def)

lemma same_records_trans:
  assumes "same_records w w'" and "same_records w' w''" and "next_id w \<le> next_id w'"
  shows "same_records w w''"
  using assms unfolding same_records_def by (metis order.strict_trans2)

lemma idem_evolves_refl [simp]: "idem_evolves J w w"
  by (simp add: idem_evolves_def)

lemma idem_evolves_trans: "idem_evolves J w w' \<Longrightarrow> idem_evolves J w' w'' \<Longrightarrow> idem_evolves J w w''"
  unfolding idem_evolves_def by (meson order.trans same_records_trans)

lemma settle_simps [simp]:
  "iw_db (settle w) = iw_db w" "iw_now (settle w) = iw_now w" "iw_app (settle w) = iw_app w"
  "iw_sent (settle w) = iw_sent w" "iw_claims (settle w) = iw_claims w" "iw_late (settle w) = iw_late w"
  "iw_log (settle w) = iw_log w" "iw_aged (settle w) = iw_aged w \<union> expired_rows (iw_now w) (iw_db w)"
  "live (settle w) = live w"
  by (simp_all add: settle_def live_def fun_eq_iff cong: option.case_cong)

lemma idem_env_evolves:
  assumes "idem_env w w'"
  shows "idem_evolves J w w'"
proof -
  from assms obtain t where t: "iw_now w \<le> t" and w': "w' = settle (w\<lparr>iw_now := t\<rparr>)"
    by (auto simp: idem_env_def)
  have live: "live w rid i" if "live w' rid i" for rid i
    using that t by (auto simp: w' live_def split: option.splits)
  have "idem_inv J w'" if "idem_inv J w"
  proof -
    have "claims_ok w'" if "claims_ok w"
    proof -
      have "held w' rid d" if "iw_claims w rid i = Some d" "t < d" for rid i d
        using that t \<open>claims_ok w\<close> by (auto simp: claims_ok_def held_def w')
      moreover have "i = j" if "live w' rid i" "live w' rid j" for rid i j
        using live [OF that(1)] live [OF that(2)] \<open>claims_ok w\<close> unfolding claims_ok_def by blast
      ultimately show ?thesis by (simp add: claims_ok_def w')
    qed
    moreover have "lives_ok w'" if "lives_ok w"
      using that by (auto simp: lives_ok_def w' history_def)
    ultimately show ?thesis
      using that by (auto simp: idem_inv_def w' table_ok_def stored_ok_def sent_ok_def)
  qed
  then show ?thesis using t by (auto simp: idem_evolves_def w' same_records_def)
qed

interpretation idem: rely_guarantee "idem_rely J" "idem_guar J" "idem_inv J" idem_env for J
proof
  show "idem_rely J i w w' \<Longrightarrow> idem_rely J i w' w'' \<Longrightarrow> idem_rely J i w w''" for i w w' w''
    by (auto simp: idem_rely_def intro: idem_evolves_trans)
  show "idem_rely J i w w'" if "idem_env w w'" for i w w'
    using that idem_env_evolves [OF that] by (auto simp: idem_rely_def idem_env_def)
  then show "idem_inv J w \<Longrightarrow> idem_env w w' \<Longrightarrow> idem_inv J w'" for w w'
    by (auto simp: idem_rely_def idem_evolves_def)
qed (auto simp: idem_rely_def idem_guar_def idem_evolves_def)

section \<open>Changes of the table\<close>

lemma live_iff: "live w rid i \<longleftrightarrow> (\<exists>d. iw_claims w rid i = Some d \<and> iw_now w < d)"
  by (auto simp: live_def split: option.splits)

lemma claims_below: "table_ok w \<Longrightarrow> iw_claims w rid i \<noteq> None \<Longrightarrow> rid < next_id w"
  unfolding table_ok_def by blast

lemma claims_unique: "claims_ok w \<Longrightarrow> live w rid i \<Longrightarrow> live w rid j \<Longrightarrow> i = j"
  unfolding claims_ok_def by blast

lemma row_unique: "table_ok w \<Longrightarrow> r \<in> set (rows w) \<Longrightarrow> r' \<in> set (rows w) \<Longrightarrow> ir_ID r = ir_ID r' \<Longrightarrow> r = r'"
  by (auto simp: table_ok_def distinct_map dest: inj_onD)

text \<open>A step of call \<open>i\<close> that leaves the clock, the application and the responses alone.\<close>

lemma changed_guar:
  assumes inv: "idem_inv J w"
    and same: "iw_now w1 = iw_now w" "iw_app w1 = iw_app w" "iw_sent w1 = iw_sent w" "iw_aged w1 = iw_aged w"
    and grows: "next_id w \<le> next_id w1" "iw_late w \<Longrightarrow> iw_late w1" "set (iw_log w) \<subseteq> set (iw_log w1)" "same_records w w1"
    and others: "\<And>j rid. j \<noteq> i \<Longrightarrow> iw_claims w1 rid j = iw_claims w rid j"
    and new: "table_ok w1" "stored_ok w1" "\<not> iw_late w1 \<Longrightarrow> claims_ok w1" "\<not> iw_late w1 \<Longrightarrow> lives_ok w1"
  shows "idem_guar J i w (settle w1)"
proof -
  have "sent_ok J (settle w1)"
    using inv grows(3) unfolding idem_inv_def sent_ok_def settle_simps same by blast
  moreover have "table_ok (settle w1)" "stored_ok (settle w1)"
    using new(1,2) by (simp_all add: table_ok_def stored_ok_def)
  moreover have "claims_ok (settle w1)" if "\<not> iw_late w1"
    using new(3) [OF that] by (simp add: claims_ok_def held_def)
  moreover have "lives_ok (settle w1)" if "\<not> iw_late w1"
    using new(4) [OF that] by (simp add: lives_ok_def history_def)
  ultimately have "idem_inv J (settle w1)"
    by (simp add: idem_inv_def)
  with grows others same show ?thesis
    by (auto simp: idem_guar_def idem_evolves_def same_records_def)
qed

definition keeps_keys :: "(IdempotencyRecord \<Rightarrow> IdempotencyRecord) \<Rightarrow> bool" where
  "keeps_keys f \<longleftrightarrow> (\<forall>r. ir_ID (f r) = ir_ID r \<and> record_key (f r) = record_key r)"

definition change_row :: "int \<Rightarrow> (IdempotencyRecord \<Rightarrow> IdempotencyRecord) \<Rightarrow> IdempotencyRecord \<Rightarrow> IdempotencyRecord" where
  "change_row rid f r = (if ir_ID r = rid then f r else r)"

lemma change_row_keys:
  assumes "keeps_keys f"
  shows "ir_ID (change_row rid f r) = ir_ID r" "ir_Scope (change_row rid f r) = ir_Scope r"
    "ir_IdempotencyKeyHash (change_row rid f r) = ir_IdempotencyKeyHash r"
    "ir_RequestFingerprint (change_row rid f r) = ir_RequestFingerprint r"
  using assms by (auto simp: keeps_keys_def change_row_def record_key_def)

locale row_step =
  fixes w w1 :: "('x, 'p, 'v) idem_world" and rid :: int and f :: "IdempotencyRecord \<Rightarrow> IdempotencyRecord"
  assumes changed: "rows w1 = map (change_row rid f) (rows w)"
    and keys: "keeps_keys f"
    and same_next: "next_id w1 = next_id w"
    and same_now: "iw_now w1 = iw_now w"
    and same_aged: "iw_aged w1 = iw_aged w"
    and other_claims: "rid' \<noteq> rid \<Longrightarrow> iw_claims w1 rid' = iw_claims w rid'"
begin

lemma same_records: "same_records w w1"
  by (auto simp: same_records_def changed change_row_keys [OF keys] record_key_def)

lemma table_ok:
  assumes "table_ok w" and "rid < next_id w"
    and "\<And>e. e \<in> set (iw_log w1) \<Longrightarrow> e \<in> set (iw_log w) \<or> event_row e = rid"
  shows "table_ok w1"
proof -
  have "rid' < next_id w" if "iw_claims w1 rid' i \<noteq> None" for rid' i
  proof (cases "rid' = rid")
    case False
    with that have "iw_claims w rid' i \<noteq> None" using other_claims by metis
    with assms(1) show ?thesis unfolding table_ok_def by blast
  qed (use assms(2) in simp)
  moreover have "event_row e < next_id w" if "e \<in> set (iw_log w1)" for e
    using assms(3) [OF that] assms(1,2) by (auto simp: table_ok_def)
  ultimately show ?thesis
    using assms(1) by (auto simp: table_ok_def changed same_next comp_def change_row_keys [OF keys])
qed

lemma held_other: "rid' \<noteq> rid \<Longrightarrow> held w1 rid' d = held w rid' d"
  by (auto simp: held_def changed change_row_keys [OF keys]) (auto simp: change_row_def split: if_splits)

lemma claims_ok:
  assumes "claims_ok w"
    and "\<And>j d. iw_claims w1 rid j = Some d \<Longrightarrow> iw_now w < d \<Longrightarrow> held w1 rid d"
    and "\<And>j k. live w1 rid j \<Longrightarrow> live w1 rid k \<Longrightarrow> j = k"
  shows "claims_ok w1"
proof -
  have "held w1 rid' d" if "iw_claims w1 rid' j = Some d" "iw_now w < d" for rid' j d
    using that assms(1,2) other_claims [of rid']
    by (cases "rid' = rid") (auto simp: claims_ok_def held_other)
  moreover have "j = k" if "live w1 rid' j" "live w1 rid' k" for rid' j k
  proof (cases "rid' = rid")
    case False
    then have "live w rid' j" "live w rid' k"
      using that other_claims [OF False] by (simp_all add: live_iff same_now)
    with assms(1) show ?thesis unfolding claims_ok_def by blast
  qed (use that assms(3) in blast)
  ultimately show ?thesis by (simp add: claims_ok_def same_now)
qed

lemma lives_ok:
  assumes "lives_ok w" and "iw_log w1 = iw_log w @ [e]" and "event_row e = rid"
    and "\<And>r. r \<in> set (rows w) \<Longrightarrow> ir_ID r = rid \<Longrightarrow> rid \<notin> iw_aged w \<Longrightarrow>
      ir_Scope r \<noteq> systemOperationLockScope \<Longrightarrow> life_step (ir_Status r) e = Some (ir_Status (f r))"
  shows "lives_ok w1"
  unfolding lives_ok_def
proof (intro ballI impI)
  fix r'
  assume "r' \<in> set (rows w1)" and unaged: "ir_ID r' \<notin> iw_aged w1" and scope: "ir_Scope r' \<noteq> systemOperationLockScope"
  then obtain r where r: "r \<in> set (rows w)" "r' = change_row rid f r" by (auto simp: changed)
  then have "run_check life_step [] (history w (ir_ID r)) = Some (ir_Status r)"
    using assms(1) unaged scope by (auto simp: lives_ok_def change_row_keys [OF keys] same_aged)
  with assms(2-4) r unaged scope show "run_check life_step [] (history w1 (ir_ID r')) = Some (ir_Status r')"
    by (auto simp: history_def change_row_keys [OF keys] same_aged run_check_append) (auto simp: change_row_def)
qed

lemma stored_ok:
  assumes "stored_ok w" and "set (iw_log w) \<subseteq> set (iw_log w1)"
    and "\<And>r. r \<in> set (rows w) \<Longrightarrow> ir_ID r = rid \<Longrightarrow> ir_Status (f r) = IdempotencyStatusSucceeded \<Longrightarrow>
      \<exists>s. StoredSuccess s \<in> set (iw_log w1) \<and> stored_for (f r) s"
  shows "stored_ok w1"
  unfolding stored_ok_def
proof (intro ballI impI)
  fix r'
  assume "r' \<in> set (rows w1)" and st: "ir_Status r' = IdempotencyStatusSucceeded"
  then obtain r where r: "r \<in> set (rows w)" "r' = change_row rid f r" by (auto simp: changed)
  show "\<exists>s. StoredSuccess s \<in> set (iw_log w1) \<and> stored_for r' s"
  proof (cases "ir_ID r = rid")
    case True
    with r st assms(3) show ?thesis by (auto simp: change_row_def)
  next
    case False
    with r st assms(1,2) show ?thesis by (auto simp: change_row_def stored_ok_def)
  qed
qed

end

section \<open>The statements keep the invariant\<close>

named_theorems row_changes \<open>what a statement does to the row it names\<close>

definition free_at :: "int \<Rightarrow> IdempotencyRecord \<Rightarrow> bool" where
  "free_at now r \<longleftrightarrow> (case ir_LockedUntil r of None \<Rightarrow> True | Some l \<Rightarrow> l \<le> now)"

definition reclaim_change :: "int \<Rightarrow> string \<Rightarrow> int \<Rightarrow> int \<Rightarrow> int \<Rightarrow> IdempotencyRecord \<Rightarrow> IdempotencyRecord" where
  "reclaim_change t fromStatus now newLockedUntil newExpiresAt r =
     (if ir_Status r = fromStatus \<and> free_at now r
      then r\<lparr>ir_Status := IdempotencyStatusProcessing, ir_LockedUntil := Some newLockedUntil,
             ir_ErrorReason := None, ir_UpdatedAt := t, ir_ExpiresAt := newExpiresAt\<rparr> else r)"

definition extend_change :: "int \<Rightarrow> string \<Rightarrow> int \<Rightarrow> int \<Rightarrow> IdempotencyRecord \<Rightarrow> IdempotencyRecord" where
  "extend_change t requestFingerprint newLockedUntil newExpiresAt r =
     (if ir_Status r = IdempotencyStatusProcessing \<and> ir_RequestFingerprint r = requestFingerprint
      then r\<lparr>ir_LockedUntil := Some newLockedUntil, ir_ExpiresAt := newExpiresAt, ir_UpdatedAt := t\<rparr> else r)"

definition succeed_change :: "int \<Rightarrow> int \<Rightarrow> string \<Rightarrow> int \<Rightarrow> IdempotencyRecord \<Rightarrow> IdempotencyRecord" where
  "succeed_change t responseStatus responseBody expiresAt r =
     r\<lparr>ir_Status := IdempotencyStatusSucceeded, ir_ResponseStatus := Some responseStatus,
       ir_ResponseBody := Some responseBody, ir_ErrorReason := None, ir_LockedUntil := None,
       ir_ExpiresAt := expiresAt, ir_UpdatedAt := t\<rparr>"

definition fail_change :: "int \<Rightarrow> string \<Rightarrow> int \<Rightarrow> int \<Rightarrow> IdempotencyRecord \<Rightarrow> IdempotencyRecord" where
  "fail_change t errorReason lockedUntil expiresAt r =
     r\<lparr>ir_Status := IdempotencyStatusFailedRetryable, ir_ErrorReason := Some errorReason,
       ir_LockedUntil := Some lockedUntil, ir_ExpiresAt := expiresAt, ir_UpdatedAt := t\<rparr>"

lemmas [row_changes] = reclaim_change_def extend_change_def succeed_change_def fail_change_def

lemma changes_keep_keys [simp]:
  "keeps_keys (reclaim_change t fromStatus now l e)" "keeps_keys (extend_change t fp l e)"
  "keeps_keys (succeed_change t st b e)" "keeps_keys (fail_change t reason l e)"
  by (simp_all add: keeps_keys_def row_changes record_key_def)

lemma try_reclaim_eq:
  "try_reclaim t rid fromStatus now l e db =
     (db\<lparr>db_rows := map (change_row rid (reclaim_change t fromStatus now l e)) (db_rows db)\<rparr>,
      \<exists>r \<in> set (db_rows db). ir_ID r = rid \<and> ir_Status r = fromStatus \<and> free_at now r)"
  by (auto simp: try_reclaim_def update_records_def change_row_def reclaim_change_def free_at_def filter_empty_conv)

lemma extend_lock_eq:
  "extend_lock t rid fp l e db =
     (db\<lparr>db_rows := map (change_row rid (extend_change t fp l e)) (db_rows db)\<rparr>,
      \<exists>r \<in> set (db_rows db). ir_ID r = rid \<and> ir_Status r = IdempotencyStatusProcessing \<and> ir_RequestFingerprint r = fp)"
  by (auto simp: extend_lock_def update_records_def change_row_def extend_change_def filter_empty_conv)

lemma mark_succeeded_eq:
  "mark_succeeded t rid st b e db = db\<lparr>db_rows := map (change_row rid (succeed_change t st b e)) (db_rows db)\<rparr>"
  by (simp add: mark_succeeded_def update_records_def change_row_def [abs_def] succeed_change_def)

lemma mark_failed_eq:
  "mark_failed t rid reason l e db =
     (if fits_column 128 reason
      then Some (db\<lparr>db_rows := map (change_row rid (fail_change t reason l e)) (db_rows db)\<rparr>) else None)"
  by (simp add: mark_failed_def update_records_def change_row_def [abs_def] fail_change_def)

lemmas table_statements = try_reclaim_eq extend_lock_eq mark_succeeded_eq mark_failed_eq

lemmas history_defs = begin_claim_def end_claim_def set_claim_def noted_def

text \<open>The world after each statement, without the answer.\<close>

abbreviation after_reclaim where
  "after_reclaim rid fromStatus now l e i w \<equiv> fst (the (do_reclaim rid fromStatus now l e i w))"

abbreviation after_extend where
  "after_extend rid fp l e i w \<equiv> fst (the (do_extend rid fp l e i w))"

abbreviation after_succeed where
  "after_succeed who rid st b e i w \<equiv> fst (the (do_succeed who rid st b e i w))"

definition after_fail ::
    "int \<Rightarrow> string \<Rightarrow> int \<Rightarrow> int \<Rightarrow> nat \<Rightarrow> ('x, 'p, 'v) idem_world \<Rightarrow> ('x, 'p, 'v) idem_world" where
  "after_fail rid reason l e i w =
     end_claim rid i (StoredFailure rid)
       (w\<lparr>iw_db := (iw_db w)\<lparr>db_rows := map (change_row rid (fail_change (iw_now w) reason l e)) (rows w)\<rparr>\<rparr>)"

interpretation reclaimed: row_step w "after_reclaim rid fromStatus now l e i w" rid
    "reclaim_change (iw_now w) fromStatus now l e" for w rid fromStatus now l e i
  by unfold_locales (auto simp: do_reclaim_def table_statements history_defs)

interpretation extended: row_step w "after_extend rid fp l e i w" rid "extend_change (iw_now w) fp l e" for w rid fp l e i
  by unfold_locales (auto simp: do_extend_def table_statements history_defs)

interpretation succeeded: row_step w "after_succeed who rid st b e i w" rid "succeed_change (iw_now w) st b e"
    for w who rid st b e i
  by unfold_locales (auto simp: do_succeed_def table_statements history_defs split: prod.splits)

interpretation failed: row_step w "after_fail rid reason l e i w" rid "fail_change (iw_now w) reason l e" for w rid reason l e i
  by unfold_locales (auto simp: after_fail_def history_defs)

lemma idem_inv_parts:
  assumes "idem_inv J w"
  shows "table_ok w" "expired_rows (iw_now w) (iw_db w) \<subseteq> iw_aged w" "stored_ok w" "sent_ok J w"
    "\<not> iw_late w \<Longrightarrow> claims_ok w" "\<not> iw_late w \<Longrightarrow> lives_ok w"
  using assms by (simp_all add: idem_inv_def)

lemma settle_guar: "idem_inv J w \<Longrightarrow> idem_guar J i w (settle w)"
  by (rule changed_guar) (simp_all add: idem_inv_parts)

lemma live_row:
  assumes "table_ok w" and "claims_ok w" and "live w rid j" and "r \<in> set (rows w)" and "ir_ID r = rid"
  shows "ir_Status r = IdempotencyStatusProcessing" "now \<le> iw_now w \<Longrightarrow> \<not> free_at now r" "iw_now w < ir_ExpiresAt r"
proof -
  from assms(3) obtain d where d: "iw_claims w rid j = Some d" "iw_now w < d" by (auto simp: live_iff)
  with assms(2) obtain r' where r': "r' \<in> set (rows w)" "ir_ID r' = rid"
      "ir_Status r' = IdempotencyStatusProcessing" "d \<le> ir_ExpiresAt r'"
      and "\<exists>l. ir_LockedUntil r' = Some l \<and> d \<le> l"
    unfolding claims_ok_def held_def by blast
  moreover have "r' = r" using row_unique [OF assms(1) r'(1) assms(4)] r'(2) assms(5) by simp
  ultimately show "ir_Status r = IdempotencyStatusProcessing" "now \<le> iw_now w \<Longrightarrow> \<not> free_at now r"
      "iw_now w < ir_ExpiresAt r"
    using d by (auto simp: free_at_def)
qed

text \<open>The rows a reclaim may be tried on: failed ones, expired ones, the row of the lock.\<close>

definition may_reclaim :: "int \<Rightarrow> string \<Rightarrow> ('x, 'p, 'v) idem_world \<Rightarrow> bool" where
  "may_reclaim rid fromStatus w \<longleftrightarrow> rid < next_id w \<and>
     (fromStatus = IdempotencyStatusFailedRetryable \<or> rid \<in> iw_aged w \<or>
      (\<forall>r \<in> set (rows w). ir_ID r = rid \<longrightarrow> ir_Scope r = systemOperationLockScope))"

lemma reclaim_none:
  assumes "\<not> (\<exists>r \<in> set (rows w). ir_ID r = rid \<and> ir_Status r = fromStatus \<and> free_at now r)"
  shows "after_reclaim rid fromStatus now l e i w = w"
proof -
  have "map (change_row rid (reclaim_change (iw_now w) fromStatus now l e)) (rows w) = rows w"
    using assms by (intro map_idI) (auto simp: change_row_def reclaim_change_def)
  with assms show ?thesis by (auto simp: do_reclaim_def table_statements)
qed

lemma reclaim_guar:
  assumes inv: "idem_inv J w" and may: "may_reclaim rid fromStatus w" and now: "now \<le> iw_now w"
  shows "idem_guar J i w (settle (after_reclaim rid fromStatus now l e i w))"
proof (cases "\<exists>r \<in> set (rows w). ir_ID r = rid \<and> ir_Status r = fromStatus \<and> free_at now r")
  case False
  then show ?thesis using settle_guar [OF inv] by (simp add: reclaim_none)
next
  case True
  then obtain r where r: "r \<in> set (rows w)" "ir_ID r = rid" "ir_Status r = fromStatus" "free_at now r" by blast
  let ?w = "after_reclaim rid fromStatus now l e i w"
  have w: "iw_log ?w = iw_log w @ [Claimed rid]" "iw_late ?w = iw_late w"
      "iw_claims ?w rid = (iw_claims w rid)(i := Some (min l e))" "iw_app ?w = iw_app w" "iw_sent ?w = iw_sent w"
    using r by (auto simp: do_reclaim_def table_statements history_defs)
  note tbl = idem_inv_parts(1) [OF inv]
  have only: "r' = r" if "r' \<in> set (rows w)" "ir_ID r' = rid" for r'
    using row_unique [OF tbl that(1) r(1)] that(2) r(2) by simp
  have r1: "reclaim_change (iw_now w) fromStatus now l e r \<in> set (rows ?w)"
    using r(1,2) unfolding reclaimed.changed by (force simp: change_row_def)
  show ?thesis
  proof (rule changed_guar [OF inv])
    show "table_ok ?w" by (rule reclaimed.table_ok [OF tbl]) (use may in \<open>auto simp: w may_reclaim_def\<close>)
    show "stored_ok ?w"
    proof (rule reclaimed.stored_ok [OF idem_inv_parts(3) [OF inv]])
      fix r'
      assume "r' \<in> set (rows w)" "ir_ID r' = rid"
        and st: "ir_Status (reclaim_change (iw_now w) fromStatus now l e r') = IdempotencyStatusSucceeded"
      then have "r' = r" by (intro only)
      with st r(3,4) show "\<exists>s. StoredSuccess s \<in> set (iw_log ?w) \<and>
          stored_for (reclaim_change (iw_now w) fromStatus now l e r') s"
        by (simp add: reclaim_change_def)
    qed (auto simp: w)
    show "claims_ok ?w" if "\<not> iw_late ?w"
    proof -
      have ok: "claims_ok w" using that inv by (simp add: w idem_inv_parts)
      have dead: "\<not> live w rid j" for j using live_row(2) [OF tbl ok _ r(1,2) now] r(4) by blast
      show ?thesis
      proof (rule reclaimed.claims_ok [OF ok])
        fix j d
        assume "iw_claims ?w rid j = Some d" "iw_now w < d"
        with dead [of j] have "d = min l e" by (auto simp: w(3) live_iff split: if_splits)
        with r1 r(2-4) show "held ?w rid d"
          unfolding held_def by (intro bexI [OF _ r1]) (simp add: reclaim_change_def)
      next
        fix j k
        assume "live ?w rid j" "live ?w rid k"
        with dead [of j] dead [of k] show "j = k"
          by (auto simp: live_iff w(3) reclaimed.same_now split: if_splits)
      qed
    qed
    show "lives_ok ?w" if "\<not> iw_late ?w"
    proof (rule reclaimed.lives_ok [OF _ w(1)])
      show "lives_ok w" using that inv by (simp add: w idem_inv_parts)
      fix r'
      assume "r' \<in> set (rows w)" "ir_ID r' = rid" "rid \<notin> iw_aged w" "ir_Scope r' \<noteq> systemOperationLockScope"
      with may r(3) only [of r'] show "life_step (ir_Status r') (Claimed rid)
          = Some (ir_Status (reclaim_change (iw_now w) fromStatus now l e r'))"
        using r(4) by (auto simp: may_reclaim_def reclaim_change_def)
    qed simp
    show "iw_claims ?w rid' j = iw_claims w rid' j" if "j \<noteq> i" for j rid'
      using that by (cases "rid' = rid") (simp_all add: w(3) reclaimed.other_claims)
  qed (auto simp: w reclaimed.same_now reclaimed.same_aged reclaimed.same_next reclaimed.same_records)
qed

lemma extend_guar:
  assumes inv: "idem_inv J w" and rid: "rid < next_id w"
  shows "idem_guar J i w (settle (after_extend rid fp l e i w))"
proof -
  let ?w = "after_extend rid fp l e i w"
  define ok where "ok = (\<exists>r \<in> set (rows w). ir_ID r = rid \<and> ir_Status r = IdempotencyStatusProcessing \<and>
    ir_RequestFingerprint r = fp)"
  have w: "iw_log ?w = iw_log w" "iw_late ?w = (iw_late w \<or> ok \<and> \<not> live w rid i)" "iw_app ?w = iw_app w"
      "iw_sent ?w = iw_sent w"
      "iw_claims ?w rid = (if ok \<and> live w rid i then (iw_claims w rid)(i := Some (min l e)) else iw_claims w rid)"
    by (auto simp: do_extend_def table_statements history_defs ok_def)
  note tbl = idem_inv_parts(1) [OF inv]
  show ?thesis
  proof (rule changed_guar [OF inv])
    show "table_ok ?w" by (rule extended.table_ok [OF tbl rid]) (simp add: w)
    show "stored_ok ?w"
    proof (rule extended.stored_ok [OF idem_inv_parts(3) [OF inv]])
      fix r
      assume "r \<in> set (rows w)" "ir_Status (extend_change (iw_now w) fp l e r) = IdempotencyStatusSucceeded"
      with idem_inv_parts(3) [OF inv] show "\<exists>s. StoredSuccess s \<in> set (iw_log ?w) \<and>
          stored_for (extend_change (iw_now w) fp l e r) s"
        by (auto simp: w(1) stored_ok_def extend_change_def split: if_splits)
    qed (simp add: w)
    show "claims_ok ?w" if nl: "\<not> iw_late ?w"
    proof (cases ok)
      case True
      with nl have mine: "live w rid i" and ok: "claims_ok w" using inv by (simp_all add: w idem_inv_parts)
      have others: "\<not> live w rid j" if "j \<noteq> i" for j using mine ok that unfolding claims_ok_def by blast
      from True obtain r where r: "r \<in> set (rows w)" "ir_ID r = rid" "ir_Status r = IdempotencyStatusProcessing"
          "ir_RequestFingerprint r = fp" by (auto simp: ok_def)
      then have r1: "extend_change (iw_now w) fp l e r \<in> set (rows ?w)"
        unfolding extended.changed by (force simp: change_row_def)
      show ?thesis
      proof (rule extended.claims_ok [OF ok])
        fix j d
        assume "iw_claims ?w rid j = Some d" "iw_now w < d"
        with others [of j] True mine have "d = min l e" by (auto simp: w(5) live_iff split: if_splits)
        with r1 r(2-4) show "held ?w rid d"
          unfolding held_def by (intro bexI [OF _ r1]) (simp add: extend_change_def)
      next
        fix j k
        assume "live ?w rid j" "live ?w rid k"
        with others [of j] others [of k] True mine show "j = k"
          by (auto simp: live_iff w(5) extended.same_now split: if_splits)
      qed
    next
      case False
      then have "rows ?w = rows w"
        unfolding extended.changed by (intro map_idI) (auto simp: change_row_def extend_change_def ok_def)
      moreover have "iw_claims ?w = iw_claims w"
      proof
        show "iw_claims ?w rid' = iw_claims w rid'" for rid'
          using False by (cases "rid' = rid") (simp_all add: w(5) extended.other_claims)
      qed
      moreover have "claims_ok w" using nl inv by (simp add: w idem_inv_parts)
      ultimately show ?thesis by (simp add: claims_ok_def held_def live_iff extended.same_now)
    qed
    show "lives_ok ?w" if "\<not> iw_late ?w"
    proof -
      have "lives_ok w" using that inv by (simp add: w idem_inv_parts)
      then show ?thesis
        by (auto simp: lives_ok_def extended.changed change_row_keys extended.same_aged history_def w(1))
           (auto simp: change_row_def extend_change_def)
    qed
    show "iw_claims ?w rid' j = iw_claims w rid' j" if "j \<noteq> i" for j rid'
      using that by (cases "rid' = rid") (simp_all add: w(5) extended.other_claims)
  qed (auto simp: w extended.same_now extended.same_aged extended.same_next extended.same_records)
qed

text \<open>A statement that ends the claim of call \<open>i\<close>.\<close>

lemma end_guar:
  assumes inv: "idem_inv J w" and rid: "rid < next_id w" and step: "row_step w w1 rid f"
    and w: "iw_log w1 = iw_log w @ [e]" "iw_late w1 = (iw_late w \<or> \<not> live w rid i)"
      "iw_claims w1 rid = (iw_claims w rid)(i := None)" "iw_app w1 = iw_app w" "iw_sent w1 = iw_sent w"
    and e: "event_row e = rid"
    and life: "\<And>r. ir_Status r = IdempotencyStatusProcessing \<Longrightarrow> life_step (ir_Status r) e = Some (ir_Status (f r))"
    and stored: "\<And>r. r \<in> set (rows w) \<Longrightarrow> ir_ID r = rid \<Longrightarrow> ir_Status (f r) = IdempotencyStatusSucceeded \<Longrightarrow>
      \<exists>s. StoredSuccess s \<in> set (iw_log w1) \<and> stored_for (f r) s"
  shows "idem_guar J i w (settle w1)"
proof (rule changed_guar [OF inv])
  note tbl = idem_inv_parts(1) [OF inv]
  show "table_ok w1" by (rule row_step.table_ok [OF step tbl rid]) (auto simp: w e)
  show "stored_ok w1"
    by (rule row_step.stored_ok [OF step idem_inv_parts(3) [OF inv] _ stored]) (auto simp: w)
  show "claims_ok w1" if nl: "\<not> iw_late w1"
  proof -
    from nl have mine: "live w rid i" and ok: "claims_ok w" using inv by (simp_all add: w idem_inv_parts)
    have others: "\<not> live w rid j" if "j \<noteq> i" for j using mine ok that unfolding claims_ok_def by blast
    show ?thesis
    proof (rule row_step.claims_ok [OF step ok])
      fix j d
      assume "iw_claims w1 rid j = Some d" "iw_now w < d"
      with others [of j] show "held w1 rid d" by (auto simp: w(3) live_iff split: if_splits)
    next
      fix j k
      assume "live w1 rid j"
      with others [of j] show "j = k" by (auto simp: live_iff w(3) row_step.same_now [OF step] split: if_splits)
    qed
  qed
  show "lives_ok w1" if nl: "\<not> iw_late w1"
  proof (rule row_step.lives_ok [OF step _ w(1) e])
    from nl have mine: "live w rid i" and ok: "claims_ok w" using inv by (simp_all add: w idem_inv_parts)
    show "lives_ok w" using nl inv by (simp add: w idem_inv_parts)
    show "life_step (ir_Status r) e = Some (ir_Status (f r))" if "r \<in> set (rows w)" "ir_ID r = rid" for r
      by (rule life) (rule live_row(1) [OF tbl ok mine that])
  qed
  show "iw_claims w1 rid' j = iw_claims w rid' j" if "j \<noteq> i" for j rid'
    using that by (cases "rid' = rid") (simp_all add: w(3) row_step.other_claims [OF step])
qed (auto simp: w row_step.same_now [OF step] row_step.same_aged [OF step] row_step.same_next [OF step]
    row_step.same_records [OF step])

text \<open>What a call knows of the record it has claimed: its row, if it still exists, has its key.\<close>

definition own_record :: "int \<Rightarrow> (string \<times> string \<times> string \<Rightarrow> bool) \<Rightarrow> ('x, 'p, 'v) idem_world \<Rightarrow> bool" where
  "own_record rid P w \<longleftrightarrow> rid < next_id w \<and> (\<forall>r \<in> set (rows w). ir_ID r = rid \<longrightarrow> P (record_key r))"

definition stores_for :: "string \<times> string \<times> string \<Rightarrow> string \<times> string \<times> string \<Rightarrow> bool" where
  "stores_for who k \<longleftrightarrow> fst k = fst who \<and> fst (snd k) = fst (snd who) \<and>
     (fst k \<noteq> systemOperationLockScope \<longrightarrow> snd (snd k) = snd (snd who))"

lemma succeed_guar:
  assumes inv: "idem_inv J w" and own: "own_record rid (stores_for who) w"
  shows "idem_guar J i w (settle (after_succeed who rid st b e i w))"
proof -
  obtain scope h fp where who: "who = (scope, h, fp)" by (cases who)
  define s where "s = \<lparr>su_row = rid, su_scope = scope, su_hash = h, su_fingerprint = fp, su_body = b\<rparr>"
  show ?thesis
  proof (rule end_guar [OF inv _ succeeded.row_step_axioms, where e = "StoredSuccess s"])
    fix r
    assume "r \<in> set (rows w)" "ir_ID r = rid"
    with own have "stored_for (succeed_change (iw_now w) st b e r) s"
      by (auto simp: own_record_def stores_for_def record_key_def who stored_for_def s_def succeed_change_def)
    then show "\<exists>s'. StoredSuccess s' \<in> set (iw_log (after_succeed who rid st b e i w)) \<and>
        stored_for (succeed_change (iw_now w) st b e r) s'"
      by (intro exI [of _ s]) (simp add: do_succeed_def who history_defs s_def)
  qed (use own in \<open>simp_all add: do_succeed_def who history_defs s_def own_record_def succeed_change_def live_iff\<close>)
qed

lemma fail_guar:
  assumes inv: "idem_inv J w" and rid: "rid < next_id w"
  shows "idem_guar J i w (settle (after_fail rid reason l e i w))"
  by (rule end_guar [OF inv rid failed.row_step_axioms, where e = "StoredFailure rid"])
     (simp_all add: after_fail_def history_defs fail_change_def live_iff)

lemma delete_guar:
  assumes inv: "idem_inv J w" and now: "now \<le> iw_now w"
  shows "idem_guar J i w (settle (fst (the (do_delete now limit i w))))"
proof -
  let ?w = "fst (the (do_delete now limit i w))"
  define V where "V = set (map ir_ID (take (nat (if limit \<le> 0 then 500 else limit))
      (sort_key ir_ExpiresAt (filter (\<lambda>r. ir_ExpiresAt r \<le> now) (rows w)))))"
  have victims: "V \<subseteq> expired_rows now (iw_db w)"
    unfolding V_def expired_rows_def by (auto dest!: in_set_takeD)
  have w': "?w = w\<lparr>iw_db := (iw_db w)\<lparr>db_rows := filter (\<lambda>r. ir_ID r \<notin> V) (rows w)\<rparr>\<rparr>"
    unfolding V_def do_delete_def delete_expired_def Let_def by simp
  have V: "rows ?w = filter (\<lambda>r. ir_ID r \<notin> V) (rows w)"
    and w: "iw_log ?w = iw_log w" "iw_claims ?w = iw_claims w" "next_id ?w = next_id w" "iw_late ?w = iw_late w"
      "iw_now ?w = iw_now w" "iw_aged ?w = iw_aged w" "iw_app ?w = iw_app w" "iw_sent ?w = iw_sent w"
    unfolding w' by simp_all
  note tbl = idem_inv_parts(1) [OF inv]
  have table: "table_ok ?w"
    using tbl by (auto simp: table_ok_def V w distinct_map_filter)
  have held: "held ?w rid d" if "held w rid d" "iw_now w < d" for rid d
  proof -
    from that(1) obtain r where r: "r \<in> set (rows w)" "ir_ID r = rid" "ir_Status r = IdempotencyStatusProcessing"
        "\<exists>l. ir_LockedUntil r = Some l \<and> d \<le> l" "d \<le> ir_ExpiresAt r" by (auto simp: held_def)
    have "rid \<notin> V"
    proof
      assume "rid \<in> V"
      with victims obtain r' where "r' \<in> set (rows w)" "ir_ID r' = rid" "ir_ExpiresAt r' \<le> now"
        by (auto simp: expired_rows_def)
      with row_unique [OF tbl this(1) r(1)] r(2,5) now that(2) show False by simp
    qed
    with r show ?thesis by (auto simp: held_def V)
  qed
  show ?thesis
  proof (rule changed_guar [OF inv w(5,7,8,6)])
    show "claims_ok ?w" if "\<not> iw_late ?w"
    proof -
      have ok: "claims_ok w" using that inv by (simp add: w idem_inv_parts)
      then have "held ?w rid d" if "iw_claims w rid j = Some d" "iw_now w < d" for rid j d
        using held that unfolding claims_ok_def by blast
      moreover have "live ?w = live w" by (intro ext) (simp add: live_iff w)
      moreover have "j = k" if "live w rid j" "live w rid k" for rid j k
        using claims_unique [OF ok that] .
      ultimately show ?thesis by (simp add: claims_ok_def w)
    qed
    show "lives_ok ?w" if "\<not> iw_late ?w"
      using that idem_inv_parts(6) [OF inv] by (auto simp: lives_ok_def V w history_def)
    show "stored_ok ?w"
      using idem_inv_parts(3) [OF inv] by (auto simp: stored_ok_def V w)
    show "same_records w ?w" by (auto simp: same_records_def V)
  qed (simp_all add: w table)
qed

lemma create_guar:
  assumes inv: "idem_inv J w" and st: "ir_Status r = IdempotencyStatusProcessing"
    and lock: "ir_LockedUntil r = Some l" "d \<le> l" "d \<le> ir_ExpiresAt r"
    and created: "do_create r d i w = Some (w1, res)"
  shows "idem_guar J i w (settle w1)"
proof (cases res)
  case None
  with created have "w1 = w"
    by (auto simp: do_create_def insert_processing_def split: option.splits prod.splits if_splits)
  then show ?thesis using settle_guar [OF inv] by simp
next
  case (Some rid)
  have new: "find_record (ir_Scope r) (ir_IdempotencyKeyHash r) (iw_db w) = None" and rid: "rid = next_id w"
    using created Some by (auto simp: do_create_def insert_processing_def split: option.splits prod.splits if_splits)
  define x where "x = \<lparr>ir_ID = rid, ir_Scope = ir_Scope r, ir_IdempotencyKeyHash = ir_IdempotencyKeyHash r,
    ir_RequestFingerprint = ir_RequestFingerprint r, ir_Status = ir_Status r, ir_ResponseStatus = None,
    ir_ResponseBody = None, ir_ErrorReason = None, ir_LockedUntil = ir_LockedUntil r, ir_ExpiresAt = ir_ExpiresAt r,
    ir_CreatedAt = iw_now w, ir_UpdatedAt = iw_now w\<rparr>"
  have w1: "w1 = begin_claim rid i d (w\<lparr>iw_db := \<lparr>db_rows = rows w @ [x], db_next = next_id w + 1\<rparr>\<rparr>)"
    using created Some new rid unfolding do_create_def insert_processing_def x_def
    by (simp split: if_splits)
  have x: "rows w1 = rows w @ [x]" "ir_ID x = rid" "record_key x = record_key r"
      "ir_Status x = IdempotencyStatusProcessing" "ir_LockedUntil x = Some l" "ir_ExpiresAt x = ir_ExpiresAt r"
    using st lock(1) by (simp_all add: w1 history_defs) (simp_all add: x_def record_key_def)
  have w: "iw_log w1 = iw_log w @ [Claimed rid]" "next_id w1 = next_id w + 1" "iw_late w1 = iw_late w"
      "iw_claims w1 = (iw_claims w)(rid := (iw_claims w rid)(i := Some d))"
      "iw_now w1 = iw_now w" "iw_aged w1 = iw_aged w" "iw_app w1 = iw_app w" "iw_sent w1 = iw_sent w"
    unfolding w1 history_defs by simp_all
  note tbl = idem_inv_parts(1) [OF inv]
  have unclaimed: "iw_claims w rid j = None" for j
    using tbl unfolding rid table_ok_def by (metis less_irrefl)
  have fresh: "\<forall>r' \<in> set (rows w). ir_ID r' \<noteq> rid" "\<forall>e \<in> set (iw_log w). event_row e \<noteq> rid"
    using tbl unfolding rid table_ok_def by auto
  have key: "ir_Scope x = ir_Scope r" "ir_IdempotencyKeyHash x = ir_IdempotencyKeyHash r"
    using x(3) by (simp_all add: record_key_def)
  have pairs: "\<forall>r' \<in> set (rows w). (ir_Scope r', ir_IdempotencyKeyHash r') \<noteq> (ir_Scope r, ir_IdempotencyKeyHash r)"
    using new by (auto simp: find_record_def find_None_iff)
  show ?thesis
  proof (rule changed_guar [OF inv w(5,7,8,6)])
    show "table_ok w1"
      unfolding table_ok_def
    proof (intro conjI allI impI)
      show "distinct (map ir_ID (rows w1))"
        using tbl fresh(1) by (auto simp: table_ok_def x)
      show "distinct (map (\<lambda>r. (ir_Scope r, ir_IdempotencyKeyHash r)) (rows w1))"
        using tbl pairs by (auto simp: table_ok_def x(1) key)
      show "\<forall>r \<in> set (rows w1). ir_ID r < next_id w1" "\<forall>e \<in> set (iw_log w1). event_row e < next_id w1"
        using tbl by (auto simp: table_ok_def x(1,2) w rid)
      show "rid' < next_id w1" if "iw_claims w1 rid' j \<noteq> None" for rid' j
      proof (cases "rid' = rid")
        case False
        with that have "iw_claims w rid' j \<noteq> None" by (simp add: w(4))
        from claims_below [OF tbl this] show ?thesis by (simp add: w)
      qed (simp add: w rid)
    qed
    show "stored_ok w1"
      using idem_inv_parts(3) [OF inv] x(4) by (auto simp: stored_ok_def x(1) w(1))
    show "claims_ok w1" if "\<not> iw_late w1"
    proof -
      have ok: "claims_ok w" using that inv by (simp add: w idem_inv_parts)
      have "held w1 rid' d'" if "iw_claims w1 rid' j = Some d'" "iw_now w < d'" for rid' j d'
      proof (cases "rid' = rid")
        case True
        with that(1) unclaimed have "d' = d" by (auto simp: w(4) split: if_splits)
        with True x lock show ?thesis by (auto simp: held_def)
      next
        case False
        with that ok have "held w rid' d'" unfolding claims_ok_def w(4) by simp
        then show ?thesis by (auto simp: held_def x(1))
      qed
      moreover have "j = k" if "live w1 rid' j" "live w1 rid' k" for rid' j k
      proof (cases "rid' = rid")
        case True
        with that unclaimed show ?thesis by (auto simp: live_iff w(4) split: if_splits)
      next
        case False
        with that have "live w rid' j" "live w rid' k" by (auto simp: live_iff w(4,5))
        with ok show ?thesis unfolding claims_ok_def by blast
      qed
      ultimately show ?thesis by (simp add: claims_ok_def w(5))
    qed
    show "lives_ok w1" if "\<not> iw_late w1"
    proof -
      have "lives_ok w" using that inv by (simp add: w idem_inv_parts)
      moreover have "history w rid = []" using fresh(2) by (simp add: history_def filter_empty_conv)
      ultimately show ?thesis
        using fresh(1) by (auto simp: lives_ok_def x(1,2,4) w history_def)
    qed
    show "same_records w w1" by (auto simp: same_records_def x(1,2) rid)
    show "iw_claims w1 rid' j = iw_claims w rid' j" if "j \<noteq> i" for j rid'
      using that by (simp add: w(4))
  qed (auto simp: w)
qed

section \<open>Assertions\<close>

named_theorems idem_stable \<open>assertions that the steps of other calls preserve\<close>

abbreviation istable where "istable J i \<equiv> stable (idem_rely J i)"
abbreviation ispec where "ispec J i \<equiv> triple (idem_rely J i) (idem_guar J i) i"

lemma istable_inv [idem_stable]: "istable J i (idem_inv J)"
  by (auto simp: stable_def idem_rely_def idem_evolves_def)

lemma istable_now [idem_stable]: "istable J i (\<lambda>w. t \<le> iw_now w)"
  by (auto simp: stable_def idem_rely_def idem_evolves_def)

lemma istable_claims [idem_stable]: "istable J i (claims_something i)"
  by (simp add: stable_def idem_rely_def claims_something_def)

lemma istable_own [idem_stable]:
  fixes J :: "('p, 'v) idem_codec"
  shows "istable J i (own_record rid P)"
  unfolding stable_def own_record_def
proof (intro allI impI)
  fix w w' :: "('x, 'p, 'v) idem_world"
  assume own: "rid < next_id w \<and> (\<forall>r \<in> set (rows w). ir_ID r = rid \<longrightarrow> P (record_key r))" and "idem_rely J i w w'"
  then have "next_id w \<le> next_id w'" "same_records w w'" by (simp_all add: idem_rely_def idem_evolves_def)
  with own show "rid < next_id w' \<and> (\<forall>r \<in> set (rows w'). ir_ID r = rid \<longrightarrow> P (record_key r))"
    unfolding same_records_def by (metis order.strict_trans2)
qed

lemma istable_log [idem_stable]: "istable J i (\<lambda>w. \<exists>s. StoredSuccess s \<in> set (iw_log w) \<and> F s)"
  unfolding stable_def idem_rely_def idem_evolves_def by blast

lemma istable_aged [idem_stable]: "istable J i (\<lambda>w. rid \<in> iw_aged w)"
  by (auto simp: stable_def idem_rely_def idem_evolves_def)

lemma istable_const [idem_stable]: "istable J i (\<lambda>w. b)"
  by (simp add: stable_def)

lemma istable_conj [idem_stable]: "istable J i P \<Longrightarrow> istable J i Q \<Longrightarrow> istable J i (\<lambda>w. P w \<and> Q w)"
  by (auto simp: stable_def)

lemma istable_disj [idem_stable]: "istable J i P \<Longrightarrow> istable J i Q \<Longrightarrow> istable J i (\<lambda>w. P w \<or> Q w)"
  by (auto simp: stable_def)

lemma istable_imp [idem_stable]: "(b \<Longrightarrow> istable J i P) \<Longrightarrow> istable J i (\<lambda>w. b \<longrightarrow> P w)"
  by (auto simp: stable_def)

lemma istable_all [idem_stable]: "(\<And>x. istable J i (P x)) \<Longrightarrow> istable J i (\<lambda>w. \<forall>x. P x w)"
  by (auto simp: stable_def)

text \<open>The record \<open>x\<close> was read by a call that started at \<open>now\<close>.\<close>

definition has_found :: "int \<Rightarrow> IdempotencyRecord \<Rightarrow> ('x, 'p, 'v) idem_world \<Rightarrow> bool" where
  "has_found now x w \<longleftrightarrow> own_record (ir_ID x) ((=) (record_key x)) w \<and>
     (ir_Status x = IdempotencyStatusSucceeded \<longrightarrow> (\<exists>s. StoredSuccess s \<in> set (iw_log w) \<and> stored_for x s)) \<and>
     (ir_ExpiresAt x \<le> now \<longrightarrow> ir_ID x \<in> iw_aged w)"

lemma istable_has_found [idem_stable]: "istable J i (has_found now x)"
  unfolding has_found_def by (intro idem_stable)

text \<open>The answer \<open>data\<close> was stored for a request with this key and fingerprint.\<close>

definition replayable ::
    "('p, 'v) idem_codec \<Rightarrow> string \<Rightarrow> string \<Rightarrow> string \<Rightarrow> any_val \<Rightarrow> ('x, 'p, 'v) idem_world \<Rightarrow> bool" where
  "replayable J scope keyHash fp data w \<longleftrightarrow> (\<exists>s. StoredSuccess s \<in> set (iw_log w) \<and>
     su_scope s = scope \<and> su_hash s = keyHash \<and> (scope \<noteq> systemOperationLockScope \<longrightarrow> su_fingerprint s = fp) \<and>
     decodeStoredResponse J (Some (su_body s)) = Some data)"

lemma istable_replayable [idem_stable]: "istable J i (replayable J scope keyHash fp data)"
  unfolding replayable_def by (rule istable_log)

section \<open>The steps of a call\<close>

lemma ispec_Ret: "istable J i P \<Longrightarrow> (\<And>w. P w \<Longrightarrow> Q x w) \<Longrightarrow> ispec J i P (Ret x) Q"
  by (rule idem.triple_Ret)

lemmas ispec_bind = idem.triple_bind
lemmas ispec_conseq = idem.triple_conseq

lemma idem_guar_refl [simp]: "idem_guar J i w w"
  by (simp add: idem_guar_def)

lemma ispec_clock:
  assumes "istable J i P"
  shows "ispec J i P clock (\<lambda>t w. P w \<and> t \<le> iw_now w)"
  unfolding clock_def by (rule idem.triple_atom) (auto intro!: idem_stable assms)

lemma ispec_statement:
  assumes "istable J i P" and "\<And>x. istable J i (Q x)"
    and "\<And>w w1 x. P w \<Longrightarrow> f i w = Some (w1, x) \<Longrightarrow> idem_guar J i w (settle w1)"
    and "\<And>w w1 x. P w \<Longrightarrow> f i w = Some (w1, x) \<Longrightarrow> idem_guar J i w (settle w1) \<Longrightarrow>
      Q (Answer x) (settle w1) \<and> Q DbError (settle w1)"
    and "\<And>w. P w \<Longrightarrow> Q DbError w"
  shows "ispec J i P (statement f) Q"
  unfolding statement_def
proof (rule idem.triple_atom [OF assms(1,2)])
  fix w w' x
  assume P: "P w" and "(w', x) \<in> set (case f i w of None \<Rightarrow> [(w, DbError)]
    | Some (w', x) \<Rightarrow> [(settle w', Answer x), (w, DbError), (settle w', DbError)])"
  then consider "w' = w" "x = DbError"
    | w1 y where "f i w = Some (w1, y)" "w' = settle w1" "x = Answer y \<or> x = DbError"
    by (auto split: option.splits prod.splits)
  then show "idem_guar J i w w' \<and> Q x w'"
  proof cases
    case 1
    with assms(5) [OF P] show ?thesis by simp
  next
    case (2 w1 y)
    with assms(3,4) [OF P 2(1)] show ?thesis by auto
  qed
qed

lemma guar_inv: "idem_inv J w \<Longrightarrow> idem_guar J i w w' \<Longrightarrow> idem_inv J w'"
  by (simp add: idem_guar_def idem_evolves_def)

lemma guar_now: "idem_guar J i w w' \<Longrightarrow> t \<le> iw_now w \<Longrightarrow> t \<le> iw_now w'"
  by (simp add: idem_guar_def idem_evolves_def)

lemma own_record_step: "idem_guar J i w w' \<Longrightarrow> own_record rid P w \<Longrightarrow> own_record rid P w'"
  unfolding idem_guar_def idem_evolves_def own_record_def same_records_def by (metis order.strict_trans2)

lemma ispec_Get:
  assumes "istable J i P" and "\<And>w. P w \<Longrightarrow> idem_inv J w" and "\<And>w. P w \<Longrightarrow> now \<le> iw_now w"
  shows "ispec J i P (GetByScopeAndKeyHash scope keyHash) (\<lambda>r w. P w \<and>
    (\<forall>x. r = Answer (Some x) \<longrightarrow> ir_Scope x = scope \<and> ir_IdempotencyKeyHash x = keyHash \<and> has_found now x w))"
  unfolding GetByScopeAndKeyHash_def
proof (rule idem.triple_atom)
  fix w w' r
  assume P: "P w" and "(w', r) \<in> set [(w, Answer (find_record scope keyHash (iw_db w))), (w, DbError)]"
  then have w': "w' = w" and r: "\<And>x. r = Answer (Some x) \<Longrightarrow> find_record scope keyHash (iw_db w) = Some x" by auto
  note inv = idem_inv_parts [OF assms(2) [OF P]]
  have "ir_Scope x = scope \<and> ir_IdempotencyKeyHash x = keyHash \<and> has_found now x w" if "r = Answer (Some x)" for x
  proof -
    have "find_record scope keyHash (iw_db w) = Some x" by (rule r [OF that])
    then have x: "ir_Scope x = scope" "ir_IdempotencyKeyHash x = keyHash" "x \<in> set (rows w)"
      by (auto simp: find_record_def find_Some_iff)
    moreover have "own_record (ir_ID x) ((=) (record_key x)) w"
      using x(3) inv(1) row_unique [OF inv(1) _ x(3)] by (auto simp: own_record_def table_ok_def)
    moreover have "ir_ID x \<in> iw_aged w" if "ir_ExpiresAt x \<le> now"
      using inv(2) x(3) that assms(3) [OF P] by (force simp: expired_rows_def)
    ultimately show ?thesis using inv(3) by (simp add: has_found_def stored_ok_def)
  qed
  with P w' show "idem_guar J i w w' \<and> P w' \<and> (\<forall>x. r = Answer (Some x) \<longrightarrow>
      ir_Scope x = scope \<and> ir_IdempotencyKeyHash x = keyHash \<and> has_found now x w')"
    by simp
qed (intro idem_stable assms)+

text \<open>What a call owns after it has claimed row \<open>rid\<close>.\<close>

definition owner_of :: "nat \<Rightarrow> int \<Rightarrow> (string \<times> string \<times> string \<Rightarrow> bool) \<Rightarrow> ('x, 'p, 'v) idem_world \<Rightarrow> bool" where
  "owner_of i rid K w \<longleftrightarrow> own_record rid K w \<and> claims_something i w"

lemma istable_owner [idem_stable]: "istable J i (owner_of i rid K)"
  unfolding owner_of_def by (intro idem_stable)

lemma ispec_reclaim:
  assumes P: "istable J i P" and inv: "\<And>w. P w \<Longrightarrow> idem_inv J w" and now: "\<And>w. P w \<Longrightarrow> now \<le> iw_now w"
    and may: "\<And>w. P w \<Longrightarrow> may_reclaim rid fromStatus w" and own: "\<And>w. P w \<Longrightarrow> own_record rid K w"
    and keep: "\<And>w w'. P w \<Longrightarrow> idem_guar J i w w' \<Longrightarrow> P' w'" and P': "istable J i P'"
  shows "ispec J i P (TryReclaim rid fromStatus now l e) (\<lambda>r w. P' w \<and> (r = Answer True \<longrightarrow> owner_of i rid K w))"
  unfolding TryReclaim_def
proof (rule ispec_statement)
  fix w w1 taken
  assume pw: "P w" and "do_reclaim rid fromStatus now l e i w = Some (w1, taken)"
  then have w1: "w1 = after_reclaim rid fromStatus now l e i w"
      and taken: "taken \<Longrightarrow> iw_claims w1 rid i = Some (min l e)"
    by (auto simp: do_reclaim_def table_statements history_defs)
  show g: "idem_guar J i w (settle w1)"
    unfolding w1 by (rule reclaim_guar [OF inv [OF pw] may [OF pw] now [OF pw]])
  have "owner_of i rid K (settle w1)" if taken
    using taken [OF that] own_record_step [OF g own [OF pw]] by (auto simp: owner_of_def claims_something_def)
  with keep [OF pw g]
  show "(P' (settle w1) \<and> (Answer taken = Answer True \<longrightarrow> owner_of i rid K (settle w1))) \<and>
      (P' (settle w1) \<and> (DbError = Answer True \<longrightarrow> owner_of i rid K (settle w1)))"
    by simp
next
  fix w
  assume "P w"
  then show "P' w \<and> (DbError = Answer True \<longrightarrow> owner_of i rid K w)"
    using keep [of w w] by simp
qed (intro idem_stable P P')+

abbreviation started :: "('p, 'v) idem_codec \<Rightarrow> int \<Rightarrow> ('x, 'p, 'v) idem_world \<Rightarrow> bool" where
  "started J now w \<equiv> idem_inv J w \<and> now \<le> iw_now w"

lemma guar_started: "started J now w \<Longrightarrow> idem_guar J i w w' \<Longrightarrow> started J now w'"
  using guar_inv guar_now by blast

lemma ispec_Create:
  assumes P: "istable J i P" and pst: "\<And>w. P w \<Longrightarrow> started J now w"
    and keep: "\<And>w w'. P w \<Longrightarrow> idem_guar J i w w' \<Longrightarrow> P w'"
  shows "ispec J i P (CreateProcessing (processing_record scope keyHash fp l e) (min l e))
    (\<lambda>r w. P w \<and> (\<forall>rid. r = Answer (Some rid) \<longrightarrow> owner_of i rid ((=) (scope, keyHash, fp)) w))"
  unfolding CreateProcessing_def
proof (rule ispec_statement)
  let ?r = "processing_record scope keyHash fp l e"
  fix w w1 res
  assume pw: "P w" and created: "do_create ?r (min l e) i w = Some (w1, res)"
  from pst [OF pw] have inv: "idem_inv J w" ..
  show g: "idem_guar J i w (settle w1)"
    by (rule create_guar [OF inv _ _ _ _ created, where l = l]) (simp_all add: processing_record_def)
  have "owner_of i rid ((=) (scope, keyHash, fp)) (settle w1)" if "res = Some rid" for rid
  proof -
    have new: "rid = next_id w" "find_record scope keyHash (iw_db w) = None"
      using created that
      by (auto simp: do_create_def insert_processing_def processing_record_def split: option.splits prod.splits if_splits)
    have w1: "\<exists>x. rows w1 = rows w @ [x] \<and> record_key x = (scope, keyHash, fp)" "next_id w1 = next_id w + 1"
        "iw_claims w1 rid i = Some (min l e)"
      using created that new
      by (auto simp: do_create_def insert_processing_def processing_record_def history_defs record_key_def split: if_splits)
    moreover have "ir_ID r \<noteq> rid" if "r \<in> set (rows w)" for r
      using idem_inv_parts(1) [OF inv] that unfolding new(1) table_ok_def by auto
    ultimately show ?thesis by (auto simp: owner_of_def own_record_def claims_something_def new(1))
  qed
  with keep [OF pw g] show "(P (settle w1) \<and> (\<forall>rid. Answer res = Answer (Some rid) \<longrightarrow>
        owner_of i rid ((=) (scope, keyHash, fp)) (settle w1))) \<and>
      (P (settle w1) \<and> (\<forall>rid. DbError = Answer (Some rid) \<longrightarrow> owner_of i rid ((=) (scope, keyHash, fp)) (settle w1)))"
    by simp
qed (auto intro!: idem_stable P)

section \<open>The claim of a key\<close>

definition claimed_as ::
    "('p, 'v) idem_codec \<Rightarrow> nat \<Rightarrow> string \<Rightarrow> string \<Rightarrow> string \<Rightarrow> claim_result \<Rightarrow> ('x, 'p, 'v) idem_world \<Rightarrow> bool" where
  "claimed_as J i scope keyHash fp c w \<longleftrightarrow> idem_inv J w \<and>
     (\<forall>rid. c = Owner rid \<longrightarrow> owner_of i rid ((=) (scope, keyHash, fp)) w) \<and>
     (\<forall>data. c = Replay data \<longrightarrow> replayable J scope keyHash fp data w)"

lemma istable_claimed_as [idem_stable]: "istable J i (claimed_as J i scope keyHash fp c)"
  unfolding claimed_as_def by (intro idem_stable)

lemma claim_Rejected: "istable J i P \<Longrightarrow> (\<And>w. P w \<Longrightarrow> idem_inv J w) \<Longrightarrow>
    ispec J i P (Ret (Rejected e)) (claimed_as J i scope keyHash fp)"
  by (rule ispec_Ret) (simp_all add: claimed_as_def)

text \<open>A record with the key and the fingerprint of the request was read.\<close>

definition read_mine ::
    "('p, 'v) idem_codec \<Rightarrow> int \<Rightarrow> string \<times> string \<times> string \<Rightarrow> IdempotencyRecord \<Rightarrow> ('x, 'p, 'v) idem_world \<Rightarrow> bool" where
  "read_mine J now k x w \<longleftrightarrow> started J now w \<and> has_found now x w \<and> record_key x = k"

lemma istable_read_mine [idem_stable]: "istable J i (read_mine J now k x)"
  unfolding read_mine_def by (intro idem_stable)

lemma may_reclaim_own:
  assumes "own_record rid K w"
    and "fromStatus = IdempotencyStatusFailedRetryable \<or> rid \<in> iw_aged w"
  shows "may_reclaim rid fromStatus w"
  using assms by (auto simp: may_reclaim_def own_record_def)

lemma read_mine_own: "read_mine J now k x w \<Longrightarrow> own_record (ir_ID x) ((=) k) w"
  unfolding read_mine_def has_found_def by (elim conjE) simp

lemma ispec_reclaim_mine:
  fixes J :: "('p, 'v) idem_codec"
  assumes "\<And>w :: ('x, 'p, 'v) idem_world. read_mine J now k x w \<Longrightarrow> fromStatus = IdempotencyStatusFailedRetryable \<or> ir_ID x \<in> iw_aged w"
  shows "ispec J i (read_mine J now k x) (TryReclaim (ir_ID x) fromStatus now l e)
    (\<lambda>r (w :: ('x, 'p, 'v) idem_world). started J now w \<and> (r = Answer True \<longrightarrow> owner_of i (ir_ID x) ((=) k) w))"
proof (rule ispec_reclaim)
  show "may_reclaim (ir_ID x) fromStatus w" if "read_mine J now k x w" for w :: "('x, 'p, 'v) idem_world"
    using that assms [OF that] by (intro may_reclaim_own) (auto simp: read_mine_def has_found_def)
  show "own_record (ir_ID x) ((=) k) w" if "read_mine J now k x w" for w :: "('x, 'p, 'v) idem_world"
    by (rule read_mine_own [OF that])
  show "started J now w'" if "read_mine J now k x w" "idem_guar J i w w'" for w w' :: "('x, 'p, 'v) idem_world"
    by (rule guar_started [OF _ that(2)]) (use that(1) in \<open>simp add: read_mine_def\<close>)
qed (auto simp: read_mine_def intro!: idem_stable)

lemma claim_reclaimed:
  "ispec J i (\<lambda>w. started J now w \<and> (r = Answer True \<longrightarrow> owner_of i rid ((=) (scope, keyHash, fp)) w))
     (case r of DbError \<Rightarrow> Ret (Rejected unavailable)
      | Answer False \<Rightarrow> Ret (Rejected e)
      | Answer True \<Rightarrow> Ret (Owner rid)) (claimed_as J i scope keyHash fp)"
proof -
  have st: "istable J i (\<lambda>w. started J now w \<and> (r = Answer True \<longrightarrow> owner_of i rid ((=) (scope, keyHash, fp)) w))"
    by (intro idem_stable)
  show ?thesis
  proof (cases r)
    case (Answer b)
    with st show ?thesis
      by (cases b) (auto intro!: ispec_Ret simp: claimed_as_def)
  qed (use st in \<open>auto intro!: claim_Rejected\<close>)
qed

lemma claim_dispatch:
  "ispec J i (read_mine J now (scope, keyHash, fp) x) (dispatchExisting J x now l e) (claimed_as J i scope keyHash fp)"
  (is "ispec J i ?P _ _")
proof -
  have reject: "ispec J i ?P (Ret (Rejected err)) (claimed_as J i scope keyHash fp)" for err
    by (rule claim_Rejected) (auto simp: read_mine_def intro!: idem_stable)
  consider (succeeded) "ir_Status x = IdempotencyStatusSucceeded"
    | (failed) "ir_Status x = IdempotencyStatusFailedRetryable"
        "\<not> (case ir_LockedUntil x of None \<Rightarrow> False | Some lu \<Rightarrow> now < lu)"
    | (other) "ir_Status x \<noteq> IdempotencyStatusSucceeded"
        "ir_Status x \<noteq> IdempotencyStatusFailedRetryable \<or> (case ir_LockedUntil x of None \<Rightarrow> False | Some lu \<Rightarrow> now < lu)"
    by blast
  then show ?thesis
  proof cases
    case succeeded
    have rep: "claimed_as J i scope keyHash fp (Replay data) w"
      if "?P w" "decodeStoredResponse J (ir_ResponseBody x) = Some data" for w data
    proof -
      from that(1) succeeded obtain s where s: "StoredSuccess s \<in> set (iw_log w)" "stored_for x s"
        by (auto simp: read_mine_def has_found_def)
      then have "replayable J scope keyHash fp data w"
        using that by (auto simp: replayable_def stored_for_def read_mine_def record_key_def)
      with that(1) show ?thesis by (simp add: claimed_as_def read_mine_def)
    qed
    have replay: "ispec J i ?P (Ret (Replay data)) (claimed_as J i scope keyHash fp)"
      if "decodeStoredResponse J (ir_ResponseBody x) = Some data" for data
      by (rule ispec_Ret [OF istable_read_mine]) (rule rep [OF _ that])
    show ?thesis
      by (cases "decodeStoredResponse J (ir_ResponseBody x)")
         (simp_all add: dispatchExisting_def succeeded reject replay)
  next
    case failed
    show ?thesis
      using failed unfolding dispatchExisting_def
      by (simp, intro ispec_bind [OF ispec_reclaim_mine claim_reclaimed [where now = now]]) simp
  next
    case other
    then show ?thesis unfolding dispatchExisting_def by (simp split del: if_split) (simp add: reject)
  qed
qed

lemma claim_found:
  "ispec J i (\<lambda>w. started J now w \<and> (\<forall>x. r = Answer (Some x) \<longrightarrow>
       ir_Scope x = scope \<and> ir_IdempotencyKeyHash x = keyHash \<and> has_found now x w))
     (case r of
        Answer (Some x) \<Rightarrow>
          if ir_RequestFingerprint x \<noteq> fp then Ret (Rejected (AppError ErrIdempotencyKeyConflict)) else k x
      | _ \<Rightarrow> Ret (Rejected unavailable)) (claimed_as J i scope keyHash fp)"
  (is "ispec J i ?P _ _")
  if "\<And>x. ispec J i (read_mine J now (scope, keyHash, fp) x) (k x) (claimed_as J i scope keyHash fp)"
proof -
  consider "r = DbError" | "r = Answer None" | x where "r = Answer (Some x)" "ir_RequestFingerprint x \<noteq> fp"
    | x where "r = Answer (Some x)" "ir_RequestFingerprint x = fp"
    by (cases r rule: answer.exhaust) (metis option.exhaust)+
  then show ?thesis
  proof cases
    case (4 x)
    have "ispec J i ?P (k x) (claimed_as J i scope keyHash fp)"
      by (rule ispec_conseq [OF that [of x]]) (use 4 in \<open>auto simp: read_mine_def record_key_def\<close>)
    with 4 show ?thesis by simp
  qed (auto intro!: claim_Rejected idem_stable)
qed

lemma ispec_Get_started:
  "ispec J i (started J now) (GetByScopeAndKeyHash scope keyHash) (\<lambda>r w. started J now w \<and>
     (\<forall>x. r = Answer (Some x) \<longrightarrow> ir_Scope x = scope \<and> ir_IdempotencyKeyHash x = keyHash \<and> has_found now x w))"
  by (rule ispec_Get) (auto intro!: idem_stable)

lemma claim_retried:
  "ispec J i (started J now)
     (bind (GetByScopeAndKeyHash scope keyHash) (\<lambda>l. case l of
        DbError \<Rightarrow> Ret (Rejected unavailable)
      | Answer None \<Rightarrow> Ret (Rejected unavailable)
      | Answer (Some latest) \<Rightarrow>
          if ir_RequestFingerprint latest \<noteq> fp then Ret (Rejected (AppError ErrIdempotencyKeyConflict))
          else dispatchExisting J latest now lu e)) (claimed_as J i scope keyHash fp)"
  by (rule ispec_bind [OF ispec_Get_started claim_found [OF claim_dispatch]])

lemma claim_reuse:
  "ispec J i (started J now) (reuseExisting J scope keyHash fp now l e) (claimed_as J i scope keyHash fp)"
  unfolding reuseExisting_def
proof (rule ispec_bind [OF ispec_Get_started claim_found])
  fix x
  show "ispec J i (read_mine J now (scope, keyHash, fp) x)
     (if ir_ExpiresAt x > now then dispatchExisting J x now l e
      else bind (TryReclaim (ir_ID x) (ir_Status x) now l e) (\<lambda>t. case t of
        DbError \<Rightarrow> Ret (Rejected unavailable)
      | Answer True \<Rightarrow> Ret (Owner (ir_ID x))
      | Answer False \<Rightarrow> bind (GetByScopeAndKeyHash scope keyHash) (\<lambda>lt. case lt of
          Answer (Some latest) \<Rightarrow>
            if ir_RequestFingerprint latest \<noteq> fp then Ret (Rejected (AppError ErrIdempotencyKeyConflict))
            else dispatchExisting J latest now l e
        | _ \<Rightarrow> Ret (Rejected unavailable)))) (claimed_as J i scope keyHash fp)"
  proof (cases "ir_ExpiresAt x > now")
    case True
    then show ?thesis by (simp add: claim_dispatch)
  next
    case False
    show ?thesis
      unfolding if_not_P [OF False]
    proof (rule ispec_bind [OF ispec_reclaim_mine])
      fix t
      show "ispec J i (\<lambda>w. started J now w \<and> (t = Answer True \<longrightarrow> owner_of i (ir_ID x) ((=) (scope, keyHash, fp)) w))
        (case t of
          DbError \<Rightarrow> Ret (Rejected unavailable)
        | Answer True \<Rightarrow> Ret (Owner (ir_ID x))
        | Answer False \<Rightarrow> bind (GetByScopeAndKeyHash scope keyHash) (\<lambda>lt. case lt of
            Answer (Some latest) \<Rightarrow>
              if ir_RequestFingerprint latest \<noteq> fp then Ret (Rejected (AppError ErrIdempotencyKeyConflict))
              else dispatchExisting J latest now l e
          | _ \<Rightarrow> Ret (Rejected unavailable))) (claimed_as J i scope keyHash fp)"
      proof (cases "t = Answer False")
        case True
        then show ?thesis
          using claim_retried by (simp add: ispec_conseq)
      next
        case False
        then show ?thesis
          using claim_reclaimed [of J i now t "ir_ID x" scope keyHash fp] by (auto split: answer.splits bool.splits)
      qed
    qed (use False in \<open>auto simp: read_mine_def has_found_def\<close>)
  qed
qed

lemma claim_key: "ispec J i (started J now) (claimKey J scope keyHash fp now l e) (claimed_as J i scope keyHash fp)"
  unfolding claimKey_def
proof (rule ispec_bind [OF ispec_Create])
  fix r
  show "ispec J i (\<lambda>w. started J now w \<and> (\<forall>rid. r = Answer (Some rid) \<longrightarrow> owner_of i rid ((=) (scope, keyHash, fp)) w))
    (case r of
       DbError \<Rightarrow> Ret (Rejected unavailable)
     | Answer (Some rid) \<Rightarrow> Ret (Owner rid)
     | Answer None \<Rightarrow> reuseExisting J scope keyHash fp now l e) (claimed_as J i scope keyHash fp)"
  proof (cases r)
    case DbError
    then show ?thesis by (auto intro!: claim_Rejected idem_stable)
  next
    case (Answer found)
    then show ?thesis
    proof (cases found)
      case None
      with Answer show ?thesis by (simp add: claim_reuse)
    next
      case (Some rid)
      with Answer show ?thesis by (auto intro!: ispec_Ret idem_stable simp: claimed_as_def)
    qed
  qed
qed (auto intro!: idem_stable dest: guar_inv guar_now)

section \<open>Executors\<close>

text \<open>What the steps of all calls preserve may be carried along.\<close>

lemma ispec_frame:
  fixes J :: "('p, 'v) idem_codec" and F :: "('x, 'p, 'v) idem_world \<Rightarrow> bool"
  assumes spec: "ispec J i P p Q" and st: "istable J i F"
    and keep: "\<And>w w'. F w \<Longrightarrow> idem_guar J i w w' \<Longrightarrow> F w'"
  shows "ispec J i (\<lambda>w. P w \<and> F w) p (\<lambda>x w. Q x w \<and> F w)"
proof -
  have "safe (idem_rely J i) (idem_guar J i) i (\<lambda>x w. Q x w \<and> F w) p w"
    if "safe (idem_rely J i) (idem_guar J i) i Q p w" "F w" for w
    using that
  proof (induction rule: safe.induct)
    case (safe_Ret w x)
    then show ?case using stableD [OF st] by (auto simp: safe_Ret_iff)
  next
    case (safe_Atomic w f)
    show ?case
      unfolding safe_Atomic_iff
    proof (intro allI impI)
      fix w1 w2 p
      assume "idem_rely J i w w1" "(w2, p) \<in> set (f i w1)"
      with safe_Atomic(1) have step: "idem_guar J i w1 w2"
          "F w2 \<longrightarrow> safe (idem_rely J i) (idem_guar J i) i (\<lambda>x w. Q x w \<and> F w) p w2" by blast+
      have "F w2" using keep [OF _ step(1)] stableD [OF st safe_Atomic(2) \<open>idem_rely J i w w1\<close>] .
      with step show "idem_guar J i w1 w2 \<and>
          safe (idem_rely J i) (idem_guar J i) i (\<lambda>x w. Q x w \<and> F w) p w2" by simp
    qed
  qed
  with spec show ?thesis by (simp add: triple_def)
qed

lemma claims_app [simp]: "claims_something i (w\<lparr>iw_app := x\<rparr>) = claims_something i w"
  by (simp add: claims_something_def)

lemma app_guar:
  assumes "claims_something i w"
  shows "idem_guar J i w (w\<lparr>iw_app := x\<rparr>)"
proof -
  have "idem_inv J (w\<lparr>iw_app := x\<rparr>) = idem_inv J w"
    by (simp add: idem_inv_def table_ok_def stored_ok_def sent_ok_def claims_ok_def held_def live_iff lives_ok_def history_def)
  with assms show ?thesis
    by (simp add: idem_guar_def idem_evolves_def same_records_def) blast
qed

text \<open>The work of a call that holds a claim.\<close>

lemma ispec_app:
  fixes J :: "('p, 'v) idem_codec" and p :: "('x, 'a) prog" and P :: "('x, 'p, 'v) idem_world \<Rightarrow> bool"
  assumes st: "istable J i P" and claim: "\<And>w. P w \<Longrightarrow> claims_something i w"
    and app: "\<And>w x. P w \<Longrightarrow> P (w\<lparr>iw_app := x\<rparr>)"
  shows "ispec J i P (on_app p) (\<lambda>_. P)"
proof (induction p rule: prog_induct)
  case (Ret x)
  then show ?case using st by (auto intro: ispec_Ret)
next
  case (Atomic f)
  show ?case
    unfolding triple_def
  proof (intro allI impI)
    fix w :: "('x, 'p, 'v) idem_world"
    assume "P w"
    show "safe (idem_rely J i) (idem_guar J i) i (\<lambda>_. P) (on_app (Atomic f)) w"
      unfolding on_app.simps safe_Atomic_iff
    proof (intro allI impI)
      fix w1 w2 :: "('x, 'p, 'v) idem_world" and q :: "('x, 'p, 'v, 'a) icall"
      assume "idem_rely J i w w1"
        and "(w2, q) \<in> set (map (\<lambda>(x, p). (w1\<lparr>iw_app := x\<rparr>, p)) (map (map_prod id on_app) (f i (iw_app w1))))"
      then obtain x p where x: "(x, p) \<in> set (f i (iw_app w1))" "w2 = w1\<lparr>iw_app := x\<rparr>" "q = on_app p" by auto
      have "P w1" by (rule stableD [OF st \<open>P w\<close> \<open>idem_rely J i w w1\<close>])
      then have "P w2" "idem_guar J i w1 w2"
        by (simp_all add: x(2) app app_guar claim)
      with Atomic [OF x(1)] show "idem_guar J i w1 w2 \<and> safe (idem_rely J i) (idem_guar J i) i (\<lambda>_. P) q w2"
        by (simp add: triple_def x(3))
    qed
  qed
qed

abbreviation claiming :: "('p, 'v) idem_codec \<Rightarrow> nat \<Rightarrow> ('x, 'p, 'v) idem_world \<Rightarrow> bool" where
  "claiming J i w \<equiv> idem_inv J w \<and> claims_something i w"

definition executor_ok :: "('p, 'v) idem_codec \<Rightarrow> ('x, 'p, 'v, go_error + 'v) icall \<Rightarrow> bool" where
  "executor_ok J execute \<longleftrightarrow> (\<forall>i. ispec J i (claiming J i) execute (\<lambda>_. idem_inv J))"

lemma inv_app: "idem_inv J (w\<lparr>iw_app := x\<rparr>) = idem_inv J w"
  by (simp add: idem_inv_def table_ok_def stored_ok_def sent_ok_def claims_ok_def held_def live_iff lives_ok_def history_def)

lemma executor_app: "executor_ok J (on_app p)"
  unfolding executor_ok_def
proof
  fix i
  have "ispec J i (claiming J i) (on_app p) (\<lambda>_. claiming J i)"
    by (rule ispec_app) (auto simp: inv_app intro!: idem_stable)
  then show "ispec J i (claiming J i) (on_app p) (\<lambda>_. idem_inv J)"
    by (rule ispec_conseq) simp_all
qed

lemma ispec_mark_succeeded:
  "ispec J i (\<lambda>w. idem_inv J w \<and> own_record rid (stores_for who) w) (MarkSucceeded who rid st b e) (\<lambda>_. idem_inv J)"
  unfolding MarkSucceeded_def
proof (rule ispec_statement)
  fix w w1 x
  assume P: "idem_inv J w \<and> own_record rid (stores_for who) w"
    and "do_succeed who rid st b e i w = Some (w1, x)"
  then have w1: "w1 = after_succeed who rid st b e i w" by simp
  show "idem_guar J i w (settle w1)" unfolding w1 using P by (intro succeed_guar) auto
qed (auto intro!: idem_stable dest: guar_inv)

lemma ispec_mark_failed:
  "ispec J i (\<lambda>w. idem_inv J w \<and> own_record rid K w) (MarkFailedRetryable rid reason l e) (\<lambda>_. idem_inv J)"
  unfolding MarkFailedRetryable_def
proof (rule ispec_statement)
  fix w w1 x
  assume P: "idem_inv J w \<and> own_record rid K w" and "do_fail rid reason l e i w = Some (w1, x)"
  then have w1: "w1 = after_fail rid reason l e i w"
    by (auto simp: do_fail_def mark_failed_eq after_fail_def split: if_splits)
  show "idem_guar J i w (settle w1)" unfolding w1 using P by (intro fail_guar) (auto simp: own_record_def)
qed (auto intro!: idem_stable dest: guar_inv)

section \<open>The coordinator and its handlers\<close>

text \<open>What \<open>Execute\<close> returns: a replay comes from a stored success.\<close>

definition executed ::
    "('p, 'v) idem_codec \<Rightarrow> (any_val \<Rightarrow> ('x, 'p, 'v) idem_world \<Rightarrow> bool) \<Rightarrow> go_error + 'v IdempotencyExecuteResult \<Rightarrow>
       ('x, 'p, 'v) idem_world \<Rightarrow> bool" where
  "executed J R res w \<longleftrightarrow> idem_inv J w \<and> (\<forall>r data. res = Inr r \<longrightarrow> er_Data r = Stored data \<longrightarrow> R data w)"

lemma istable_executed: "(\<And>data. istable J i (R data)) \<Longrightarrow> istable J i (executed J R res)"
  unfolding executed_def by (intro idem_stable)

lemma executed_Ret:
  assumes "istable J i P" and "\<And>w. P w \<Longrightarrow> idem_inv J w"
  shows "ispec J i P (Ret (Inl err)) (executed J R)" "ispec J i P (Ret (Inr \<lparr>er_Data = Fresh v, er_Replayed = b\<rparr>)) (executed J R)"
  by (rule ispec_Ret [OF assms(1)]; simp add: executed_def assms(2))+

lemma ispec_runClaimed:
  assumes "executor_ok J execute"
  shows "ispec J i (\<lambda>w. idem_inv J w \<and> owner_of i rid ((=) who) w) (runClaimed J cfg who e rid execute) (executed J R)"
  unfolding runClaimed_def
proof (rule ispec_bind)
  have "ispec J i (\<lambda>w. claiming J i w \<and> own_record rid ((=) who) w) execute
      (\<lambda>_ w. idem_inv J w \<and> own_record rid ((=) who) w)"
    by (rule ispec_frame) (use assms own_record_step in \<open>auto simp: executor_ok_def intro!: idem_stable\<close>)
  then show "ispec J i (\<lambda>w. idem_inv J w \<and> owner_of i rid ((=) who) w) execute
      (\<lambda>_ w. idem_inv J w \<and> own_record rid ((=) who) w)"
    by (rule ispec_conseq) (auto simp: owner_of_def)
next
  fix res
  let ?P = "\<lambda>w. idem_inv J w \<and> own_record rid ((=) who) w"
  have st: "istable J i ?P" by (intro idem_stable)
  show "ispec J i ?P (case res of
       Inl execErr \<Rightarrow>
         bind clock (\<lambda>t.
         bind (MarkFailedRetryable rid (failure_reason execErr) (t + cfg_FailedRetryBackoff cfg) e) (\<lambda>_.
         Ret (Inl execErr)))
     | Inr data \<Rightarrow>
         (case marshalStoredResponse J cfg data of
            None \<Rightarrow> Ret (Inl unavailable)
          | Some storedBody \<Rightarrow>
              bind (MarkSucceeded who rid 200 storedBody e) (\<lambda>r. case r of
                DbError \<Rightarrow> Ret (Inl unavailable)
              | Answer _ \<Rightarrow> Ret (Inr \<lparr>er_Data = Fresh data, er_Replayed = False\<rparr>)))) (executed J R)"
  proof (cases res)
    case (Inl err)
    have "ispec J i ?P clock (\<lambda>t w. ?P w)"
      by (rule ispec_conseq [OF ispec_clock [OF st]]) auto
    then show ?thesis
      unfolding Inl sum.case
      by (intro ispec_bind [OF _ ispec_bind [OF ispec_mark_failed executed_Ret(1)]]) (auto intro!: idem_stable)
  next
    case (Inr data)
    show ?thesis
    proof (cases "marshalStoredResponse J cfg data")
      case None
      then show ?thesis unfolding Inr by (simp, intro executed_Ret(1) st) simp
    next
      case (Some body)
      have mark: "ispec J i ?P (MarkSucceeded who rid 200 body e) (\<lambda>_. idem_inv J)"
        by (rule ispec_conseq [OF ispec_mark_succeeded]) (auto simp: own_record_def stores_for_def)
      show ?thesis
        unfolding Inr Some sum.case option.case
        by (rule ispec_bind [OF mark]) (auto split: answer.splits intro!: executed_Ret idem_stable)
    qed
  qed
qed

lemma ispec_executeKeyed:
  assumes ex: "executor_ok J execute"
  shows "ispec J i (idem_inv J) (executeKeyed J cfg opts key fp execute)
    (executed J (replayable J (op_Scope opts) (HashIdempotencyKey J key) fp))"
  unfolding executeKeyed_def Let_def
proof (rule ispec_bind [OF ispec_clock [OF istable_inv]], rule ispec_bind [OF claim_key])
  fix now c
  let ?C = "claimed_as J i (op_Scope opts) (HashIdempotencyKey J key) fp c"
  let ?R = "replayable J (op_Scope opts) (HashIdempotencyKey J key) fp"
  have inv: "idem_inv J w" if "?C w" for w using that by (simp add: claimed_as_def)
  show "ispec J i ?C
    (case c of
       Rejected e \<Rightarrow> Ret (Inl e)
     | Replay data \<Rightarrow> Ret (Inr \<lparr>er_Data = Stored data, er_Replayed = True\<rparr>)
     | Owner rid \<Rightarrow>
         if rid = 0 then Ret (Inl unavailable)
         else runClaimed J cfg (op_Scope opts, HashIdempotencyKey J key, fp)
                (now + (if op_TTL opts \<le> 0 then cfg_DefaultTTL cfg else op_TTL opts)) rid execute) (executed J ?R)"
  proof (cases c)
    case (Rejected e)
    then show ?thesis by simp (rule executed_Ret [OF istable_claimed_as inv], simp add: Rejected)
  next
    case (Replay data)
    then show ?thesis
      by (auto intro!: ispec_Ret istable_claimed_as simp: executed_def claimed_as_def)
  next
    case (Owner rid)
    have "ispec J i ?C (Ret (Inl unavailable)) (executed J ?R)"
      by (rule executed_Ret [OF istable_claimed_as inv])
    moreover have "ispec J i ?C (runClaimed J cfg (op_Scope opts, HashIdempotencyKey J key, fp) e rid execute)
        (executed J ?R)" for e
      by (rule ispec_conseq [OF ispec_runClaimed [OF ex]]) (auto simp: claimed_as_def Owner)
    ultimately show ?thesis
      by (simp only: Owner claim_result.case split: if_split) blast
  qed
qed

text \<open>A stored success answers the request.\<close>

definition answered ::
    "('p, 'v) idem_codec \<Rightarrow> 'p IdempotencyExecuteOptions \<Rightarrow> any_val \<Rightarrow> ('x, 'p, 'v) idem_world \<Rightarrow> bool" where
  "answered J opts data w \<longleftrightarrow> (\<exists>s. StoredSuccess s \<in> set (iw_log w) \<and> answers J opts data s)"

lemma istable_answered [idem_stable]: "istable J i (answered J opts data)"
  unfolding answered_def by (rule istable_log)

lemma ispec_Execute:
  assumes ex: "executor_ok J execute" and enforced: "op_RequireKey opts" "\<not> cfg_ObserveOnly (co_cfg c)"
  shows "ispec J i (idem_inv J) (Execute J c opts (Some execute)) (executed J (answered J opts))"
    (is "ispec J i ?P _ ?Q")
proof -
  have err: "ispec J i ?P (Ret (Inl e)) ?Q" for e
    by (rule executed_Ret) (auto intro: idem_stable)
  show ?thesis
  proof (cases "NormalizeIdempotencyKey (op_IdempotencyKey opts)")
    case (Inl e)
    then show ?thesis using err by (simp add: Execute_def)
  next
    case (Inr key)
    show ?thesis
    proof (cases "BuildIdempotencyFingerprint J (op_Method opts) (op_Route opts) (op_ActorScope opts) (op_Payload opts)")
      case (Inl e)
      then show ?thesis using err enforced by (simp add: Execute_def Inr)
    next
      case fp: (Inr fp)
      have "ispec J i ?P (executeKeyed J (co_cfg c) opts key fp execute) ?Q"
      proof (rule ispec_conseq [OF ispec_executeKeyed [OF ex]])
        fix res w
        assume "executed J (replayable J (op_Scope opts) (HashIdempotencyKey J key) fp) res w"
        then show "executed J (answered J opts) res w"
          unfolding executed_def replayable_def answered_def answers_def by (auto simp: Inr fp)
      qed
      then show ?thesis using err enforced by (simp add: Execute_def Inr fp)
    qed
  qed
qed

lemma ispec_send:
  assumes P: "istable J i P" and inv: "\<And>w. P w \<Longrightarrow> idem_inv J w"
    and src: "\<And>hs data w. r = SuccessReply hs (Stored data) \<Longrightarrow> P w \<Longrightarrow> answered J opts data w"
  shows "ispec J i P (send opts r) (\<lambda>_. idem_inv J)"
  unfolding send_def
proof (rule idem.triple_atom [OF P istable_inv])
  fix w w' x
  assume pw: "P w" and "(w', x) \<in> set [(w\<lparr>iw_sent := iw_sent w @ [(opts, r)]\<rparr>, ())]"
  then have w': "w' = w\<lparr>iw_sent := iw_sent w @ [(opts, r)]\<rparr>" by simp
  have "sent_ok J w'"
    using inv [OF pw] src [OF _ pw] unfolding sent_ok_def w' idem_inv_def answered_def by auto
  then have inv': "idem_inv J w'"
    using inv [OF pw]
    by (simp add: w' idem_inv_def table_ok_def stored_ok_def claims_ok_def held_def live_iff lives_ok_def history_def)
  then show "idem_guar J i w w' \<and> idem_inv J w'"
    by (simp add: w' idem_guar_def idem_evolves_def same_records_def) blast
qed

lemma answered_required [simp]: "answered J (opts\<lparr>op_RequireKey := b\<rparr>) = answered J opts"
  by (simp add: answered_def answers_def fun_eq_iff)

lemma ispec_reply:
  assumes ex: "executor_ok J execute" and enforced: "\<not> cfg_ObserveOnly (co_cfg c)"
  shows "ispec J i (idem_inv J)
    (bind (Execute J c (opts\<lparr>op_RequireKey := True\<rparr>) (Some execute)) (\<lambda>r. case r of
       Inl err \<Rightarrow> send opts (ErrorReply (retry_header err) err)
     | Inr result \<Rightarrow> send opts (SuccessReply (H result) (er_Data result)))) (\<lambda>_. idem_inv J)"
proof (rule ispec_bind [OF ispec_Execute [OF ex]])
  fix r :: "go_error + 'b IdempotencyExecuteResult"
  show "ispec J i (executed J (answered J (opts\<lparr>op_RequireKey := True\<rparr>)) r)
    (case r of
       Inl err \<Rightarrow> send opts (ErrorReply (retry_header err) err)
     | Inr result \<Rightarrow> send opts (SuccessReply (H result) (er_Data result))) (\<lambda>_. idem_inv J)"
    by (cases r; simp; rule ispec_send [OF istable_executed [OF istable_answered]]) (simp_all add: executed_def)
qed (simp_all add: enforced)

lemma ispec_user:
  assumes "executor_ok J execute" and "\<not> cfg_ObserveOnly (co_cfg c)"
  shows "ispec J i (idem_inv J) (executeUserIdempotentJSON J (Some c) opts execute) (\<lambda>_. idem_inv J)"
  unfolding executeUserIdempotentJSON_def option.case by (rule ispec_reply [OF assms])

lemma ispec_admin:
  assumes "executor_ok J execute" and "\<not> cfg_ObserveOnly (co_cfg c)"
  shows "ispec J i (idem_inv J) (executeAdminIdempotentJSON J (Some c) opts execute) (\<lambda>_. idem_inv J)"
  using ispec_reply [OF assms]
  by (simp add: executeAdminIdempotentJSON_def executeAdminIdempotentJSONWithMode_def)

lemma ispec_cleanup: "ispec J i (idem_inv J) (cleanupOnce batch) (\<lambda>_. idem_inv J)"
  unfolding cleanupOnce_def
proof (rule ispec_bind [OF ispec_clock [OF istable_inv]], rule ispec_bind)
  show "ispec J i (started J now) (DeleteExpired now batch) (\<lambda>_. idem_inv J)" for now
    unfolding DeleteExpired_def
  proof (rule ispec_statement)
    fix w w1 x
    assume P: "started J now w" and "do_delete now batch i w = Some (w1, x)"
    then have "w1 = fst (the (do_delete now batch i w))" by simp
    then show "idem_guar J i w (settle w1)" using P by (simp add: delete_guar)
  qed (auto intro!: idem_stable dest: guar_inv)
qed (auto intro!: ispec_Ret idem_stable)

section \<open>System operations\<close>

abbreviation is_lock :: "('p, 'v) idem_codec \<Rightarrow> string \<times> string \<times> string \<Rightarrow> bool" where
  "is_lock J k \<equiv> fst k = systemOperationLockScope \<and> fst (snd k) = lock_hash J"

definition acquired ::
    "('p, 'v) idem_codec \<Rightarrow> nat \<Rightarrow> go_error + int \<Rightarrow> ('x, 'p, 'v) idem_world \<Rightarrow> bool" where
  "acquired J i r w \<longleftrightarrow> idem_inv J w \<and> (\<forall>rid. r = Inr rid \<longrightarrow> owner_of i rid (is_lock J) w)"

lemma acquired_Inl: "istable J i P \<Longrightarrow> (\<And>w. P w \<Longrightarrow> idem_inv J w) \<Longrightarrow> ispec J i P (Ret (Inl e)) (acquired J i)"
  by (rule ispec_Ret) (simp_all add: acquired_def)

lemma lock_retried:
  "ispec J i (started J now)
    (bind (GetByScopeAndKeyHash systemOperationLockScope (lock_hash J)) (\<lambda>l. case l of
       Answer (Some latest) \<Rightarrow> Ret (Inl (f latest))
     | _ \<Rightarrow> Ret (Inl e))) (acquired J i)"
proof (rule ispec_bind [OF ispec_Get_started])
  fix r
  show "ispec J i (\<lambda>w. started J now w \<and> (\<forall>x. r = Answer (Some x) \<longrightarrow> ir_Scope x = systemOperationLockScope \<and>
      ir_IdempotencyKeyHash x = lock_hash J \<and> has_found now x w))
    (case r of Answer (Some latest) \<Rightarrow> Ret (Inl (f latest)) | _ \<Rightarrow> Ret (Inl e)) (acquired J i)"
    by (cases r) (auto intro!: acquired_Inl idem_stable split: option.splits)
qed

lemma owner_weaken: "owner_of i rid K w \<Longrightarrow> (\<And>k. K k \<Longrightarrow> K' k) \<Longrightarrow> owner_of i rid K' w"
  by (auto simp: owner_of_def own_record_def)

lemma lock_take_over: "ispec J i (started J now) (takeOverLock J now l e) (acquired J i)"
  unfolding takeOverLock_def
proof (rule ispec_bind [OF ispec_Get_started])
  fix r
  let ?F = "\<lambda>w. started J now w \<and> (\<forall>x. r = Answer (Some x) \<longrightarrow> ir_Scope x = systemOperationLockScope \<and>
      ir_IdempotencyKeyHash x = lock_hash J \<and> has_found now x w)"
  have st: "istable J i ?F" by (intro idem_stable)
  have reject: "ispec J i ?F (Ret (Inl err)) (acquired J i)" for err
    by (rule acquired_Inl [OF st]) simp
  have take: "ispec J i ?F (bind (TryReclaim (ir_ID x) (ir_Status x) now l e) (\<lambda>t. case t of
           DbError \<Rightarrow> Ret (Inl unavailable)
         | Answer True \<Rightarrow> Ret (Inr (ir_ID x))
         | Answer False \<Rightarrow>
             bind (GetByScopeAndKeyHash systemOperationLockScope (lock_hash J)) (\<lambda>l. case l of
               Answer (Some latest) \<Rightarrow>
                 Ret (Inl (AppError (busyError (ir_RequestFingerprint latest) (ir_LockedUntil latest) now)))
             | _ \<Rightarrow> Ret (Inl (AppError ErrSystemOperationBusy))))) (acquired J i)" if r: "r = Answer (Some x)" for x
  proof (rule ispec_bind [OF ispec_reclaim [OF st]])
    show "own_record (ir_ID x) (is_lock J) w" if "?F w" for w
      using that r by (auto simp: has_found_def own_record_def record_key_def)
    then show "may_reclaim (ir_ID x) (ir_Status x) w" if "?F w" for w
      using that by (auto simp: may_reclaim_def own_record_def record_key_def)
    show "started J now w'" if "?F w" "idem_guar J i w w'" for w w'
      by (rule guar_started [OF _ that(2)]) (use that(1) in simp)
    fix t
    show "ispec J i (\<lambda>w. started J now w \<and> (t = Answer True \<longrightarrow> owner_of i (ir_ID x) (is_lock J) w))
      (case t of
         DbError \<Rightarrow> Ret (Inl unavailable)
       | Answer True \<Rightarrow> Ret (Inr (ir_ID x))
       | Answer False \<Rightarrow>
           bind (GetByScopeAndKeyHash systemOperationLockScope (lock_hash J)) (\<lambda>l. case l of
             Answer (Some latest) \<Rightarrow>
               Ret (Inl (AppError (busyError (ir_RequestFingerprint latest) (ir_LockedUntil latest) now)))
           | _ \<Rightarrow> Ret (Inl (AppError ErrSystemOperationBusy)))) (acquired J i)"
    proof (cases t)
      case DbError
      then show ?thesis by (auto intro!: acquired_Inl idem_stable)
    next
      case (Answer b)
      then show ?thesis
        using lock_retried [of J i now]
        by (cases b) (auto intro!: ispec_Ret idem_stable simp: acquired_def)
    qed
  qed (auto intro!: idem_stable)
  show "ispec J i ?F (case r of
       DbError \<Rightarrow> Ret (Inl unavailable)
     | Answer None \<Rightarrow> Ret (Inl unavailable)
     | Answer (Some existing) \<Rightarrow>
         if ir_Status existing = IdempotencyStatusProcessing \<and>
            (case ir_LockedUntil existing of None \<Rightarrow> False | Some l \<Rightarrow> now < l)
         then Ret (Inl (AppError (busyError (ir_RequestFingerprint existing) (ir_LockedUntil existing) now)))
         else bind (TryReclaim (ir_ID existing) (ir_Status existing) now l e) (\<lambda>t. case t of
           DbError \<Rightarrow> Ret (Inl unavailable)
         | Answer True \<Rightarrow> Ret (Inr (ir_ID existing))
         | Answer False \<Rightarrow>
             bind (GetByScopeAndKeyHash systemOperationLockScope (lock_hash J)) (\<lambda>l. case l of
               Answer (Some latest) \<Rightarrow>
                 Ret (Inl (AppError (busyError (ir_RequestFingerprint latest) (ir_LockedUntil latest) now)))
             | _ \<Rightarrow> Ret (Inl (AppError ErrSystemOperationBusy))))) (acquired J i)"
  proof (cases r)
    case DbError
    then show ?thesis using reject by (simp only: DbError answer.case)
  next
    case (Answer found)
    show ?thesis
    proof (cases found)
      case None
      then show ?thesis using reject by (simp only: Answer None answer.case option.case)
    next
      case (Some x)
      show ?thesis
        using reject take [of x] by (simp only: Answer Some answer.case option.case split: if_split) blast
    qed
  qed
qed

lemma lock_acquire_record: "ispec J i (idem_inv J) (acquireRecord J s opid) (acquired J i)"
  unfolding acquireRecord_def Let_def
proof (rule ispec_bind [OF ispec_clock [OF istable_inv]], rule ispec_bind [OF ispec_Create])
  fix now r
  show "ispec J i (\<lambda>w. started J now w \<and> (\<forall>rid. r = Answer (Some rid) \<longrightarrow>
      owner_of i rid ((=) (systemOperationLockScope, lock_hash J, opid)) w))
    (case r of
       DbError \<Rightarrow> Ret (Inl unavailable)
     | Answer (Some rid) \<Rightarrow> Ret (Inr rid)
     | Answer None \<Rightarrow> takeOverLock J now (now + sl_lease s) (now + sl_ttl s)) (acquired J i)"
  proof (cases r)
    case DbError
    then show ?thesis by (auto intro!: acquired_Inl idem_stable)
  next
    case (Answer found)
    show ?thesis
    proof (cases found)
      case None
      with Answer show ?thesis by (simp add: lock_take_over)
    next
      case (Some rid)
      have "ispec J i (\<lambda>w. started J now w \<and> owner_of i rid ((=) (systemOperationLockScope, lock_hash J, opid)) w)
          (Ret (Inr rid)) (acquired J i)"
        by (rule ispec_Ret) (auto intro!: idem_stable intro: owner_weaken simp: acquired_def)
      then show ?thesis by (simp add: Answer Some)
    qed
  qed
qed (auto intro!: idem_stable dest: guar_inv guar_now)

definition has_lock ::
    "('p, 'v) idem_codec \<Rightarrow> nat \<Rightarrow> go_error + SystemOperationLock \<Rightarrow> ('x, 'p, 'v) idem_world \<Rightarrow> bool" where
  "has_lock J i r w \<longleftrightarrow> idem_inv J w \<and> (\<forall>lock. r = Inr lock \<longrightarrow> owner_of i (lk_recordID lock) (is_lock J) w)"

lemma lock_acquire: "ispec J i (idem_inv J) (Acquire J svc opid) (has_lock J i)"
proof -
  have refuse: "ispec J i P (Ret (Inl e)) (has_lock J i)"
    if "istable J i P" "\<And>w. P w \<Longrightarrow> idem_inv J w" for P e
    by (rule ispec_Ret [OF that(1)]) (simp add: has_lock_def that(2))
  have st: "istable J i (acquired J i r)" for r
    unfolding acquired_def by (intro idem_stable)
  have grant: "ispec J i (acquired J i r) (case r of Inl e \<Rightarrow> Ret (Inl e) | Inr rid \<Rightarrow> if rid = 0 then Ret (Inl unavailable)
      else Ret (Inr \<lparr>lk_recordID = rid, lk_operationID = opid\<rparr>)) (has_lock J i)" for r
    by (cases r) (auto intro!: ispec_Ret [OF st] simp: acquired_def has_lock_def)
  show ?thesis
    unfolding Acquire_def
    by (auto split: option.split intro!: refuse idem_stable ispec_bind [OF lock_acquire_record grant])
qed

abbreviation lock_held :: "('p, 'v) idem_codec \<Rightarrow> nat \<Rightarrow> SystemOperationLock \<Rightarrow> ('x, 'p, 'v) idem_world \<Rightarrow> bool" where
  "lock_held J i lock w \<equiv> idem_inv J w \<and> owner_of i (lk_recordID lock) (is_lock J) w"

lemma extend_keeps_claims:
  assumes "claims_something i w"
  shows "claims_something i (after_extend rid fp l e i w)"
proof -
  from assms obtain rid' d where d: "iw_claims w rid' i = Some d" by (auto simp: claims_something_def)
  have "iw_claims (after_extend rid fp l e i w) rid i = Some (min l e) \<or>
      iw_claims (after_extend rid fp l e i w) rid' i = Some d"
    using d by (simp add: do_extend_def table_statements history_defs)
  then show ?thesis by (auto simp: claims_something_def)
qed

lemma lock_renew: "ispec J i (lock_held J i lock) (renewTick s lock) (\<lambda>_. lock_held J i lock)"
proof -
  have st: "istable J i (lock_held J i lock)" by (intro idem_stable)
  have extend: "ispec J i (\<lambda>w. lock_held J i lock w \<and> now \<le> iw_now w)
      (ExtendProcessingLock (lk_recordID lock) fp l e) (\<lambda>_. lock_held J i lock)" for now fp l e
    unfolding ExtendProcessingLock_def
  proof (rule ispec_statement)
    fix w w1 x
    assume P: "lock_held J i lock w \<and> now \<le> iw_now w" and "do_extend (lk_recordID lock) fp l e i w = Some (w1, x)"
    then have w1: "w1 = after_extend (lk_recordID lock) fp l e i w" by simp
    show g: "idem_guar J i w (settle w1)"
      unfolding w1 using P by (intro extend_guar) (auto simp: owner_of_def own_record_def)
    have "claims_something i w1"
      using P unfolding w1 by (intro extend_keeps_claims) (simp add: owner_of_def)
    with own_record_step [OF g] guar_inv [OF _ g] P show "lock_held J i lock (settle w1) \<and> lock_held J i lock (settle w1)"
      by (simp add: owner_of_def claims_something_def)
  qed (use st in \<open>auto intro!: idem_stable\<close>)
  show ?thesis
    unfolding renewTick_def
    by (rule ispec_bind [OF ispec_clock [OF st] ispec_bind [OF extend]])
       (auto split: answer.split intro!: ispec_Ret st)
qed

lemma own_record_app [simp]: "own_record rid K (w\<lparr>iw_app := x\<rparr>) = own_record rid K w"
  by (simp add: own_record_def)

lemma lock_work: "ispec J i (lock_held J i lock) (on_app p) (\<lambda>_. lock_held J i lock)"
  by (rule ispec_app) (auto simp: inv_app owner_of_def intro!: idem_stable)

lemma lock_holding: "ispec J i (lock_held J i lock) (holding s lock work renewing) (\<lambda>_. lock_held J i lock)"
proof (induction work arbitrary: renewing)
  case Nil
  show ?case by (auto intro!: ispec_Ret idem_stable)
next
  case (Cons t ts)
  show ?case
  proof (cases t)
    case None
    then show ?thesis by (auto intro!: ispec_bind [OF lock_renew] Cons)
  next
    case (Some p)
    then show ?thesis by (auto intro!: ispec_bind [OF lock_work] Cons)
  qed
qed

lemma lock_release: "ispec J i (lock_held J i lock) (Release J s lock succeeded reason) (\<lambda>_. idem_inv J)"
proof -
  have st: "istable J i (lock_held J i lock)" by (intro idem_stable)
  have clk: "ispec J i (lock_held J i lock) clock (\<lambda>_. lock_held J i lock)"
    by (rule ispec_conseq [OF ispec_clock [OF st]]) auto
  have mark: "ispec J i (lock_held J i lock)
      (MarkSucceeded (systemOperationLockScope, lock_hash J, opid) (lk_recordID lock) st b e) (\<lambda>_. idem_inv J)" for opid st b e
    by (rule ispec_conseq [OF ispec_mark_succeeded]) (auto simp: owner_of_def own_record_def stores_for_def)
  have fail: "ispec J i (lock_held J i lock) (MarkFailedRetryable (lk_recordID lock) r l e) (\<lambda>_. idem_inv J)" for r l e
    by (rule ispec_conseq [OF ispec_mark_failed [where K = "is_lock J"]]) (auto simp: owner_of_def)
  show ?thesis
    unfolding Release_def Let_def
    by (rule ispec_bind [OF clk]) (auto intro!: mark ispec_bind [OF clk] fail)
qed

lemma ispec_systemOperation:
  "ispec J i (idem_inv J) (systemOperation J svc opid reason work finish) (\<lambda>_. idem_inv J)"
  unfolding systemOperation_def
proof (rule ispec_bind [OF lock_acquire])
  fix a
  show "ispec J i (has_lock J i a)
    (case a of
       Inl e \<Rightarrow> Ret (Inl e)
     | Inr lock \<Rightarrow>
         (case svc of
            None \<Rightarrow> Ret (Inl unavailable)
          | Some s \<Rightarrow>
              bind (holding s lock work True) (\<lambda>_.
              bind (on_app finish) (\<lambda>res.
              bind (case res of
                      Inl e \<Rightarrow> Release J s lock False reason
                    | Inr data \<Rightarrow> Release J s lock True []) (\<lambda>_.
              Ret res))))) (\<lambda>_. idem_inv J)"
  proof (cases a)
    case (Inl e)
    have "istable J i (has_lock J i a)" unfolding has_lock_def by (intro idem_stable)
    then show ?thesis unfolding Inl sum.case by (rule ispec_Ret) (simp add: has_lock_def)
  next
    case (Inr lock)
    have keep: "ispec J i (lock_held J i lock) (case svc of
            None \<Rightarrow> Ret (Inl unavailable)
          | Some s \<Rightarrow>
              bind (holding s lock work True) (\<lambda>_.
              bind (on_app finish) (\<lambda>res.
              bind (case res of
                      Inl e \<Rightarrow> Release J s lock False reason
                    | Inr data \<Rightarrow> Release J s lock True []) (\<lambda>_.
              Ret res)))) (\<lambda>_. idem_inv J)"
      by (auto split: option.split sum.split intro!: ispec_bind [OF lock_holding] ispec_bind [OF lock_work]
            ispec_bind [OF lock_release] ispec_Ret idem_stable)
    show ?thesis
      unfolding Inr sum.case by (rule ispec_conseq [OF keep]) (auto simp: has_lock_def)
  qed
qed

lemma executor_systemOperation: "executor_ok J (systemOperation J svc opid reason work finish)"
  unfolding executor_ok_def by (auto intro: ispec_conseq [OF ispec_systemOperation])

section \<open>The server\<close>

text \<open>
  The calls of a server that enforces keys: users and administrators whose requests act on the
  application, the operations of the system handler, and the clean-up.
\<close>

inductive idem_call ::
    "('p, 'v) idem_codec \<Rightarrow> IdempotencyCoordinator \<Rightarrow> SystemOperationLockService option \<Rightarrow> ('x, 'p, 'v, unit) icall \<Rightarrow> bool"
  for J c svc where
  user: "idem_call J c svc (executeUserIdempotentJSON J (Some c) opts (on_app p))"
| admin: "idem_call J c svc (executeAdminIdempotentJSON J (Some c) opts (on_app p))"
| system: "idem_call J c svc (executeAdminIdempotentJSON J (Some c) opts (systemOperation J svc opid reason work finish))"
| cleanup: "idem_call J c svc (cleanupOnce batch)"

lemma idem_call_ok:
  assumes "idem_call J c svc p" and "\<not> cfg_ObserveOnly (co_cfg c)"
  shows "ispec J i (idem_inv J) p (\<lambda>_ _. True)"
proof -
  have "ispec J i (idem_inv J) p (\<lambda>_. idem_inv J)"
    using assms by (cases rule: idem_call.cases)
      (simp_all add: ispec_user ispec_admin executor_app executor_systemOperation ispec_cleanup)
  then show ?thesis by (rule ispec_conseq) simp_all
qed

text \<open>A new table.\<close>

definition idem_fresh :: "('x, 'p, 'v) idem_world \<Rightarrow> bool" where
  "idem_fresh w \<longleftrightarrow> rows w = [] \<and> iw_sent w = [] \<and> iw_claims w = (\<lambda>_ _. None) \<and> iw_log w = []"

lemma fresh_inv: "idem_fresh w \<Longrightarrow> idem_inv J w"
  by (simp add: idem_fresh_def idem_inv_def table_ok_def stored_ok_def sent_ok_def claims_ok_def live_iff lives_ok_def
      expired_rows_def)

abbreviation idem_reaches where "idem_reaches J c svc \<equiv> reachable (idem_call J c svc) idem_env"

lemma idem_reached:
  assumes "idem_fresh w0" and "\<not> cfg_ObserveOnly (co_cfg c)" and "idem_reaches J c svc w0 (w, ps)"
  shows "idem_inv J w"
  by (rule idem.reachable_inv [OF _ fresh_inv [OF assms(1)] assms(3)]) (rule idem_call_ok [OF _ assms(2)])

end
