(* ===== verification/Idempotency_Runs.thy ===== *)
theory Idempotency_Runs
  imports Idempotency_Safety
begin

text \<open>
  Single requests and particular interleavings: what a request and its retries return, the system
  lock from its first to its third holder, and the behaviours the code does not intend.
\<close>

section \<open>Requests that meet no failure\<close>

named_theorems smooth_runs \<open>the outcome of an operation when nothing fails\<close>

lemma smooth_Ret [smooth_runs]: "smooth i (Ret x) w = Some (w, x)"
  by simp

lemma smooth_clock [smooth_runs]: "smooth i clock w = Some (w, iw_now w)"
  by (simp add: clock_def smooth_atom)

lemma smooth_statement [smooth_runs]:
  "smooth i (statement f) w = (case f i w of None \<Rightarrow> Some (w, DbError) | Some (w', x) \<Rightarrow> Some (settle w', Answer x))"
  by (auto simp: statement_def atom_def split: option.splits)

lemma smooth_Get [smooth_runs]:
  "smooth i (GetByScopeAndKeyHash scope keyHash) w = Some (w, Answer (find_record scope keyHash (iw_db w)))"
  by (simp add: GetByScopeAndKeyHash_def atom_def)

lemma smooth_app [smooth_runs]:
  "smooth i (on_app p) w = map_option (\<lambda>(x, r). (w\<lparr>iw_app := x\<rparr>, r)) (smooth i p (iw_app w))"
proof (induction p arbitrary: w rule: prog_induct)
  case (Atomic f)
  show ?case
  proof (cases "f i (iw_app w)")
    case (Cons a as)
    obtain x p where a: "a = (x, p)" by (cases a)
    have "smooth i (on_app p) (w\<lparr>iw_app := x\<rparr>) = map_option (\<lambda>(x, r). (w\<lparr>iw_app := x\<rparr>, r)) (smooth i p x)"
      using Atomic [of x p i "iw_app w" "w\<lparr>iw_app := x\<rparr>"] Cons a by simp
    with Cons a show ?thesis by simp
  qed simp
qed simp

lemmas smooth_calls = CreateProcessing_def TryReclaim_def ExtendProcessingLock_def MarkSucceeded_def MarkFailedRetryable_def

text \<open>The clock moves on.\<close>

definition later :: "int \<Rightarrow> ('x, 'p, 'v) idem_world \<Rightarrow> ('x, 'p, 'v) idem_world" where
  "later t w = settle (w\<lparr>iw_now := t\<rparr>)"

lemma later_simps [simp]:
  "iw_db (later t w) = iw_db w" "iw_now (later t w) = t" "iw_app (later t w) = iw_app w"
  "iw_sent (later t w) = iw_sent w" "iw_claims (later t w) = iw_claims w" "iw_late (later t w) = iw_late w"
  "iw_log (later t w) = iw_log w"
  by (simp_all add: later_def)

lemma idem_env_later: "iw_now w \<le> t \<Longrightarrow> idem_env w (later t w)"
  by (auto simp: idem_env_def later_def)

text \<open>A request whose key is in order.\<close>

definition keyed_request ::
    "('p, 'v) idem_codec \<Rightarrow> IdempotencyCoordinator \<Rightarrow> 'p IdempotencyExecuteOptions \<Rightarrow> string \<Rightarrow> string \<Rightarrow> bool" where
  "keyed_request J c opts keyHash fp \<longleftrightarrow> co_repo c \<and> op_Scope opts \<noteq> [] \<and>
     (\<exists>key. NormalizeIdempotencyKey (op_IdempotencyKey opts) = Inr key \<and> key \<noteq> [] \<and> keyHash = HashIdempotencyKey J key) \<and>
     BuildIdempotencyFingerprint J (op_Method opts) (op_Route opts) (op_ActorScope opts) (op_Payload opts) = Inr fp"

definition request_ttl :: "IdempotencyCoordinator \<Rightarrow> 'p IdempotencyExecuteOptions \<Rightarrow> int" where
  "request_ttl c opts = (if op_TTL opts \<le> 0 then cfg_DefaultTTL (co_cfg c) else op_TTL opts)"

lemma Execute_keyed:
  assumes "keyed_request J c opts keyHash fp"
  shows "Execute J c opts (Some execute) =
    bind clock (\<lambda>now.
    bind (claimKey J (op_Scope opts) keyHash fp now (now + cfg_ProcessingTimeout (co_cfg c)) (now + request_ttl c opts)) (\<lambda>r.
    case r of
      Rejected e \<Rightarrow> Ret (Inl e)
    | Replay data \<Rightarrow> Ret (Inr \<lparr>er_Data = Stored data, er_Replayed = True\<rparr>)
    | Owner rid \<Rightarrow>
        if rid = 0 then Ret (Inl unavailable)
        else runClaimed J (co_cfg c) (op_Scope opts, keyHash, fp) (now + request_ttl c opts) rid execute))"
proof -
  from assms obtain key where key: "NormalizeIdempotencyKey (op_IdempotencyKey opts) = Inr key" "key \<noteq> []"
      "keyHash = HashIdempotencyKey J key" by (auto simp: keyed_request_def)
  with assms show ?thesis
    unfolding key(3)
    by (simp add: keyed_request_def Execute_def executeKeyed_def Let_def request_ttl_def [symmetric])
qed

definition fits_columns :: "string \<Rightarrow> string \<Rightarrow> string \<Rightarrow> bool" where
  "fits_columns scope keyHash fp \<longleftrightarrow> fits_column 128 scope \<and> fits_column 64 keyHash \<and> fits_column 64 fp"

lemma smooth_create:
  assumes "fits_columns scope keyHash fp"
  shows "smooth i (CreateProcessing (processing_record scope keyHash fp l e) d) w =
    (if find_record scope keyHash (iw_db w) \<noteq> None then Some (settle w, Answer None)
     else Some (settle (begin_claim (next_id w) i d (w\<lparr>iw_db :=
       \<lparr>db_rows = rows w @ [(processing_record scope keyHash fp l e)\<lparr>ir_ID := next_id w, ir_CreatedAt := iw_now w,
                             ir_UpdatedAt := iw_now w\<rparr>],
        db_next = next_id w + 1\<rparr>\<rparr>)), Answer (Some (next_id w))))"
proof -
  have "fits_column 32 IdempotencyStatusProcessing" by code_simp
  then have ok: "fits_column 128 scope \<and> fits_column 64 keyHash \<and> fits_column 64 fp \<and>
      fits_column 32 IdempotencyStatusProcessing"
    using assms by (simp add: fits_columns_def)
  show ?thesis
  proof (cases "find_record scope keyHash (iw_db w)")
    case None
    with ok show ?thesis
      unfolding CreateProcessing_def smooth_statement do_create_def insert_processing_def processing_record_def by simp
  next
    case (Some r)
    with ok show ?thesis
      unfolding CreateProcessing_def smooth_statement do_create_def insert_processing_def processing_record_def by simp
  qed
qed

lemma find_record_key:
  assumes "table_ok w" and "r \<in> set (rows w)" and "ir_Scope r = scope" and "ir_IdempotencyKeyHash r = keyHash"
  shows "find_record scope keyHash (iw_db w) = Some r"
proof (cases "find_record scope keyHash (iw_db w)")
  case None
  with assms show ?thesis by (auto simp: find_record_def find_None_iff)
next
  case (Some r')
  then have "r' \<in> set (rows w)" "ir_Scope r' = scope" "ir_IdempotencyKeyHash r' = keyHash"
    by (auto simp: find_record_def find_Some_iff)
  with assms have "r' = r" by (auto simp: table_ok_def distinct_map dest: inj_onD)
  with Some show ?thesis by simp
qed

lemma find_recordD:
  assumes "find_record scope keyHash (iw_db w) = Some r"
  shows "r \<in> set (rows w)" "ir_Scope r = scope" "ir_IdempotencyKeyHash r = keyHash"
  using assms by (auto simp: find_record_def find_Some_iff)

lemma find_in_changed:
  assumes "keeps_keys f"
  shows "find (\<lambda>r. ir_Scope r = scope \<and> ir_IdempotencyKeyHash r = keyHash) (map (change_row rid f) rs) =
    map_option (change_row rid f) (find (\<lambda>r. ir_Scope r = scope \<and> ir_IdempotencyKeyHash r = keyHash) rs)"
  by (induction rs) (simp_all add: change_row_keys [OF assms])

lemma find_append_None: "find P xs = None \<Longrightarrow> find P (xs @ ys) = find P ys"
  by (induction xs) (auto split: if_splits)

text \<open>The first request with a key runs the executor and stores what it returned.\<close>

lemma first_request:
  assumes req: "keyed_request J c opts keyHash fp" and fits: "fits_columns (op_Scope opts) keyHash fp"
    and new: "find_record (op_Scope opts) keyHash (iw_db w) = None" and next_id: "0 < next_id w"
    and work: "smooth i p (iw_app w) = Some (x, Inr data)"
    and body: "marshalStoredResponse J (co_cfg c) data = Some body"
  shows "\<exists>w1 r. smooth i (Execute J c opts (Some (on_app p))) w = Some (w1, Inr \<lparr>er_Data = Fresh data, er_Replayed = False\<rparr>) \<and>
    iw_app w1 = x \<and> iw_now w1 = iw_now w \<and> next_id w1 = next_id w + 1 \<and>
    find_record (op_Scope opts) keyHash (iw_db w1) = Some r \<and> ir_Status r = IdempotencyStatusSucceeded \<and>
    ir_RequestFingerprint r = fp \<and> ir_ResponseBody r = Some body \<and> ir_ExpiresAt r = iw_now w + request_ttl c opts"
proof -
  have nz: "next_id w \<noteq> 0" using next_id by simp
  show ?thesis
    unfolding Execute_keyed [OF req] claimKey_def
    using nz work
    by (simp add: smooth_bind smooth_clock smooth_create [OF fits] new smooth_Ret runClaimed_def smooth_app body
        MarkSucceeded_def smooth_statement do_succeed_def history_defs mark_succeeded_eq)
       (insert new, simp add: find_record_def find_in_changed find_append_None processing_record_def change_row_def
        succeed_change_def)
qed

text \<open>A request whose record exists, unexpired and succeeded.\<close>

lemma retried_request:
  assumes req: "keyed_request J c opts keyHash fp" and fits: "fits_columns (op_Scope opts) keyHash fp"
    and found: "find_record (op_Scope opts) keyHash (iw_db w) = Some r" and fresh: "iw_now w < ir_ExpiresAt r"
    and fp: "ir_RequestFingerprint r = fp" and st: "ir_Status r = IdempotencyStatusSucceeded"
  shows "smooth i (Execute J c opts (Some execute)) w =
    Some (settle w, case decodeStoredResponse J (ir_ResponseBody r) of
      None \<Rightarrow> Inl unavailable | Some data \<Rightarrow> Inr \<lparr>er_Data = Stored data, er_Replayed = True\<rparr>)"
  unfolding Execute_keyed [OF req] claimKey_def reuseExisting_def
  by (simp add: smooth_bind smooth_clock smooth_create [OF fits] found smooth_Get fp fresh dispatchExisting_def st
      split: option.split)

section \<open>What a retry returns\<close>

text \<open>
  The texts of a response: what the executor returned is written as \<open>raw\<close>, which is JSON of the
  value \<open>val\<close>; its redaction is written as \<open>enc\<close>. The last law is the round trip of the JSON
  package for a decoded value.
\<close>

definition json_response :: "('p, 'v) idem_codec \<Rightarrow> 'v \<Rightarrow> string \<Rightarrow> any_val \<Rightarrow> string \<Rightarrow> bool" where
  "json_response J data raw val enc \<longleftrightarrow>
     json_data J data = Some raw \<and> go_TrimSpace raw = raw \<and> raw \<noteq> [] \<and> json_Valid J raw \<and> json_parse J raw = Some val \<and>
     json_any J (redactValueWithDepth val 0) = Some enc \<and> go_TrimSpace enc \<noteq> [] \<and>
     json_parse J enc = Some (redactValueWithDepth val 0)"

lemma marshal_response:
  assumes "json_response J data raw val enc"
  shows "marshalStoredResponse J cfg data =
    Some (if 0 < cfg_MaxStoredResponseLen cfg \<and> cfg_MaxStoredResponseLen cfg < int (length enc)
          then truncateUTF8 enc (cfg_MaxStoredResponseLen cfg) @ ''...(truncated)'' else enc)"
  using assms by (simp add: json_response_def marshalStoredResponse_def RedactText_def RedactJSON_def Let_def)

text \<open>
  C12: A request that succeeded is not carried out again while its record lives: every retry with the same
  key, whoever makes it and whatever its executor would do, leaves the application as it is and
  returns the redacted JSON value of the first response, marked as a replay.
\<close>
theorem retry_replays:
  assumes "keyed_request J c opts keyHash fp" and "fits_columns (op_Scope opts) keyHash fp"
    and "find_record (op_Scope opts) keyHash (iw_db w) = None" and "0 < next_id w"
    and "smooth i p (iw_app w) = Some (x, Inr data)"
    and "json_response J data raw val enc" and "int (length enc) \<le> cfg_MaxStoredResponseLen (co_cfg c)"
    and "iw_now w \<le> t" and "t < iw_now w + request_ttl c opts"
  shows "\<exists>w1. smooth i (Execute J c opts (Some (on_app p))) w = Some (w1, Inr \<lparr>er_Data = Fresh data, er_Replayed = False\<rparr>) \<and>
    iw_app w1 = x \<and>
    (\<forall>j execute. \<exists>w2. smooth j (Execute J c opts (Some execute)) (later t w1) =
        Some (w2, Inr \<lparr>er_Data = Stored (redactValueWithDepth val 0), er_Replayed = True\<rparr>) \<and> iw_app w2 = x)"
proof -
  have body: "marshalStoredResponse J (co_cfg c) data = Some enc"
    using assms(7) by (simp add: marshal_response [OF assms(6)])
  from first_request [OF assms(1-5) body] obtain w1 r where
      w1: "smooth i (Execute J c opts (Some (on_app p))) w = Some (w1, Inr \<lparr>er_Data = Fresh data, er_Replayed = False\<rparr>)"
      "iw_app w1 = x" "find_record (op_Scope opts) keyHash (iw_db w1) = Some r" "ir_Status r = IdempotencyStatusSucceeded"
      "ir_RequestFingerprint r = fp" "ir_ResponseBody r = Some enc" "ir_ExpiresAt r = iw_now w + request_ttl c opts" by blast
  have "decodeStoredResponse J (Some enc) = Some (redactValueWithDepth val 0)"
    using assms(6) by (simp add: json_response_def decodeStoredResponse_def)
  with w1 retried_request [OF assms(1,2), of "later t w1" r] assms(9) show ?thesis by auto
qed

lemma truncated_not_blank: "go_TrimSpace (s @ ''...(truncated)'') \<noteq> []"
proof
  assume "go_TrimSpace (s @ ''...(truncated)'') = []"
  then have "count_byte (CHR ''.'') (s @ ''...(truncated)'') = 0"
    using count_TrimSpace [of "s @ ''...(truncated)''"] by (simp add: count_byte_def)
  then show False by (simp add: count_byte_def)
qed

text \<open>
  C26: A response longer than the limit is cut and marked, which is no longer JSON (no JSON text ends
  with a parenthesis): the request succeeds, but until its record expires every retry fails with
  "idempotency store unavailable" instead of a replay.
\<close>
theorem long_response_not_replayed:
  assumes "keyed_request J c opts keyHash fp" and "fits_columns (op_Scope opts) keyHash fp"
    and "find_record (op_Scope opts) keyHash (iw_db w) = None" and "0 < next_id w"
    and "smooth i p (iw_app w) = Some (x, Inr data)"
    and "json_response J data raw val enc"
    and "0 < cfg_MaxStoredResponseLen (co_cfg c)" and "cfg_MaxStoredResponseLen (co_cfg c) < int (length enc)"
    and not_json: "\<And>s. json_parse J (s @ '')'') = None"
    and "iw_now w \<le> t" and "t < iw_now w + request_ttl c opts"
  shows "\<exists>w1. smooth i (Execute J c opts (Some (on_app p))) w = Some (w1, Inr \<lparr>er_Data = Fresh data, er_Replayed = False\<rparr>) \<and>
    iw_app w1 = x \<and>
    (\<forall>j execute. \<exists>w2. smooth j (Execute J c opts (Some execute)) (later t w1) = Some (w2, Inl unavailable) \<and> iw_app w2 = x)"
proof -
  define cut where "cut = truncateUTF8 enc (cfg_MaxStoredResponseLen (co_cfg c)) @ ''...(truncated)''"
  have body: "marshalStoredResponse J (co_cfg c) data = Some cut"
    using assms(7,8) by (simp add: marshal_response [OF assms(6)] cut_def)
  from first_request [OF assms(1-5) body] obtain w1 r where
      w1: "smooth i (Execute J c opts (Some (on_app p))) w = Some (w1, Inr \<lparr>er_Data = Fresh data, er_Replayed = False\<rparr>)"
      "iw_app w1 = x" "find_record (op_Scope opts) keyHash (iw_db w1) = Some r" "ir_Status r = IdempotencyStatusSucceeded"
      "ir_RequestFingerprint r = fp" "ir_ResponseBody r = Some cut" "ir_ExpiresAt r = iw_now w + request_ttl c opts" by blast
  have "cut = (truncateUTF8 enc (cfg_MaxStoredResponseLen (co_cfg c)) @ ''...(truncated'') @ '')''"
    by (simp add: cut_def)
  then have "json_parse J cut = None" using not_json by metis
  then have "decodeStoredResponse J (Some cut) = None"
    using truncated_not_blank by (simp add: decodeStoredResponse_def cut_def)
  with w1 retried_request [OF assms(1,2), of "later t w1" r] assms(11) show ?thesis by auto
qed

section \<open>Requests alone, with every failure\<close>

lemma returns_bindE: "returns i (bind p k) w w' y \<Longrightarrow> \<exists>w1 x. returns i p w w1 x \<and> returns i (k x) w1 w' y"
proof (induction p arbitrary: w rule: prog_induct)
  case (Ret x)
  then show ?case using returns_Ret [of i x w] by auto
next
  case (Atomic f)
  then obtain cs where run: "run_alone i cs (bind (Atomic f) k) w = (w', Ret y)" by (auto simp: returns_def)
  then obtain n cs' where cs: "cs = n # cs'" by (cases cs) auto
  from run cs obtain w2 p2 r where d: "drop n (f i w) = (w2, p2) # r" and run': "run_alone i cs' (bind p2 k) w2 = (w', Ret y)"
    by (auto simp: drop_map split: list.splits)
  have "(w2, p2) \<in> set (f i w)" using d by (metis in_set_dropD list.set_intros(1))
  from Atomic(1) [OF this, of w2] run' obtain w1 x where
    x: "returns i p2 w2 w1 x" "returns i (k x) w1 w' y" by (auto simp: returns_def)
  then obtain cs'' where "run_alone i cs'' p2 w2 = (w1, Ret x)" by (auto simp: returns_def)
  with d have "run_alone i (n # cs'') (Atomic f) w = (w1, Ret x)" by simp
  with x(2) show ?case unfolding returns_def by blast
qed

lemma returns_Ret_iff [simp]: "returns i (Ret x) w w' y \<longleftrightarrow> w' = w \<and> y = x"
  by (auto simp: returns_def)

lemma returns_atomD:
  assumes "returns i (atom f) w w' x"
  shows "(w', x) \<in> set (f i w)"
proof -
  from assms obtain cs where run: "run_alone i cs (atom f) w = (w', Ret x)" by (auto simp: returns_def)
  then obtain n cs' where cs: "cs = n # cs'" by (cases cs) (auto simp: atom_def)
  from run cs obtain a r where "drop n (f i w) = a # r" "a = (w', x)"
    by (auto simp: atom_def drop_map split: list.splits)
  then show ?thesis by (metis in_set_dropD list.set_intros(1))
qed

text \<open>
  C27: A request that was claimed and never finished (the process died, the answer could not be stored)
  blocks its key until the record expires, whether or not its processing lock has run out: every
  retry is refused and runs nothing, whatever the database answers.
\<close>
theorem unfinished_request_blocks:
  assumes "keyed_request J c opts keyHash fp" and "fits_columns (op_Scope opts) keyHash fp"
    and "find_record (op_Scope opts) keyHash (iw_db w) = Some r" and "ir_Status r = IdempotencyStatusProcessing"
    and "ir_RequestFingerprint r = fp" and "iw_now w < ir_ExpiresAt r"
    and "returns i (Execute J c opts (Some execute)) w w' res"
  shows "(\<exists>e. res = Inl e) \<and> iw_app w' = iw_app w \<and> iw_db w' = iw_db w"
proof -
  let ?l = "iw_now w + cfg_ProcessingTimeout (co_cfg c)" and ?e = "iw_now w + request_ttl c opts"
  from assms(7) obtain w1 a where a: "returns i (claimKey J (op_Scope opts) keyHash fp (iw_now w) ?l ?e) w w1 a"
    and res: "returns i (case a of
        Rejected e \<Rightarrow> Ret (Inl e)
      | Replay data \<Rightarrow> Ret (Inr \<lparr>er_Data = Stored data, er_Replayed = True\<rparr>)
      | Owner rid \<Rightarrow> if rid = 0 then Ret (Inl unavailable)
          else runClaimed J (co_cfg c) (op_Scope opts, keyHash, fp) ?e rid execute) w1 w' res"
    unfolding Execute_keyed [OF assms(1)] clock_def by (auto dest!: returns_bindE returns_atomD)
  from a obtain w0 b where b: "returns i (CreateProcessing (processing_record (op_Scope opts) keyHash fp ?l ?e) (min ?l ?e)) w w0 b"
    and c: "returns i (case b of
          DbError \<Rightarrow> Ret (Rejected unavailable)
        | Answer (Some rid) \<Rightarrow> Ret (Owner rid)
        | Answer None \<Rightarrow> reuseExisting J (op_Scope opts) keyHash fp (iw_now w) ?l ?e) w0 w1 a"
    unfolding claimKey_def by (auto dest!: returns_bindE)
  have create: "do_create (processing_record (op_Scope opts) keyHash fp ?l ?e) d i w = Some (w, None)" for d
    using smooth_create [OF assms(2), of i ?l ?e d w] assms(3)
    by (auto simp: do_create_def insert_processing_def processing_record_def CreateProcessing_def smooth_statement
        split: if_splits)
  have w0: "w0 = w \<or> w0 = settle w" and "b = DbError \<or> b = Answer None"
    using returns_atomD [OF b [unfolded CreateProcessing_def statement_def]] by (auto simp: create)
  then have "\<exists>e. a = Rejected e" and "iw_app w1 = iw_app w \<and> iw_db w1 = iw_db w"
    using c assms(3-6)
    by (auto simp: reuseExisting_def GetByScopeAndKeyHash_def dispatchExisting_def dest!: returns_bindE returns_atomD)
  with res show ?thesis by auto
qed

section \<open>The lock of system operations\<close>

abbreviation find_lock :: "('p, 'v) idem_codec \<Rightarrow> ('x, 'p, 'v) idem_world \<Rightarrow> IdempotencyRecord option" where
  "find_lock J w \<equiv> find_record systemOperationLockScope (lock_hash J) (iw_db w)"

abbreviation lock_fits :: "('p, 'v) idem_codec \<Rightarrow> string \<Rightarrow> bool" where
  "lock_fits J opid \<equiv> fits_columns systemOperationLockScope (lock_hash J) opid"

lemma smooth_extend:
  "smooth i (ExtendProcessingLock rid fp l e) w = Some (settle (after_extend rid fp l e i w),
     Answer (\<exists>r \<in> set (rows w). ir_ID r = rid \<and> ir_Status r = IdempotencyStatusProcessing \<and> ir_RequestFingerprint r = fp))"
  by (simp add: ExtendProcessingLock_def smooth_statement do_extend_def table_statements)

lemma smooth_reclaim:
  "smooth i (TryReclaim rid fromStatus now l e) w = Some (settle (after_reclaim rid fromStatus now l e i w),
     Answer (\<exists>r \<in> set (rows w). ir_ID r = rid \<and> ir_Status r = fromStatus \<and> free_at now r))"
  by (simp add: TryReclaim_def smooth_statement do_reclaim_def table_statements)

text \<open>A lock that is free is taken over; its row keeps the fingerprint it was created with.\<close>

lemma acquire_free:
  assumes tbl: "table_ok w" and op: "opid \<noteq> []" and fits: "lock_fits J opid"
    and found: "find_lock J w = Some r" and id: "ir_ID r \<noteq> 0"
    and free: "free_at (iw_now w) r"
  shows "\<exists>w1. smooth i (Acquire J (Some s) opid) w = Some (w1, Inr \<lparr>lk_recordID = ir_ID r, lk_operationID = opid\<rparr>) \<and>
    iw_now w1 = iw_now w \<and> table_ok w1 \<and>
    find_lock J w1 = Some (reclaim_change (iw_now w) (ir_Status r) (iw_now w) (iw_now w + sl_lease s) (iw_now w + sl_ttl s) r)"
proof -
  let ?w = "after_reclaim (ir_ID r) (ir_Status r) (iw_now w) (iw_now w + sl_lease s) (iw_now w + sl_ttl s) i (settle w)"
  note r = find_recordD [OF found]
  have taken: "\<exists>r' \<in> set (rows w). ir_ID r' = ir_ID r \<and> ir_Status r' = ir_Status r \<and> free_at (iw_now w) r'"
    using r(1) free by blast
  have busy: "\<not> (case ir_LockedUntil r of None \<Rightarrow> False | Some l \<Rightarrow> iw_now w < l)"
    using free by (auto simp: free_at_def split: option.splits)
  have run: "smooth i (Acquire J (Some s) opid) w = Some (settle ?w, Inr \<lparr>lk_recordID = ir_ID r, lk_operationID = opid\<rparr>)"
    using op id taken busy
    by (simp add: Acquire_def acquireRecord_def takeOverLock_def Let_def smooth_bind smooth_clock smooth_create [OF fits]
        found smooth_Get smooth_reclaim)
  have "table_ok ?w"
  proof (rule reclaimed.table_ok)
    show "table_ok (settle w)" using tbl by (simp add: table_ok_def)
    show "ir_ID r < next_id (settle w)" using tbl r(1) by (simp add: table_ok_def)
    show "e \<in> set (iw_log (settle w)) \<or> event_row e = ir_ID r" if "e \<in> set (iw_log ?w)" for e
      using that taken by (auto simp: do_reclaim_def table_statements history_defs)
  qed
  then have "table_ok (settle ?w)" by (simp add: table_ok_def)
  moreover have "find_lock J (settle ?w) = Some (reclaim_change (iw_now w) (ir_Status r) (iw_now w)
      (iw_now w + sl_lease s) (iw_now w + sl_ttl s) r)"
    using found reclaimed.changed [where w = "settle w" and rid = "ir_ID r" and i = i and now = "iw_now w"
        and fromStatus = "ir_Status r" and l = "iw_now w + sl_lease s" and e = "iw_now w + sl_ttl s"]
    by (simp add: find_record_def find_in_changed change_row_def)
  ultimately show ?thesis using run by (intro exI [of _ "settle ?w"]) (simp add: reclaimed.same_now)
qed

text \<open>
  C24: The lock loses its holder: from the second operation on, the row of the lock names the operation that
  created it, so no renewal of the new holder succeeds and its renewal loop stops at the first turn;
  once the first lease has run out another operation acquires the same lock while the holder works.
\<close>
theorem second_holder_loses_lock:
  assumes "idem_inv J w" and "find_lock J w = Some r" and "ir_ID r \<noteq> 0"
    and "ir_Status r = IdempotencyStatusSucceeded" and "ir_LockedUntil r = None"
    and "op2 \<noteq> []" and "op3 \<noteq> []" and "lock_fits J op2" and "lock_fits J op3"
    and "op2 \<noteq> ir_RequestFingerprint r" and "iw_now w + sl_lease s \<le> t"
  shows "\<exists>w1 lock2. smooth i (Acquire J (Some s) op2) w = Some (w1, Inr lock2) \<and>
    (\<forall>t'. \<exists>w'. smooth i (renewTick s lock2) (later t' w1) = Some (w', False) \<and> iw_db w' = iw_db w1) \<and>
    (\<exists>w3 lock3. smooth j (Acquire J (Some s) op3) (later t w1) = Some (w3, Inr lock3) \<and>
       lk_recordID lock3 = lk_recordID lock2)"
proof -
  have "free_at (iw_now w) r" using assms(5) by (simp add: free_at_def)
  from acquire_free [OF idem_inv_parts(1) [OF assms(1)] assms(6,8,2,3) this, of i s] obtain w1 where
    w1: "smooth i (Acquire J (Some s) op2) w = Some (w1, Inr \<lparr>lk_recordID = ir_ID r, lk_operationID = op2\<rparr>)"
      "iw_now w1 = iw_now w" "table_ok w1"
      "find_lock J w1 = Some (reclaim_change (iw_now w) (ir_Status r) (iw_now w) (iw_now w + sl_lease s) (iw_now w + sl_ttl s) r)"
    by blast
  define x where "x = reclaim_change (iw_now w) (ir_Status r) (iw_now w) (iw_now w + sl_lease s) (iw_now w + sl_ttl s) r"
  have x: "ir_ID x = ir_ID r" "ir_RequestFingerprint x = ir_RequestFingerprint r" "ir_LockedUntil x = Some (iw_now w + sl_lease s)"
    using \<open>free_at (iw_now w) r\<close> by (simp_all add: x_def reclaim_change_def)
  have row: "x \<in> set (rows w1)" using find_recordD(1) [OF w1(4)] by (simp add: x_def)
  have lost: "ir_RequestFingerprint r' \<noteq> op2" if "r' \<in> set (rows w1)" "ir_ID r' = ir_ID r" for r'
    using row_unique [OF w1(3) that(1) row] that(2) x assms(10) by auto
  have renew: "\<exists>w'. smooth i (renewTick s \<lparr>lk_recordID = ir_ID r, lk_operationID = op2\<rparr>) (later t' w1) = Some (w', False) \<and>
      iw_db w' = iw_db w1" for t'
  proof -
    have no: "\<not> (\<exists>r' \<in> set (rows w1). ir_ID r' = ir_ID r \<and> ir_Status r' = IdempotencyStatusProcessing \<and>
        ir_RequestFingerprint r' = op2)"
      using lost by blast
    have "map (change_row (ir_ID r) (extend_change t' op2 l e)) (rows w1) = rows w1" for l e
      using lost by (intro map_idI) (auto simp: change_row_def extend_change_def)
    then have "iw_db (after_extend (ir_ID r) op2 l e i (later t' w1)) = iw_db w1" for l e
      using no by (auto simp: do_extend_def table_statements history_defs)
    with no show ?thesis by (simp add: renewTick_def smooth_bind smooth_clock smooth_extend)
  qed
  have "table_ok (later t w1)" using w1(3) by (simp add: later_def table_ok_def)
  moreover have "find_lock J (later t w1) = Some x" using w1(4) by (simp add: x_def)
  moreover have "free_at (iw_now (later t w1)) x" using x(3) assms(11) by (simp add: free_at_def)
  ultimately obtain w3 where
    "smooth j (Acquire J (Some s) op3) (later t w1) = Some (w3, Inr \<lparr>lk_recordID = ir_ID r, lk_operationID = op3\<rparr>)"
    using acquire_free [of "later t w1" op3 J x j s] assms(3,7,9) x(1) by auto
  with w1(1) renew show ?thesis by fastforce
qed

text \<open>
  C25: The operation that created the row of the lock keeps it: as long as it renews, each renewal within
  the lease extends the lock by a full lease, and every other operation that comes before the lease
  has run out is told which operation holds the lock.
\<close>
theorem first_holder_keeps_lock:
  assumes "idem_inv J w" and "find_lock J w = None" and "0 < next_id w"
    and "op1 \<noteq> []" and "op2 \<noteq> []" and "lock_fits J op1" and "lock_fits J op2"
    and "iw_now w \<le> t" and "t \<le> t'" and "t' < t + sl_lease s"
  shows "\<exists>w1 lock w2 w3. smooth i (Acquire J (Some s) op1) w = Some (w1, Inr lock) \<and>
    smooth i (renewTick s lock) (later t w1) = Some (w2, True) \<and>
    smooth j (Acquire J (Some s) op2) (later t' w2)
      = Some (w3, Inl (AppError (busyError op1 (Some (t + sl_lease s)) t')))"
proof -
  define x where "x = (processing_record systemOperationLockScope (lock_hash J) op1 (iw_now w + sl_lease s)
    (iw_now w + sl_ttl s))\<lparr>ir_ID := next_id w, ir_CreatedAt := iw_now w, ir_UpdatedAt := iw_now w\<rparr>"
  define w1 where "w1 = settle (begin_claim (next_id w) i (min (iw_now w + sl_lease s) (iw_now w + sl_ttl s))
    (w\<lparr>iw_db := \<lparr>db_rows = rows w @ [x], db_next = next_id w + 1\<rparr>\<rparr>))"
  have w1: "rows w1 = rows w @ [x]" by (simp add: w1_def history_defs)
  have x: "ir_ID x = next_id w" "ir_Status x = IdempotencyStatusProcessing" "ir_RequestFingerprint x = op1"
      "ir_Scope x = systemOperationLockScope" "ir_IdempotencyKeyHash x = lock_hash J"
    by (simp_all add: x_def processing_record_def)
  let ?lock = "\<lparr>lk_recordID = next_id w, lk_operationID = op1\<rparr>"
  have acq: "smooth i (Acquire J (Some s) op1) w = Some (w1, Inr ?lock)"
    using assms(2-4)
    by (simp add: Acquire_def acquireRecord_def Let_def smooth_bind smooth_clock smooth_create [OF assms(6)] w1_def x_def)
  have old: "ir_ID r \<noteq> next_id w" if "r \<in> set (rows w)" for r
    using idem_inv_parts(1) [OF assms(1)] that by (auto simp: table_ok_def)
  define w2 where "w2 = settle (after_extend (next_id w) op1 (t + sl_lease s) (t + sl_ttl s) i (later t w1))"
  have renew: "smooth i (renewTick s ?lock) (later t w1) = Some (w2, True)"
    by (simp add: renewTick_def smooth_bind smooth_clock smooth_extend w1 x w2_def)
  define x2 where "x2 = extend_change t op1 (t + sl_lease s) (t + sl_ttl s) x"
  have x2: "ir_Status x2 = IdempotencyStatusProcessing" "ir_LockedUntil x2 = Some (t + sl_lease s)"
      "ir_RequestFingerprint x2 = op1"
    using x by (simp_all add: x2_def extend_change_def)
  have "rows w2 = map (change_row (next_id w) (extend_change t op1 (t + sl_lease s) (t + sl_ttl s))) (rows w @ [x])"
    using extended.changed [of "next_id w" op1 "t + sl_lease s" "t + sl_ttl s" i "later t w1"] by (simp add: w2_def w1)
  then have "find_lock J w2 = Some x2"
    using assms(2) x by (simp add: find_record_def find_in_changed find_append_None change_row_def x2_def extend_change_def)
  then have "\<exists>w3. smooth j (Acquire J (Some s) op2) (later t' w2)
      = Some (w3, Inl (AppError (busyError op1 (Some (t + sl_lease s)) t')))"
    using assms(5,10) x2
    by (simp add: Acquire_def acquireRecord_def takeOverLock_def Let_def smooth_bind smooth_clock
        smooth_create [OF assms(7)] smooth_Get)
  with acq renew show ?thesis by blast
qed

section \<open>Two retries of an expired request\<close>

lemma run_alone_atom:
  "f i w = (w1, x) # r \<Longrightarrow> run_alone i (0 # cs) (bind (atom f) k) w = run_alone i cs (k x) w1"
  by (simp add: atom_def)

lemma run_alone_none: "run_alone i [] p w = (w, p)"
  by (cases p) simp_all

lemma run_alone_clock: "run_alone i (0 # cs) (bind clock k) w = run_alone i cs (k (iw_now w)) w"
  unfolding clock_def by (rule run_alone_atom) simp

lemma run_alone_Get:
  "run_alone i (0 # cs) (bind (GetByScopeAndKeyHash scope keyHash) k) w =
     run_alone i cs (k (Answer (find_record scope keyHash (iw_db w)))) w"
  unfolding GetByScopeAndKeyHash_def by (rule run_alone_atom) simp

lemma run_alone_create:
  "do_create r d i w = Some (w1, x) \<Longrightarrow>
     run_alone i (0 # cs) (bind (CreateProcessing r d) k) w = run_alone i cs (k (Answer x)) (settle w1)"
  unfolding CreateProcessing_def statement_def by (rule run_alone_atom) simp

lemma smooth_runClaimed:
  assumes "smooth i p (iw_app w) = Some (x, Inr data)" and "marshalStoredResponse J cfg data = Some body"
  shows "\<exists>w1. smooth i (runClaimed J cfg who e rid (on_app p)) w = Some (w1, Inr \<lparr>er_Data = Fresh data, er_Replayed = False\<rparr>) \<and>
    iw_app w1 = x \<and> iw_now w1 = iw_now w \<and>
    rows w1 = map (change_row rid (succeed_change (iw_now w) 200 body e)) (rows w)"
  using assms
  by (simp add: runClaimed_def smooth_bind smooth_app MarkSucceeded_def smooth_statement do_succeed_def history_defs
      mark_succeeded_eq split: prod.split)

text \<open>The rest of a call that has found the expired record \<open>r\<close>.\<close>

definition reclaim_rest ::
    "('p, 'v) idem_codec \<Rightarrow> IdempotencyCoordinator \<Rightarrow> 'p IdempotencyExecuteOptions \<Rightarrow> string \<Rightarrow> string \<Rightarrow> int \<Rightarrow>
       IdempotencyRecord \<Rightarrow> ('x, 'p, 'v, go_error + 'v) icall \<Rightarrow> ('x, 'p, 'v, go_error + 'v IdempotencyExecuteResult) icall" where
  "reclaim_rest J c opts keyHash fp now r execute =
     (let l = now + cfg_ProcessingTimeout (co_cfg c); e = now + request_ttl c opts
      in bind (TryReclaim (ir_ID r) (ir_Status r) now l e) (\<lambda>t.
         bind (case t of
           DbError \<Rightarrow> Ret (Rejected unavailable)
         | Answer True \<Rightarrow> Ret (Owner (ir_ID r))
         | Answer False \<Rightarrow>
             bind (GetByScopeAndKeyHash (op_Scope opts) keyHash) (\<lambda>lt. case lt of
               DbError \<Rightarrow> Ret (Rejected unavailable)
             | Answer None \<Rightarrow> Ret (Rejected unavailable)
             | Answer (Some latest) \<Rightarrow>
                 if ir_RequestFingerprint latest \<noteq> fp then Ret (Rejected (AppError ErrIdempotencyKeyConflict))
                 else dispatchExisting J latest now l e)) (\<lambda>a.
         case a of
           Rejected err \<Rightarrow> Ret (Inl err)
         | Replay data \<Rightarrow> Ret (Inr \<lparr>er_Data = Stored data, er_Replayed = True\<rparr>)
         | Owner rid \<Rightarrow>
             if rid = 0 then Ret (Inl unavailable)
             else runClaimed J (co_cfg c) (op_Scope opts, keyHash, fp) e rid execute)))"

lemma expired_start:
  assumes req: "keyed_request J c opts keyHash fp" and fits: "fits_columns (op_Scope opts) keyHash fp"
    and found: "find_record (op_Scope opts) keyHash (iw_db w) = Some r" and fp: "ir_RequestFingerprint r = fp"
    and old: "ir_ExpiresAt r \<le> iw_now w"
  shows "run_alone i [0, 0, 0] (Execute J c opts (Some execute)) w =
      (settle w, reclaim_rest J c opts keyHash fp (iw_now w) r execute)"
    and "smooth i (Execute J c opts (Some execute)) w =
      smooth i (reclaim_rest J c opts keyHash fp (iw_now w) r execute) (settle w)"
proof -
  have create: "do_create (processing_record (op_Scope opts) keyHash fp l e) d i w = Some (w, None)" for l e d
    using smooth_create [OF fits, of i l e d w] found
    by (auto simp: do_create_def insert_processing_def processing_record_def CreateProcessing_def smooth_statement
        split: if_splits)
  have late: "\<not> ir_ExpiresAt r > iw_now w" using old by simp
  show "run_alone i [0, 0, 0] (Execute J c opts (Some execute)) w =
      (settle w, reclaim_rest J c opts keyHash fp (iw_now w) r execute)"
    unfolding Execute_keyed [OF req] claimKey_def reuseExisting_def bind_assoc
    by (simp add: run_alone_clock run_alone_create create run_alone_Get run_alone_none bind_assoc found fp late reclaim_rest_def Let_def)
  show "smooth i (Execute J c opts (Some execute)) w =
      smooth i (reclaim_rest J c opts keyHash fp (iw_now w) r execute) (settle w)"
    unfolding Execute_keyed [OF req] claimKey_def reuseExisting_def
    by (simp add: smooth_bind smooth_clock smooth_create [OF fits] found smooth_Get fp late reclaim_rest_def Let_def
        split: option.split)
qed

lemma reclaim_run:
  assumes found: "find_record (op_Scope opts) keyHash (iw_db w) = Some r'" and r: "ir_ID r' = ir_ID r"
      "ir_Status r' = ir_Status r" "free_at now r'"
    and id: "ir_ID r \<noteq> 0" and work: "smooth i p (iw_app w) = Some (x, Inr data)"
    and body: "marshalStoredResponse J (co_cfg c) data = Some body"
  shows "\<exists>w1 r1. smooth i (reclaim_rest J c opts keyHash fp now r (on_app p)) w
      = Some (w1, Inr \<lparr>er_Data = Fresh data, er_Replayed = False\<rparr>) \<and> iw_app w1 = x \<and> iw_now w1 = iw_now w \<and>
    find_record (op_Scope opts) keyHash (iw_db w1) = Some r1 \<and> ir_ID r1 = ir_ID r \<and>
    ir_RequestFingerprint r1 = ir_RequestFingerprint r' \<and> ir_Status r1 = IdempotencyStatusSucceeded \<and>
    ir_LockedUntil r1 = None \<and> ir_ExpiresAt r1 = now + request_ttl c opts \<and> ir_ResponseBody r1 = Some body"
proof -
  define l e where "l = now + cfg_ProcessingTimeout (co_cfg c)" and "e = now + request_ttl c opts"
  define w' where "w' = settle (after_reclaim (ir_ID r) (ir_Status r) now l e i w)"
  have taken: "\<exists>q \<in> set (rows w). ir_ID q = ir_ID r \<and> ir_Status q = ir_Status r \<and> free_at now q"
    using find_recordD(1) [OF found] r by blast
  then have w': "iw_app w' = iw_app w" "iw_now w' = iw_now w"
      "rows w' = map (change_row (ir_ID r) (reclaim_change (iw_now w) (ir_Status r) now l e)) (rows w)"
    by (simp_all add: w'_def do_reclaim_def table_statements history_defs)
  from smooth_runClaimed [of i p w' x data J "co_cfg c" body "(op_Scope opts, keyHash, fp)" e "ir_ID r"] work body
  obtain w1 where w1: "smooth i (runClaimed J (co_cfg c) (op_Scope opts, keyHash, fp) e (ir_ID r) (on_app p)) w' =
      Some (w1, Inr \<lparr>er_Data = Fresh data, er_Replayed = False\<rparr>)" "iw_app w1 = x" "iw_now w1 = iw_now w"
      "rows w1 = map (change_row (ir_ID r) (succeed_change (iw_now w) 200 body e)) (rows w')"
    unfolding w' by blast
  have run: "smooth i (reclaim_rest J c opts keyHash fp now r (on_app p)) w
      = Some (w1, Inr \<lparr>er_Data = Fresh data, er_Replayed = False\<rparr>)"
    using taken id w1(1) by (simp add: reclaim_rest_def Let_def smooth_bind smooth_reclaim l_def e_def w'_def)
  have "find_record (op_Scope opts) keyHash (iw_db w1) =
      Some (succeed_change (iw_now w) 200 body e (reclaim_change (iw_now w) (ir_Status r) now l e r'))"
    using found r by (simp add: find_record_def w1(4) w'(3) find_in_changed change_row_def change_row_keys reclaim_change_def del: list.map_comp map_map)
  with run w1(2,3) r show ?thesis
    by (intro exI conjI) (assumption | simp add: succeed_change_def reclaim_change_def e_def)+
qed

text \<open>
  C28: Two retries of a request whose record has expired but was not yet cleaned up: the second has read the
  record when the first takes it over, runs and stores its success; the second then takes over the
  live record of that success and carries the request out once more, although nothing expired in
  between and no claim was late.
\<close>
theorem expired_request_runs_twice:
  assumes "keyed_request J c opts keyHash fp" and "fits_columns (op_Scope opts) keyHash fp"
    and "find_record (op_Scope opts) keyHash (iw_db w) = Some r" and "ir_RequestFingerprint r = fp"
    and "ir_Status r = IdempotencyStatusSucceeded" and "ir_LockedUntil r = None" and "ir_ID r \<noteq> 0"
    and "ir_ExpiresAt r \<le> iw_now w" and "0 < request_ttl c opts"
    and "smooth k p (iw_app (w :: ('x, 'p, 'v) idem_world)) = Some (x, Inr data)" and "smooth j p x = Some (y, Inr data')"
    and "marshalStoredResponse J (co_cfg c) data = Some body" and "marshalStoredResponse J (co_cfg c) data' = Some body'"
  shows "\<exists>(w1 :: ('x, 'p, 'v) idem_world) rest w2 w3 r2.
    run_alone j [0, 0, 0] (Execute J c opts (Some (on_app p))) w = (w1, rest) \<and> iw_app w1 = iw_app w \<and>
    smooth k (Execute J c opts (Some (on_app p))) w1 = Some (w2, Inr \<lparr>er_Data = Fresh data, er_Replayed = False\<rparr>) \<and>
    iw_app w2 = x \<and> find_record (op_Scope opts) keyHash (iw_db w2) = Some r2 \<and>
    ir_Status r2 = IdempotencyStatusSucceeded \<and> iw_now w2 < ir_ExpiresAt r2 \<and>
    smooth j rest w2 = Some (w3, Inr \<lparr>er_Data = Fresh data', er_Replayed = False\<rparr>) \<and> iw_app w3 = y \<and> iw_now w3 = iw_now w"
proof -
  note start = expired_start [OF assms(1,2) _ assms(4)]
  have free: "free_at (iw_now w) r" using assms(6) by (simp add: free_at_def)
  have w1: "run_alone j [0, 0, 0] (Execute J c opts (Some (on_app p))) w =
      (settle w, reclaim_rest J c opts keyHash fp (iw_now w) r (on_app p))"
    by (rule start(1) [OF assms(3,8)])
  have first: "find_record (op_Scope opts) keyHash (iw_db (settle (settle w))) = Some r" using assms(3) by simp
  from reclaim_run [OF first refl refl free assms(7) _ assms(12), where i = k and p = p and x = x and fp = fp] assms(10) obtain w2 r2 where
    w2: "smooth k (reclaim_rest J c opts keyHash fp (iw_now w) r (on_app p)) (settle (settle w))
        = Some (w2, Inr \<lparr>er_Data = Fresh data, er_Replayed = False\<rparr>)" "iw_app w2 = x" "iw_now w2 = iw_now w"
      "find_record (op_Scope opts) keyHash (iw_db w2) = Some r2" "ir_ID r2 = ir_ID r"
      "ir_Status r2 = IdempotencyStatusSucceeded" "ir_LockedUntil r2 = None" "ir_ExpiresAt r2 = iw_now w + request_ttl c opts"
    by auto
  have run: "smooth k (Execute J c opts (Some (on_app p))) (settle w) = Some (w2, Inr \<lparr>er_Data = Fresh data, er_Replayed = False\<rparr>)"
    using start(2) [of "settle w" k "on_app p"] assms(3,8) w2(1) by simp
  have free2: "free_at (iw_now w) r2" using w2(7) by (simp add: free_at_def)
  have "ir_Status r2 = ir_Status r" using w2(6) assms(5) by simp
  from reclaim_run [OF w2(4,5) this free2 assms(7) _ assms(13), where i = j and p = p and x = y and fp = fp] assms(11) w2(2) obtain w3 where
    w3: "smooth j (reclaim_rest J c opts keyHash fp (iw_now w) r (on_app p)) w2
        = Some (w3, Inr \<lparr>er_Data = Fresh data', er_Replayed = False\<rparr>)" "iw_app w3 = y" "iw_now w3 = iw_now w"
    using w2(3) by auto
  show ?thesis
  proof (intro exI conjI)
    show "run_alone j [0, 0, 0] (Execute J c opts (Some (on_app p))) w =
        (settle w, reclaim_rest J c opts keyHash fp (iw_now w) r (on_app p))" by (rule w1)
    show "smooth k (Execute J c opts (Some (on_app p))) (settle w) = Some (w2, Inr \<lparr>er_Data = Fresh data, er_Replayed = False\<rparr>)"
      by (rule run)
    show "iw_now w2 < ir_ExpiresAt r2" using w2(3,8) assms(9) by simp
    show "smooth j (reclaim_rest J c opts keyHash fp (iw_now w) r (on_app p)) w2
        = Some (w3, Inr \<lparr>er_Data = Fresh data', er_Replayed = False\<rparr>)" by (rule w3(1))
  qed (use w2 w3 in simp_all)
qed

section \<open>A sample\<close>

text \<open>An application that counts, and a request that answers with a redeem code.\<close>

definition sample_value :: any_val where
  "sample_value = VMap [(''code'', VString ''r1'')]"

definition sample_redacted :: any_val where
  "sample_redacted = VMap [(''code'', VString ''***'')]"

definition sample_raw :: string where
  "sample_raw = ''{\"code\":\"r1\"}''"

definition sample_enc :: string where
  "sample_enc = ''{\"code\":\"***\"}''"

definition example_codec :: "(string, any_val) idem_codec" where
  "example_codec = \<lparr>json_payload = Some, json_data = (\<lambda>v. if v = sample_value then Some sample_raw else None),
     json_any = (\<lambda>v. if v = sample_redacted then Some sample_enc else None),
     json_parse = (\<lambda>s. if s = sample_raw then Some sample_value else if s = sample_enc then Some sample_redacted else None),
     json_Valid = (\<lambda>s. s = sample_raw \<or> s = sample_enc), redact_patterns = id, sha256_hex = id\<rparr>"

definition sample_coordinator :: "int \<Rightarrow> IdempotencyCoordinator" where
  "sample_coordinator n =
     \<lparr>co_repo = True, co_cfg = DefaultIdempotencyConfig\<lparr>cfg_ObserveOnly := False, cfg_MaxStoredResponseLen := n\<rparr>\<rparr>"

definition sample_opts :: "string IdempotencyExecuteOptions" where
  "sample_opts = \<lparr>op_Scope = ''redeem'', op_ActorScope = ''admin:1'', op_Method = ''POST'', op_Route = ''/codes'',
     op_IdempotencyKey = ''k'', op_Payload = ''{}'', op_TTL = 0, op_RequireKey = True\<rparr>"

definition sample_fp :: string where
  "sample_fp = ''POST'' @ [CHR 10] @ ''/codes'' @ [CHR 10] @ ''admin:1'' @ [CHR 10] @ ''{}''"

definition count_one :: "(int, go_error + any_val) prog" where
  "count_one = atom (\<lambda>i n. [(n + 1, Inr sample_value)])"

definition sample_idem_world :: "(int, string, any_val) idem_world" where
  "sample_idem_world = \<lparr>iw_db = \<lparr>db_rows = [], db_next = 1\<rparr>, iw_now = 0, iw_app = 0, iw_sent = [],
     iw_claims = (\<lambda>_ _. None), iw_late = False, iw_aged = {}, iw_log = []\<rparr>"

lemma sample_fresh: "idem_fresh sample_idem_world"
  by (simp add: idem_fresh_def sample_idem_world_def)

lemma sample_key: "NormalizeIdempotencyKey ''k'' = Inr ''k''"
  by code_simp

lemma sample_fingerprint: "BuildIdempotencyFingerprint example_codec ''POST'' ''/codes'' ''admin:1'' ''{}'' = Inr sample_fp"
  by code_simp

lemma sample_request: "keyed_request example_codec (sample_coordinator n) sample_opts ''k'' sample_fp"
  by (simp add: keyed_request_def sample_coordinator_def sample_opts_def sample_key sample_fingerprint
      HashIdempotencyKey_def) (simp add: example_codec_def)

lemma sample_fits: "fits_columns (op_Scope sample_opts) ''k'' sample_fp"
  by code_simp

lemma sample_redacts: "redactValueWithDepth sample_value 0 = sample_redacted"
  by code_simp

lemma sample_json: "json_response example_codec sample_value sample_raw sample_value sample_enc"
proof -
  have "go_TrimSpace sample_raw = sample_raw" "sample_raw \<noteq> []" "go_TrimSpace sample_enc \<noteq> []" "sample_enc \<noteq> sample_raw"
    by code_simp+
  then show ?thesis
    by (simp add: json_response_def sample_redacts) (simp add: example_codec_def)
qed

lemma sample_not_json: "json_parse example_codec (s @ '')'') = None"
proof -
  have "last sample_raw \<noteq> CHR '')''" "last sample_enc \<noteq> CHR '')''" by code_simp+
  then have "s @ '')'' \<noteq> sample_raw" "s @ '')'' \<noteq> sample_enc" by (metis last_snoc)+
  then show ?thesis by (simp add: example_codec_def)
qed

lemma sample_start: "find_record scope keyHash (iw_db sample_idem_world) = None" "0 < next_id sample_idem_world"
  "iw_now sample_idem_world = 0" "iw_app sample_idem_world = 0"
  by (simp_all add: sample_idem_world_def find_record_def)

lemma sample_work: "smooth i count_one n = Some (n + 1, Inr sample_value)"
  by (simp add: count_one_def smooth_atom)

lemma sample_ttl: "request_ttl (sample_coordinator n) sample_opts = 24 * 3600 * Second"
  by (simp add: request_ttl_def sample_opts_def sample_coordinator_def DefaultIdempotencyConfig_def)

lemma sample_limit: "cfg_MaxStoredResponseLen (co_cfg (sample_coordinator n)) = n" "length sample_enc = 14"
  by (simp_all add: sample_coordinator_def sample_enc_def)

theorem retry_replays_witness:
  "\<exists>w1. smooth 0 (Execute example_codec (sample_coordinator 100) sample_opts (Some (on_app count_one))) sample_idem_world
      = Some (w1, Inr \<lparr>er_Data = Fresh sample_value, er_Replayed = False\<rparr>) \<and> iw_app w1 = 1 \<and>
    (\<forall>j execute. \<exists>w2. smooth j (Execute example_codec (sample_coordinator 100) sample_opts (Some execute)) (later 7 w1) =
        Some (w2, Inr \<lparr>er_Data = Stored sample_redacted, er_Replayed = True\<rparr>) \<and> iw_app w2 = 1)"
  using retry_replays [OF sample_request [of 100] sample_fits sample_start(1,2) _ sample_json, where x = 1 and p = count_one
      and t = 7 and i = 0]
  by (simp add: sample_work sample_start sample_ttl sample_limit sample_redacts)

theorem long_response_not_replayed_witness:
  "\<exists>w1. smooth 0 (Execute example_codec (sample_coordinator 10) sample_opts (Some (on_app count_one))) sample_idem_world
      = Some (w1, Inr \<lparr>er_Data = Fresh sample_value, er_Replayed = False\<rparr>) \<and> iw_app w1 = 1 \<and>
    (\<forall>j execute. \<exists>w2. smooth j (Execute example_codec (sample_coordinator 10) sample_opts (Some execute)) (later 7 w1) =
        Some (w2, Inl unavailable) \<and> iw_app w2 = 1)"
  using long_response_not_replayed [OF sample_request [of 10] sample_fits sample_start(1,2) _ sample_json _ _ sample_not_json,
      where x = 1 and p = count_one and t = 7 and i = 0]
  by (simp add: sample_work sample_start sample_ttl sample_limit)

text \<open>A table with one record of the sample request.\<close>

definition sample_row :: "string \<Rightarrow> int option \<Rightarrow> int \<Rightarrow> IdempotencyRecord" where
  "sample_row st l e = (processing_record ''redeem'' ''k'' sample_fp 0 e)\<lparr>ir_ID := 1, ir_Status := st, ir_LockedUntil := l\<rparr>"

definition world_with :: "IdempotencyRecord \<Rightarrow> int \<Rightarrow> (int, string, any_val) idem_world" where
  "world_with r t = sample_idem_world\<lparr>iw_db := \<lparr>db_rows = [r], db_next = 2\<rparr>, iw_now := t\<rparr>"

lemma sample_row_found:
  "find_record (op_Scope sample_opts) ''k'' (iw_db (world_with (sample_row st l e) t)) = Some (sample_row st l e)"
  by (simp add: find_record_def world_with_def sample_row_def processing_record_def sample_opts_def)

theorem unfinished_request_blocks_witness:
  "\<exists>w' res. returns 0 (Execute example_codec (sample_coordinator 100) sample_opts (Some (on_app count_one)))
      (world_with (sample_row IdempotencyStatusProcessing (Some 3) 9) 5) w' res \<and>
    (\<exists>e. res = Inl e) \<and> iw_app w' = iw_app (world_with (sample_row IdempotencyStatusProcessing (Some 3) 9) 5) \<and>
    iw_db w' = iw_db (world_with (sample_row IdempotencyStatusProcessing (Some 3) 9) 5)"
proof -
  let ?w = "world_with (sample_row IdempotencyStatusProcessing (Some 3) 9) 5"
  have facts: "ir_Status (sample_row IdempotencyStatusProcessing (Some 3) 9) = IdempotencyStatusProcessing"
      "ir_RequestFingerprint (sample_row IdempotencyStatusProcessing (Some 3) 9) = sample_fp"
      "ir_ExpiresAt (sample_row IdempotencyStatusProcessing (Some 3) 9) = 9" "iw_now ?w = 5"
    by (simp_all add: sample_row_def processing_record_def world_with_def)
  have "\<exists>w' res. smooth 0 (Execute example_codec (sample_coordinator 100) sample_opts (Some (on_app count_one))) ?w = Some (w', res)"
    unfolding Execute_keyed [OF sample_request] claimKey_def reuseExisting_def
    by (simp add: smooth_bind smooth_clock smooth_create [OF sample_fits] sample_row_found smooth_Get facts dispatchExisting_def)
  then obtain w' res where
    "smooth 0 (Execute example_codec (sample_coordinator 100) sample_opts (Some (on_app count_one))) ?w = Some (w', res)"
    by blast
  then have run: "returns 0 (Execute example_codec (sample_coordinator 100) sample_opts (Some (on_app count_one))) ?w w' res"
    by (rule returns_smooth)
  have "iw_now ?w < ir_ExpiresAt (sample_row IdempotencyStatusProcessing (Some 3) 9)" by (simp add: facts)
  from unfinished_request_blocks [OF sample_request sample_fits sample_row_found facts(1,2) this run] run
  show ?thesis by blast
qed

theorem expired_request_runs_twice_witness:
  "\<exists>(w1 :: (int, string, any_val) idem_world) rest w2 w3 r2.
    run_alone 1 [0, 0, 0] (Execute example_codec (sample_coordinator 100) sample_opts (Some (on_app count_one)))
        (world_with (sample_row IdempotencyStatusSucceeded None 0) 0) = (w1, rest) \<and> iw_app w1 = 0 \<and>
    smooth 0 (Execute example_codec (sample_coordinator 100) sample_opts (Some (on_app count_one))) w1
        = Some (w2, Inr \<lparr>er_Data = Fresh sample_value, er_Replayed = False\<rparr>) \<and>
    iw_app w2 = 1 \<and> find_record (op_Scope sample_opts) ''k'' (iw_db w2) = Some r2 \<and>
    ir_Status r2 = IdempotencyStatusSucceeded \<and> iw_now w2 < ir_ExpiresAt r2 \<and>
    smooth 1 rest w2 = Some (w3, Inr \<lparr>er_Data = Fresh sample_value, er_Replayed = False\<rparr>) \<and> iw_app w3 = 2 \<and> iw_now w3 = 0"
proof -
  let ?r = "sample_row IdempotencyStatusSucceeded None 0" and ?w = "world_with (sample_row IdempotencyStatusSucceeded None 0) 0"
  have r: "ir_RequestFingerprint ?r = sample_fp" "ir_Status ?r = IdempotencyStatusSucceeded" "ir_LockedUntil ?r = None"
      "ir_ID ?r \<noteq> 0" "ir_ExpiresAt ?r \<le> iw_now ?w" "iw_app ?w = 0" "iw_now ?w = 0"
    by (simp_all add: sample_row_def processing_record_def world_with_def sample_idem_world_def)
  have ttl: "0 < request_ttl (sample_coordinator 100) sample_opts" by (simp add: sample_ttl)
  have body: "marshalStoredResponse example_codec (co_cfg (sample_coordinator 100)) sample_value = Some sample_enc"
    by (simp add: marshal_response [OF sample_json] sample_limit)
  have work: "smooth 0 count_one (iw_app ?w) = Some (1, Inr sample_value)" "smooth 1 count_one 1 = Some (2, Inr sample_value)"
    by (simp_all add: sample_work r)
  from expired_request_runs_twice [OF sample_request sample_fits sample_row_found r(1-5) ttl work body body]
  show ?thesis unfolding r(6,7) .
qed

definition lock_key :: string where
  "lock_key = ''global-system-operation-lock''"

definition sample_lock_row :: IdempotencyRecord where
  "sample_lock_row = (processing_record systemOperationLockScope lock_key ''op1'' 0 (3600 * Second))
     \<lparr>ir_ID := 1, ir_Status := IdempotencyStatusSucceeded, ir_LockedUntil := None, ir_ResponseBody := Some ''done''\<rparr>"

definition sample_lock_world :: "(int, string, any_val) idem_world" where
  "sample_lock_world = sample_idem_world\<lparr>iw_db := \<lparr>db_rows = [sample_lock_row], db_next = 2\<rparr>,
     iw_log := [Claimed 1, StoredSuccess \<lparr>su_row = 1, su_scope = systemOperationLockScope, su_hash = lock_key,
                                         su_fingerprint = ''op1'', su_body = ''done''\<rparr>]\<rparr>"

abbreviation busy_service :: SystemOperationLockService where
  "busy_service \<equiv> NewSystemOperationLockService DefaultIdempotencyConfig"

lemma sample_lease: "sl_lease busy_service = 30 * Second"
  by (simp add: NewSystemOperationLockService_def DefaultIdempotencyConfig_def Let_def)

lemma sample_lock_hash: "lock_hash example_codec = lock_key"
  by code_simp

lemma sample_lock_inv: "idem_inv example_codec sample_lock_world"
  by (simp add: idem_inv_def sample_lock_world_def sample_idem_world_def table_ok_def stored_ok_def sent_ok_def claims_ok_def
      live_iff lives_ok_def expired_rows_def sample_lock_row_def processing_record_def stored_for_def)

lemma sample_lock_found: "find_lock example_codec sample_lock_world = Some sample_lock_row"
  by (simp add: find_record_def sample_lock_hash sample_lock_world_def sample_lock_row_def processing_record_def)

lemma sample_lock_fits: "lock_fits example_codec ''op1'' \<and> lock_fits example_codec ''op2'' \<and> lock_fits example_codec ''op3''"
  by code_simp

theorem second_holder_loses_lock_witness:
  "\<exists>w1 lock2. smooth 0 (Acquire example_codec (Some busy_service) ''op2'') sample_lock_world = Some (w1, Inr lock2) \<and>
    (\<forall>t'. \<exists>w'. smooth 0 (renewTick busy_service lock2) (later t' w1) = Some (w', False) \<and> iw_db w' = iw_db w1) \<and>
    (\<exists>w3 lock3. smooth 1 (Acquire example_codec (Some busy_service) ''op3'') (later (30 * Second) w1) = Some (w3, Inr lock3) \<and>
       lk_recordID lock3 = lk_recordID lock2)"
proof -
  have r: "ir_ID sample_lock_row \<noteq> 0" "ir_Status sample_lock_row = IdempotencyStatusSucceeded"
      "ir_LockedUntil sample_lock_row = None" "''op2'' \<noteq> ir_RequestFingerprint sample_lock_row"
      "iw_now sample_lock_world + sl_lease busy_service \<le> 30 * Second"
    by (simp_all add: sample_lock_row_def processing_record_def sample_lock_world_def sample_idem_world_def sample_lease)
  show ?thesis
    by (rule second_holder_loses_lock [OF sample_lock_inv sample_lock_found r(1-3) _ _ _ _ r(4,5)])
       (simp_all add: sample_lock_fits)
qed

theorem first_holder_keeps_lock_witness:
  "\<exists>w1 lock w2 w3. smooth 0 (Acquire example_codec (Some busy_service) ''op1'') sample_idem_world = Some (w1, Inr lock) \<and>
    smooth 0 (renewTick busy_service lock) (later (20 * Second) w1) = Some (w2, True) \<and>
    smooth 1 (Acquire example_codec (Some busy_service) ''op2'') (later (40 * Second) w2)
      = Some (w3, Inl (AppError (busyError ''op1'' (Some (20 * Second + sl_lease busy_service)) (40 * Second))))"
  by (rule first_holder_keeps_lock [OF fresh_inv [OF sample_fresh] sample_start(1,2)])
     (simp_all add: sample_lock_fits sample_start sample_lease)

section \<open>Safety of all requests together\<close>


definition is_success :: "idem_event \<Rightarrow> bool" where
  "is_success e \<longleftrightarrow> (case e of StoredSuccess s \<Rightarrow> True | _ \<Rightarrow> False)"

lemma life_successes:
  "run_check life_step s es = Some s' \<Longrightarrow> s \<noteq> IdempotencyStatusSucceeded \<Longrightarrow>
     length (filter is_success es) = (if s' = IdempotencyStatusSucceeded then 1 else 0)"
proof (induction es arbitrary: s)
  case (Cons e es)
  then obtain s1 where s1: "life_step s e = Some s1" "run_check life_step s1 es = Some s'"
    by (auto split: option.splits)
  show ?case
  proof (cases "s1 = IdempotencyStatusSucceeded")
    case True
    then have "es = [] \<and> s' = IdempotencyStatusSucceeded" "is_success e"
      using s1 Cons(3) by (cases es; cases e; cases "hd es"; auto simp: is_success_def split: if_splits)+
    then show ?thesis by simp
  next
    case False
    then have "\<not> is_success e" using s1(1) by (cases e) (auto simp: is_success_def split: if_splits)
    with Cons(1) [OF s1(2) False] show ?thesis by simp
  qed
qed (auto simp: is_success_def)

text \<open>
  C5: At most once: as long as a record has not expired and no claim of any call was late, what happened to
  it is a claim, then failures each followed by at most one new claim, and at most one success, which
  is the last event: a request that succeeded is not carried out again.
\<close>
theorem succeeds_at_most_once:
  assumes "idem_fresh w0" and "\<not> cfg_ObserveOnly (co_cfg c)" and "idem_reaches J c svc w0 (w, ps)"
    and "r \<in> set (rows w)" and "\<not> iw_late w" and "ir_ID r \<notin> iw_aged w" and "ir_Scope r \<noteq> systemOperationLockScope"
  shows "run_check life_step [] (history w (ir_ID r)) = Some (ir_Status r) \<and>
    length (filter is_success (history w (ir_ID r))) = (if ir_Status r = IdempotencyStatusSucceeded then 1 else 0)"
proof -
  have "lives_ok w" by (rule idem_inv_parts(6) [OF idem_reached [OF assms(1-3)] assms(5)])
  with assms(4,6,7) have "run_check life_step [] (history w (ir_ID r)) = Some (ir_Status r)" by (simp add: lives_ok_def)
  with life_successes [OF this] show ?thesis by simp
qed

text \<open>
  C8: Every response sent as a replay decodes what a call stored as its success earlier, under the same
  scope and key and for a request with the same fingerprint (method, route, actor and payload).
\<close>
theorem replays_are_genuine:
  assumes "idem_fresh w0" and "\<not> cfg_ObserveOnly (co_cfg c)" and "idem_reaches J c svc w0 (w, ps)"
    and "(opts, SuccessReply hs (Stored data)) \<in> set (iw_sent w)"
  shows "\<exists>s. StoredSuccess s \<in> set (iw_log w) \<and> answers J opts data s"
  using idem_reached [OF assms(1-3)] assms(4) unfolding idem_inv_def sent_ok_def by blast

text \<open>The sample request and its retry on a server.\<close>

definition run_to ::
    "nat \<Rightarrow> (int, string, any_val, unit) icall \<Rightarrow> (int, string, any_val) idem_world \<Rightarrow> (int, string, any_val) idem_world" where
  "run_to i p w = (case smooth i p w of Some (w', u) \<Rightarrow> w' | None \<Rightarrow> w)"

definition user_request :: "(int, string, any_val, unit) icall" where
  "user_request = executeUserIdempotentJSON example_codec (Some (sample_coordinator 100)) sample_opts (on_app count_one)"

definition first_sent :: "(int, string, any_val) idem_world" where
  "first_sent = run_to 0 user_request sample_idem_world"

definition both_sent :: "(int, string, any_val) idem_world" where
  "both_sent = run_to 1 user_request first_sent"

abbreviation sample_reaches where
  "sample_reaches \<equiv> idem_reaches example_codec (sample_coordinator 100) (Some busy_service) sample_idem_world"

lemma run_to_reached:
  assumes "sample_reaches (w, ps)" and "map_option snd (smooth (length ps) user_request w) = Some ()"
  shows "sample_reaches (run_to (length ps) user_request w, ps @ [Ret ()])"
proof -
  from assms(2) obtain w' where w': "smooth (length ps) user_request w = Some (w', ())" by auto
  have "idem_call example_codec (sample_coordinator 100) (Some busy_service) user_request"
    unfolding user_request_def by (rule idem_call.user)
  from reachable_returns [OF assms(1) this returns_smooth [OF w']] show ?thesis by (simp add: run_to_def w')
qed

lemma first_sent_reached: "sample_reaches (first_sent, [Ret ()])"
proof -
  have "map_option snd (smooth 0 user_request sample_idem_world) = Some ()" by code_simp
  with run_to_reached [OF reachable.start] show ?thesis by (simp add: first_sent_def)
qed

lemma both_sent_reached: "sample_reaches (both_sent, [Ret (), Ret ()])"
proof -
  have "map_option snd (smooth 1 user_request first_sent) = Some ()" by code_simp
  with run_to_reached [OF first_sent_reached] show ?thesis by (simp add: both_sent_def)
qed

lemma sample_enforced: "\<not> cfg_ObserveOnly (co_cfg (sample_coordinator 100))"
  by (simp add: sample_coordinator_def)

lemma both_sent_facts:
  "map (\<lambda>r. (ir_ID r, ir_Scope r, ir_Status r)) (rows both_sent) = [(1, ''redeem'', IdempotencyStatusSucceeded)]"
  "iw_app both_sent = 1" "iw_late both_sent = False" "(1 \<in> iw_aged both_sent) = False"
  "map snd (iw_sent both_sent) = [SuccessReply [] (Fresh sample_value),
     SuccessReply [(''X-Idempotency-Replayed'', ''true'')] (Stored sample_redacted)]"
  by code_simp+

theorem succeeds_at_most_once_witness:
  "\<exists>r \<in> set (rows both_sent). ir_Status r = IdempotencyStatusSucceeded \<and>
    run_check life_step [] (history both_sent (ir_ID r)) = Some (ir_Status r) \<and>
    length (filter is_success (history both_sent (ir_ID r))) = (if ir_Status r = IdempotencyStatusSucceeded then 1 else 0)"
proof -
  from both_sent_facts(1) obtain r where r: "r \<in> set (rows both_sent)" "ir_ID r = 1" "ir_Scope r = ''redeem''"
      "ir_Status r = IdempotencyStatusSucceeded" by auto
  have "ir_Scope r \<noteq> systemOperationLockScope" by (simp add: r systemOperationLockScope_def)
  moreover have "ir_ID r \<notin> iw_aged both_sent" "\<not> iw_late both_sent" using both_sent_facts(3,4) r(2) by auto
  ultimately show ?thesis
    using succeeds_at_most_once [OF sample_fresh sample_enforced both_sent_reached r(1)] r(1,4) by blast
qed

theorem replays_are_genuine_witness:
  "\<exists>opts hs data s. (opts, SuccessReply hs (Stored data)) \<in> set (iw_sent both_sent) \<and>
    StoredSuccess s \<in> set (iw_log both_sent) \<and> answers example_codec opts data s"
proof -
  have "SuccessReply [(''X-Idempotency-Replayed'', ''true'')] (Stored sample_redacted) \<in> set (map snd (iw_sent both_sent))"
    unfolding both_sent_facts(5) by simp
  then obtain opts where
    "(opts, SuccessReply [(''X-Idempotency-Replayed'', ''true'')] (Stored sample_redacted)) \<in> set (iw_sent both_sent)" by auto
  with replays_are_genuine [OF sample_fresh sample_enforced both_sent_reached this] show ?thesis by blast
qed

text \<open>The first request, stopped right after it has claimed its key.\<close>

definition claimed_world :: "(int, string, any_val) idem_world" where
  "claimed_world = fst (run_alone 0 [0, 0] user_request sample_idem_world)"

lemma claimed_reached: "\<exists>ps. sample_reaches (claimed_world, ps)"
proof -
  obtain w' p' where run: "run_alone 0 [0, 0] user_request sample_idem_world = (w', p')" by (cases "run_alone 0 [0, 0] user_request sample_idem_world")
  have "idem_call example_codec (sample_coordinator 100) (Some busy_service) user_request"
    unfolding user_request_def by (rule idem_call.user)
  from reachable_call [where H = "idem_call example_codec (sample_coordinator 100) (Some busy_service)", OF this run] show ?thesis by (auto simp: claimed_world_def run)
qed

lemma claimed_facts: "map (\<lambda>r. live claimed_world (ir_ID r) 0) (rows claimed_world) = [True]" "iw_late claimed_world = False"
  by code_simp+


end
